(* ===== verification/Prelude.thy ===== *)
theory Prelude
  imports Main "HOL-Library.Word" "HOL-Library.AList"
begin

text \<open>
  Shared vocabulary of the development: bytes and little-endian integers, the
  memory layout of Rust \<open>repr(C)\<close> structs, machine arithmetic of the Rust
  standard library, and JSON values as \<open>serde_json\<close> builds them.  Every wire
  struct of \<open>bloodhound-common\<close> is read and written through the layout
  functions of this theory, so the round-trip law is proved once, here.
\<close>

unbundle bit_operations_syntax

named_theorems wire_simps \<open>layouts, readers and writers of the wire structs\<close>

type_synonym byte = "8 word"
type_synonym bytes = "byte list"

section \<open>Results\<close>

text \<open>Rust's \<open>Result<T, E>\<close>: the error is the left summand.\<close>

abbreviation Err :: "'e \<Rightarrow> 'e + 'a" where "Err \<equiv> Inl"
abbreviation Ok :: "'a \<Rightarrow> 'e + 'a" where "Ok \<equiv> Inr"

definition is_ok :: "'e + 'a \<Rightarrow> bool" where
  "is_ok r = (case r of Inl _ \<Rightarrow> False | Inr _ \<Rightarrow> True)"

definition and_then :: "'e + 'a \<Rightarrow> ('a \<Rightarrow> 'e + 'b) \<Rightarrow> 'e + 'b" where
  "and_then r f = (case r of Inl e \<Rightarrow> Inl e | Inr x \<Rightarrow> f x)"

text \<open>\<open>Result::ok\<close>.\<close>

definition result_ok :: "'e + 'a \<Rightarrow> 'a option" where
  "result_ok r = (case r of Inl _ \<Rightarrow> None | Inr x \<Rightarrow> Some x)"

lemma result_ok_simps [simp]: "result_ok (Ok x) = Some x" "result_ok (Err e) = None"
  by (simp_all add: result_ok_def)

lemma is_ok_simps [simp]: "is_ok (Ok x)" "\<not> is_ok (Err e)"
  by (simp_all add: is_ok_def)

lemma and_then_simps [simp]: "and_then (Ok x) f = f x" "and_then (Err e) f = Err e"
  by (simp_all add: and_then_def)

lemma and_then_eq_Ok [simp]:
  "and_then r f = Ok y \<longleftrightarrow> (\<exists>x. r = Ok x \<and> f x = Ok y)"
  by (cases r) auto

section \<open>Little-endian integers\<close>

primrec le_bytes :: "nat \<Rightarrow> nat \<Rightarrow> bytes" where
  "le_bytes 0 k = []"
| "le_bytes (Suc n) k = of_nat k # le_bytes n (k div 256)"

primrec le_nat :: "bytes \<Rightarrow> nat" where
  "le_nat [] = 0"
| "le_nat (b # bs) = unat b + 256 * le_nat bs"

definition le_word :: "bytes \<Rightarrow> 'a::len word" where
  "le_word bs = of_nat (le_nat bs)"

lemma length_le_bytes [simp]: "length (le_bytes n k) = n"
  by (induction n arbitrary: k) auto

lemma unat_byte_of_nat: "unat (of_nat k :: byte) = k mod 256"
  by (simp add: unat_of_nat)

lemma unat_byte_less: "unat (b :: byte) < 256"
  using unsigned_less[of b, where 'a = nat] by simp

lemma byte_of_nat_eqI: "k mod 256 = unat b \<Longrightarrow> of_nat k = (b :: byte)"
  by (simp only: word_unat_eq_iff unat_byte_of_nat)

lemma le_nat_le_bytes: "le_nat (le_bytes n k) = k mod 256 ^ n"
proof (induction n arbitrary: k)
  case (Suc n)
  have "k mod 256 + 256 * ((k div 256) mod 256 ^ n) = k mod (256 * 256 ^ n)"
    by (simp add: mod_mult2_eq)
  then show ?case using Suc by (simp add: unat_byte_of_nat)
qed simp

lemma le_nat_bound: "le_nat bs < 256 ^ length bs"
proof (induction bs)
  case (Cons b bs)
  have "unat b < 256" by (rule unat_byte_less)
  with Cons show ?case by simp
qed simp

lemma le_bytes_le_nat: "le_bytes (length bs) (le_nat bs) = bs"
proof (induction bs)
  case (Cons b bs)
  have b: "unat b < 256" by (rule unat_byte_less)
  then have "(unat b + 256 * le_nat bs) div 256 = le_nat bs" by simp
  moreover have "of_nat (unat b + 256 * le_nat bs) = b"
    using b by (intro byte_of_nat_eqI) simp
  ultimately show ?case using Cons by simp
qed simp

lemma le_word_le_bytes:
  fixes w :: "'a::len word"
  assumes "LENGTH('a) = 8 * n"
  shows "le_word (le_bytes n (unat w)) = w"
proof -
  have "unat w < 256 ^ n"
    using unsigned_less[of w, where 'a = nat] assms by (simp add: power_mult)
  then show ?thesis by (simp add: le_word_def le_nat_le_bytes)
qed

lemma unat_le_word:
  assumes "8 * length bs = LENGTH('a)"
  shows "unat (le_word bs :: 'a::len word) = le_nat bs"
proof -
  have "le_nat bs < 2 ^ LENGTH('a)"
    using le_nat_bound[of bs] by (simp add: assms[symmetric] power_mult)
  then show ?thesis by (simp add: le_word_def unat_of_nat)
qed

lemma le_word_u8 [wire_simps]: "le_word [w] = (w :: 8 word)"
  by (simp add: le_word_def)
lemma le_word_u16 [wire_simps]: "le_word (le_bytes 2 (unat (w :: 16 word))) = w"
  by (rule le_word_le_bytes) simp
lemma le_word_u32 [wire_simps]: "le_word (le_bytes 4 (unat (w :: 32 word))) = w"
  by (rule le_word_le_bytes) simp
lemma le_word_u64 [wire_simps]: "le_word (le_bytes 8 (unat (w :: 64 word))) = w"
  by (rule le_word_le_bytes) simp

section \<open>Memory layout of repr(C) structs\<close>

text \<open>
  A field type is its size and its alignment; a layout lists the fields in
  declaration order.  Offsets follow the C rules: each field starts at the next
  multiple of its alignment, and the struct size is rounded up to the largest
  alignment.
\<close>

type_synonym ctype = "nat \<times> nat"
type_synonym layout = "(string \<times> ctype) list"

definition u8 :: ctype where "u8 = (1, 1)"
definition u16 :: ctype where "u16 = (2, 2)"
definition u32 :: ctype where "u32 = (4, 4)"
definition u64 :: ctype where "u64 = (8, 8)"

definition array_of :: "nat \<Rightarrow> ctype \<Rightarrow> ctype" where
  "array_of n t = (n * fst t, snd t)"

lemmas ctype_defs = u8_def u16_def u32_def u64_def array_of_def

definition align_up :: "nat \<Rightarrow> nat \<Rightarrow> nat" where
  "align_up off a = (off + a - 1) div a * a"

fun fields_at :: "nat \<Rightarrow> layout \<Rightarrow> (string \<times> nat \<times> nat) list" where
  "fields_at off [] = []"
| "fields_at off ((f, s, a) # L) =
     (f, align_up off a, s) # fields_at (align_up off a + s) L"

fun struct_end :: "nat \<Rightarrow> layout \<Rightarrow> nat" where
  "struct_end off [] = off"
| "struct_end off ((f, s, a) # L) = struct_end (align_up off a + s) L"

definition struct_align :: "layout \<Rightarrow> nat" where
  "struct_align L = foldr (\<lambda>(f, s, a) m. max a m) L 1"

definition struct_size :: "layout \<Rightarrow> nat" where
  "struct_size L = align_up (struct_end 0 L) (struct_align L)"

definition nested :: "layout \<Rightarrow> ctype" where
  "nested L = (struct_size L, struct_align L)"

definition field :: "layout \<Rightarrow> string \<Rightarrow> bytes \<Rightarrow> bytes" where
  "field L f bs = (case map_of (fields_at 0 L) f of
       None \<Rightarrow> []
     | Some (off, s) \<Rightarrow> take s (drop off bs))"

text \<open>
  The bytes of a struct value in memory: field bytes at their offsets and, in
  the gaps, whatever the memory held before (\<open>pad\<close> gives the byte at each
  offset).
\<close>

fun place_fields :: "(nat \<Rightarrow> byte) \<Rightarrow> nat \<Rightarrow> layout \<Rightarrow> bytes list \<Rightarrow> bytes" where
  "place_fields pad off ((f, s, a) # L) (v # vs) =
     map pad [off ..< align_up off a] @ v @ place_fields pad (align_up off a + s) L vs"
| "place_fields pad off _ _ = []"

definition struct_bytes :: "(nat \<Rightarrow> byte) \<Rightarrow> layout \<Rightarrow> bytes list \<Rightarrow> bytes" where
  "struct_bytes pad L vs =
     place_fields pad 0 L vs @ map pad [struct_end 0 L ..< struct_size L]"

text \<open>A value list fits a layout when every field has its type's size.\<close>

fun fits :: "layout \<Rightarrow> bytes list \<Rightarrow> bool" where
  "fits [] [] = True"
| "fits ((f, s, a) # L) (v # vs) = (length v = s \<and> 0 < a \<and> fits L vs)"
| "fits _ _ = False"

lemma align_up_ge: "0 < a \<Longrightarrow> off \<le> align_up off a"
proof -
  assume a: "0 < a"
  have "(off + a - 1) div a * a + (off + a - 1) mod a = off + a - 1"
    by (rule div_mult_mod_eq)
  moreover have "(off + a - 1) mod a < a" using a by simp
  ultimately show ?thesis using a unfolding align_up_def by linarith
qed

lemma struct_end_ge: "fits L vs \<Longrightarrow> off \<le> struct_end off L"
proof (induction L vs arbitrary: off rule: fits.induct)
  case (2 f s a L v vs)
  then have "align_up off a + s \<le> struct_end (align_up off a + s) L" by simp
  moreover have "off \<le> align_up off a" using 2 by (simp add: align_up_ge)
  ultimately show ?case by simp
qed simp_all

lemma length_place_fields:
  "fits L vs \<Longrightarrow> length (place_fields pad off L vs) = struct_end off L - off"
proof (induction L vs arbitrary: off rule: fits.induct)
  case (2 f s a L v vs)
  have "off \<le> align_up off a" using 2 by (simp add: align_up_ge)
  moreover have "align_up off a + s \<le> struct_end (align_up off a + s) L"
    using 2 struct_end_ge[of L vs] by simp
  ultimately show ?case using 2 by simp
qed simp_all

lemma struct_align_pos: "0 < struct_align L"
proof -
  have "1 \<le> foldr (\<lambda>(f, s, a) m. max a m) L (1 :: nat)"
    by (induction L) auto
  then show ?thesis by (simp add: struct_align_def)
qed

lemma length_struct_bytes [wire_simps]:
  "fits L vs \<Longrightarrow> length (struct_bytes pad L vs) = struct_size L"
  using align_up_ge[OF struct_align_pos, of "struct_end 0 L" L]
  by (simp add: struct_bytes_def length_place_fields struct_size_def)

text \<open>Every field is found at its offset, whatever the padding.\<close>

lemma fields_at_lower:
  "fits L vs \<Longrightarrow> map_of (fields_at off L) f = Some (b, s) \<Longrightarrow> off \<le> b"
proof (induction L vs arbitrary: off rule: fits.induct)
  case (2 g t a L v vs)
  have "off \<le> align_up off a" using 2 by (simp add: align_up_ge)
  with 2 show ?case by (fastforce split: if_splits)
qed simp_all

lemma field_place_fields:
  assumes "fits L vs" "map_of (zip (map fst L) vs) f = Some v"
  shows "\<exists>b s. map_of (fields_at off L) f = Some (b, s) \<and> off \<le> b \<and>
           take s (drop (b - off) (place_fields pad off L vs @ rest)) = v"
  using assms
proof (induction L vs arbitrary: off rule: fits.induct)
  case (2 g t a L w ws)
  let ?o = "align_up off a"
  have ge: "off \<le> ?o" using 2 by (simp add: align_up_ge)
  show ?case
  proof (cases "g = f")
    case True
    with 2 ge show ?thesis by simp
  next
    case False
    have "fits L ws" "map_of (zip (map fst L) ws) f = Some v" using 2 False by simp_all
    from 2(1)[OF this] obtain b s where
      bs: "map_of (fields_at (?o + t) L) f = Some (b, s)" "?o + t \<le> b"
        "take s (drop (b - (?o + t)) (place_fields pad (?o + t) L ws @ rest)) = v"
      by blast
    have "b - off = (?o - off) + (t + (b - (?o + t)))" using bs ge by simp
    then have d: "drop (b - off) (place_fields pad off ((g, t, a) # L) (w # ws) @ rest)
        = drop (b - (?o + t)) (place_fields pad (?o + t) L ws @ rest)"
      using 2 by (simp add: drop_drop[symmetric] del: drop_drop)
    have "map_of (fields_at off ((g, t, a) # L)) f = Some (b, s)" "off \<le> b"
      using bs ge False by simp_all
    then show ?thesis using bs(3) unfolding d[symmetric] by blast
  qed
qed simp_all

theorem field_struct_bytes:
  assumes "fits L vs" "map_of (zip (map fst L) vs) f = Some v"
  shows "field L f (struct_bytes pad L vs @ rest) = v"
  using field_place_fields[OF assms, where off = 0 and pad = pad
      and rest = "map pad [struct_end 0 L ..< struct_size L] @ rest"]
  by (auto simp: field_def struct_bytes_def)

lemma fits_lookup:
  "fits L vs \<Longrightarrow> f \<in> set (map fst L) \<Longrightarrow> \<exists>v. map_of (zip (map fst L) vs) f = Some v"
  by (induction L vs rule: fits.induct) auto

lemma field_of_struct [wire_simps]:
  assumes "fits L vs" "f \<in> set (map fst L)"
  shows "field L f (struct_bytes pad L vs @ rest) = the (map_of (zip (map fst L) vs) f)"
  using fits_lookup[OF assms] field_struct_bytes[OF assms(1)] by auto

section \<open>Arrays of fixed-width integers\<close>

function chunks :: "nat \<Rightarrow> bytes \<Rightarrow> bytes list" where
  "chunks k bs = (if k = 0 \<or> bs = [] then [] else take k bs # chunks k (drop k bs))"
  by pat_completeness auto
termination by (relation "measure (\<lambda>(k, bs). length bs)") auto

declare chunks.simps [simp del]

lemma chunks_Nil [simp]: "chunks k [] = []"
  by (simp add: chunks.simps)

lemma chunks_append:
  "length v = k \<Longrightarrow> 0 < k \<Longrightarrow> chunks k (v @ bs) = v # chunks k bs"
  by (subst chunks.simps) auto

definition words_le :: "nat \<Rightarrow> 'a::len word list \<Rightarrow> bytes" where
  "words_le n ws = concat (map (\<lambda>w. le_bytes n (unat w)) ws)"

definition le_words :: "nat \<Rightarrow> bytes \<Rightarrow> 'a::len word list" where
  "le_words n bs = map le_word (chunks n bs)"

lemma length_words_le [wire_simps]: "length (words_le n ws) = length ws * n"
  by (induction ws) (simp_all add: words_le_def)

lemma le_words_words_le:
  fixes ws :: "'a::len word list"
  assumes "LENGTH('a) = 8 * n"
  shows "le_words n (words_le n ws) = ws"
proof -
  have "0 < n" using assms len_gt_0[where 'a = 'a] by (cases n) (simp_all del: len_gt_0)
  then show ?thesis
    by (induction ws) (simp_all add: le_words_def words_le_def chunks_append
        le_word_le_bytes[OF assms])
qed

lemma le_words_u32 [wire_simps]: "le_words 4 (words_le 4 ws) = (ws :: 32 word list)"
  by (rule le_words_words_le) simp
lemma le_words_u64 [wire_simps]: "le_words 8 (words_le 8 ws) = (ws :: 64 word list)"
  by (rule le_words_words_le) simp

text \<open>
  A wire struct as its clients see it: the bytes of a well-formed value have
  the struct's size, and \<open>ptr::read_unaligned\<close> on a buffer that starts with
  them gives the value back.
\<close>

locale wire_struct =
  fixes rd :: "bytes \<Rightarrow> 'v"
    and wr :: "(nat \<Rightarrow> byte) \<Rightarrow> 'v \<Rightarrow> bytes"
    and wf :: "'v \<Rightarrow> bool"
    and sz :: nat
  assumes size: "wf v \<Longrightarrow> length (wr pad v) = sz"
    and round_trip: "wf v \<Longrightarrow> rd (wr pad v @ rest) = v"
begin

lemma long_enough: "wf v \<Longrightarrow> sz \<le> length (wr pad v @ rest)"
  by (simp add: size)

lemma tail: "wf v \<Longrightarrow> drop sz (wr pad v @ rest) = rest"
  by (simp add: size)

lemma whole: "wf v \<Longrightarrow> rd (wr pad v) = v"
  using round_trip[of v pad "[]"] by simp

lemma padding_irrelevant: "wf v \<Longrightarrow> rd (wr pad v @ rest) = rd (wr pad' v @ rest')"
  by (simp add: round_trip)

end

section \<open>Machine arithmetic\<close>

definition saturating_sub :: "'a::len word \<Rightarrow> 'a word \<Rightarrow> 'a word" where
  "saturating_sub a b = (if b \<le> a then a - b else 0)"

definition saturating_add :: "'a::len word \<Rightarrow> 'a word \<Rightarrow> 'a word" where
  "saturating_add a b = (if unat a + unat b < 2 ^ LENGTH('a) then a + b else - 1)"

lemma unat_saturating_sub: "unat (saturating_sub a b) = unat a - unat b"
  by (auto simp: saturating_sub_def unat_sub_if' word_le_nat_alt)

lemma saturating_sub_le: "saturating_sub a b \<le> a"
  by (simp add: word_le_nat_alt unat_saturating_sub)

lemma unat_saturating_incr:
  "unat (saturating_add w 1) = min (Suc (unat w)) (2 ^ 64 - 1)" for w :: "64 word"
proof (cases "Suc (unat w) < 2 ^ 64")
  case True
  then have "unat (w + 1) = Suc (unat w)" by (simp add: unat_word_ariths)
  with True show ?thesis by (simp add: saturating_add_def)
next
  case False
  then show ?thesis by (simp add: saturating_add_def unsigned_minus_1_eq_mask mask_eq_exp_minus_1)
qed

text \<open>Masks and shifts of 32-bit words, read as integers.\<close>

lemma sint_nonneg:
  fixes w :: "32 word" assumes "uint w < 2 ^ 31"
  shows "sint w = uint w"
proof -
  have "sint w = signed_take_bit 31 (uint w)" by (simp add: sint_uint)
  also have "\<dots> = uint w"
    using assms uint_ge_0[of w] by (intro signed_take_bit_int_eq_self) linarith+
  finally show ?thesis .
qed

lemma uint_and_mask: "uint (w AND mask n) = uint w mod 2 ^ n" for w :: "'a::len word"
  by (simp only: take_bit_eq_mask[symmetric] unsigned_take_bit_eq) (simp add: take_bit_eq_mod)

lemma uint_and_0x7f: "uint ((w :: 32 word) AND 0x7f) = uint w mod 128"
proof -
  have "(0x7f :: 32 word) = mask 7" by (simp add: mask_eq_exp_minus_1)
  then show ?thesis using uint_and_mask[of w 7] by (simp only:) simp
qed

lemma uint_and_0xff: "uint ((w :: 32 word) AND 0xff) = uint w mod 256"
proof -
  have "(0xff :: 32 word) = mask 8" by (simp add: mask_eq_exp_minus_1)
  then show ?thesis using uint_and_mask[of w 8] by (simp only:) simp
qed

lemma and_0x80_bit: "w AND 0x80 \<noteq> 0 \<longleftrightarrow> bit (w :: 32 word) 7"
proof -
  have m: "(0x80 :: 32 word) = 2 ^ 7" by simp
  show ?thesis unfolding m and_exp_eq_0_iff_not_bit by simp
qed

lemma uint_drop_bit_8: "uint (drop_bit 8 (w :: 32 word)) = uint w div 256"
  by (simp add: drop_bit_eq_div uint_div)

lemma signed_drop_byte: "signed_drop_bit 8 w AND 0xff = drop_bit 8 w AND (0xff :: 32 word)"
proof -
  have m: "(0xff :: 32 word) = mask 8" by (simp add: mask_eq_exp_minus_1)
  show ?thesis unfolding m
    by (rule bit_word_eqI) (auto simp: bit_and_iff bit_mask_iff bit_signed_drop_bit_iff bit_drop_bit_eq)
qed

section \<open>JSON values\<close>

text \<open>
  \<open>serde_json::Value\<close>.  Numbers are the integers the program puts there;
  an object is an association list without repeated keys, read by key, so the
  order in which its keys are printed plays no part.
\<close>

datatype json =
    JNull
  | JBool bool
  | JNum int
  | JStr string
  | JArr "json list"
  | JObj "(string \<times> json) list"

fun jget :: "json \<Rightarrow> string \<Rightarrow> json option" where
  "jget (JObj kvs) k = map_of kvs k"
| "jget _ k = None"

fun jinsert :: "string \<Rightarrow> json \<Rightarrow> json \<Rightarrow> json" where
  "jinsert k v (JObj kvs) = JObj (AList.update k v kvs)"
| "jinsert k v j = j"

fun jkeys :: "json \<Rightarrow> string list" where
  "jkeys (JObj kvs) = map fst kvs"
| "jkeys _ = []"

definition junum :: "'a::len word \<Rightarrow> json" where
  "junum w = JNum (uint w)"

definition jsnum :: "'a::len word \<Rightarrow> json" where
  "jsnum w = JNum (sint w)"

definition jstrs :: "string list \<Rightarrow> json" where
  "jstrs xs = JArr (map JStr xs)"

lemma jget_jinsert [simp]:
  "jget (jinsert k v (JObj kvs)) k' = (if k' = k then Some v else map_of kvs k')"
  by (simp add: update_conv')

end
