(* ===== verification/Text.thy ===== *)
theory Text
  imports Prelude
begin

text \<open>
  The parts of Rust's text handling the daemon relies on: UTF-8 validation
  (\<open>str::from_utf8\<close>), lossy decoding (\<open>String::from_utf8_lossy\<close>, one U+FFFD
  per maximal invalid prefix), NUL-terminated and NUL-separated buffers, and
  decimal and hexadecimal formatting.  A Rust \<open>String\<close> is the list of its
  UTF-8 bytes, written as Isabelle characters.
\<close>

section \<open>Bytes and characters\<close>

definition str_of_bytes :: "bytes \<Rightarrow> string" where
  "str_of_bytes bs = map (\<lambda>b. char_of (unat b)) bs"

definition bytes_of_str :: "string \<Rightarrow> bytes" where
  "bytes_of_str s = map (\<lambda>c. of_nat (of_char c)) s"

lemma bytes_of_str_of_bytes [simp]: "bytes_of_str (str_of_bytes bs) = bs"
  by (induction bs) (simp_all add: bytes_of_str_def str_of_bytes_def of_char_of take_bit_eq_mod
      byte_of_nat_eqI unat_byte_less)

lemma str_of_bytes_of_str [simp]: "str_of_bytes (bytes_of_str s) = s"
  by (induction s) (simp_all add: str_of_bytes_def bytes_of_str_def unat_byte_of_nat)

lemma str_of_bytes_inject [simp]: "str_of_bytes a = str_of_bytes b \<longleftrightarrow> a = b"
  by (metis bytes_of_str_of_bytes)

lemma str_of_bytes_append [simp]: "str_of_bytes (a @ b) = str_of_bytes a @ str_of_bytes b"
  by (simp add: str_of_bytes_def)

lemma str_of_bytes_Nil [simp]: "str_of_bytes [] = []"
  by (simp add: str_of_bytes_def)

section \<open>UTF-8\<close>

text \<open>
  One round of the standard library's scanner: how many bytes the sequence at
  the front of the buffer has, and whether it is well formed.  A byte past the
  end reads as zero, which no continuation test accepts.
\<close>

definition byte_or_zero :: "bytes \<Rightarrow> nat \<Rightarrow> nat" where
  "byte_or_zero bs i = (if i < length bs then unat (bs ! i) else 0)"

definition is_cont :: "nat \<Rightarrow> bool" where
  "is_cont n \<longleftrightarrow> 128 \<le> n \<and> n < 192"

definition second_ok :: "nat \<Rightarrow> nat \<Rightarrow> bool" where
  "second_ok b c \<longleftrightarrow>
     (if b = 0xE0 then 0xA0 \<le> c \<and> c \<le> 0xBF
      else if b = 0xED then 0x80 \<le> c \<and> c \<le> 0x9F
      else if b = 0xF0 then 0x90 \<le> c \<and> c \<le> 0xBF
      else if b = 0xF4 then 0x80 \<le> c \<and> c \<le> 0x8F
      else 0x80 \<le> c \<and> c \<le> 0xBF)"

definition utf8_next :: "bytes \<Rightarrow> bool \<times> nat" where
  "utf8_next bs = (let b = byte_or_zero bs 0; c = byte_or_zero bs 1;
       d = byte_or_zero bs 2; e = byte_or_zero bs 3 in
     if b < 0x80 then (True, 1)
     else if 0xC2 \<le> b \<and> b \<le> 0xDF then
       (if is_cont c then (True, 2) else (False, 1))
     else if 0xE0 \<le> b \<and> b \<le> 0xEF then
       (if \<not> second_ok b c then (False, 1)
        else if \<not> is_cont d then (False, 2) else (True, 3))
     else if 0xF0 \<le> b \<and> b \<le> 0xF4 then
       (if \<not> second_ok b c then (False, 1)
        else if \<not> is_cont d then (False, 2)
        else if \<not> is_cont e then (False, 3) else (True, 4))
     else (False, 1))"

lemma utf8_next_pos: "(ok, n) = utf8_next bs \<Longrightarrow> 0 < n"
  by (auto simp: utf8_next_def Let_def split: if_splits)

function valid_utf8 :: "bytes \<Rightarrow> bool" where
  "valid_utf8 bs = (if bs = [] then True
     else (case utf8_next bs of (ok, n) \<Rightarrow> ok \<and> valid_utf8 (drop n bs)))"
  by pat_completeness auto
termination
  by (relation "measure length") (auto dest: utf8_next_pos)

definition REPLACEMENT :: bytes where
  "REPLACEMENT = [0xEF, 0xBF, 0xBD]"

function from_utf8_lossy :: "bytes \<Rightarrow> bytes" where
  "from_utf8_lossy bs = (if bs = [] then []
     else (case utf8_next bs of (ok, n) \<Rightarrow>
       (if ok then take n bs else REPLACEMENT) @ from_utf8_lossy (drop n bs)))"
  by pat_completeness auto
termination
  by (relation "measure length") (auto dest: utf8_next_pos)

declare valid_utf8.simps [simp del] from_utf8_lossy.simps [simp del]

lemma valid_utf8_Nil [simp]: "valid_utf8 []"
  by (simp add: valid_utf8.simps)

lemma lossy_Nil [simp]: "from_utf8_lossy [] = []"
  by (simp add: from_utf8_lossy.simps)

text \<open>Lossy decoding changes nothing exactly on well-formed input.\<close>

lemma lossy_valid: "valid_utf8 bs \<Longrightarrow> from_utf8_lossy bs = bs"
proof (induction bs rule: valid_utf8.induct)
  case (1 bs)
  obtain ok n where n: "utf8_next bs = (ok, n)" by fastforce
  show ?case
  proof (cases "bs = []")
    case False
    with 1 n have "ok" "from_utf8_lossy (drop n bs) = drop n bs"
      by (auto simp: valid_utf8.simps[of bs])
    with False n show ?thesis by (simp add: from_utf8_lossy.simps[of bs])
  qed simp
qed

text \<open>A sequence accepted at the front stays accepted when bytes follow it.\<close>

lemma byte_or_zero_append:
  "i < length xs \<Longrightarrow> byte_or_zero (xs @ ys) i = byte_or_zero xs i"
  by (simp add: byte_or_zero_def nth_append)

lemma byte_or_zero_take:
  "i < n \<Longrightarrow> i < length xs \<Longrightarrow> byte_or_zero (take n xs) i = byte_or_zero xs i"
  by (simp add: byte_or_zero_def)

lemma byte_or_zero_pos: "0 < byte_or_zero xs i \<Longrightarrow> i < length xs"
  by (simp add: byte_or_zero_def split: if_splits)

lemma is_cont_in_range: "is_cont (byte_or_zero xs i) \<Longrightarrow> i < length xs"
  by (rule byte_or_zero_pos) (simp add: is_cont_def)

lemma second_ok_cont: "second_ok b c \<Longrightarrow> is_cont c"
  by (auto simp: second_ok_def is_cont_def split: if_splits)

lemma utf8_next_len:
  assumes "utf8_next bs = (True, n)" "bs \<noteq> []"
  shows "n \<le> length bs"
proof -
  have "Suc 0 \<le> length bs" using assms(2) by (cases bs) simp_all
  then show ?thesis
    using assms(1)
    by (auto simp: utf8_next_def Let_def split: if_splits
        dest!: is_cont_in_range second_ok_cont)
qed

lemma utf8_next_append:
  assumes "utf8_next bs = (True, n)" "bs \<noteq> []"
  shows "utf8_next (take n bs @ ys) = (True, n)"
proof -
  let ?zs = "take n bs @ ys"
  have len: "n \<le> length bs" using utf8_next_len[OF assms] .
  then have same: "byte_or_zero ?zs i = byte_or_zero bs i" if "i < n" for i
    using that by (simp add: byte_or_zero_append byte_or_zero_take)
  have cases: "n = 1 \<or> n = 2 \<or> n = 3 \<or> n = 4"
    using assms(1) by (auto simp: utf8_next_def Let_def split: if_splits)
  show ?thesis
  proof -
    have "0 < n" using utf8_next_pos assms(1) by metis
    then have b0: "byte_or_zero ?zs 0 = byte_or_zero bs 0" by (rule same)
    from cases consider "n = 1" | "n = 2" "byte_or_zero ?zs 1 = byte_or_zero bs 1"
      | "n = 3" "byte_or_zero ?zs 1 = byte_or_zero bs 1" "byte_or_zero ?zs 2 = byte_or_zero bs 2"
      | "n = 4" "byte_or_zero ?zs 1 = byte_or_zero bs 1" "byte_or_zero ?zs 2 = byte_or_zero bs 2"
        "byte_or_zero ?zs 3 = byte_or_zero bs 3"
      using same by fastforce
    then show ?thesis
      using assms(1) b0
      by cases (simp_all add: utf8_next_def Let_def split: if_splits)
  qed
qed

lemma valid_utf8_step:
  assumes "utf8_next bs = (True, n)" "bs \<noteq> []"
  shows "valid_utf8 (take n bs @ ys) = valid_utf8 ys"
proof -
  have n: "n \<le> length bs" "0 < n"
    using utf8_next_len[OF assms] utf8_next_pos assms(1) by metis+
  then have "take n bs @ ys \<noteq> []" using assms(2) by simp
  then show ?thesis
    using n by (simp add: valid_utf8.simps[of "take n bs @ ys"] utf8_next_append[OF assms])
qed

lemma utf8_next_REPLACEMENT: "utf8_next REPLACEMENT = (True, 3)"
  by (simp add: utf8_next_def REPLACEMENT_def byte_or_zero_def is_cont_def second_ok_def Let_def)

lemma lossy_output_valid: "valid_utf8 (from_utf8_lossy bs)"
proof (induction bs rule: from_utf8_lossy.induct)
  case (1 bs)
  obtain ok n where n: "utf8_next bs = (ok, n)" by fastforce
  show ?case
  proof (cases "bs = []")
    case False
    have IH: "valid_utf8 (from_utf8_lossy (drop n bs))" using 1 False n by simp
    have "valid_utf8 (REPLACEMENT @ ys) = valid_utf8 ys" for ys
      using valid_utf8_step[OF utf8_next_REPLACEMENT, of ys] by (simp add: REPLACEMENT_def)
    then show ?thesis
      using False n IH valid_utf8_step[of bs n]
      by (cases ok) (simp_all add: from_utf8_lossy.simps[of bs])
  qed simp
qed

lemma valid_utf8_append: "valid_utf8 xs \<Longrightarrow> valid_utf8 (xs @ ys) = valid_utf8 ys"
proof (induction xs rule: valid_utf8.induct)
  case (1 xs)
  obtain ok n where n: "utf8_next xs = (ok, n)" by fastforce
  show ?case
  proof (cases "xs = []")
    case False
    with 1 n have ok: "ok" and IH: "valid_utf8 (drop n xs @ ys) = valid_utf8 ys"
      by (auto simp: valid_utf8.simps[of xs])
    have "valid_utf8 (take n xs @ (drop n xs @ ys)) = valid_utf8 (drop n xs @ ys)"
      using n ok False by (intro valid_utf8_step) simp_all
    then show ?thesis using IH by (simp add: append_assoc[symmetric] del: append_assoc)
  qed simp
qed

lemma valid_utf8_ascii: "list_all (\<lambda>b. b < 128) bs \<Longrightarrow> valid_utf8 bs"
proof (induction bs)
  case (Cons b bs)
  have "utf8_next (b # bs) = (True, 1)"
    using Cons.prems by (simp add: utf8_next_def byte_or_zero_def Let_def word_less_nat_alt)
  with Cons show ?case by (simp add: valid_utf8.simps[of "b # bs"])
qed simp

text \<open>Lossy decoding of a buffer that starts with well-formed text keeps that text.\<close>

lemma lossy_append: "valid_utf8 xs \<Longrightarrow> from_utf8_lossy (xs @ ys) = xs @ from_utf8_lossy ys"
proof (induction xs rule: valid_utf8.induct)
  case (1 xs)
  obtain ok n where n: "utf8_next xs = (ok, n)" by fastforce
  show ?case
  proof (cases "xs = []")
    case False
    with 1 n have ok: "utf8_next xs = (True, n)"
      and IH: "from_utf8_lossy (drop n xs @ ys) = drop n xs @ from_utf8_lossy ys"
      by (auto simp: valid_utf8.simps[of xs])
    have n_le: "n \<le> length xs" using utf8_next_len[OF ok False] .
    have "utf8_next (take n xs @ (drop n xs @ ys)) = (True, n)"
      by (rule utf8_next_append[OF ok False])
    then have "utf8_next (xs @ ys) = (True, n)"
      by (simp add: append_assoc[symmetric] del: append_assoc)
    then show ?thesis
      using False n_le IH append_take_drop_id[of n xs]
      by (simp add: from_utf8_lossy.simps[of "xs @ ys"])
  qed simp
qed

section \<open>NUL-terminated and NUL-separated buffers\<close>

definition until_nul :: "bytes \<Rightarrow> bytes" where
  "until_nul bs = takeWhile (\<lambda>b. b \<noteq> 0) bs"

text \<open>\<open>slice.split(|b| b == 0)\<close>: always at least one chunk.\<close>

fun split_nul :: "bytes \<Rightarrow> bytes list" where
  "split_nul [] = [[]]"
| "split_nul (b # bs) = (if b = 0 then [] # split_nul bs
     else (case split_nul bs of [] \<Rightarrow> [[b]] | c # cs \<Rightarrow> (b # c) # cs))"

definition nul_free :: "bytes \<Rightarrow> bool" where
  "nul_free bs \<longleftrightarrow> 0 \<notin> set bs"

fun join_nul :: "bytes list \<Rightarrow> bytes" where
  "join_nul [] = []"
| "join_nul [c] = c"
| "join_nul (c # cs) = c @ 0 # join_nul cs"

lemma split_nul_nonempty [simp]: "split_nul bs \<noteq> []"
  by (cases bs) (auto split: list.splits)

lemma split_nul_free: "nul_free c \<Longrightarrow> split_nul c = [c]"
  by (induction c) (auto simp: nul_free_def)

lemma split_nul_append: "nul_free c \<Longrightarrow> split_nul (c @ 0 # bs) = c # split_nul bs"
  by (induction c) (auto simp: nul_free_def)

lemma split_join_nul:
  "cs \<noteq> [] \<Longrightarrow> list_all nul_free cs \<Longrightarrow> split_nul (join_nul cs) = cs"
  by (induction cs rule: join_nul.induct) (simp_all add: split_nul_free split_nul_append)

lemma until_nul_free: "nul_free c \<Longrightarrow> until_nul c = c"
  by (induction c) (auto simp: until_nul_def nul_free_def)

lemma until_nul_append: "nul_free c \<Longrightarrow> until_nul (c @ 0 # bs) = c"
  by (induction c) (auto simp: until_nul_def nul_free_def)

section \<open>Number formatting\<close>

definition digit_char :: "nat \<Rightarrow> char" where
  "digit_char d = (if d < 10 then char_of (48 + d) else char_of (87 + d))"

function radix_string :: "nat \<Rightarrow> nat \<Rightarrow> string" where
  "radix_string r n =
     (if n < r \<or> r < 2 then [digit_char n]
      else radix_string r (n div r) @ [digit_char (n mod r)])"
  by pat_completeness auto
termination
  by (relation "measure snd") auto

declare radix_string.simps [simp del]

abbreviation decimal :: "nat \<Rightarrow> string" where "decimal \<equiv> radix_string 10"
abbreviation hex_string :: "nat \<Rightarrow> string" where "hex_string \<equiv> radix_string 16"

text \<open>\<open>{:02x}\<close> on a byte.\<close>

definition hex_byte :: "byte \<Rightarrow> string" where
  "hex_byte b = [digit_char (unat b div 16), digit_char (unat b mod 16)]"

definition char_digit :: "char \<Rightarrow> nat" where
  "char_digit c = (if of_char c < (58 :: nat) then of_char c - 48 else of_char c - 87)"

definition read_radix :: "nat \<Rightarrow> string \<Rightarrow> nat" where
  "read_radix r s = foldl (\<lambda>n c. n * r + char_digit c) 0 s"

lemma char_digit_inverse:
  assumes "d < 16"
  shows "char_digit (digit_char d) = d"
proof (cases "d < 10")
  case True
  then show ?thesis by (simp add: char_digit_def digit_char_def)
next
  case False
  with assms show ?thesis by (simp add: char_digit_def digit_char_def)
qed

lemma read_radix_snoc: "read_radix r (s @ [c]) = read_radix r s * r + char_digit c"
  by (simp add: read_radix_def)

lemma read_radix_string:
  assumes "2 \<le> r" "r \<le> 16"
  shows "read_radix r (radix_string r n) = n"
proof (induction n rule: less_induct)
  case (less n)
  show ?case
  proof (cases "n < r")
    case True
    then have "n < 16" using assms by linarith
    with True show ?thesis
      by (subst radix_string.simps) (simp add: read_radix_def char_digit_inverse)
  next
    case False
    then have "n div r < n" using assms by (intro div_less_dividend) linarith+
    then have IH: "read_radix r (radix_string r (n div r)) = n div r" by (rule less)
    have "n mod r < r" using assms by (intro mod_less_divisor) linarith
    then have "char_digit (digit_char (n mod r)) = n mod r"
      using assms by (intro char_digit_inverse) linarith
    with False assms IH show ?thesis
      by (subst radix_string.simps) (simp add: read_radix_snoc)
  qed
qed

lemma read_decimal: "read_radix 10 (decimal n) = n"
  by (rule read_radix_string) simp_all

lemma decimal_inject: "decimal a = decimal b \<longleftrightarrow> a = b"
  by (metis read_decimal)

end
