(* ===== verification/Wire.thy ===== *)
theory Wire
  imports Prelude
begin

text \<open>
  The structs shared by the BPF programs and the daemon
  (\<open>bloodhound-common/src/lib.rs\<close>).  Each struct has its record, its
  \<open>repr(C)\<close> layout, the reader that \<open>ptr::read_unaligned\<close> performs and the
  bytes the struct has in the memory of the BPF program that emits it.  Padding
  is not part of a value: explicit \<open>_pad\<close> fields are zero, as every producer
  writes them, and the implicit gaps hold arbitrary bytes.  Signed fields keep
  their bits; the code that uses them reads them with \<open>sint\<close>.  The sizes are
  computed from the layouts and equal the \<open>SIZE\<close> constants the unit tests pin.
\<close>

section \<open>HeaderCapture\<close>

record HeaderCapture =
  cap_version :: "byte"
  cap_primary :: "byte"
  cap_secondary :: "byte"

definition HeaderCapture_layout :: layout where
  "HeaderCapture_layout =
     [(''version'', u8), (''primary'', u8), (''secondary'', u8)]"

definition read_HeaderCapture :: "bytes \<Rightarrow> HeaderCapture" where
  "read_HeaderCapture bs = (let fld = (\<lambda>f. field HeaderCapture_layout f bs) in
     \<lparr>cap_version = le_word (fld ''version''), cap_primary = le_word (fld ''primary''),
      cap_secondary = le_word (fld ''secondary'')\<rparr>)"

definition HeaderCapture_fields :: "HeaderCapture \<Rightarrow> bytes list" where
  "HeaderCapture_fields v =
     [[cap_version v], [cap_primary v], [cap_secondary v]]"

definition HeaderCapture_bytes :: "(nat \<Rightarrow> byte) \<Rightarrow> HeaderCapture \<Rightarrow> bytes" where
  "HeaderCapture_bytes pad v = struct_bytes pad HeaderCapture_layout (HeaderCapture_fields v)"

definition HeaderCapture_SIZE :: nat where "HeaderCapture_SIZE = struct_size HeaderCapture_layout"

lemma HeaderCapture_SIZE [wire_simps]: "HeaderCapture_SIZE = 3" by code_simp

lemma HeaderCapture_fits: "fits HeaderCapture_layout (HeaderCapture_fields v)"
  by (simp add: HeaderCapture_layout_def HeaderCapture_fields_def ctype_defs wire_simps)

lemma HeaderCapture_names: "map fst HeaderCapture_layout =
     [''version'', ''primary'', ''secondary'']"
  by (simp add: HeaderCapture_layout_def)

lemma HeaderCapture_read: "read_HeaderCapture (HeaderCapture_bytes pad v @ rest) = v"
  by (simp add: read_HeaderCapture_def HeaderCapture_bytes_def Let_def
      field_of_struct[OF HeaderCapture_fits] HeaderCapture_names)
    (simp add: HeaderCapture_fields_def wire_simps)

interpretation cap_wire: wire_struct read_HeaderCapture HeaderCapture_bytes "(\<lambda>_. True)" HeaderCapture_SIZE
  by unfold_locales (simp_all add: HeaderCapture_bytes_def HeaderCapture_SIZE_def length_struct_bytes HeaderCapture_fits
      HeaderCapture_read[unfolded HeaderCapture_bytes_def])

lemma HeaderCapture_ctype: "nested HeaderCapture_layout = (3, 1)" by code_simp

section \<open>NsSnapshot\<close>

record NsSnapshot =
  ns_inum :: "32 word list"
  ns_status :: "bytes"

definition NsSnapshot_layout :: layout where
  "NsSnapshot_layout =
     [(''inum'', array_of 7 u32), (''status'', array_of 7 u8), (''_pad'', u8)]"

definition read_NsSnapshot :: "bytes \<Rightarrow> NsSnapshot" where
  "read_NsSnapshot bs = (let fld = (\<lambda>f. field NsSnapshot_layout f bs) in
     \<lparr>ns_inum = le_words 4 (fld ''inum''), ns_status = fld ''status''\<rparr>)"

definition NsSnapshot_fields :: "NsSnapshot \<Rightarrow> bytes list" where
  "NsSnapshot_fields v =
     [words_le 4 (ns_inum v), ns_status v, [0]]"

definition NsSnapshot_bytes :: "(nat \<Rightarrow> byte) \<Rightarrow> NsSnapshot \<Rightarrow> bytes" where
  "NsSnapshot_bytes pad v = struct_bytes pad NsSnapshot_layout (NsSnapshot_fields v)"

definition wf_NsSnapshot :: "NsSnapshot \<Rightarrow> bool" where
  "wf_NsSnapshot v \<longleftrightarrow> length (ns_inum v) = 7 \<and> length (ns_status v) = 7"

definition NsSnapshot_SIZE :: nat where "NsSnapshot_SIZE = struct_size NsSnapshot_layout"

lemma NsSnapshot_SIZE [wire_simps]: "NsSnapshot_SIZE = 36" by code_simp

lemma NsSnapshot_fits: "wf_NsSnapshot v \<Longrightarrow> fits NsSnapshot_layout (NsSnapshot_fields v)"
  by (simp add: NsSnapshot_layout_def NsSnapshot_fields_def wf_NsSnapshot_def ctype_defs wire_simps)

lemma NsSnapshot_names: "map fst NsSnapshot_layout =
     [''inum'', ''status'', ''_pad'']"
  by (simp add: NsSnapshot_layout_def)

lemma NsSnapshot_read: "wf_NsSnapshot v \<Longrightarrow> read_NsSnapshot (NsSnapshot_bytes pad v @ rest) = v"
  by (simp add: read_NsSnapshot_def NsSnapshot_bytes_def Let_def
      field_of_struct[OF NsSnapshot_fits] NsSnapshot_names)
    (simp add: NsSnapshot_fields_def wf_NsSnapshot_def wire_simps)

interpretation ns_wire: wire_struct read_NsSnapshot NsSnapshot_bytes "wf_NsSnapshot" NsSnapshot_SIZE
  by unfold_locales (simp_all add: NsSnapshot_bytes_def NsSnapshot_SIZE_def length_struct_bytes NsSnapshot_fits
      NsSnapshot_read[unfolded NsSnapshot_bytes_def])

lemma NsSnapshot_ctype: "nested NsSnapshot_layout = (36, 4)" by code_simp

section \<open>EventHeader\<close>

record EventHeader =
  h_kind :: "byte"
  h_capture :: "HeaderCapture"
  h_timestamp_ns :: "64 word"
  h_auid :: "32 word"
  h_sessionid :: "32 word"
  h_pid :: "32 word"
  h_ppid :: "32 word"
  h_process_start_boottime_ns :: "64 word"
  h_comm :: "bytes"
  h_tid :: "32 word"
  h_ns :: "NsSnapshot"

definition EventHeader_layout :: layout where
  "EventHeader_layout =
     [(''kind'', u8), (''capture'', nested HeaderCapture_layout), (''timestamp_ns'', u64),
      (''auid'', u32), (''sessionid'', u32), (''pid'', u32), (''ppid'', u32),
      (''process_start_boottime_ns'', u64), (''comm'', array_of 16 u8), (''tid'', u32),
      (''ns'', nested NsSnapshot_layout)]"

definition read_EventHeader :: "bytes \<Rightarrow> EventHeader" where
  "read_EventHeader bs = (let fld = (\<lambda>f. field EventHeader_layout f bs) in
     \<lparr>h_kind = le_word (fld ''kind''), h_capture = read_HeaderCapture (fld ''capture''),
      h_timestamp_ns = le_word (fld ''timestamp_ns''), h_auid = le_word (fld ''auid''),
      h_sessionid = le_word (fld ''sessionid''), h_pid = le_word (fld ''pid''),
      h_ppid = le_word (fld ''ppid''),
      h_process_start_boottime_ns = le_word (fld ''process_start_boottime_ns''),
      h_comm = fld ''comm'', h_tid = le_word (fld ''tid''), h_ns = read_NsSnapshot (fld ''ns'')\<rparr>)"

definition EventHeader_fields :: "EventHeader \<Rightarrow> bytes list" where
  "EventHeader_fields v =
     [[h_kind v], HeaderCapture_bytes (\<lambda>_. 0) (h_capture v),
      le_bytes 8 (unat (h_timestamp_ns v)), le_bytes 4 (unat (h_auid v)),
      le_bytes 4 (unat (h_sessionid v)), le_bytes 4 (unat (h_pid v)),
      le_bytes 4 (unat (h_ppid v)), le_bytes 8 (unat (h_process_start_boottime_ns v)),
      h_comm v, le_bytes 4 (unat (h_tid v)), NsSnapshot_bytes (\<lambda>_. 0) (h_ns v)]"

definition EventHeader_bytes :: "(nat \<Rightarrow> byte) \<Rightarrow> EventHeader \<Rightarrow> bytes" where
  "EventHeader_bytes pad v = struct_bytes pad EventHeader_layout (EventHeader_fields v)"

definition wf_EventHeader :: "EventHeader \<Rightarrow> bool" where
  "wf_EventHeader v \<longleftrightarrow> length (h_comm v) = 16 \<and> wf_NsSnapshot (h_ns v)"

definition EventHeader_SIZE :: nat where "EventHeader_SIZE = struct_size EventHeader_layout"

lemma EventHeader_SIZE [wire_simps]: "EventHeader_SIZE = 96" by code_simp

lemma EventHeader_fits: "wf_EventHeader v \<Longrightarrow> fits EventHeader_layout (EventHeader_fields v)"
  by (simp add: EventHeader_layout_def EventHeader_fields_def wf_EventHeader_def ctype_defs wire_simps HeaderCapture_ctype cap_wire.size cap_wire.whole NsSnapshot_ctype ns_wire.size ns_wire.whole)

lemma EventHeader_names: "map fst EventHeader_layout =
     [''kind'', ''capture'', ''timestamp_ns'', ''auid'', ''sessionid'', ''pid'', ''ppid'',
      ''process_start_boottime_ns'', ''comm'', ''tid'', ''ns'']"
  by (simp add: EventHeader_layout_def)

lemma EventHeader_read: "wf_EventHeader v \<Longrightarrow> read_EventHeader (EventHeader_bytes pad v @ rest) = v"
  by (simp add: read_EventHeader_def EventHeader_bytes_def Let_def
      field_of_struct[OF EventHeader_fits] EventHeader_names)
    (simp add: EventHeader_fields_def wf_EventHeader_def wire_simps HeaderCapture_ctype cap_wire.size cap_wire.whole NsSnapshot_ctype ns_wire.size ns_wire.whole)

interpretation h_wire: wire_struct read_EventHeader EventHeader_bytes "wf_EventHeader" EventHeader_SIZE
  by unfold_locales (simp_all add: EventHeader_bytes_def EventHeader_SIZE_def length_struct_bytes EventHeader_fits
      EventHeader_read[unfolded EventHeader_bytes_def])

section \<open>PacketEventHeader\<close>

record PacketEventHeader =
  pkt_kind :: "byte"
  pkt_timestamp_ns :: "64 word"
  pkt_ifindex :: "32 word"
  pkt_data_len :: "32 word"

definition PacketEventHeader_layout :: layout where
  "PacketEventHeader_layout =
     [(''kind'', u8), (''_pad'', array_of 3 u8), (''timestamp_ns'', u64), (''ifindex'', u32),
      (''data_len'', u32)]"

definition read_PacketEventHeader :: "bytes \<Rightarrow> PacketEventHeader" where
  "read_PacketEventHeader bs = (let fld = (\<lambda>f. field PacketEventHeader_layout f bs) in
     \<lparr>pkt_kind = le_word (fld ''kind''), pkt_timestamp_ns = le_word (fld ''timestamp_ns''),
      pkt_ifindex = le_word (fld ''ifindex''), pkt_data_len = le_word (fld ''data_len'')\<rparr>)"

definition PacketEventHeader_fields :: "PacketEventHeader \<Rightarrow> bytes list" where
  "PacketEventHeader_fields v =
     [[pkt_kind v], le_bytes 3 0, le_bytes 8 (unat (pkt_timestamp_ns v)),
      le_bytes 4 (unat (pkt_ifindex v)), le_bytes 4 (unat (pkt_data_len v))]"

definition PacketEventHeader_bytes :: "(nat \<Rightarrow> byte) \<Rightarrow> PacketEventHeader \<Rightarrow> bytes" where
  "PacketEventHeader_bytes pad v = struct_bytes pad PacketEventHeader_layout (PacketEventHeader_fields v)"

definition PacketEventHeader_SIZE :: nat where "PacketEventHeader_SIZE = struct_size PacketEventHeader_layout"

lemma PacketEventHeader_SIZE [wire_simps]: "PacketEventHeader_SIZE = 24" by code_simp

lemma PacketEventHeader_fits: "fits PacketEventHeader_layout (PacketEventHeader_fields v)"
  by (simp add: PacketEventHeader_layout_def PacketEventHeader_fields_def ctype_defs wire_simps)

lemma PacketEventHeader_names: "map fst PacketEventHeader_layout =
     [''kind'', ''_pad'', ''timestamp_ns'', ''ifindex'', ''data_len'']"
  by (simp add: PacketEventHeader_layout_def)

lemma PacketEventHeader_read: "read_PacketEventHeader (PacketEventHeader_bytes pad v @ rest) = v"
  by (simp add: read_PacketEventHeader_def PacketEventHeader_bytes_def Let_def
      field_of_struct[OF PacketEventHeader_fits] PacketEventHeader_names)
    (simp add: PacketEventHeader_fields_def wire_simps)

interpretation pkt_wire: wire_struct read_PacketEventHeader PacketEventHeader_bytes "(\<lambda>_. True)" PacketEventHeader_SIZE
  by unfold_locales (simp_all add: PacketEventHeader_bytes_def PacketEventHeader_SIZE_def length_struct_bytes PacketEventHeader_fits
      PacketEventHeader_read[unfolded PacketEventHeader_bytes_def])

section \<open>ExecvePayload\<close>

record ExecvePayload =
  ex_filename_len :: "16 word"
  ex_argv_len :: "16 word"
  ex_return_code :: "32 word"

definition ExecvePayload_layout :: layout where
  "ExecvePayload_layout =
     [(''filename_len'', u16), (''argv_len'', u16), (''return_code'', u32)]"

definition read_ExecvePayload :: "bytes \<Rightarrow> ExecvePayload" where
  "read_ExecvePayload bs = (let fld = (\<lambda>f. field ExecvePayload_layout f bs) in
     \<lparr>ex_filename_len = le_word (fld ''filename_len''),
      ex_argv_len = le_word (fld ''argv_len''), ex_return_code = le_word (fld ''return_code'')\<rparr>)"

definition ExecvePayload_fields :: "ExecvePayload \<Rightarrow> bytes list" where
  "ExecvePayload_fields v =
     [le_bytes 2 (unat (ex_filename_len v)), le_bytes 2 (unat (ex_argv_len v)),
      le_bytes 4 (unat (ex_return_code v))]"

definition ExecvePayload_bytes :: "(nat \<Rightarrow> byte) \<Rightarrow> ExecvePayload \<Rightarrow> bytes" where
  "ExecvePayload_bytes pad v = struct_bytes pad ExecvePayload_layout (ExecvePayload_fields v)"

definition ExecvePayload_SIZE :: nat where "ExecvePayload_SIZE = struct_size ExecvePayload_layout"

lemma ExecvePayload_SIZE [wire_simps]: "ExecvePayload_SIZE = 8" by code_simp

lemma ExecvePayload_fits: "fits ExecvePayload_layout (ExecvePayload_fields v)"
  by (simp add: ExecvePayload_layout_def ExecvePayload_fields_def ctype_defs wire_simps)

lemma ExecvePayload_names: "map fst ExecvePayload_layout =
     [''filename_len'', ''argv_len'', ''return_code'']"
  by (simp add: ExecvePayload_layout_def)

lemma ExecvePayload_read: "read_ExecvePayload (ExecvePayload_bytes pad v @ rest) = v"
  by (simp add: read_ExecvePayload_def ExecvePayload_bytes_def Let_def
      field_of_struct[OF ExecvePayload_fits] ExecvePayload_names)
    (simp add: ExecvePayload_fields_def wire_simps)

interpretation ex_wire: wire_struct read_ExecvePayload ExecvePayload_bytes "(\<lambda>_. True)" ExecvePayload_SIZE
  by unfold_locales (simp_all add: ExecvePayload_bytes_def ExecvePayload_SIZE_def length_struct_bytes ExecvePayload_fits
      ExecvePayload_read[unfolded ExecvePayload_bytes_def])

section \<open>RawSyscallPayload\<close>

record RawSyscallPayload =
  raw_syscall_nr :: "64 word"
  raw_args :: "64 word list"
  raw_return_code :: "64 word"

definition RawSyscallPayload_layout :: layout where
  "RawSyscallPayload_layout =
     [(''syscall_nr'', u64), (''args'', array_of 6 u64), (''return_code'', u64)]"

definition read_RawSyscallPayload :: "bytes \<Rightarrow> RawSyscallPayload" where
  "read_RawSyscallPayload bs = (let fld = (\<lambda>f. field RawSyscallPayload_layout f bs) in
     \<lparr>raw_syscall_nr = le_word (fld ''syscall_nr''), raw_args = le_words 8 (fld ''args''),
      raw_return_code = le_word (fld ''return_code'')\<rparr>)"

definition RawSyscallPayload_fields :: "RawSyscallPayload \<Rightarrow> bytes list" where
  "RawSyscallPayload_fields v =
     [le_bytes 8 (unat (raw_syscall_nr v)), words_le 8 (raw_args v),
      le_bytes 8 (unat (raw_return_code v))]"

definition RawSyscallPayload_bytes :: "(nat \<Rightarrow> byte) \<Rightarrow> RawSyscallPayload \<Rightarrow> bytes" where
  "RawSyscallPayload_bytes pad v = struct_bytes pad RawSyscallPayload_layout (RawSyscallPayload_fields v)"

definition wf_RawSyscallPayload :: "RawSyscallPayload \<Rightarrow> bool" where
  "wf_RawSyscallPayload v \<longleftrightarrow> length (raw_args v) = 6"

definition RawSyscallPayload_SIZE :: nat where "RawSyscallPayload_SIZE = struct_size RawSyscallPayload_layout"

lemma RawSyscallPayload_SIZE [wire_simps]: "RawSyscallPayload_SIZE = 64" by code_simp

lemma RawSyscallPayload_fits: "wf_RawSyscallPayload v \<Longrightarrow> fits RawSyscallPayload_layout (RawSyscallPayload_fields v)"
  by (simp add: RawSyscallPayload_layout_def RawSyscallPayload_fields_def wf_RawSyscallPayload_def ctype_defs wire_simps)

lemma RawSyscallPayload_names: "map fst RawSyscallPayload_layout =
     [''syscall_nr'', ''args'', ''return_code'']"
  by (simp add: RawSyscallPayload_layout_def)

lemma RawSyscallPayload_read: "wf_RawSyscallPayload v \<Longrightarrow> read_RawSyscallPayload (RawSyscallPayload_bytes pad v @ rest) = v"
  by (simp add: read_RawSyscallPayload_def RawSyscallPayload_bytes_def Let_def
      field_of_struct[OF RawSyscallPayload_fits] RawSyscallPayload_names)
    (simp add: RawSyscallPayload_fields_def wf_RawSyscallPayload_def wire_simps)

interpretation raw_wire: wire_struct read_RawSyscallPayload RawSyscallPayload_bytes "wf_RawSyscallPayload" RawSyscallPayload_SIZE
  by unfold_locales (simp_all add: RawSyscallPayload_bytes_def RawSyscallPayload_SIZE_def length_struct_bytes RawSyscallPayload_fits
      RawSyscallPayload_read[unfolded RawSyscallPayload_bytes_def])

section \<open>TtyPayload\<close>

record TtyPayload =
  tty_data_len :: "16 word"

definition TtyPayload_layout :: layout where
  "TtyPayload_layout =
     [(''data_len'', u16), (''_pad'', array_of 2 u8)]"

definition read_TtyPayload :: "bytes \<Rightarrow> TtyPayload" where
  "read_TtyPayload bs = (let fld = (\<lambda>f. field TtyPayload_layout f bs) in
     \<lparr>tty_data_len = le_word (fld ''data_len'')\<rparr>)"

definition TtyPayload_fields :: "TtyPayload \<Rightarrow> bytes list" where
  "TtyPayload_fields v =
     [le_bytes 2 (unat (tty_data_len v)), le_bytes 2 0]"

definition TtyPayload_bytes :: "(nat \<Rightarrow> byte) \<Rightarrow> TtyPayload \<Rightarrow> bytes" where
  "TtyPayload_bytes pad v = struct_bytes pad TtyPayload_layout (TtyPayload_fields v)"

definition TtyPayload_SIZE :: nat where "TtyPayload_SIZE = struct_size TtyPayload_layout"

lemma TtyPayload_SIZE [wire_simps]: "TtyPayload_SIZE = 4" by code_simp

lemma TtyPayload_fits: "fits TtyPayload_layout (TtyPayload_fields v)"
  by (simp add: TtyPayload_layout_def TtyPayload_fields_def ctype_defs wire_simps)

lemma TtyPayload_names: "map fst TtyPayload_layout =
     [''data_len'', ''_pad'']"
  by (simp add: TtyPayload_layout_def)

lemma TtyPayload_read: "read_TtyPayload (TtyPayload_bytes pad v @ rest) = v"
  by (simp add: read_TtyPayload_def TtyPayload_bytes_def Let_def
      field_of_struct[OF TtyPayload_fits] TtyPayload_names)
    (simp add: TtyPayload_fields_def wire_simps)

interpretation tty_wire: wire_struct read_TtyPayload TtyPayload_bytes "(\<lambda>_. True)" TtyPayload_SIZE
  by unfold_locales (simp_all add: TtyPayload_bytes_def TtyPayload_SIZE_def length_struct_bytes TtyPayload_fits
      TtyPayload_read[unfolded TtyPayload_bytes_def])

section \<open>UsdtTrainingShellPayload\<close>

record UsdtTrainingShellPayload =
  ush_attach_point_id :: "32 word"
  ush_shell_pid :: "32 word"
  ush_command_id :: "64 word"
  ush_command_kind :: "32 word"
  ush_semantic_flags :: "32 word"
  ush_exit_status :: "32 word"
  ush_command_name_len :: "16 word"
  ush_command_name_truncated :: "byte"

definition UsdtTrainingShellPayload_layout :: layout where
  "UsdtTrainingShellPayload_layout =
     [(''attach_point_id'', u32), (''shell_pid'', u32), (''command_id'', u64),
      (''command_kind'', u32), (''semantic_flags'', u32), (''exit_status'', u32),
      (''command_name_len'', u16), (''command_name_truncated'', u8), (''_pad'', u8)]"

definition read_UsdtTrainingShellPayload :: "bytes \<Rightarrow> UsdtTrainingShellPayload" where
  "read_UsdtTrainingShellPayload bs = (let fld = (\<lambda>f. field UsdtTrainingShellPayload_layout f bs) in
     \<lparr>ush_attach_point_id = le_word (fld ''attach_point_id''),
      ush_shell_pid = le_word (fld ''shell_pid''),
      ush_command_id = le_word (fld ''command_id''),
      ush_command_kind = le_word (fld ''command_kind''),
      ush_semantic_flags = le_word (fld ''semantic_flags''),
      ush_exit_status = le_word (fld ''exit_status''),
      ush_command_name_len = le_word (fld ''command_name_len''),
      ush_command_name_truncated = le_word (fld ''command_name_truncated'')\<rparr>)"

definition UsdtTrainingShellPayload_fields :: "UsdtTrainingShellPayload \<Rightarrow> bytes list" where
  "UsdtTrainingShellPayload_fields v =
     [le_bytes 4 (unat (ush_attach_point_id v)), le_bytes 4 (unat (ush_shell_pid v)),
      le_bytes 8 (unat (ush_command_id v)), le_bytes 4 (unat (ush_command_kind v)),
      le_bytes 4 (unat (ush_semantic_flags v)), le_bytes 4 (unat (ush_exit_status v)),
      le_bytes 2 (unat (ush_command_name_len v)), [ush_command_name_truncated v], [0]]"

definition UsdtTrainingShellPayload_bytes :: "(nat \<Rightarrow> byte) \<Rightarrow> UsdtTrainingShellPayload \<Rightarrow> bytes" where
  "UsdtTrainingShellPayload_bytes pad v = struct_bytes pad UsdtTrainingShellPayload_layout (UsdtTrainingShellPayload_fields v)"

definition UsdtTrainingShellPayload_SIZE :: nat where "UsdtTrainingShellPayload_SIZE = struct_size UsdtTrainingShellPayload_layout"

lemma UsdtTrainingShellPayload_SIZE [wire_simps]: "UsdtTrainingShellPayload_SIZE = 32" by code_simp

lemma UsdtTrainingShellPayload_fits: "fits UsdtTrainingShellPayload_layout (UsdtTrainingShellPayload_fields v)"
  by (simp add: UsdtTrainingShellPayload_layout_def UsdtTrainingShellPayload_fields_def ctype_defs wire_simps)

lemma UsdtTrainingShellPayload_names: "map fst UsdtTrainingShellPayload_layout =
     [''attach_point_id'', ''shell_pid'', ''command_id'', ''command_kind'', ''semantic_flags'',
      ''exit_status'', ''command_name_len'', ''command_name_truncated'', ''_pad'']"
  by (simp add: UsdtTrainingShellPayload_layout_def)

lemma UsdtTrainingShellPayload_read: "read_UsdtTrainingShellPayload (UsdtTrainingShellPayload_bytes pad v @ rest) = v"
  by (simp add: read_UsdtTrainingShellPayload_def UsdtTrainingShellPayload_bytes_def Let_def
      field_of_struct[OF UsdtTrainingShellPayload_fits] UsdtTrainingShellPayload_names)
    (simp add: UsdtTrainingShellPayload_fields_def wire_simps)

interpretation ush_wire: wire_struct read_UsdtTrainingShellPayload UsdtTrainingShellPayload_bytes "(\<lambda>_. True)" UsdtTrainingShellPayload_SIZE
  by unfold_locales (simp_all add: UsdtTrainingShellPayload_bytes_def UsdtTrainingShellPayload_SIZE_def length_struct_bytes UsdtTrainingShellPayload_fits
      UsdtTrainingShellPayload_read[unfolded UsdtTrainingShellPayload_bytes_def])

section \<open>UsdtTrainingShellCaptureErrorPayload\<close>

record UsdtTrainingShellCaptureErrorPayload =
  uce_attach_point_id :: "32 word"
  uce_field_id :: "byte"
  uce_read_error_code :: "byte"

definition UsdtTrainingShellCaptureErrorPayload_layout :: layout where
  "UsdtTrainingShellCaptureErrorPayload_layout =
     [(''attach_point_id'', u32), (''field_id'', u8), (''read_error_code'', u8),
      (''_pad'', array_of 2 u8)]"

definition read_UsdtTrainingShellCaptureErrorPayload :: "bytes \<Rightarrow> UsdtTrainingShellCaptureErrorPayload" where
  "read_UsdtTrainingShellCaptureErrorPayload bs = (let fld = (\<lambda>f. field UsdtTrainingShellCaptureErrorPayload_layout f bs) in
     \<lparr>uce_attach_point_id = le_word (fld ''attach_point_id''),
      uce_field_id = le_word (fld ''field_id''),
      uce_read_error_code = le_word (fld ''read_error_code'')\<rparr>)"

definition UsdtTrainingShellCaptureErrorPayload_fields :: "UsdtTrainingShellCaptureErrorPayload \<Rightarrow> bytes list" where
  "UsdtTrainingShellCaptureErrorPayload_fields v =
     [le_bytes 4 (unat (uce_attach_point_id v)), [uce_field_id v], [uce_read_error_code v],
      le_bytes 2 0]"

definition UsdtTrainingShellCaptureErrorPayload_bytes :: "(nat \<Rightarrow> byte) \<Rightarrow> UsdtTrainingShellCaptureErrorPayload \<Rightarrow> bytes" where
  "UsdtTrainingShellCaptureErrorPayload_bytes pad v = struct_bytes pad UsdtTrainingShellCaptureErrorPayload_layout (UsdtTrainingShellCaptureErrorPayload_fields v)"

definition UsdtTrainingShellCaptureErrorPayload_SIZE :: nat where "UsdtTrainingShellCaptureErrorPayload_SIZE = struct_size UsdtTrainingShellCaptureErrorPayload_layout"

lemma UsdtTrainingShellCaptureErrorPayload_SIZE [wire_simps]: "UsdtTrainingShellCaptureErrorPayload_SIZE = 8" by code_simp

lemma UsdtTrainingShellCaptureErrorPayload_fits: "fits UsdtTrainingShellCaptureErrorPayload_layout (UsdtTrainingShellCaptureErrorPayload_fields v)"
  by (simp add: UsdtTrainingShellCaptureErrorPayload_layout_def UsdtTrainingShellCaptureErrorPayload_fields_def ctype_defs wire_simps)

lemma UsdtTrainingShellCaptureErrorPayload_names: "map fst UsdtTrainingShellCaptureErrorPayload_layout =
     [''attach_point_id'', ''field_id'', ''read_error_code'', ''_pad'']"
  by (simp add: UsdtTrainingShellCaptureErrorPayload_layout_def)

lemma UsdtTrainingShellCaptureErrorPayload_read: "read_UsdtTrainingShellCaptureErrorPayload (UsdtTrainingShellCaptureErrorPayload_bytes pad v @ rest) = v"
  by (simp add: read_UsdtTrainingShellCaptureErrorPayload_def UsdtTrainingShellCaptureErrorPayload_bytes_def Let_def
      field_of_struct[OF UsdtTrainingShellCaptureErrorPayload_fits] UsdtTrainingShellCaptureErrorPayload_names)
    (simp add: UsdtTrainingShellCaptureErrorPayload_fields_def wire_simps)

interpretation uce_wire: wire_struct read_UsdtTrainingShellCaptureErrorPayload UsdtTrainingShellCaptureErrorPayload_bytes "(\<lambda>_. True)" UsdtTrainingShellCaptureErrorPayload_SIZE
  by unfold_locales (simp_all add: UsdtTrainingShellCaptureErrorPayload_bytes_def UsdtTrainingShellCaptureErrorPayload_SIZE_def length_struct_bytes UsdtTrainingShellCaptureErrorPayload_fits
      UsdtTrainingShellCaptureErrorPayload_read[unfolded UsdtTrainingShellCaptureErrorPayload_bytes_def])

section \<open>UsdtTrainingPeerPayload\<close>

record UsdtTrainingPeerPayload =
  upe_attach_point_id :: "32 word"
  upe_task_id :: "64 word"
  upe_result :: "32 word"

definition UsdtTrainingPeerPayload_layout :: layout where
  "UsdtTrainingPeerPayload_layout =
     [(''attach_point_id'', u32), (''_pad'', u32), (''task_id'', u64), (''result'', u32),
      (''_pad2'', u32)]"

definition read_UsdtTrainingPeerPayload :: "bytes \<Rightarrow> UsdtTrainingPeerPayload" where
  "read_UsdtTrainingPeerPayload bs = (let fld = (\<lambda>f. field UsdtTrainingPeerPayload_layout f bs) in
     \<lparr>upe_attach_point_id = le_word (fld ''attach_point_id''),
      upe_task_id = le_word (fld ''task_id''), upe_result = le_word (fld ''result'')\<rparr>)"

definition UsdtTrainingPeerPayload_fields :: "UsdtTrainingPeerPayload \<Rightarrow> bytes list" where
  "UsdtTrainingPeerPayload_fields v =
     [le_bytes 4 (unat (upe_attach_point_id v)), le_bytes 4 0,
      le_bytes 8 (unat (upe_task_id v)), le_bytes 4 (unat (upe_result v)), le_bytes 4 0]"

definition UsdtTrainingPeerPayload_bytes :: "(nat \<Rightarrow> byte) \<Rightarrow> UsdtTrainingPeerPayload \<Rightarrow> bytes" where
  "UsdtTrainingPeerPayload_bytes pad v = struct_bytes pad UsdtTrainingPeerPayload_layout (UsdtTrainingPeerPayload_fields v)"

definition UsdtTrainingPeerPayload_SIZE :: nat where "UsdtTrainingPeerPayload_SIZE = struct_size UsdtTrainingPeerPayload_layout"

lemma UsdtTrainingPeerPayload_SIZE [wire_simps]: "UsdtTrainingPeerPayload_SIZE = 24" by code_simp

lemma UsdtTrainingPeerPayload_fits: "fits UsdtTrainingPeerPayload_layout (UsdtTrainingPeerPayload_fields v)"
  by (simp add: UsdtTrainingPeerPayload_layout_def UsdtTrainingPeerPayload_fields_def ctype_defs wire_simps)

lemma UsdtTrainingPeerPayload_names: "map fst UsdtTrainingPeerPayload_layout =
     [''attach_point_id'', ''_pad'', ''task_id'', ''result'', ''_pad2'']"
  by (simp add: UsdtTrainingPeerPayload_layout_def)

lemma UsdtTrainingPeerPayload_read: "read_UsdtTrainingPeerPayload (UsdtTrainingPeerPayload_bytes pad v @ rest) = v"
  by (simp add: read_UsdtTrainingPeerPayload_def UsdtTrainingPeerPayload_bytes_def Let_def
      field_of_struct[OF UsdtTrainingPeerPayload_fits] UsdtTrainingPeerPayload_names)
    (simp add: UsdtTrainingPeerPayload_fields_def wire_simps)

interpretation upe_wire: wire_struct read_UsdtTrainingPeerPayload UsdtTrainingPeerPayload_bytes "(\<lambda>_. True)" UsdtTrainingPeerPayload_SIZE
  by unfold_locales (simp_all add: UsdtTrainingPeerPayload_bytes_def UsdtTrainingPeerPayload_SIZE_def length_struct_bytes UsdtTrainingPeerPayload_fits
      UsdtTrainingPeerPayload_read[unfolded UsdtTrainingPeerPayload_bytes_def])

section \<open>OpenatPayload\<close>

record OpenatPayload =
  oa_flags :: "32 word"
  oa_mode :: "32 word"
  oa_filename_len :: "16 word"
  oa_capture_version :: "byte"
  oa_capture_flags :: "byte"
  oa_return_code :: "32 word"
  oa_dirfd :: "32 word"
  oa_dev :: "64 word"
  oa_ino :: "64 word"

definition OpenatPayload_layout :: layout where
  "OpenatPayload_layout =
     [(''flags'', u32), (''mode'', u32), (''filename_len'', u16), (''capture_version'', u8),
      (''capture_flags'', u8), (''return_code'', u32), (''dirfd'', u32), (''dev'', u64),
      (''ino'', u64)]"

definition read_OpenatPayload :: "bytes \<Rightarrow> OpenatPayload" where
  "read_OpenatPayload bs = (let fld = (\<lambda>f. field OpenatPayload_layout f bs) in
     \<lparr>oa_flags = le_word (fld ''flags''), oa_mode = le_word (fld ''mode''),
      oa_filename_len = le_word (fld ''filename_len''),
      oa_capture_version = le_word (fld ''capture_version''),
      oa_capture_flags = le_word (fld ''capture_flags''),
      oa_return_code = le_word (fld ''return_code''), oa_dirfd = le_word (fld ''dirfd''),
      oa_dev = le_word (fld ''dev''), oa_ino = le_word (fld ''ino'')\<rparr>)"

definition OpenatPayload_fields :: "OpenatPayload \<Rightarrow> bytes list" where
  "OpenatPayload_fields v =
     [le_bytes 4 (unat (oa_flags v)), le_bytes 4 (unat (oa_mode v)),
      le_bytes 2 (unat (oa_filename_len v)), [oa_capture_version v], [oa_capture_flags v],
      le_bytes 4 (unat (oa_return_code v)), le_bytes 4 (unat (oa_dirfd v)),
      le_bytes 8 (unat (oa_dev v)), le_bytes 8 (unat (oa_ino v))]"

definition OpenatPayload_bytes :: "(nat \<Rightarrow> byte) \<Rightarrow> OpenatPayload \<Rightarrow> bytes" where
  "OpenatPayload_bytes pad v = struct_bytes pad OpenatPayload_layout (OpenatPayload_fields v)"

definition OpenatPayload_SIZE :: nat where "OpenatPayload_SIZE = struct_size OpenatPayload_layout"

lemma OpenatPayload_SIZE [wire_simps]: "OpenatPayload_SIZE = 40" by code_simp

lemma OpenatPayload_fits: "fits OpenatPayload_layout (OpenatPayload_fields v)"
  by (simp add: OpenatPayload_layout_def OpenatPayload_fields_def ctype_defs wire_simps)

lemma OpenatPayload_names: "map fst OpenatPayload_layout =
     [''flags'', ''mode'', ''filename_len'', ''capture_version'', ''capture_flags'',
      ''return_code'', ''dirfd'', ''dev'', ''ino'']"
  by (simp add: OpenatPayload_layout_def)

lemma OpenatPayload_read: "read_OpenatPayload (OpenatPayload_bytes pad v @ rest) = v"
  by (simp add: read_OpenatPayload_def OpenatPayload_bytes_def Let_def
      field_of_struct[OF OpenatPayload_fits] OpenatPayload_names)
    (simp add: OpenatPayload_fields_def wire_simps)

interpretation oa_wire: wire_struct read_OpenatPayload OpenatPayload_bytes "(\<lambda>_. True)" OpenatPayload_SIZE
  by unfold_locales (simp_all add: OpenatPayload_bytes_def OpenatPayload_SIZE_def length_struct_bytes OpenatPayload_fits
      OpenatPayload_read[unfolded OpenatPayload_bytes_def])

section \<open>ReadWritePayload\<close>

record ReadWritePayload =
  rw_fd :: "32 word"
  rw_fd_type :: "byte"
  rw_requested_size :: "64 word"
  rw_return_code :: "64 word"

definition ReadWritePayload_layout :: layout where
  "ReadWritePayload_layout =
     [(''fd'', u32), (''fd_type'', u8), (''_pad'', array_of 3 u8), (''requested_size'', u64),
      (''return_code'', u64)]"

definition read_ReadWritePayload :: "bytes \<Rightarrow> ReadWritePayload" where
  "read_ReadWritePayload bs = (let fld = (\<lambda>f. field ReadWritePayload_layout f bs) in
     \<lparr>rw_fd = le_word (fld ''fd''), rw_fd_type = le_word (fld ''fd_type''),
      rw_requested_size = le_word (fld ''requested_size''),
      rw_return_code = le_word (fld ''return_code'')\<rparr>)"

definition ReadWritePayload_fields :: "ReadWritePayload \<Rightarrow> bytes list" where
  "ReadWritePayload_fields v =
     [le_bytes 4 (unat (rw_fd v)), [rw_fd_type v], le_bytes 3 0,
      le_bytes 8 (unat (rw_requested_size v)), le_bytes 8 (unat (rw_return_code v))]"

definition ReadWritePayload_bytes :: "(nat \<Rightarrow> byte) \<Rightarrow> ReadWritePayload \<Rightarrow> bytes" where
  "ReadWritePayload_bytes pad v = struct_bytes pad ReadWritePayload_layout (ReadWritePayload_fields v)"

definition ReadWritePayload_SIZE :: nat where "ReadWritePayload_SIZE = struct_size ReadWritePayload_layout"

lemma ReadWritePayload_SIZE [wire_simps]: "ReadWritePayload_SIZE = 24" by code_simp

lemma ReadWritePayload_fits: "fits ReadWritePayload_layout (ReadWritePayload_fields v)"
  by (simp add: ReadWritePayload_layout_def ReadWritePayload_fields_def ctype_defs wire_simps)

lemma ReadWritePayload_names: "map fst ReadWritePayload_layout =
     [''fd'', ''fd_type'', ''_pad'', ''requested_size'', ''return_code'']"
  by (simp add: ReadWritePayload_layout_def)

lemma ReadWritePayload_read: "read_ReadWritePayload (ReadWritePayload_bytes pad v @ rest) = v"
  by (simp add: read_ReadWritePayload_def ReadWritePayload_bytes_def Let_def
      field_of_struct[OF ReadWritePayload_fits] ReadWritePayload_names)
    (simp add: ReadWritePayload_fields_def wire_simps)

interpretation rw_wire: wire_struct read_ReadWritePayload ReadWritePayload_bytes "(\<lambda>_. True)" ReadWritePayload_SIZE
  by unfold_locales (simp_all add: ReadWritePayload_bytes_def ReadWritePayload_SIZE_def length_struct_bytes ReadWritePayload_fits
      ReadWritePayload_read[unfolded ReadWritePayload_bytes_def])

section \<open>ConnectBindPayload\<close>

record ConnectBindPayload =
  cb_family :: "16 word"
  cb_port :: "16 word"
  cb_addr_v4 :: "32 word"
  cb_addr_v6 :: "bytes"
  cb_return_code :: "32 word"

definition ConnectBindPayload_layout :: layout where
  "ConnectBindPayload_layout =
     [(''family'', u16), (''port'', u16), (''addr_v4'', u32), (''addr_v6'', array_of 16 u8),
      (''return_code'', u32)]"

definition read_ConnectBindPayload :: "bytes \<Rightarrow> ConnectBindPayload" where
  "read_ConnectBindPayload bs = (let fld = (\<lambda>f. field ConnectBindPayload_layout f bs) in
     \<lparr>cb_family = le_word (fld ''family''), cb_port = le_word (fld ''port''),
      cb_addr_v4 = le_word (fld ''addr_v4''), cb_addr_v6 = fld ''addr_v6'',
      cb_return_code = le_word (fld ''return_code'')\<rparr>)"

definition ConnectBindPayload_fields :: "ConnectBindPayload \<Rightarrow> bytes list" where
  "ConnectBindPayload_fields v =
     [le_bytes 2 (unat (cb_family v)), le_bytes 2 (unat (cb_port v)),
      le_bytes 4 (unat (cb_addr_v4 v)), cb_addr_v6 v, le_bytes 4 (unat (cb_return_code v))]"

definition ConnectBindPayload_bytes :: "(nat \<Rightarrow> byte) \<Rightarrow> ConnectBindPayload \<Rightarrow> bytes" where
  "ConnectBindPayload_bytes pad v = struct_bytes pad ConnectBindPayload_layout (ConnectBindPayload_fields v)"

definition wf_ConnectBindPayload :: "ConnectBindPayload \<Rightarrow> bool" where
  "wf_ConnectBindPayload v \<longleftrightarrow> length (cb_addr_v6 v) = 16"

definition ConnectBindPayload_SIZE :: nat where "ConnectBindPayload_SIZE = struct_size ConnectBindPayload_layout"

lemma ConnectBindPayload_SIZE [wire_simps]: "ConnectBindPayload_SIZE = 28" by code_simp

lemma ConnectBindPayload_fits: "wf_ConnectBindPayload v \<Longrightarrow> fits ConnectBindPayload_layout (ConnectBindPayload_fields v)"
  by (simp add: ConnectBindPayload_layout_def ConnectBindPayload_fields_def wf_ConnectBindPayload_def ctype_defs wire_simps)

lemma ConnectBindPayload_names: "map fst ConnectBindPayload_layout =
     [''family'', ''port'', ''addr_v4'', ''addr_v6'', ''return_code'']"
  by (simp add: ConnectBindPayload_layout_def)

lemma ConnectBindPayload_read: "wf_ConnectBindPayload v \<Longrightarrow> read_ConnectBindPayload (ConnectBindPayload_bytes pad v @ rest) = v"
  by (simp add: read_ConnectBindPayload_def ConnectBindPayload_bytes_def Let_def
      field_of_struct[OF ConnectBindPayload_fits] ConnectBindPayload_names)
    (simp add: ConnectBindPayload_fields_def wf_ConnectBindPayload_def wire_simps)

interpretation cb_wire: wire_struct read_ConnectBindPayload ConnectBindPayload_bytes "wf_ConnectBindPayload" ConnectBindPayload_SIZE
  by unfold_locales (simp_all add: ConnectBindPayload_bytes_def ConnectBindPayload_SIZE_def length_struct_bytes ConnectBindPayload_fits
      ConnectBindPayload_read[unfolded ConnectBindPayload_bytes_def])

section \<open>SocketPayload\<close>

record SocketPayload =
  so_domain :: "32 word"
  so_sock_type :: "32 word"
  so_protocol :: "32 word"
  so_return_code :: "32 word"

definition SocketPayload_layout :: layout where
  "SocketPayload_layout =
     [(''domain'', u32), (''sock_type'', u32), (''protocol'', u32), (''return_code'', u32)]"

definition read_SocketPayload :: "bytes \<Rightarrow> SocketPayload" where
  "read_SocketPayload bs = (let fld = (\<lambda>f. field SocketPayload_layout f bs) in
     \<lparr>so_domain = le_word (fld ''domain''), so_sock_type = le_word (fld ''sock_type''),
      so_protocol = le_word (fld ''protocol''), so_return_code = le_word (fld ''return_code'')\<rparr>)"

definition SocketPayload_fields :: "SocketPayload \<Rightarrow> bytes list" where
  "SocketPayload_fields v =
     [le_bytes 4 (unat (so_domain v)), le_bytes 4 (unat (so_sock_type v)),
      le_bytes 4 (unat (so_protocol v)), le_bytes 4 (unat (so_return_code v))]"

definition SocketPayload_bytes :: "(nat \<Rightarrow> byte) \<Rightarrow> SocketPayload \<Rightarrow> bytes" where
  "SocketPayload_bytes pad v = struct_bytes pad SocketPayload_layout (SocketPayload_fields v)"

definition SocketPayload_SIZE :: nat where "SocketPayload_SIZE = struct_size SocketPayload_layout"

lemma SocketPayload_SIZE [wire_simps]: "SocketPayload_SIZE = 16" by code_simp

lemma SocketPayload_fits: "fits SocketPayload_layout (SocketPayload_fields v)"
  by (simp add: SocketPayload_layout_def SocketPayload_fields_def ctype_defs wire_simps)

lemma SocketPayload_names: "map fst SocketPayload_layout =
     [''domain'', ''sock_type'', ''protocol'', ''return_code'']"
  by (simp add: SocketPayload_layout_def)

lemma SocketPayload_read: "read_SocketPayload (SocketPayload_bytes pad v @ rest) = v"
  by (simp add: read_SocketPayload_def SocketPayload_bytes_def Let_def
      field_of_struct[OF SocketPayload_fits] SocketPayload_names)
    (simp add: SocketPayload_fields_def wire_simps)

interpretation so_wire: wire_struct read_SocketPayload SocketPayload_bytes "(\<lambda>_. True)" SocketPayload_SIZE
  by unfold_locales (simp_all add: SocketPayload_bytes_def SocketPayload_SIZE_def length_struct_bytes SocketPayload_fits
      SocketPayload_read[unfolded SocketPayload_bytes_def])

section \<open>ClonePayload\<close>

record ClonePayload =
  cl_flags :: "64 word"
  cl_return_code :: "64 word"

definition ClonePayload_layout :: layout where
  "ClonePayload_layout =
     [(''flags'', u64), (''return_code'', u64)]"

definition read_ClonePayload :: "bytes \<Rightarrow> ClonePayload" where
  "read_ClonePayload bs = (let fld = (\<lambda>f. field ClonePayload_layout f bs) in
     \<lparr>cl_flags = le_word (fld ''flags''), cl_return_code = le_word (fld ''return_code'')\<rparr>)"

definition ClonePayload_fields :: "ClonePayload \<Rightarrow> bytes list" where
  "ClonePayload_fields v =
     [le_bytes 8 (unat (cl_flags v)), le_bytes 8 (unat (cl_return_code v))]"

definition ClonePayload_bytes :: "(nat \<Rightarrow> byte) \<Rightarrow> ClonePayload \<Rightarrow> bytes" where
  "ClonePayload_bytes pad v = struct_bytes pad ClonePayload_layout (ClonePayload_fields v)"

definition ClonePayload_SIZE :: nat where "ClonePayload_SIZE = struct_size ClonePayload_layout"

lemma ClonePayload_SIZE [wire_simps]: "ClonePayload_SIZE = 16" by code_simp

lemma ClonePayload_fits: "fits ClonePayload_layout (ClonePayload_fields v)"
  by (simp add: ClonePayload_layout_def ClonePayload_fields_def ctype_defs wire_simps)

lemma ClonePayload_names: "map fst ClonePayload_layout =
     [''flags'', ''return_code'']"
  by (simp add: ClonePayload_layout_def)

lemma ClonePayload_read: "read_ClonePayload (ClonePayload_bytes pad v @ rest) = v"
  by (simp add: read_ClonePayload_def ClonePayload_bytes_def Let_def
      field_of_struct[OF ClonePayload_fits] ClonePayload_names)
    (simp add: ClonePayload_fields_def wire_simps)

interpretation cl_wire: wire_struct read_ClonePayload ClonePayload_bytes "(\<lambda>_. True)" ClonePayload_SIZE
  by unfold_locales (simp_all add: ClonePayload_bytes_def ClonePayload_SIZE_def length_struct_bytes ClonePayload_fits
      ClonePayload_read[unfolded ClonePayload_bytes_def])

section \<open>ProcessForkPayload\<close>

record ProcessForkPayload =
  pf_parent_tgid :: "32 word"
  pf_child_tgid :: "32 word"
  pf_parent_start_boottime_ns :: "64 word"
  pf_child_start_boottime_ns :: "64 word"
  pf_clone_flags :: "64 word"

definition ProcessForkPayload_layout :: layout where
  "ProcessForkPayload_layout =
     [(''parent_tgid'', u32), (''child_tgid'', u32), (''parent_start_boottime_ns'', u64),
      (''child_start_boottime_ns'', u64), (''clone_flags'', u64)]"

definition read_ProcessForkPayload :: "bytes \<Rightarrow> ProcessForkPayload" where
  "read_ProcessForkPayload bs = (let fld = (\<lambda>f. field ProcessForkPayload_layout f bs) in
     \<lparr>pf_parent_tgid = le_word (fld ''parent_tgid''),
      pf_child_tgid = le_word (fld ''child_tgid''),
      pf_parent_start_boottime_ns = le_word (fld ''parent_start_boottime_ns''),
      pf_child_start_boottime_ns = le_word (fld ''child_start_boottime_ns''),
      pf_clone_flags = le_word (fld ''clone_flags'')\<rparr>)"

definition ProcessForkPayload_fields :: "ProcessForkPayload \<Rightarrow> bytes list" where
  "ProcessForkPayload_fields v =
     [le_bytes 4 (unat (pf_parent_tgid v)), le_bytes 4 (unat (pf_child_tgid v)),
      le_bytes 8 (unat (pf_parent_start_boottime_ns v)),
      le_bytes 8 (unat (pf_child_start_boottime_ns v)), le_bytes 8 (unat (pf_clone_flags v))]"

definition ProcessForkPayload_bytes :: "(nat \<Rightarrow> byte) \<Rightarrow> ProcessForkPayload \<Rightarrow> bytes" where
  "ProcessForkPayload_bytes pad v = struct_bytes pad ProcessForkPayload_layout (ProcessForkPayload_fields v)"

definition ProcessForkPayload_SIZE :: nat where "ProcessForkPayload_SIZE = struct_size ProcessForkPayload_layout"

lemma ProcessForkPayload_SIZE [wire_simps]: "ProcessForkPayload_SIZE = 32" by code_simp

lemma ProcessForkPayload_fits: "fits ProcessForkPayload_layout (ProcessForkPayload_fields v)"
  by (simp add: ProcessForkPayload_layout_def ProcessForkPayload_fields_def ctype_defs wire_simps)

lemma ProcessForkPayload_names: "map fst ProcessForkPayload_layout =
     [''parent_tgid'', ''child_tgid'', ''parent_start_boottime_ns'',
      ''child_start_boottime_ns'', ''clone_flags'']"
  by (simp add: ProcessForkPayload_layout_def)

lemma ProcessForkPayload_read: "read_ProcessForkPayload (ProcessForkPayload_bytes pad v @ rest) = v"
  by (simp add: read_ProcessForkPayload_def ProcessForkPayload_bytes_def Let_def
      field_of_struct[OF ProcessForkPayload_fits] ProcessForkPayload_names)
    (simp add: ProcessForkPayload_fields_def wire_simps)

interpretation pf_wire: wire_struct read_ProcessForkPayload ProcessForkPayload_bytes "(\<lambda>_. True)" ProcessForkPayload_SIZE
  by unfold_locales (simp_all add: ProcessForkPayload_bytes_def ProcessForkPayload_SIZE_def length_struct_bytes ProcessForkPayload_fits
      ProcessForkPayload_read[unfolded ProcessForkPayload_bytes_def])

section \<open>ProcessExitPayload\<close>

record ProcessExitPayload =
  pe_raw_status :: "32 word"

definition ProcessExitPayload_layout :: layout where
  "ProcessExitPayload_layout =
     [(''raw_status'', u32), (''_pad'', u32)]"

definition read_ProcessExitPayload :: "bytes \<Rightarrow> ProcessExitPayload" where
  "read_ProcessExitPayload bs = (let fld = (\<lambda>f. field ProcessExitPayload_layout f bs) in
     \<lparr>pe_raw_status = le_word (fld ''raw_status'')\<rparr>)"

definition ProcessExitPayload_fields :: "ProcessExitPayload \<Rightarrow> bytes list" where
  "ProcessExitPayload_fields v =
     [le_bytes 4 (unat (pe_raw_status v)), le_bytes 4 0]"

definition ProcessExitPayload_bytes :: "(nat \<Rightarrow> byte) \<Rightarrow> ProcessExitPayload \<Rightarrow> bytes" where
  "ProcessExitPayload_bytes pad v = struct_bytes pad ProcessExitPayload_layout (ProcessExitPayload_fields v)"

definition ProcessExitPayload_SIZE :: nat where "ProcessExitPayload_SIZE = struct_size ProcessExitPayload_layout"

lemma ProcessExitPayload_SIZE [wire_simps]: "ProcessExitPayload_SIZE = 8" by code_simp

lemma ProcessExitPayload_fits: "fits ProcessExitPayload_layout (ProcessExitPayload_fields v)"
  by (simp add: ProcessExitPayload_layout_def ProcessExitPayload_fields_def ctype_defs wire_simps)

lemma ProcessExitPayload_names: "map fst ProcessExitPayload_layout =
     [''raw_status'', ''_pad'']"
  by (simp add: ProcessExitPayload_layout_def)

lemma ProcessExitPayload_read: "read_ProcessExitPayload (ProcessExitPayload_bytes pad v @ rest) = v"
  by (simp add: read_ProcessExitPayload_def ProcessExitPayload_bytes_def Let_def
      field_of_struct[OF ProcessExitPayload_fits] ProcessExitPayload_names)
    (simp add: ProcessExitPayload_fields_def wire_simps)

interpretation pe_wire: wire_struct read_ProcessExitPayload ProcessExitPayload_bytes "(\<lambda>_. True)" ProcessExitPayload_SIZE
  by unfold_locales (simp_all add: ProcessExitPayload_bytes_def ProcessExitPayload_SIZE_def length_struct_bytes ProcessExitPayload_fits
      ProcessExitPayload_read[unfolded ProcessExitPayload_bytes_def])

section \<open>SignalGeneratePayload\<close>

record SignalGeneratePayload =
  sg_target_tgid :: "32 word"
  sg_signal :: "32 word"
  sg_target_start_boottime_ns :: "64 word"
  sg_group :: "32 word"
  sg_result :: "32 word"

definition SignalGeneratePayload_layout :: layout where
  "SignalGeneratePayload_layout =
     [(''target_tgid'', u32), (''signal'', u32), (''target_start_boottime_ns'', u64),
      (''group'', u32), (''result'', u32)]"

definition read_SignalGeneratePayload :: "bytes \<Rightarrow> SignalGeneratePayload" where
  "read_SignalGeneratePayload bs = (let fld = (\<lambda>f. field SignalGeneratePayload_layout f bs) in
     \<lparr>sg_target_tgid = le_word (fld ''target_tgid''), sg_signal = le_word (fld ''signal''),
      sg_target_start_boottime_ns = le_word (fld ''target_start_boottime_ns''),
      sg_group = le_word (fld ''group''), sg_result = le_word (fld ''result'')\<rparr>)"

definition SignalGeneratePayload_fields :: "SignalGeneratePayload \<Rightarrow> bytes list" where
  "SignalGeneratePayload_fields v =
     [le_bytes 4 (unat (sg_target_tgid v)), le_bytes 4 (unat (sg_signal v)),
      le_bytes 8 (unat (sg_target_start_boottime_ns v)), le_bytes 4 (unat (sg_group v)),
      le_bytes 4 (unat (sg_result v))]"

definition SignalGeneratePayload_bytes :: "(nat \<Rightarrow> byte) \<Rightarrow> SignalGeneratePayload \<Rightarrow> bytes" where
  "SignalGeneratePayload_bytes pad v = struct_bytes pad SignalGeneratePayload_layout (SignalGeneratePayload_fields v)"

definition SignalGeneratePayload_SIZE :: nat where "SignalGeneratePayload_SIZE = struct_size SignalGeneratePayload_layout"

lemma SignalGeneratePayload_SIZE [wire_simps]: "SignalGeneratePayload_SIZE = 24" by code_simp

lemma SignalGeneratePayload_fits: "fits SignalGeneratePayload_layout (SignalGeneratePayload_fields v)"
  by (simp add: SignalGeneratePayload_layout_def SignalGeneratePayload_fields_def ctype_defs wire_simps)

lemma SignalGeneratePayload_names: "map fst SignalGeneratePayload_layout =
     [''target_tgid'', ''signal'', ''target_start_boottime_ns'', ''group'', ''result'']"
  by (simp add: SignalGeneratePayload_layout_def)

lemma SignalGeneratePayload_read: "read_SignalGeneratePayload (SignalGeneratePayload_bytes pad v @ rest) = v"
  by (simp add: read_SignalGeneratePayload_def SignalGeneratePayload_bytes_def Let_def
      field_of_struct[OF SignalGeneratePayload_fits] SignalGeneratePayload_names)
    (simp add: SignalGeneratePayload_fields_def wire_simps)

interpretation sg_wire: wire_struct read_SignalGeneratePayload SignalGeneratePayload_bytes "(\<lambda>_. True)" SignalGeneratePayload_SIZE
  by unfold_locales (simp_all add: SignalGeneratePayload_bytes_def SignalGeneratePayload_SIZE_def length_struct_bytes SignalGeneratePayload_fits
      SignalGeneratePayload_read[unfolded SignalGeneratePayload_bytes_def])

section \<open>PathPayload\<close>

record PathPayload =
  pa_path_len :: "16 word"
  pa_return_code :: "32 word"

definition PathPayload_layout :: layout where
  "PathPayload_layout =
     [(''path_len'', u16), (''_pad'', array_of 2 u8), (''return_code'', u32)]"

definition read_PathPayload :: "bytes \<Rightarrow> PathPayload" where
  "read_PathPayload bs = (let fld = (\<lambda>f. field PathPayload_layout f bs) in
     \<lparr>pa_path_len = le_word (fld ''path_len''), pa_return_code = le_word (fld ''return_code'')\<rparr>)"

definition PathPayload_fields :: "PathPayload \<Rightarrow> bytes list" where
  "PathPayload_fields v =
     [le_bytes 2 (unat (pa_path_len v)), le_bytes 2 0, le_bytes 4 (unat (pa_return_code v))]"

definition PathPayload_bytes :: "(nat \<Rightarrow> byte) \<Rightarrow> PathPayload \<Rightarrow> bytes" where
  "PathPayload_bytes pad v = struct_bytes pad PathPayload_layout (PathPayload_fields v)"

definition PathPayload_SIZE :: nat where "PathPayload_SIZE = struct_size PathPayload_layout"

lemma PathPayload_SIZE [wire_simps]: "PathPayload_SIZE = 8" by code_simp

lemma PathPayload_fits: "fits PathPayload_layout (PathPayload_fields v)"
  by (simp add: PathPayload_layout_def PathPayload_fields_def ctype_defs wire_simps)

lemma PathPayload_names: "map fst PathPayload_layout =
     [''path_len'', ''_pad'', ''return_code'']"
  by (simp add: PathPayload_layout_def)

lemma PathPayload_read: "read_PathPayload (PathPayload_bytes pad v @ rest) = v"
  by (simp add: read_PathPayload_def PathPayload_bytes_def Let_def
      field_of_struct[OF PathPayload_fits] PathPayload_names)
    (simp add: PathPayload_fields_def wire_simps)

interpretation pa_wire: wire_struct read_PathPayload PathPayload_bytes "(\<lambda>_. True)" PathPayload_SIZE
  by unfold_locales (simp_all add: PathPayload_bytes_def PathPayload_SIZE_def length_struct_bytes PathPayload_fits
      PathPayload_read[unfolded PathPayload_bytes_def])

section \<open>TwoPathPayload\<close>

record TwoPathPayload =
  tp_path1_len :: "16 word"
  tp_path2_len :: "16 word"
  tp_return_code :: "32 word"

definition TwoPathPayload_layout :: layout where
  "TwoPathPayload_layout =
     [(''path1_len'', u16), (''path2_len'', u16), (''return_code'', u32)]"

definition read_TwoPathPayload :: "bytes \<Rightarrow> TwoPathPayload" where
  "read_TwoPathPayload bs = (let fld = (\<lambda>f. field TwoPathPayload_layout f bs) in
     \<lparr>tp_path1_len = le_word (fld ''path1_len''), tp_path2_len = le_word (fld ''path2_len''),
      tp_return_code = le_word (fld ''return_code'')\<rparr>)"

definition TwoPathPayload_fields :: "TwoPathPayload \<Rightarrow> bytes list" where
  "TwoPathPayload_fields v =
     [le_bytes 2 (unat (tp_path1_len v)), le_bytes 2 (unat (tp_path2_len v)),
      le_bytes 4 (unat (tp_return_code v))]"

definition TwoPathPayload_bytes :: "(nat \<Rightarrow> byte) \<Rightarrow> TwoPathPayload \<Rightarrow> bytes" where
  "TwoPathPayload_bytes pad v = struct_bytes pad TwoPathPayload_layout (TwoPathPayload_fields v)"

definition TwoPathPayload_SIZE :: nat where "TwoPathPayload_SIZE = struct_size TwoPathPayload_layout"

lemma TwoPathPayload_SIZE [wire_simps]: "TwoPathPayload_SIZE = 8" by code_simp

lemma TwoPathPayload_fits: "fits TwoPathPayload_layout (TwoPathPayload_fields v)"
  by (simp add: TwoPathPayload_layout_def TwoPathPayload_fields_def ctype_defs wire_simps)

lemma TwoPathPayload_names: "map fst TwoPathPayload_layout =
     [''path1_len'', ''path2_len'', ''return_code'']"
  by (simp add: TwoPathPayload_layout_def)

lemma TwoPathPayload_read: "read_TwoPathPayload (TwoPathPayload_bytes pad v @ rest) = v"
  by (simp add: read_TwoPathPayload_def TwoPathPayload_bytes_def Let_def
      field_of_struct[OF TwoPathPayload_fits] TwoPathPayload_names)
    (simp add: TwoPathPayload_fields_def wire_simps)

interpretation tp_wire: wire_struct read_TwoPathPayload TwoPathPayload_bytes "(\<lambda>_. True)" TwoPathPayload_SIZE
  by unfold_locales (simp_all add: TwoPathPayload_bytes_def TwoPathPayload_SIZE_def length_struct_bytes TwoPathPayload_fits
      TwoPathPayload_read[unfolded TwoPathPayload_bytes_def])

section \<open>SendtoRecvfromPayload\<close>

record SendtoRecvfromPayload =
  sr_fd :: "32 word"
  sr_family :: "16 word"
  sr_port :: "16 word"
  sr_addr_v4 :: "32 word"
  sr_addr_v6 :: "bytes"
  sr_size :: "64 word"
  sr_return_code :: "64 word"

definition SendtoRecvfromPayload_layout :: layout where
  "SendtoRecvfromPayload_layout =
     [(''fd'', u32), (''family'', u16), (''port'', u16), (''addr_v4'', u32),
      (''addr_v6'', array_of 16 u8), (''size'', u64), (''return_code'', u64)]"

definition read_SendtoRecvfromPayload :: "bytes \<Rightarrow> SendtoRecvfromPayload" where
  "read_SendtoRecvfromPayload bs = (let fld = (\<lambda>f. field SendtoRecvfromPayload_layout f bs) in
     \<lparr>sr_fd = le_word (fld ''fd''), sr_family = le_word (fld ''family''),
      sr_port = le_word (fld ''port''), sr_addr_v4 = le_word (fld ''addr_v4''),
      sr_addr_v6 = fld ''addr_v6'', sr_size = le_word (fld ''size''),
      sr_return_code = le_word (fld ''return_code'')\<rparr>)"

definition SendtoRecvfromPayload_fields :: "SendtoRecvfromPayload \<Rightarrow> bytes list" where
  "SendtoRecvfromPayload_fields v =
     [le_bytes 4 (unat (sr_fd v)), le_bytes 2 (unat (sr_family v)),
      le_bytes 2 (unat (sr_port v)), le_bytes 4 (unat (sr_addr_v4 v)), sr_addr_v6 v,
      le_bytes 8 (unat (sr_size v)), le_bytes 8 (unat (sr_return_code v))]"

definition SendtoRecvfromPayload_bytes :: "(nat \<Rightarrow> byte) \<Rightarrow> SendtoRecvfromPayload \<Rightarrow> bytes" where
  "SendtoRecvfromPayload_bytes pad v = struct_bytes pad SendtoRecvfromPayload_layout (SendtoRecvfromPayload_fields v)"

definition wf_SendtoRecvfromPayload :: "SendtoRecvfromPayload \<Rightarrow> bool" where
  "wf_SendtoRecvfromPayload v \<longleftrightarrow> length (sr_addr_v6 v) = 16"

definition SendtoRecvfromPayload_SIZE :: nat where "SendtoRecvfromPayload_SIZE = struct_size SendtoRecvfromPayload_layout"

lemma SendtoRecvfromPayload_SIZE [wire_simps]: "SendtoRecvfromPayload_SIZE = 48" by code_simp

lemma SendtoRecvfromPayload_fits: "wf_SendtoRecvfromPayload v \<Longrightarrow> fits SendtoRecvfromPayload_layout (SendtoRecvfromPayload_fields v)"
  by (simp add: SendtoRecvfromPayload_layout_def SendtoRecvfromPayload_fields_def wf_SendtoRecvfromPayload_def ctype_defs wire_simps)

lemma SendtoRecvfromPayload_names: "map fst SendtoRecvfromPayload_layout =
     [''fd'', ''family'', ''port'', ''addr_v4'', ''addr_v6'', ''size'', ''return_code'']"
  by (simp add: SendtoRecvfromPayload_layout_def)

lemma SendtoRecvfromPayload_read: "wf_SendtoRecvfromPayload v \<Longrightarrow> read_SendtoRecvfromPayload (SendtoRecvfromPayload_bytes pad v @ rest) = v"
  by (simp add: read_SendtoRecvfromPayload_def SendtoRecvfromPayload_bytes_def Let_def
      field_of_struct[OF SendtoRecvfromPayload_fits] SendtoRecvfromPayload_names)
    (simp add: SendtoRecvfromPayload_fields_def wf_SendtoRecvfromPayload_def wire_simps)

interpretation sr_wire: wire_struct read_SendtoRecvfromPayload SendtoRecvfromPayload_bytes "wf_SendtoRecvfromPayload" SendtoRecvfromPayload_SIZE
  by unfold_locales (simp_all add: SendtoRecvfromPayload_bytes_def SendtoRecvfromPayload_SIZE_def length_struct_bytes SendtoRecvfromPayload_fits
      SendtoRecvfromPayload_read[unfolded SendtoRecvfromPayload_bytes_def])

section \<open>FdPayload\<close>

record FdPayload =
  fdp_fd :: "32 word"
  fdp_return_code :: "32 word"

definition FdPayload_layout :: layout where
  "FdPayload_layout =
     [(''fd'', u32), (''return_code'', u32)]"

definition read_FdPayload :: "bytes \<Rightarrow> FdPayload" where
  "read_FdPayload bs = (let fld = (\<lambda>f. field FdPayload_layout f bs) in
     \<lparr>fdp_fd = le_word (fld ''fd''), fdp_return_code = le_word (fld ''return_code'')\<rparr>)"

definition FdPayload_fields :: "FdPayload \<Rightarrow> bytes list" where
  "FdPayload_fields v =
     [le_bytes 4 (unat (fdp_fd v)), le_bytes 4 (unat (fdp_return_code v))]"

definition FdPayload_bytes :: "(nat \<Rightarrow> byte) \<Rightarrow> FdPayload \<Rightarrow> bytes" where
  "FdPayload_bytes pad v = struct_bytes pad FdPayload_layout (FdPayload_fields v)"

definition FdPayload_SIZE :: nat where "FdPayload_SIZE = struct_size FdPayload_layout"

lemma FdPayload_SIZE [wire_simps]: "FdPayload_SIZE = 8" by code_simp

lemma FdPayload_fits: "fits FdPayload_layout (FdPayload_fields v)"
  by (simp add: FdPayload_layout_def FdPayload_fields_def ctype_defs wire_simps)

lemma FdPayload_names: "map fst FdPayload_layout =
     [''fd'', ''return_code'']"
  by (simp add: FdPayload_layout_def)

lemma FdPayload_read: "read_FdPayload (FdPayload_bytes pad v @ rest) = v"
  by (simp add: read_FdPayload_def FdPayload_bytes_def Let_def
      field_of_struct[OF FdPayload_fits] FdPayload_names)
    (simp add: FdPayload_fields_def wire_simps)

interpretation fdp_wire: wire_struct read_FdPayload FdPayload_bytes "(\<lambda>_. True)" FdPayload_SIZE
  by unfold_locales (simp_all add: FdPayload_bytes_def FdPayload_SIZE_def length_struct_bytes FdPayload_fits
      FdPayload_read[unfolded FdPayload_bytes_def])

section \<open>ListenPayload\<close>

record ListenPayload =
  li_fd :: "32 word"
  li_backlog :: "32 word"
  li_return_code :: "32 word"

definition ListenPayload_layout :: layout where
  "ListenPayload_layout =
     [(''fd'', u32), (''backlog'', u32), (''return_code'', u32)]"

definition read_ListenPayload :: "bytes \<Rightarrow> ListenPayload" where
  "read_ListenPayload bs = (let fld = (\<lambda>f. field ListenPayload_layout f bs) in
     \<lparr>li_fd = le_word (fld ''fd''), li_backlog = le_word (fld ''backlog''),
      li_return_code = le_word (fld ''return_code'')\<rparr>)"

definition ListenPayload_fields :: "ListenPayload \<Rightarrow> bytes list" where
  "ListenPayload_fields v =
     [le_bytes 4 (unat (li_fd v)), le_bytes 4 (unat (li_backlog v)),
      le_bytes 4 (unat (li_return_code v))]"

definition ListenPayload_bytes :: "(nat \<Rightarrow> byte) \<Rightarrow> ListenPayload \<Rightarrow> bytes" where
  "ListenPayload_bytes pad v = struct_bytes pad ListenPayload_layout (ListenPayload_fields v)"

definition ListenPayload_SIZE :: nat where "ListenPayload_SIZE = struct_size ListenPayload_layout"

lemma ListenPayload_SIZE [wire_simps]: "ListenPayload_SIZE = 12" by code_simp

lemma ListenPayload_fits: "fits ListenPayload_layout (ListenPayload_fields v)"
  by (simp add: ListenPayload_layout_def ListenPayload_fields_def ctype_defs wire_simps)

lemma ListenPayload_names: "map fst ListenPayload_layout =
     [''fd'', ''backlog'', ''return_code'']"
  by (simp add: ListenPayload_layout_def)

lemma ListenPayload_read: "read_ListenPayload (ListenPayload_bytes pad v @ rest) = v"
  by (simp add: read_ListenPayload_def ListenPayload_bytes_def Let_def
      field_of_struct[OF ListenPayload_fits] ListenPayload_names)
    (simp add: ListenPayload_fields_def wire_simps)

interpretation li_wire: wire_struct read_ListenPayload ListenPayload_bytes "(\<lambda>_. True)" ListenPayload_SIZE
  by unfold_locales (simp_all add: ListenPayload_bytes_def ListenPayload_SIZE_def length_struct_bytes ListenPayload_fits
      ListenPayload_read[unfolded ListenPayload_bytes_def])

section \<open>DupPayload\<close>

record DupPayload =
  du_oldfd :: "32 word"
  du_newfd :: "32 word"
  du_cloexec :: "byte"
  du_return_code :: "64 word"

definition DupPayload_layout :: layout where
  "DupPayload_layout =
     [(''oldfd'', u32), (''newfd'', u32), (''cloexec'', u8), (''_pad'', array_of 3 u8),
      (''return_code'', u64)]"

definition read_DupPayload :: "bytes \<Rightarrow> DupPayload" where
  "read_DupPayload bs = (let fld = (\<lambda>f. field DupPayload_layout f bs) in
     \<lparr>du_oldfd = le_word (fld ''oldfd''), du_newfd = le_word (fld ''newfd''),
      du_cloexec = le_word (fld ''cloexec''), du_return_code = le_word (fld ''return_code'')\<rparr>)"

definition DupPayload_fields :: "DupPayload \<Rightarrow> bytes list" where
  "DupPayload_fields v =
     [le_bytes 4 (unat (du_oldfd v)), le_bytes 4 (unat (du_newfd v)), [du_cloexec v],
      le_bytes 3 0, le_bytes 8 (unat (du_return_code v))]"

definition DupPayload_bytes :: "(nat \<Rightarrow> byte) \<Rightarrow> DupPayload \<Rightarrow> bytes" where
  "DupPayload_bytes pad v = struct_bytes pad DupPayload_layout (DupPayload_fields v)"

definition DupPayload_SIZE :: nat where "DupPayload_SIZE = struct_size DupPayload_layout"

lemma DupPayload_SIZE [wire_simps]: "DupPayload_SIZE = 24" by code_simp

lemma DupPayload_fits: "fits DupPayload_layout (DupPayload_fields v)"
  by (simp add: DupPayload_layout_def DupPayload_fields_def ctype_defs wire_simps)

lemma DupPayload_names: "map fst DupPayload_layout =
     [''oldfd'', ''newfd'', ''cloexec'', ''_pad'', ''return_code'']"
  by (simp add: DupPayload_layout_def)

lemma DupPayload_read: "read_DupPayload (DupPayload_bytes pad v @ rest) = v"
  by (simp add: read_DupPayload_def DupPayload_bytes_def Let_def
      field_of_struct[OF DupPayload_fits] DupPayload_names)
    (simp add: DupPayload_fields_def wire_simps)

interpretation du_wire: wire_struct read_DupPayload DupPayload_bytes "(\<lambda>_. True)" DupPayload_SIZE
  by unfold_locales (simp_all add: DupPayload_bytes_def DupPayload_SIZE_def length_struct_bytes DupPayload_fits
      DupPayload_read[unfolded DupPayload_bytes_def])

section \<open>PreadPwritePayload\<close>

record PreadPwritePayload =
  pp_fd :: "32 word"
  pp_fd_type :: "byte"
  pp_requested_size :: "64 word"
  pp_offset :: "64 word"
  pp_return_code :: "64 word"

definition PreadPwritePayload_layout :: layout where
  "PreadPwritePayload_layout =
     [(''fd'', u32), (''fd_type'', u8), (''_pad'', array_of 3 u8), (''requested_size'', u64),
      (''offset'', u64), (''return_code'', u64)]"

definition read_PreadPwritePayload :: "bytes \<Rightarrow> PreadPwritePayload" where
  "read_PreadPwritePayload bs = (let fld = (\<lambda>f. field PreadPwritePayload_layout f bs) in
     \<lparr>pp_fd = le_word (fld ''fd''), pp_fd_type = le_word (fld ''fd_type''),
      pp_requested_size = le_word (fld ''requested_size''),
      pp_offset = le_word (fld ''offset''), pp_return_code = le_word (fld ''return_code'')\<rparr>)"

definition PreadPwritePayload_fields :: "PreadPwritePayload \<Rightarrow> bytes list" where
  "PreadPwritePayload_fields v =
     [le_bytes 4 (unat (pp_fd v)), [pp_fd_type v], le_bytes 3 0,
      le_bytes 8 (unat (pp_requested_size v)), le_bytes 8 (unat (pp_offset v)),
      le_bytes 8 (unat (pp_return_code v))]"

definition PreadPwritePayload_bytes :: "(nat \<Rightarrow> byte) \<Rightarrow> PreadPwritePayload \<Rightarrow> bytes" where
  "PreadPwritePayload_bytes pad v = struct_bytes pad PreadPwritePayload_layout (PreadPwritePayload_fields v)"

definition PreadPwritePayload_SIZE :: nat where "PreadPwritePayload_SIZE = struct_size PreadPwritePayload_layout"

lemma PreadPwritePayload_SIZE [wire_simps]: "PreadPwritePayload_SIZE = 32" by code_simp

lemma PreadPwritePayload_fits: "fits PreadPwritePayload_layout (PreadPwritePayload_fields v)"
  by (simp add: PreadPwritePayload_layout_def PreadPwritePayload_fields_def ctype_defs wire_simps)

lemma PreadPwritePayload_names: "map fst PreadPwritePayload_layout =
     [''fd'', ''fd_type'', ''_pad'', ''requested_size'', ''offset'', ''return_code'']"
  by (simp add: PreadPwritePayload_layout_def)

lemma PreadPwritePayload_read: "read_PreadPwritePayload (PreadPwritePayload_bytes pad v @ rest) = v"
  by (simp add: read_PreadPwritePayload_def PreadPwritePayload_bytes_def Let_def
      field_of_struct[OF PreadPwritePayload_fits] PreadPwritePayload_names)
    (simp add: PreadPwritePayload_fields_def wire_simps)

interpretation pp_wire: wire_struct read_PreadPwritePayload PreadPwritePayload_bytes "(\<lambda>_. True)" PreadPwritePayload_SIZE
  by unfold_locales (simp_all add: PreadPwritePayload_bytes_def PreadPwritePayload_SIZE_def length_struct_bytes PreadPwritePayload_fits
      PreadPwritePayload_read[unfolded PreadPwritePayload_bytes_def])

section \<open>ReadvWritevPayload\<close>

record ReadvWritevPayload =
  rv_fd :: "32 word"
  rv_fd_type :: "byte"
  rv_iov_truncated :: "byte"
  rv_iov_count :: "32 word"
  rv_requested_size :: "64 word"
  rv_return_code :: "64 word"

definition ReadvWritevPayload_layout :: layout where
  "ReadvWritevPayload_layout =
     [(''fd'', u32), (''fd_type'', u8), (''iov_truncated'', u8), (''_pad'', array_of 2 u8),
      (''iov_count'', u32), (''_pad2'', array_of 4 u8), (''requested_size'', u64),
      (''return_code'', u64)]"

definition read_ReadvWritevPayload :: "bytes \<Rightarrow> ReadvWritevPayload" where
  "read_ReadvWritevPayload bs = (let fld = (\<lambda>f. field ReadvWritevPayload_layout f bs) in
     \<lparr>rv_fd = le_word (fld ''fd''), rv_fd_type = le_word (fld ''fd_type''),
      rv_iov_truncated = le_word (fld ''iov_truncated''),
      rv_iov_count = le_word (fld ''iov_count''),
      rv_requested_size = le_word (fld ''requested_size''),
      rv_return_code = le_word (fld ''return_code'')\<rparr>)"

definition ReadvWritevPayload_fields :: "ReadvWritevPayload \<Rightarrow> bytes list" where
  "ReadvWritevPayload_fields v =
     [le_bytes 4 (unat (rv_fd v)), [rv_fd_type v], [rv_iov_truncated v], le_bytes 2 0,
      le_bytes 4 (unat (rv_iov_count v)), le_bytes 4 0,
      le_bytes 8 (unat (rv_requested_size v)), le_bytes 8 (unat (rv_return_code v))]"

definition ReadvWritevPayload_bytes :: "(nat \<Rightarrow> byte) \<Rightarrow> ReadvWritevPayload \<Rightarrow> bytes" where
  "ReadvWritevPayload_bytes pad v = struct_bytes pad ReadvWritevPayload_layout (ReadvWritevPayload_fields v)"

definition ReadvWritevPayload_SIZE :: nat where "ReadvWritevPayload_SIZE = struct_size ReadvWritevPayload_layout"

lemma ReadvWritevPayload_SIZE [wire_simps]: "ReadvWritevPayload_SIZE = 32" by code_simp

lemma ReadvWritevPayload_fits: "fits ReadvWritevPayload_layout (ReadvWritevPayload_fields v)"
  by (simp add: ReadvWritevPayload_layout_def ReadvWritevPayload_fields_def ctype_defs wire_simps)

lemma ReadvWritevPayload_names: "map fst ReadvWritevPayload_layout =
     [''fd'', ''fd_type'', ''iov_truncated'', ''_pad'', ''iov_count'', ''_pad2'',
      ''requested_size'', ''return_code'']"
  by (simp add: ReadvWritevPayload_layout_def)

lemma ReadvWritevPayload_read: "read_ReadvWritevPayload (ReadvWritevPayload_bytes pad v @ rest) = v"
  by (simp add: read_ReadvWritevPayload_def ReadvWritevPayload_bytes_def Let_def
      field_of_struct[OF ReadvWritevPayload_fits] ReadvWritevPayload_names)
    (simp add: ReadvWritevPayload_fields_def wire_simps)

interpretation rv_wire: wire_struct read_ReadvWritevPayload ReadvWritevPayload_bytes "(\<lambda>_. True)" ReadvWritevPayload_SIZE
  by unfold_locales (simp_all add: ReadvWritevPayload_bytes_def ReadvWritevPayload_SIZE_def length_struct_bytes ReadvWritevPayload_fits
      ReadvWritevPayload_read[unfolded ReadvWritevPayload_bytes_def])

section \<open>MmapPayload\<close>

record MmapPayload =
  mm_fd :: "32 word"
  mm_prot :: "32 word"
  mm_flags :: "32 word"
  mm_length :: "64 word"
  mm_offset :: "64 word"
  mm_dev :: "64 word"
  mm_ino :: "64 word"
  mm_return_code :: "64 word"

definition MmapPayload_layout :: layout where
  "MmapPayload_layout =
     [(''fd'', u32), (''prot'', u32), (''flags'', u32), (''_pad'', array_of 4 u8),
      (''length'', u64), (''offset'', u64), (''dev'', u64), (''ino'', u64),
      (''return_code'', u64)]"

definition read_MmapPayload :: "bytes \<Rightarrow> MmapPayload" where
  "read_MmapPayload bs = (let fld = (\<lambda>f. field MmapPayload_layout f bs) in
     \<lparr>mm_fd = le_word (fld ''fd''), mm_prot = le_word (fld ''prot''),
      mm_flags = le_word (fld ''flags''), mm_length = le_word (fld ''length''),
      mm_offset = le_word (fld ''offset''), mm_dev = le_word (fld ''dev''),
      mm_ino = le_word (fld ''ino''), mm_return_code = le_word (fld ''return_code'')\<rparr>)"

definition MmapPayload_fields :: "MmapPayload \<Rightarrow> bytes list" where
  "MmapPayload_fields v =
     [le_bytes 4 (unat (mm_fd v)), le_bytes 4 (unat (mm_prot v)),
      le_bytes 4 (unat (mm_flags v)), le_bytes 4 0, le_bytes 8 (unat (mm_length v)),
      le_bytes 8 (unat (mm_offset v)), le_bytes 8 (unat (mm_dev v)),
      le_bytes 8 (unat (mm_ino v)), le_bytes 8 (unat (mm_return_code v))]"

definition MmapPayload_bytes :: "(nat \<Rightarrow> byte) \<Rightarrow> MmapPayload \<Rightarrow> bytes" where
  "MmapPayload_bytes pad v = struct_bytes pad MmapPayload_layout (MmapPayload_fields v)"

definition MmapPayload_SIZE :: nat where "MmapPayload_SIZE = struct_size MmapPayload_layout"

lemma MmapPayload_SIZE [wire_simps]: "MmapPayload_SIZE = 56" by code_simp

lemma MmapPayload_fits: "fits MmapPayload_layout (MmapPayload_fields v)"
  by (simp add: MmapPayload_layout_def MmapPayload_fields_def ctype_defs wire_simps)

lemma MmapPayload_names: "map fst MmapPayload_layout =
     [''fd'', ''prot'', ''flags'', ''_pad'', ''length'', ''offset'', ''dev'', ''ino'',
      ''return_code'']"
  by (simp add: MmapPayload_layout_def)

lemma MmapPayload_read: "read_MmapPayload (MmapPayload_bytes pad v @ rest) = v"
  by (simp add: read_MmapPayload_def MmapPayload_bytes_def Let_def
      field_of_struct[OF MmapPayload_fits] MmapPayload_names)
    (simp add: MmapPayload_fields_def wire_simps)

interpretation mm_wire: wire_struct read_MmapPayload MmapPayload_bytes "(\<lambda>_. True)" MmapPayload_SIZE
  by unfold_locales (simp_all add: MmapPayload_bytes_def MmapPayload_SIZE_def length_struct_bytes MmapPayload_fits
      MmapPayload_read[unfolded MmapPayload_bytes_def])

section \<open>SendfileSplicePayload\<close>

record SendfileSplicePayload =
  ss_in_fd :: "32 word"
  ss_out_fd :: "32 word"
  ss_in_fd_type :: "byte"
  ss_out_fd_type :: "byte"
  ss_size :: "64 word"
  ss_return_code :: "64 word"

definition SendfileSplicePayload_layout :: layout where
  "SendfileSplicePayload_layout =
     [(''in_fd'', u32), (''out_fd'', u32), (''in_fd_type'', u8), (''out_fd_type'', u8),
      (''_pad'', array_of 6 u8), (''size'', u64), (''return_code'', u64)]"

definition read_SendfileSplicePayload :: "bytes \<Rightarrow> SendfileSplicePayload" where
  "read_SendfileSplicePayload bs = (let fld = (\<lambda>f. field SendfileSplicePayload_layout f bs) in
     \<lparr>ss_in_fd = le_word (fld ''in_fd''), ss_out_fd = le_word (fld ''out_fd''),
      ss_in_fd_type = le_word (fld ''in_fd_type''),
      ss_out_fd_type = le_word (fld ''out_fd_type''), ss_size = le_word (fld ''size''),
      ss_return_code = le_word (fld ''return_code'')\<rparr>)"

definition SendfileSplicePayload_fields :: "SendfileSplicePayload \<Rightarrow> bytes list" where
  "SendfileSplicePayload_fields v =
     [le_bytes 4 (unat (ss_in_fd v)), le_bytes 4 (unat (ss_out_fd v)), [ss_in_fd_type v],
      [ss_out_fd_type v], le_bytes 6 0, le_bytes 8 (unat (ss_size v)),
      le_bytes 8 (unat (ss_return_code v))]"

definition SendfileSplicePayload_bytes :: "(nat \<Rightarrow> byte) \<Rightarrow> SendfileSplicePayload \<Rightarrow> bytes" where
  "SendfileSplicePayload_bytes pad v = struct_bytes pad SendfileSplicePayload_layout (SendfileSplicePayload_fields v)"

definition SendfileSplicePayload_SIZE :: nat where "SendfileSplicePayload_SIZE = struct_size SendfileSplicePayload_layout"

lemma SendfileSplicePayload_SIZE [wire_simps]: "SendfileSplicePayload_SIZE = 32" by code_simp

lemma SendfileSplicePayload_fits: "fits SendfileSplicePayload_layout (SendfileSplicePayload_fields v)"
  by (simp add: SendfileSplicePayload_layout_def SendfileSplicePayload_fields_def ctype_defs wire_simps)

lemma SendfileSplicePayload_names: "map fst SendfileSplicePayload_layout =
     [''in_fd'', ''out_fd'', ''in_fd_type'', ''out_fd_type'', ''_pad'', ''size'',
      ''return_code'']"
  by (simp add: SendfileSplicePayload_layout_def)

lemma SendfileSplicePayload_read: "read_SendfileSplicePayload (SendfileSplicePayload_bytes pad v @ rest) = v"
  by (simp add: read_SendfileSplicePayload_def SendfileSplicePayload_bytes_def Let_def
      field_of_struct[OF SendfileSplicePayload_fits] SendfileSplicePayload_names)
    (simp add: SendfileSplicePayload_fields_def wire_simps)

interpretation ss_wire: wire_struct read_SendfileSplicePayload SendfileSplicePayload_bytes "(\<lambda>_. True)" SendfileSplicePayload_SIZE
  by unfold_locales (simp_all add: SendfileSplicePayload_bytes_def SendfileSplicePayload_SIZE_def length_struct_bytes SendfileSplicePayload_fits
      SendfileSplicePayload_read[unfolded SendfileSplicePayload_bytes_def])

section \<open>LsmFileOpenPayload\<close>

record LsmFileOpenPayload =
  lfo_path_len :: "16 word"
  lfo_return_code :: "32 word"

definition LsmFileOpenPayload_layout :: layout where
  "LsmFileOpenPayload_layout =
     [(''path_len'', u16), (''_pad'', array_of 2 u8), (''return_code'', u32)]"

definition read_LsmFileOpenPayload :: "bytes \<Rightarrow> LsmFileOpenPayload" where
  "read_LsmFileOpenPayload bs = (let fld = (\<lambda>f. field LsmFileOpenPayload_layout f bs) in
     \<lparr>lfo_path_len = le_word (fld ''path_len''), lfo_return_code = le_word (fld ''return_code'')\<rparr>)"

definition LsmFileOpenPayload_fields :: "LsmFileOpenPayload \<Rightarrow> bytes list" where
  "LsmFileOpenPayload_fields v =
     [le_bytes 2 (unat (lfo_path_len v)), le_bytes 2 0, le_bytes 4 (unat (lfo_return_code v))]"

definition LsmFileOpenPayload_bytes :: "(nat \<Rightarrow> byte) \<Rightarrow> LsmFileOpenPayload \<Rightarrow> bytes" where
  "LsmFileOpenPayload_bytes pad v = struct_bytes pad LsmFileOpenPayload_layout (LsmFileOpenPayload_fields v)"

definition LsmFileOpenPayload_SIZE :: nat where "LsmFileOpenPayload_SIZE = struct_size LsmFileOpenPayload_layout"

lemma LsmFileOpenPayload_SIZE [wire_simps]: "LsmFileOpenPayload_SIZE = 8" by code_simp

lemma LsmFileOpenPayload_fits: "fits LsmFileOpenPayload_layout (LsmFileOpenPayload_fields v)"
  by (simp add: LsmFileOpenPayload_layout_def LsmFileOpenPayload_fields_def ctype_defs wire_simps)

lemma LsmFileOpenPayload_names: "map fst LsmFileOpenPayload_layout =
     [''path_len'', ''_pad'', ''return_code'']"
  by (simp add: LsmFileOpenPayload_layout_def)

lemma LsmFileOpenPayload_read: "read_LsmFileOpenPayload (LsmFileOpenPayload_bytes pad v @ rest) = v"
  by (simp add: read_LsmFileOpenPayload_def LsmFileOpenPayload_bytes_def Let_def
      field_of_struct[OF LsmFileOpenPayload_fits] LsmFileOpenPayload_names)
    (simp add: LsmFileOpenPayload_fields_def wire_simps)

interpretation lfo_wire: wire_struct read_LsmFileOpenPayload LsmFileOpenPayload_bytes "(\<lambda>_. True)" LsmFileOpenPayload_SIZE
  by unfold_locales (simp_all add: LsmFileOpenPayload_bytes_def LsmFileOpenPayload_SIZE_def length_struct_bytes LsmFileOpenPayload_fits
      LsmFileOpenPayload_read[unfolded LsmFileOpenPayload_bytes_def])

section \<open>LsmTaskKillPayload\<close>

record LsmTaskKillPayload =
  ltk_target_pid :: "32 word"
  ltk_signal :: "32 word"
  ltk_target_start_boottime_ns :: "64 word"
  ltk_return_code :: "32 word"

definition LsmTaskKillPayload_layout :: layout where
  "LsmTaskKillPayload_layout =
     [(''target_pid'', u32), (''signal'', u32), (''target_start_boottime_ns'', u64),
      (''return_code'', u32), (''_pad'', u32)]"

definition read_LsmTaskKillPayload :: "bytes \<Rightarrow> LsmTaskKillPayload" where
  "read_LsmTaskKillPayload bs = (let fld = (\<lambda>f. field LsmTaskKillPayload_layout f bs) in
     \<lparr>ltk_target_pid = le_word (fld ''target_pid''), ltk_signal = le_word (fld ''signal''),
      ltk_target_start_boottime_ns = le_word (fld ''target_start_boottime_ns''),
      ltk_return_code = le_word (fld ''return_code'')\<rparr>)"

definition LsmTaskKillPayload_fields :: "LsmTaskKillPayload \<Rightarrow> bytes list" where
  "LsmTaskKillPayload_fields v =
     [le_bytes 4 (unat (ltk_target_pid v)), le_bytes 4 (unat (ltk_signal v)),
      le_bytes 8 (unat (ltk_target_start_boottime_ns v)),
      le_bytes 4 (unat (ltk_return_code v)), le_bytes 4 0]"

definition LsmTaskKillPayload_bytes :: "(nat \<Rightarrow> byte) \<Rightarrow> LsmTaskKillPayload \<Rightarrow> bytes" where
  "LsmTaskKillPayload_bytes pad v = struct_bytes pad LsmTaskKillPayload_layout (LsmTaskKillPayload_fields v)"

definition LsmTaskKillPayload_SIZE :: nat where "LsmTaskKillPayload_SIZE = struct_size LsmTaskKillPayload_layout"

lemma LsmTaskKillPayload_SIZE [wire_simps]: "LsmTaskKillPayload_SIZE = 24" by code_simp

lemma LsmTaskKillPayload_fits: "fits LsmTaskKillPayload_layout (LsmTaskKillPayload_fields v)"
  by (simp add: LsmTaskKillPayload_layout_def LsmTaskKillPayload_fields_def ctype_defs wire_simps)

lemma LsmTaskKillPayload_names: "map fst LsmTaskKillPayload_layout =
     [''target_pid'', ''signal'', ''target_start_boottime_ns'', ''return_code'', ''_pad'']"
  by (simp add: LsmTaskKillPayload_layout_def)

lemma LsmTaskKillPayload_read: "read_LsmTaskKillPayload (LsmTaskKillPayload_bytes pad v @ rest) = v"
  by (simp add: read_LsmTaskKillPayload_def LsmTaskKillPayload_bytes_def Let_def
      field_of_struct[OF LsmTaskKillPayload_fits] LsmTaskKillPayload_names)
    (simp add: LsmTaskKillPayload_fields_def wire_simps)

interpretation ltk_wire: wire_struct read_LsmTaskKillPayload LsmTaskKillPayload_bytes "(\<lambda>_. True)" LsmTaskKillPayload_SIZE
  by unfold_locales (simp_all add: LsmTaskKillPayload_bytes_def LsmTaskKillPayload_SIZE_def length_struct_bytes LsmTaskKillPayload_fits
      LsmTaskKillPayload_read[unfolded LsmTaskKillPayload_bytes_def])

section \<open>LsmBpfPayload\<close>

record LsmBpfPayload =
  lb_cmd :: "32 word"
  lb_return_code :: "32 word"

definition LsmBpfPayload_layout :: layout where
  "LsmBpfPayload_layout =
     [(''cmd'', u32), (''return_code'', u32)]"

definition read_LsmBpfPayload :: "bytes \<Rightarrow> LsmBpfPayload" where
  "read_LsmBpfPayload bs = (let fld = (\<lambda>f. field LsmBpfPayload_layout f bs) in
     \<lparr>lb_cmd = le_word (fld ''cmd''), lb_return_code = le_word (fld ''return_code'')\<rparr>)"

definition LsmBpfPayload_fields :: "LsmBpfPayload \<Rightarrow> bytes list" where
  "LsmBpfPayload_fields v =
     [le_bytes 4 (unat (lb_cmd v)), le_bytes 4 (unat (lb_return_code v))]"

definition LsmBpfPayload_bytes :: "(nat \<Rightarrow> byte) \<Rightarrow> LsmBpfPayload \<Rightarrow> bytes" where
  "LsmBpfPayload_bytes pad v = struct_bytes pad LsmBpfPayload_layout (LsmBpfPayload_fields v)"

definition LsmBpfPayload_SIZE :: nat where "LsmBpfPayload_SIZE = struct_size LsmBpfPayload_layout"

lemma LsmBpfPayload_SIZE [wire_simps]: "LsmBpfPayload_SIZE = 8" by code_simp

lemma LsmBpfPayload_fits: "fits LsmBpfPayload_layout (LsmBpfPayload_fields v)"
  by (simp add: LsmBpfPayload_layout_def LsmBpfPayload_fields_def ctype_defs wire_simps)

lemma LsmBpfPayload_names: "map fst LsmBpfPayload_layout =
     [''cmd'', ''return_code'']"
  by (simp add: LsmBpfPayload_layout_def)

lemma LsmBpfPayload_read: "read_LsmBpfPayload (LsmBpfPayload_bytes pad v @ rest) = v"
  by (simp add: read_LsmBpfPayload_def LsmBpfPayload_bytes_def Let_def
      field_of_struct[OF LsmBpfPayload_fits] LsmBpfPayload_names)
    (simp add: LsmBpfPayload_fields_def wire_simps)

interpretation lb_wire: wire_struct read_LsmBpfPayload LsmBpfPayload_bytes "(\<lambda>_. True)" LsmBpfPayload_SIZE
  by unfold_locales (simp_all add: LsmBpfPayload_bytes_def LsmBpfPayload_SIZE_def length_struct_bytes LsmBpfPayload_fits
      LsmBpfPayload_read[unfolded LsmBpfPayload_bytes_def])

section \<open>LsmPtracePayload\<close>

record LsmPtracePayload =
  lp_target_pid :: "32 word"
  lp_return_code :: "32 word"

definition LsmPtracePayload_layout :: layout where
  "LsmPtracePayload_layout =
     [(''target_pid'', u32), (''return_code'', u32)]"

definition read_LsmPtracePayload :: "bytes \<Rightarrow> LsmPtracePayload" where
  "read_LsmPtracePayload bs = (let fld = (\<lambda>f. field LsmPtracePayload_layout f bs) in
     \<lparr>lp_target_pid = le_word (fld ''target_pid''),
      lp_return_code = le_word (fld ''return_code'')\<rparr>)"

definition LsmPtracePayload_fields :: "LsmPtracePayload \<Rightarrow> bytes list" where
  "LsmPtracePayload_fields v =
     [le_bytes 4 (unat (lp_target_pid v)), le_bytes 4 (unat (lp_return_code v))]"

definition LsmPtracePayload_bytes :: "(nat \<Rightarrow> byte) \<Rightarrow> LsmPtracePayload \<Rightarrow> bytes" where
  "LsmPtracePayload_bytes pad v = struct_bytes pad LsmPtracePayload_layout (LsmPtracePayload_fields v)"

definition LsmPtracePayload_SIZE :: nat where "LsmPtracePayload_SIZE = struct_size LsmPtracePayload_layout"

lemma LsmPtracePayload_SIZE [wire_simps]: "LsmPtracePayload_SIZE = 8" by code_simp

lemma LsmPtracePayload_fits: "fits LsmPtracePayload_layout (LsmPtracePayload_fields v)"
  by (simp add: LsmPtracePayload_layout_def LsmPtracePayload_fields_def ctype_defs wire_simps)

lemma LsmPtracePayload_names: "map fst LsmPtracePayload_layout =
     [''target_pid'', ''return_code'']"
  by (simp add: LsmPtracePayload_layout_def)

lemma LsmPtracePayload_read: "read_LsmPtracePayload (LsmPtracePayload_bytes pad v @ rest) = v"
  by (simp add: read_LsmPtracePayload_def LsmPtracePayload_bytes_def Let_def
      field_of_struct[OF LsmPtracePayload_fits] LsmPtracePayload_names)
    (simp add: LsmPtracePayload_fields_def wire_simps)

interpretation lp_wire: wire_struct read_LsmPtracePayload LsmPtracePayload_bytes "(\<lambda>_. True)" LsmPtracePayload_SIZE
  by unfold_locales (simp_all add: LsmPtracePayload_bytes_def LsmPtracePayload_SIZE_def length_struct_bytes LsmPtracePayload_fits
      LsmPtracePayload_read[unfolded LsmPtracePayload_bytes_def])

section \<open>LsmSetuidPayload\<close>

record LsmSetuidPayload =
  lsu_old_uid :: "32 word"
  lsu_new_uid :: "32 word"
  lsu_old_gid :: "32 word"
  lsu_new_gid :: "32 word"
  lsu_return_code :: "32 word"

definition LsmSetuidPayload_layout :: layout where
  "LsmSetuidPayload_layout =
     [(''old_uid'', u32), (''new_uid'', u32), (''old_gid'', u32), (''new_gid'', u32),
      (''return_code'', u32)]"

definition read_LsmSetuidPayload :: "bytes \<Rightarrow> LsmSetuidPayload" where
  "read_LsmSetuidPayload bs = (let fld = (\<lambda>f. field LsmSetuidPayload_layout f bs) in
     \<lparr>lsu_old_uid = le_word (fld ''old_uid''), lsu_new_uid = le_word (fld ''new_uid''),
      lsu_old_gid = le_word (fld ''old_gid''), lsu_new_gid = le_word (fld ''new_gid''),
      lsu_return_code = le_word (fld ''return_code'')\<rparr>)"

definition LsmSetuidPayload_fields :: "LsmSetuidPayload \<Rightarrow> bytes list" where
  "LsmSetuidPayload_fields v =
     [le_bytes 4 (unat (lsu_old_uid v)), le_bytes 4 (unat (lsu_new_uid v)),
      le_bytes 4 (unat (lsu_old_gid v)), le_bytes 4 (unat (lsu_new_gid v)),
      le_bytes 4 (unat (lsu_return_code v))]"

definition LsmSetuidPayload_bytes :: "(nat \<Rightarrow> byte) \<Rightarrow> LsmSetuidPayload \<Rightarrow> bytes" where
  "LsmSetuidPayload_bytes pad v = struct_bytes pad LsmSetuidPayload_layout (LsmSetuidPayload_fields v)"

definition LsmSetuidPayload_SIZE :: nat where "LsmSetuidPayload_SIZE = struct_size LsmSetuidPayload_layout"

lemma LsmSetuidPayload_SIZE [wire_simps]: "LsmSetuidPayload_SIZE = 20" by code_simp

lemma LsmSetuidPayload_fits: "fits LsmSetuidPayload_layout (LsmSetuidPayload_fields v)"
  by (simp add: LsmSetuidPayload_layout_def LsmSetuidPayload_fields_def ctype_defs wire_simps)

lemma LsmSetuidPayload_names: "map fst LsmSetuidPayload_layout =
     [''old_uid'', ''new_uid'', ''old_gid'', ''new_gid'', ''return_code'']"
  by (simp add: LsmSetuidPayload_layout_def)

lemma LsmSetuidPayload_read: "read_LsmSetuidPayload (LsmSetuidPayload_bytes pad v @ rest) = v"
  by (simp add: read_LsmSetuidPayload_def LsmSetuidPayload_bytes_def Let_def
      field_of_struct[OF LsmSetuidPayload_fits] LsmSetuidPayload_names)
    (simp add: LsmSetuidPayload_fields_def wire_simps)

interpretation lsu_wire: wire_struct read_LsmSetuidPayload LsmSetuidPayload_bytes "(\<lambda>_. True)" LsmSetuidPayload_SIZE
  by unfold_locales (simp_all add: LsmSetuidPayload_bytes_def LsmSetuidPayload_SIZE_def length_struct_bytes LsmSetuidPayload_fits
      LsmSetuidPayload_read[unfolded LsmSetuidPayload_bytes_def])

section \<open>ExecViewPayload\<close>

record ExecViewPayload =
  ev_root_inode :: "64 word"
  ev_root_dev :: "32 word"
  ev_mount_namespace :: "32 word"
  ev_root_mount_id :: "32 word"
  ev_version :: "byte"
  ev_status :: "byte"

definition ExecViewPayload_layout :: layout where
  "ExecViewPayload_layout =
     [(''root_inode'', u64), (''root_dev'', u32), (''mount_namespace'', u32),
      (''root_mount_id'', u32), (''version'', u8), (''status'', u8), (''_pad'', array_of 2 u8)]"

definition read_ExecViewPayload :: "bytes \<Rightarrow> ExecViewPayload" where
  "read_ExecViewPayload bs = (let fld = (\<lambda>f. field ExecViewPayload_layout f bs) in
     \<lparr>ev_root_inode = le_word (fld ''root_inode''), ev_root_dev = le_word (fld ''root_dev''),
      ev_mount_namespace = le_word (fld ''mount_namespace''),
      ev_root_mount_id = le_word (fld ''root_mount_id''),
      ev_version = le_word (fld ''version''), ev_status = le_word (fld ''status'')\<rparr>)"

definition ExecViewPayload_fields :: "ExecViewPayload \<Rightarrow> bytes list" where
  "ExecViewPayload_fields v =
     [le_bytes 8 (unat (ev_root_inode v)), le_bytes 4 (unat (ev_root_dev v)),
      le_bytes 4 (unat (ev_mount_namespace v)), le_bytes 4 (unat (ev_root_mount_id v)),
      [ev_version v], [ev_status v], le_bytes 2 0]"

definition ExecViewPayload_bytes :: "(nat \<Rightarrow> byte) \<Rightarrow> ExecViewPayload \<Rightarrow> bytes" where
  "ExecViewPayload_bytes pad v = struct_bytes pad ExecViewPayload_layout (ExecViewPayload_fields v)"

definition ExecViewPayload_SIZE :: nat where "ExecViewPayload_SIZE = struct_size ExecViewPayload_layout"

lemma ExecViewPayload_SIZE [wire_simps]: "ExecViewPayload_SIZE = 24" by code_simp

lemma ExecViewPayload_fits: "fits ExecViewPayload_layout (ExecViewPayload_fields v)"
  by (simp add: ExecViewPayload_layout_def ExecViewPayload_fields_def ctype_defs wire_simps)

lemma ExecViewPayload_names: "map fst ExecViewPayload_layout =
     [''root_inode'', ''root_dev'', ''mount_namespace'', ''root_mount_id'', ''version'',
      ''status'', ''_pad'']"
  by (simp add: ExecViewPayload_layout_def)

lemma ExecViewPayload_read: "read_ExecViewPayload (ExecViewPayload_bytes pad v @ rest) = v"
  by (simp add: read_ExecViewPayload_def ExecViewPayload_bytes_def Let_def
      field_of_struct[OF ExecViewPayload_fits] ExecViewPayload_names)
    (simp add: ExecViewPayload_fields_def wire_simps)

interpretation ev_wire: wire_struct read_ExecViewPayload ExecViewPayload_bytes "(\<lambda>_. True)" ExecViewPayload_SIZE
  by unfold_locales (simp_all add: ExecViewPayload_bytes_def ExecViewPayload_SIZE_def length_struct_bytes ExecViewPayload_fits
      ExecViewPayload_read[unfolded ExecViewPayload_bytes_def])

end
