(* ===== verification/EventKinds.thy ===== *)
theory EventKinds
  imports Prelude
begin

text \<open>
  \<open>EventKind\<close> of \<open>bloodhound-common\<close>: the first byte of every ring-buffer
  record.  The wire numbers are a bijection between the variants and the bytes
  \<open>from_u8\<close> accepts, and the retired numbers stay outside it.
\<close>

section \<open>Event kinds\<close>

datatype (plugins only: code) EventKind =
    TtyRead | TtyWrite | Execve | Execveat | RawSyscall | Openat | Read | Write | Connect |
    Bind | Listen | Socket | Clone | Clone3 | Chdir | Fchdir | Unlink | Unlinkat | Rename |
    Renameat2 | Mkdir | Mkdirat | Rmdir | Symlink | Symlinkat | Link | Linkat | Chmod |
    Fchmod | Fchmodat | Chown | Fchown | Fchownat | Truncate | Ftruncate | Mount | Umount2 |
    Sendto | Recvfrom | Dup | Dup2 | Dup3 | Fcntl | Pread64 | Pwrite64 | Readv | Writev |
    Mmap | Sendfile | Splice | PacketIngress | PacketEgress | LsmFileOpen | LsmTaskKill |
    LsmBpf | LsmPtraceAccessCheck | LsmInodeUnlink | LsmInodeRename | LsmTaskFixSetuid |
    ProcessStart | ProcessFork | ProcessExit | SignalGenerate | ExecView |
    UsdtTrainingShellV3 | UsdtTrainingPeerV1 | UsdtTrainingShellV3CaptureError

primrec kind_byte :: "EventKind \<Rightarrow> byte" where
  "kind_byte TtyRead = 0"
| "kind_byte TtyWrite = 1"
| "kind_byte Execve = 2"
| "kind_byte Execveat = 3"
| "kind_byte RawSyscall = 10"
| "kind_byte Openat = 20"
| "kind_byte Read = 21"
| "kind_byte Write = 22"
| "kind_byte Connect = 23"
| "kind_byte Bind = 24"
| "kind_byte Listen = 25"
| "kind_byte Socket = 26"
| "kind_byte Clone = 27"
| "kind_byte Clone3 = 28"
| "kind_byte Chdir = 29"
| "kind_byte Fchdir = 30"
| "kind_byte Unlink = 31"
| "kind_byte Unlinkat = 32"
| "kind_byte Rename = 33"
| "kind_byte Renameat2 = 34"
| "kind_byte Mkdir = 35"
| "kind_byte Mkdirat = 36"
| "kind_byte Rmdir = 37"
| "kind_byte Symlink = 38"
| "kind_byte Symlinkat = 39"
| "kind_byte Link = 40"
| "kind_byte Linkat = 41"
| "kind_byte Chmod = 42"
| "kind_byte Fchmod = 43"
| "kind_byte Fchmodat = 44"
| "kind_byte Chown = 45"
| "kind_byte Fchown = 46"
| "kind_byte Fchownat = 47"
| "kind_byte Truncate = 48"
| "kind_byte Ftruncate = 49"
| "kind_byte Mount = 50"
| "kind_byte Umount2 = 51"
| "kind_byte Sendto = 52"
| "kind_byte Recvfrom = 53"
| "kind_byte Dup = 54"
| "kind_byte Dup2 = 55"
| "kind_byte Dup3 = 56"
| "kind_byte Fcntl = 57"
| "kind_byte Pread64 = 58"
| "kind_byte Pwrite64 = 59"
| "kind_byte Readv = 60"
| "kind_byte Writev = 61"
| "kind_byte Mmap = 62"
| "kind_byte Sendfile = 63"
| "kind_byte Splice = 64"
| "kind_byte PacketIngress = 100"
| "kind_byte PacketEgress = 101"
| "kind_byte LsmFileOpen = 200"
| "kind_byte LsmTaskKill = 201"
| "kind_byte LsmBpf = 202"
| "kind_byte LsmPtraceAccessCheck = 203"
| "kind_byte LsmInodeUnlink = 204"
| "kind_byte LsmInodeRename = 205"
| "kind_byte LsmTaskFixSetuid = 206"
| "kind_byte ProcessStart = 220"
| "kind_byte ProcessFork = 221"
| "kind_byte ProcessExit = 222"
| "kind_byte SignalGenerate = 223"
| "kind_byte ExecView = 224"
| "kind_byte UsdtTrainingShellV3 = 240"
| "kind_byte UsdtTrainingPeerV1 = 241"
| "kind_byte UsdtTrainingShellV3CaptureError = 242"

definition EventKind_ALL :: "EventKind list" where
  "EventKind_ALL =
     [TtyRead, TtyWrite, Execve, Execveat, RawSyscall, Openat, Read, Write, Connect, Bind,
      Listen, Socket, Clone, Clone3, Chdir, Fchdir, Unlink, Unlinkat, Rename, Renameat2, Mkdir,
      Mkdirat, Rmdir, Symlink, Symlinkat, Link, Linkat, Chmod, Fchmod, Fchmodat, Chown, Fchown,
      Fchownat, Truncate, Ftruncate, Mount, Umount2, Sendto, Recvfrom, Dup, Dup2, Dup3, Fcntl,
      Pread64, Pwrite64, Readv, Writev, Mmap, Sendfile, Splice, PacketIngress, PacketEgress,
      LsmFileOpen, LsmTaskKill, LsmBpf, LsmPtraceAccessCheck, LsmInodeUnlink, LsmInodeRename,
      LsmTaskFixSetuid, ProcessStart, ProcessFork, ProcessExit, SignalGenerate, ExecView,
      UsdtTrainingShellV3, UsdtTrainingPeerV1, UsdtTrainingShellV3CaptureError]"

text \<open>\<open>EventKind::from_u8\<close>: the match of the \<open>event_kinds!\<close> macro.\<close>

definition from_u8 :: "byte \<Rightarrow> EventKind option" where
  "from_u8 v = map_of (map (\<lambda>k. (kind_byte k, k)) EventKind_ALL) v"

definition EventKind_RESERVED :: "byte list" where
  "EventKind_RESERVED = [225, 226, 227]"

lemma EventKind_ALL_complete: "k \<in> set EventKind_ALL"
  by (cases k) (simp_all add: EventKind_ALL_def)

lemma kind_bytes_distinct: "distinct (map kind_byte EventKind_ALL)"
  by code_simp

lemma from_u8_kind_byte [simp]: "from_u8 (kind_byte k) = Some k"
  unfolding from_u8_def
  by (rule map_of_is_SomeI)
    (simp_all add: o_def kind_bytes_distinct image_iff EventKind_ALL_complete)

lemma from_u8_Some: "from_u8 v = Some k \<Longrightarrow> v = kind_byte k"
  unfolding from_u8_def by (auto dest!: map_of_SomeD)

lemma reserved_unknown: "v \<in> set EventKind_RESERVED \<Longrightarrow> from_u8 v = None"
proof -
  have "list_all (\<lambda>v. from_u8 v = None) EventKind_RESERVED" by code_simp
  then show "v \<in> set EventKind_RESERVED \<Longrightarrow> from_u8 v = None" by (simp add: list_all_iff)
qed

section \<open>Property\<close>

text \<open>
  Wire numbers and event kinds determine each other, and the retired
  numbers decode to nothing, so a record of a removed collector can never be
  taken for a current one.
\<close>

theorem from_u8_bijection:
  "(from_u8 v = Some k \<longleftrightarrow> v = kind_byte k) \<and>
   (v \<in> set EventKind_RESERVED \<longrightarrow> from_u8 v = None)"
  using from_u8_Some reserved_unknown by auto

theorem from_u8_bijection_witness:
  "(226 :: byte) \<in> set EventKind_RESERVED \<and> from_u8 226 = None \<and> from_u8 20 = Some Openat"
  using from_u8_bijection[of 226 Openat] from_u8_bijection[of 20 Openat]
  by (simp add: EventKind_RESERVED_def)

end
