(* ===== verification/Common.thy ===== *)
theory Common
  imports Wire EventKinds
begin

text \<open>
  The vocabulary of \<open>bloodhound-common\<close> besides the wire structs and the event kinds:
  capture statuses, syscall numbers and the two tables that decide which
  syscalls are captured raw, and the small decision functions shared by the BPF
  programs and the host (\<open>exit_claim.rs\<close>, \<open>syscall_collection.rs\<close>).
\<close>

named_theorems nr_defs \<open>syscall numbers\<close>

section \<open>Constants\<close>

definition MAX_ARGV_SIZE :: nat where "MAX_ARGV_SIZE = 4096"
definition MAX_PATH_SIZE :: nat where "MAX_PATH_SIZE = 4096"
definition MAX_TTY_DATA :: nat where "MAX_TTY_DATA = 4096"
definition COMM_SIZE :: nat where "COMM_SIZE = 16"

definition SYSCALL_ENTRY_CAPTURE_FAILED :: nat where "SYSCALL_ENTRY_CAPTURE_FAILED = 0"
definition SYSCALL_ENTRY_SAVE_FAILED :: nat where "SYSCALL_ENTRY_SAVE_FAILED = 1"
definition SYSCALL_EXIT_CAPTURE_FAILED :: nat where "SYSCALL_EXIT_CAPTURE_FAILED = 2"
definition SYSCALL_INVOCATION_INTERRUPTED :: nat where "SYSCALL_INVOCATION_INTERRUPTED = 3"
definition SYSCALL_ENTRY_CLEANUP_FAILED :: nat where "SYSCALL_ENTRY_CLEANUP_FAILED = 4"

definition SYSCALL_FAILURE_REASONS :: "string list" where
  "SYSCALL_FAILURE_REASONS = [''entry_capture_failed'', ''entry_save_failed'',
     ''exit_capture_failed'', ''invocation_interrupted'', ''entry_cleanup_failed'']"

definition OPENAT_FAILURE_REASONS :: "string list" where
  "OPENAT_FAILURE_REASONS = [''entry_capture_failed'', ''entry_save_failed'',
     ''exit_capture_failed'', ''invocation_interrupted'']"

definition DEV_VALID :: byte where "DEV_VALID = 1"
definition INO_VALID :: byte where "INO_VALID = 2"
definition PATH_COMPLETE :: byte where "PATH_COMPLETE = 4"
definition PATH_READ_FAILED :: byte where "PATH_READ_FAILED = 8"

definition FD_TYPE_REGULAR :: byte where "FD_TYPE_REGULAR = 0"
definition FD_TYPE_PIPE :: byte where "FD_TYPE_PIPE = 1"
definition FD_TYPE_SOCKET :: byte where "FD_TYPE_SOCKET = 2"
definition FD_TYPE_TTY :: byte where "FD_TYPE_TTY = 3"
definition FD_TYPE_OTHER :: byte where "FD_TYPE_OTHER = 4"

definition NS_STATUS_COMPLETE :: byte where "NS_STATUS_COMPLETE = 1"
definition NS_STATUS_UNSUPPORTED :: byte where "NS_STATUS_UNSUPPORTED = 2"
definition NS_STATUS_UNAVAILABLE :: byte where "NS_STATUS_UNAVAILABLE = 3"

definition MAX_IOV_TRAVERSE :: nat where "MAX_IOV_TRAVERSE = 8"
definition BITMAP_SIZE :: nat where "BITMAP_SIZE = 512"

lemmas capture_consts =
  MAX_ARGV_SIZE_def MAX_PATH_SIZE_def MAX_TTY_DATA_def COMM_SIZE_def
  DEV_VALID_def INO_VALID_def PATH_COMPLETE_def PATH_READ_FAILED_def

lemmas fd_type_consts =
  FD_TYPE_REGULAR_def FD_TYPE_PIPE_def FD_TYPE_SOCKET_def FD_TYPE_TTY_def FD_TYPE_OTHER_def

section \<open>Capture status\<close>

datatype CaptureStatus = Complete | Truncated | ReadError

primrec status_byte :: "CaptureStatus \<Rightarrow> byte" where
  "status_byte Complete = 1"
| "status_byte Truncated = 2"
| "status_byte ReadError = 3"

definition capture_status_try_from :: "byte \<Rightarrow> CaptureStatus option" where
  "capture_status_try_from v =
     (if v = status_byte Complete then Some Complete
      else if v = status_byte Truncated then Some Truncated
      else if v = status_byte ReadError then Some ReadError
      else None)"

lemma capture_status_inverse [simp]: "capture_status_try_from (status_byte s) = Some s"
  by (cases s) (simp_all add: capture_status_try_from_def)

lemma capture_status_zero [simp]: "capture_status_try_from 0 = None"
  by (simp add: capture_status_try_from_def)

lemma capture_status_Some: "capture_status_try_from v = Some s \<Longrightarrow> v = status_byte s"
  by (auto simp: capture_status_try_from_def split: if_splits)

section \<open>Syscall numbers and raw-capture tables\<close>

definition NR_FUTEX :: "64 word" where [nr_defs]: "NR_FUTEX = 202"
definition NR_CLOCK_GETTIME :: "64 word" where [nr_defs]: "NR_CLOCK_GETTIME = 228"
definition NR_CLOCK_NANOSLEEP :: "64 word" where [nr_defs]: "NR_CLOCK_NANOSLEEP = 230"
definition NR_GETTIMEOFDAY :: "64 word" where [nr_defs]: "NR_GETTIMEOFDAY = 96"
definition NR_NANOSLEEP :: "64 word" where [nr_defs]: "NR_NANOSLEEP = 35"
definition NR_EPOLL_WAIT :: "64 word" where [nr_defs]: "NR_EPOLL_WAIT = 232"
definition NR_EPOLL_PWAIT :: "64 word" where [nr_defs]: "NR_EPOLL_PWAIT = 281"
definition NR_POLL :: "64 word" where [nr_defs]: "NR_POLL = 7"
definition NR_PPOLL :: "64 word" where [nr_defs]: "NR_PPOLL = 271"
definition NR_SELECT :: "64 word" where [nr_defs]: "NR_SELECT = 23"
definition NR_PSELECT6 :: "64 word" where [nr_defs]: "NR_PSELECT6 = 270"
definition NR_SCHED_YIELD :: "64 word" where [nr_defs]: "NR_SCHED_YIELD = 24"
definition NR_RESTART_SYSCALL :: "64 word" where [nr_defs]: "NR_RESTART_SYSCALL = 219"
definition NR_EXECVE :: "64 word" where [nr_defs]: "NR_EXECVE = 59"
definition NR_EXECVEAT :: "64 word" where [nr_defs]: "NR_EXECVEAT = 322"
definition NR_OPENAT :: "64 word" where [nr_defs]: "NR_OPENAT = 257"
definition NR_READ :: "64 word" where [nr_defs]: "NR_READ = 0"
definition NR_WRITE :: "64 word" where [nr_defs]: "NR_WRITE = 1"
definition NR_CONNECT :: "64 word" where [nr_defs]: "NR_CONNECT = 42"
definition NR_BIND :: "64 word" where [nr_defs]: "NR_BIND = 49"
definition NR_LISTEN :: "64 word" where [nr_defs]: "NR_LISTEN = 50"
definition NR_SOCKET :: "64 word" where [nr_defs]: "NR_SOCKET = 41"
definition NR_CLONE :: "64 word" where [nr_defs]: "NR_CLONE = 56"
definition NR_CLONE3 :: "64 word" where [nr_defs]: "NR_CLONE3 = 435"
definition NR_CHDIR :: "64 word" where [nr_defs]: "NR_CHDIR = 80"
definition NR_FCHDIR :: "64 word" where [nr_defs]: "NR_FCHDIR = 81"
definition NR_UNLINK :: "64 word" where [nr_defs]: "NR_UNLINK = 87"
definition NR_UNLINKAT :: "64 word" where [nr_defs]: "NR_UNLINKAT = 263"
definition NR_RENAME :: "64 word" where [nr_defs]: "NR_RENAME = 82"
definition NR_RENAMEAT2 :: "64 word" where [nr_defs]: "NR_RENAMEAT2 = 316"
definition NR_MKDIR :: "64 word" where [nr_defs]: "NR_MKDIR = 83"
definition NR_MKDIRAT :: "64 word" where [nr_defs]: "NR_MKDIRAT = 258"
definition NR_RMDIR :: "64 word" where [nr_defs]: "NR_RMDIR = 84"
definition NR_SYMLINK :: "64 word" where [nr_defs]: "NR_SYMLINK = 88"
definition NR_SYMLINKAT :: "64 word" where [nr_defs]: "NR_SYMLINKAT = 266"
definition NR_LINK :: "64 word" where [nr_defs]: "NR_LINK = 86"
definition NR_LINKAT :: "64 word" where [nr_defs]: "NR_LINKAT = 265"
definition NR_CHMOD :: "64 word" where [nr_defs]: "NR_CHMOD = 90"
definition NR_FCHMOD :: "64 word" where [nr_defs]: "NR_FCHMOD = 91"
definition NR_FCHMODAT :: "64 word" where [nr_defs]: "NR_FCHMODAT = 268"
definition NR_CHOWN :: "64 word" where [nr_defs]: "NR_CHOWN = 92"
definition NR_FCHOWN :: "64 word" where [nr_defs]: "NR_FCHOWN = 93"
definition NR_FCHOWNAT :: "64 word" where [nr_defs]: "NR_FCHOWNAT = 260"
definition NR_TRUNCATE :: "64 word" where [nr_defs]: "NR_TRUNCATE = 76"
definition NR_FTRUNCATE :: "64 word" where [nr_defs]: "NR_FTRUNCATE = 77"
definition NR_MOUNT :: "64 word" where [nr_defs]: "NR_MOUNT = 165"
definition NR_UMOUNT2 :: "64 word" where [nr_defs]: "NR_UMOUNT2 = 166"
definition NR_SENDTO :: "64 word" where [nr_defs]: "NR_SENDTO = 44"
definition NR_RECVFROM :: "64 word" where [nr_defs]: "NR_RECVFROM = 45"
definition NR_DUP :: "64 word" where [nr_defs]: "NR_DUP = 32"
definition NR_DUP2 :: "64 word" where [nr_defs]: "NR_DUP2 = 33"
definition NR_DUP3 :: "64 word" where [nr_defs]: "NR_DUP3 = 292"
definition NR_FCNTL :: "64 word" where [nr_defs]: "NR_FCNTL = 72"
definition NR_PREAD64 :: "64 word" where [nr_defs]: "NR_PREAD64 = 17"
definition NR_PWRITE64 :: "64 word" where [nr_defs]: "NR_PWRITE64 = 18"
definition NR_READV :: "64 word" where [nr_defs]: "NR_READV = 19"
definition NR_WRITEV :: "64 word" where [nr_defs]: "NR_WRITEV = 20"
definition NR_MMAP :: "64 word" where [nr_defs]: "NR_MMAP = 9"
definition NR_SENDFILE :: "64 word" where [nr_defs]: "NR_SENDFILE = 40"
definition NR_SPLICE :: "64 word" where [nr_defs]: "NR_SPLICE = 275"
definition NR_EXIT :: "64 word" where [nr_defs]: "NR_EXIT = 60"
definition NR_EXIT_GROUP :: "64 word" where [nr_defs]: "NR_EXIT_GROUP = 231"

definition EXCLUDED_SYSCALLS :: "64 word list" where
  "EXCLUDED_SYSCALLS =
     [NR_FUTEX, NR_CLOCK_GETTIME, NR_CLOCK_NANOSLEEP, NR_GETTIMEOFDAY, NR_NANOSLEEP,
      NR_EPOLL_WAIT, NR_EPOLL_PWAIT, NR_POLL, NR_PPOLL, NR_SELECT, NR_PSELECT6, NR_SCHED_YIELD,
      NR_RESTART_SYSCALL]"

text \<open>Layer-2 collectors whose attachment suppresses the raw syscall.\<close>

definition EXEC_DEDUP :: "(64 word \<times> string) list" where
  "EXEC_DEDUP = [(NR_EXECVE, ''exec.execve'')]"

datatype Dedup = Dedup | NoDedup | OptIn

record Tier2 =
  t2_name :: string
  t2_tracepoint :: string
  t2_nr :: "64 word"
  t2_dedup :: Dedup

definition tier2 :: "string \<Rightarrow> string \<Rightarrow> 64 word \<Rightarrow> Dedup \<Rightarrow> Tier2" where
  "tier2 name tracepoint nr dedup =
     \<lparr>t2_name = name, t2_tracepoint = tracepoint, t2_nr = nr, t2_dedup = dedup\<rparr>"

definition TIER2 :: "Tier2 list" where
  "TIER2 =
     [tier2 ''openat'' ''openat'' NR_OPENAT Dedup,
      tier2 ''read'' ''read'' NR_READ Dedup,
      tier2 ''write'' ''write'' NR_WRITE Dedup,
      tier2 ''connect'' ''connect'' NR_CONNECT Dedup,
      tier2 ''bind'' ''bind'' NR_BIND Dedup,
      tier2 ''listen'' ''listen'' NR_LISTEN Dedup,
      tier2 ''socket'' ''socket'' NR_SOCKET Dedup,
      tier2 ''clone'' ''clone'' NR_CLONE Dedup,
      tier2 ''clone3'' ''clone3'' NR_CLONE3 Dedup,
      tier2 ''chdir'' ''chdir'' NR_CHDIR Dedup,
      tier2 ''fchdir'' ''fchdir'' NR_FCHDIR Dedup,
      tier2 ''unlink'' ''unlink'' NR_UNLINK Dedup,
      tier2 ''unlinkat'' ''unlinkat'' NR_UNLINKAT Dedup,
      tier2 ''rename'' ''rename'' NR_RENAME Dedup,
      tier2 ''renameat2'' ''renameat2'' NR_RENAMEAT2 Dedup,
      tier2 ''mkdir'' ''mkdir'' NR_MKDIR Dedup,
      tier2 ''mkdirat'' ''mkdirat'' NR_MKDIRAT Dedup,
      tier2 ''rmdir'' ''rmdir'' NR_RMDIR Dedup,
      tier2 ''symlink'' ''symlink'' NR_SYMLINK Dedup,
      tier2 ''symlinkat'' ''symlinkat'' NR_SYMLINKAT Dedup,
      tier2 ''link'' ''link'' NR_LINK Dedup,
      tier2 ''linkat'' ''linkat'' NR_LINKAT Dedup,
      tier2 ''chmod'' ''chmod'' NR_CHMOD Dedup,
      tier2 ''fchmod'' ''fchmod'' NR_FCHMOD Dedup,
      tier2 ''fchmodat'' ''fchmodat'' NR_FCHMODAT Dedup,
      tier2 ''chown'' ''chown'' NR_CHOWN Dedup,
      tier2 ''fchown'' ''fchown'' NR_FCHOWN Dedup,
      tier2 ''fchownat'' ''fchownat'' NR_FCHOWNAT Dedup,
      tier2 ''truncate'' ''truncate'' NR_TRUNCATE Dedup,
      tier2 ''ftruncate'' ''ftruncate'' NR_FTRUNCATE Dedup,
      tier2 ''mount'' ''mount'' NR_MOUNT Dedup,
      tier2 ''umount2'' ''umount'' NR_UMOUNT2 Dedup,
      tier2 ''sendto'' ''sendto'' NR_SENDTO Dedup,
      tier2 ''recvfrom'' ''recvfrom'' NR_RECVFROM Dedup,
      tier2 ''dup'' ''dup'' NR_DUP Dedup,
      tier2 ''dup2'' ''dup2'' NR_DUP2 Dedup,
      tier2 ''dup3'' ''dup3'' NR_DUP3 Dedup,
      tier2 ''pread64'' ''pread64'' NR_PREAD64 Dedup,
      tier2 ''pwrite64'' ''pwrite64'' NR_PWRITE64 Dedup,
      tier2 ''readv'' ''readv'' NR_READV Dedup,
      tier2 ''writev'' ''writev'' NR_WRITEV Dedup,
      tier2 ''mmap'' ''mmap'' NR_MMAP Dedup,
      tier2 ''fcntl'' ''fcntl'' NR_FCNTL NoDedup,
      tier2 ''sendfile'' ''sendfile64'' NR_SENDFILE OptIn,
      tier2 ''splice'' ''splice'' NR_SPLICE OptIn]"

definition F_DUPFD :: "32 word" where "F_DUPFD = 0"
definition F_DUPFD_CLOEXEC :: "32 word" where "F_DUPFD_CLOEXEC = 1030"
definition MAP_ANONYMOUS :: "32 word" where "MAP_ANONYMOUS = 0x20"
definition O_CLOEXEC :: "32 word" where "O_CLOEXEC = 0x80000"

lemmas tier2_table = TIER2_def tier2_def

lemma TIER2_numbers:
  "map (unat \<circ> t2_nr) TIER2 =
     [257, 0, 1, 42, 49, 50, 41, 56, 435, 80, 81, 87, 263, 82, 316, 83, 258, 84, 88, 266,
      86, 265, 90, 91, 268, 92, 93, 260, 76, 77, 165, 166, 44, 45, 32, 33, 292, 17, 18, 19,
      20, 9, 72, 40, 275]"
  by (simp add: tier2_table nr_defs)

lemma EXCLUDED_numbers:
  "map unat EXCLUDED_SYSCALLS =
     [202, 228, 230, 96, 35, 232, 281, 7, 271, 23, 270, 24, 219]"
  by (simp add: EXCLUDED_SYSCALLS_def nr_defs)

lemma TIER2_numbers_distinct: "distinct (map t2_nr TIER2)"
proof -
  have "distinct (map (unat \<circ> t2_nr) TIER2)"
    unfolding TIER2_numbers by simp
  then have "distinct (map unat (map t2_nr TIER2))" by simp
  then show ?thesis unfolding distinct_map[of unat] by blast
qed

lemma excluded_disjoint: "set (map t2_nr TIER2) \<inter> set EXCLUDED_SYSCALLS = {}"
proof -
  have "set (map (unat \<circ> t2_nr) TIER2) \<inter> set (map unat EXCLUDED_SYSCALLS) = {}"
    unfolding TIER2_numbers EXCLUDED_numbers by simp
  then show ?thesis by auto
qed

lemma tables_in_bitmap:
  "list_all (\<lambda>n. n < BITMAP_SIZE) (map (unat \<circ> t2_nr) TIER2)"
  "list_all (\<lambda>n. n < BITMAP_SIZE) (map unat EXCLUDED_SYSCALLS)"
  unfolding TIER2_numbers EXCLUDED_numbers by (simp_all add: BITMAP_SIZE_def)

section \<open>Process exit status and exit claims\<close>

definition select_process_exit_status :: "32 word \<Rightarrow> 32 word \<Rightarrow> 32 word" where
  "select_process_exit_status group_exit_status group_leader_status =
     (if group_exit_status \<noteq> 0 then group_exit_status else group_leader_status)"

record ExitClaimKey =
  eck_tgid :: "32 word"
  eck_padding :: "32 word"
  eck_start_boottime_ns :: "64 word"

definition exit_claim_key :: "32 word \<Rightarrow> 64 word \<Rightarrow> ExitClaimKey" where
  "exit_claim_key tgid start_boottime_ns =
     \<lparr>eck_tgid = tgid, eck_padding = 0, eck_start_boottime_ns = start_boottime_ns\<rparr>"

definition for_freed_task :: "32 word \<Rightarrow> 32 word \<Rightarrow> 64 word \<Rightarrow> ExitClaimKey option" where
  "for_freed_task pid tgid start =
     (if pid = tgid \<and> tgid \<noteq> 0 \<and> start \<noteq> 0 then Some (exit_claim_key tgid start) else None)"

datatype ClaimOutcome = Emit | Duplicate | Failed

text \<open>\<open>Result<(), i64>\<close> of a BPF map operation: the error is the negated errno.\<close>

type_synonym map_result = "int + unit"

definition claim_outcome :: "map_result \<Rightarrow> ClaimOutcome" where
  "claim_outcome result = (case result of
       Inr _ \<Rightarrow> Emit
     | Inl e \<Rightarrow> if e = - 17 then Duplicate else Failed)"

definition cleanup_failed :: "map_result \<Rightarrow> bool" where
  "cleanup_failed result = (case result of Inr _ \<Rightarrow> False | Inl e \<Rightarrow> e \<noteq> - 2)"

definition save_outcome :: "map_result \<Rightarrow> nat option" where
  "save_outcome result = (case result of
       Inr _ \<Rightarrow> None
     | Inl _ \<Rightarrow> Some SYSCALL_ENTRY_SAVE_FAILED)"

definition cleanup_outcome :: "map_result \<Rightarrow> nat option" where
  "cleanup_outcome result = (case result of
       Inr _ \<Rightarrow> None
     | Inl e \<Rightarrow> if e = - 2 then None else Some SYSCALL_ENTRY_CLEANUP_FAILED)"

lemma exit_claim_key_inject [simp]:
  "exit_claim_key t s = exit_claim_key t' s' \<longleftrightarrow> t = t' \<and> s = s'"
  by (simp add: exit_claim_key_def)

lemma claim_outcome_Emit [simp]: "claim_outcome r = Emit \<longleftrightarrow> r = Inr ()"
  by (cases r) (simp_all add: claim_outcome_def)

end
