(* ===== verification/Events.thy ===== *)
theory Events
  imports Text Common
begin

text \<open>
  The event types of \<open>bloodhound/src/deserializer.rs\<close> and the JSON value their
  derived \<open>Serialize\<close> implementations produce: optional fields are left out
  when absent, except the inode of a namespace slot, which is written as
  \<open>null\<close>.
\<close>

section \<open>Types\<close>

record NamespaceSlotJson =
  slot_status :: string
  slot_inode :: "32 word option"

record NamespaceSnapshotJson =
  nsj_mnt :: NamespaceSlotJson
  nsj_net :: NamespaceSlotJson
  nsj_uts :: NamespaceSlotJson
  nsj_ipc :: NamespaceSlotJson
  nsj_cgroup :: NamespaceSlotJson
  nsj_user :: NamespaceSlotJson
  nsj_pid :: NamespaceSlotJson

record ProcessRefJson =
  pr_tgid :: "32 word"
  pr_start_boottime_ns :: "64 word"

record EventHeaderJson =
  hj_timestamp :: "64 word"
  hj_auid :: "32 word"
  hj_sessionid :: "32 word"
  hj_pid :: "32 word"
  hj_ppid :: "32 word option"
  hj_comm :: string
  hj_process_ref :: "ProcessRefJson option"
  hj_tid :: "32 word option"
  hj_ns :: "NamespaceSnapshotJson option"

record EventTypeJson =
  et_type :: string
  et_name :: string
  et_layer :: string

record ProcInfo =
  pi_main_executable :: "string option"
  pi_cwd :: "string option"
  pi_tty :: "string option"

text \<open>\<open>return_code\<close> is an \<open>i64\<close>, held as the integer it denotes.\<close>

record BehaviorEvent =
  be_header :: EventHeaderJson
  be_event :: EventTypeJson
  be_proc :: "ProcInfo option"
  be_args :: "json option"
  be_return_code :: "int option"

datatype LifecycleSeedAuthority = Authoritative | NonAuthoritative

record DecodedBehaviorEvent =
  de_event :: BehaviorEvent
  de_lifecycle_seed_authority :: LifecycleSeedAuthority

section \<open>Namespace slots\<close>

definition namespace_slot :: "byte \<Rightarrow> 32 word \<Rightarrow> NamespaceSlotJson" where
  "namespace_slot status inum =
     (if status = NS_STATUS_COMPLETE \<and> inum \<noteq> 0
      then \<lparr>slot_status = ''complete'', slot_inode = Some inum\<rparr>
      else if status = NS_STATUS_UNSUPPORTED
      then \<lparr>slot_status = ''unsupported'', slot_inode = None\<rparr>
      else \<lparr>slot_status = ''unavailable'', slot_inode = None\<rparr>)"

definition namespace_snapshot :: "NsSnapshot \<Rightarrow> NamespaceSnapshotJson" where
  "namespace_snapshot snap =
     (let slot = (\<lambda>i. namespace_slot (ns_status snap ! i) (ns_inum snap ! i)) in
      \<lparr>nsj_mnt = slot 0, nsj_net = slot 1, nsj_uts = slot 2, nsj_ipc = slot 3,
       nsj_cgroup = slot 4, nsj_user = slot 5, nsj_pid = slot 6\<rparr>)"

lemma slot_inode_complete:
  "slot_inode (namespace_slot status inum) \<noteq> None \<longleftrightarrow>
     slot_status (namespace_slot status inum) = ''complete''"
  by (simp add: namespace_slot_def)

section \<open>Serialisation to JSON values\<close>

definition jopt :: "string \<Rightarrow> ('a \<Rightarrow> json) \<Rightarrow> 'a option \<Rightarrow> (string \<times> json) list" where
  "jopt k f x = (case x of None \<Rightarrow> [] | Some v \<Rightarrow> [(k, f v)])"

definition slot_json :: "NamespaceSlotJson \<Rightarrow> json" where
  "slot_json s = JObj [(''status'', JStr (slot_status s)),
     (''inode'', case slot_inode s of None \<Rightarrow> JNull | Some i \<Rightarrow> junum i)]"

definition ns_json :: "NamespaceSnapshotJson \<Rightarrow> json" where
  "ns_json n = JObj [(''mnt'', slot_json (nsj_mnt n)), (''net'', slot_json (nsj_net n)),
     (''uts'', slot_json (nsj_uts n)), (''ipc'', slot_json (nsj_ipc n)),
     (''cgroup'', slot_json (nsj_cgroup n)), (''user'', slot_json (nsj_user n)),
     (''pid'', slot_json (nsj_pid n))]"

definition process_ref_json :: "ProcessRefJson \<Rightarrow> json" where
  "process_ref_json r = JObj [(''tgid'', junum (pr_tgid r)),
     (''start_boottime_ns'', junum (pr_start_boottime_ns r))]"

definition header_json :: "EventHeaderJson \<Rightarrow> json" where
  "header_json h = JObj (
     [(''timestamp'', junum (hj_timestamp h)), (''auid'', junum (hj_auid h)),
      (''sessionid'', junum (hj_sessionid h)), (''pid'', junum (hj_pid h))]
     @ jopt ''ppid'' junum (hj_ppid h) @ [(''comm'', JStr (hj_comm h))]
     @ jopt ''process_ref'' process_ref_json (hj_process_ref h)
     @ jopt ''tid'' junum (hj_tid h) @ jopt ''ns'' ns_json (hj_ns h))"

definition event_type_json :: "EventTypeJson \<Rightarrow> json" where
  "event_type_json t = JObj [(''type'', JStr (et_type t)), (''name'', JStr (et_name t)),
     (''layer'', JStr (et_layer t))]"

definition proc_json :: "ProcInfo \<Rightarrow> json" where
  "proc_json p = JObj (jopt ''main_executable'' JStr (pi_main_executable p)
     @ jopt ''cwd'' JStr (pi_cwd p) @ jopt ''tty'' JStr (pi_tty p))"

definition behavior_event_json :: "BehaviorEvent \<Rightarrow> json" where
  "behavior_event_json e = JObj (
     [(''header'', header_json (be_header e)), (''event'', event_type_json (be_event e))]
     @ jopt ''proc'' proc_json (be_proc e) @ jopt ''args'' id (be_args e)
     @ jopt ''return_code'' JNum (be_return_code e))"

section \<open>Events without a task context\<close>

text \<open>The header every synthesised diagnostic and heartbeat carries.\<close>

definition synthetic_header :: "64 word \<Rightarrow> EventHeaderJson" where
  "synthetic_header now = \<lparr>hj_timestamp = now, hj_auid = 0, hj_sessionid = 0, hj_pid = 0,
     hj_ppid = None, hj_comm = [], hj_process_ref = None, hj_tid = None, hj_ns = None\<rparr>"

definition is_event :: "string \<Rightarrow> string \<Rightarrow> BehaviorEvent \<Rightarrow> bool" where
  "is_event ty nm e \<longleftrightarrow> et_type (be_event e) = ty \<and> et_name (be_event e) = nm"

end
