(* ===== verification/Usdt.thy ===== *)
theory Usdt
  imports Events
begin

text \<open>
  The USDT collectors of \<open>bloodhound/src/usdt.rs\<close>: the compiled-in registry,
  the strict parser of the selection file, the diagnostics, and the decoders of
  the collector-owned ring-buffer payloads.  The base64 encoder of the
  \<open>base64\<close> crate is the parameter \<open>b64\<close>.
\<close>

section \<open>Registry\<close>

datatype Architecture = X86_64

definition elf_machine :: "Architecture \<Rightarrow> 16 word" where
  "elf_machine a = (case a of X86_64 \<Rightarrow> 62)"

record FieldMetadata =
  fm_name :: string
  fm_source_type :: string
  fm_operand_form :: string
  fm_output_type :: string
  fm_maximum_size :: "nat option"
  fm_required :: bool

record CollectorMetadata =
  cm_id :: string
  cm_architecture :: Architecture
  cm_target_path :: string
  cm_build_ids :: "string list"
  cm_provider :: string
  cm_probe :: string
  cm_schema_version :: "16 word"
  cm_maximum_attach_points :: nat
  cm_operands :: string
  cm_fields :: "FieldMetadata list"

definition TRAINING_SHELL_V3_ID :: string where
  "TRAINING_SHELL_V3_ID = ''training-shell-v3''"

definition TRAINING_PEER_V1_ID :: string where
  "TRAINING_PEER_V1_ID = ''training-peer-v1''"

definition TRAINING_SHELL_COMMAND_NAME_LIMIT :: nat where
  "TRAINING_SHELL_COMMAND_NAME_LIMIT = 64"

definition field_metadata ::
  "string \<Rightarrow> string \<Rightarrow> string \<Rightarrow> string \<Rightarrow> nat option \<Rightarrow> FieldMetadata" where
  "field_metadata name source_type operand_form output_type maximum_size =
     \<lparr>fm_name = name, fm_source_type = source_type, fm_operand_form = operand_form,
      fm_output_type = output_type, fm_maximum_size = maximum_size, fm_required = True\<rparr>"

definition TRAINING_SHELL_FIELDS :: "FieldMetadata list" where
  "TRAINING_SHELL_FIELDS =
     [field_metadata ''shell_pid'' ''u32'' ''8@%rdi'' ''u32'' None,
      field_metadata ''command_id'' ''u64'' ''8@%rsi'' ''u64'' None,
      field_metadata ''command_kind'' ''enum'' ''8@%rdx'' ''enum'' None,
      field_metadata ''command_name'' ''utf8_pointer'' ''8@%rcx'' ''utf8'' (Some 64),
      field_metadata ''semantic_flags'' ''u32'' ''8@%r8'' ''enum'' None,
      field_metadata ''exit_status'' ''i32'' ''8@%r9'' ''i32'' None]"

definition TRAINING_PEER_FIELDS :: "FieldMetadata list" where
  "TRAINING_PEER_FIELDS =
     [field_metadata ''task_id'' ''u64'' ''8@%rdi'' ''u64'' None,
      field_metadata ''result'' ''enum'' ''8@%rsi'' ''enum'' None]"

definition REGISTRY :: "CollectorMetadata list" where
  "REGISTRY =
     [\<lparr>cm_id = TRAINING_SHELL_V3_ID, cm_architecture = X86_64,
       cm_target_path = ''/opt/bloodhound/usdt-fixtures/training-shell-v3'',
       cm_build_ids = [''11223344556677889900aabbccddeeff00112233''],
       cm_provider = ''abyss0_shell'', cm_probe = ''simple_command_completed'',
       cm_schema_version = 3, cm_maximum_attach_points = 8,
       cm_operands = ''8@%rdi 8@%rsi 8@%rdx 8@%rcx 8@%r8 8@%r9'',
       cm_fields = TRAINING_SHELL_FIELDS\<rparr>,
      \<lparr>cm_id = TRAINING_PEER_V1_ID, cm_architecture = X86_64,
       cm_target_path = ''/opt/bloodhound/usdt-fixtures/training-peer-v1'',
       cm_build_ids = [''44556677889900aabbccddeeff00112233445566''],
       cm_provider = ''abyss0_peer'', cm_probe = ''task_finished'',
       cm_schema_version = 1, cm_maximum_attach_points = 8,
       cm_operands = ''8@%rdi 8@%rsi'',
       cm_fields = TRAINING_PEER_FIELDS\<rparr>]"

definition collector :: "string \<Rightarrow> CollectorMetadata option" where
  "collector cid = find (\<lambda>candidate. cm_id candidate = cid) REGISTRY"

lemma collector_Some: "collector cid = Some m \<Longrightarrow> m \<in> set REGISTRY \<and> cm_id m = cid"
  by (auto simp: collector_def find_Some_iff in_set_conv_nth)

section \<open>Selections\<close>

record Selection =
  sel_collector_id :: string
  sel_enabled :: bool

text \<open>\<open>validate_selections\<close>: the first repeated identifier is the error.\<close>

fun validate_from :: "string list \<Rightarrow> Selection list \<Rightarrow> string + unit" where
  "validate_from ids [] = Ok ()"
| "validate_from ids (s # ss) =
     (if sel_collector_id s \<in> set ids then Err (sel_collector_id s)
      else validate_from (sel_collector_id s # ids) ss)"

definition validate_selections :: "Selection list \<Rightarrow> string + unit" where
  "validate_selections selections = validate_from [] selections"

lemma validate_from_Ok:
  "validate_from ids ss = Ok () \<longleftrightarrow>
     distinct (map sel_collector_id ss) \<and> set (map sel_collector_id ss) \<inter> set ids = {}"
  by (induction ids ss rule: validate_from.induct) auto

lemma validate_selections_Ok:
  "validate_selections ss = Ok () \<longleftrightarrow> distinct (map sel_collector_id ss)"
  by (simp add: validate_selections_def validate_from_Ok)

subsection \<open>Lines, trimming and splitting\<close>

text \<open>
  \<open>str::lines\<close> splits at newlines, drops one carriage return before each and
  yields nothing for the empty remainder; \<open>str::trim\<close> removes Unicode white
  space, given by its UTF-8 encodings.
\<close>

definition NEWLINE :: char where "NEWLINE = CHR 0x0A"
definition RETURN :: char where "RETURN = CHR 0x0D"

fun break_at :: "char \<Rightarrow> string \<Rightarrow> string \<times> string option" where
  "break_at c [] = ([], None)"
| "break_at c (x # xs) = (if x = c then ([], Some xs)
     else (case break_at c xs of (a, b) \<Rightarrow> (x # a, b)))"

definition split_once :: "char \<Rightarrow> string \<Rightarrow> (string \<times> string) option" where
  "split_once c s = (case break_at c s of (a, Some b) \<Rightarrow> Some (a, b) | (_, None) \<Rightarrow> None)"

definition strip_return :: "string \<Rightarrow> string" where
  "strip_return s = (if s \<noteq> [] \<and> last s = RETURN then butlast s else s)"

lemma break_at_shorter: "break_at c s = (a, Some b) \<Longrightarrow> length b < length s"
  by (induction s arbitrary: a) (fastforce split: if_splits prod.splits)+

function str_lines :: "string \<Rightarrow> string list" where
  "str_lines s = (if s = [] then []
     else (case break_at NEWLINE s of
         (a, Some b) \<Rightarrow> strip_return a # str_lines b
       | (a, None) \<Rightarrow> [a]))"
  by pat_completeness auto
termination
  by (relation "measure length") (auto dest: break_at_shorter[OF sym])

declare str_lines.simps [simp del]

definition WHITESPACE :: "string list" where
  "WHITESPACE = map (map (\<lambda>n. char_of (n :: nat)))
     ([[9], [10], [11], [12], [13], [32], [0xC2, 0x85], [0xC2, 0xA0], [0xE1, 0x9A, 0x80]]
      @ map (\<lambda>k. [0xE2, 0x80, 0x80 + k]) [0 ..< 11]
      @ [[0xE2, 0x80, 0xA8], [0xE2, 0x80, 0xA9], [0xE2, 0x80, 0xAF], [0xE2, 0x81, 0x9F],
         [0xE3, 0x80, 0x80]])"

lemma WHITESPACE_chars: "WHITESPACE =
  [[CHR 0x09], [CHR 0x0A], [CHR 0x0B], [CHR 0x0C], [CHR 0x0D], [CHR 0x20], [CHR 0xC2, CHR 0x85],
   [CHR 0xC2, CHR 0xA0], [CHR 0xE1, CHR 0x9A, CHR 0x80],
   [CHR 0xE2, CHR 0x80, CHR 0x80], [CHR 0xE2, CHR 0x80, CHR 0x81], [CHR 0xE2, CHR 0x80, CHR 0x82],
   [CHR 0xE2, CHR 0x80, CHR 0x83], [CHR 0xE2, CHR 0x80, CHR 0x84], [CHR 0xE2, CHR 0x80, CHR 0x85],
   [CHR 0xE2, CHR 0x80, CHR 0x86], [CHR 0xE2, CHR 0x80, CHR 0x87], [CHR 0xE2, CHR 0x80, CHR 0x88],
   [CHR 0xE2, CHR 0x80, CHR 0x89], [CHR 0xE2, CHR 0x80, CHR 0x8A],
   [CHR 0xE2, CHR 0x80, CHR 0xA8], [CHR 0xE2, CHR 0x80, CHR 0xA9], [CHR 0xE2, CHR 0x80, CHR 0xAF],
   [CHR 0xE2, CHR 0x81, CHR 0x9F], [CHR 0xE3, CHR 0x80, CHR 0x80]]"
  by code_simp

definition starts_with :: "string \<Rightarrow> string \<Rightarrow> bool" where
  "starts_with s w \<longleftrightarrow> take (length w) s = w"

fun trim_front :: "string list \<Rightarrow> nat \<Rightarrow> string \<Rightarrow> string" where
  "trim_front ws 0 s = s"
| "trim_front ws (Suc n) s = (case find (starts_with s) ws of
       None \<Rightarrow> s
     | Some w \<Rightarrow> trim_front ws n (drop (length w) s))"

definition trim_start :: "string \<Rightarrow> string" where
  "trim_start s = trim_front WHITESPACE (length s) s"

definition trim_end :: "string \<Rightarrow> string" where
  "trim_end s = rev (trim_front (map rev WHITESPACE) (length s) (rev s))"

definition trim :: "string \<Rightarrow> string" where
  "trim s = trim_end (trim_start s)"

definition strip_prefix_char :: "char \<Rightarrow> string \<Rightarrow> string option" where
  "strip_prefix_char c s = (case s of [] \<Rightarrow> None | x # xs \<Rightarrow> if x = c then Some xs else None)"

definition strip_suffix_char :: "char \<Rightarrow> string \<Rightarrow> string option" where
  "strip_suffix_char c s = (if s \<noteq> [] \<and> last s = c then Some (butlast s) else None)"

subsection \<open>The selection file\<close>

datatype selection_error =
    NotKeyValue nat
  | CollectorRepeated
  | CollectorNotQuoted
  | CollectorNotAnId
  | EnabledRepeated
  | EnabledNotBool
  | KeyNotPermitted string
  | MissingCollector
  | MissingEnabled
  | UnknownCollectorId string

definition QUOTE :: char where "QUOTE = CHR 0x22"

definition config_line :: "string \<Rightarrow> string" where
  "config_line raw_line = trim (case split_once (CHR ''#'') raw_line of
       None \<Rightarrow> raw_line
     | Some (before, _) \<Rightarrow> before)"

definition quoted :: "string \<Rightarrow> string option" where
  "quoted v = (case strip_prefix_char QUOTE v of
       None \<Rightarrow> None
     | Some v' \<Rightarrow> strip_suffix_char QUOTE v')"

definition path_char :: "char \<Rightarrow> bool" where
  "path_char ch \<longleftrightarrow> ch = CHR ''/'' \<or> ch = CHR 0x5C \<or> ch = CHR 0x00"

fun selection_line ::
  "nat \<Rightarrow> string \<Rightarrow> string option \<times> bool option \<Rightarrow>
     selection_error + (string option \<times> bool option)" where
  "selection_line line_no raw_line (collector_id, enabled) =
     (let line = config_line raw_line in
      if line = [] then Ok (collector_id, enabled)
      else (case split_once (CHR ''='') line of
          None \<Rightarrow> Err (NotKeyValue (line_no + 1))
        | Some (k, v) \<Rightarrow>
            (let key = trim k; value = trim v in
             if key = ''collector'' then
               (if collector_id \<noteq> None then Err CollectorRepeated
                else (case quoted value of
                    None \<Rightarrow> Err CollectorNotQuoted
                  | Some q \<Rightarrow>
                      if q = [] \<or> list_ex path_char q then Err CollectorNotAnId
                      else Ok (Some q, enabled)))
             else if key = ''enabled'' then
               (if enabled \<noteq> None then Err EnabledRepeated
                else if value = ''true'' then Ok (collector_id, Some True)
                else if value = ''false'' then Ok (collector_id, Some False)
                else Err EnabledNotBool)
             else Err (KeyNotPermitted key))))"

fun selection_lines ::
  "nat \<Rightarrow> string list \<Rightarrow> string option \<times> bool option \<Rightarrow>
     selection_error + (string option \<times> bool option)" where
  "selection_lines n [] st = Ok st"
| "selection_lines n (l # ls) st = and_then (selection_line n l st) (selection_lines (Suc n) ls)"

definition parse_selection :: "string \<Rightarrow> selection_error + Selection" where
  "parse_selection txt = and_then (selection_lines 0 (str_lines txt) (None, None))
     (\<lambda>(collector_id, enabled). case collector_id of
         None \<Rightarrow> Err MissingCollector
       | Some cid \<Rightarrow> (case enabled of
             None \<Rightarrow> Err MissingEnabled
           | Some en \<Rightarrow>
               if collector cid = None then Err (UnknownCollectorId cid)
               else Ok \<lparr>sel_collector_id = cid, sel_enabled = en\<rparr>))"

text \<open>A line can only fill a slot that is still empty.\<close>

lemma selection_line_mono:
  assumes "selection_line n l (c, e) = Ok (c', e')"
  shows "(c = Some x \<longrightarrow> c' = Some x) \<and> (e = Some b \<longrightarrow> e' = Some b)"
  using assms by (auto simp: Let_def split: if_splits option.splits prod.splits)

section \<open>Diagnostics\<close>

datatype ReasonCode =
    RDisabled
  | UnknownCollector
  | UnsupportedArchitecture
  | TargetBuildIdMismatch
  | ProbeNotFound
  | AbiIncompatible
  | SemaphoreUnavailable
  | AttachFailed

primrec reason_str :: "ReasonCode \<Rightarrow> string" where
  "reason_str RDisabled = ''disabled''"
| "reason_str UnknownCollector = ''unknown_collector''"
| "reason_str UnsupportedArchitecture = ''unsupported_architecture''"
| "reason_str TargetBuildIdMismatch = ''target_build_id_mismatch''"
| "reason_str ProbeNotFound = ''probe_not_found''"
| "reason_str AbiIncompatible = ''abi_incompatible''"
| "reason_str SemaphoreUnavailable = ''semaphore_unavailable''"
| "reason_str AttachFailed = ''attach_failed''"

definition usdt_diagnostic ::
  "64 word \<Rightarrow> string \<Rightarrow> ReasonCode \<Rightarrow> json option \<Rightarrow> BehaviorEvent" where
  "usdt_diagnostic now collector_id reason context =
     (let args = [(''collector_id'', JStr collector_id), (''reason_code'', JStr (reason_str reason))];
          args = (case context of
              Some (JObj extra) \<Rightarrow> foldl (\<lambda>m (k, v). AList.update k v m) args extra
            | _ \<Rightarrow> args)
      in \<lparr>be_header = synthetic_header now,
          be_event = \<lparr>et_type = ''DIAGNOSTIC'', et_name = ''usdt.collector'',
                      et_layer = ''behavior''\<rparr>,
          be_proc = None, be_args = Some (JObj args), be_return_code = None\<rparr>)"

section \<open>Collector payloads\<close>

text \<open>
  What a payload parser returns: event type, name, layer, arguments and return
  code.  A rejected payload is an error message.
\<close>

type_synonym parsed = "string \<times> string \<times> string \<times> json option \<times> int option"
type_synonym parse_result = "string + parsed"

definition bounded_bytes ::
  "(bytes \<Rightarrow> string) \<Rightarrow> bytes \<Rightarrow> nat \<Rightarrow> nat option \<Rightarrow> bool \<Rightarrow> json" where
  "bounded_bytes b64 bs capture_limit observed_length truncated =
     JObj [(''base64'', JStr (b64 bs)), (''capture_limit'', JNum (int capture_limit)),
       (''observed_length'', case observed_length of None \<Rightarrow> JNull | Some n \<Rightarrow> JNum (int n)),
       (''truncated'', JBool truncated)]"

definition bounded_utf8 :: "bytes \<Rightarrow> nat \<Rightarrow> bool \<Rightarrow> ReasonCode + json" where
  "bounded_utf8 bs capture_limit truncated =
     (if \<not> valid_utf8 bs then Err AbiIncompatible
      else Ok (JObj [(''value'', JStr (str_of_bytes bs)),
        (''capture_limit'', JNum (int capture_limit)), (''truncated'', JBool truncated)]))"

definition decode_training_shell_capture_error :: "bytes \<Rightarrow> parse_result" where
  "decode_training_shell_capture_error payload =
     (if length payload \<noteq> UsdtTrainingShellCaptureErrorPayload_SIZE
      then Err ''USDT training-shell capture-error payload has an invalid size''
      else let fixed = read_UsdtTrainingShellCaptureErrorPayload payload in
        if uce_field_id fixed \<noteq> 3
        then Err ''USDT training-shell capture-error field is unknown''
        else if uce_read_error_code fixed \<noteq> 1
        then Err ''USDT training-shell capture-error reason is unknown''
        else Ok (''DIAGNOSTIC'', ''usdt.collector'', ''behavior'',
          Some (JObj [(''collector_id'', JStr TRAINING_SHELL_V3_ID),
            (''reason_code'', JStr (reason_str AbiIncompatible)),
            (''attach_point_id'', junum (uce_attach_point_id fixed)),
            (''argument'', JStr ''command_name''),
            (''read_error_code'', JStr ''unreadable_user_memory'')]),
          None))"

definition command_kind_str :: "32 word \<Rightarrow> string" where
  "command_kind_str k = (if k = 0 then ''builtin'' else if k = 1 then ''external''
     else if k = 2 then ''function'' else ''other'')"

definition decode_training_shell_payload :: "(bytes \<Rightarrow> string) \<Rightarrow> bytes \<Rightarrow> parse_result" where
  "decode_training_shell_payload b64 payload =
     (if length payload < UsdtTrainingShellPayload_SIZE
      then Err ''USDT training-shell payload too short''
      else let fixed = read_UsdtTrainingShellPayload payload;
               command_name_len = unat (ush_command_name_len fixed);
               truncated = JBool (ush_command_name_truncated fixed \<noteq> 0);
               limit = JNum (int TRAINING_SHELL_COMMAND_NAME_LIMIT) in
        if command_name_len > TRAINING_SHELL_COMMAND_NAME_LIMIT
        then Err ''USDT command-name exceeds its compiled capture limit''
        else if ush_command_name_truncated fixed > 1
        then Err ''USDT command-name truncation flag is invalid''
        else if length payload \<noteq> UsdtTrainingShellPayload_SIZE + command_name_len
        then Err ''USDT training-shell payload has invalid length''
        else let command_name = drop UsdtTrainingShellPayload_SIZE payload in
          if \<not> valid_utf8 command_name then Err ''USDT command-name is not UTF-8''
          else Ok (''USDT'', ''abyss0_shell.simple_command_completed'', ''behavior'',
            Some (JObj [(''attach_point_id'', junum (ush_attach_point_id fixed)),
              (''shell_pid'', junum (ush_shell_pid fixed)),
              (''command_id'', junum (ush_command_id fixed)),
              (''command_kind'', JStr (command_kind_str (ush_command_kind fixed))),
              (''command_name'', JObj [(''value'', JStr (str_of_bytes command_name)),
                 (''capture_limit'', limit), (''truncated'', truncated)]),
              (''command_name_bytes'', JObj [(''base64'', JStr (b64 command_name)),
                 (''capture_limit'', limit),
                 (''observed_length'', junum (ush_command_name_len fixed)),
                 (''truncated'', truncated)]),
              (''semantic_flags'', jstrs (if ush_semantic_flags fixed AND 1 \<noteq> 0
                 then [''SELF_PID_EXPANDED''] else [])),
              (''exit_status'', jsnum (ush_exit_status fixed))]),
            None))"

definition decode_training_peer_payload :: "bytes \<Rightarrow> parse_result" where
  "decode_training_peer_payload payload =
     (if length payload \<noteq> UsdtTrainingPeerPayload_SIZE
      then Err ''USDT training-peer payload has invalid length''
      else let fixed = read_UsdtTrainingPeerPayload payload in
        Ok (''USDT'', ''abyss0_peer.task_finished'', ''behavior'',
          Some (JObj [(''attach_point_id'', junum (upe_attach_point_id fixed)),
            (''task_id'', junum (upe_task_id fixed)),
            (''result'', JStr (if upe_result fixed = 0 then ''ok''
               else if upe_result fixed = 1 then ''failed'' else ''other''))]),
          None))"

definition decode_payload :: "(bytes \<Rightarrow> string) \<Rightarrow> EventKind \<Rightarrow> bytes \<Rightarrow> parse_result" where
  "decode_payload b64 kind payload =
     (if kind = UsdtTrainingShellV3 then decode_training_shell_payload b64 payload
      else if kind = UsdtTrainingPeerV1 then decode_training_peer_payload payload
      else if kind = UsdtTrainingShellV3CaptureError
      then decode_training_shell_capture_error payload
      else Err ''not a registered USDT event kind'')"

end
