(* ===== verification/Deserializer.thy ===== *)
theory Deserializer
  imports Usdt
begin

text \<open>
  \<open>bloodhound/src/deserializer.rs\<close>: one definition per payload parser, the
  dispatch on the event kind and the two entry points.  A \<open>bail!\<close> is the error
  summand with its message; slices are taken only where the code has checked
  the length.  \<open>b64\<close> is the encoder of the \<open>base64\<close> crate.
\<close>

section \<open>Utility functions\<close>

definition comm_to_string :: "bytes \<Rightarrow> string" where
  "comm_to_string comm = str_of_bytes (from_utf8_lossy (until_nul comm))"

definition extract_string :: "bytes \<Rightarrow> string" where
  "extract_string data = str_of_bytes (from_utf8_lossy (until_nul data))"

definition extract_argv :: "bytes \<Rightarrow> string list" where
  "extract_argv data =
     (if data = [] then []
      else let content = (if last data = 0 then butlast data else data) in
        map (\<lambda>chunk. str_of_bytes (from_utf8_lossy chunk)) (split_nul content))"

definition to_be_bytes :: "32 word \<Rightarrow> bytes" where
  "to_be_bytes w = rev (le_bytes 4 (unat w))"

fun join_with :: "string \<Rightarrow> string list \<Rightarrow> string" where
  "join_with sep [] = []"
| "join_with sep [x] = x"
| "join_with sep (x # xs) = x @ sep @ join_with sep xs"

definition format_ipv4 :: "32 word \<Rightarrow> string" where
  "format_ipv4 addr = join_with ''.'' (map (\<lambda>b. decimal (unat b)) (to_be_bytes addr))"

definition format_ipv6 :: "bytes \<Rightarrow> string" where
  "format_ipv6 addr = join_with '':''
     (map (\<lambda>i. hex_byte (addr ! (2 * i)) @ hex_byte (addr ! (2 * i + 1))) [0 ..< 8])"

text \<open>Flag decoders push one name per set flag, in order.\<close>

definition flag :: "bool \<Rightarrow> string \<Rightarrow> string list" where
  "flag b name = (if b then [name] else [])"

definition or_hex :: "'a::len word \<Rightarrow> string list \<Rightarrow> string list" where
  "or_hex w names = (if names = [] then [''0x'' @ hex_string (unat w)] else names)"

definition decode_open_flags :: "32 word \<Rightarrow> string list" where
  "decode_open_flags flags =
     (let access = flags AND 3 in
      flag (access = 0) ''O_RDONLY'' @ flag (access = 1) ''O_WRONLY'' @ flag (access = 2) ''O_RDWR'')
     @ flag (flags AND 0x40 \<noteq> 0) ''O_CREAT''
     @ flag (flags AND 0x80 \<noteq> 0) ''O_EXCL''
     @ flag (flags AND 0x200 \<noteq> 0) ''O_TRUNC''
     @ flag (flags AND 0x400 \<noteq> 0) ''O_APPEND''
     @ flag (flags AND 0x800 \<noteq> 0) ''O_NONBLOCK''
     @ flag (flags AND 0x1000 \<noteq> 0) ''O_DSYNC''
     @ flag (flags AND 0x101000 = 0x101000) ''O_SYNC''
     @ flag (flags AND 0x10000 \<noteq> 0) ''O_DIRECTORY''
     @ flag (flags AND 0x20000 \<noteq> 0) ''O_NOFOLLOW''
     @ flag (flags AND 0x80000 \<noteq> 0) ''O_CLOEXEC''"

definition decode_mmap_prot :: "32 word \<Rightarrow> string list" where
  "decode_mmap_prot prot =
     (if prot = 0 then [''PROT_NONE'']
      else or_hex prot (flag (prot AND 1 \<noteq> 0) ''PROT_READ''
        @ flag (prot AND 2 \<noteq> 0) ''PROT_WRITE''
        @ flag (prot AND 4 \<noteq> 0) ''PROT_EXEC''))"

definition decode_mmap_flags :: "32 word \<Rightarrow> string list" where
  "decode_mmap_flags flags = or_hex flags (
     (let share = flags AND 3 in
      flag (share = 1) ''MAP_SHARED'' @ flag (share = 2) ''MAP_PRIVATE''
      @ flag (share = 3) ''MAP_SHARED_VALIDATE'')
     @ flag (flags AND 0x10 \<noteq> 0) ''MAP_FIXED''
     @ flag (flags AND 0x20 \<noteq> 0) ''MAP_ANONYMOUS''
     @ flag (flags AND 0x100 \<noteq> 0) ''MAP_GROWSDOWN''
     @ flag (flags AND 0x800 \<noteq> 0) ''MAP_DENYWRITE''
     @ flag (flags AND 0x1000 \<noteq> 0) ''MAP_EXECUTABLE''
     @ flag (flags AND 0x2000 \<noteq> 0) ''MAP_LOCKED''
     @ flag (flags AND 0x4000 \<noteq> 0) ''MAP_NORESERVE''
     @ flag (flags AND 0x8000 \<noteq> 0) ''MAP_POPULATE''
     @ flag (flags AND 0x10000 \<noteq> 0) ''MAP_NONBLOCK''
     @ flag (flags AND 0x20000 \<noteq> 0) ''MAP_STACK''
     @ flag (flags AND 0x40000 \<noteq> 0) ''MAP_HUGETLB''
     @ flag (flags AND 0x100000 \<noteq> 0) ''MAP_FIXED_NOREPLACE'')"

definition decode_clone_flags :: "64 word \<Rightarrow> string list" where
  "decode_clone_flags flags = or_hex flags (
       flag (flags AND 0x00000100 \<noteq> 0) ''CLONE_VM''
     @ flag (flags AND 0x00000200 \<noteq> 0) ''CLONE_FS''
     @ flag (flags AND 0x00000400 \<noteq> 0) ''CLONE_FILES''
     @ flag (flags AND 0x00000800 \<noteq> 0) ''CLONE_SIGHAND''
     @ flag (flags AND 0x00010000 \<noteq> 0) ''CLONE_THREAD''
     @ flag (flags AND 0x00020000 \<noteq> 0) ''CLONE_NEWNS''
     @ flag (flags AND 0x02000000 \<noteq> 0) ''CLONE_NEWUTS''
     @ flag (flags AND 0x04000000 \<noteq> 0) ''CLONE_NEWIPC''
     @ flag (flags AND 0x10000000 \<noteq> 0) ''CLONE_NEWUSER''
     @ flag (flags AND 0x20000000 \<noteq> 0) ''CLONE_NEWPID''
     @ flag (flags AND 0x40000000 \<noteq> 0) ''CLONE_NEWNET'')"

definition fd_type_to_str :: "byte \<Rightarrow> string" where
  "fd_type_to_str t =
     (if t = FD_TYPE_REGULAR then ''regular'' else if t = FD_TYPE_PIPE then ''pipe''
      else if t = FD_TYPE_SOCKET then ''socket'' else if t = FD_TYPE_TTY then ''tty''
      else ''other'')"

definition status_str :: "CaptureStatus \<Rightarrow> string" where
  "status_str s = (case s of Complete \<Rightarrow> ''complete'' | Truncated \<Rightarrow> ''truncated''
     | ReadError \<Rightarrow> ''read_error'')"

definition ref_json :: "32 word \<Rightarrow> 64 word \<Rightarrow> json" where
  "ref_json tgid start = JObj [(''tgid'', junum tgid), (''start_boottime_ns'', junum start)]"

abbreviation behavior :: string where "behavior \<equiv> ''behavior''"

section \<open>TTY and exec payloads\<close>

text \<open>The status a TTY record claims for its data, or the reason it is rejected.\<close>

definition tty_status :: "HeaderCapture \<Rightarrow> nat \<Rightarrow> nat \<Rightarrow> string + string" where
  "tty_status capture declared_len var_len =
     (if cap_version capture = 0 then Ok ''unknown''
      else if cap_version capture = 1 then
        (if cap_secondary capture \<noteq> 0 then Err ''TTY capture secondary must be zero''
         else if declared_len \<noteq> var_len \<or> declared_len > MAX_TTY_DATA - 1
         then Err ''TTY capture length does not match bounded record''
         else (case capture_status_try_from (cap_primary capture) of
             None \<Rightarrow> Err ''invalid TTY capture status''
           | Some Complete \<Rightarrow>
               if declared_len = 0 then Err ''Complete TTY capture must be nonempty''
               else Ok ''complete''
           | Some Truncated \<Rightarrow>
               if declared_len \<noteq> MAX_TTY_DATA - 1
               then Err ''Truncated TTY capture must contain the bounded prefix''
               else Ok ''truncated''
           | Some ReadError \<Rightarrow>
               if declared_len \<noteq> 0 then Err ''Failed TTY capture must be empty''
               else Ok ''read_error''))
      else Err (''Unsupported TTY capture version: '' @ decimal (unat (cap_version capture))))"

definition parse_tty ::
  "(bytes \<Rightarrow> string) \<Rightarrow> bytes \<Rightarrow> string \<Rightarrow> HeaderCapture \<Rightarrow> parse_result" where
  "parse_tty b64 payload name capture =
     (if length payload < TtyPayload_SIZE then Err ''TTY payload too short''
      else let tty = read_TtyPayload payload;
               var_data = drop TtyPayload_SIZE payload;
               declared_len = unat (tty_data_len tty) in
        and_then (tty_status capture declared_len (length var_data)) (\<lambda>status.
          let raw_data = take (min declared_len (length var_data)) var_data in
          Ok (''TTY'', name, ''intent'',
            Some (JObj [(''data'', JStr (b64 raw_data)),
              (''tty_capture_version'', junum (cap_version capture)),
              (''data_status'', JStr status)]),
            None)))"

definition exec_statuses ::
  "HeaderCapture \<Rightarrow> nat \<Rightarrow> nat \<Rightarrow> nat \<Rightarrow> bytes \<Rightarrow> bytes \<Rightarrow> string + string \<times> string" where
  "exec_statuses capture filename_len argv_len var_len filename_data argv_data =
     (if cap_version capture \<noteq> 1 then Ok (''unknown'', ''unknown'')
      else if filename_len + argv_len \<noteq> var_len then Err ''Exec capture lengths do not match record''
      else (case capture_status_try_from (cap_primary capture) of
          None \<Rightarrow> Err ''invalid argv capture status''
        | Some a \<Rightarrow> (case capture_status_try_from (cap_secondary capture) of
              None \<Rightarrow> Err ''invalid filename capture status''
            | Some f \<Rightarrow>
                if argv_data \<noteq> [] \<and> last argv_data \<noteq> 0 then Err ''Exec argv lacks final separator''
                else Ok (if \<not> valid_utf8 argv_data \<and> a = Complete
                         then ''invalid_encoding'' else status_str a,
                         if \<not> valid_utf8 filename_data \<and> f = Complete
                         then ''invalid_encoding'' else status_str f))))"

definition parse_execve :: "bytes \<Rightarrow> string \<Rightarrow> HeaderCapture \<Rightarrow> parse_result" where
  "parse_execve payload name capture =
     (if length payload < ExecvePayload_SIZE then Err ''Execve payload too short''
      else let execve = read_ExecvePayload payload;
               var_data = drop ExecvePayload_SIZE payload;
               filename_len = min (unat (ex_filename_len execve)) (length var_data);
               filename_data = take filename_len var_data;
               argv_len = min (unat (ex_argv_len execve)) (length var_data - filename_len);
               argv_data = take argv_len (drop filename_len var_data) in
        and_then (exec_statuses capture (unat (ex_filename_len execve))
            (unat (ex_argv_len execve)) (length var_data) filename_data argv_data)
          (\<lambda>(argv_status, filename_status).
            Ok (''TRACEPOINT'', name, ''tooling'',
              Some (JObj [(''filename'', JStr (extract_string filename_data)),
                (''argv'', jstrs (extract_argv argv_data)),
                (''exec_capture_version'', junum (cap_version capture)),
                (''argv_status'', JStr argv_status),
                (''filename_status'', JStr filename_status)]),
              Some (sint (ex_return_code execve)))))"

definition exec_view_status :: "ExecViewPayload \<Rightarrow> string + string" where
  "exec_view_status view =
     (if ev_version view \<noteq> 1 then Ok ''unknown''
      else if ev_status view = 0 then Ok ''unsupported''
      else if ev_status view = 1 then Ok ''complete''
      else if ev_status view = 2 then Ok ''unavailable''
      else if ev_status view = 3 then Ok ''changed''
      else Err ''invalid exec view status'')"

definition parse_exec_view :: "bytes \<Rightarrow> parse_result" where
  "parse_exec_view payload =
     (if length payload \<noteq> ExecViewPayload_SIZE then Err ''invalid exec view payload length''
      else let view = read_ExecViewPayload payload in
        and_then (exec_view_status view) (\<lambda>status.
          if ev_version view = 1
            \<and> ((ev_status view = 1 \<and> (ev_mount_namespace view = 0 \<or> ev_root_mount_id view = 0))
               \<or> (ev_status view \<noteq> 1
                  \<and> (ev_root_inode view \<noteq> 0 \<or> ev_root_dev view \<noteq> 0
                     \<or> ev_mount_namespace view \<noteq> 0 \<or> ev_root_mount_id view \<noteq> 0)))
          then Err ''inconsistent exec view fields''
          else Ok (''TRACEPOINT'', ''exec_view'', behavior,
            Some (JObj ([(''view_capture_version'', junum (ev_version view)),
                (''view_status'', JStr status)]
              @ (if status = ''complete'' then
                   [(''root_inode'', junum (ev_root_inode view)),
                    (''root_dev'', junum (ev_root_dev view)),
                    (''root_dev_major'', junum (drop_bit 20 (ev_root_dev view))),
                    (''root_dev_minor'', junum (ev_root_dev view AND 0xfffff)),
                    (''mount_namespace'', junum (ev_mount_namespace view)),
                    (''root_mount_id'', junum (ev_root_mount_id view))]
                 else []))),
            None)))"

section \<open>Raw and rich syscall payloads\<close>

definition parse_raw_syscall :: "bytes \<Rightarrow> parse_result" where
  "parse_raw_syscall payload =
     (if length payload < RawSyscallPayload_SIZE then Err ''Raw syscall payload too short''
      else let raw = read_RawSyscallPayload payload in
        Ok (''SYSCALL'', decimal (unat (raw_syscall_nr raw)), behavior,
          Some (JObj [(''syscall_nr'', junum (raw_syscall_nr raw)),
            (''raw_args'', JArr (map (\<lambda>i. junum (raw_args raw ! i)) [0, 1, 2, 3, 4, 5]))]),
          Some (sint (raw_return_code raw))))"

definition openat_identity :: byte where "openat_identity = DEV_VALID OR INO_VALID"
definition openat_path :: byte where "openat_path = PATH_COMPLETE OR PATH_READ_FAILED"

definition openat_metadata_bad :: "OpenatPayload \<Rightarrow> nat \<Rightarrow> bool" where
  "openat_metadata_bad oa var_len \<longleftrightarrow>
     oa_capture_flags oa AND NOT (openat_identity OR openat_path) \<noteq> 0
     \<or> oa_capture_flags oa AND openat_path = openat_path
     \<or> (sint (oa_return_code oa) < 0 \<and> oa_capture_flags oa AND openat_identity \<noteq> 0)
     \<or> unat (oa_filename_len oa) > var_len"

definition openat_filename_status :: "byte \<Rightarrow> bytes \<Rightarrow> string" where
  "openat_filename_status path filename_data =
     (if path = PATH_COMPLETE then
        (if \<not> valid_utf8 filename_data then ''invalid_encoding'' else ''complete'')
      else if path = PATH_READ_FAILED then ''read_error'' else ''truncated'')"

definition openat_identity_status :: "OpenatPayload \<Rightarrow> string" where
  "openat_identity_status oa = (let valid = oa_capture_flags oa AND openat_identity in
     if sint (oa_return_code oa) < 0 then ''not_attempted''
     else if valid = openat_identity then ''complete''
     else if valid = 0 then ''unavailable'' else ''partial'')"

definition parse_openat :: "bytes \<Rightarrow> parse_result" where
  "parse_openat payload =
     (if length payload < OpenatPayload_SIZE then Err ''Openat payload too short''
      else let oa = read_OpenatPayload payload;
               var_data = drop OpenatPayload_SIZE payload;
               filename_len = min (unat (oa_filename_len oa)) (length var_data);
               filename_data = take filename_len var_data;
               valid = oa_capture_flags oa AND openat_identity;
               path = oa_capture_flags oa AND openat_path;
               args = JObj [(''filename'', JStr (extract_string filename_data)),
                 (''flags'', jstrs (decode_open_flags (oa_flags oa))),
                 (''mode'', junum (oa_mode oa)),
                 (''file_identity_status'', JStr ''unknown''),
                 (''filename_status'', JStr ''unknown'')];
               result = (\<lambda>a. Ok (''TRACEPOINT'', ''openat'', behavior, Some a,
                 Some (sint (oa_return_code oa)))) in
        if oa_capture_version oa = 1 then
          (if openat_metadata_bad oa (length var_data)
           then Err ''Invalid openat capture metadata''
           else
             (let args = jinsert ''capture_version'' (JNum 1) args;
                  args = jinsert ''dirfd'' (jsnum (oa_dirfd oa)) args;
                  args = jinsert ''filename_status''
                    (JStr (openat_filename_status path filename_data)) args;
                  args = jinsert ''file_identity_status'' (JStr (openat_identity_status oa)) args;
                  args = (if valid AND DEV_VALID \<noteq> 0 then
                      jinsert ''dev_minor'' (junum (oa_dev oa AND 0xfffff))
                        (jinsert ''dev_major'' (junum (drop_bit 20 (oa_dev oa)))
                          (jinsert ''dev'' (junum (oa_dev oa)) args))
                    else args);
                  args = (if valid AND INO_VALID \<noteq> 0
                    then jinsert ''ino'' (junum (oa_ino oa)) args else args)
              in result args))
        else if oa_dev oa \<noteq> 0 \<or> oa_ino oa \<noteq> 0
        then result (jinsert ''ino'' (junum (oa_ino oa)) (jinsert ''dev'' (junum (oa_dev oa)) args))
        else result args)"

definition parse_read_write :: "bytes \<Rightarrow> string \<Rightarrow> parse_result" where
  "parse_read_write payload name =
     (if length payload < ReadWritePayload_SIZE then Err ''ReadWrite payload too short''
      else let rw = read_ReadWritePayload payload in
        Ok (''TRACEPOINT'', name, behavior,
          Some (JObj [(''fd'', junum (rw_fd rw)),
            (''fd_type'', JStr (fd_type_to_str (rw_fd_type rw))),
            (''requested_size'', junum (rw_requested_size rw))]),
          Some (sint (rw_return_code rw))))"

definition format_addr :: "16 word \<Rightarrow> 32 word \<Rightarrow> bytes \<Rightarrow> string" where
  "format_addr family addr_v4 addr_v6 =
     (if family = 2 then format_ipv4 addr_v4
      else if family = 10 then format_ipv6 addr_v6 else [])"

definition parse_connect_bind :: "bytes \<Rightarrow> string \<Rightarrow> parse_result" where
  "parse_connect_bind payload name =
     (if length payload < ConnectBindPayload_SIZE then Err ''ConnectBind payload too short''
      else let cb = read_ConnectBindPayload payload in
        Ok (''TRACEPOINT'', name, behavior,
          Some (JObj [(''family'', junum (cb_family cb)), (''port'', junum (cb_port cb)),
            (''addr'', JStr (format_addr (cb_family cb) (cb_addr_v4 cb) (cb_addr_v6 cb)))]),
          Some (sint (cb_return_code cb))))"

definition parse_listen :: "bytes \<Rightarrow> parse_result" where
  "parse_listen payload =
     (if length payload < ListenPayload_SIZE then Err ''Listen payload too short''
      else let li = read_ListenPayload payload in
        Ok (''TRACEPOINT'', ''listen'', behavior,
          Some (JObj [(''fd'', junum (li_fd li)), (''backlog'', junum (li_backlog li))]),
          Some (sint (li_return_code li))))"

definition parse_socket :: "bytes \<Rightarrow> parse_result" where
  "parse_socket payload =
     (if length payload < SocketPayload_SIZE then Err ''Socket payload too short''
      else let so = read_SocketPayload payload in
        Ok (''TRACEPOINT'', ''socket'', behavior,
          Some (JObj [(''domain'', junum (so_domain so)), (''type'', junum (so_sock_type so)),
            (''protocol'', junum (so_protocol so))]),
          Some (sint (so_return_code so))))"

definition parse_clone :: "bytes \<Rightarrow> string \<Rightarrow> parse_result" where
  "parse_clone payload name =
     (if length payload < ClonePayload_SIZE then Err ''Clone payload too short''
      else let cl = read_ClonePayload payload in
        Ok (''TRACEPOINT'', name, behavior,
          Some (JObj [(''flags'', jstrs (decode_clone_flags (cl_flags cl)))]),
          Some (sint (cl_return_code cl))))"

section \<open>Lifecycle payloads\<close>

definition parse_process_start :: "bytes \<Rightarrow> parse_result" where
  "parse_process_start payload =
     (if payload \<noteq> [] then Err ''process_start payload must be empty''
      else Ok (''LIFECYCLE'', ''process_start'', behavior, None, None))"

definition parse_process_fork :: "bytes \<Rightarrow> parse_result" where
  "parse_process_fork payload =
     (if length payload < ProcessForkPayload_SIZE then Err ''process_fork payload too short''
      else let p = read_ProcessForkPayload payload in
        Ok (''LIFECYCLE'', ''process_fork'', behavior,
          Some (JObj (
            (if pf_parent_tgid p \<noteq> 0 \<and> pf_parent_start_boottime_ns p \<noteq> 0
             then [(''parent_ref'', ref_json (pf_parent_tgid p) (pf_parent_start_boottime_ns p))]
             else [])
            @ (if pf_child_tgid p \<noteq> 0 \<and> pf_child_start_boottime_ns p \<noteq> 0
               then [(''child_ref'', ref_json (pf_child_tgid p) (pf_child_start_boottime_ns p))]
               else [])
            @ [(''clone_flags'', jstrs (decode_clone_flags (pf_clone_flags p)))])),
          None))"

definition parse_process_exit :: "bytes \<Rightarrow> parse_result" where
  "parse_process_exit payload =
     (if length payload < ProcessExitPayload_SIZE then Err ''process_exit payload too short''
      else let raw_status = pe_raw_status (read_ProcessExitPayload payload);
               signal = raw_status AND 0x7f in
        Ok (''LIFECYCLE'', ''process_exit'', behavior,
          Some (if signal = 0 then
              JObj [(''exit_kind'', JStr ''code''),
                (''exit_code'', jsnum (signed_drop_bit 8 raw_status AND 0xff)),
                (''raw_status'', jsnum raw_status)]
            else
              JObj [(''exit_kind'', JStr ''signal''), (''signal'', jsnum signal),
                (''core_dumped'', JBool (raw_status AND 0x80 \<noteq> 0)),
                (''raw_status'', jsnum raw_status)]),
          None))"

section \<open>Path payloads\<close>

definition path_capture_status :: "byte \<Rightarrow> byte \<Rightarrow> bytes \<Rightarrow> string + string" where
  "path_capture_status version code data =
     (if version \<noteq> 1 then Ok ''unknown''
      else (case capture_status_try_from code of
          None \<Rightarrow> Err ''invalid path capture status''
        | Some s \<Rightarrow> Ok (if s = Complete \<and> \<not> valid_utf8 data
                        then ''invalid_encoding'' else status_str s)))"

definition parse_path_event :: "bytes \<Rightarrow> string \<Rightarrow> HeaderCapture \<Rightarrow> parse_result" where
  "parse_path_event payload name capture =
     (if length payload < PathPayload_SIZE then Err ''Path payload too short''
      else let path = read_PathPayload payload;
               var_data = drop PathPayload_SIZE payload;
               path_data = take (min (unat (pa_path_len path)) (length var_data)) var_data in
        if cap_version capture = 1 \<and> cap_secondary capture \<noteq> 0
        then Err ''Single-path capture secondary must be zero''
        else if cap_version capture = 1 \<and> unat (pa_path_len path) \<noteq> length var_data
        then Err ''Path capture length does not match record''
        else and_then (path_capture_status (cap_version capture) (cap_primary capture) path_data)
          (\<lambda>status. Ok (''TRACEPOINT'', name, behavior,
            Some (JObj [(''filename'', JStr (extract_string path_data)),
              (''path_capture_version'', junum (cap_version capture)),
              (''path_status'', JStr status)]),
            Some (sint (pa_return_code path)))))"

definition parse_fd_event :: "bytes \<Rightarrow> string \<Rightarrow> parse_result" where
  "parse_fd_event payload name =
     (if length payload < FdPayload_SIZE then Err ''Fd payload too short''
      else let fd = read_FdPayload payload in
        Ok (''TRACEPOINT'', name, behavior, Some (JObj [(''fd'', junum (fdp_fd fd))]),
          Some (sint (fdp_return_code fd))))"

definition parse_two_path_event :: "bytes \<Rightarrow> string \<Rightarrow> HeaderCapture \<Rightarrow> parse_result" where
  "parse_two_path_event payload name capture =
     (if length payload < TwoPathPayload_SIZE then Err ''TwoPath payload too short''
      else let tp = read_TwoPathPayload payload;
               var_data = drop TwoPathPayload_SIZE payload;
               p1_len = min (unat (tp_path1_len tp)) (length var_data);
               p1 = take p1_len var_data;
               p2_len = min (unat (tp_path2_len tp)) (length var_data - p1_len);
               p2 = take p2_len (drop p1_len var_data) in
        if cap_version capture = 1
          \<and> unat (tp_path1_len tp) + unat (tp_path2_len tp) \<noteq> length var_data
        then Err ''Two-path capture lengths do not match record''
        else
          and_then (path_capture_status (cap_version capture) (cap_primary capture) p1) (\<lambda>s1.
          and_then (path_capture_status (cap_version capture) (cap_secondary capture) p2) (\<lambda>s2.
            Ok (''TRACEPOINT'', name, behavior,
              Some (JObj [(''oldpath'', JStr (extract_string p1)),
                (''newpath'', JStr (extract_string p2)),
                (''path_capture_version'', junum (cap_version capture)),
                (''path1_status'', JStr s1), (''path2_status'', JStr s2)]),
              Some (sint (tp_return_code tp))))))"

section \<open>Socket and descriptor payloads\<close>

definition parse_sendto_recvfrom :: "bytes \<Rightarrow> string \<Rightarrow> parse_result" where
  "parse_sendto_recvfrom payload name =
     (if length payload < SendtoRecvfromPayload_SIZE then Err ''SendtoRecvfrom payload too short''
      else let sr = read_SendtoRecvfromPayload payload in
        Ok (''TRACEPOINT'', name, behavior,
          Some (JObj [(''fd'', junum (sr_fd sr)), (''family'', junum (sr_family sr)),
            (''port'', junum (sr_port sr)),
            (''addr'', JStr (format_addr (sr_family sr) (sr_addr_v4 sr) (sr_addr_v6 sr))),
            (''size'', junum (sr_size sr))]),
          Some (sint (sr_return_code sr))))"

definition parse_dup :: "bytes \<Rightarrow> string \<Rightarrow> parse_result" where
  "parse_dup payload name =
     (if length payload < DupPayload_SIZE then Err ''Dup payload too short''
      else let d = read_DupPayload payload in
        Ok (''TRACEPOINT'', name, behavior,
          Some (JObj [(''oldfd'', junum (du_oldfd d)), (''newfd'', jsnum (du_newfd d)),
            (''cloexec'', JBool (du_cloexec d \<noteq> 0))]),
          Some (sint (du_return_code d))))"

definition parse_pread_pwrite :: "bytes \<Rightarrow> string \<Rightarrow> parse_result" where
  "parse_pread_pwrite payload name =
     (if length payload < PreadPwritePayload_SIZE then Err ''PreadPwrite payload too short''
      else let p = read_PreadPwritePayload payload in
        Ok (''TRACEPOINT'', name, behavior,
          Some (JObj [(''fd'', junum (pp_fd p)),
            (''fd_type'', JStr (fd_type_to_str (pp_fd_type p))),
            (''size'', junum (pp_requested_size p)), (''offset'', jsnum (pp_offset p))]),
          Some (sint (pp_return_code p))))"

definition parse_readv_writev :: "bytes \<Rightarrow> string \<Rightarrow> parse_result" where
  "parse_readv_writev payload name =
     (if length payload < ReadvWritevPayload_SIZE then Err ''ReadvWritev payload too short''
      else let p = read_ReadvWritevPayload payload in
        Ok (''TRACEPOINT'', name, behavior,
          Some (JObj [(''fd'', junum (rv_fd p)),
            (''fd_type'', JStr (fd_type_to_str (rv_fd_type p))),
            (''size'', junum (rv_requested_size p)), (''iov_count'', junum (rv_iov_count p)),
            (''iov_truncated'', JBool (rv_iov_truncated p \<noteq> 0))]),
          Some (sint (rv_return_code p))))"

definition parse_mmap :: "bytes \<Rightarrow> parse_result" where
  "parse_mmap payload =
     (if length payload < MmapPayload_SIZE then Err ''Mmap payload too short''
      else let p = read_MmapPayload payload;
               args = JObj [(''fd'', jsnum (mm_fd p)),
                 (''prot'', jstrs (decode_mmap_prot (mm_prot p))),
                 (''flags'', jstrs (decode_mmap_flags (mm_flags p))),
                 (''length'', junum (mm_length p)), (''offset'', junum (mm_offset p))] in
        Ok (''TRACEPOINT'', ''mmap'', behavior,
          Some (if mm_dev p \<noteq> 0 \<or> mm_ino p \<noteq> 0
            then jinsert ''ino'' (junum (mm_ino p)) (jinsert ''dev'' (junum (mm_dev p)) args)
            else args),
          Some (sint (mm_return_code p))))"

definition parse_sendfile_splice :: "bytes \<Rightarrow> string \<Rightarrow> parse_result" where
  "parse_sendfile_splice payload name =
     (if length payload < SendfileSplicePayload_SIZE then Err ''SendfileSplice payload too short''
      else let p = read_SendfileSplicePayload payload in
        Ok (''TRACEPOINT'', name, behavior,
          Some (JObj [(''in_fd'', junum (ss_in_fd p)), (''out_fd'', junum (ss_out_fd p)),
            (''in_fd_type'', JStr (fd_type_to_str (ss_in_fd_type p))),
            (''out_fd_type'', JStr (fd_type_to_str (ss_out_fd_type p))),
            (''size'', junum (ss_size p))]),
          Some (sint (ss_return_code p))))"

section \<open>LSM and signal payloads\<close>

definition parse_lsm_simple :: "bytes \<Rightarrow> string \<Rightarrow> parse_result" where
  "parse_lsm_simple payload name =
     Ok (''LSM'', name, behavior, None,
       if 8 \<le> length payload
       then Some (sint (lfo_return_code (read_LsmFileOpenPayload payload))) else None)"

definition parse_lsm_task_kill :: "bytes \<Rightarrow> parse_result" where
  "parse_lsm_task_kill payload =
     (if length payload < LsmTaskKillPayload_SIZE then Err ''LSM task_kill payload too short''
      else let tk = read_LsmTaskKillPayload payload in
        Ok (''LSM'', ''task_kill'', behavior,
          Some (JObj ([(''target_pid'', junum (ltk_target_pid tk)),
              (''signal'', junum (ltk_signal tk))]
            @ (if ltk_target_pid tk \<noteq> 0 \<and> ltk_target_start_boottime_ns tk \<noteq> 0
               then [(''target_ref'', ref_json (ltk_target_pid tk) (ltk_target_start_boottime_ns tk))]
               else []))),
          Some (sint (ltk_return_code tk))))"

definition signal_result_str :: "32 word \<Rightarrow> string" where
  "signal_result_str r = (if r = 0 then ''delivered'' else if r = 1 then ''ignored''
     else if r = 2 then ''already_pending'' else if r = 3 then ''overflow_fail''
     else if r = 4 then ''lose_info'' else ''unknown'')"

definition parse_signal_generate :: "bytes \<Rightarrow> parse_result" where
  "parse_signal_generate payload =
     (if length payload < SignalGeneratePayload_SIZE then Err ''signal_generate payload too short''
      else let g = read_SignalGeneratePayload payload in
        Ok (''TRACEPOINT'', ''signal_generate'', behavior,
          Some (JObj ([(''target_pid'', junum (sg_target_tgid g)), (''signal'', junum (sg_signal g)),
              (''group'', JBool (sg_group g \<noteq> 0)),
              (''result'', JStr (signal_result_str (sg_result g))),
              (''result_code'', jsnum (sg_result g))]
            @ (if sg_target_tgid g \<noteq> 0 \<and> sg_target_start_boottime_ns g \<noteq> 0
               then [(''target_ref'', ref_json (sg_target_tgid g) (sg_target_start_boottime_ns g))]
               else []))),
          None))"

definition parse_lsm_bpf :: "bytes \<Rightarrow> parse_result" where
  "parse_lsm_bpf payload =
     (if length payload < LsmBpfPayload_SIZE then Err ''LSM bpf payload too short''
      else let bpf = read_LsmBpfPayload payload in
        Ok (''LSM'', ''bpf'', behavior, Some (JObj [(''cmd'', junum (lb_cmd bpf))]),
          Some (sint (lb_return_code bpf))))"

definition parse_lsm_ptrace :: "bytes \<Rightarrow> parse_result" where
  "parse_lsm_ptrace payload =
     (if length payload < LsmPtracePayload_SIZE then Err ''LSM ptrace payload too short''
      else let pt = read_LsmPtracePayload payload in
        Ok (''LSM'', ''ptrace_access_check'', behavior,
          Some (JObj [(''target_pid'', junum (lp_target_pid pt))]),
          Some (sint (lp_return_code pt))))"

definition parse_lsm_setuid :: "bytes \<Rightarrow> parse_result" where
  "parse_lsm_setuid payload =
     (if length payload < LsmSetuidPayload_SIZE then Err ''LSM setuid payload too short''
      else let su = read_LsmSetuidPayload payload in
        Ok (''LSM'', ''task_fix_setuid'', behavior,
          Some (JObj [(''old_uid'', junum (lsu_old_uid su)), (''new_uid'', junum (lsu_new_uid su)),
            (''old_gid'', junum (lsu_old_gid su)), (''new_gid'', junum (lsu_new_gid su))]),
          Some (sint (lsu_return_code su))))"

section \<open>Dispatch\<close>

primrec parse_payload ::
  "EventKind \<Rightarrow> (bytes \<Rightarrow> string) \<Rightarrow> HeaderCapture \<Rightarrow> bytes \<Rightarrow> parse_result" where
  "parse_payload TtyRead b64 capture payload = parse_tty b64 payload ''tty_read'' capture"
| "parse_payload TtyWrite b64 capture payload = parse_tty b64 payload ''tty_write'' capture"
| "parse_payload Execve b64 capture payload = parse_execve payload ''execve'' capture"
| "parse_payload Execveat b64 capture payload = parse_execve payload ''execveat'' capture"
| "parse_payload RawSyscall b64 capture payload = parse_raw_syscall payload"
| "parse_payload Openat b64 capture payload = parse_openat payload"
| "parse_payload Read b64 capture payload = parse_read_write payload ''read''"
| "parse_payload Write b64 capture payload = parse_read_write payload ''write''"
| "parse_payload Connect b64 capture payload = parse_connect_bind payload ''connect''"
| "parse_payload Bind b64 capture payload = parse_connect_bind payload ''bind''"
| "parse_payload Listen b64 capture payload = parse_listen payload"
| "parse_payload Socket b64 capture payload = parse_socket payload"
| "parse_payload Clone b64 capture payload = parse_clone payload ''clone''"
| "parse_payload Clone3 b64 capture payload = parse_clone payload ''clone3''"
| "parse_payload Chdir b64 capture payload = parse_path_event payload ''chdir'' capture"
| "parse_payload Fchdir b64 capture payload = parse_fd_event payload ''fchdir''"
| "parse_payload Unlink b64 capture payload = parse_path_event payload ''unlink'' capture"
| "parse_payload Unlinkat b64 capture payload = parse_path_event payload ''unlinkat'' capture"
| "parse_payload Rename b64 capture payload = parse_two_path_event payload ''rename'' capture"
| "parse_payload Renameat2 b64 capture payload = parse_two_path_event payload ''renameat2'' capture"
| "parse_payload Mkdir b64 capture payload = parse_path_event payload ''mkdir'' capture"
| "parse_payload Mkdirat b64 capture payload = parse_path_event payload ''mkdirat'' capture"
| "parse_payload Rmdir b64 capture payload = parse_path_event payload ''rmdir'' capture"
| "parse_payload Symlink b64 capture payload = parse_two_path_event payload ''symlink'' capture"
| "parse_payload Symlinkat b64 capture payload = parse_two_path_event payload ''symlinkat'' capture"
| "parse_payload Link b64 capture payload = parse_two_path_event payload ''link'' capture"
| "parse_payload Linkat b64 capture payload = parse_two_path_event payload ''linkat'' capture"
| "parse_payload Chmod b64 capture payload = parse_path_event payload ''chmod'' capture"
| "parse_payload Fchmod b64 capture payload = parse_fd_event payload ''fchmod''"
| "parse_payload Fchmodat b64 capture payload = parse_path_event payload ''fchmodat'' capture"
| "parse_payload Chown b64 capture payload = parse_path_event payload ''chown'' capture"
| "parse_payload Fchown b64 capture payload = parse_fd_event payload ''fchown''"
| "parse_payload Fchownat b64 capture payload = parse_path_event payload ''fchownat'' capture"
| "parse_payload Truncate b64 capture payload = parse_path_event payload ''truncate'' capture"
| "parse_payload Ftruncate b64 capture payload = parse_fd_event payload ''ftruncate''"
| "parse_payload Mount b64 capture payload = parse_two_path_event payload ''mount'' capture"
| "parse_payload Umount2 b64 capture payload = parse_path_event payload ''umount2'' capture"
| "parse_payload Sendto b64 capture payload = parse_sendto_recvfrom payload ''sendto''"
| "parse_payload Recvfrom b64 capture payload = parse_sendto_recvfrom payload ''recvfrom''"
| "parse_payload Dup b64 capture payload = parse_dup payload ''dup''"
| "parse_payload Dup2 b64 capture payload = parse_dup payload ''dup2''"
| "parse_payload Dup3 b64 capture payload = parse_dup payload ''dup3''"
| "parse_payload Fcntl b64 capture payload = parse_dup payload ''fcntl''"
| "parse_payload Pread64 b64 capture payload = parse_pread_pwrite payload ''pread64''"
| "parse_payload Pwrite64 b64 capture payload = parse_pread_pwrite payload ''pwrite64''"
| "parse_payload Readv b64 capture payload = parse_readv_writev payload ''readv''"
| "parse_payload Writev b64 capture payload = parse_readv_writev payload ''writev''"
| "parse_payload Mmap b64 capture payload = parse_mmap payload"
| "parse_payload Sendfile b64 capture payload = parse_sendfile_splice payload ''sendfile''"
| "parse_payload Splice b64 capture payload = parse_sendfile_splice payload ''splice''"
| "parse_payload PacketIngress b64 capture payload = Err ''Unexpected event kind in process event''"
| "parse_payload PacketEgress b64 capture payload = Err ''Unexpected event kind in process event''"
| "parse_payload LsmFileOpen b64 capture payload = parse_lsm_simple payload ''file_open''"
| "parse_payload LsmTaskKill b64 capture payload = parse_lsm_task_kill payload"
| "parse_payload LsmBpf b64 capture payload = parse_lsm_bpf payload"
| "parse_payload LsmPtraceAccessCheck b64 capture payload = parse_lsm_ptrace payload"
| "parse_payload LsmInodeUnlink b64 capture payload = parse_lsm_simple payload ''inode_unlink''"
| "parse_payload LsmInodeRename b64 capture payload = parse_lsm_simple payload ''inode_rename''"
| "parse_payload LsmTaskFixSetuid b64 capture payload = parse_lsm_setuid payload"
| "parse_payload ProcessStart b64 capture payload = parse_process_start payload"
| "parse_payload ProcessFork b64 capture payload = parse_process_fork payload"
| "parse_payload ProcessExit b64 capture payload = parse_process_exit payload"
| "parse_payload SignalGenerate b64 capture payload = parse_signal_generate payload"
| "parse_payload ExecView b64 capture payload = parse_exec_view payload"
| "parse_payload UsdtTrainingShellV3 b64 capture payload = decode_payload b64 UsdtTrainingShellV3 payload"
| "parse_payload UsdtTrainingPeerV1 b64 capture payload = decode_payload b64 UsdtTrainingPeerV1 payload"
| "parse_payload UsdtTrainingShellV3CaptureError b64 capture payload = decode_payload b64 UsdtTrainingShellV3CaptureError payload"

definition event_header_json :: "EventHeader \<Rightarrow> EventHeaderJson" where
  "event_header_json h =
     \<lparr>hj_timestamp = h_timestamp_ns h, hj_auid = h_auid h, hj_sessionid = h_sessionid h,
      hj_pid = h_pid h,
      hj_ppid = (if h_ppid h \<noteq> 0 then Some (h_ppid h) else None),
      hj_comm = comm_to_string (h_comm h),
      hj_process_ref = (if h_pid h \<noteq> 0 \<and> h_process_start_boottime_ns h \<noteq> 0
        then Some \<lparr>pr_tgid = h_pid h, pr_start_boottime_ns = h_process_start_boottime_ns h\<rparr>
        else None),
      hj_tid = (if h_tid h \<noteq> 0 then Some (h_tid h) else None),
      hj_ns = (if h_tid h \<noteq> 0 then Some (namespace_snapshot (h_ns h)) else None)\<rparr>"

definition deserialize_process_event ::
  "(bytes \<Rightarrow> string) \<Rightarrow> bytes \<Rightarrow> EventKind \<Rightarrow> string + BehaviorEvent" where
  "deserialize_process_event b64 data kind =
     (if length data < EventHeader_SIZE then Err ''Event data too short for header''
      else let header = read_EventHeader data;
               payload = drop EventHeader_SIZE data;
               hdr = event_header_json header in
        and_then (parse_payload kind b64 (h_capture header) payload)
          (\<lambda>(event_type, name, layer, args, return_code).
            let args = (if kind = ProcessStart then
                (case hj_process_ref hdr of
                    Some r \<Rightarrow> Some (JObj [(''process_ref'', process_ref_json r)])
                  | None \<Rightarrow> args)
              else args) in
            Ok \<lparr>be_header = hdr,
                be_event = \<lparr>et_type = event_type, et_name = name, et_layer = layer\<rparr>,
                be_proc = None, be_args = args, be_return_code = return_code\<rparr>))"

definition deserialize_packet :: "(bytes \<Rightarrow> string) \<Rightarrow> bytes \<Rightarrow> string + BehaviorEvent" where
  "deserialize_packet b64 data =
     (if length data < PacketEventHeader_SIZE then Err ''Packet event data too short''
      else let pkt = read_PacketEventHeader data;
               pkt_data = drop PacketEventHeader_SIZE data;
               name = (if pkt_kind pkt = kind_byte PacketIngress then ''ingress'' else ''egress'') in
        Ok \<lparr>be_header = synthetic_header (pkt_timestamp_ns pkt),
            be_event = \<lparr>et_type = ''PACKET'', et_name = name, et_layer = behavior\<rparr>,
            be_proc = None,
            be_args = Some (JObj [(''data'', JStr (b64 pkt_data)),
              (''ifindex'', junum (pkt_ifindex pkt))]),
            be_return_code = None\<rparr>)"

definition seed_authority :: "EventKind \<Rightarrow> LifecycleSeedAuthority" where
  "seed_authority kind =
     (if kind = PacketIngress \<or> kind = PacketEgress \<or> kind = SignalGenerate
      then NonAuthoritative else Authoritative)"

definition deserialize_with_authority ::
  "(bytes \<Rightarrow> string) \<Rightarrow> bytes \<Rightarrow> string + DecodedBehaviorEvent" where
  "deserialize_with_authority b64 data =
     (if length data < 1 then Err ''Event data too short''
      else (case from_u8 (data ! 0) of
          None \<Rightarrow> Err (''Unknown event kind: '' @ decimal (unat (data ! 0)))
        | Some kind \<Rightarrow>
            and_then (if kind = PacketIngress \<or> kind = PacketEgress
                then deserialize_packet b64 data
                else deserialize_process_event b64 data kind)
              (\<lambda>event. Ok \<lparr>de_event = event,
                 de_lifecycle_seed_authority = seed_authority kind\<rparr>)))"

definition deserialize :: "(bytes \<Rightarrow> string) \<Rightarrow> bytes \<Rightarrow> string + BehaviorEvent" where
  "deserialize b64 data =
     and_then (deserialize_with_authority b64 data) (\<lambda>decoded. Ok (de_event decoded))"

end
