(* ===== verification/DeserializerFacts.thy ===== *)
theory DeserializerFacts
  imports Deserializer
begin

text \<open>
  What \<open>deserialize\<close> makes of a record as a BPF program emits it: the bytes of
  an \<open>EventHeader\<close> followed by the bytes of a payload.  The first group of
  lemmas reduces a whole record to its payload parser; the next ones give the
  result of each parser on an emitted payload; the properties are stated on
  \<open>deserialize\<close> itself.
\<close>

section \<open>From a record to its payload\<close>

lemma EventHeader_first_byte:
  "EventHeader_bytes pad h \<noteq> [] \<and> (EventHeader_bytes pad h @ rest) ! 0 = h_kind h"
  by (simp add: EventHeader_bytes_def struct_bytes_def EventHeader_layout_def
      EventHeader_fields_def ctype_defs align_up_def)

lemma deserialize_process_record:
  assumes "wf_EventHeader h"
  shows "deserialize_process_event b64 (EventHeader_bytes pad h @ payload) kind =
     and_then (parse_payload kind b64 (h_capture h) payload)
       (\<lambda>(event_type, name, layer, args, return_code).
         Ok \<lparr>be_header = event_header_json h,
             be_event = \<lparr>et_type = event_type, et_name = name, et_layer = layer\<rparr>,
             be_proc = None,
             be_args = (if kind = ProcessStart then
                (case hj_process_ref (event_header_json h) of
                    Some r \<Rightarrow> Some (JObj [(''process_ref'', process_ref_json r)])
                  | None \<Rightarrow> args)
              else args),
             be_return_code = return_code\<rparr>)"
  using h_wire.long_enough[OF assms, of pad payload] h_wire.tail[OF assms, of pad payload]
    h_wire.round_trip[OF assms, of pad payload]
  by (simp add: deserialize_process_event_def Let_def)

lemma deserialize_record:
  assumes "wf_EventHeader h" "h_kind h = kind_byte k"
    and "k \<noteq> PacketIngress" "k \<noteq> PacketEgress"
  shows "deserialize_with_authority b64 (EventHeader_bytes pad h @ payload) =
     and_then (deserialize_process_event b64 (EventHeader_bytes pad h @ payload) k)
       (\<lambda>event. Ok \<lparr>de_event = event, de_lifecycle_seed_authority = seed_authority k\<rparr>)"
  using assms EventHeader_first_byte[of pad h payload]
  by (simp add: deserialize_with_authority_def)

text \<open>The event a record becomes once its payload is parsed.\<close>

definition record_event :: "EventHeader \<Rightarrow> parsed \<Rightarrow> BehaviorEvent" where
  "record_event h p = (case p of (event_type, name, layer, args, return_code) \<Rightarrow>
     \<lparr>be_header = event_header_json h,
      be_event = \<lparr>et_type = event_type, et_name = name, et_layer = layer\<rparr>,
      be_proc = None, be_args = args, be_return_code = return_code\<rparr>)"

lemma deserialize_emitted:
  assumes "wf_EventHeader h" "h_kind h = kind_byte k"
    and "k \<noteq> PacketIngress" "k \<noteq> PacketEgress" "k \<noteq> ProcessStart"
  shows "deserialize b64 (EventHeader_bytes pad h @ payload) =
     and_then (parse_payload k b64 (h_capture h) payload) (\<lambda>p. Ok (record_event h p))"
  using assms
  by (cases "parse_payload k b64 (h_capture h) payload")
    (simp_all add: deserialize_def deserialize_record deserialize_process_record record_event_def
      split: prod.splits)

lemma deserialize_Ok_cases:
  assumes "deserialize b64 data = Ok e"
  obtains (packet) k where "from_u8 (data ! 0) = Some k" "data \<noteq> []"
      "k = PacketIngress \<or> k = PacketEgress" "deserialize_packet b64 data = Ok e"
  | (process) k where "from_u8 (data ! 0) = Some k" "data \<noteq> []"
      "k \<noteq> PacketIngress" "k \<noteq> PacketEgress" "deserialize_process_event b64 data k = Ok e"
  using assms
  by (auto simp: deserialize_def deserialize_with_authority_def split: if_splits option.splits)

lemma process_event_header:
  assumes "deserialize_process_event b64 data k = Ok e"
  shows "EventHeader_SIZE \<le> length data" "be_header e = event_header_json (read_EventHeader data)"
    "be_proc e = None"
  using assms
  by (auto simp: deserialize_process_event_def Let_def split: if_splits prod.splits)

section \<open>Payload parsers on emitted payloads\<close>

lemma parse_raw_syscall_emitted:
  assumes "wf_RawSyscallPayload p"
  shows "parse_raw_syscall (RawSyscallPayload_bytes pad p @ rest) =
     Ok (''SYSCALL'', decimal (unat (raw_syscall_nr p)), behavior,
       Some (JObj [(''syscall_nr'', junum (raw_syscall_nr p)),
         (''raw_args'', JArr (map junum (raw_args p)))]),
       Some (sint (raw_return_code p)))"
proof -
  have "length (raw_args p) = 6" using assms by (simp add: wf_RawSyscallPayload_def)
  then have "map (\<lambda>i. junum (raw_args p ! i)) [0, 1, 2, 3, 4, 5] = map junum (raw_args p)"
    by (intro nth_equalityI) (auto simp: less_Suc_eq numeral_eq_Suc)
  then show ?thesis
    using raw_wire.size[OF assms, of pad] raw_wire.round_trip[OF assms, of pad rest]
    by (simp add: parse_raw_syscall_def Let_def)
qed

lemma parse_tty_emitted:
  "parse_tty b64 (TtyPayload_bytes pad p @ data) name capture =
     and_then (tty_status capture (unat (tty_data_len p)) (length data)) (\<lambda>status.
       Ok (''TTY'', name, ''intent'',
         Some (JObj [(''data'', JStr (b64 (take (unat (tty_data_len p)) data))),
           (''tty_capture_version'', junum (cap_version capture)),
           (''data_status'', JStr status)]),
         None))"
  using tty_wire.size[of pad p] tty_wire.round_trip[of pad p data]
  by (cases "unat (tty_data_len p) \<le> length data")
    (simp_all add: parse_tty_def Let_def min_def)

lemma parse_execve_emitted:
  assumes "unat (ex_filename_len p) = length filename" "unat (ex_argv_len p) = length argv"
  shows "parse_execve (ExecvePayload_bytes pad p @ filename @ argv) name capture =
     and_then (exec_statuses capture (length filename) (length argv)
         (length filename + length argv) filename argv)
       (\<lambda>(argv_status, filename_status).
         Ok (''TRACEPOINT'', name, ''tooling'',
           Some (JObj [(''filename'', JStr (extract_string filename)),
             (''argv'', jstrs (extract_argv argv)),
             (''exec_capture_version'', junum (cap_version capture)),
             (''argv_status'', JStr argv_status),
             (''filename_status'', JStr filename_status)]),
           Some (sint (ex_return_code p))))"
  using ex_wire.size[of pad p] ex_wire.round_trip[of pad p "filename @ argv"] assms
  by (simp add: parse_execve_def Let_def)

text \<open>The argv buffer as the exec collector frames it: every argument followed by a NUL.\<close>

definition argv_buffer :: "bytes list \<Rightarrow> bytes" where
  "argv_buffer args = concat (map (\<lambda>a. a @ [0]) args)"

lemma argv_buffer_join: "args \<noteq> [] \<Longrightarrow> argv_buffer args = join_nul args @ [0]"
  by (induction args rule: join_nul.induct) (simp_all add: argv_buffer_def)

lemma argv_buffer_Nil [simp]: "argv_buffer [] = []"
  by (simp add: argv_buffer_def)

lemma extract_argv_buffer:
  assumes "list_all nul_free args" "list_all valid_utf8 args"
  shows "extract_argv (argv_buffer args) = map str_of_bytes args"
proof (cases "args = []")
  case False
  then show ?thesis
    using assms
    by (simp add: extract_argv_def argv_buffer_join split_join_nul list_all_iff lossy_valid)
qed (simp add: extract_argv_def argv_buffer_def)

lemma valid_utf8_nul: "valid_utf8 (0 # bs) = valid_utf8 bs"
  using valid_utf8_append[OF valid_utf8_ascii, of "[0]" bs] by simp

lemma valid_utf8_argv_buffer: "list_all valid_utf8 args \<Longrightarrow> valid_utf8 (argv_buffer args)"
  by (induction args) (simp_all add: argv_buffer_def valid_utf8_append valid_utf8_nul)

lemma last_argv_buffer: "args \<noteq> [] \<Longrightarrow> last (argv_buffer args) = 0"
  by (simp add: argv_buffer_join)

lemma extract_string_valid:
  "nul_free s \<Longrightarrow> valid_utf8 s \<Longrightarrow> extract_string s = str_of_bytes s"
  by (simp add: extract_string_def until_nul_free lossy_valid)

lemma parse_two_path_emitted:
  assumes "unat (tp_path1_len p) = length p1" "unat (tp_path2_len p) = length p2"
  shows "parse_two_path_event (TwoPathPayload_bytes pad p @ p1 @ p2) name capture =
     and_then (path_capture_status (cap_version capture) (cap_primary capture) p1) (\<lambda>s1.
     and_then (path_capture_status (cap_version capture) (cap_secondary capture) p2) (\<lambda>s2.
       Ok (''TRACEPOINT'', name, behavior,
         Some (JObj [(''oldpath'', JStr (extract_string p1)),
           (''newpath'', JStr (extract_string p2)),
           (''path_capture_version'', junum (cap_version capture)),
           (''path1_status'', JStr s1), (''path2_status'', JStr s2)]),
         Some (sint (tp_return_code p)))))"
  using tp_wire.size[of pad p] tp_wire.round_trip[of pad p "p1 @ p2"] assms
  by (simp add: parse_two_path_event_def Let_def)

lemma parse_process_exit_emitted:
  "parse_process_exit (ProcessExitPayload_bytes pad p @ rest) =
     Ok (''LIFECYCLE'', ''process_exit'', behavior,
       Some (if pe_raw_status p AND 0x7f = 0 then
           JObj [(''exit_kind'', JStr ''code''),
             (''exit_code'', jsnum (signed_drop_bit 8 (pe_raw_status p) AND 0xff)),
             (''raw_status'', jsnum (pe_raw_status p))]
         else
           JObj [(''exit_kind'', JStr ''signal''), (''signal'', jsnum (pe_raw_status p AND 0x7f)),
             (''core_dumped'', JBool (pe_raw_status p AND 0x80 \<noteq> 0)),
             (''raw_status'', jsnum (pe_raw_status p))]),
       None)"
  using pe_wire.size[of pad p] pe_wire.round_trip[of pad p rest]
  by (simp add: parse_process_exit_def Let_def)

text \<open>The header layout the kernel side and the daemon agree on.\<close>

lemma EventHeader_offsets:
  "field EventHeader_layout ''timestamp_ns'' bs = take 8 (drop 8 bs)"
  "field EventHeader_layout ''auid'' bs = take 4 (drop 16 bs)"
  "field EventHeader_layout ''sessionid'' bs = take 4 (drop 20 bs)"
  "field EventHeader_layout ''pid'' bs = take 4 (drop 24 bs)"
  "field EventHeader_layout ''ppid'' bs = take 4 (drop 28 bs)"
  "field EventHeader_layout ''process_start_boottime_ns'' bs = take 8 (drop 32 bs)"
  "field EventHeader_layout ''comm'' bs = take 16 (drop 40 bs)"
  "field EventHeader_layout ''tid'' bs = take 4 (drop 56 bs)"
  by (simp_all add: field_def EventHeader_layout_def ctype_defs align_up_def
      HeaderCapture_ctype NsSnapshot_ctype)

lemma decoded_header_fields:
  assumes "deserialize b64 data = Ok e"
    and "from_u8 (data ! 0) \<noteq> Some PacketIngress" "from_u8 (data ! 0) \<noteq> Some PacketEgress"
  shows "EventHeader_SIZE \<le> length data"
    and "hj_timestamp (be_header e) = le_word (take 8 (drop 8 data))"
    and "hj_pid (be_header e) = le_word (take 4 (drop 24 data))"
    and "hj_process_ref (be_header e) = Some r \<longleftrightarrow>
           pr_tgid r = le_word (take 4 (drop 24 data)) \<and> pr_tgid r \<noteq> 0 \<and>
           pr_start_boottime_ns r = le_word (take 8 (drop 32 data)) \<and>
           pr_start_boottime_ns r \<noteq> 0"
    and "hj_tid (be_header e) = Some t \<longleftrightarrow> t = le_word (take 4 (drop 56 data)) \<and> t \<noteq> 0"
    and "hj_ns (be_header e) \<noteq> None \<longleftrightarrow> hj_tid (be_header e) \<noteq> None"
    and "be_proc e = None"
proof -
  obtain k where "deserialize_process_event b64 data k = Ok e"
    using assms by (cases rule: deserialize_Ok_cases) auto
  note h = process_event_header[OF this]
  show "EventHeader_SIZE \<le> length data" "be_proc e = None" using h by simp_all
  show "hj_timestamp (be_header e) = le_word (take 8 (drop 8 data))"
    "hj_pid (be_header e) = le_word (take 4 (drop 24 data))"
    "hj_ns (be_header e) \<noteq> None \<longleftrightarrow> hj_tid (be_header e) \<noteq> None"
    using h(2) by (simp_all add: event_header_json_def read_EventHeader_def EventHeader_offsets)
  show "hj_process_ref (be_header e) = Some r \<longleftrightarrow>
      pr_tgid r = le_word (take 4 (drop 24 data)) \<and> pr_tgid r \<noteq> 0 \<and>
      pr_start_boottime_ns r = le_word (take 8 (drop 32 data)) \<and> pr_start_boottime_ns r \<noteq> 0"
    using h(2) by (cases r)
      (auto simp: event_header_json_def read_EventHeader_def EventHeader_offsets)
  show "hj_tid (be_header e) = Some t \<longleftrightarrow> t = le_word (take 4 (drop 56 data)) \<and> t \<noteq> 0"
    using h(2) by (auto simp: event_header_json_def read_EventHeader_def EventHeader_offsets)
qed

section \<open>Properties\<close>


text \<open>A header used by the witnesses: process 7, started at 9, thread 7.\<close>

definition sample_header :: "byte \<Rightarrow> HeaderCapture \<Rightarrow> EventHeader" where
  "sample_header kind capture =
     \<lparr>h_kind = kind, h_capture = capture, h_timestamp_ns = 5, h_auid = 1000, h_sessionid = 1,
      h_pid = 7, h_ppid = 1, h_process_start_boottime_ns = 9,
      h_comm = [0x73, 0x68] @ replicate 14 0, h_tid = 7,
      h_ns = \<lparr>ns_inum = replicate 7 11, ns_status = replicate 7 1\<rparr>\<rparr>"

lemma sample_header_wf [simp]:
  "wf_EventHeader (sample_header kind capture)" "h_kind (sample_header kind capture) = kind"
  "h_capture (sample_header kind capture) = capture"
  by (simp_all add: sample_header_def wf_EventHeader_def wf_NsSnapshot_def)

definition capture_v0 :: HeaderCapture where
  "capture_v0 = \<lparr>cap_version = 0, cap_primary = 0, cap_secondary = 0\<rparr>"

definition capture_v1 :: "CaptureStatus \<Rightarrow> byte \<Rightarrow> HeaderCapture" where
  "capture_v1 s secondary =
     \<lparr>cap_version = 1, cap_primary = status_byte s, cap_secondary = secondary\<rparr>"

text \<open>
  A raw-syscall record, whatever its padding and whatever follows it,
  decodes to an event that carries the number, the six arguments and the signed
  return value the kernel recorded, under the header the kernel wrote.
\<close>

theorem raw_syscall_record:
  assumes "wf_EventHeader h" "h_kind h = kind_byte RawSyscall" "wf_RawSyscallPayload p"
  shows "deserialize b64 (EventHeader_bytes pad h @ RawSyscallPayload_bytes pad' p @ rest) =
     Ok \<lparr>be_header = event_header_json h,
         be_event = \<lparr>et_type = ''SYSCALL'', et_name = decimal (unat (raw_syscall_nr p)),
                     et_layer = behavior\<rparr>,
         be_proc = None,
         be_args = Some (JObj [(''syscall_nr'', junum (raw_syscall_nr p)),
           (''raw_args'', JArr (map junum (raw_args p)))]),
         be_return_code = Some (sint (raw_return_code p))\<rparr>"
  using assms
  by (simp add: deserialize_emitted[where k = RawSyscall] parse_raw_syscall_emitted
      record_event_def)

definition sample_raw :: RawSyscallPayload where
  "sample_raw = \<lparr>raw_syscall_nr = 39, raw_args = [1, 2, 3, 4, 5, 6], raw_return_code = - 1\<rparr>"

theorem raw_syscall_record_witness:
  "wf_RawSyscallPayload sample_raw \<and>
   is_ok (deserialize str_of_bytes
     (EventHeader_bytes (\<lambda>_. 0xAA) (sample_header 10 capture_v0)
       @ RawSyscallPayload_bytes (\<lambda>_. 0) sample_raw @ []))"
  using raw_syscall_record[of "sample_header 10 capture_v0" sample_raw str_of_bytes
      "\<lambda>_. 0xAA" "\<lambda>_. 0" "[]"]
  by (simp add: wf_RawSyscallPayload_def sample_raw_def)


text \<open>
  An exec record whose collector saw the whole argument vector and file
  name gives back exactly those arguments, empty ones included, and certifies
  both as complete.
\<close>

theorem exec_record_argv:
  assumes "wf_EventHeader h" "h_kind h = kind_byte Execve"
    and "h_capture h = capture_v1 Complete (status_byte Complete)"
    and "list_all nul_free args" "list_all valid_utf8 args"
    and "nul_free filename" "valid_utf8 filename"
    and "unat (ex_filename_len p) = length filename"
    and "unat (ex_argv_len p) = length (argv_buffer args)"
  shows "\<exists>e. deserialize b64
       (EventHeader_bytes pad h @ ExecvePayload_bytes pad' p @ filename @ argv_buffer args) = Ok e
     \<and> be_args e = Some (JObj [(''filename'', JStr (str_of_bytes filename)),
         (''argv'', jstrs (map str_of_bytes args)), (''exec_capture_version'', JNum 1),
         (''argv_status'', JStr ''complete''), (''filename_status'', JStr ''complete'')])
     \<and> be_return_code e = Some (sint (ex_return_code p))"
proof -
  have "exec_statuses (h_capture h) (length filename) (length (argv_buffer args))
      (length filename + length (argv_buffer args)) filename (argv_buffer args)
    = Ok (''complete'', ''complete'')"
    using assms last_argv_buffer[of args] argv_buffer_Nil
    by (cases "args = []")
      (simp_all add: exec_statuses_def capture_v1_def valid_utf8_argv_buffer status_str_def
        capture_status_try_from_def)
  then show ?thesis
    using assms
    by (simp add: deserialize_emitted[where k = Execve] parse_execve_emitted record_event_def
        extract_argv_buffer extract_string_valid capture_v1_def junum_def)
qed

theorem exec_record_argv_witness:
  "\<exists>e. deserialize str_of_bytes
       (EventHeader_bytes (\<lambda>_. 1) (sample_header 2 (capture_v1 Complete 1))
        @ ExecvePayload_bytes (\<lambda>_. 0) \<lparr>ex_filename_len = 2, ex_argv_len = 5, ex_return_code = 0\<rparr>
        @ [0x6C, 0x73] @ argv_buffer [[0x6C, 0x73], [], []]) = Ok e
     \<and> be_args e = Some (JObj [(''filename'', JStr (str_of_bytes [0x6C, 0x73])),
         (''argv'', jstrs (map str_of_bytes [[0x6C, 0x73], [], []])),
         (''exec_capture_version'', JNum 1),
         (''argv_status'', JStr ''complete''), (''filename_status'', JStr ''complete'')])
     \<and> be_return_code e = Some (sint (0 :: 32 word))"
  using exec_record_argv[of "sample_header 2 (capture_v1 Complete 1)" "[[0x6C, 0x73], [], []]"
      "[0x6C, 0x73]" "\<lparr>ex_filename_len = 2, ex_argv_len = 5, ex_return_code = 0\<rparr>"
      str_of_bytes "\<lambda>_. 1" "\<lambda>_. 0"]
  by (simp add: nul_free_def valid_utf8_ascii argv_buffer_def)

text \<open>
  A version-1 TTY record is accepted exactly when its status fits its
  length (data for a complete capture, the full bounded prefix for a truncated
  one, nothing for a failed read), and an accepted record carries the encoding
  of exactly the captured bytes.
\<close>

definition tty_length_fits :: "CaptureStatus \<Rightarrow> nat \<Rightarrow> bool" where
  "tty_length_fits s n = (case s of
       Complete \<Rightarrow> 0 < n \<and> n \<le> 4095
     | Truncated \<Rightarrow> n = 4095
     | ReadError \<Rightarrow> n = 0)"

lemma tty_status_v1:
  "secondary = 0 \<and> tty_length_fits s n \<Longrightarrow>
     tty_status (capture_v1 s secondary) n n = Ok (status_str s)"
  "\<not> (secondary = 0 \<and> tty_length_fits s n) \<Longrightarrow>
     \<exists>m. tty_status (capture_v1 s secondary) n n = Err m"
  by (cases s; auto simp: tty_status_def capture_v1_def tty_length_fits_def status_str_def
      capture_status_try_from_def MAX_TTY_DATA_def)+

theorem tty_record_contract:
  assumes "wf_EventHeader h" "h_kind h = kind_byte TtyRead \<or> h_kind h = kind_byte TtyWrite"
    and "h_capture h = capture_v1 s secondary"
    and "unat (tty_data_len p) = length data"
  shows "case deserialize b64 (EventHeader_bytes pad h @ TtyPayload_bytes pad' p @ data) of
       Inl _ \<Rightarrow> \<not> (secondary = 0 \<and> tty_length_fits s (length data))
     | Inr e \<Rightarrow> secondary = 0 \<and> tty_length_fits s (length data) \<and>
         be_args e = Some (JObj [(''data'', JStr (b64 data)), (''tty_capture_version'', JNum 1),
           (''data_status'', JStr (status_str s))])"
proof -
  obtain k where k: "k = TtyRead \<or> k = TtyWrite" "h_kind h = kind_byte k" using assms(2) by blast
  then have d: "deserialize b64 (EventHeader_bytes pad h @ TtyPayload_bytes pad' p @ data) =
      and_then (parse_payload k b64 (capture_v1 s secondary) (TtyPayload_bytes pad' p @ data))
        (\<lambda>p. Ok (record_event h p))"
    using assms by (auto simp: deserialize_emitted[where k = k])
  show ?thesis
  proof (cases "secondary = 0 \<and> tty_length_fits s (length data)")
    case True
    then show ?thesis
      using k(1) assms(4) tty_status_v1(1)[of secondary s "length data"]
      by (auto simp: d parse_tty_emitted record_event_def capture_v1_def junum_def)
  next
    case False
    then obtain m where "tty_status (capture_v1 s secondary) (length data) (length data) = Err m"
      using tty_status_v1(2) by blast
    with False k(1) assms(4) show ?thesis by (auto simp: d parse_tty_emitted)
  qed
qed

theorem tty_record_contract_witness:
  "case deserialize str_of_bytes
      (EventHeader_bytes (\<lambda>_. 0) (sample_header 0 (capture_v1 Complete 0))
        @ TtyPayload_bytes (\<lambda>_. 0) \<lparr>tty_data_len = 2\<rparr> @ [0x6C, 0x0D]) of
     Inl _ \<Rightarrow> False
   | Inr e \<Rightarrow> be_args e = Some (JObj [(''data'', JStr (str_of_bytes [0x6C, 0x0D])),
       (''tty_capture_version'', JNum 1), (''data_status'', JStr ''complete'')])"
  using tty_record_contract[of "sample_header 0 (capture_v1 Complete 0)" Complete 0
      "\<lparr>tty_data_len = 2\<rparr>" "[0x6C, 0x0D]" str_of_bytes "\<lambda>_. 0" "\<lambda>_. 0"]
  by (simp add: tty_length_fits_def status_str_def split: sum.splits)

lemma wait_status_code: 
  fixes w :: "32 word"
  assumes "uint w = code * 256" "code < 256" "0 \<le> code"
  shows "w AND 0x7f = 0" "sint (signed_drop_bit 8 w AND 0xff) = code" "sint w = code * 256"
proof -
  have "uint (w AND 0x7f) = 0" using assms by (simp add: uint_and_0x7f)
  then show "w AND 0x7f = 0" by (rule unsigned_eq_0_iff[THEN iffD1])
  have "uint (signed_drop_bit 8 w AND 0xff) = code" using assms by (simp add: signed_drop_byte uint_and_0xff uint_drop_bit_8)
  then show "sint (signed_drop_bit 8 w AND 0xff) = code" using assms by (simp add: sint_nonneg)
  show "sint w = code * 256" using assms by (simp add: sint_nonneg)
qed

lemma wait_status_signal: 
  fixes w :: "32 word"
  assumes "uint w = sig + (if core then 128 else 0)" "0 < sig" "sig < 128"
  shows "w AND 0x7f \<noteq> 0" "sint (w AND 0x7f) = sig" "(w AND 0x80 \<noteq> 0) = core"
    "sint w = sig + (if core then 128 else 0)"
proof -
  have u: "uint (w AND 0x7f) = sig" using assms by (simp add: uint_and_0x7f)
  then show "w AND 0x7f \<noteq> 0" using assms by auto
  show "sint (w AND 0x7f) = sig" using u assms by (simp add: sint_nonneg)
  have "(sig + 128) div 128 = 1" using assms by simp
  then have "bit (uint w) 7 = core" using assms by (simp add: bit_iff_odd)
  then show "(w AND 0x80 \<noteq> 0) = core" unfolding and_0x80_bit by (simp add: bit_uint_iff)
  show "sint w = sig + (if core then 128 else 0)" using assms by (simp add: sint_nonneg)
qed

text \<open>
  Wait statuses.  A process that exited with a code is reported with that
  code; one killed by a signal with that signal and its core flag; the raw
  status is kept in both cases.
\<close>

theorem process_exit_record:
  assumes "wf_EventHeader h" "h_kind h = kind_byte ProcessExit"
    and "0 \<le> code" "code < 256" "0 < sig" "sig < 128"
    and "uint (pe_raw_status p) = code * 256" "uint (pe_raw_status q) = sig + (if core then 128 else 0)"
  shows "(\<exists>e. deserialize b64 (EventHeader_bytes pad h @ ProcessExitPayload_bytes pad' p) = Ok e
       \<and> be_args e = Some (JObj [(''exit_kind'', JStr ''code''), (''exit_code'', JNum code),
           (''raw_status'', JNum (code * 256))])) \<and>
    (\<exists>e. deserialize b64 (EventHeader_bytes pad h @ ProcessExitPayload_bytes pad' q) = Ok e
       \<and> be_args e = Some (JObj [(''exit_kind'', JStr ''signal''), (''signal'', JNum sig),
           (''core_dumped'', JBool core), (''raw_status'', JNum (sig + (if core then 128 else 0)))]))"
  using assms parse_process_exit_emitted[of pad' p "[]"] parse_process_exit_emitted[of pad' q "[]"]
    wait_status_code[of "pe_raw_status p" code] wait_status_signal[of "pe_raw_status q" sig core]
  by (simp add: deserialize_emitted[where k = ProcessExit] record_event_def jsnum_def)

theorem process_exit_record_witness:
  "(\<exists>e. deserialize str_of_bytes (EventHeader_bytes (\<lambda>_. 0) (sample_header 222 capture_v0)
        @ ProcessExitPayload_bytes (\<lambda>_. 0) \<lparr>pe_raw_status = 256\<rparr>) = Ok e
     \<and> be_args e = Some (JObj [(''exit_kind'', JStr ''code''), (''exit_code'', JNum 1),
         (''raw_status'', JNum 256)])) \<and>
   (\<exists>e. deserialize str_of_bytes (EventHeader_bytes (\<lambda>_. 0) (sample_header 222 capture_v0)
        @ ProcessExitPayload_bytes (\<lambda>_. 0) \<lparr>pe_raw_status = 139\<rparr>) = Ok e
     \<and> be_args e = Some (JObj [(''exit_kind'', JStr ''signal''), (''signal'', JNum 11),
         (''core_dumped'', JBool True), (''raw_status'', JNum 139)]))"
  using process_exit_record[of "sample_header 222 capture_v0" 1 11 "\<lparr>pe_raw_status = 256\<rparr>"
      "\<lparr>pe_raw_status = 139\<rparr>" True str_of_bytes "\<lambda>_. 0" "\<lambda>_. 0"]
  by simp


text \<open>The validity bits of an openat record are independent of each other.\<close>

lemma openat_masks:
  "(flags AND openat_identity) AND DEV_VALID = flags AND DEV_VALID"
  "(flags AND openat_identity) AND INO_VALID = flags AND INO_VALID"
  "flags AND openat_identity = 0 \<Longrightarrow> flags AND DEV_VALID = 0 \<and> flags AND INO_VALID = 0"
  "flags AND openat_identity = openat_identity \<Longrightarrow>
     flags AND DEV_VALID \<noteq> 0 \<and> flags AND INO_VALID \<noteq> 0"
proof -
  have m: "openat_identity AND DEV_VALID = DEV_VALID" "openat_identity AND INO_VALID = INO_VALID"
    by (simp_all add: openat_identity_def capture_consts)
  then show d: "(flags AND openat_identity) AND DEV_VALID = flags AND DEV_VALID"
    and i: "(flags AND openat_identity) AND INO_VALID = flags AND INO_VALID"
    by (simp_all add: and.assoc)
  show "flags AND openat_identity = 0 \<Longrightarrow> flags AND DEV_VALID = 0 \<and> flags AND INO_VALID = 0"
    using d i by simp
  show "flags AND openat_identity = openat_identity \<Longrightarrow>
     flags AND DEV_VALID \<noteq> 0 \<and> flags AND INO_VALID \<noteq> 0"
    using d i m by (simp add: capture_consts)
qed

text \<open>
  File identity in openat events.  Device and inode numbers of a version-1
  record are reported exactly when the collector marked them valid; a failed
  open reports neither; and the status \<open>complete\<close> appears only when both are
  reported.
\<close>

theorem openat_identity_reported:
  assumes "wf_EventHeader h" "h_kind h = kind_byte Openat" "oa_capture_version p = 1"
    and "deserialize b64 (EventHeader_bytes pad h @ OpenatPayload_bytes pad' p @ name) = Ok e"
  shows "\<exists>args. be_args e = Some args \<and>
     jget args ''dev'' = (if oa_capture_flags p AND DEV_VALID \<noteq> 0 then Some (junum (oa_dev p)) else None) \<and>
     jget args ''ino'' = (if oa_capture_flags p AND INO_VALID \<noteq> 0 then Some (junum (oa_ino p)) else None) \<and>
     (sint (oa_return_code p) < 0 \<longrightarrow> jget args ''dev'' = None \<and> jget args ''ino'' = None \<and>
        jget args ''file_identity_status'' = Some (JStr ''not_attempted'')) \<and>
     (jget args ''file_identity_status'' = Some (JStr ''complete'') \<longrightarrow>
        jget args ''dev'' \<noteq> None \<and> jget args ''ino'' \<noteq> None)"
proof -
  have "length (OpenatPayload_bytes pad' p) = 40" "read_OpenatPayload (OpenatPayload_bytes pad' p @ name) = p"
    using oa_wire.size[of pad' p] oa_wire.round_trip[of pad' p name] by (simp_all add: OpenatPayload_SIZE)
  then show ?thesis
    using assms openat_masks[of "oa_capture_flags p"]
    by (auto simp: deserialize_emitted[where k = Openat] parse_openat_def Let_def
        record_event_def OpenatPayload_SIZE openat_metadata_bad_def openat_identity_status_def
        split: if_splits)
qed

definition sample_openat :: OpenatPayload where
  "sample_openat = \<lparr>oa_flags = 0, oa_mode = 0, oa_filename_len = 1, oa_capture_version = 1,
     oa_capture_flags = 7, oa_return_code = 3, oa_dirfd = - 100, oa_dev = 5, oa_ino = 6\<rparr>"

theorem openat_identity_reported_witness:
  "\<exists>e args. deserialize str_of_bytes (EventHeader_bytes (\<lambda>_. 0) (sample_header 20 capture_v0)
       @ OpenatPayload_bytes (\<lambda>_. 0) sample_openat @ [0x61]) = Ok e \<and> be_args e = Some args
     \<and> jget args ''dev'' = Some (JNum 5) \<and> jget args ''ino'' = Some (JNum 6)"
proof -
  let ?r = "EventHeader_bytes (\<lambda>_. 0) (sample_header 20 capture_v0)
    @ OpenatPayload_bytes (\<lambda>_. 0) sample_openat @ [0x61]"
  have "\<not> openat_metadata_bad sample_openat (Suc 0)"
    by (simp add: openat_metadata_bad_def sample_openat_def openat_identity_def openat_path_def
        capture_consts)
  moreover have "length (OpenatPayload_bytes (\<lambda>_. 0) sample_openat) = OpenatPayload_SIZE"
    "read_OpenatPayload (OpenatPayload_bytes (\<lambda>_. 0) sample_openat @ [0x61]) = sample_openat"
    by (simp_all add: oa_wire.size oa_wire.round_trip)
  moreover have "oa_capture_version sample_openat = 1" by (simp add: sample_openat_def)
  ultimately obtain e where e: "deserialize str_of_bytes ?r = Ok e"
    by (simp add: deserialize_emitted[where k = Openat] parse_openat_def Let_def)
  have "oa_capture_flags sample_openat AND DEV_VALID \<noteq> 0"
    "oa_capture_flags sample_openat AND INO_VALID \<noteq> 0"
    by (simp_all add: sample_openat_def capture_consts)
  with openat_identity_reported[of "sample_header 20 capture_v0" sample_openat, OF _ _ _ e] e
  show ?thesis by (auto simp: sample_openat_def junum_def)
qed

end
