(* ===== verification/Lifecycle.thy ===== *)
theory Lifecycle
  imports Events
begin

text \<open>
  \<open>bloodhound/src/lifecycle.rs\<close>: the synthesizer that completes the kernel's
  lifecycle stream.  Its state is the map of active processes and the set of
  identity sources already reported; \<open>observe\<close> is what the sequencer does with
  one decoded event (\<open>before_observation\<close>, the event itself, \<open>after\<close>).
\<close>

section \<open>State\<close>

datatype IdentityDiagnosticSource =
  EventHeaderSource | ForkParent | TaskKillTarget | SignalGenerateTarget

primrec source_str :: "IdentityDiagnosticSource \<Rightarrow> string" where
  "source_str EventHeaderSource = ''event_header''"
| "source_str ForkParent = ''process_fork.parent_ref''"
| "source_str TaskKillTarget = ''task_kill.target_ref''"
| "source_str SignalGenerateTarget = ''signal_generate.target_ref''"

record LifecycleSynthesizer =
  ls_active :: "32 word \<Rightarrow> ProcessRefJson option"
  ls_identity_diagnostics :: "IdentityDiagnosticSource set"

definition new_synthesizer :: LifecycleSynthesizer where
  "new_synthesizer = \<lparr>ls_active = Map.empty, ls_identity_diagnostics = {}\<rparr>"

section \<open>Synthesised events\<close>

definition arg :: "BehaviorEvent \<Rightarrow> string \<Rightarrow> json option" where
  "arg e k = Option.bind (be_args e) (\<lambda>args. jget args k)"

definition unavailable_identity_source :: "BehaviorEvent \<Rightarrow> IdentityDiagnosticSource option" where
  "unavailable_identity_source e =
     (if is_event ''LIFECYCLE'' ''process_fork'' e \<and> arg e ''parent_ref'' = None
      then Some ForkParent
      else if et_name (be_event e) = ''task_kill'' \<and> arg e ''target_ref'' = None
      then Some TaskKillTarget
      else if et_name (be_event e) = ''signal_generate'' \<and> arg e ''target_ref'' = None
      then Some SignalGenerateTarget
      else if hj_pid (be_header e) \<noteq> 0 \<and> hj_process_ref (be_header e) = None
        \<and> et_type (be_event e) \<notin> {''PACKET'', ''HEARTBEAT'', ''DIAGNOSTIC''}
      then Some EventHeaderSource
      else None)"

definition as_u64 :: "json \<Rightarrow> int option" where
  "as_u64 j = (case j of JNum n \<Rightarrow> if 0 \<le> n \<and> n < 2 ^ 64 then Some n else None | _ \<Rightarrow> None)"

definition observed_tgid :: "BehaviorEvent \<Rightarrow> IdentityDiagnosticSource \<Rightarrow> int" where
  "observed_tgid e source =
     (if source = TaskKillTarget \<or> source = SignalGenerateTarget
      then (case Option.bind (arg e ''target_pid'') as_u64 of None \<Rightarrow> 0 | Some n \<Rightarrow> n)
      else uint (hj_pid (be_header e)))"

definition make_identity_diagnostic ::
  "BehaviorEvent \<Rightarrow> IdentityDiagnosticSource \<Rightarrow> BehaviorEvent" where
  "make_identity_diagnostic triggering source =
     \<lparr>be_header = \<lparr>hj_timestamp = hj_timestamp (be_header triggering),
        hj_auid = hj_auid (be_header triggering),
        hj_sessionid = hj_sessionid (be_header triggering),
        hj_pid = 0, hj_ppid = None, hj_comm = [], hj_process_ref = None,
        hj_tid = None, hj_ns = None\<rparr>,
      be_event = \<lparr>et_type = ''DIAGNOSTIC'', et_name = ''process.identity'',
                  et_layer = ''behavior''\<rparr>,
      be_proc = None,
      be_args = Some (JObj [(''reason_code'', JStr ''stable_process_ref_unavailable''),
        (''source'', JStr (source_str source)),
        (''observed_tgid'', JNum (observed_tgid triggering source))]),
      be_return_code = None\<rparr>"

definition clone_header :: "EventHeaderJson \<Rightarrow> EventHeaderJson" where
  "clone_header h = h\<lparr>hj_tid := None, hj_ns := None\<rparr>"

definition make_process_start :: "BehaviorEvent \<Rightarrow> ProcessRefJson \<Rightarrow> BehaviorEvent" where
  "make_process_start triggering process_ref =
     \<lparr>be_header = clone_header (be_header triggering),
      be_event = \<lparr>et_type = ''LIFECYCLE'', et_name = ''process_start'', et_layer = ''behavior''\<rparr>,
      be_proc = None,
      be_args = Some (JObj [(''process_ref'', process_ref_json process_ref)]),
      be_return_code = None\<rparr>"

section \<open>Operations\<close>

definition report_identity ::
  "LifecycleSynthesizer \<Rightarrow> BehaviorEvent \<Rightarrow> BehaviorEvent list \<times> LifecycleSynthesizer" where
  "report_identity st e = (case unavailable_identity_source e of
       None \<Rightarrow> ([], st)
     | Some source \<Rightarrow>
         if source \<in> ls_identity_diagnostics st then ([], st)
         else ([make_identity_diagnostic e source],
               st\<lparr>ls_identity_diagnostics := insert source (ls_identity_diagnostics st)\<rparr>))"

definition before_observation ::
  "LifecycleSynthesizer \<Rightarrow> BehaviorEvent \<Rightarrow> LifecycleSeedAuthority \<Rightarrow>
     BehaviorEvent list \<times> LifecycleSynthesizer" where
  "before_observation st e authority =
     (case report_identity st e of (emitted, st) \<Rightarrow>
       if authority = NonAuthoritative then (emitted, st)
       else (case hj_process_ref (be_header e) of
           None \<Rightarrow> (emitted, st)
         | Some r \<Rightarrow>
             let activated = st\<lparr>ls_active := (ls_active st)(pr_tgid r \<mapsto> r)\<rparr> in
             if is_event ''LIFECYCLE'' ''process_start'' e then (emitted, activated)
             else if ls_active st (pr_tgid r) = Some r then (emitted, st)
             else (emitted @ [make_process_start e r], activated)))"

definition after_observation ::
  "LifecycleSynthesizer \<Rightarrow> BehaviorEvent \<Rightarrow> BehaviorEvent list \<times> LifecycleSynthesizer" where
  "after_observation st e =
     (if is_event ''LIFECYCLE'' ''process_exit'' e then
        (case hj_process_ref (be_header e) of
            None \<Rightarrow> ([], st)
          | Some r \<Rightarrow>
              if ls_active st (pr_tgid r) = Some r
              then ([], st\<lparr>ls_active := (ls_active st)(pr_tgid r := None)\<rparr>)
              else ([], st))
      else ([], st))"

definition observe ::
  "LifecycleSynthesizer \<Rightarrow> BehaviorEvent \<times> LifecycleSeedAuthority \<Rightarrow>
     BehaviorEvent list \<times> LifecycleSynthesizer" where
  "observe st ev = (case ev of (e, authority) \<Rightarrow>
     (case before_observation st e authority of (pre, st1) \<Rightarrow>
     (case after_observation st1 e of (post, st2) \<Rightarrow> (pre @ [e] @ post, st2))))"

primrec observe_all ::
  "LifecycleSynthesizer \<Rightarrow> (BehaviorEvent \<times> LifecycleSeedAuthority) list \<Rightarrow>
     BehaviorEvent list \<times> LifecycleSynthesizer" where
  "observe_all st [] = ([], st)"
| "observe_all st (ev # evs) = (case observe st ev of (out, st1) \<Rightarrow>
     (case observe_all st1 evs of (out', st2) \<Rightarrow> (out @ out', st2)))"

section \<open>Facts\<close>

lemmas lifecycle_defs = report_identity_def before_observation_def after_observation_def

definition synthesised_start :: "ProcessRefJson \<Rightarrow> BehaviorEvent \<Rightarrow> bool" where
  "synthesised_start r e \<longleftrightarrow> is_event ''LIFECYCLE'' ''process_start'' e
     \<and> hj_process_ref (be_header e) = Some r"

text \<open>What is emitted before the event itself.\<close>

definition precursors ::
  "LifecycleSynthesizer \<Rightarrow> BehaviorEvent \<times> LifecycleSeedAuthority \<Rightarrow> BehaviorEvent list" where
  "precursors st ev = fst (before_observation st (fst ev) (snd ev))"

definition next_state ::
  "LifecycleSynthesizer \<Rightarrow> BehaviorEvent \<times> LifecycleSeedAuthority \<Rightarrow> LifecycleSynthesizer" where
  "next_state st ev =
     snd (after_observation (snd (before_observation st (fst ev) (snd ev))) (fst ev))"

lemma observe_eq: "observe st ev = (precursors st ev @ [fst ev], next_state st ev)"
  by (auto simp: observe_def precursors_def next_state_def after_observation_def
      split: prod.splits option.splits if_splits)

lemma identity_diagnostic_not_start [simp]:
  "\<not> is_event ''LIFECYCLE'' nm (make_identity_diagnostic e s)"
  by (simp add: is_event_def make_identity_diagnostic_def)

lemma make_process_start_event [simp]:
  "is_event ''LIFECYCLE'' ''process_start'' (make_process_start e r)"
  "hj_process_ref (be_header (make_process_start e r)) = hj_process_ref (be_header e)"
  by (simp_all add: is_event_def make_process_start_def clone_header_def)

lemma report_identity_active [simp]:
  "ls_active (snd (report_identity st e)) = ls_active st"
  by (simp add: report_identity_def split: option.splits)

lemma report_identity_no_start:
  "x \<in> set (fst (report_identity st e)) \<Longrightarrow> \<not> is_event ''LIFECYCLE'' nm x"
  by (auto simp: report_identity_def split: option.splits if_splits)

text \<open>
  An input that ends the synthesizer's record of \<open>r\<close>: its exit, or another
  instance under the same process id.
\<close>

definition releases :: "ProcessRefJson \<Rightarrow> BehaviorEvent \<times> LifecycleSeedAuthority \<Rightarrow> bool" where
  "releases r ev = (case ev of (e, authority) \<Rightarrow>
     (case hj_process_ref (be_header e) of
         None \<Rightarrow> False
       | Some r' \<Rightarrow> (is_event ''LIFECYCLE'' ''process_exit'' e \<and> r' = r) \<or>
           (authority = Authoritative \<and> r' \<noteq> r \<and> pr_tgid r' = pr_tgid r)))"

definition tracks :: "LifecycleSynthesizer \<Rightarrow> ProcessRefJson \<Rightarrow> bool" where
  "tracks st r \<longleftrightarrow> ls_active st (pr_tgid r) = Some r"

primrec synthesised ::
  "LifecycleSynthesizer \<Rightarrow> (BehaviorEvent \<times> LifecycleSeedAuthority) list \<Rightarrow> BehaviorEvent list" where
  "synthesised st [] = []"
| "synthesised st (ev # evs) = precursors st ev @ synthesised (next_state st ev) evs"

lemma precursor_starts:
  "filter (synthesised_start r) (precursors st (e, a)) =
     (if a = Authoritative \<and> hj_process_ref (be_header e) = Some r
         \<and> \<not> is_event ''LIFECYCLE'' ''process_start'' e \<and> \<not> tracks st r
      then [make_process_start e r] else [])"
proof -
  obtain em st1 where ri: "report_identity st e = (em, st1)" by fastforce
  have act: "ls_active st1 = ls_active st" using report_identity_active[of st e] ri by simp
  have "filter (synthesised_start r) em = []"
    using report_identity_no_start[of _ st e] ri
    by (auto simp: filter_empty_conv synthesised_start_def)
  then show ?thesis
    by (cases a) (auto simp: precursors_def before_observation_def ri act Let_def
        synthesised_start_def tracks_def split: option.splits)
qed

lemma tracks_before:
  "tracks (snd (before_observation st e a)) r \<longleftrightarrow>
     (case hj_process_ref (be_header e) of
         Some r' \<Rightarrow> if a = Authoritative
           then r' = r \<or> (pr_tgid r' \<noteq> pr_tgid r \<and> tracks st r) else tracks st r
       | None \<Rightarrow> tracks st r)"
proof -
  obtain em st1 where ri: "report_identity st e = (em, st1)" by fastforce
  have act: "ls_active st1 = ls_active st" using report_identity_active[of st e] ri by simp
  show ?thesis
    by (cases a; cases "hj_process_ref (be_header e)")
      (auto simp: before_observation_def ri act Let_def tracks_def)
qed

lemma tracks_after:
  "tracks (snd (after_observation st e)) r \<longleftrightarrow>
     tracks st r \<and>
     \<not> (is_event ''LIFECYCLE'' ''process_exit'' e \<and> hj_process_ref (be_header e) = Some r)"
  by (cases "hj_process_ref (be_header e)") (auto simp: after_observation_def tracks_def)

lemma tracks_next_state:
  "tracks (next_state st (e, a)) r \<longleftrightarrow>
     \<not> releases r (e, a) \<and>
     (tracks st r \<or> (a = Authoritative \<and> hj_process_ref (be_header e) = Some r))"
  by (cases a; cases "hj_process_ref (be_header e)")
    (auto simp: next_state_def tracks_after tracks_before releases_def)

text \<open>Every emitted start is paid for by a release or by the initial absence of the process.\<close>

lemma synthesised_starts_bound:
  "length (filter (synthesised_start r) (synthesised st evs)) \<le>
     length (filter (releases r) evs) + (if tracks st r then 0 else 1)"
proof (induction evs arbitrary: st)
  case (Cons ev evs)
  obtain e a where ev: "ev = (e, a)" by fastforce
  have "length (filter (synthesised_start r) (precursors st ev)) \<le> (if tracks st r then 0 else 1)"
    by (simp add: ev precursor_starts)
  moreover have "tracks (next_state st ev) r \<or> releases r ev" if "tracks st r"
    using that by (simp add: ev tracks_next_state)
  moreover have "tracks (next_state st ev) r \<or> releases r ev"
    if "filter (synthesised_start r) (precursors st ev) \<noteq> []"
    using that by (auto simp: ev tracks_next_state precursor_starts split: if_splits)
  ultimately show ?case
    using Cons[of "next_state st ev"]
    by (cases "filter (synthesised_start r) (precursors st ev) = []") (auto split: if_splits)
qed simp

text \<open>Every tracked instance has a start in the output so far.\<close>

definition starts_written :: "BehaviorEvent list \<Rightarrow> LifecycleSynthesizer \<Rightarrow> bool" where
  "starts_written out st \<longleftrightarrow> (\<forall>r. tracks st r \<longrightarrow> (\<exists>x \<in> set out. synthesised_start r x))"

lemma observation_has_start:
  assumes "starts_written out st" "hj_process_ref (be_header e) = Some r"
  shows "\<exists>x \<in> set (out @ precursors st (e, Authoritative) @ [e]). synthesised_start r x"
proof (cases "is_event ''LIFECYCLE'' ''process_start'' e \<or> tracks st r")
  case True
  with assms show ?thesis by (auto simp: starts_written_def synthesised_start_def)
next
  case False
  then have "filter (synthesised_start r) (precursors st (e, Authoritative)) \<noteq> []"
    using assms by (simp add: precursor_starts)
  then obtain x where "x \<in> set (precursors st (e, Authoritative))" "synthesised_start r x"
    by (auto simp: filter_empty_conv)
  then show ?thesis by auto
qed

lemma starts_written_step:
  assumes "starts_written out st"
  shows "starts_written (out @ fst (observe st ev)) (snd (observe st ev))"
  unfolding starts_written_def
proof (intro allI impI)
  fix r assume t: "tracks (snd (observe st ev)) r"
  obtain e a where ev: "ev = (e, a)" by fastforce
  have "tracks st r \<or> (a = Authoritative \<and> hj_process_ref (be_header e) = Some r)"
    using t by (simp add: ev observe_eq tracks_next_state)
  then show "\<exists>x \<in> set (out @ fst (observe st ev)). synthesised_start r x"
    using assms observation_has_start[OF assms, of e r]
    by (auto simp: ev observe_eq starts_written_def)
qed

lemma starts_written_all:
  "starts_written out st \<Longrightarrow>
     starts_written (out @ fst (observe_all st evs)) (snd (observe_all st evs))"
proof (induction evs arbitrary: out st)
  case (Cons ev evs)
  have "starts_written (out @ fst (observe st ev)) (snd (observe st ev))"
    by (rule starts_written_step[OF Cons.prems])
  from Cons.IH[OF this] show ?case by (simp add: case_prod_beta)
qed simp

text \<open>Identity diagnostics.\<close>

definition identity_diagnostic :: "IdentityDiagnosticSource \<Rightarrow> BehaviorEvent \<Rightarrow> bool" where
  "identity_diagnostic s e \<longleftrightarrow> is_event ''DIAGNOSTIC'' ''process.identity'' e
     \<and> arg e ''source'' = Some (JStr (source_str s))"

lemma source_str_inject [simp]: "source_str a = source_str b \<longleftrightarrow> a = b"
  by (cases a; cases b) simp_all

lemma identity_diagnostic_made [simp]:
  "identity_diagnostic s (make_identity_diagnostic e s') \<longleftrightarrow> s = s'"
  by (auto simp: identity_diagnostic_def make_identity_diagnostic_def is_event_def arg_def)

lemma start_not_identity [simp]: "\<not> identity_diagnostic s (make_process_start e r)"
  by (simp add: identity_diagnostic_def make_process_start_def is_event_def)

lemma report_diagnostics:
  "length (filter (identity_diagnostic s) (fst (report_identity st e))) +
     (if s \<in> ls_identity_diagnostics (snd (report_identity st e)) then 0 else 1) =
   (if s \<in> ls_identity_diagnostics st then 0 else 1)"
  by (cases "unavailable_identity_source e") (auto simp: report_identity_def)

lemma before_diagnostics:
  "filter (identity_diagnostic s) (fst (before_observation st e a)) =
     filter (identity_diagnostic s) (fst (report_identity st e))"
  "ls_identity_diagnostics (snd (before_observation st e a)) =
     ls_identity_diagnostics (snd (report_identity st e))"
  by (cases "hj_process_ref (be_header e)";
      simp add: before_observation_def Let_def case_prod_beta)+

lemma after_diagnostics:
  "ls_identity_diagnostics (snd (after_observation st e)) = ls_identity_diagnostics st"
  by (cases "hj_process_ref (be_header e)") (simp_all add: after_observation_def)

lemma precursor_diagnostics:
  "length (filter (identity_diagnostic s) (precursors st ev)) +
     (if s \<in> ls_identity_diagnostics (next_state st ev) then 0 else 1) =
   (if s \<in> ls_identity_diagnostics st then 0 else 1)"
  using report_diagnostics[of s st "fst ev"]
  by (simp add: precursors_def next_state_def before_diagnostics after_diagnostics)

lemma diagnostics_bound:
  "length (filter (identity_diagnostic s) (synthesised st evs)) \<le>
     (if s \<in> ls_identity_diagnostics st then 0 else 1)"
proof (induction evs arbitrary: st)
  case (Cons ev evs)
  show ?case using Cons[of "next_state st ev"] precursor_diagnostics[of s st ev] by simp
qed simp

section \<open>Properties\<close>

text \<open>
  C22: the synthesizer never repeats itself.  The number of \<open>process_start\<close>
  events it makes up for one process instance is at most one more than the
  number of inputs that ended its record of that instance (the instance's exit,
  or another instance under the same process id).
\<close>

theorem synthesised_starts_unique:
  "length (filter (synthesised_start r) (synthesised new_synthesizer evs)) \<le>
     1 + length (filter (releases r) evs)"
  using synthesised_starts_bound[of r new_synthesizer evs]
  by (simp split: if_splits)

text \<open>
  C6: no process appears before it has started.  Whenever an authoritative
  observation names a process instance, the stream written so far, with the
  records emitted just before that observation and the observation itself,
  contains a \<open>process_start\<close> of exactly that instance.
\<close>

theorem observed_process_has_start:
  assumes "observe_all new_synthesizer evs = (out, st)"
    and "hj_process_ref (be_header e) = Some r"
  shows "\<exists>x \<in> set (out @ precursors st (e, Authoritative) @ [e]).
     is_event ''LIFECYCLE'' ''process_start'' x \<and> hj_process_ref (be_header x) = Some r"
proof -
  have "starts_written [] new_synthesizer"
    by (simp add: starts_written_def tracks_def new_synthesizer_def)
  from starts_written_all[OF this, of evs] have "starts_written out st" using assms(1) by simp
  from observation_has_start[OF this assms(2)] show ?thesis
    by (simp add: synthesised_start_def)
qed

definition sample_event :: "string \<Rightarrow> ProcessRefJson option \<Rightarrow> BehaviorEvent" where
  "sample_event name r =
     \<lparr>be_header = (synthetic_header 5)\<lparr>hj_pid := 7, hj_process_ref := r\<rparr>,
      be_event = \<lparr>et_type = ''TRACEPOINT'', et_name = name, et_layer = ''behavior''\<rparr>,
      be_proc = None, be_args = None, be_return_code = None\<rparr>"

definition sample_ref :: ProcessRefJson where
  "sample_ref = \<lparr>pr_tgid = 7, pr_start_boottime_ns = 9\<rparr>"

theorem observed_process_has_start_witness:
  "\<exists>x \<in> set ([] @ precursors new_synthesizer (sample_event ''read'' (Some sample_ref), Authoritative)
       @ [sample_event ''read'' (Some sample_ref)]).
     is_event ''LIFECYCLE'' ''process_start'' x \<and> hj_process_ref (be_header x) = Some sample_ref"
  using observed_process_has_start[of "[]" "[]" new_synthesizer
      "sample_event ''read'' (Some sample_ref)" sample_ref]
  by (simp add: sample_event_def)

text \<open>
  A signal observation cannot resurrect a process.  A non-authoritative
  input makes up no \<open>process_start\<close>, adds nothing to the active processes, and
  each identity source is reported at most once over a whole run.
\<close>

theorem non_authoritative_never_seeds:
  "filter (synthesised_start r) (precursors st (e, NonAuthoritative)) = [] \<and>
   (tracks (next_state st (e, NonAuthoritative)) r \<longrightarrow> tracks st r) \<and>
   length (filter (identity_diagnostic s) (synthesised new_synthesizer evs)) \<le> 1"
  using diagnostics_bound[of s new_synthesizer evs]
  by (simp add: precursor_starts tracks_next_state split: if_splits)

theorem non_authoritative_never_seeds_witness:
  "\<not> tracks (next_state new_synthesizer
      (sample_event ''signal_generate'' (Some sample_ref), NonAuthoritative)) sample_ref"
  using non_authoritative_never_seeds[of sample_ref new_synthesizer
      "sample_event ''signal_generate'' (Some sample_ref)" ForkParent "[]"]
  by (simp add: tracks_def new_synthesizer_def)

end
