(* ===== verification/Sequencer.thy ===== *)
theory Sequencer
  imports DeserializerFacts Lifecycle
begin

text \<open>
  \<open>bloodhound/src/sequencer.rs\<close> and \<open>serializer.rs\<close>: the single path on which
  raw records and synthesised events become NDJSON lines.  What lies outside the
  repository is gathered in \<open>Env\<close>: the base64 encoder, \<open>serde_json\<close>'s text
  writer, the monotonic clock, and the outcome of each \<open>write_event\<close> on the
  underlying writer (\<open>None\<close> when it succeeds, otherwise the number of bytes
  that went out before the error).  The clock and the writer are indexed by the
  number of \<open>write_event\<close> calls made so far.
\<close>

section \<open>Environment\<close>

record Env =
  env_b64 :: "bytes \<Rightarrow> string"
  env_text :: "json \<Rightarrow> string"
  env_now :: "nat \<Rightarrow> 64 word"
  env_io :: "nat \<Rightarrow> nat option"

text \<open>Documented behaviour of \<open>serde_json::to_writer\<close>: compact output has no raw newline.\<close>

definition text_one_line :: "Env \<Rightarrow> bool" where
  "text_one_line env \<longleftrightarrow> (\<forall>j. NEWLINE \<notin> set (env_text env j))"

section \<open>State\<close>

datatype SequencedInput = Raw bytes | Synthesized BehaviorEvent

record Sequencer =
  sq_written :: string
  sq_calls :: nat
  sq_lifecycle :: LifecycleSynthesizer
  sq_events_emitted :: "64 word"
  sq_deserialize_rejections :: "64 word"

definition new_sequencer :: Sequencer where
  "new_sequencer = \<lparr>sq_written = [], sq_calls = 0, sq_lifecycle = new_synthesizer,
     sq_events_emitted = 0, sq_deserialize_rejections = 0\<rparr>"

section \<open>Operations\<close>

text \<open>\<open>Serializer::write_event\<close>: one JSON line.\<close>

definition event_line :: "Env \<Rightarrow> BehaviorEvent \<Rightarrow> string" where
  "event_line env e = env_text env (behavior_event_json e) @ [NEWLINE]"

definition write_event ::
  "Env \<Rightarrow> BehaviorEvent \<Rightarrow> Sequencer \<Rightarrow> (string + unit) \<times> Sequencer" where
  "write_event env e sq =
     (case env_io env (sq_calls sq) of
         None \<Rightarrow> (Ok (), sq\<lparr>sq_written := sq_written sq @ event_line env e,
                           sq_calls := Suc (sq_calls sq)\<rparr>)
       | Some k \<Rightarrow> (Err ''io error'',
           sq\<lparr>sq_written := sq_written sq @ take k (event_line env e),
              sq_calls := Suc (sq_calls sq)\<rparr>))"

text \<open>\<open>Sequencer::write\<close>: count the event once its line is out.\<close>

definition sq_write ::
  "Env \<Rightarrow> BehaviorEvent \<Rightarrow> Sequencer \<Rightarrow> (string + unit) \<times> Sequencer" where
  "sq_write env e sq = (case write_event env e sq of
       (Inl m, sq') \<Rightarrow> (Err m, sq')
     | (Inr _, sq') \<Rightarrow> (Ok (), sq'\<lparr>sq_events_emitted := sq_events_emitted sq' + 1\<rparr>))"

primrec write_all ::
  "Env \<Rightarrow> BehaviorEvent list \<Rightarrow> Sequencer \<Rightarrow> (string + unit) \<times> Sequencer" where
  "write_all env [] sq = (Ok (), sq)"
| "write_all env (e # es) sq = (case sq_write env e sq of
       (Inl m, sq') \<Rightarrow> (Err m, sq')
     | (Inr _, sq') \<Rightarrow> write_all env es sq')"

definition deserialize_rejection_diagnostic :: "64 word \<Rightarrow> 64 word \<Rightarrow> BehaviorEvent" where
  "deserialize_rejection_diagnostic now count =
     \<lparr>be_header = synthetic_header now,
      be_event = \<lparr>et_type = ''DIAGNOSTIC'', et_name = ''stream.health'', et_layer = ''behavior''\<rparr>,
      be_proc = None,
      be_args = Some (JObj [(''reason_code'', JStr ''deserialize_rejected''),
        (''rejection_count_delta'', JNum 1), (''rejection_count_total'', junum count),
        (''run_prefix_incomplete'', JBool True)]),
      be_return_code = None\<rparr>"

definition accept_raw :: "Env \<Rightarrow> bytes \<Rightarrow> Sequencer \<Rightarrow> (string + unit) \<times> Sequencer" where
  "accept_raw env raw sq =
     (case deserialize_with_authority (env_b64 env) raw of
         Inl _ \<Rightarrow>
           (let count = saturating_add (sq_deserialize_rejections sq) 1;
                sq' = sq\<lparr>sq_deserialize_rejections := count\<rparr> in
            sq_write env (deserialize_rejection_diagnostic (env_now env (sq_calls sq)) count) sq')
       | Inr decoded \<Rightarrow>
           (case before_observation (sq_lifecycle sq) (de_event decoded)
               (de_lifecycle_seed_authority decoded) of (pre, lc) \<Rightarrow>
             (case write_all env pre (sq\<lparr>sq_lifecycle := lc\<rparr>) of
                 (Inl m, sq1) \<Rightarrow> (Err m, sq1)
               | (Inr _, sq1) \<Rightarrow>
                   (case sq_write env (de_event decoded) sq1 of
                       (Inl m, sq2) \<Rightarrow> (Err m, sq2)
                     | (Inr _, sq2) \<Rightarrow>
                         (case after_observation (sq_lifecycle sq2) (de_event decoded) of
                             (followups, lc') \<Rightarrow>
                               write_all env followups (sq2\<lparr>sq_lifecycle := lc'\<rparr>))))))"

definition accept :: "Env \<Rightarrow> SequencedInput \<Rightarrow> Sequencer \<Rightarrow> (string + unit) \<times> Sequencer" where
  "accept env inp sq = (case inp of
       Raw raw \<Rightarrow> accept_raw env raw sq
     | Synthesized e \<Rightarrow> sq_write env e sq)"

text \<open>The receiving loops call \<open>accept\<close> on each admitted input and stop at the first error.\<close>

primrec accept_all ::
  "Env \<Rightarrow> SequencedInput list \<Rightarrow> Sequencer \<Rightarrow> (string + unit) \<times> Sequencer" where
  "accept_all env [] sq = (Ok (), sq)"
| "accept_all env (i # is) sq = (case accept env i sq of
       (Inl m, sq') \<Rightarrow> (Err m, sq')
     | (Inr _, sq') \<Rightarrow> accept_all env is sq')"

section \<open>Specification\<close>

text \<open>
  What the sequencer promises, without I/O: the events that an input stands for,
  given how many events were written before.
\<close>

type_synonym seq_state = "LifecycleSynthesizer \<times> 64 word"

definition spec_step ::
  "Env \<Rightarrow> nat \<Rightarrow> seq_state \<Rightarrow> SequencedInput \<Rightarrow> BehaviorEvent list \<times> seq_state" where
  "spec_step env n st inp = (case st of (lc, rejections) \<Rightarrow>
     (case inp of
         Synthesized e \<Rightarrow> ([e], st)
       | Raw raw \<Rightarrow>
           (case deserialize_with_authority (env_b64 env) raw of
               Inl _ \<Rightarrow> ([deserialize_rejection_diagnostic (env_now env n)
                          (saturating_add rejections 1)], (lc, saturating_add rejections 1))
             | Inr d \<Rightarrow> (case observe lc (de_event d, de_lifecycle_seed_authority d) of
                 (out, lc') \<Rightarrow> (out, (lc', rejections))))))"

primrec spec_all ::
  "Env \<Rightarrow> nat \<Rightarrow> seq_state \<Rightarrow> SequencedInput list \<Rightarrow> BehaviorEvent list \<times> seq_state" where
  "spec_all env n st [] = ([], st)"
| "spec_all env n st (i # is) = (case spec_step env n st i of (out, st1) \<Rightarrow>
     (case spec_all env (n + length out) st1 is of (out', st2) \<Rightarrow> (out @ out', st2)))"

definition abs_state :: "Sequencer \<Rightarrow> seq_state" where
  "abs_state sq = (sq_lifecycle sq, sq_deserialize_rejections sq)"

definition lines_text :: "Env \<Rightarrow> BehaviorEvent list \<Rightarrow> string" where
  "lines_text env es = concat (map (event_line env) es)"

text \<open>
  \<open>wrote env es m r sq sq'\<close>: of the events \<open>es\<close> the first \<open>m\<close> went out whole and
  were counted; on success that is all of them, on an error the next line was
  cut short.
\<close>

definition wrote ::
  "Env \<Rightarrow> BehaviorEvent list \<Rightarrow> string + unit \<Rightarrow> Sequencer \<Rightarrow> Sequencer \<Rightarrow> bool" where
  "wrote env es r sq sq' \<longleftrightarrow> (\<exists>m part.
     m \<le> length es \<and>
     sq_written sq' = sq_written sq @ lines_text env (take m es) @ part \<and>
     sq_events_emitted sq' = sq_events_emitted sq + of_nat m \<and>
     (case r of
         Inr _ \<Rightarrow> m = length es \<and> part = [] \<and> sq_calls sq' = sq_calls sq + length es
       | Inl _ \<Rightarrow> m < length es \<and> (\<exists>k. part = take k (event_line env (es ! m)))))"

lemma wroteI_ok:
  "sq_written sq' = sq_written sq @ lines_text env es \<Longrightarrow>
   sq_events_emitted sq' = sq_events_emitted sq + of_nat (length es) \<Longrightarrow>
   sq_calls sq' = sq_calls sq + length es \<Longrightarrow> wrote env es (Ok u) sq sq'"
  unfolding wrote_def by (intro exI[of _ "length es"] exI[of _ "[]"]) simp

lemma wrote_ok:
  "wrote env es (Ok u) sq sq' \<longleftrightarrow>
     sq_written sq' = sq_written sq @ lines_text env es \<and>
     sq_events_emitted sq' = sq_events_emitted sq + of_nat (length es) \<and>
     sq_calls sq' = sq_calls sq + length es"
  by (auto simp: wrote_def)

lemma wroteI_err:
  assumes "m < length es"
    and "sq_written sq' = sq_written sq @ lines_text env (take m es) @ take k (event_line env (es ! m))"
    and "sq_events_emitted sq' = sq_events_emitted sq + of_nat m"
  shows "wrote env es (Err x) sq sq'"
  unfolding wrote_def using assms by (intro exI[of _ m] exI) auto

lemma wroteE_err:
  assumes "wrote env es (Err x) sq sq'"
  obtains m k where "m < length es"
    "sq_written sq' = sq_written sq @ lines_text env (take m es) @ take k (event_line env (es ! m))"
    "sq_events_emitted sq' = sq_events_emitted sq + of_nat m"
  using assms unfolding wrote_def by auto

lemma lines_text_append [simp]:
  "lines_text env (a @ b) = lines_text env a @ lines_text env b"
  by (simp add: lines_text_def)

lemma wrote_append:
  assumes "wrote env a (Ok u) sq sq1" "wrote env b r sq1 sq2"
  shows "wrote env (a @ b) r sq sq2"
proof -
  from assms(2) obtain m part where m: "m \<le> length b"
    "sq_written sq2 = sq_written sq1 @ lines_text env (take m b) @ part"
    "sq_events_emitted sq2 = sq_events_emitted sq1 + of_nat m"
    "case r of
         Inr _ \<Rightarrow> m = length b \<and> part = [] \<and> sq_calls sq2 = sq_calls sq1 + length b
       | Inl _ \<Rightarrow> m < length b \<and> (\<exists>k. part = take k (event_line env (b ! m)))"
    unfolding wrote_def by blast
  with assms(1) show ?thesis
    unfolding wrote_def wrote_ok
    by (intro exI[of _ "length a + m"] exI[of _ part])
      (auto simp: wrote_ok nth_append split: sum.splits)
qed

lemma wrote_cut:
  assumes "wrote env a (Err m) sq sq1"
  shows "wrote env (a @ b) (Err m) sq sq1"
  using assms
proof (rule wroteE_err)
  fix n k
  assume n: "n < length a" "sq_events_emitted sq1 = sq_events_emitted sq + of_nat n"
    "sq_written sq1 = sq_written sq @ lines_text env (take n a) @ take k (event_line env (a ! n))"
  then show ?thesis
    by (intro wroteI_err[of n _ _ _ _ k]) (simp_all add: nth_append lines_text_def)
qed

lemma sq_write_wrote:
  "sq_write env e sq = (r, sq') \<Longrightarrow>
     wrote env [e] r sq sq' \<and> abs_state sq' = abs_state sq"
proof -
  assume w: "sq_write env e sq = (r, sq')"
  show ?thesis
  proof (cases "env_io env (sq_calls sq)")
    case None
    with w show ?thesis
      by (auto simp: sq_write_def write_event_def wrote_ok lines_text_def abs_state_def)
  next
    case (Some k)
    with w show ?thesis
      by (auto simp: sq_write_def write_event_def lines_text_def abs_state_def
          intro!: wroteI_err[of 0 _ _ _ _ k])
  qed
qed

lemma write_all_wrote:
  "write_all env es sq = (r, sq') \<Longrightarrow> wrote env es r sq sq' \<and> abs_state sq' = abs_state sq"
proof (induction es arbitrary: sq)
  case Nil
  then show ?case by (auto simp: wrote_ok lines_text_def)
next
  case (Cons e es)
  obtain r1 sq1 where w: "sq_write env e sq = (r1, sq1)" by fastforce
  note one = sq_write_wrote[OF w]
  show ?case
  proof (cases r1)
    case (Inl m)
    then have "r = Err m" "sq' = sq1" using Cons.prems w by auto
    with one Inl wrote_cut[of env "[e]" m sq sq1 es] show ?thesis by simp
  next
    case (Inr u)
    then have "write_all env es sq1 = (r, sq')" using Cons.prems w by simp
    from Cons.IH[OF this] one Inr wrote_append[of env "[e]" u sq sq1 es r sq']
    show ?thesis by simp
  qed
qed

lemma wrote_other_fields [simp]:
  "wrote env es r (sq\<lparr>sq_lifecycle := lc\<rparr>) y = wrote env es r sq y"
  "wrote env es r (sq\<lparr>sq_deserialize_rejections := n\<rparr>) y = wrote env es r sq y"
  by (cases r; simp add: wrote_def)+

lemma after_observation_silent [simp]: "fst (after_observation lc e) = []"
  by (simp add: after_observation_def split: option.splits)

lemma accept_decoded_refines:
  assumes d: "deserialize_with_authority (env_b64 env) raw = Ok d"
    and a: "accept_raw env raw sq = (r, sq')"
  shows "wrote env (fst (observe (sq_lifecycle sq) (de_event d, de_lifecycle_seed_authority d))) r sq sq' \<and>
     (is_ok r \<longrightarrow> abs_state sq' =
        (snd (observe (sq_lifecycle sq) (de_event d, de_lifecycle_seed_authority d)),
         sq_deserialize_rejections sq))"
proof -
  let ?e = "de_event d" and ?a = "de_lifecycle_seed_authority d"
  obtain pre lc where b: "before_observation (sq_lifecycle sq) ?e ?a = (pre, lc)" by fastforce
  let ?sq0 = "sq\<lparr>sq_lifecycle := lc\<rparr>"
  obtain r1 sq1 where w1: "write_all env pre ?sq0 = (r1, sq1)" by fastforce
  have o: "fst (observe (sq_lifecycle sq) (?e, ?a)) = pre @ [?e]"
    "snd (observe (sq_lifecycle sq) (?e, ?a)) = snd (after_observation lc ?e)"
    by (simp_all add: observe_eq precursors_def next_state_def b)
  note p = write_all_wrote[OF w1, unfolded wrote_other_fields]
  show ?thesis
  proof (cases r1)
    case (Inl m)
    with a d b w1 have "r = Err m" "sq' = sq1" by (simp_all add: accept_raw_def)
    with p Inl wrote_cut[of env pre m sq sq1 "[?e]"] show ?thesis by (simp add: o)
  next
    case (Inr u)
    obtain r2 sq2 where w2: "sq_write env ?e sq1 = (r2, sq2)" by fastforce
    note q = sq_write_wrote[OF w2]
    have pe: "wrote env (pre @ [?e]) r2 sq sq2"
      using wrote_append[of env pre u sq sq1 "[?e]" r2 sq2] p q Inr by simp
    have lc: "abs_state sq2 = (lc, sq_deserialize_rejections sq)" using p q by (simp add: abs_state_def)
    show ?thesis
    proof (cases r2)
      case (Inl m)
      with a d b w1 w2 Inr have "r = Err m" "sq' = sq2" by (simp_all add: accept_raw_def)
      with pe Inl show ?thesis by (simp add: o)
    next
      case (Inr v)
      obtain lc' where ao: "after_observation (sq_lifecycle sq2) ?e = ([], lc')"
        using after_observation_silent[of "sq_lifecycle sq2" ?e] by (metis prod.collapse)
      from a d b w1 w2 \<open>r1 = Inr u\<close> Inr ao
      have r: "r = Ok ()" "sq' = sq2\<lparr>sq_lifecycle := lc'\<rparr>" by (simp_all add: accept_raw_def)
      have "lc' = snd (after_observation lc ?e)" using ao lc by (simp add: abs_state_def)
      with pe r lc Inr show ?thesis by (auto simp: o abs_state_def wrote_ok)
    qed
  qed
qed

lemma accept_refines:
  assumes "accept env i sq = (r, sq')"
  shows "wrote env (fst (spec_step env (sq_calls sq) (abs_state sq) i)) r sq sq' \<and>
     (is_ok r \<longrightarrow> abs_state sq' = snd (spec_step env (sq_calls sq) (abs_state sq) i))"
proof (cases i)
  case (Synthesized e)
  with assms sq_write_wrote[of env e sq r sq'] show ?thesis
    by (simp add: accept_def spec_step_def case_prod_beta)
next
  case (Raw raw)
  then have a: "accept_raw env raw sq = (r, sq')" using assms by (simp add: accept_def)
  show ?thesis
  proof (cases "deserialize_with_authority (env_b64 env) raw")
    case (Inl m)
    let ?sq1 = "sq\<lparr>sq_deserialize_rejections := saturating_add (sq_deserialize_rejections sq) 1\<rparr>"
    let ?d = "deserialize_rejection_diagnostic (env_now env (sq_calls sq))
      (saturating_add (sq_deserialize_rejections sq) 1)"
    have "sq_write env ?d ?sq1 = (r, sq')" using a Inl by (simp add: accept_raw_def Let_def)
    from sq_write_wrote[OF this] show ?thesis
      by (simp add: Raw spec_step_def Inl abs_state_def)
  next
    case (Inr d)
    from accept_decoded_refines[OF Inr a] show ?thesis
      by (simp add: Raw spec_step_def Inr abs_state_def case_prod_beta)
  qed
qed

lemma accept_all_refines:
  assumes "accept_all env is sq = (r, sq')"
  shows "wrote env (fst (spec_all env (sq_calls sq) (abs_state sq) is)) r sq sq' \<and>
     (is_ok r \<longrightarrow> abs_state sq' = snd (spec_all env (sq_calls sq) (abs_state sq) is))"
  using assms
proof (induction "is" arbitrary: sq)
  case Nil
  then show ?case by (auto simp: wrote_ok lines_text_def)
next
  case (Cons i rest)
  obtain r1 sq1 where w: "accept env i sq = (r1, sq1)" by fastforce
  note one = accept_refines[OF w]
  let ?out = "fst (spec_step env (sq_calls sq) (abs_state sq) i)"
  show ?case
  proof (cases r1)
    case (Inl m)
    then have "r = Err m" "sq' = sq1" using Cons.prems w by auto
    with one Inl wrote_cut[of env ?out m sq sq1] show ?thesis by (simp add: case_prod_beta)
  next
    case (Inr u)
    then have "accept_all env rest sq1 = (r, sq')" using Cons.prems w by simp
    note IH = Cons.IH[OF this]
    have "sq_calls sq1 = sq_calls sq + length ?out"
      "abs_state sq1 = snd (spec_step env (sq_calls sq) (abs_state sq) i)"
      using one Inr by (simp_all add: wrote_ok)
    with IH one Inr wrote_append[of env ?out u sq sq1 _ r sq'] show ?thesis
      by (simp add: case_prod_beta)
  qed
qed

text \<open>Reading an NDJSON stream back: one record per newline.\<close>

function ndjson_records :: "string \<Rightarrow> string list" where
  "ndjson_records s = (case break_at NEWLINE s of
       (a, Some b) \<Rightarrow> a # ndjson_records b
     | (a, None) \<Rightarrow> [])"
  by pat_completeness auto
termination
  by (relation "measure length") (auto dest: break_at_shorter[OF sym])

declare ndjson_records.simps [simp del]

lemma break_at_line: "c \<notin> set a \<Longrightarrow> break_at c (a @ c # b) = (a, Some b)"
  by (induction a) auto

lemma ndjson_records_lines:
  assumes "text_one_line env"
  shows "ndjson_records (lines_text env es) = map (\<lambda>e. env_text env (behavior_event_json e)) es"
proof (induction es)
  case Nil
  then show ?case by (simp add: lines_text_def ndjson_records.simps[of "[]"])
next
  case (Cons e es)
  have "break_at NEWLINE (lines_text env (e # es)) =
      (env_text env (behavior_event_json e), Some (lines_text env es))"
    using assms by (simp add: lines_text_def event_line_def text_one_line_def break_at_line)
  with Cons show ?case by (simp add: ndjson_records.simps[of "lines_text env (e # es)"])
qed

section \<open>Properties\<close>

text \<open>
  C1: the sequencer implements its specification for every sequence of inputs
  and every behaviour of the writer.  What reaches the output is a prefix of
  the specified lines in the specified order; \<open>events_emitted\<close> counts exactly
  the whole lines; without a write error nothing is missing, and a write error
  stops the stream inside the next line.
\<close>

theorem sequencer_refines_spec:
  assumes "accept_all env is new_sequencer = (r, sq)"
    and "fst (spec_all env 0 (new_synthesizer, 0) is) = es"
  shows "\<exists>m part. sq_written sq = lines_text env (take m es) @ part \<and>
     sq_events_emitted sq = of_nat m \<and> m \<le> length es \<and>
     (is_ok r \<longrightarrow> m = length es \<and> part = []) \<and>
     (\<not> is_ok r \<longrightarrow> m < length es \<and> (\<exists>k. part = take k (event_line env (es ! m))))"
proof -
  have "wrote env es r new_sequencer sq"
    using accept_all_refines[OF assms(1)] assms(2) by (simp add: new_sequencer_def abs_state_def)
  then show ?thesis
    by (cases r) (auto simp: wrote_def new_sequencer_def)
qed

definition quiet_env :: Env where
  "quiet_env = \<lparr>env_b64 = str_of_bytes, env_text = (\<lambda>_. ''{}''), env_now = (\<lambda>n. of_nat n),
     env_io = (\<lambda>_. None)\<rparr>"

theorem sequencer_refines_spec_witness:
  "\<exists>r sq m part. accept_all (quiet_env\<lparr>env_io := (\<lambda>n. if n = 1 then Some 1 else None)\<rparr>)
       [Raw [225], Raw []] new_sequencer = (r, sq) \<and> \<not> is_ok r
     \<and> sq_written sq = lines_text quiet_env (take m
         (fst (spec_all quiet_env 0 (new_synthesizer, 0) [Raw [225], Raw []]))) @ part
     \<and> sq_events_emitted sq = of_nat m"
proof -
  let ?env = "quiet_env\<lparr>env_io := (\<lambda>n. if n = 1 then Some 1 else None)\<rparr>"
  have rejected: "from_u8 225 = None" by (rule reserved_unknown) (simp add: EventKind_RESERVED_def)
  have run: "\<exists>m sq. accept_all ?env [Raw [225], Raw []] new_sequencer = (Err m, sq)"
    by (simp add: accept_def accept_raw_def deserialize_with_authority_def rejected Let_def
        sq_write_def write_event_def quiet_env_def new_sequencer_def)
  then obtain m sq where r: "accept_all ?env [Raw [225], Raw []] new_sequencer = (Err m, sq)"
    by blast
  have "event_line ?env = event_line quiet_env" by (rule ext) (simp add: event_line_def)
  then have "lines_text ?env es = lines_text quiet_env es" for es
    by (simp add: lines_text_def)
  moreover have "fst (spec_all ?env 0 (new_synthesizer, 0) [Raw [225], Raw []]) =
      fst (spec_all quiet_env 0 (new_synthesizer, 0) [Raw [225], Raw []])"
    by (simp add: spec_step_def deserialize_with_authority_def rejected)
  ultimately show ?thesis
    using sequencer_refines_spec[OF r refl] r by auto
qed

text \<open>
  The output is well-framed NDJSON.  If JSON text has no raw newline, a
  reader that splits the output at newlines gets back the JSON text of every
  specified event, in order and nothing else.
\<close>

theorem ndjson_round_trip:
  assumes "text_one_line env" "accept_all env is new_sequencer = (Ok u, sq)"
  shows "ndjson_records (sq_written sq) =
     map (\<lambda>e. env_text env (behavior_event_json e)) (fst (spec_all env 0 (new_synthesizer, 0) is))"
proof -
  have "sq_written sq = lines_text env (fst (spec_all env 0 (new_synthesizer, 0) is))"
    using accept_all_refines[OF assms(2)] by (simp add: wrote_ok new_sequencer_def abs_state_def)
  then show ?thesis by (simp add: ndjson_records_lines[OF assms(1)])
qed

theorem ndjson_round_trip_witness:
  "\<exists>sq. accept_all quiet_env [Raw []] new_sequencer = (Ok (), sq) \<and>
     ndjson_records (sq_written sq) = [''{}'']"
proof -
  have one: "text_one_line quiet_env"
    by (simp add: text_one_line_def quiet_env_def NEWLINE_def)
  have "\<exists>sq. accept_all quiet_env [Raw []] new_sequencer = (Ok (), sq)"
    by (simp add: accept_def accept_raw_def deserialize_with_authority_def Let_def
        sq_write_def write_event_def quiet_env_def)
  then obtain sq where r: "accept_all quiet_env [Raw []] new_sequencer = (Ok (), sq)" by blast
  show ?thesis
    using ndjson_round_trip[OF one r] r
    by (simp add: spec_step_def deserialize_with_authority_def quiet_env_def)
qed

text \<open>
  Nothing is dropped silently.  A record that cannot be decoded leaves
  exactly one line in the output, a \<open>stream.health\<close> diagnostic that carries the
  number of rejections so far; it touches no lifecycle state.
\<close>

theorem rejection_is_reported:
  assumes "deserialize_with_authority (env_b64 env) raw = Err m"
    and "accept env (Raw raw) sq = (Ok u, sq')"
  shows "sq_written sq' = sq_written sq @ event_line env
       (deserialize_rejection_diagnostic (env_now env (sq_calls sq)) (sq_deserialize_rejections sq')) \<and>
     unat (sq_deserialize_rejections sq') = min (Suc (unat (sq_deserialize_rejections sq))) (2 ^ 64 - 1) \<and>
     sq_events_emitted sq' = sq_events_emitted sq + 1 \<and>
     sq_lifecycle sq' = sq_lifecycle sq"
  using accept_refines[OF assms(2)] assms(1) unat_saturating_incr[of "sq_deserialize_rejections sq"]
  by (simp add: spec_step_def abs_state_def wrote_ok lines_text_def)

theorem rejection_is_reported_witness:
  "\<exists>sq'. accept quiet_env (Raw [226]) new_sequencer = (Ok (), sq') \<and>
     unat (sq_deserialize_rejections sq') = 1 \<and> sq_events_emitted sq' = 1"
proof -
  have "from_u8 226 = None" by (rule reserved_unknown) (simp add: EventKind_RESERVED_def)
  then obtain m where e: "deserialize_with_authority (env_b64 quiet_env) [226] = Err m"
    by (simp add: deserialize_with_authority_def)
  then obtain sq' where a: "accept quiet_env (Raw [226]) new_sequencer = (Ok (), sq')"
    by (simp add: accept_def accept_raw_def Let_def sq_write_def write_event_def quiet_env_def)
  show ?thesis
    using rejection_is_reported[OF e a] a by (simp add: new_sequencer_def)
qed

end
