(* ===== verification/Heartbeat.thy ===== *)
theory Heartbeat
  imports Sequencer
begin

text \<open>
  Loss accounting: \<open>heartbeat.rs\<close>, \<open>drop_counter.rs\<close> and \<open>capture_health.rs\<close>.
  All three report the growth of a cumulative counter since the last report.
  That contract is the locale \<open>delta_reporter\<close>; the heartbeat cursor (for drops
  and for emitted events) and the capture-health monitor are its instances.
  The asynchronous loops are driven by the list of their wake-ups, each with the
  samples read and the outcome of the send.
\<close>

section \<open>Reporting the growth of a counter\<close>

text \<open>Feed a list of samples to a reporter and collect what it reports.\<close>

primrec reports :: "('x \<Rightarrow> 's \<Rightarrow> 64 word) \<Rightarrow> ('x \<Rightarrow> 's \<Rightarrow> 's) \<Rightarrow> 'x list \<Rightarrow> 's \<Rightarrow> 64 word list" where
  "reports delta commit [] s = []"
| "reports delta commit (x # xs) s = delta x s # reports delta commit xs (commit x s)"

locale delta_reporter =
  fixes val :: "'x \<Rightarrow> 64 word"
    and seen :: "'s \<Rightarrow> 64 word"
    and delta :: "'x \<Rightarrow> 's \<Rightarrow> 64 word"
    and commit :: "'x \<Rightarrow> 's \<Rightarrow> 's"
  assumes delta: "delta x s = saturating_sub (val x) (seen s)"
    and commit: "seen (commit x s) = val x"
begin

text \<open>For a counter that never decreases the reports add up to its growth.\<close>

lemma reports_telescope:
  assumes "sorted (seen s # map val xs)"
  shows "sum_list (map unat (reports delta commit xs s)) + unat (seen s) =
     unat (seen (fold commit xs s))"
  using assms
proof (induction xs arbitrary: s)
  case (Cons x xs)
  have le: "unat (seen s) \<le> unat (val x)" using Cons.prems by (simp add: word_le_nat_alt)
  have "sorted (seen (commit x s) # map val xs)" using Cons.prems by (simp add: commit)
  from Cons.IH[OF this] le show ?case by (simp add: delta commit unat_saturating_sub)
qed simp

text \<open>Whatever the samples do, growth is never under-reported.\<close>

lemma reports_cover:
  "unat (seen (fold commit xs s)) \<le>
     sum_list (map unat (reports delta commit xs s)) + unat (seen s)"
proof (induction xs arbitrary: s)
  case (Cons x xs)
  show ?case using Cons.IH[of "commit x s"] by (simp add: delta commit unat_saturating_sub)
qed simp

end

section \<open>Heartbeat events\<close>

record Cursor =
  cu_drops :: "64 word"
  cu_emitted :: "64 word"

definition default_cursor :: Cursor where
  "default_cursor = \<lparr>cu_drops = 0, cu_emitted = 0\<rparr>"

definition build_heartbeat ::
  "64 word \<Rightarrow> 64 word \<Rightarrow> 64 word \<Rightarrow> 64 word \<Rightarrow> BehaviorEvent" where
  "build_heartbeat now drops_delta drops_total emitted_delta =
     \<lparr>be_header = synthetic_header now,
      be_event = \<lparr>et_type = ''HEARTBEAT'', et_name = ''heartbeat'', et_layer = ''behavior''\<rparr>,
      be_proc = None,
      be_args = Some (JObj (
        [(''drop_count_delta'', junum drops_delta), (''drop_count_total'', junum drops_total),
         (''events_emitted_delta'', junum emitted_delta)]
        @ (if 0 < drops_total then
             [(''reason_code'', JStr ''ring_buffer_overflow''),
              (''run_prefix_incomplete'', JBool True)] else [])
        @ (if 0 < drops_delta then [(''gap_detected'', JBool True)] else []))),
      be_return_code = None\<rparr>"

type_synonym sample = "64 word \<times> 64 word"

definition drops_delta :: "sample \<Rightarrow> Cursor \<Rightarrow> 64 word" where
  "drops_delta s c = saturating_sub (fst s) (cu_drops c)"

definition emitted_delta :: "sample \<Rightarrow> Cursor \<Rightarrow> 64 word" where
  "emitted_delta s c = saturating_sub (snd s) (cu_emitted c)"

definition advance :: "sample \<Rightarrow> Cursor \<Rightarrow> Cursor" where
  "advance s c = \<lparr>cu_drops = fst s, cu_emitted = snd s\<rparr>"

definition heartbeat_of :: "64 word \<Rightarrow> sample \<Rightarrow> Cursor \<Rightarrow> BehaviorEvent" where
  "heartbeat_of now s c = build_heartbeat now (drops_delta s c) (fst s) (emitted_delta s c)"

interpretation hb_drops: delta_reporter fst cu_drops drops_delta advance
  by unfold_locales (simp_all add: drops_delta_def advance_def)

interpretation hb_emitted: delta_reporter snd cu_emitted emitted_delta advance
  by unfold_locales (simp_all add: emitted_delta_def advance_def)

section \<open>The heartbeat task\<close>

datatype send_outcome = Sent | StoppedInSend | ReceiverClosed

text \<open>
  One wake-up of the task: the stop signal, or a tick with the clock, the two
  counters it loads and what became of the send.
\<close>

datatype hb_wake = Stop | Tick "64 word" sample send_outcome

fun heartbeat_loop :: "hb_wake list \<Rightarrow> Cursor \<Rightarrow> BehaviorEvent list \<times> Cursor" where
  "heartbeat_loop [] c = ([], c)"
| "heartbeat_loop (Stop # ws) c = ([], c)"
| "heartbeat_loop (Tick now s outcome # ws) c =
     (case outcome of
         Sent \<Rightarrow> (case heartbeat_loop ws (advance s c) of
             (es, c') \<Rightarrow> (heartbeat_of now s c # es, c'))
       | StoppedInSend \<Rightarrow> ([], c)
       | ReceiverClosed \<Rightarrow> ([], c))"

definition run_heartbeat :: "nat \<Rightarrow> hb_wake list \<Rightarrow> BehaviorEvent list \<times> Cursor option" where
  "run_heartbeat interval ws =
     (if interval = 0 then ([], None)
      else (case heartbeat_loop ws default_cursor of (es, c) \<Rightarrow> (es, Some c)))"

text \<open>The samples behind the heartbeats that were admitted.\<close>

fun admitted :: "hb_wake list \<Rightarrow> sample list" where
  "admitted (Tick now s Sent # ws) = s # admitted ws"
| "admitted _ = []"

definition event_num :: "string \<Rightarrow> BehaviorEvent \<Rightarrow> int" where
  "event_num k e = (case Option.bind (be_args e) (\<lambda>a. jget a k) of
       Some (JNum n) \<Rightarrow> n | _ \<Rightarrow> 0)"

definition event_has :: "string \<Rightarrow> BehaviorEvent \<Rightarrow> bool" where
  "event_has k e \<longleftrightarrow> Option.bind (be_args e) (\<lambda>a. jget a k) \<noteq> None"

lemma heartbeat_nums [simp]:
  "event_num ''drop_count_delta'' (build_heartbeat now d t m) = uint d"
  "event_num ''drop_count_total'' (build_heartbeat now d t m) = uint t"
  "event_num ''events_emitted_delta'' (build_heartbeat now d t m) = uint m"
  by (simp_all add: event_num_def build_heartbeat_def junum_def)

lemma heartbeat_flags [simp]:
  "event_has ''gap_detected'' (build_heartbeat now d t m) \<longleftrightarrow> 0 < d"
  "event_has ''run_prefix_incomplete'' (build_heartbeat now d t m) \<longleftrightarrow> 0 < t"
  by (simp_all add: event_has_def build_heartbeat_def)

lemma heartbeat_loop_spec:
  "snd (heartbeat_loop ws c) = fold advance (admitted ws) c \<and>
   map (event_num ''drop_count_delta'') (fst (heartbeat_loop ws c)) =
     map uint (reports drops_delta advance (admitted ws) c) \<and>
   map (event_num ''events_emitted_delta'') (fst (heartbeat_loop ws c)) =
     map uint (reports emitted_delta advance (admitted ws) c) \<and>
   map (event_has ''gap_detected'') (fst (heartbeat_loop ws c)) =
     map (\<lambda>d. 0 < d) (reports drops_delta advance (admitted ws) c)"
  by (induction ws c rule: heartbeat_loop.induct)
    (auto simp: heartbeat_of_def split: send_outcome.splits prod.splits)

section \<open>Drop counter\<close>

text \<open>
  \<open>BpfDropCountReader::read_total\<close> on the result of the map lookup (an error or
  the per-CPU slots), and the bridge that copies the total into the shared
  counter on every tick and keeps it when a read fails.
\<close>

definition bpf_read_total :: "string + 64 word list \<Rightarrow> string + 64 word" where
  "bpf_read_total got = and_then got (\<lambda>values. Ok (sum_list values))"

fun bridge_loop :: "(string + 64 word) list \<Rightarrow> 64 word \<Rightarrow> 64 word" where
  "bridge_loop [] counter = counter"
| "bridge_loop (Inr t # rs) counter = bridge_loop rs t"
| "bridge_loop (Inl m # rs) counter = bridge_loop rs counter"

definition bridge_bpf_drop_counter :: "nat \<Rightarrow> (string + 64 word) list \<Rightarrow> 64 word \<Rightarrow> 64 word" where
  "bridge_bpf_drop_counter interval reads counter =
     (if interval = 0 then counter else bridge_loop reads counter)"

text \<open>\<open>poll_drop_counter\<close>: the warnings (delta and total) printed for a list of polled values.\<close>

fun poll_drop_counter :: "64 word list \<Rightarrow> 64 word \<Rightarrow> (64 word \<times> 64 word) list" where
  "poll_drop_counter [] last_count = []"
| "poll_drop_counter (current # rest) last_count =
     (let delta = current - last_count in
      if 0 < delta then (delta, current) # poll_drop_counter rest current
      else poll_drop_counter rest last_count)"

lemma bridge_loop_last_ok:
  "bridge_loop reads counter =
     last (counter # map projr (filter is_ok reads))"
  by (induction reads counter rule: bridge_loop.induct) simp_all

lemma poll_sum:
  "last_count + sum_list (map fst (poll_drop_counter xs last_count)) = last (last_count # xs)"
proof (induction xs arbitrary: last_count)
  case (Cons x xs)
  show ?case
  proof (cases "0 < x - last_count")
    case True
    with Cons[of x] show ?thesis by (simp add: Let_def algebra_simps)
  next
    case False
    then have "x = last_count" by (simp add: word_gt_0)
    with Cons[of last_count] show ?thesis by (simp add: Let_def)
  qed
qed simp

section \<open>Capture health\<close>

definition health_diagnostic ::
  "64 word \<Rightarrow> string \<Rightarrow> string \<Rightarrow> 64 word option \<Rightarrow> 64 word option \<Rightarrow> BehaviorEvent" where
  "health_diagnostic now scope reason delta count =
     \<lparr>be_header = synthetic_header now,
      be_event = \<lparr>et_type = ''DIAGNOSTIC'', et_name = scope @ ''.collection'',
                  et_layer = ''behavior''\<rparr>,
      be_proc = None,
      be_args = Some (JObj [(''reason_code'', JStr reason),
        (''failure_count_delta'', case delta of None \<Rightarrow> JNull | Some d \<Rightarrow> junum d),
        (''failure_count_total'', case count of None \<Rightarrow> JNull | Some c \<Rightarrow> junum c),
        (''run_prefix_incomplete'', JBool True), (''scope'', JStr scope),
        (''sampling'', JStr ''userspace_poll'')]),
      be_return_code = None\<rparr>"

text \<open>
  One sample of one reason: the events sent and the remembered total.  Each read
  comes with the clock value its diagnostic would carry.
\<close>

type_synonym counter_read = "64 word \<times> (string + 64 word list)"

fun monitor_reason ::
  "string \<Rightarrow> string \<Rightarrow> counter_read \<Rightarrow> 64 word \<Rightarrow> BehaviorEvent list \<times> 64 word" where
  "monitor_reason scope reason (now, Inr values) previous =
     (let count = sum_list values; delta = saturating_sub count previous in
      (if delta = 0 then [] else [health_diagnostic now scope reason (Some delta) (Some count)],
       count))"
| "monitor_reason scope reason (now, Inl m) previous =
     ([health_diagnostic now scope ''counter_read_failed'' None None], previous)"

fun monitor_round ::
  "string \<Rightarrow> string list \<Rightarrow> counter_read list \<Rightarrow> 64 word list \<Rightarrow>
     BehaviorEvent list \<times> 64 word list" where
  "monitor_round scope (reason # reasons) (got # gots) (p # ps) =
     (case monitor_reason scope reason got p of (es, p') \<Rightarrow>
       (case monitor_round scope reasons gots ps of (es', ps') \<Rightarrow> (es @ es', p' # ps')))"
| "monitor_round scope _ _ ps = ([], ps)"

text \<open>
  The monitor task over its rounds; the flag marks the final sample, after which
  it returns.  The events are what it sends in order: a closed channel only cuts
  the list short.
\<close>

fun monitor_rounds ::
  "string \<Rightarrow> string list \<Rightarrow> (bool \<times> counter_read list) list \<Rightarrow> 64 word list \<Rightarrow>
     BehaviorEvent list \<times> 64 word list" where
  "monitor_rounds scope reasons [] ps = ([], ps)"
| "monitor_rounds scope reasons ((final, gots) # rounds) ps =
     (case monitor_round scope reasons gots ps of (es, ps') \<Rightarrow>
       if final then (es, ps')
       else (case monitor_rounds scope reasons rounds ps' of (es', ps'') \<Rightarrow> (es @ es', ps'')))"

definition monitor ::
  "string \<Rightarrow> string list \<Rightarrow> (bool \<times> counter_read list) list \<Rightarrow> BehaviorEvent list" where
  "monitor scope reasons rounds =
     fst (monitor_rounds scope reasons rounds (replicate (length reasons) 0))"

definition read_sum :: "counter_read \<Rightarrow> 64 word" where
  "read_sum got = (case snd got of Inr values \<Rightarrow> sum_list values | Inl _ \<Rightarrow> 0)"

definition reason_delta :: "counter_read \<Rightarrow> 64 word \<Rightarrow> 64 word" where
  "reason_delta got p = saturating_sub (read_sum got) p"

interpretation health: delta_reporter read_sum id reason_delta "\<lambda>got p. read_sum got"
  by unfold_locales (simp_all add: reason_delta_def)

definition reports_reason :: "string \<Rightarrow> BehaviorEvent \<Rightarrow> bool" where
  "reports_reason reason e \<longleftrightarrow>
     Option.bind (be_args e) (\<lambda>a. jget a ''reason_code'') = Some (JStr reason)"

text \<open>The sum of the growth reported under one reason code.\<close>

lemma health_diagnostic_facts [simp]:
  "reports_reason r (health_diagnostic now scope reason d c) \<longleftrightarrow> r = reason"
  "event_num ''failure_count_delta'' (health_diagnostic now scope reason (Some w) c) = uint w"
  "event_num ''failure_count_delta'' (health_diagnostic now scope reason None c) = 0"
  by (auto simp: reports_reason_def health_diagnostic_def event_num_def junum_def)

definition reported_delta :: "string \<Rightarrow> BehaviorEvent list \<Rightarrow> int" where
  "reported_delta reason es =
     sum_list (map (event_num ''failure_count_delta'') (filter (reports_reason reason) es))"

lemma reported_delta_append [simp]:
  "reported_delta reason [] = 0"
  "reported_delta reason (a @ b) = reported_delta reason a + reported_delta reason b"
  by (simp_all add: reported_delta_def)

lemma monitor_reason_facts:
  "reported_delta r (fst (monitor_reason scope reason got p)) =
      (if r = reason \<and> is_ok (snd got) then uint (reason_delta got p) else 0)"
  "snd (monitor_reason scope reason got p) = (if is_ok (snd got) then read_sum got else p)"
  by (cases "(scope, reason, got, p)" rule: monitor_reason.cases;
      simp add: Let_def reported_delta_def reason_delta_def read_sum_def)+

lemma monitor_round_other:
  "r \<notin> set reasons \<Longrightarrow> reported_delta r (fst (monitor_round scope reasons gots ps)) = 0"
proof (induction scope reasons gots ps rule: monitor_round.induct)
  case (1 scope reason reasons got gots p ps)
  then show ?case using monitor_reason_facts(1)[of r scope reason got p]
    by (auto split: prod.splits)
qed simp_all

lemma monitor_round_column:
  assumes "length gots = length reasons" "length ps = length reasons" "distinct reasons"
    "i < length reasons"
  shows "reported_delta (reasons ! i) (fst (monitor_round scope reasons gots ps)) =
       (if is_ok (snd (gots ! i)) then uint (reason_delta (gots ! i) (ps ! i)) else 0) \<and>
     snd (monitor_round scope reasons gots ps) ! i =
       (if is_ok (snd (gots ! i)) then read_sum (gots ! i) else ps ! i) \<and>
     length (snd (monitor_round scope reasons gots ps)) = length reasons"
  using assms
proof (induction scope reasons gots ps arbitrary: i rule: monitor_round.induct)
  case (1 scope reason reasons got gots p ps)
  obtain es p' where mr: "monitor_reason scope reason got p = (es, p')" by force
  obtain es' ps' where rd: "monitor_round scope reasons gots ps = (es', ps')" by force
  note facts = monitor_reason_facts(1)[of _ scope reason got p, unfolded mr]
    monitor_reason_facts(2)[of scope reason got p, unfolded mr]
  show ?case
  proof (cases i)
    case 0
    have "reported_delta reason es' = 0"
      using monitor_round_other[of reason reasons scope gots ps] "1.prems" rd by simp
    moreover have "length ps' = length reasons"
    proof (cases reasons)
      case Nil
      then show ?thesis using rd "1.prems" by simp
    next
      case (Cons r rs)
      then show ?thesis using "1.IH"[OF mr[symmetric], of 0] rd "1.prems" by simp
    qed
    ultimately show ?thesis using facts by (simp add: mr rd 0)
  next
    case (Suc j)
    have "reasons ! j \<noteq> reason" using "1.prems" Suc by auto
    then have "reported_delta (reasons ! j) es = 0" using facts(1) by simp
    then show ?thesis using "1.IH"[OF mr[symmetric], of j] "1.prems" by (simp add: mr rd Suc)
  qed
qed auto

text \<open>The rounds the monitor samples, and the readable totals of one reason in them.\<close>

fun sampled :: "(bool \<times> counter_read list) list \<Rightarrow> counter_read list list" where
  "sampled [] = []"
| "sampled ((final, gots) # rounds) = (if final then [gots] else gots # sampled rounds)"

definition column :: "nat \<Rightarrow> (bool \<times> counter_read list) list \<Rightarrow> counter_read list" where
  "column i rounds = filter (\<lambda>got. is_ok (snd got)) (map (\<lambda>gots. gots ! i) (sampled rounds))"

lemma monitor_rounds_column:
  assumes "distinct reasons" "i < length reasons" "length ps = length reasons"
    "\<forall>gots\<in>set (sampled rounds). length gots = length reasons"
  shows "reported_delta (reasons ! i) (fst (monitor_rounds scope reasons rounds ps)) =
     sum_list (map uint (reports reason_delta (\<lambda>got p. read_sum got) (column i rounds) (ps ! i)))"
  using assms
proof (induction scope reasons rounds ps rule: monitor_rounds.induct)
  case (1 scope reasons ps)
  show ?case by (simp add: column_def)
next
  case (2 scope reasons final gots rounds ps)
  obtain es ps' where rd: "monitor_round scope reasons gots ps = (es, ps')" by force
  obtain es' ps'' where more: "monitor_rounds scope reasons rounds ps' = (es', ps'')" by force
  have "length gots = length reasons" using "2.prems" by (simp split: if_splits)
  note round = monitor_round_column[OF this "2.prems"(3,1,2), of scope, unfolded rd, simplified]
  show ?case
  proof (cases final)
    case True
    then show ?thesis using round by (simp add: rd column_def)
  next
    case False
    then have "reported_delta (reasons ! i) es' =
      sum_list (map uint (reports reason_delta (\<lambda>got p. read_sum got) (column i rounds) (ps' ! i)))"
      using "2.IH"[OF rd[symmetric]] "2.prems" round more by simp
    then show ?thesis using round False by (simp add: rd more column_def)
  qed
qed

section \<open>Properties\<close>

lemma sum_uint: "sum_list (map uint ws) = int (sum_list (map unat ws))"
  by (induction ws) simp_all

lemma heartbeat_sums:
  assumes "run_heartbeat interval ws = (es, Some c)"
    "sorted (0 # map fst (admitted ws))" "sorted (0 # map snd (admitted ws))"
  shows "sum_list (map (event_num ''drop_count_delta'') es) = uint (cu_drops c) \<and>
    sum_list (map (event_num ''events_emitted_delta'') es) = uint (cu_emitted c) \<and>
    map (event_has ''gap_detected'') es = map (\<lambda>e. 0 < event_num ''drop_count_delta'' e) es"
proof -
  have run: "heartbeat_loop ws default_cursor = (es, c)"
    using assms(1) by (auto simp: run_heartbeat_def split: if_splits prod.splits)
  note spec = heartbeat_loop_spec[of ws default_cursor, unfolded run, simplified]
  have "sum_list (map unat (reports drops_delta advance (admitted ws) default_cursor)) =
      unat (cu_drops c)"
    using hb_drops.reports_telescope[of default_cursor "admitted ws"] assms(2) spec
    by (simp add: default_cursor_def)
  moreover have "sum_list (map unat (reports emitted_delta advance (admitted ws) default_cursor)) =
      unat (cu_emitted c)"
    using hb_emitted.reports_telescope[of default_cursor "admitted ws"] assms(3) spec
    by (simp add: default_cursor_def)
  moreover have "map (event_has ''gap_detected'') es =
      map (\<lambda>e. 0 < event_num ''drop_count_delta'' e) es"
  proof -
    have "map (\<lambda>e. 0 < event_num ''drop_count_delta'' e) es =
        map (\<lambda>n. 0 < n) (map (event_num ''drop_count_delta'') es)" by simp
    also have "\<dots> = map (event_has ''gap_detected'') es"
      using spec by (simp add: word_less_def)
    finally show ?thesis ..
  qed
  ultimately show ?thesis using spec by (simp add: sum_uint)
qed

text \<open>
  The heartbeats that reached the stream add up.  If the samples of both
  counters never decrease, the \<open>drop_count_delta\<close>s (\<open>events_emitted_delta\<close>s) of the
  admitted heartbeats sum to the cursor the task returns, so no drop before it is
  unreported and none is reported twice, wherever the task was stopped; and
  \<open>gap_detected\<close> is present exactly on the heartbeats with a positive delta.
\<close>

theorem heartbeat_accounts_for_drops:
  assumes "run_heartbeat interval ws = (es, Some c)"
    "sorted (0 # map fst (admitted ws))" "sorted (0 # map snd (admitted ws))"
  shows "sum_list (map (event_num ''drop_count_delta'') es) = uint (cu_drops c) \<and>
    sum_list (map (event_num ''events_emitted_delta'') es) = uint (cu_emitted c) \<and>
    map (event_has ''gap_detected'') es = map (\<lambda>e. 0 < event_num ''drop_count_delta'' e) es"
  by (rule heartbeat_sums[OF assms])

theorem heartbeat_accounts_for_drops_witness:
  "\<exists>es c. run_heartbeat 1 [Tick 5 (3, 10) Sent, Tick 6 (3, 12) Sent, Tick 7 (9, 20) StoppedInSend]
      = (es, Some c) \<and>
    sum_list (map (event_num ''drop_count_delta'') es) = uint (cu_drops c) \<and>
    c = \<lparr>cu_drops = 3, cu_emitted = 12\<rparr>"
proof -
  let ?ws = "[Tick 5 (3, 10) Sent, Tick 6 (3, 12) Sent, Tick 7 (9, 20) StoppedInSend]"
  obtain es c where run: "run_heartbeat 1 ?ws = (es, Some c)"
    and c: "c = \<lparr>cu_drops = 3, cu_emitted = 12\<rparr>"
    by (simp add: run_heartbeat_def advance_def)
  from heartbeat_accounts_for_drops[OF run] have
    "sum_list (map (event_num ''drop_count_delta'') es) = uint (cu_drops c)" by simp
  with run c show ?thesis by blast
qed

text \<open>
  The capture-health monitor, for every reason of its scope: whatever reads
  fail in between, the \<open>failure_count_delta\<close>s it sends under the reason's code sum
  to the last readable total, as long as the readable totals never decrease.
\<close>

theorem monitor_reports_growth:
  assumes "distinct reasons" "i < length reasons"
    "\<forall>gots\<in>set (sampled rounds). length gots = length reasons"
    "sorted (0 # map read_sum (column i rounds))"
  shows "reported_delta (reasons ! i) (monitor scope reasons rounds) =
    uint (last (0 # map read_sum (column i rounds)))"
proof -
  have last: "fold (\<lambda>got p. read_sum got) gots p = last (p # map read_sum gots)" for gots p
    by (induction gots arbitrary: p) simp_all
  have "reported_delta (reasons ! i) (monitor scope reasons rounds) =
      sum_list (map uint (reports reason_delta (\<lambda>got p. read_sum got) (column i rounds) 0))"
    unfolding monitor_def
    using monitor_rounds_column[OF assms(1,2), of "replicate (length reasons) 0" rounds scope]
      assms(2,3) by simp
  also have "\<dots> = uint (last (0 # map read_sum (column i rounds)))"
    using health.reports_telescope[of 0 "column i rounds"] assms(4)
    by (simp add: sum_uint last)
  finally show ?thesis .
qed

theorem monitor_reports_growth_witness:
  "reported_delta ''b'' (monitor ''exec'' [''a'', ''b'']
     [(False, [(1, Inr [1, 2]), (2, Inr [0, 4])]), (False, [(3, Inr [5]), (4, Inl ''io'')]),
      (True, [(5, Inl ''io''), (6, Inr [2, 5])])]) = 7"
  using monitor_reports_growth[of "[''a'', ''b'']" 1
     "[(False, [(1, Inr [1, 2]), (2, Inr [0, 4])]), (False, [(3, Inr [5]), (4, Inl ''io'')]),
      (True, [(5, Inl ''io''), (6, Inr [2, 5])])]" "''exec''"]
  by (simp add: column_def read_sum_def)

text \<open>
  The bridge.  With a non-zero interval the shared drop counter is the last
  total that could be read (a failed read changes nothing), and the warnings the
  poller prints sum, modulo the width of the counter, to the last polled value.
\<close>

theorem drop_counter_follows_reads:
  assumes "interval \<noteq> 0"
  shows "bridge_bpf_drop_counter interval reads counter =
      last (counter # map projr (filter is_ok reads)) \<and>
    sum_list (map fst (poll_drop_counter polls 0)) = last (0 # polls)"
  using assms bridge_loop_last_ok[of reads counter] poll_sum[of 0 polls]
  by (simp add: bridge_bpf_drop_counter_def)

theorem drop_counter_follows_reads_witness:
  "bridge_bpf_drop_counter 5 [Inr 4, Inr 9, Inl ''map''] 0 = 9 \<and>
   sum_list (map fst (poll_drop_counter [0, 4, 4, 9] 0)) = 9"
  using drop_counter_follows_reads[of 5 "[Inr 4, Inr 9, Inl ''map'']" 0 "[0, 4, 4, 9]"] by simp

end
