(* ===== verification/Loader.thy ===== *)
theory Loader
  imports Common Events "HOL-Library.Char_ord" "HOL-Library.List_Lexorder"
begin

text \<open>
  \<open>bloodhound/src/loader.rs\<close>: which hooks are attached, in which order, what the
  readiness report says about them, and which syscalls are taken out of the raw
  stream.  The kernel and \<open>aya\<close> are the argument \<open>Kernel\<close>: the error with which
  loading or attaching a program (on a hook) or detaching it fails, if it does.
  \<open>bpf_trace\<close> records the set of attached programs after every kernel operation,
  so that the order of the operations is observable.
\<close>

section \<open>State\<close>

record Cli =
  cli_uid :: "32 word"
  cli_enable_lsm :: bool
  cli_ring_buffer_size :: "32 word"
  cli_enable_rich_sendfile :: bool

record Kernel =
  k_attach :: "string \<Rightarrow> string \<Rightarrow> string option"
  k_detach :: "string \<Rightarrow> string option"
  k_lsm_btf :: "string option"

record Bpf =
  bpf_live :: "string list"
  bpf_trace :: "string list list"
  bpf_exclusion_bitmap :: "32 word list"
  bpf_tier2_bitmap :: "32 word list"

record AttachReport =
  ar_probes :: "32 word"
  ar_keys :: "(string \<times> bool) list"

definition default_report :: AttachReport where
  "default_report = \<lparr>ar_probes = 0, ar_keys = []\<rparr>"

text \<open>\<open>BTreeMap\<close>: an association list in key order.\<close>

fun btree_insert :: "string \<Rightarrow> 'v \<Rightarrow> (string \<times> 'v) list \<Rightarrow> (string \<times> 'v) list" where
  "btree_insert k v [] = [(k, v)]"
| "btree_insert k v ((k', v') # rest) =
     (if k < k' then (k, v) # (k', v') # rest
      else if k = k' then (k, v) # rest
      else (k', v') # btree_insert k v rest)"

lemma map_of_btree_insert [simp]:
  "map_of (btree_insert k v m) = (map_of m)(k \<mapsto> v)"
  by (induction k v m rule: btree_insert.induct) auto

lemma set_btree_insert:
  "fst ` set (btree_insert k v m) = insert k (fst ` set m)"
  by (induction k v m rule: btree_insert.induct) auto

lemma btree_insert_sorted:
  "sorted_wrt (<) (map fst m) \<Longrightarrow> sorted_wrt (<) (map fst (btree_insert k v m))"
proof (induction k v m rule: btree_insert.induct)
  case (2 k v k' v' rest)
  then show ?case
    using set_btree_insert[of k v rest] by (auto simp flip: set_map)
qed simp

definition tier2_key :: "string \<Rightarrow> string" where
  "tier2_key name = ''tier2.'' @ name"

definition exec_key :: "string \<Rightarrow> string" where
  "exec_key name = ''exec.'' @ name"

definition key_true :: "AttachReport \<Rightarrow> string \<Rightarrow> bool" where
  "key_true report key \<longleftrightarrow> map_of (ar_keys report) key = Some True"

definition insert_key :: "string \<Rightarrow> bool \<Rightarrow> AttachReport \<Rightarrow> AttachReport" where
  "insert_key key v report = report\<lparr>ar_keys := btree_insert key v (ar_keys report)\<rparr>"

definition record_tty_attach ::
  "string \<Rightarrow> bool \<Rightarrow> 32 word list option \<Rightarrow> AttachReport \<Rightarrow> AttachReport" where
  "record_tty_attach key attached tty_offsets report =
     insert_key key (attached \<and> tty_offsets \<noteq> None) report"

section \<open>Attaching programs\<close>

type_synonym 'b attach_state = "'b \<times> AttachReport"
type_synonym ('b, 'r) attach_op = "'b attach_state \<Rightarrow> (string + 'r) \<times> 'b attach_state"

text \<open>
  \<open>attach_raw_tracepoint\<close>, \<open>attach_tracepoint\<close>, \<open>attach_kprobe\<close> and \<open>attach_lsm\<close>
  are the same steps on different \<open>aya\<close> program types: find, load, attach, count.
  The link returned by the tracepoint and kprobe variants is the program's name.
\<close>

definition attach_program :: "Kernel \<Rightarrow> string \<Rightarrow> string \<Rightarrow> (Bpf, string) attach_op" where
  "attach_program k prog hook st = (case st of (bpf, report) \<Rightarrow>
     (case k_attach k prog hook of
         Some m \<Rightarrow> (Err m, (bpf, report))
       | None \<Rightarrow>
           (let live = prog # bpf_live bpf in
            (Ok prog, (bpf\<lparr>bpf_live := live, bpf_trace := live # bpf_trace bpf\<rparr>,
                       report\<lparr>ar_probes := ar_probes report + 1\<rparr>)))))"

definition detach_program :: "Kernel \<Rightarrow> string \<Rightarrow> Bpf \<Rightarrow> (string + unit) \<times> Bpf" where
  "detach_program k prog bpf = (case k_detach k prog of
       Some m \<Rightarrow> (Err m, bpf)
     | None \<Rightarrow>
         (let live = remove1 prog (bpf_live bpf) in
          (Ok (), bpf\<lparr>bpf_live := live, bpf_trace := live # bpf_trace bpf\<rparr>)))"

definition attach_pair ::
  "('b, 'l) attach_op \<Rightarrow> ('b, 'm) attach_op \<Rightarrow> ('l \<Rightarrow> 'b \<Rightarrow> (string + unit) \<times> 'b) \<Rightarrow>
     ('b, unit) attach_op" where
  "attach_pair attach_exit attach_enter detach_exit st =
     (case attach_exit st of
         (Inl m, st1) \<Rightarrow> (Err m, st1)
       | (Inr exit_link, st1) \<Rightarrow>
           (case attach_enter st1 of
               (Inr _, st2) \<Rightarrow> (Ok (), st2)
             | (Inl m, (backend, report)) \<Rightarrow>
                 (case detach_exit exit_link backend of
                     (Inl m', backend') \<Rightarrow> (Err m', (backend', report))
                   | (Inr _, backend') \<Rightarrow>
                       (Err m, (backend', report\<lparr>ar_probes := ar_probes report - 1\<rparr>)))))"

text \<open>The hook of a tracepoint is its category and name.\<close>

definition attach_tracepoint_pair ::
  "Kernel \<Rightarrow> string \<Rightarrow> string \<times> string \<Rightarrow> string \<times> string \<Rightarrow> (Bpf, unit) attach_op" where
  "attach_tracepoint_pair k category enter exit =
     attach_pair (attach_program k (fst exit) (category @ ''/'' @ snd exit))
       (attach_program k (fst enter) (category @ ''/'' @ snd enter)) (detach_program k)"

definition enter_program :: "string \<Rightarrow> string" where
  "enter_program name = ''sys_enter_'' @ name"

definition exit_program :: "string \<Rightarrow> string" where
  "exit_program name = ''sys_exit_'' @ name"

definition attach_syscall_pair :: "Kernel \<Rightarrow> string \<Rightarrow> string \<Rightarrow> (Bpf, unit) attach_op" where
  "attach_syscall_pair k name tracepoint_name =
     attach_tracepoint_pair k ''syscalls''
       (enter_program name, enter_program tracepoint_name)
       (exit_program name, exit_program tracepoint_name)"

definition try_attach_syscall_pair ::
  "Kernel \<Rightarrow> string \<Rightarrow> string \<Rightarrow> string \<Rightarrow> Bpf attach_state \<Rightarrow> bool \<times> Bpf attach_state" where
  "try_attach_syscall_pair k name tracepoint_name key st =
     (case attach_syscall_pair k name tracepoint_name st of (r, (bpf, report)) \<Rightarrow>
       (is_ok r, (bpf, insert_key key (is_ok r) report)))"

definition required :: "string \<Rightarrow> ('b, unit) attach_op \<Rightarrow> ('b, unit) attach_op" where
  "required key attach st = (case attach st of
       (Inl m, st') \<Rightarrow> (Err (''required collector '' @ key @ '': '' @ m), st')
     | (Inr _, (b, report)) \<Rightarrow> (Ok (), (b, insert_key key True report)))"

definition attach_tty_read_pair ::
  "32 word list option \<Rightarrow> ('b, 'l) attach_op \<Rightarrow> ('b, 'm) attach_op \<Rightarrow>
     ('l \<Rightarrow> 'b \<Rightarrow> (string + unit) \<times> 'b) \<Rightarrow> ('b, unit) attach_op" where
  "attach_tty_read_pair tty_offsets attach_exit attach_enter detach_exit st =
     (case attach_pair attach_exit attach_enter detach_exit st of (r, (b, report)) \<Rightarrow>
       (r, (b, record_tty_attach ''tty.read'' (is_ok r) tty_offsets
                (record_tty_attach ''tty.read_ret'' (is_ok r) tty_offsets report))))"

definition try_attach_kprobe ::
  "Kernel \<Rightarrow> string \<Rightarrow> string \<Rightarrow> Bpf attach_state \<Rightarrow> bool \<times> Bpf attach_state" where
  "try_attach_kprobe k prog fn_name st =
     (case attach_program k prog fn_name st of (r, st') \<Rightarrow> (is_ok r, st'))"

section \<open>Bitmaps\<close>

definition array_set :: "32 word list \<Rightarrow> 32 word \<Rightarrow> 32 word \<Rightarrow> string + 32 word list" where
  "array_set xs i v =
     (if unat i < length xs then Ok (xs[unat i := v]) else Err ''out of bounds'')"

fun set_bits :: "32 word list \<Rightarrow> 32 word list \<Rightarrow> string + 32 word list" where
  "set_bits [] xs = Ok xs"
| "set_bits (nr # nrs) xs = and_then (array_set xs nr 1) (set_bits nrs)"

definition populate_exclusion_bitmap :: "Bpf \<Rightarrow> string + Bpf" where
  "populate_exclusion_bitmap bpf =
     and_then (set_bits
         (filter (\<lambda>nr. nr < of_nat BITMAP_SIZE) (map ucast EXCLUDED_SYSCALLS))
         (bpf_exclusion_bitmap bpf))
       (\<lambda>bits. Ok (bpf\<lparr>bpf_exclusion_bitmap := bits\<rparr>))"

definition dedup_syscalls :: "AttachReport \<Rightarrow> 32 word list" where
  "dedup_syscalls report =
     map ucast
       (map t2_nr (filter (\<lambda>s. key_true report (tier2_key (t2_name s)))
          (filter (\<lambda>s. t2_dedup s \<noteq> NoDedup) TIER2))
        @ map fst (filter (\<lambda>(_, key). key_true report key) EXEC_DEDUP))"

section \<open>The attachment sequence\<close>

text \<open>Sequencing with \<open>?\<close>, and lifting an operation whose outcome is only recorded.\<close>

definition then_op :: "('b, 'r) attach_op \<Rightarrow> ('b, 's) attach_op \<Rightarrow> ('b, 's) attach_op" where
  "then_op f g st = (case f st of (Inl m, st') \<Rightarrow> (Err m, st') | (Inr _, st') \<Rightarrow> g st')"

definition forget :: "('b attach_state \<Rightarrow> 'x \<times> 'b attach_state) \<Rightarrow> ('b, unit) attach_op" where
  "forget f st = (Ok (), snd (f st))"

primrec each_op :: "('x \<Rightarrow> ('b, unit) attach_op) \<Rightarrow> 'x list \<Rightarrow> ('b, unit) attach_op" where
  "each_op f [] st = (Ok (), st)"
| "each_op f (x # xs) st = then_op (f x) (each_op f xs) st"

definition attach_lifecycle :: "Kernel \<Rightarrow> (Bpf, unit) attach_op" where
  "attach_lifecycle k = required ''lifecycle''
     (then_op (attach_program k ''sched_process_free'' ''sched_process_free'')
     (then_op (attach_program k ''sched_process_fork'' ''sched_process_fork'')
     (then_op (attach_program k ''sched_process_exit'' ''sched_process_exit'')
       (\<lambda>st. (Ok (), st)))))"

definition attach_signal :: "Kernel \<Rightarrow> (Bpf, unit) attach_op" where
  "attach_signal k = required ''signal''
     (then_op (attach_program k ''signal_generate'' ''signal_generate'') (\<lambda>st. (Ok (), st)))"

definition attach_raw_syscalls :: "Kernel \<Rightarrow> (Bpf, unit) attach_op" where
  "attach_raw_syscalls k = required ''raw_syscalls''
     (attach_tracepoint_pair k ''raw_syscalls'' (''raw_sys_enter'', ''sys_enter'')
       (''raw_sys_exit'', ''sys_exit''))"

definition selected_tier2 :: "Cli \<Rightarrow> Tier2 list" where
  "selected_tier2 args =
     filter (\<lambda>s. t2_dedup s \<noteq> OptIn \<or> cli_enable_rich_sendfile args) TIER2"

definition attach_tier2 :: "Kernel \<Rightarrow> Tier2 \<Rightarrow> (Bpf, unit) attach_op" where
  "attach_tier2 k s = forget
     (try_attach_syscall_pair k (t2_name s) (t2_tracepoint s) (tier2_key (t2_name s)))"

definition write_tier2_bitmap :: "(Bpf, unit) attach_op" where
  "write_tier2_bitmap st = (case st of (bpf, report) \<Rightarrow>
     (case set_bits (dedup_syscalls report) (bpf_tier2_bitmap bpf) of
         Inl m \<Rightarrow> (Err m, st)
       | Inr bits \<Rightarrow> (Ok (), (bpf\<lparr>bpf_tier2_bitmap := bits\<rparr>, report))))"

definition attach_tty :: "Kernel \<Rightarrow> 32 word list option \<Rightarrow> (Bpf, unit) attach_op" where
  "attach_tty k tty_offsets st =
     (case try_attach_kprobe k ''tty_write_probe'' ''pty_write'' st of (ok, (bpf, report)) \<Rightarrow>
       forget (attach_tty_read_pair tty_offsets
           (attach_program k ''tty_read_ret_probe'' ''n_tty_read'')
           (attach_program k ''tty_read_probe'' ''n_tty_read'') (detach_program k))
         (bpf, record_tty_attach ''tty.write'' ok tty_offsets report))"

definition lsm_hooks :: "(string \<times> string) list" where
  "lsm_hooks =
     [(''task_kill'', ''task_kill''), (''bpf_hook'', ''bpf''),
      (''ptrace_access_check'', ''ptrace_access_check''), (''file_open'', ''file_open''),
      (''inode_unlink'', ''inode_unlink''), (''inode_rename'', ''inode_rename''),
      (''task_fix_setuid'', ''task_fix_setuid'')]"

definition attach_lsm_hook :: "Kernel \<Rightarrow> string \<times> string \<Rightarrow> (Bpf, unit) attach_op" where
  "attach_lsm_hook k hook st =
     (case (case k_lsm_btf k of
             None \<Rightarrow> attach_program k (fst hook) (snd hook) st
           | Some m \<Rightarrow> (Err (''LSM BTF unavailable: '' @ m), st)) of
       (r, (bpf, report)) \<Rightarrow> (Ok (), (bpf, insert_key (''lsm.'' @ snd hook) (is_ok r) report)))"

definition attach_lsm_hooks :: "Kernel \<Rightarrow> Cli \<Rightarrow> (Bpf, unit) attach_op" where
  "attach_lsm_hooks k args =
     (if cli_enable_lsm args then each_op (attach_lsm_hook k) lsm_hooks else (\<lambda>st. (Ok (), st)))"

text \<open>
  \<open>load_and_attach\<close> from the loaded object to the optional hooks: the exclusion
  bitmap, the required collectors, the optional pairs, the deduplication bitmap,
  the TTY probes and the LSM hooks.
\<close>

definition attach_sequence :: "Kernel \<Rightarrow> Cli \<Rightarrow> 32 word list option \<Rightarrow> (Bpf, unit) attach_op" where
  "attach_sequence k args tty_offsets =
     then_op (attach_lifecycle k)
     (then_op (attach_signal k)
     (then_op (required ''exec.execve'' (attach_syscall_pair k ''execve'' ''execve''))
     (then_op (forget (try_attach_syscall_pair k ''execveat'' ''execveat'' ''exec.execveat''))
     (then_op (attach_raw_syscalls k)
     (then_op (each_op (attach_tier2 k) (selected_tier2 args))
     (then_op write_tier2_bitmap
     (then_op (attach_tty k tty_offsets)
       (attach_lsm_hooks k args))))))))"

definition attach_collectors ::
  "Kernel \<Rightarrow> Cli \<Rightarrow> 32 word list option \<Rightarrow> Bpf \<Rightarrow> (string + unit) \<times> Bpf attach_state" where
  "attach_collectors k args tty_offsets bpf0 =
     (case populate_exclusion_bitmap bpf0 of
         Inl m \<Rightarrow> (Err m, (bpf0, default_report))
       | Inr bpf \<Rightarrow> attach_sequence k args tty_offsets (bpf, default_report))"

definition new_bpf :: Bpf where
  "new_bpf = \<lparr>bpf_live = [], bpf_trace = [], bpf_exclusion_bitmap = replicate BITMAP_SIZE 0,
     bpf_tier2_bitmap = replicate BITMAP_SIZE 0\<rparr>"

section \<open>The loader invariant\<close>

text \<open>
  A consumer that is missing while its producer runs: a syscall enter hook
  without its exit hook, or a TTY read entry without its return probe.
\<close>

definition consumers_present :: "string list \<Rightarrow> bool" where
  "consumers_present live \<longleftrightarrow>
     (\<forall>n. enter_program n \<in> set live \<longrightarrow> exit_program n \<in> set live) \<and>
     (''raw_sys_enter'' \<in> set live \<longrightarrow> ''raw_sys_exit'' \<in> set live) \<and>
     (''tty_read_probe'' \<in> set live \<longrightarrow> ''tty_read_ret_probe'' \<in> set live)"

text \<open>What the readiness report claims about the hooks: key and producer program.\<close>

definition claims :: "(string \<times> string) set" where
  "claims = range (\<lambda>n. (tier2_key n, enter_program n)) \<union> range (\<lambda>n. (exec_key n, enter_program n)) \<union>
     {(''raw_syscalls'', ''raw_sys_enter''), (''tty.read'', ''tty_read_probe'')}"

definition report_honest :: "string list \<Rightarrow> AttachReport \<Rightarrow> bool" where
  "report_honest live report \<longleftrightarrow>
     ar_probes report = of_nat (length live) \<and>
     (\<forall>(key, prog) \<in> claims. key_true report key \<longrightarrow> prog \<in> set live)"

text \<open>A syscall number is suppressed only while a rich collector for it runs.\<close>

definition rich_capture :: "string list \<Rightarrow> nat \<Rightarrow> bool" where
  "rich_capture live nr \<longleftrightarrow>
     (\<exists>s\<in>set TIER2. unat (t2_nr s) = nr \<and> t2_dedup s \<noteq> NoDedup \<and>
        enter_program (t2_name s) \<in> set live) \<or>
     nr = unat NR_EXECVE \<and> enter_program ''execve'' \<in> set live"

definition bitmap_backed :: "string list \<Rightarrow> 32 word list \<Rightarrow> bool" where
  "bitmap_backed live bits \<longleftrightarrow> length bits = BITMAP_SIZE \<and>
     (\<forall>nr<BITMAP_SIZE. bits ! nr \<noteq> 0 \<longrightarrow> rich_capture live nr)"

definition loader_inv :: "Bpf attach_state \<Rightarrow> bool" where
  "loader_inv st \<longleftrightarrow>
     bitmap_backed (bpf_live (fst st)) (bpf_tier2_bitmap (fst st)) \<and>
     report_honest (bpf_live (fst st)) (snd st) \<and>
     consumers_present (bpf_live (fst st)) \<and>
     list_all consumers_present (bpf_trace (fst st))"

definition keeps :: "(Bpf, 'r) attach_op \<Rightarrow> bool" where
  "keeps f \<longleftrightarrow> (\<forall>st. loader_inv st \<longrightarrow> loader_inv (snd (f st)))"

lemma keeps_then: "keeps f \<Longrightarrow> keeps g \<Longrightarrow> keeps (then_op f g)"
proof -
  assume f: "keeps f" and g: "keeps g"
  show ?thesis
    unfolding keeps_def
  proof (intro allI impI)
    fix st
    assume "loader_inv st"
    then have 1: "loader_inv (snd (f st))" using f unfolding keeps_def by blast
    then have "loader_inv (snd (g (snd (f st))))" using g unfolding keeps_def by blast
    with 1 show "loader_inv (snd (then_op f g st))"
      by (cases "f st"; cases "fst (f st)") (simp_all add: then_op_def)
  qed
qed

lemma keeps_return: "keeps (\<lambda>st. (r, st))"
  by (simp add: keeps_def)

lemma keeps_each: "(\<And>x. x \<in> set xs \<Longrightarrow> keeps (f x)) \<Longrightarrow> keeps (each_op f xs)"
proof (induction xs)
  case Nil
  show ?case by (simp add: keeps_def)
next
  case (Cons x xs)
  then have "keeps (then_op (f x) (each_op f xs))" by (intro keeps_then) auto
  then show ?case by (simp add: keeps_def)
qed

text \<open>A program that consumes nothing and is no enter hook may come at any time.\<close>

definition no_producer :: "string \<Rightarrow> bool" where
  "no_producer p \<longleftrightarrow> (\<forall>n. p \<noteq> enter_program n) \<and> p \<noteq> ''raw_sys_enter'' \<and> p \<noteq> ''tty_read_probe''"

lemma consumers_present_Cons:
  "no_producer p \<Longrightarrow> consumers_present live \<Longrightarrow> consumers_present (p # live)"
  by (auto simp: consumers_present_def no_producer_def)

lemma bitmap_backed_Cons:
  "bitmap_backed live bits \<Longrightarrow> bitmap_backed (p # live) bits"
  unfolding bitmap_backed_def rich_capture_def by (meson list.set_intros(2))

lemma report_honest_attach:
  "report_honest live report \<Longrightarrow> report_honest (p # live) (report\<lparr>ar_probes := ar_probes report + 1\<rparr>)"
  by (auto simp: report_honest_def key_true_def)

lemma keeps_attach:
  assumes "no_producer p"
  shows "keeps (attach_program k p hook)"
  using consumers_present_Cons[OF assms] report_honest_attach bitmap_backed_Cons
  by (auto simp: keeps_def attach_program_def loader_inv_def Let_def split: option.splits)

lemma program_names [simp]:
  "enter_program n = enter_program m \<longleftrightarrow> n = m"
  "exit_program n = exit_program m \<longleftrightarrow> n = m"
  "enter_program n \<noteq> exit_program m" "exit_program m \<noteq> enter_program n"
  by (simp_all add: enter_program_def exit_program_def)

lemma key_names [simp]:
  "tier2_key n = tier2_key m \<longleftrightarrow> n = m" "exec_key n = exec_key m \<longleftrightarrow> n = m"
  "tier2_key n \<noteq> exec_key m" "exec_key m \<noteq> tier2_key n"
  by (simp_all add: tier2_key_def exec_key_def)

lemma exit_no_producer: "no_producer (exit_program n)" "no_producer ''raw_sys_exit''"
  "no_producer ''tty_read_ret_probe''"
  by (simp_all add: no_producer_def exit_program_def enter_program_def)

lemma report_honest_insert:
  "report_honest live report \<Longrightarrow> (v \<Longrightarrow> (\<And>p. (key, p) \<in> claims \<Longrightarrow> p \<in> set live)) \<Longrightarrow>
   report_honest live (insert_key key v report)"
  by (auto simp: report_honest_def key_true_def insert_key_def split: if_splits)

lemma keeps_required:
  assumes "keeps f"
    and "\<And>st st' u. loader_inv st \<Longrightarrow> f st = (Ok u, st') \<Longrightarrow>
      \<forall>p. (key, p) \<in> claims \<longrightarrow> p \<in> set (bpf_live (fst st'))"
  shows "keeps (required key f)"
  unfolding keeps_def
proof (intro allI impI)
  fix st
  assume inv: "loader_inv st"
  obtain r bpf report where f: "f st = (r, (bpf, report))" by (metis prod.exhaust)
  have "loader_inv (bpf, report)" using assms(1) inv f unfolding keeps_def by (metis snd_conv)
  with assms(2)[OF inv] f report_honest_insert[of "bpf_live bpf" report True key]
  show "loader_inv (snd (required key f st))"
    by (cases r) (auto simp: required_def loader_inv_def)
qed

text \<open>
  A pair whose enter hook is \<open>enter\<close> and whose exit hook is \<open>exit\<close>.  Rolling back
  leaves the hooks exactly as they were; success leaves both attached.
\<close>

definition is_pair :: "string \<Rightarrow> string \<Rightarrow> bool" where
  "is_pair enter exit \<longleftrightarrow> no_producer exit \<and>
     (\<forall>live. consumers_present live \<longrightarrow> exit \<in> set live \<longrightarrow> consumers_present (enter # live))"

lemma attach_pair_cases:
  assumes "attach_pair (attach_program k exit h1) (attach_program k enter h2) (detach_program k)
      (bpf, report) = (r, (bpf', report'))"
  shows "if is_ok r then
      bpf' = bpf\<lparr>bpf_live := enter # exit # bpf_live bpf,
        bpf_trace := (enter # exit # bpf_live bpf) # (exit # bpf_live bpf) # bpf_trace bpf\<rparr> \<and>
      report' = report\<lparr>ar_probes := ar_probes report + 2\<rparr>
    else bpf_live bpf' = bpf_live bpf \<and> report' = report \<and>
        set (bpf_trace bpf') \<subseteq> {bpf_live bpf, exit # bpf_live bpf} \<union> set (bpf_trace bpf) \<and>
        bpf_tier2_bitmap bpf' = bpf_tier2_bitmap bpf \<and>
        bpf_exclusion_bitmap bpf' = bpf_exclusion_bitmap bpf
      \<or> k_detach k exit \<noteq> None \<and>
        bpf' = bpf\<lparr>bpf_live := exit # bpf_live bpf, bpf_trace := (exit # bpf_live bpf) # bpf_trace bpf\<rparr> \<and>
        report' = report\<lparr>ar_probes := ar_probes report + 1\<rparr>"
  using assms
  by (auto simp: attach_pair_def attach_program_def detach_program_def Let_def
      split: option.splits)

lemma keeps_pair:
  assumes "is_pair enter exit"
  shows "keeps (attach_pair (attach_program k exit h1) (attach_program k enter h2) (detach_program k))"
  unfolding keeps_def
proof (intro allI impI)
  fix st
  assume inv: "loader_inv st"
  obtain bpf report where st: "st = (bpf, report)" by force
  let ?f = "attach_pair (attach_program k exit h1) (attach_program k enter h2) (detach_program k)"
  obtain r bpf' report' where f: "?f (bpf, report) = (r, (bpf', report'))" by (metis prod.exhaust)
  have cp: "consumers_present (bpf_live bpf)" using inv by (simp add: st loader_inv_def)
  then have cx: "consumers_present (exit # bpf_live bpf)"
    using assms consumers_present_Cons by (simp add: is_pair_def)
  then have ce: "consumers_present (enter # exit # bpf_live bpf)"
    using assms by (simp add: is_pair_def)
  have h0: "report_honest (bpf_live bpf) report" using inv by (simp add: st loader_inv_def)
  then have h1: "report_honest (exit # bpf_live bpf) (report\<lparr>ar_probes := ar_probes report + 1\<rparr>)"
    by (rule report_honest_attach)
  then have h2: "report_honest (enter # exit # bpf_live bpf) (report\<lparr>ar_probes := ar_probes report + 2\<rparr>)"
    using report_honest_attach[OF h1, of enter] by (simp add: add.assoc)
  have tr: "list_all consumers_present (bpf_trace bpf)"
    and bb: "bitmap_backed (bpf_live bpf) (bpf_tier2_bitmap bpf)"
    using inv by (simp_all add: st loader_inv_def)
  note bb = bb bitmap_backed_Cons[OF bb] bitmap_backed_Cons[OF bitmap_backed_Cons[OF bb]]
  show "loader_inv (snd (?f st))"
    using attach_pair_cases[OF f] cp cx ce h0 h1 h2 tr bb
    by (cases "is_ok r") (auto simp: st f loader_inv_def list_all_iff)
qed

lemma pairs:
  "is_pair (enter_program n) (exit_program n)"
  "is_pair ''raw_sys_enter'' ''raw_sys_exit''"
  "is_pair ''tty_read_probe'' ''tty_read_ret_probe''"
  using exit_no_producer(1)[of n] exit_no_producer(2,3)
  by (auto simp: is_pair_def consumers_present_def enter_program_def)

lemma pair_ok_live:
  assumes "attach_pair (attach_program k exit h1) (attach_program k enter h2) (detach_program k) st
      = (Ok u, st')"
  shows "enter \<in> set (bpf_live (fst st'))"
  using attach_pair_cases[of k exit h1 enter h2 "fst st" "snd st" "Ok u" "fst st'" "snd st'"] assms
  by simp

lemma claims_simps:
  "(tier2_key n, p) \<in> claims \<longleftrightarrow> p = enter_program n"
  "(exec_key n, p) \<in> claims \<longleftrightarrow> p = enter_program n"
  "(''raw_syscalls'', p) \<in> claims \<longleftrightarrow> p = ''raw_sys_enter''"
  "(''tty.read'', p) \<in> claims \<longleftrightarrow> p = ''tty_read_probe''"
  by (auto simp: claims_def tier2_key_def exec_key_def)

lemma no_claims:
  "(''lifecycle'', p) \<notin> claims" "(''signal'', p) \<notin> claims" "(''tty.write'', p) \<notin> claims"
  "(''tty.read_ret'', p) \<notin> claims" "(''lsm.'' @ n, p) \<notin> claims"
  by (auto simp: claims_def tier2_key_def exec_key_def)

lemma keeps_required_unclaimed:
  "keeps f \<Longrightarrow> (\<And>p. (key, p) \<notin> claims) \<Longrightarrow> keeps (required key f)"
  by (rule keeps_required) auto

lemma keeps_syscall_pair: "keeps (attach_syscall_pair k name tp)"
  unfolding attach_syscall_pair_def attach_tracepoint_pair_def fst_conv
  by (rule keeps_pair[OF pairs(1)])

lemma syscall_pair_ok_live:
  "attach_syscall_pair k name tp st = (Ok u, st') \<Longrightarrow>
     enter_program name \<in> set (bpf_live (fst st'))"
  unfolding attach_syscall_pair_def attach_tracepoint_pair_def fst_conv
  by (rule pair_ok_live)

lemma keeps_try_pair:
  assumes "\<And>p. (key, p) \<in> claims \<Longrightarrow> p = enter_program name"
  shows "keeps (forget (try_attach_syscall_pair k name tp key))"
  unfolding keeps_def
proof (intro allI impI)
  fix st
  assume inv: "loader_inv st"
  obtain r bpf report where f: "attach_syscall_pair k name tp st = (r, (bpf, report))"
    by (metis prod.exhaust)
  have "loader_inv (bpf, report)"
    using keeps_syscall_pair inv f unfolding keeps_def by (metis snd_conv)
  moreover have "is_ok r \<Longrightarrow> enter_program name \<in> set (bpf_live bpf)"
    using syscall_pair_ok_live[of k name tp st] f by (cases r) auto
  ultimately show "loader_inv (snd (forget (try_attach_syscall_pair k name tp key) st))"
    using report_honest_insert[of "bpf_live bpf" report "is_ok r" key] assms
    by (auto simp: forget_def try_attach_syscall_pair_def f loader_inv_def)
qed

lemma keeps_lifecycle: "keeps (attach_lifecycle k)"
  unfolding attach_lifecycle_def
  by (intro keeps_required_unclaimed keeps_then keeps_attach keeps_return no_claims)
    (simp_all add: no_producer_def enter_program_def)

lemma keeps_signal: "keeps (attach_signal k)"
  unfolding attach_signal_def
  by (intro keeps_required_unclaimed keeps_then keeps_attach keeps_return no_claims)
    (simp_all add: no_producer_def enter_program_def)

lemma exec_key_literals:
  "''exec.execve'' = exec_key ''execve''" "''exec.execveat'' = exec_key ''execveat''"
  by (simp_all add: exec_key_def)

lemma keeps_execve:
  "keeps (required ''exec.execve'' (attach_syscall_pair k ''execve'' ''execve''))"
  unfolding exec_key_literals
  by (rule keeps_required[OF keeps_syscall_pair]) (simp add: claims_simps syscall_pair_ok_live)

lemma keeps_execveat:
  "keeps (forget (try_attach_syscall_pair k ''execveat'' ''execveat'' ''exec.execveat''))"
  unfolding exec_key_literals by (rule keeps_try_pair) (simp add: claims_simps)

lemma keeps_tier2: "keeps (attach_tier2 k s)"
  unfolding attach_tier2_def by (rule keeps_try_pair) (simp add: claims_simps)

lemma keeps_raw: "keeps (attach_raw_syscalls k)"
  unfolding attach_raw_syscalls_def attach_tracepoint_pair_def fst_conv
  by (rule keeps_required[OF keeps_pair[OF pairs(2)]])
    (simp add: claims_simps pair_ok_live)

lemma keeps_lsm: "keeps (attach_lsm_hooks k args)"
proof -
  have np: "hook \<in> set lsm_hooks \<Longrightarrow> no_producer (fst hook)" for hook
    by (auto simp: lsm_hooks_def no_producer_def enter_program_def)
  have "keeps (attach_lsm_hook k hook)" if "hook \<in> set lsm_hooks" for hook
    unfolding keeps_def
  proof (intro allI impI)
    fix st
    assume inv: "loader_inv st"
    obtain b0 rep0 where st: "st = (b0, rep0)" by force
    obtain r bpf report where
      f: "attach_program k (fst hook) (snd hook) (b0, rep0) = (r, (bpf, report))"
      by (metis prod.exhaust)
    have i2: "loader_inv (bpf, report)"
      using keeps_attach[OF np[OF that]] inv f unfolding keeps_def st by (metis snd_conv)
    have honest: "report_honest live rep \<Longrightarrow>
        report_honest live (insert_key (''lsm.'' @ snd hook) v rep)" for live rep v
      using report_honest_insert no_claims(5) by blast
    show "loader_inv (snd (attach_lsm_hook k hook st))"
      using inv i2 honest
      by (cases "k_lsm_btf k")
        (simp_all add: attach_lsm_hook_def st f loader_inv_def del: append.simps)
  qed
  then show ?thesis by (simp add: attach_lsm_hooks_def keeps_each keeps_return)
qed

lemma keeps_tty: "keeps (attach_tty k tty)"
  unfolding keeps_def
proof (intro allI impI)
  fix st
  assume inv: "loader_inv st"
  obtain r bpf report where w: "attach_program k ''tty_write_probe'' ''pty_write'' st = (r, (bpf, report))"
    by (metis prod.exhaust)
  have "keeps (attach_program k ''tty_write_probe'' ''pty_write'')"
    by (rule keeps_attach) (simp add: no_producer_def enter_program_def)
  then have i1: "loader_inv (bpf, report)" using inv w unfolding keeps_def by (metis snd_conv)
  let ?rep = "record_tty_attach ''tty.write'' (is_ok r) tty report"
  have i2: "loader_inv (bpf, ?rep)"
    using i1 report_honest_insert[of "bpf_live bpf" report _ "''tty.write''"] no_claims(3)
    by (simp add: loader_inv_def record_tty_attach_def)
  let ?pair = "attach_pair (attach_program k ''tty_read_ret_probe'' ''n_tty_read'')
    (attach_program k ''tty_read_probe'' ''n_tty_read'') (detach_program k)"
  obtain r2 bpf2 rep2 where p: "?pair (bpf, ?rep) = (r2, (bpf2, rep2))" by (metis prod.exhaust)
  have i3: "loader_inv (bpf2, rep2)"
    using keeps_pair[OF pairs(3)] i2 p unfolding keeps_def by (metis snd_conv)
  have live: "is_ok r2 \<Longrightarrow> ''tty_read_probe'' \<in> set (bpf_live bpf2)"
    using pair_ok_live[of k "''tty_read_ret_probe''" _ "''tty_read_probe''"] p by (cases r2) fastforce+
  have "report_honest (bpf_live bpf2) (record_tty_attach ''tty.read'' (is_ok r2) tty
      (record_tty_attach ''tty.read_ret'' (is_ok r2) tty rep2))"
    unfolding record_tty_attach_def
    by (intro report_honest_insert)
      (use i3 live no_claims(4) in \<open>auto simp: loader_inv_def claims_simps\<close>)
  then show "loader_inv (snd (attach_tty k tty st))"
    using i3 by (simp add: attach_tty_def try_attach_kprobe_def w forget_def attach_tty_read_pair_def
        p loader_inv_def)
qed

section \<open>Bitmap facts\<close>

lemma set_bits_ok:
  "list_all (\<lambda>nr. unat nr < length xs) nrs \<Longrightarrow>
   \<exists>ys. set_bits nrs xs = Ok ys \<and> length ys = length xs \<and>
     (\<forall>i<length xs. ys ! i = (if i \<in> unat ` set nrs then 1 else xs ! i))"
proof (induction nrs arbitrary: xs)
  case (Cons nr nrs)
  let ?xs = "xs[unat nr := 1]"
  obtain ys where "set_bits nrs ?xs = Ok ys" "length ys = length xs"
    "\<forall>i<length xs. ys ! i = (if i \<in> unat ` set nrs then 1 else ?xs ! i)"
    using Cons.IH[of ?xs] Cons.prems by auto
  then show ?case using Cons.prems by (auto simp: array_set_def)
qed simp

lemma table_number_small:
  "s \<in> set TIER2 \<Longrightarrow> unat (t2_nr s) < BITMAP_SIZE"
  using tables_in_bitmap(1) by (auto simp: list_all_iff)

lemma ucast_table_number:
  "s \<in> set TIER2 \<Longrightarrow> unat (ucast (t2_nr s) :: 32 word) = unat (t2_nr s)"
  using table_number_small[of s]
  by (simp add: BITMAP_SIZE_def unsigned_ucast_eq take_bit_nat_eq_self)

lemma dedup_syscalls_number:
  "nr \<in> unat ` set (dedup_syscalls report) \<longleftrightarrow>
     (\<exists>s\<in>set TIER2. unat (t2_nr s) = nr \<and> t2_dedup s \<noteq> NoDedup \<and>
        key_true report (tier2_key (t2_name s))) \<or>
     nr = unat NR_EXECVE \<and> key_true report ''exec.execve''"
proof -
  have e: "unat (ucast NR_EXECVE :: 32 word) = unat NR_EXECVE" by (simp add: NR_EXECVE_def)
  let ?S = "{s \<in> set TIER2. t2_dedup s \<noteq> NoDedup \<and> key_true report (tier2_key (t2_name s))}"
  have "unat ` set (dedup_syscalls report) =
      (\<lambda>s. unat (ucast (t2_nr s) :: 32 word)) ` ?S \<union>
      (if key_true report ''exec.execve'' then {unat (ucast NR_EXECVE :: 32 word)} else {})"
    by (auto simp: dedup_syscalls_def EXEC_DEDUP_def)
  also have "(\<lambda>s. unat (ucast (t2_nr s) :: 32 word)) ` ?S = (\<lambda>s. unat (t2_nr s)) ` ?S"
    by (rule image_cong) (simp_all add: ucast_table_number)
  finally show ?thesis unfolding e by auto
qed

lemma honest_claim:
  "report_honest live report \<Longrightarrow> key_true report key \<Longrightarrow> (key, p) \<in> claims \<Longrightarrow> p \<in> set live"
  by (auto simp: report_honest_def)

lemma dedup_rich:
  assumes "report_honest live report" "nr \<in> unat ` set (dedup_syscalls report)"
  shows "rich_capture live nr"
  using assms(2) honest_claim[OF assms(1)]
  unfolding dedup_syscalls_number rich_capture_def exec_key_literals
  by (meson claims_simps(1,2))

lemma dedup_small: "list_all (\<lambda>nr. unat nr < BITMAP_SIZE) (dedup_syscalls report)"
proof -
  have "nr < BITMAP_SIZE" if "nr \<in> unat ` set (dedup_syscalls report)" for nr
    using that table_number_small unfolding dedup_syscalls_number
    by (auto simp: NR_EXECVE_def BITMAP_SIZE_def)
  then show ?thesis by (auto simp: list_all_iff)
qed

lemma write_bitmap_result:
  assumes "length (bpf_tier2_bitmap bpf) = BITMAP_SIZE"
  obtains bits where
    "write_tier2_bitmap (bpf, report) = (Ok (), (bpf\<lparr>bpf_tier2_bitmap := bits\<rparr>, report))"
    "length bits = BITMAP_SIZE"
    "\<forall>i<BITMAP_SIZE. bits ! i =
       (if i \<in> unat ` set (dedup_syscalls report) then 1 else bpf_tier2_bitmap bpf ! i)"
  using set_bits_ok[of "bpf_tier2_bitmap bpf" "dedup_syscalls report"] dedup_small[of report] assms
  by (auto simp: write_tier2_bitmap_def)

lemma keeps_write_bitmap: "keeps write_tier2_bitmap"
  unfolding keeps_def
proof (intro allI impI)
  fix st
  assume inv: "loader_inv st"
  obtain bpf report where st: "st = (bpf, report)" by force
  have len: "length (bpf_tier2_bitmap bpf) = BITMAP_SIZE"
    using inv by (simp add: st loader_inv_def bitmap_backed_def)
  obtain bits where w: "write_tier2_bitmap st = (Ok (), (bpf\<lparr>bpf_tier2_bitmap := bits\<rparr>, report))"
    "length bits = BITMAP_SIZE"
    "\<forall>i<BITMAP_SIZE. bits ! i =
       (if i \<in> unat ` set (dedup_syscalls report) then 1 else bpf_tier2_bitmap bpf ! i)"
    unfolding st by (rule write_bitmap_result[OF len])
  show "loader_inv (snd (write_tier2_bitmap st))"
    using inv w dedup_rich[of "bpf_live bpf" report]
    by (auto simp: st loader_inv_def bitmap_backed_def)
qed

section \<open>The whole sequence\<close>

definition works :: "(Bpf, 'r) attach_op \<Rightarrow> bool" where
  "works f \<longleftrightarrow> (\<forall>st. loader_inv st \<longrightarrow> is_ok (fst (f st)))"

lemma works_then: "keeps f \<Longrightarrow> works f \<Longrightarrow> works g \<Longrightarrow> works (then_op f g)"
  unfolding works_def
proof (intro allI impI)
  fix st
  assume f: "keeps f" "\<forall>st. loader_inv st \<longrightarrow> is_ok (fst (f st))"
    and g: "\<forall>st. loader_inv st \<longrightarrow> is_ok (fst (g st))" and inv: "loader_inv st"
  have "loader_inv (snd (f st))" using f(1) inv unfolding keeps_def by blast
  then have "is_ok (fst (g (snd (f st))))" using g by blast
  moreover have "is_ok (fst (f st))" using f(2) inv by blast
  ultimately show "is_ok (fst (then_op f g st))"
    by (cases "f st"; cases "fst (f st)") (simp_all add: then_op_def)
qed

lemma works_always: "(\<And>st. is_ok (fst (f st))) \<Longrightarrow> works f"
  by (simp add: works_def)

lemma works_attach: "k_attach k p h = None \<Longrightarrow> works (attach_program k p h)"
  by (rule works_always) (simp add: attach_program_def case_prod_beta Let_def)

lemma works_pair:
  "k_attach k p1 h1 = None \<Longrightarrow> k_attach k p2 h2 = None \<Longrightarrow>
   works (attach_pair (attach_program k p1 h1) (attach_program k p2 h2) (detach_program k))"
  by (rule works_always) (simp add: attach_pair_def attach_program_def case_prod_beta Let_def)

lemma works_required:
  assumes "works f"
  shows "works (required key f)"
proof -
  have "is_ok (fst (required key f st)) = is_ok (fst (f st))" for st
    by (cases "f st"; cases "fst (f st)") (simp_all add: required_def case_prod_beta)
  then show ?thesis using assms by (simp only: works_def)
qed

lemma works_write_bitmap: "works write_tier2_bitmap"
  unfolding works_def
proof (intro allI impI)
  fix st
  assume inv: "loader_inv st"
  obtain bpf report where st: "st = (bpf, report)" by force
  have "length (bpf_tier2_bitmap bpf) = BITMAP_SIZE"
    using inv by (simp add: st loader_inv_def bitmap_backed_def)
  then show "is_ok (fst (write_tier2_bitmap st))"
    by (rule write_bitmap_result[of bpf report]) (simp add: st)
qed

lemma works_forget: "works (forget f)"
  by (rule works_always) (simp add: forget_def)

lemma each_op_ok: "(\<And>x st. is_ok (fst (f x st))) \<Longrightarrow> is_ok (fst (each_op f xs st))"
proof (induction xs arbitrary: st)
  case (Cons x xs)
  show ?case using Cons.IH[OF Cons.prems] Cons.prems[of x st]
    by (cases "f x st"; cases "fst (f x st)") (simp_all add: then_op_def)
qed simp

text \<open>The hooks without which startup fails.\<close>

definition required_hooks :: "(string \<times> string) list" where
  "required_hooks =
     [(''sched_process_free'', ''sched_process_free''),
      (''sched_process_fork'', ''sched_process_fork''),
      (''sched_process_exit'', ''sched_process_exit''), (''signal_generate'', ''signal_generate''),
      (''sys_exit_execve'', ''syscalls/sys_exit_execve''),
      (''sys_enter_execve'', ''syscalls/sys_enter_execve''),
      (''raw_sys_exit'', ''raw_syscalls/sys_exit''), (''raw_sys_enter'', ''raw_syscalls/sys_enter'')]"

lemma new_bpf_inv: "loader_inv (new_bpf, default_report)"
  by (simp add: loader_inv_def new_bpf_def default_report_def bitmap_backed_def report_honest_def
      key_true_def consumers_present_def)

lemma populate_ok:
  assumes "length (bpf_exclusion_bitmap bpf) = BITMAP_SIZE"
  obtains bits where "populate_exclusion_bitmap bpf = Ok (bpf\<lparr>bpf_exclusion_bitmap := bits\<rparr>)"
    "length bits = BITMAP_SIZE"
    "\<forall>i<BITMAP_SIZE. bits ! i =
       (if i \<in> unat ` set EXCLUDED_SYSCALLS then 1 else bpf_exclusion_bitmap bpf ! i)"
proof -
  let ?nrs = "filter (\<lambda>nr. nr < of_nat BITMAP_SIZE) (map ucast EXCLUDED_SYSCALLS) :: 32 word list"
  have small: "unat nr < 512" if "nr \<in> set EXCLUDED_SYSCALLS" for nr
    using tables_in_bitmap(2) that by (auto simp: list_all_iff BITMAP_SIZE_def)
  then have u: "unat (ucast nr :: 32 word) = unat nr" if "nr \<in> set EXCLUDED_SYSCALLS" for nr
    using small[OF that] by (simp add: unsigned_ucast_eq take_bit_nat_eq_self)
  have all: "?nrs = map ucast EXCLUDED_SYSCALLS"
    using small u by (auto simp: filter_id_conv word_less_nat_alt BITMAP_SIZE_def)
  have "list_all (\<lambda>nr. unat nr < length (bpf_exclusion_bitmap bpf)) ?nrs"
    using small u unfolding all by (auto simp: list_all_iff assms BITMAP_SIZE_def)
  from set_bits_ok[OF this] obtain bits where bits: "set_bits ?nrs (bpf_exclusion_bitmap bpf) = Ok bits"
    "length bits = BITMAP_SIZE" "\<forall>i<BITMAP_SIZE. bits ! i =
       (if i \<in> unat ` set ?nrs then 1 else bpf_exclusion_bitmap bpf ! i)"
    by (auto simp: assms)
  have img: "unat ` set ?nrs = unat ` set EXCLUDED_SYSCALLS"
    unfolding all using u by (auto simp: image_iff)
  show ?thesis
    by (rule that[OF _ bits(2) bits(3)[unfolded img]]) (simp add: populate_exclusion_bitmap_def bits(1))
qed

lemma populated_inv:
  "loader_inv (new_bpf\<lparr>bpf_exclusion_bitmap := bits\<rparr>, default_report)"
  using new_bpf_inv by (simp add: loader_inv_def)

lemmas keeps_all = keeps_lifecycle keeps_signal keeps_execve keeps_execveat keeps_raw
  keeps_tier2 keeps_write_bitmap keeps_tty keeps_lsm

lemma attach_collectors_new:
  obtains bits where "attach_collectors k args tty new_bpf =
    attach_sequence k args tty (new_bpf\<lparr>bpf_exclusion_bitmap := bits\<rparr>, default_report)"
proof -
  have "length (bpf_exclusion_bitmap new_bpf) = BITMAP_SIZE" by (simp add: new_bpf_def)
  then obtain bits where
    "populate_exclusion_bitmap new_bpf = Ok (new_bpf\<lparr>bpf_exclusion_bitmap := bits\<rparr>)"
    by (rule populate_ok)
  with that show ?thesis by (simp add: attach_collectors_def)
qed

lemma attach_collectors_inv: "loader_inv (snd (attach_collectors k args tty new_bpf))"
proof -
  obtain bits where c: "attach_collectors k args tty new_bpf =
      attach_sequence k args tty (new_bpf\<lparr>bpf_exclusion_bitmap := bits\<rparr>, default_report)"
    by (rule attach_collectors_new)
  have "keeps (attach_sequence k args tty)"
    unfolding attach_sequence_def by (intro keeps_then keeps_each keeps_all)
  then show ?thesis unfolding c keeps_def using populated_inv by blast
qed

section \<open>A sample kernel\<close>

text \<open>Only \<open>execve\<close> among the syscall tracepoints, and no BTF for the LSM hooks.\<close>

definition minimal_kernel :: Kernel where
  "minimal_kernel =
     \<lparr>k_attach = (\<lambda>prog hook.
        if take 4 prog = ''sys_'' \<and> drop (length prog - 6) prog \<noteq> ''execve''
        then Some ''ENOENT'' else None),
      k_detach = (\<lambda>_. None), k_lsm_btf = Some ''no BTF''\<rparr>"

definition plain_args :: Cli where
  "plain_args = \<lparr>cli_uid = 1000, cli_enable_lsm = True, cli_ring_buffer_size = 4194304,
     cli_enable_rich_sendfile = False\<rparr>"

lemma minimal_run_computed:
  "case attach_collectors minimal_kernel plain_args None new_bpf of (r, (bpf, report)) \<Rightarrow>
     bpf_tier2_bitmap bpf ! 59 = 1 \<and> ar_probes report = 11 \<and>
     key_true report ''exec.execve'' \<and>
     hd (bpf_trace bpf) = [''tty_read_probe'', ''tty_read_ret_probe'', ''tty_write_probe'',
       ''raw_sys_enter'', ''raw_sys_exit'', ''sys_enter_execve'', ''sys_exit_execve'',
       ''signal_generate'', ''sched_process_exit'', ''sched_process_fork'', ''sched_process_free''] \<and>
     bpf_trace bpf \<noteq> []"
  by code_simp

lemma minimal_run:
  obtains r bpf report where
    "attach_collectors minimal_kernel plain_args None new_bpf = (r, (bpf, report))"
    "bpf_tier2_bitmap bpf ! 59 = 1" "ar_probes report = 11"
    "key_true report ''exec.execve''"
    "[''tty_read_probe'', ''tty_read_ret_probe'', ''tty_write_probe'',
       ''raw_sys_enter'', ''raw_sys_exit'', ''sys_enter_execve'', ''sys_exit_execve'',
       ''signal_generate'', ''sched_process_exit'', ''sched_process_fork'', ''sched_process_free'']
       \<in> set (bpf_trace bpf)"
  using minimal_run_computed
  by (cases "attach_collectors minimal_kernel plain_args None new_bpf"; clarsimp)
    (metis hd_in_set)

section \<open>Properties\<close>

text \<open>
  C8: a syscall is taken out of the raw stream only while its rich collector is
  complete.  However the kernel answers the attachment attempts, and whether or
  not startup succeeds, every number set in the deduplication bitmap belongs to a
  Tier-2 syscall (or \<open>execve\<close>) whose enter and exit programs are both attached.
\<close>

theorem dedup_only_complete_collectors:
  assumes "attach_collectors k args tty new_bpf = (r, (bpf, report))"
    "nr < BITMAP_SIZE" "bpf_tier2_bitmap bpf ! nr \<noteq> 0"
  shows "\<exists>name. {''sys_enter_'' @ name, ''sys_exit_'' @ name} \<subseteq> set (bpf_live bpf) \<and>
    (name = ''execve'' \<and> nr = unat NR_EXECVE \<or>
     (\<exists>s\<in>set TIER2. t2_name s = name \<and> unat (t2_nr s) = nr \<and> t2_dedup s \<noteq> NoDedup))"
proof -
  have inv: "loader_inv (bpf, report)" using attach_collectors_inv[of k args tty] assms(1) by simp
  have "rich_capture (bpf_live bpf) nr"
    using inv assms(2,3) by (simp add: loader_inv_def bitmap_backed_def)
  moreover have "''sys_exit_'' @ name \<in> set (bpf_live bpf)"
    if "enter_program name \<in> set (bpf_live bpf)" for name
    using inv that unfolding loader_inv_def consumers_present_def exit_program_def by force
  ultimately show ?thesis unfolding rich_capture_def enter_program_def by blast
qed

theorem dedup_only_complete_collectors_witness:
  "\<exists>r bpf report.
     attach_collectors minimal_kernel plain_args None new_bpf = (r, (bpf, report)) \<and>
     bpf_tier2_bitmap bpf ! 59 \<noteq> 0 \<and>
     (\<exists>name. {''sys_enter_'' @ name, ''sys_exit_'' @ name} \<subseteq> set (bpf_live bpf) \<and>
       (name = ''execve'' \<and> 59 = unat NR_EXECVE \<or>
        (\<exists>s\<in>set TIER2. t2_name s = name \<and> unat (t2_nr s) = 59 \<and> t2_dedup s \<noteq> NoDedup)))"
proof (rule minimal_run)
  fix r bpf report
  assume run: "attach_collectors minimal_kernel plain_args None new_bpf = (r, (bpf, report))"
    and bit: "bpf_tier2_bitmap bpf ! 59 = 1"
  then have "bpf_tier2_bitmap bpf ! 59 \<noteq> 0" by simp
  with dedup_only_complete_collectors[OF run, of 59] run show ?thesis
    by (simp add: BITMAP_SIZE_def)
qed

text \<open>
  C9: no window in which an entry is captured and its return cannot be.  After
  every single attach and detach of the sequence, including the rollback of a
  failed pair, an attached syscall enter (raw enter, TTY read entry) program has
  its exit program attached; and the probe count of the readiness report is the
  number of attached programs at the end.
\<close>

theorem no_entry_without_return:
  assumes "attach_collectors k args tty new_bpf = (r, (bpf, report))"
    "live \<in> set (bpf_trace bpf)"
  shows "(''sys_enter_'' @ name \<in> set live \<longrightarrow> ''sys_exit_'' @ name \<in> set live) \<and>
    (''raw_sys_enter'' \<in> set live \<longrightarrow> ''raw_sys_exit'' \<in> set live) \<and>
    (''tty_read_probe'' \<in> set live \<longrightarrow> ''tty_read_ret_probe'' \<in> set live) \<and>
    ar_probes report = of_nat (length (bpf_live bpf))"
proof -
  have inv: "loader_inv (bpf, report)" using attach_collectors_inv[of k args tty] assms(1) by simp
  then have "consumers_present live" using assms(2) by (simp add: loader_inv_def list_all_iff)
  moreover have "ar_probes report = of_nat (length (bpf_live bpf))"
    using inv by (simp add: loader_inv_def report_honest_def)
  ultimately show ?thesis unfolding consumers_present_def enter_program_def exit_program_def by blast
qed

theorem no_entry_without_return_witness:
  "\<exists>r bpf report live.
     attach_collectors minimal_kernel plain_args None new_bpf = (r, (bpf, report)) \<and>
     live \<in> set (bpf_trace bpf) \<and> ''sys_enter_execve'' \<in> set live \<and>
     ''sys_exit_execve'' \<in> set live \<and> ar_probes report = of_nat (length (bpf_live bpf))"
proof (rule minimal_run)
  fix r bpf report
  assume run: "attach_collectors minimal_kernel plain_args None new_bpf = (r, (bpf, report))"
  let ?live = "[''tty_read_probe'', ''tty_read_ret_probe'', ''tty_write_probe'',
       ''raw_sys_enter'', ''raw_sys_exit'', ''sys_enter_execve'', ''sys_exit_execve'',
       ''signal_generate'', ''sched_process_exit'', ''sched_process_fork'', ''sched_process_free'']"
  assume live: "?live \<in> set (bpf_trace bpf)"
  have "''sys_enter_'' @ ''execve'' \<in> set ?live" by simp
  with no_entry_without_return[OF run live, of "''execve''"]
  have "''sys_exit_'' @ ''execve'' \<in> set ?live \<and> ar_probes report = of_nat (length (bpf_live bpf))"
    by blast
  then show ?thesis
    by (intro exI[of _ r] exI[of _ bpf] exI[of _ report] exI[of _ ?live])
      (use run live in simp)
qed

text \<open>
  Optional collectors never abort startup.  If the eight required hooks
  attach, \<open>attach_collectors\<close> succeeds whatever every other attachment does, and
  the bitmap writes never go out of range.
\<close>

theorem optional_failures_never_abort:
  assumes "\<forall>(prog, hook)\<in>set required_hooks. k_attach k prog hook = None"
  shows "fst (attach_collectors k args tty new_bpf) = Ok ()"
proof -
  obtain bits where c: "attach_collectors k args tty new_bpf =
      attach_sequence k args tty (new_bpf\<lparr>bpf_exclusion_bitmap := bits\<rparr>, default_report)"
    by (rule attach_collectors_new)
  have req: "k_attach k ''sched_process_free'' ''sched_process_free'' = None"
    "k_attach k ''sched_process_fork'' ''sched_process_fork'' = None"
    "k_attach k ''sched_process_exit'' ''sched_process_exit'' = None"
    "k_attach k ''signal_generate'' ''signal_generate'' = None"
    "k_attach k ''sys_exit_execve'' ''syscalls/sys_exit_execve'' = None"
    "k_attach k ''sys_enter_execve'' ''syscalls/sys_enter_execve'' = None"
    "k_attach k ''raw_sys_exit'' ''raw_syscalls/sys_exit'' = None"
    "k_attach k ''raw_sys_enter'' ''raw_syscalls/sys_enter'' = None"
    using assms by (simp_all add: required_hooks_def)
  have ret: "works (\<lambda>st. (Ok u, st))" for u :: 'u by (rule works_always) simp
  have life: "works (attach_lifecycle k)"
    unfolding attach_lifecycle_def
    by (intro works_required works_then works_attach keeps_attach req ret)
      (simp_all add: no_producer_def enter_program_def)
  have sig: "works (attach_signal k)"
    unfolding attach_signal_def
    by (intro works_required works_then works_attach keeps_attach req ret)
      (simp_all add: no_producer_def enter_program_def)
  have exe: "works (required ''exec.execve'' (attach_syscall_pair k ''execve'' ''execve''))"
    unfolding attach_syscall_pair_def attach_tracepoint_pair_def
    by (intro works_required works_pair) (simp_all add: enter_program_def exit_program_def req)
  have raw: "works (attach_raw_syscalls k)"
    unfolding attach_raw_syscalls_def attach_tracepoint_pair_def
    by (intro works_required works_pair) (simp_all add: req)
  have t2: "works (each_op (attach_tier2 k) (selected_tier2 args))"
    by (intro works_always each_op_ok) (simp add: attach_tier2_def forget_def)
  have tty: "works (attach_tty k tty)"
    by (intro works_always) (simp add: attach_tty_def forget_def case_prod_beta)
  have lsm: "works (attach_lsm_hooks k args)"
    by (intro works_always)
      (simp add: attach_lsm_hooks_def each_op_ok attach_lsm_hook_def case_prod_beta)
  have "works (attach_sequence k args tty)"
    unfolding attach_sequence_def
    by (intro works_then keeps_each keeps_all life sig exe raw t2 works_write_bitmap tty lsm works_forget)
  then have "is_ok (fst (attach_collectors k args tty new_bpf))"
    unfolding c works_def using populated_inv by blast
  then show ?thesis by (cases "fst (attach_collectors k args tty new_bpf)") auto
qed

theorem optional_failures_never_abort_witness:
  "fst (attach_collectors minimal_kernel plain_args None new_bpf) = Ok ()"
  by (rule optional_failures_never_abort) (simp add: required_hooks_def minimal_kernel_def)

end
