(* ===== verification/Daemon.thy ===== *)
theory Daemon
  imports Heartbeat Loader
begin

text \<open>
  The daemon around the sequencer: \<open>main.rs\<close> (main loop, shutdown drain, final
  accounting), \<open>consumer.rs\<close>, \<open>ready.rs\<close>, \<open>clock.rs\<close> and the ring buffer check
  of \<open>cli.rs\<close>.  The \<open>tokio::select!\<close> loops run over the list of the arms that
  fire; files, the clock and the reactor are arguments.
\<close>

section \<open>Clock\<close>

text \<open>
  \<open>monotonic_now_ns\<close> on the status and the \<open>timespec\<close> that \<open>clock_gettime\<close> returns;
  an error is a panic.
\<close>

definition checked_mul :: "64 word \<Rightarrow> 64 word \<Rightarrow> 64 word option" where
  "checked_mul a b = (if unat a * unat b < 2 ^ 64 then Some (a * b) else None)"

definition checked_add :: "64 word \<Rightarrow> 64 word \<Rightarrow> 64 word option" where
  "checked_add a b = (if unat a + unat b < 2 ^ 64 then Some (a + b) else None)"

definition monotonic_now_ns :: "32 word \<Rightarrow> 64 word \<Rightarrow> 64 word \<Rightarrow> string + 64 word" where
  "monotonic_now_ns rc tv_sec tv_nsec =
     (if rc \<noteq> 0 then Err ''clock_gettime(CLOCK_MONOTONIC) failed''
      else if sint tv_sec < 0 then Err ''CLOCK_MONOTONIC returned negative seconds''
      else if sint tv_nsec < 0 then Err ''CLOCK_MONOTONIC returned negative nanoseconds''
      else (case Option.bind (checked_mul tv_sec 1000000000) (\<lambda>base. checked_add base tv_nsec) of
              None \<Rightarrow> Err ''CLOCK_MONOTONIC nanoseconds overflowed u64''
            | Some ns \<Rightarrow> Ok ns))"

section \<open>Command line\<close>

definition is_power_of_two :: "32 word \<Rightarrow> bool" where
  "is_power_of_two w \<longleftrightarrow> list_ex (\<lambda>n. w = 2 ^ n) [0..<32]"

definition validate_ring_buffer_size :: "32 word \<Rightarrow> 64 word \<Rightarrow> string + unit" where
  "validate_ring_buffer_size bytes page_size =
     (if is_power_of_two bytes \<and> page_size \<le> ucast bytes then Ok ()
      else Err (''invalid --ring-buffer-size '' @ decimal (unat bytes)))"

section \<open>Readiness\<close>

record StartupFacts =
  sf_boot_id :: string
  sf_auid :: "32 word"
  sf_daemon_pid :: "32 word"
  sf_heartbeat_interval_ms :: "32 word"

definition is_ascii_hexdigit :: "char \<Rightarrow> bool" where
  "is_ascii_hexdigit c \<longleftrightarrow>
     (let b = of_char c :: nat in 48 \<le> b \<and> b \<le> 57 \<or> 65 \<le> b \<and> b \<le> 70 \<or> 97 \<le> b \<and> b \<le> 102)"

definition boot_id :: "string + string \<Rightarrow> string + string" where
  "boot_id file = and_then file (\<lambda>text.
     let value = trim text in
     if length value = 36 \<and>
        list_all (\<lambda>(i, b). if i \<in> set [8, 13, 18, 23] then b = CHR ''-'' else is_ascii_hexdigit b)
          (enumerate 0 value)
     then Ok value else Err ''invalid kernel boot ID'')"

text \<open>\<open>nsfs_dev_of\<close>: whether the file opens, \<open>fstatfs\<close>'s status and type, the device.\<close>

definition NSFS_MAGIC :: "64 word" where "NSFS_MAGIC = 0x6e736673"

definition nsfs_dev_of :: "bool \<Rightarrow> 32 word \<Rightarrow> 64 word \<Rightarrow> 64 word option \<Rightarrow> 64 word option" where
  "nsfs_dev_of opened rc f_type metadata_dev =
     (if \<not> opened then None
      else if rc \<noteq> 0 \<or> f_type \<noteq> NSFS_MAGIC then None
      else metadata_dev)"

definition ready_event ::
  "64 word \<Rightarrow> AttachReport \<Rightarrow> 32 word \<Rightarrow> 64 word option \<Rightarrow> StartupFacts \<Rightarrow> BehaviorEvent" where
  "ready_event now report ring_buffer_size nsfs_dev facts =
     \<lparr>be_header = synthetic_header now,
      be_event = \<lparr>et_type = ''META'', et_name = ''bloodhound_ready'', et_layer = ''behavior''\<rparr>,
      be_proc = None,
      be_args = Some (JObj [(''probes_attached'', junum (ar_probes report)),
        (''attached'', JObj (map (\<lambda>(k, v). (k, JBool v)) (ar_keys report))),
        (''boot_id'', JStr (sf_boot_id facts)), (''auid'', junum (sf_auid facts)),
        (''excluded'', JArr [junum (sf_daemon_pid facts)]),
        (''heartbeat_interval_ms'', junum (sf_heartbeat_interval_ms facts)),
        (''ring_buffer_size'', junum ring_buffer_size),
        (''nsfs_dev'', case nsfs_dev of None \<Rightarrow> JNull | Some d \<Rightarrow> junum d)]),
      be_return_code = None\<rparr>"

section \<open>Ring buffer consumer\<close>

text \<open>
  \<open>consume_ring_buffer\<close>: the records found at each drain, the reactor's wake-ups
  between the drains, and how many sends succeed before the receiver is gone
  (\<open>None\<close> when it stays).  The result is what was admitted and the task's return
  value, \<open>None\<close> while it is still waiting.
\<close>

datatype ring_wake = Readable "bytes list" | ReadyError string | ShutdownSignal "bytes list"

definition send_batch :: "nat option \<Rightarrow> bytes list \<Rightarrow> SequencedInput list \<times> bool \<times> nat option" where
  "send_batch room batch = (case room of
       None \<Rightarrow> (map Raw batch, True, None)
     | Some n \<Rightarrow> (map Raw (take n batch), length batch \<le> n, Some (n - length batch)))"

fun consume_ring_buffer ::
  "nat option \<Rightarrow> bytes list \<Rightarrow> ring_wake list \<Rightarrow> SequencedInput list \<times> (string + unit) option" where
  "consume_ring_buffer room batch wakes =
     (case send_batch room batch of (sent, ok, room') \<Rightarrow>
       if \<not> ok then (sent, Some (Ok ()))
       else (case wakes of
           [] \<Rightarrow> (sent, None)
         | Readable next_batch # ws \<Rightarrow>
             (case consume_ring_buffer room' next_batch ws of (later, r) \<Rightarrow> (sent @ later, r))
         | ReadyError m # ws \<Rightarrow> (sent, Some (Err m))
         | ShutdownSignal final_batch # ws \<Rightarrow>
             (case send_batch room' final_batch of (later, _, _) \<Rightarrow> (sent @ later, Some (Ok ())))))"

declare consume_ring_buffer.simps [simp del]

section \<open>Main loop and shutdown\<close>

datatype main_wake = Received "SequencedInput option" | ConsumerDone "string + unit" | Shutdown

fun main_loop ::
  "Env \<Rightarrow> main_wake list \<Rightarrow> Sequencer \<Rightarrow> (string + unit) option \<times> Sequencer" where
  "main_loop env [] sq = (None, sq)"
| "main_loop env (Received (Some i) # ws) sq = (case accept env i sq of
       (Inl m, sq') \<Rightarrow> (Some (Err m), sq')
     | (Inr _, sq') \<Rightarrow> main_loop env ws sq')"
| "main_loop env (Received None # ws) sq =
     (Some (Err ''bounded event sequencer closed unexpectedly''), sq)"
| "main_loop env (ConsumerDone r # ws) sq =
     (Some (and_then r (\<lambda>_. Err ''ring buffer consumer exited unexpectedly'')), sq)"
| "main_loop env (Shutdown # ws) sq = (Some (Ok ()), sq)"

text \<open>
  \<open>drain_until_closed\<close>: an arm whose guard is off does not fire, so its wake-up is
  skipped.  The result is \<open>None\<close> while the loop is still waiting.
\<close>

datatype 't drain_wake = Recv "SequencedInput option" | Joined "string + 't" | Deadline

fun drain_loop ::
  "Env \<Rightarrow> 't drain_wake list \<Rightarrow> bool \<Rightarrow> 't option \<Rightarrow> Sequencer \<Rightarrow> (string + 't) option \<times> Sequencer" where
  "drain_loop env wakes closed joined sq =
     (case (if closed then joined else None) of
         Some x \<Rightarrow> (Some (Ok x), sq)
       | None \<Rightarrow>
           (case wakes of
               [] \<Rightarrow> (None, sq)
             | Recv inp # ws \<Rightarrow>
                 if closed then drain_loop env ws closed joined sq
                 else (case inp of
                     None \<Rightarrow> drain_loop env ws True joined sq
                   | Some i \<Rightarrow> (case accept env i sq of
                       (Inl m, sq') \<Rightarrow> (Some (Err m), sq')
                     | (Inr _, sq') \<Rightarrow> drain_loop env ws closed joined sq'))
             | Joined r # ws \<Rightarrow>
                 if joined \<noteq> None then drain_loop env ws closed joined sq
                 else (case r of
                     Inl m \<Rightarrow> (Some (Err m), sq)
                   | Inr x \<Rightarrow> drain_loop env ws closed (Some x) sq)
             | Deadline # ws \<Rightarrow>
                 (Some (Err ''incomplete shutdown: bounded event sequencer did not drain within 5 seconds''),
                  sq)))"

declare drain_loop.simps [simp del]

definition drain_until_closed ::
  "Env \<Rightarrow> 't drain_wake list \<Rightarrow> Sequencer \<Rightarrow> (string + 't) option \<times> Sequencer" where
  "drain_until_closed env wakes sq = drain_loop env wakes False None sq"

text \<open>\<open>finish_output\<close> with the outcome of the final read and of the flush.\<close>

definition finish_output ::
  "Env \<Rightarrow> string + 64 word \<Rightarrow> Cursor option \<Rightarrow> string option \<Rightarrow> Sequencer \<Rightarrow>
     (string + unit) \<times> Sequencer" where
  "finish_output env read_total cursor flush_error sq =
     (case read_total of
         Inl m \<Rightarrow> (Err (''reading final BPF drop count: '' @ m), sq)
       | Inr t \<Rightarrow>
           (case (case cursor of
                   None \<Rightarrow> (Ok (), sq)
                 | Some c \<Rightarrow> accept env (Synthesized (build_heartbeat (env_now env (sq_calls sq))
                     (saturating_sub t (cu_drops c)) t
                     (saturating_sub (sq_events_emitted sq) (cu_emitted c)))) sq) of
               (Inl m, sq') \<Rightarrow> (Err m, sq')
             | (Inr _, sq') \<Rightarrow>
                 (case flush_error of None \<Rightarrow> (Ok (), sq') | Some m \<Rightarrow> (Err m, sq'))))"

section \<open>Facts\<close>

text \<open>The inputs a drain takes from the channel before it closes.\<close>

fun received :: "'t drain_wake list \<Rightarrow> SequencedInput list" where
  "received [] = []"
| "received (Recv None # ws) = []"
| "received (Recv (Some i) # ws) = i # received ws"
| "received (_ # ws) = received ws"

lemma drain_loop_closed:
  "drain_loop env ws True j sq = (Some (Ok x), sq') \<Longrightarrow>
     sq' = sq \<and> (j = Some x \<or> Joined (Ok x) \<in> set ws)"
proof (induction ws arbitrary: j)
  case Nil
  then show ?case by (cases j) (simp_all add: drain_loop.simps)
next
  case (Cons w ws)
  show ?case
  proof (cases j)
    case None
    then show ?thesis using Cons
      by (cases w) (auto simp: drain_loop.simps[of env "_ # _"] split: sum.splits)
  qed (use Cons.prems in \<open>simp add: drain_loop.simps\<close>)
qed

lemma drain_loop_result:
  "drain_loop env ws False j sq = (Some (Ok x), sq') \<Longrightarrow>
     accept_all env (received ws) sq = (Ok (), sq') \<and> Recv None \<in> set ws \<and>
     (j = Some x \<or> Joined (Ok x) \<in> set ws)"
proof (induction ws arbitrary: j sq)
  case (Cons w ws)
  note step = Cons.prems[unfolded drain_loop.simps[of env "_ # _"]]
  show ?case
  proof (cases w)
    case (Recv inp)
    show ?thesis
    proof (cases inp)
      case None
      with step Recv drain_loop_closed[of env ws j sq x sq'] show ?thesis by auto
    next
      case (Some i)
      with step Recv Cons.IH[of j] show ?thesis
        by (auto split: prod.splits sum.splits)
    qed
  next
    case (Joined r)
    with step Cons.IH[of j] Cons.IH[of "Some _"] show ?thesis
      by (cases r; cases j) auto
  next
    case Deadline
    with step show ?thesis by simp
  qed
qed (simp add: drain_loop.simps)

lemma accept_synthesized_ok:
  "accept env (Synthesized e) sq = (Ok u, sq') \<Longrightarrow>
     sq_written sq' = sq_written sq @ event_line env e \<and>
     sq_events_emitted sq' = sq_events_emitted sq + 1"
  using sq_write_wrote[of env e sq "Ok u" sq']
  by (simp add: accept_def wrote_ok lines_text_def)

lemma uint_saturating_sub: "uint (saturating_sub a b) = max 0 (uint a - uint b)"
  for a b :: "'a::len word"
  by (simp add: saturating_sub_def word_le_def uint_sub_if' max_def split: if_splits)

lemma send_batch_all [simp]: "send_batch None batch = (map Raw batch, True, None)"
  by (simp add: send_batch_def)

text \<open>The records a consumer finds, up to the final drain.\<close>

fun found :: "ring_wake list \<Rightarrow> bytes list" where
  "found [] = []"
| "found (Readable b # ws) = b @ found ws"
| "found (ReadyError m # ws) = []"
| "found (ShutdownSignal b # ws) = b"

lemmas consume_steps =
  consume_ring_buffer.simps[of _ _ "[]"] consume_ring_buffer.simps[of _ _ "Readable b # ws" for b ws]
  consume_ring_buffer.simps[of _ _ "ReadyError m # ws" for m ws]
  consume_ring_buffer.simps[of _ _ "ShutdownSignal b # ws" for b ws]

lemma consume_all:
  "fst (consume_ring_buffer None batch ws) = map Raw (batch @ found ws)"
  by (induction ws arbitrary: batch rule: found.induct)
    (simp_all add: consume_steps case_prod_beta)

lemma consume_prefix:
  "fst (consume_ring_buffer (Some k) batch ws) = take k (map Raw (batch @ found ws))"
  by (induction ws arbitrary: k batch rule: found.induct)
    (simp_all add: consume_steps send_batch_def case_prod_beta take_map)

lemma sint_nonneg_uint:
  fixes w :: "64 word"
  assumes "0 \<le> sint w"
  shows "sint w = uint w"
proof -
  have "uint w = uint (word_of_int (sint w) :: 64 word)" by simp
  also have "\<dots> = sint w mod 2 ^ 64" by (simp only: uint_word_of_int) simp
  also have "\<dots> = sint w" using assms sint_lt[of w] by simp
  finally show ?thesis ..
qed

lemma checked_ns:
  "Option.bind (checked_mul sec 1000000000) (\<lambda>base. checked_add base nsec) = Some ns \<longleftrightarrow>
     uint ns = uint sec * 10 ^ 9 + uint nsec"
proof -
  have "unat (sec * 1000000000) = unat sec * 1000000000"
    if "unat sec * 1000000000 < 2 ^ 64" using that by (simp add: unat_word_ariths)
  moreover have "unat (b + nsec) = unat b + unat nsec" if "unat b + unat nsec < 2 ^ 64" for b
    using that by (simp add: unat_word_ariths)
  moreover have "unat ns < 2 ^ 64" using unsigned_less[of ns, where 'a = nat] by simp
  ultimately have "Option.bind (checked_mul sec 1000000000) (\<lambda>base. checked_add base nsec) = Some ns
      \<longleftrightarrow> unat ns = unat sec * 1000000000 + unat nsec"
    by (auto simp: checked_mul_def checked_add_def word_unat_eq_iff)
  also have "\<dots> \<longleftrightarrow> int (unat ns) = int (unat sec * 1000000000 + unat nsec)"
    by (rule of_nat_eq_iff[symmetric])
  also have "\<dots> \<longleftrightarrow> uint ns = uint sec * 10 ^ 9 + uint nsec"
    by (simp only: of_nat_add of_nat_mult uint_nat[symmetric]) simp
  finally show ?thesis .
qed

section \<open>Properties\<close>

text \<open>
  C5: the accounting of a run closes.  If the heartbeat task stopped with a
  cursor, the sampled counters never decreased, and \<open>finish_output\<close> succeeds, then
  exactly one more line was written, a heartbeat \<open>h\<close>, such that the
  \<open>drop_count_delta\<close>s of all heartbeats of the run sum to the final drop total and
  their \<open>events_emitted_delta\<close>s to the number of events written before \<open>h\<close>, with
  \<open>gap_detected\<close> on \<open>h\<close> exactly when drops happened since the last heartbeat.
\<close>

theorem shutdown_accounting:
  assumes run: "run_heartbeat interval ws = (hs, Some c)"
    and mono: "sorted (0 # map fst (admitted ws))" "sorted (0 # map snd (admitted ws))"
    and later: "cu_drops c \<le> t" "cu_emitted c \<le> sq_events_emitted sq"
    and fin: "finish_output env (Ok t) (Some c) None sq = (Ok (), sq')"
  shows "\<exists>h. sq_written sq' = sq_written sq @ event_line env h \<and>
    sum_list (map (event_num ''drop_count_delta'') (hs @ [h])) = uint t \<and>
    sum_list (map (event_num ''events_emitted_delta'') (hs @ [h])) = uint (sq_events_emitted sq) \<and>
    (event_has ''gap_detected'' h \<longleftrightarrow> cu_drops c < t)"
proof -
  let ?d = "saturating_sub t (cu_drops c)"
  let ?m = "saturating_sub (sq_events_emitted sq) (cu_emitted c)"
  let ?h = "build_heartbeat (env_now env (sq_calls sq)) ?d t ?m"
  have "accept env (Synthesized ?h) sq = (Ok (), sq')"
    using fin by (auto simp: finish_output_def split: prod.splits sum.splits)
  then have w: "sq_written sq' = sq_written sq @ event_line env ?h"
    using accept_synthesized_ok by blast
  have "uint ?d = uint t - uint (cu_drops c)"
    "uint ?m = uint (sq_events_emitted sq) - uint (cu_emitted c)"
    using later by (simp_all add: uint_saturating_sub word_le_def)
  moreover have "sum_list (map (event_num ''drop_count_delta'') hs) = uint (cu_drops c)"
    "sum_list (map (event_num ''events_emitted_delta'') hs) = uint (cu_emitted c)"
    using heartbeat_sums[OF run mono] by simp_all
  moreover have "0 < ?d \<longleftrightarrow> cu_drops c < t"
    using calculation(1) by (simp add: word_less_def)
  ultimately show ?thesis using w by (intro exI[of _ ?h]) simp
qed

theorem shutdown_accounting_witness:
  "\<exists>hs c sq' h.
     run_heartbeat 1 [Tick 5 (3, 1) Sent, Stop] = (hs, Some c) \<and>
     finish_output quiet_env (Ok 8) (Some c) None (new_sequencer\<lparr>sq_events_emitted := 4\<rparr>)
       = (Ok (), sq') \<and>
     sq_written sq' = event_line quiet_env h \<and>
     sum_list (map (event_num ''drop_count_delta'') (hs @ [h])) = 8 \<and>
     sum_list (map (event_num ''events_emitted_delta'') (hs @ [h])) = 4"
proof -
  let ?sq = "new_sequencer\<lparr>sq_events_emitted := 4\<rparr>"
  obtain hs c where run: "run_heartbeat 1 [Tick 5 (3, 1) Sent, Stop] = (hs, Some c)"
    and c: "c = \<lparr>cu_drops = 3, cu_emitted = 1\<rparr>"
    by (simp add: run_heartbeat_def advance_def)
  obtain sq' where fin: "finish_output quiet_env (Ok 8) (Some c) None ?sq = (Ok (), sq')"
    by (simp add: finish_output_def accept_def sq_write_def write_event_def quiet_env_def)
  have "cu_drops c \<le> 8" "cu_emitted c \<le> sq_events_emitted ?sq" by (simp_all add: c)
  from shutdown_accounting[OF run _ _ this fin] run fin show ?thesis
    by (auto simp: new_sequencer_def)
qed

text \<open>
  C30: a successful drain is complete.  \<open>drain_until_closed\<close> returns the producers'
  result only after the channel closed and the producers joined, and by then every
  input received before the close has been accepted, in order and without error.
\<close>

theorem drain_is_complete:
  assumes "drain_until_closed env ws sq = (Some (Ok x), sq')"
  shows "accept_all env (received ws) sq = (Ok (), sq') \<and>
    Recv None \<in> set ws \<and> Joined (Ok x) \<in> set ws"
  using drain_loop_result[of env ws None sq x sq'] assms by (simp add: drain_until_closed_def)

theorem drain_is_complete_witness:
  "\<exists>sq'. drain_until_closed quiet_env
       [Recv (Some (Raw [])), Joined (Ok True), Recv (Some (Raw [225])), Recv None] new_sequencer
       = (Some (Ok True), sq') \<and>
     accept_all quiet_env [Raw [], Raw [225]] new_sequencer = (Ok (), sq')"
proof -
  let ?ws = "[Recv (Some (Raw [])), Joined (Ok True), Recv (Some (Raw [225])), Recv None]"
  have rejected: "from_u8 225 = None" by (rule reserved_unknown) (simp add: EventKind_RESERVED_def)
  obtain sq' where run: "drain_until_closed quiet_env ?ws new_sequencer = (Some (Ok True), sq')"
    by (simp add: drain_until_closed_def drain_loop.simps accept_def accept_raw_def Let_def
        deserialize_with_authority_def rejected sq_write_def write_event_def quiet_env_def
        new_sequencer_def)
  from drain_is_complete[OF run] run show ?thesis by auto
qed

text \<open>
  C31: readiness is honest.  After startup, \<open>attached\<close> in the \<open>bloodhound_ready\<close>
  event says \<open>true\<close> for \<open>tier2.<name>\<close> or \<open>exec.<name>\<close> only if both hooks of that
  syscall are attached, and \<open>probes_attached\<close> is the number of attached programs.
\<close>

definition ready_says :: "BehaviorEvent \<Rightarrow> string \<Rightarrow> bool" where
  "ready_says e key \<longleftrightarrow>
     Option.bind (Option.bind (be_args e) (\<lambda>a. jget a ''attached'')) (\<lambda>a. jget a key) = Some (JBool True)"

lemma ready_says_key: "ready_says (ready_event now report rb dev facts) key \<longleftrightarrow> key_true report key"
  by (cases "map_of (ar_keys report) key")
    (simp_all add: ready_says_def ready_event_def key_true_def map_of_map)



text \<open>
  The consumer admits the records of the ring in order, through its last drain
  after the shutdown signal: all of them, or as many as the receiver took before it
  was dropped.
\<close>

theorem consumer_admits_in_order:
  "fst (consume_ring_buffer room batch ws) =
     (case room of None \<Rightarrow> map Raw (batch @ found ws) | Some n \<Rightarrow> take n (map Raw (batch @ found ws)))"
  using consume_all[of batch ws] consume_prefix[of _ batch ws] by (cases room) simp_all

text \<open>
  The clock never lies.  A returned timestamp is exactly \<open>tv_sec * 10^9 + tv_nsec\<close>
  of a successful, non-negative reading; every other reading, overflow included, panics.
\<close>

theorem monotonic_clock_exact:
  "monotonic_now_ns rc tv_sec tv_nsec = Ok ns \<longleftrightarrow>
     rc = 0 \<and> 0 \<le> sint tv_sec \<and> 0 \<le> sint tv_nsec \<and>
     uint ns = sint tv_sec * 10 ^ 9 + sint tv_nsec"
  using checked_ns[of tv_sec tv_nsec ns] sint_nonneg_uint[of tv_sec] sint_nonneg_uint[of tv_nsec]
  by (auto simp: monotonic_now_ns_def split: option.splits)

end
