(* ===== verification/BpfCore.thy ===== *)
theory BpfCore
  imports Common Wire EventKinds
begin

text \<open>
  What the BPF programs share: the globals of \<open>bloodhound-ebpf/src/main.rs\<close>, the
  maps of \<open>maps.rs\<close>, the task filter and headers of \<open>filter.rs\<close>, the namespace
  snapshot of \<open>ns.rs\<close> and the emission helpers of \<open>helpers.rs\<close>.

  A program runs at one hook.  What the kernel lets it see there is a \<open>Hook\<close>: the
  current task, the memory that \<open>bpf_probe_read_*\<close> returns, the arguments of the
  hook, and the outcome of every helper that may fail.  The maps are the state.
  The programs run to completion on their CPU, so a handler is a function from
  maps to maps, and a history of the system is a sequence of handler calls.
\<close>

section \<open>Globals, hooks and maps\<close>

record Globals =
  TARGET_AUID :: "32 word"
  DAEMON_PID :: "32 word"
  OFF_LOGINUID :: "32 word"
  OFF_SESSIONID :: "32 word"
  OFF_TGID :: "32 word"
  OFF_PID :: "32 word"
  OFF_GROUP_LEADER :: "32 word"
  OFF_START_BOOTTIME :: "32 word"
  OFF_SIGNAL :: "32 word"
  OFF_EXIT_CODE :: "32 word"
  OFF_COMM :: "32 word"
  OFF_SIGNAL_LIVE :: "32 word"
  OFF_SIGNAL_GROUP_EXIT_CODE :: "32 word"
  OFF_EXEC_VIEW :: "32 word list"
  EXEC_VIEW_SUPPORTED :: "32 word"
  OFF_FD_IDENT :: "32 word list"
  FD_IDENT_SUPPORTED :: "32 word"
  OFF_TTY :: "32 word list"
  TTY_SUPPORTED :: "32 word"
  OFF_NS :: "32 word list"
  NS_SUPPORTED :: "32 word"

text \<open>
  The kernel's side of one hook invocation.  \<open>k_now\<close> is the clock when the header
  of the given kind is filled; \<open>k_kmem\<close> and \<open>k_umem\<close> are the probe reads of an
  address and a size; \<open>k_ustr\<close> is \<open>bpf_probe_read_user_str_bytes\<close> with the size of
  the destination, its result without the terminating NUL; \<open>k_ctx\<close> is
  \<open>TracePointContext::read_at\<close>; \<open>k_percpu\<close> says whether a per-CPU slot exists;
  \<open>k_update_error\<close> and \<open>k_delete_error\<close> are failures of map operations other than
  an existing or a missing key; \<open>k_copy\<close> is the outcome of a copy between map
  values, by call site and iteration; \<open>k_kmem_later\<close> is kernel memory at the second
  look that \<open>exec_view.rs\<close> takes; \<open>k_ring\<close> is whether the ring takes a record; \<open>k_pad\<close> is
  what struct padding holds.
\<close>

record Hook =
  k_now :: "byte \<Rightarrow> 64 word"
  k_task :: "64 word"
  k_pid_tgid :: "64 word"
  k_comm :: "bytes option"
  k_kmem :: "64 word \<Rightarrow> nat \<Rightarrow> bytes option"
  k_kmem_later :: "64 word \<Rightarrow> nat \<Rightarrow> bytes option"
  k_umem :: "64 word \<Rightarrow> nat \<Rightarrow> bytes option"
  k_ustr :: "64 word \<Rightarrow> nat \<Rightarrow> bytes option"
  k_ctx :: "nat \<Rightarrow> nat \<Rightarrow> bytes option"
  k_raw_arg :: "nat \<Rightarrow> 64 word"
  k_probe_arg :: "nat \<Rightarrow> 64 word option"
  k_ret :: "64 word option"
  k_percpu :: "string \<Rightarrow> nat \<Rightarrow> bool"
  k_update_error :: "string \<Rightarrow> int option"
  k_delete_error :: "string \<Rightarrow> int option"
  k_copy :: "string \<Rightarrow> nat \<Rightarrow> bool"
  k_ring :: "bytes \<Rightarrow> bool"
  k_pad :: "nat \<Rightarrow> byte"

record SyscallEntry =
  se_header :: EventHeader
  se_syscall_nr :: "64 word"
  se_args :: "64 word list"

record RichSyscallEntry =
  re_header :: EventHeader
  re_data :: bytes
  re_data_len :: "16 word"

record ExecveEntry =
  xe_header :: EventHeader
  xe_filename_len :: "16 word"
  xe_argv_len :: "16 word"
  xe_filename_buf :: bytes
  xe_argv_buf :: bytes

record OpenatEntry =
  oe_header :: EventHeader
  oe_flags :: "32 word"
  oe_mode :: "32 word"
  oe_filename_len :: "16 word"
  oe_capture_flags :: byte
  oe_dirfd :: "32 word"
  oe_filename :: bytes

record PathEntry =
  pe_header :: EventHeader
  pe_path1_len :: "16 word"
  pe_path2_len :: "16 word"
  pe_path1 :: bytes
  pe_path2 :: bytes

record TtyReadEntry =
  tr_buf_ptr :: "64 word"
  tr_count :: "64 word"

datatype failures = OPENAT_FAILURES | EXEC_FAILURES | SYSCALL_FAILURES | RAW_SYSCALL_FAILURES
  | TTY_FAILURES | EXIT_FAILURES

record Maps =
  EVENTS :: "bytes list"
  DROP_COUNT :: "64 word"
  FAILURES :: "failures \<Rightarrow> nat \<Rightarrow> 64 word"
  EXECVE_ENTRY_MAP :: "64 word \<rightharpoonup> ExecveEntry"
  SYSCALL_ENTRY_MAP :: "64 word \<rightharpoonup> SyscallEntry"
  RICH_ENTRY_MAP :: "64 word \<rightharpoonup> RichSyscallEntry"
  PATH_ENTRY_MAP :: "64 word \<rightharpoonup> PathEntry"
  OPENAT_ENTRY_MAP :: "64 word \<rightharpoonup> OpenatEntry"
  TTY_READ_ENTRY_MAP :: "64 word \<rightharpoonup> TtyReadEntry"
  EXIT_CLAIMS :: "ExitClaimKey \<rightharpoonup> byte"
  SCRATCH_BUF :: "nat \<Rightarrow> bytes"
  ASSEMBLY_BUF :: bytes
  SYSCALL_TMP_BUF :: RichSyscallEntry
  EXECVE_TMP_BUF :: ExecveEntry
  OPENAT_TMP_BUF :: OpenatEntry
  PATH_TMP_BUF :: PathEntry
  EXCLUSION_BITMAP :: "32 word list"
  TIER2_BITMAP :: "32 word list"

text \<open>The result of the fallible part of a program: an error code or unit, and the maps.\<close>

type_synonym outcome = "(int + unit) \<times> Maps"

section \<open>Map operations\<close>

text \<open>BPF hash maps: \<open>-EEXIST\<close> is -17 and \<open>-ENOENT\<close> is -2.\<close>

definition hash_insert ::
  "int option \<Rightarrow> ('k \<rightharpoonup> 'v) \<Rightarrow> 'k \<Rightarrow> 'v \<Rightarrow> map_result \<times> ('k \<rightharpoonup> 'v)" where
  "hash_insert err m k v = (case err of None \<Rightarrow> (Ok (), m(k \<mapsto> v)) | Some e \<Rightarrow> (Err e, m))"

definition hash_insert_noexist ::
  "int option \<Rightarrow> ('k \<rightharpoonup> 'v) \<Rightarrow> 'k \<Rightarrow> 'v \<Rightarrow> map_result \<times> ('k \<rightharpoonup> 'v)" where
  "hash_insert_noexist err m k v =
     (if m k \<noteq> None then (Err (- 17), m) else hash_insert err m k v)"

definition hash_remove :: "int option \<Rightarrow> ('k \<rightharpoonup> 'v) \<Rightarrow> 'k \<Rightarrow> map_result \<times> ('k \<rightharpoonup> 'v)" where
  "hash_remove err m k =
     (if m k = None then (Err (- 2), m)
      else (case err of None \<Rightarrow> (Ok (), m(k := None)) | Some e \<Rightarrow> (Err e, m)))"

text \<open>Loss counters.\<close>

definition failure :: "failures \<Rightarrow> nat \<Rightarrow> Maps \<Rightarrow> Maps" where
  "failure f reason m =
     m\<lparr>FAILURES := (FAILURES m)(f := (FAILURES m f)(reason := FAILURES m f reason + 1))\<rparr>"

definition count_outcome :: "failures \<Rightarrow> nat option \<Rightarrow> Maps \<Rightarrow> Maps" where
  "count_outcome f reason m = (case reason of None \<Rightarrow> m | Some r \<Rightarrow> failure f r m)"

text \<open>\<open>syscall_save\<close>, \<open>raw_syscall_save\<close>, \<open>tty_save\<close> and their cleanup twins.\<close>

definition save_in :: "failures \<Rightarrow> map_result \<Rightarrow> Maps \<Rightarrow> Maps" where
  "save_in f result m = count_outcome f (save_outcome result) m"

definition cleanup_in :: "failures \<Rightarrow> map_result \<Rightarrow> Maps \<Rightarrow> Maps" where
  "cleanup_in f result m = count_outcome f (cleanup_outcome result) m"

section \<open>Emission\<close>

definition increment_drop_count :: "Maps \<Rightarrow> Maps" where
  "increment_drop_count m = m\<lparr>DROP_COUNT := DROP_COUNT m + 1\<rparr>"

definition emit_event :: "Hook \<Rightarrow> bytes \<Rightarrow> Maps \<Rightarrow> Maps" where
  "emit_event h data m =
     (if data = [] then m
      else if k_ring h data then m\<lparr>EVENTS := EVENTS m @ [data]\<rparr>
      else increment_drop_count m)"

text \<open>\<open>emit_fixed\<close>: a header and the bytes of a payload (none for \<open>None\<close>).\<close>

definition emit_fixed :: "Hook \<Rightarrow> EventHeader \<Rightarrow> bytes \<Rightarrow> Maps \<Rightarrow> Maps" where
  "emit_fixed h header payload m = emit_event h (EventHeader_bytes (k_pad h) header @ payload) m"

text \<open>Stores into a buffer of fixed size, as \<open>copy_nonoverlapping\<close> and the probe reads do them.\<close>

definition write_at :: "nat \<Rightarrow> bytes \<Rightarrow> bytes \<Rightarrow> bytes" where
  "write_at off data buf = take off buf @ data @ drop (off + length data) buf"

lemma length_write_at [simp]:
  "off + length data \<le> length buf \<Longrightarrow> length (write_at off data buf) = length buf"
  by (simp add: write_at_def)

lemma take_write_at:
  "off + length data \<le> length buf \<Longrightarrow> take (off + length data) (write_at off data buf) = take off buf @ data"
  by (simp add: write_at_def)

lemma take_write_at_below:
  "off \<le> length buf \<Longrightarrow> n \<le> off \<Longrightarrow> take n (write_at off data buf) = take n buf"
  by (simp add: write_at_def min_def)

lemma drop_write_at:
  "off + length data \<le> n \<Longrightarrow> off \<le> length buf \<Longrightarrow> drop n (write_at off data buf) = drop n buf"
  by (simp add: write_at_def min_def)

definition read_user_str :: "Hook \<Rightarrow> 64 word \<Rightarrow> bytes \<Rightarrow> (16 word \<times> CaptureStatus) \<times> bytes" where
  "read_user_str h src buf =
     (case k_ustr h src MAX_PATH_SIZE of
         Some s \<Rightarrow>
           ((of_nat (length s),
             if length s < MAX_PATH_SIZE - 1 then Complete else Truncated),
            s @ [0] @ drop (length s + 1) buf)
       | None \<Rightarrow> ((0, ReadError), replicate (length buf) 0))"

section \<open>Reading tasks\<close>

definition read_k32 :: "Hook \<Rightarrow> 64 word \<Rightarrow> 32 word option" where
  "read_k32 h a = map_option le_word (k_kmem h a 4)"

definition read_k64 :: "Hook \<Rightarrow> 64 word \<Rightarrow> 64 word option" where
  "read_k64 h a = map_option le_word (k_kmem h a 8)"

record KernelProcessRef =
  kpr_tgid :: "32 word"
  kpr_start_boottime_ns :: "64 word"
  kpr_group_leader :: "64 word"

definition process_ref_from_task :: "Globals \<Rightarrow> Hook \<Rightarrow> 64 word \<Rightarrow> KernelProcessRef option" where
  "process_ref_from_task g h task =
     (if task = 0 then None
      else (case read_k64 h (task + ucast (OFF_GROUP_LEADER g)) of
          None \<Rightarrow> None
        | Some leader \<Rightarrow>
            if leader = 0 then None
            else Option.bind (read_k32 h (leader + ucast (OFF_TGID g))) (\<lambda>tgid.
              Option.bind (read_k64 h (leader + ucast (OFF_START_BOOTTIME g))) (\<lambda>start.
                if tgid = 0 \<or> start = 0 then None
                else Some \<lparr>kpr_tgid = tgid, kpr_start_boottime_ns = start,
                           kpr_group_leader = leader\<rparr>))))"

definition unwrap_or :: "'a option \<Rightarrow> 'a \<Rightarrow> 'a" where
  "unwrap_or x d = (case x of None \<Rightarrow> d | Some v \<Rightarrow> v)"

lemma unwrap_or_simps [simp]: "unwrap_or (Some v) d = v" "unwrap_or None d = d"
  by (simp_all add: unwrap_or_def)

definition task_auid :: "Globals \<Rightarrow> Hook \<Rightarrow> 64 word \<Rightarrow> 32 word" where
  "task_auid g h task =
     (if task = 0 then - 1 else unwrap_or (read_k32 h (task + ucast (OFF_LOGINUID g))) (- 1))"

definition task_sessionid :: "Globals \<Rightarrow> Hook \<Rightarrow> 64 word \<Rightarrow> 32 word" where
  "task_sessionid g h task =
     (if task = 0 then - 1 else unwrap_or (read_k32 h (task + ucast (OFF_SESSIONID g))) (- 1))"

definition task_tid :: "Globals \<Rightarrow> Hook \<Rightarrow> 64 word \<Rightarrow> 32 word" where
  "task_tid g h task =
     (if task = 0 then 0 else unwrap_or (read_k32 h (task + ucast (OFF_PID g))) 0)"

definition task_comm :: "Globals \<Rightarrow> Hook \<Rightarrow> 64 word \<Rightarrow> bytes" where
  "task_comm g h task =
     (if task = 0 then replicate COMM_SIZE 0
      else unwrap_or (k_kmem h (task + ucast (OFF_COMM g)) COMM_SIZE) (replicate COMM_SIZE 0))"

definition get_current_auid :: "Globals \<Rightarrow> Hook \<Rightarrow> 32 word" where
  "get_current_auid g h = task_auid g h (k_task h)"

definition get_current_sessionid :: "Globals \<Rightarrow> Hook \<Rightarrow> 32 word" where
  "get_current_sessionid g h = task_sessionid g h (k_task h)"

definition current_tgid :: "Hook \<Rightarrow> 32 word" where
  "current_tgid h = ucast (drop_bit 32 (k_pid_tgid h))"

definition should_trace :: "Globals \<Rightarrow> Hook \<Rightarrow> bool" where
  "should_trace g h =
     (if get_current_auid g h \<noteq> TARGET_AUID g then False
      else if current_tgid h = DAEMON_PID g then False else True)"

definition should_trace_signal :: "Globals \<Rightarrow> Hook \<Rightarrow> 64 word \<Rightarrow> bool" where
  "should_trace_signal g h target_task =
     (if current_tgid h = DAEMON_PID g \<or> target_task = 0 then False
      else get_current_auid g h = TARGET_AUID g \<or> task_auid g h target_task = TARGET_AUID g)"

section \<open>Namespace snapshot\<close>

definition INUM :: nat where "INUM = 13"
definition PID_NAMESPACE_NS :: nat where "PID_NAMESPACE_NS = 20"
definition NS_UPID_SIZE_INDEX :: nat where "NS_UPID_SIZE_INDEX = 21"

definition ns_offset :: "Globals \<Rightarrow> nat \<Rightarrow> 64 word" where
  "ns_offset g i = (if i < length (OFF_NS g) then ucast (OFF_NS g ! i) else 0)"

text \<open>A failed read yields zero and folds \<open>-EFAULT\<close> into the flag.\<close>

definition ns_read :: "Hook \<Rightarrow> nat \<Rightarrow> 64 word \<Rightarrow> 64 word \<Rightarrow> 'a::len word \<times> 64 word" where
  "ns_read h n address failed = (case k_kmem h address n of
       Some bs \<Rightarrow> (le_word bs, failed)
     | None \<Rightarrow> (0, failed OR - 14))"

definition nonzero :: "64 word \<Rightarrow> 64 word" where
  "nonzero value = drop_bit 63 (value OR - value)"

definition ns_inum_read :: "Globals \<Rightarrow> Hook \<Rightarrow> 64 word \<Rightarrow> nat \<Rightarrow> 64 word \<Rightarrow> 32 word \<times> 64 word" where
  "ns_inum_read g h ns ns_member failed = ns_read h 4 (ns + ns_offset g ns_member + ns_offset g INUM) failed"

definition active_pid_ns :: "Globals \<Rightarrow> Hook \<Rightarrow> 64 word \<Rightarrow> 64 word \<Rightarrow> 64 word \<times> 64 word" where
  "active_pid_ns g h task failed0 =
     (let (pid, failed1) = ns_read h 8 (task + ns_offset g 8) failed0 :: 64 word \<times> 64 word;
          (level, failed2) = ns_read h 4 (pid + ns_offset g 9) failed1 :: 32 word \<times> 64 word;
          upid = pid + ns_offset g 10 + ucast level * ns_offset g NS_UPID_SIZE_INDEX
      in ns_read h 8 (upid + ns_offset g 11) failed2)"

definition ns_put :: "NsSnapshot \<Rightarrow> nat \<Rightarrow> 32 word \<Rightarrow> 32 word \<Rightarrow> 64 word \<Rightarrow> NsSnapshot" where
  "ns_put out slot supported inum failed =
     (let sup = ucast (drop_bit slot supported AND 1) :: 64 word;
          complete = sup AND nonzero (ucast inum) AND (nonzero failed XOR 1);
          unavailable = sup AND (complete XOR 1);
          status = complete * ucast NS_STATUS_COMPLETE + unavailable * ucast NS_STATUS_UNAVAILABLE
            + (sup XOR 1) * ucast NS_STATUS_UNSUPPORTED
      in out\<lparr>ns_status := (ns_status out)[slot := ucast status],
             ns_inum := (ns_inum out)[slot := inum AND ucast (- complete)]\<rparr>)"

definition snapshot_slot ::
  "Globals \<Rightarrow> Hook \<Rightarrow> 64 word \<times> 64 word \<Rightarrow> nat \<Rightarrow> NsSnapshot \<Rightarrow> NsSnapshot" where
  "snapshot_slot g h nsproxy slot out =
     (let (ns, failed1) = ns_read h 8 (fst nsproxy + ns_offset g (slot + 1)) (snd nsproxy)
            :: 64 word \<times> 64 word;
          (value, failed2) = ns_inum_read g h ns (slot + 14) failed1
      in ns_put out slot (NS_SUPPORTED g) value failed2)"

definition snapshot :: "Globals \<Rightarrow> Hook \<Rightarrow> 64 word \<Rightarrow> NsSnapshot \<Rightarrow> NsSnapshot" where
  "snapshot g h task out0 =
     (let nsproxy = ns_read h 8 (task + ns_offset g 0) 0;
          out1 = fold (snapshot_slot g h nsproxy) [0..<5] out0;
          (cred, cf) = ns_read h 8 (task + ns_offset g 6) 0 :: 64 word \<times> 64 word;
          (user, uf) = ns_read h 8 (cred + ns_offset g 7) cf :: 64 word \<times> 64 word;
          (value, vf) = ns_inum_read g h user 19 uf;
          out2 = ns_put out1 5 (NS_SUPPORTED g) value vf;
          (pid, pf) = active_pid_ns g h task 0;
          (pvalue, pvf) = ns_inum_read g h pid PID_NAMESPACE_NS pf
      in ns_put out2 6 (NS_SUPPORTED g) pvalue pvf)"

definition default_ns :: NsSnapshot where
  "default_ns = \<lparr>ns_inum = replicate 7 0, ns_status = replicate 7 0\<rparr>"

section \<open>Headers\<close>

definition default_capture :: HeaderCapture where
  "default_capture = \<lparr>cap_version = 0, cap_primary = 0, cap_secondary = 0\<rparr>"

text \<open>
  \<open>get_task_info\<close> fills a zeroed header; \<open>fill_task_info\<close> overwrites every field of
  a header in map memory, so both give the same header.
\<close>

definition fill_task_info :: "Globals \<Rightarrow> Hook \<Rightarrow> byte \<Rightarrow> EventHeader \<Rightarrow> EventHeader" where
  "fill_task_info g h kind header = header\<lparr>
     h_kind := kind,
     h_capture := default_capture,
     h_timestamp_ns := k_now h kind,
     h_auid := get_current_auid g h,
     h_sessionid := get_current_sessionid g h,
     h_pid := current_tgid h,
     h_ppid := 0,
     h_process_start_boottime_ns :=
       unwrap_or (map_option kpr_start_boottime_ns (process_ref_from_task g h (k_task h))) 0,
     h_comm := unwrap_or (k_comm h) (replicate COMM_SIZE 0),
     h_tid := ucast (k_pid_tgid h),
     h_ns := snapshot g h (k_task h) (h_ns header)\<rparr>"

definition zeroed_header :: EventHeader where
  "zeroed_header = \<lparr>h_kind = 0, h_capture = default_capture, h_timestamp_ns = 0, h_auid = 0,
     h_sessionid = 0, h_pid = 0, h_ppid = 0, h_process_start_boottime_ns = 0,
     h_comm = replicate COMM_SIZE 0, h_tid = 0, h_ns = default_ns\<rparr>"

definition get_task_info :: "Globals \<Rightarrow> Hook \<Rightarrow> byte \<Rightarrow> EventHeader" where
  "get_task_info g h kind = fill_task_info g h kind zeroed_header"

definition get_task_info_from_task :: "Globals \<Rightarrow> Hook \<Rightarrow> byte \<Rightarrow> 64 word \<Rightarrow> EventHeader" where
  "get_task_info_from_task g h kind task =
     (let process_ref = process_ref_from_task g h task in
      \<lparr>h_kind = kind, h_capture = default_capture, h_timestamp_ns = k_now h kind,
       h_auid = task_auid g h task, h_sessionid = task_sessionid g h task,
       h_pid = unwrap_or (map_option kpr_tgid process_ref) 0, h_ppid = 0,
       h_process_start_boottime_ns = unwrap_or (map_option kpr_start_boottime_ns process_ref) 0,
       h_comm = task_comm g h task, h_tid = task_tid g h task,
       h_ns = (if task = 0 then default_ns else snapshot g h task default_ns)\<rparr>)"

section \<open>Facts about the snapshot\<close>

text \<open>The reference definition that \<open>put\<close> computes without a branch.\<close>

definition ns_put_spec :: "NsSnapshot \<Rightarrow> nat \<Rightarrow> bool \<Rightarrow> 32 word \<Rightarrow> bool \<Rightarrow> NsSnapshot" where
  "ns_put_spec out slot backed inum failed =
     (if \<not> backed then
        out\<lparr>ns_status := (ns_status out)[slot := NS_STATUS_UNSUPPORTED],
            ns_inum := (ns_inum out)[slot := 0]\<rparr>
      else if failed \<or> inum = 0 then
        out\<lparr>ns_status := (ns_status out)[slot := NS_STATUS_UNAVAILABLE],
            ns_inum := (ns_inum out)[slot := 0]\<rparr>
      else out\<lparr>ns_status := (ns_status out)[slot := NS_STATUS_COMPLETE],
               ns_inum := (ns_inum out)[slot := inum]\<rparr>)"

lemma top_bit: "drop_bit 63 w = (if unat w < 2 ^ 63 then 0 else 1)" for w :: "64 word"
proof -
  have "unat w < 2 ^ 64" using unsigned_less[of w, where 'a = nat] by simp
  then have "unat w div 2 ^ 63 = (if unat w < 2 ^ 63 then 0 else 1)"
    by (auto simp: div_if)
  moreover have "unat (drop_bit 63 w) = unat w div 2 ^ 63"
    unfolding unat_drop_bit_eq by (rule drop_bit_eq_div)
  moreover have "unat (0 :: 64 word) = 0" "unat (1 :: 64 word) = 1" by simp_all
  ultimately have "unat (drop_bit 63 w) = unat (if unat w < 2 ^ 63 then 0 else 1 :: 64 word)"
    by (cases "unat w < 2 ^ 63") (simp_all only: if_True if_False simp_thms)
  then show ?thesis by (simp only: word_unat_eq_iff)
qed

lemma unat_uminus: "w \<noteq> 0 \<Longrightarrow> unat (- w) = 2 ^ 64 - unat w" for w :: "64 word"
proof -
  assume w: "w \<noteq> 0"
  have lt: "unat w < 2 ^ 64" using unsigned_less[of w, where 'a = nat] by simp
  have pos: "0 < unat w" using w by (simp add: unat_gt_0)
  have "- w = of_nat (2 ^ 64 - unat w)"
    using lt by (simp add: of_nat_diff)
  then show ?thesis using pos by (simp add: unat_of_nat)
qed

lemma nonzero_eq: "nonzero w = (if w = 0 then 0 else 1)"
proof (cases "w = 0")
  case False
  then have pos: "0 < unat w" by (simp add: unat_gt_0)
  show ?thesis
    unfolding nonzero_def drop_bit_or top_bit unat_uminus[OF False] using pos False by auto
qed (simp add: nonzero_def)

lemma low_bit: "w AND 1 = (if bit w 0 then 1 else 0)" for w :: "'a::len word"
  by (simp add: and_one_eq mod_2_eq_odd bit_0)

lemma ns_put_eq:
  "ns_put out slot supported inum failed =
     ns_put_spec out slot (bit supported slot) inum (failed \<noteq> 0)"
proof -
  have sup: "(ucast (drop_bit slot supported AND 1) :: 64 word) = (if bit supported slot then 1 else 0)"
    by (simp add: low_bit bit_drop_bit_eq)
  have "unat inum < 2 ^ 64" using unsigned_less[of inum, where 'a = nat] by simp
  then have nz: "(ucast inum :: 64 word) = 0 \<longleftrightarrow> inum = 0"
    by (simp add: word_unat_eq_iff unsigned_ucast_eq take_bit_nat_eq_self)
  have ones: "(ucast (- 1 :: 64 word) :: 32 word) = - 1" by code_simp
  show ?thesis
    unfolding ns_put_def ns_put_spec_def Let_def sup nonzero_eq nz
    by (auto simp: NS_STATUS_COMPLETE_def NS_STATUS_UNAVAILABLE_def NS_STATUS_UNSUPPORTED_def ones)
qed

section \<open>Well-formed headers\<close>

text \<open>
  Documented behaviour of the helpers: a probe read returns as many bytes as were
  asked for, \<open>bpf_get_current_comm\<close> fills its array, and a string read stops
  before the first NUL and leaves room for the terminator.
\<close>

definition hook_ok :: "Hook \<Rightarrow> bool" where
  "hook_ok h \<longleftrightarrow>
     (\<forall>a n bs. k_kmem h a n = Some bs \<longrightarrow> length bs = n) \<and>
     (\<forall>a n bs. k_umem h a n = Some bs \<longrightarrow> length bs = n) \<and>
     (\<forall>a n bs. k_ctx h a n = Some bs \<longrightarrow> length bs = n) \<and>
     (\<forall>c. k_comm h = Some c \<longrightarrow> length c = COMM_SIZE) \<and>
     (\<forall>a n bs. k_ustr h a n = Some bs \<longrightarrow> length bs < n \<and> 0 \<notin> set bs)"

definition sized_ns :: "NsSnapshot \<Rightarrow> bool" where
  "sized_ns ns \<longleftrightarrow> length (ns_inum ns) = 7 \<and> length (ns_status ns) = 7"

lemma wf_NsSnapshot_sized: "wf_NsSnapshot ns \<longleftrightarrow> sized_ns ns"
  by (auto simp: wf_NsSnapshot_def sized_ns_def)

text \<open>One slot of the snapshot as an update by values that do not depend on it.\<close>

definition slot_values :: "bool \<Rightarrow> 32 word \<Rightarrow> bool \<Rightarrow> byte \<times> 32 word" where
  "slot_values backed inum failed =
     (if \<not> backed then (NS_STATUS_UNSUPPORTED, 0)
      else if failed \<or> inum = 0 then (NS_STATUS_UNAVAILABLE, 0) else (NS_STATUS_COMPLETE, inum))"

definition set_slot :: "nat \<Rightarrow> byte \<times> 32 word \<Rightarrow> NsSnapshot \<Rightarrow> NsSnapshot" where
  "set_slot slot v out =
     out\<lparr>ns_status := (ns_status out)[slot := fst v], ns_inum := (ns_inum out)[slot := snd v]\<rparr>"

lemma ns_put_set_slot:
  "ns_put out slot supported inum failed =
     set_slot slot (slot_values (bit supported slot) inum (failed \<noteq> 0)) out"
  by (simp add: ns_put_eq ns_put_spec_def set_slot_def slot_values_def)

lemma set_slots_all:
  assumes "sized_ns out"
  shows "set_slot 6 v6 (set_slot 5 v5 (set_slot 4 v4 (set_slot 3 v3 (set_slot 2 v2
      (set_slot 1 v1 (set_slot 0 v0 out)))))) =
    \<lparr>ns_inum = map snd [v0, v1, v2, v3, v4, v5, v6], ns_status = map fst [v0, v1, v2, v3, v4, v5, v6]\<rparr>"
proof -
  obtain a0 a1 a2 a3 a4 a5 a6 where a: "ns_inum out = [a0, a1, a2, a3, a4, a5, a6]"
    using assms unfolding sized_ns_def by (auto simp: eval_nat_numeral length_Suc_conv)
  obtain b0 b1 b2 b3 b4 b5 b6 where b: "ns_status out = [b0, b1, b2, b3, b4, b5, b6]"
    using assms unfolding sized_ns_def by (auto simp: eval_nat_numeral length_Suc_conv)
  show ?thesis using a b by (cases out) (simp add: set_slot_def eval_nat_numeral)
qed

lemma snapshot_slot_eq: "\<exists>v. snapshot_slot g h np slot = set_slot slot v"
  by (rule exI, rule ext) (simp only: snapshot_slot_def Let_def case_prod_beta ns_put_set_slot)

lemma snapshot_eq:
  "\<exists>v5 v6. \<forall>out. snapshot g h task out = set_slot 6 v6 (set_slot 5 v5
     (fold (snapshot_slot g h (ns_read h 8 (task + ns_offset g 0) 0)) [0..<5] out))"
  by (intro exI allI) (simp only: snapshot_def Let_def case_prod_beta ns_put_set_slot)

lemma snapshot_fresh:
  assumes "sized_ns out" "sized_ns out'"
  shows "snapshot g h task out = snapshot g h task out' \<and> sized_ns (snapshot g h task out)"
proof -
  let ?slot = "snapshot_slot g h (ns_read h 8 (task + ns_offset g 0) 0)"
  obtain v0 v1 v2 v3 v4 where v: "?slot 0 = set_slot 0 v0" "?slot 1 = set_slot 1 v1"
    "?slot 2 = set_slot 2 v2" "?slot 3 = set_slot 3 v3" "?slot 4 = set_slot 4 v4"
    using snapshot_slot_eq by metis
  obtain v5 v6 where s: "\<And>ns. snapshot g h task ns = set_slot 6 v6 (set_slot 5 v5
      (fold ?slot [0..<5] ns))"
    using snapshot_eq by blast
  have "[0..<5] = [0, 1, 2, 3, 4 :: nat]" by (simp add: upt_rec)
  then have "fold ?slot [0..<5] ns =
      set_slot 4 v4 (set_slot 3 v3 (set_slot 2 v2 (set_slot 1 v1 (set_slot 0 v0 ns))))" for ns
    using v by simp
  then have "snapshot g h task ns = \<lparr>ns_inum = map snd [v0, v1, v2, v3, v4, v5, v6],
      ns_status = map fst [v0, v1, v2, v3, v4, v5, v6]\<rparr>" if "sized_ns ns" for ns
    using s set_slots_all[OF that] by simp
  then show ?thesis using assms by (simp add: sized_ns_def)
qed

lemma fill_task_info_fresh:
  assumes "sized_ns (h_ns header)"
  shows "fill_task_info g h kind header = get_task_info g h kind"
proof -
  have "sized_ns (h_ns zeroed_header)" by (simp add: zeroed_header_def sized_ns_def default_ns_def)
  then have "snapshot g h (k_task h) (h_ns header) = snapshot g h (k_task h) (h_ns zeroed_header)"
    using snapshot_fresh assms by blast
  then show ?thesis by (simp add: get_task_info_def fill_task_info_def)
qed

lemma get_task_info_wf:
  assumes "hook_ok h"
  shows "wf_EventHeader (get_task_info g h kind)"
proof -
  have "sized_ns (h_ns zeroed_header)" by (simp add: zeroed_header_def sized_ns_def default_ns_def)
  then have "sized_ns (snapshot g h (k_task h) (h_ns zeroed_header))"
    using snapshot_fresh by blast
  then show ?thesis
    using assms
    by (cases "k_comm h")
      (auto simp: wf_EventHeader_def wf_NsSnapshot_sized get_task_info_def fill_task_info_def
        hook_ok_def COMM_SIZE_def)
qed

lemma wf_header_updates [simp]:
  "wf_EventHeader (hdr\<lparr>h_capture := c\<rparr>) = wf_EventHeader hdr"
  "wf_EventHeader (hdr\<lparr>h_kind := k\<rparr>) = wf_EventHeader hdr"
  "wf_EventHeader (hdr\<lparr>h_pid := p\<rparr>) = wf_EventHeader hdr"
  "wf_EventHeader (hdr\<lparr>h_ppid := p\<rparr>) = wf_EventHeader hdr"
  "wf_EventHeader (hdr\<lparr>h_process_start_boottime_ns := s\<rparr>) = wf_EventHeader hdr"
  by (simp_all add: wf_EventHeader_def)

lemma get_task_info_fields [simp]:
  "h_kind (get_task_info g h kind) = kind"
  "h_capture (get_task_info g h kind) = default_capture"
  "h_pid (get_task_info g h kind) = current_tgid h"
  "h_tid (get_task_info g h kind) = ucast (k_pid_tgid h)"
  "h_auid (get_task_info g h kind) = get_current_auid g h"
  by (simp_all add: get_task_info_def fill_task_info_def)

section \<open>The size of the buffers\<close>

text \<open>The map values are arrays of fixed size.\<close>

definition ASSEMBLY_BUF_SIZE :: nat where "ASSEMBLY_BUF_SIZE = 2 * MAX_PATH_SIZE + 256"

definition rich_entry_ok :: "RichSyscallEntry \<Rightarrow> bool" where
  "rich_entry_ok e \<longleftrightarrow> wf_EventHeader (re_header e) \<and> length (re_data e) = 256"

definition execve_entry_ok :: "ExecveEntry \<Rightarrow> bool" where
  "execve_entry_ok e \<longleftrightarrow> wf_EventHeader (xe_header e) \<and>
     length (xe_filename_buf e) = MAX_PATH_SIZE \<and> length (xe_argv_buf e) = MAX_ARGV_SIZE"

definition openat_entry_ok :: "OpenatEntry \<Rightarrow> bool" where
  "openat_entry_ok e \<longleftrightarrow> wf_EventHeader (oe_header e) \<and> length (oe_filename e) = MAX_PATH_SIZE"

definition path_entry_ok :: "PathEntry \<Rightarrow> bool" where
  "path_entry_ok e \<longleftrightarrow> wf_EventHeader (pe_header e) \<and>
     length (pe_path1 e) = MAX_PATH_SIZE \<and> length (pe_path2 e) = MAX_PATH_SIZE"

definition buffers_ok :: "Maps \<Rightarrow> bool" where
  "buffers_ok m \<longleftrightarrow> length (ASSEMBLY_BUF m) = ASSEMBLY_BUF_SIZE \<and>
     (\<forall>i. length (SCRATCH_BUF m i) = MAX_PATH_SIZE) \<and>
     rich_entry_ok (SYSCALL_TMP_BUF m) \<and> execve_entry_ok (EXECVE_TMP_BUF m) \<and>
     openat_entry_ok (OPENAT_TMP_BUF m) \<and> path_entry_ok (PATH_TMP_BUF m) \<and>
     (\<forall>e \<in> ran (RICH_ENTRY_MAP m). rich_entry_ok e) \<and>
     (\<forall>e \<in> ran (EXECVE_ENTRY_MAP m). execve_entry_ok e) \<and>
     (\<forall>e \<in> ran (OPENAT_ENTRY_MAP m). openat_entry_ok e) \<and>
     (\<forall>e \<in> ran (PATH_ENTRY_MAP m). path_entry_ok e)"

lemma buffers_ok_updates [simp]:
  "buffers_ok (m\<lparr>EVENTS := x1\<rparr>) = buffers_ok m" "buffers_ok (m\<lparr>DROP_COUNT := x2\<rparr>) = buffers_ok m"
  "buffers_ok (m\<lparr>FAILURES := x3\<rparr>) = buffers_ok m" "buffers_ok (m\<lparr>SYSCALL_ENTRY_MAP := x4\<rparr>) = buffers_ok m"
  "buffers_ok (m\<lparr>TTY_READ_ENTRY_MAP := x5\<rparr>) = buffers_ok m" "buffers_ok (m\<lparr>EXIT_CLAIMS := x6\<rparr>) = buffers_ok m"
  by (simp_all add: buffers_ok_def)

lemma buffers_ok_counters [simp]:
  "buffers_ok (failure f r m) = buffers_ok m" "buffers_ok (count_outcome f x m) = buffers_ok m"
  "buffers_ok (save_in f y m) = buffers_ok m" "buffers_ok (cleanup_in f y m) = buffers_ok m"
  "buffers_ok (increment_drop_count m) = buffers_ok m" "buffers_ok (emit_event h data m) = buffers_ok m"
  "buffers_ok (emit_fixed h hdr data m) = buffers_ok m"
  by (simp_all add: failure_def count_outcome_def save_in_def cleanup_in_def increment_drop_count_def
      emit_event_def emit_fixed_def split: option.splits)

lemma ran_hash_remove: "hash_remove err entries k = (r, entries') \<Longrightarrow> ran entries' \<subseteq> ran entries"
  by (auto simp: hash_remove_def ran_def split: if_splits option.splits)

lemma ran_hash_insert: "hash_insert err entries k v = (r, entries') \<Longrightarrow> ran entries' \<subseteq> insert v (ran entries)"
  by (auto simp: hash_insert_def ran_def split: if_splits option.splits)

lemma buffers_ok_entries:
  "buffers_ok m \<Longrightarrow> ran x \<subseteq> ran (RICH_ENTRY_MAP m) \<Longrightarrow> buffers_ok (m\<lparr>RICH_ENTRY_MAP := x\<rparr>)"
  "buffers_ok m \<Longrightarrow> ran y \<subseteq> ran (EXECVE_ENTRY_MAP m) \<Longrightarrow> buffers_ok (m\<lparr>EXECVE_ENTRY_MAP := y\<rparr>)"
  "buffers_ok m \<Longrightarrow> ran z \<subseteq> ran (OPENAT_ENTRY_MAP m) \<Longrightarrow> buffers_ok (m\<lparr>OPENAT_ENTRY_MAP := z\<rparr>)"
  "buffers_ok m \<Longrightarrow> ran w \<subseteq> ran (PATH_ENTRY_MAP m) \<Longrightarrow> buffers_ok (m\<lparr>PATH_ENTRY_MAP := w\<rparr>)"
  by (auto simp: buffers_ok_def)

lemma buffers_ok_inserts:
  "buffers_ok m \<Longrightarrow> rich_entry_ok e1 \<Longrightarrow> ran x \<subseteq> insert e1 (ran (RICH_ENTRY_MAP m)) \<Longrightarrow>
     buffers_ok (m\<lparr>RICH_ENTRY_MAP := x\<rparr>)"
  "buffers_ok m \<Longrightarrow> execve_entry_ok e2 \<Longrightarrow> ran y \<subseteq> insert e2 (ran (EXECVE_ENTRY_MAP m)) \<Longrightarrow>
     buffers_ok (m\<lparr>EXECVE_ENTRY_MAP := y\<rparr>)"
  "buffers_ok m \<Longrightarrow> openat_entry_ok e3 \<Longrightarrow> ran z \<subseteq> insert e3 (ran (OPENAT_ENTRY_MAP m)) \<Longrightarrow>
     buffers_ok (m\<lparr>OPENAT_ENTRY_MAP := z\<rparr>)"
  "buffers_ok m \<Longrightarrow> path_entry_ok e4 \<Longrightarrow> ran w \<subseteq> insert e4 (ran (PATH_ENTRY_MAP m)) \<Longrightarrow>
     buffers_ok (m\<lparr>PATH_ENTRY_MAP := w\<rparr>)"
  by (auto simp: buffers_ok_def)

lemma buffers_ok_scratch:
  "buffers_ok m \<Longrightarrow> length b = MAX_PATH_SIZE \<Longrightarrow> buffers_ok (m\<lparr>SCRATCH_BUF := (SCRATCH_BUF m)(i := b)\<rparr>)"
  "buffers_ok m \<Longrightarrow> length b = ASSEMBLY_BUF_SIZE \<Longrightarrow> buffers_ok (m\<lparr>ASSEMBLY_BUF := b\<rparr>)"
  by (auto simp: buffers_ok_def)

section \<open>A sample kernel\<close>

text \<open>
  Kernel memory full of ones, user memory and contexts that hold their own
  addresses, and helpers that succeed.
\<close>

definition quiet_hook :: Hook where
  "quiet_hook = \<lparr>k_now = (\<lambda>_. 7), k_task = 64, k_pid_tgid = 0x500000006,
     k_comm = Some (replicate 16 0x61), k_kmem = (\<lambda>_ n. Some (replicate n 1)),
     k_kmem_later = (\<lambda>_ n. Some (replicate n 1)),
     k_umem = (\<lambda>a n. Some (le_bytes n (unat a))), k_ustr = (\<lambda>_ n. if n < 4 then None else Some [0x6C, 0x73]),
     k_ctx = (\<lambda>off n. Some (le_bytes n off)), k_raw_arg = (\<lambda>i. of_nat (i + 4096)),
     k_probe_arg = (\<lambda>i. Some (of_nat (i + 2))), k_ret = Some 3, k_percpu = (\<lambda>_ _. True),
     k_update_error = (\<lambda>_. None), k_delete_error = (\<lambda>_. None), k_copy = (\<lambda>_ _. True),
     k_ring = (\<lambda>_. True), k_pad = (\<lambda>_. 0xEE)\<rparr>"

definition quiet_globals :: Globals where
  "quiet_globals = \<lparr>TARGET_AUID = 0x01010101, DAEMON_PID = 1, OFF_LOGINUID = 8, OFF_SESSIONID = 12,
     OFF_TGID = 16, OFF_PID = 20, OFF_GROUP_LEADER = 24, OFF_START_BOOTTIME = 32, OFF_SIGNAL = 40,
     OFF_EXIT_CODE = 48, OFF_COMM = 56, OFF_SIGNAL_LIVE = 4, OFF_SIGNAL_GROUP_EXIT_CODE = 8,
     OFF_EXEC_VIEW = replicate 14 8, EXEC_VIEW_SUPPORTED = 1, OFF_FD_IDENT = replicate 8 8,
     FD_IDENT_SUPPORTED = 1, OFF_TTY = replicate 3 8, TTY_SUPPORTED = 1, OFF_NS = replicate 22 8,
     NS_SUPPORTED = 127\<rparr>"

definition empty_maps :: Maps where
  "empty_maps = \<lparr>EVENTS = [], DROP_COUNT = 0, FAILURES = (\<lambda>_ _. 0), EXECVE_ENTRY_MAP = Map.empty,
     SYSCALL_ENTRY_MAP = Map.empty, RICH_ENTRY_MAP = Map.empty, PATH_ENTRY_MAP = Map.empty,
     OPENAT_ENTRY_MAP = Map.empty, TTY_READ_ENTRY_MAP = Map.empty, EXIT_CLAIMS = Map.empty,
     SCRATCH_BUF = (\<lambda>_. replicate MAX_PATH_SIZE 0), ASSEMBLY_BUF = replicate (2 * MAX_PATH_SIZE + 256) 0,
     SYSCALL_TMP_BUF = \<lparr>re_header = zeroed_header, re_data = replicate 256 0, re_data_len = 0\<rparr>,
     EXECVE_TMP_BUF = \<lparr>xe_header = zeroed_header, xe_filename_len = 0, xe_argv_len = 0,
       xe_filename_buf = replicate MAX_PATH_SIZE 0, xe_argv_buf = replicate MAX_ARGV_SIZE 0\<rparr>,
     OPENAT_TMP_BUF = \<lparr>oe_header = zeroed_header, oe_flags = 0, oe_mode = 0, oe_filename_len = 0,
       oe_capture_flags = 0, oe_dirfd = 0, oe_filename = replicate MAX_PATH_SIZE 0\<rparr>,
     PATH_TMP_BUF = \<lparr>pe_header = zeroed_header, pe_path1_len = 0, pe_path2_len = 0,
       pe_path1 = replicate MAX_PATH_SIZE 0, pe_path2 = replicate MAX_PATH_SIZE 0\<rparr>,
     EXCLUSION_BITMAP = replicate BITMAP_SIZE 0, TIER2_BITMAP = replicate BITMAP_SIZE 0\<rparr>"

lemma quiet_hook_ok [simp]: "hook_ok quiet_hook"
  by (auto simp: hook_ok_def quiet_hook_def COMM_SIZE_def split: if_splits)

lemma replicate_4_8:
  "replicate 4 x = [x, x, x, x]" "replicate 8 x = [x, x, x, x, x, x, x, x]"
  by (simp_all add: eval_nat_numeral)

lemma le_ones: "le_word (replicate 4 1) = (0x01010101 :: 32 word)"
  "le_word (replicate 8 1) = (0x0101010101010101 :: 64 word)"
  unfolding replicate_4_8 by (simp_all add: le_word_def)

lemma quiet_trace [simp]: "should_trace quiet_globals quiet_hook"
  by (simp add: should_trace_def get_current_auid_def task_auid_def read_k32_def quiet_hook_def
      quiet_globals_def current_tgid_def le_ones)

section \<open>Properties\<close>

text \<open>
  The branch-free namespace slot.  \<open>put\<close> computes with masks, negation and
  multiplication; the result is the plain case distinction: unsupported when the
  support bit of the slot is clear, unavailable with inode 0 when a read failed or
  the inode is 0, and otherwise complete with the inode.
\<close>

theorem ns_put_matches_reference:
  "ns_put out slot supported inum failed =
     (if \<not> bit supported slot then
        out\<lparr>ns_status := (ns_status out)[slot := NS_STATUS_UNSUPPORTED],
            ns_inum := (ns_inum out)[slot := 0]\<rparr>
      else if failed = 0 \<and> inum \<noteq> 0 then
        out\<lparr>ns_status := (ns_status out)[slot := NS_STATUS_COMPLETE],
            ns_inum := (ns_inum out)[slot := inum]\<rparr>
      else out\<lparr>ns_status := (ns_status out)[slot := NS_STATUS_UNAVAILABLE],
               ns_inum := (ns_inum out)[slot := 0]\<rparr>)"
  using ns_put_eq[of out slot supported inum failed] by (auto simp: ns_put_spec_def)

text \<open>
  A header filled in place in map memory never shows what the memory held: it
  equals the header built from zeroes, with all seven namespace slots written.
\<close>

theorem header_in_place_is_fresh:
  assumes "wf_EventHeader stale" "hook_ok h"
  shows "fill_task_info g h kind stale = get_task_info g h kind \<and>
    wf_EventHeader (fill_task_info g h kind stale)"
  using fill_task_info_fresh[of stale g h kind] get_task_info_wf[OF assms(2)] assms(1)
  by (simp add: wf_EventHeader_def wf_NsSnapshot_sized)

theorem header_in_place_is_fresh_witness:
  "fill_task_info quiet_globals quiet_hook 10 (zeroed_header\<lparr>h_pid := 99\<rparr>) =
     get_task_info quiet_globals quiet_hook 10"
proof -
  have "wf_EventHeader (zeroed_header\<lparr>h_pid := 99\<rparr>)"
    by (simp add: wf_EventHeader_def wf_NsSnapshot_def zeroed_header_def default_ns_def COMM_SIZE_def)
  from header_in_place_is_fresh[OF this quiet_hook_ok, of quiet_globals 10] show ?thesis by simp
qed

end
