(* ===== verification/BpfRaw.thy ===== *)
theory BpfRaw
  imports BpfCore DeserializerFacts
begin

text \<open>
  \<open>bloodhound-ebpf/src/layer3_raw.rs\<close>: the Tier-1 programs on
  \<open>raw_syscalls/sys_enter\<close> and \<open>sys_exit\<close>.  The enter program keeps the number
  and arguments in \<open>SYSCALL_ENTRY_MAP\<close>, the exit program turns the entry into a
  record; \<open>exit\<close> and \<open>exit_group\<close> are recorded at entry.
\<close>

section \<open>Programs\<close>

definition ctx_u64 :: "Hook \<Rightarrow> nat \<Rightarrow> 64 word option" where
  "ctx_u64 h off = map_option le_word (k_ctx h off 8)"

definition ctx_u32 :: "Hook \<Rightarrow> nat \<Rightarrow> 32 word option" where
  "ctx_u32 h off = map_option le_word (k_ctx h off 4)"

definition bitmap_set :: "32 word list \<Rightarrow> nat \<Rightarrow> bool" where
  "bitmap_set bits i \<longleftrightarrow> i < length bits \<and> bits ! i \<noteq> 0"

definition raw_record :: "Hook \<Rightarrow> EventHeader \<Rightarrow> 64 word \<Rightarrow> 64 word list \<Rightarrow> 64 word \<Rightarrow> bytes" where
  "raw_record h header nr args ret =
     EventHeader_bytes (k_pad h) header
       @ RawSyscallPayload_bytes (k_pad h)
           \<lparr>raw_syscall_nr = nr, raw_args = args, raw_return_code = ret\<rparr>"

definition try_raw_sys_enter :: "Globals \<Rightarrow> Hook \<Rightarrow> Maps \<Rightarrow> outcome" where
  "try_raw_sys_enter g h m =
     (if \<not> should_trace g h then (Ok (), m)
      else (case ctx_u64 h 8 of
          None \<Rightarrow> (Err (- 1), m)
        | Some nr \<Rightarrow>
            if BITMAP_SIZE \<le> unat nr then (Ok (), m)
            else if bitmap_set (EXCLUSION_BITMAP m) (unat nr) then (Ok (), m)
            else if bitmap_set (TIER2_BITMAP m) (unat nr) then (Ok (), m)
            else (case those (map (\<lambda>i. ctx_u64 h (16 + i * 8)) [0..<6]) of
                None \<Rightarrow> (Err (- 1), m)
              | Some args \<Rightarrow>
                  (let header = get_task_info g h (kind_byte RawSyscall) in
                   if nr = NR_EXIT \<or> nr = NR_EXIT_GROUP then
                     (Ok (), emit_event h (raw_record h header nr args 0) m)
                   else
                     (case hash_insert (k_update_error h ''SYSCALL_ENTRY_MAP'') (SYSCALL_ENTRY_MAP m)
                         (k_pid_tgid h) \<lparr>se_header = header, se_syscall_nr = nr, se_args = args\<rparr> of
                       (r, entries) \<Rightarrow>
                         (Ok (), save_in RAW_SYSCALL_FAILURES r (m\<lparr>SYSCALL_ENTRY_MAP := entries\<rparr>)))))))"

definition raw_sys_enter :: "Globals \<Rightarrow> Hook \<Rightarrow> Maps \<Rightarrow> Maps" where
  "raw_sys_enter g h m = (case try_raw_sys_enter g h m of
       (Inr _, m') \<Rightarrow> m'
     | (Inl _, m') \<Rightarrow> failure RAW_SYSCALL_FAILURES SYSCALL_ENTRY_CAPTURE_FAILED m')"

definition raw_cleanup :: "Hook \<Rightarrow> Maps \<Rightarrow> Maps" where
  "raw_cleanup h m =
     (case hash_remove (k_delete_error h ''SYSCALL_ENTRY_MAP'') (SYSCALL_ENTRY_MAP m) (k_pid_tgid h) of
       (r, entries) \<Rightarrow> cleanup_in RAW_SYSCALL_FAILURES r (m\<lparr>SYSCALL_ENTRY_MAP := entries\<rparr>))"

definition try_raw_sys_exit :: "Hook \<Rightarrow> Maps \<Rightarrow> outcome" where
  "try_raw_sys_exit h m =
     (case SYSCALL_ENTRY_MAP m (k_pid_tgid h) of
         None \<Rightarrow> (Ok (), m)
       | Some entry \<Rightarrow>
           (case ctx_u64 h 16 of
               None \<Rightarrow> (Err (- 1), raw_cleanup h m)
             | Some return_code \<Rightarrow>
                 (Ok (), raw_cleanup h (emit_event h (raw_record h (se_header entry)
                    (se_syscall_nr entry) (se_args entry) return_code) m))))"

definition raw_sys_exit :: "Hook \<Rightarrow> Maps \<Rightarrow> Maps" where
  "raw_sys_exit h m = (case try_raw_sys_exit h m of
       (Inr _, m') \<Rightarrow> m'
     | (Inl _, m') \<Rightarrow> failure RAW_SYSCALL_FAILURES SYSCALL_EXIT_CAPTURE_FAILED m')"

section \<open>Facts\<close>

text \<open>When the enter program is interested in a syscall, and what it then reads.\<close>

definition raw_wanted :: "Globals \<Rightarrow> Hook \<Rightarrow> Maps \<Rightarrow> 64 word \<Rightarrow> 64 word list \<Rightarrow> bool" where
  "raw_wanted g h m nr args \<longleftrightarrow>
     should_trace g h \<and> ctx_u64 h 8 = Some nr \<and> unat nr < BITMAP_SIZE \<and>
     \<not> bitmap_set (EXCLUSION_BITMAP m) (unat nr) \<and> \<not> bitmap_set (TIER2_BITMAP m) (unat nr) \<and>
     those (map (\<lambda>i. ctx_u64 h (16 + i * 8)) [0..<6]) = Some args"

lemma those_length: "those xs = Some ys \<Longrightarrow> length ys = length xs"
  by (induction xs arbitrary: ys) (auto split: option.splits)

lemma raw_wanted_args: "raw_wanted g h m nr args \<Longrightarrow> length args = 6"
  unfolding raw_wanted_def using those_length by fastforce

lemma raw_enter_saves:
  assumes "raw_wanted g h m nr args" "nr \<noteq> NR_EXIT" "nr \<noteq> NR_EXIT_GROUP"
    "k_update_error h ''SYSCALL_ENTRY_MAP'' = None"
  shows "raw_sys_enter g h m = m\<lparr>SYSCALL_ENTRY_MAP := (SYSCALL_ENTRY_MAP m)(k_pid_tgid h \<mapsto>
    \<lparr>se_header = get_task_info g h (kind_byte RawSyscall), se_syscall_nr = nr, se_args = args\<rparr>)\<rparr>"
  using assms
  by (simp add: raw_sys_enter_def try_raw_sys_enter_def raw_wanted_def hash_insert_def save_in_def
      save_outcome_def count_outcome_def Let_def)

lemma raw_enter_emits_exit:
  assumes "raw_wanted g h m nr args" "nr = NR_EXIT \<or> nr = NR_EXIT_GROUP"
  shows "raw_sys_enter g h m =
    emit_event h (raw_record h (get_task_info g h (kind_byte RawSyscall)) nr args 0) m"
  using assms
  by (auto simp add: raw_sys_enter_def try_raw_sys_enter_def raw_wanted_def Let_def)

lemma raw_exit_emits:
  assumes "SYSCALL_ENTRY_MAP m (k_pid_tgid h) = Some entry" "ctx_u64 h 16 = Some ret"
    "k_delete_error h ''SYSCALL_ENTRY_MAP'' = None"
    "k_ring h (raw_record h (se_header entry) (se_syscall_nr entry) (se_args entry) ret)"
  shows "raw_sys_exit h m =
    m\<lparr>EVENTS := EVENTS m @ [raw_record h (se_header entry) (se_syscall_nr entry) (se_args entry) ret],
      SYSCALL_ENTRY_MAP := (SYSCALL_ENTRY_MAP m)(k_pid_tgid h := None)\<rparr>"
  using assms
  by (simp add: raw_sys_exit_def try_raw_sys_exit_def raw_cleanup_def emit_event_def hash_remove_def
      cleanup_in_def cleanup_outcome_def count_outcome_def raw_record_def EventHeader_first_byte)

text \<open>Decoding what a program emits under the header of its hook.\<close>

lemma emitted_decodes:
  assumes "hook_ok h" "k \<noteq> PacketIngress" "k \<noteq> PacketEgress" "k \<noteq> ProcessStart"
  shows "deserialize b64 (EventHeader_bytes pad (get_task_info g h (kind_byte k)) @ payload) =
    and_then (parse_payload k b64 default_capture payload)
      (\<lambda>p. Ok (record_event (get_task_info g h (kind_byte k)) p))"
  using deserialize_emitted[of "get_task_info g h (kind_byte k)" k b64 pad payload]
    get_task_info_wf[OF assms(1)] assms(2,3,4) by simp

lemma raw_record_decodes:
  assumes "hook_ok h" "length args = 6"
  shows "deserialize b64 (raw_record h' (get_task_info g h (kind_byte RawSyscall)) nr args ret) =
    Ok (record_event (get_task_info g h (kind_byte RawSyscall))
      (''SYSCALL'', decimal (unat nr), behavior,
       Some (JObj [(''syscall_nr'', junum nr), (''raw_args'', JArr (map junum args))]),
       Some (sint ret)))"
  using assms(2) parse_raw_syscall_emitted[of
      "\<lparr>raw_syscall_nr = nr, raw_args = args, raw_return_code = ret\<rparr>" "k_pad h'" "[]"]
  unfolding raw_record_def
  by (subst emitted_decodes[OF assms(1)]) (simp_all add: wf_RawSyscallPayload_def)

section \<open>Properties\<close>

text \<open>
  C7: a raw syscall end to end.  If the enter program wants a syscall of a thread
  and stores it, then whatever other programs do to the maps in between without
  touching that thread's entry, the thread's exit program appends one record that
  the daemon decodes to the number, the six arguments and the return value of that
  syscall under the header of the enter hook, and the entry is gone.
\<close>

theorem raw_syscall_end_to_end:
  assumes enter: "raw_wanted g h1 m nr args" "nr \<noteq> NR_EXIT" "nr \<noteq> NR_EXIT_GROUP" "hook_ok h1"
      "k_update_error h1 ''SYSCALL_ENTRY_MAP'' = None"
    and frame: "SYSCALL_ENTRY_MAP m2 (k_pid_tgid h1) =
      SYSCALL_ENTRY_MAP (raw_sys_enter g h1 m) (k_pid_tgid h1)"
    and exit: "k_pid_tgid h2 = k_pid_tgid h1" "ctx_u64 h2 16 = Some ret"
      "k_delete_error h2 ''SYSCALL_ENTRY_MAP'' = None" "\<forall>data. k_ring h2 data"
  shows "\<exists>rec. EVENTS (raw_sys_exit h2 m2) = EVENTS m2 @ [rec] \<and>
    SYSCALL_ENTRY_MAP (raw_sys_exit h2 m2) (k_pid_tgid h1) = None \<and>
    deserialize b64 rec = Ok
      \<lparr>be_header = event_header_json (get_task_info g h1 (kind_byte RawSyscall)),
       be_event = \<lparr>et_type = ''SYSCALL'', et_name = decimal (unat nr), et_layer = behavior\<rparr>,
       be_proc = None,
       be_args = Some (JObj [(''syscall_nr'', junum nr), (''raw_args'', JArr (map junum args))]),
       be_return_code = Some (sint ret)\<rparr>"
proof -
  let ?hd = "get_task_info g h1 (kind_byte RawSyscall)"
  let ?rec = "raw_record h2 ?hd nr args ret"
  have entry: "SYSCALL_ENTRY_MAP m2 (k_pid_tgid h2) =
      Some \<lparr>se_header = ?hd, se_syscall_nr = nr, se_args = args\<rparr>"
    using frame raw_enter_saves[OF enter(1,2,3,5)] exit(1) by simp
  have "raw_sys_exit h2 m2 = m2\<lparr>EVENTS := EVENTS m2 @ [?rec],
      SYSCALL_ENTRY_MAP := (SYSCALL_ENTRY_MAP m2)(k_pid_tgid h2 := None)\<rparr>"
    using raw_exit_emits[OF entry exit(2,3)] exit(4) by simp
  then show ?thesis
    using raw_record_decodes[OF enter(4) raw_wanted_args[OF enter(1)], of b64 h2 g nr ret] exit(1)
    by (simp add: record_event_def)
qed

lemma quiet_ctx [simp]: "off < 2 ^ 64 \<Longrightarrow> ctx_u64 quiet_hook off = Some (of_nat off)"
  by (simp add: ctx_u64_def quiet_hook_def le_word_def le_nat_le_bytes)

lemma quiet_raw_wanted:
  "raw_wanted quiet_globals quiet_hook empty_maps 8 [16, 24, 32, 40, 48, 56]"
proof -
  have "[0..<6] = [0, 1, 2, 3, 4, 5 :: nat]" by (simp add: upt_rec)
  then have args: "those (map (\<lambda>i. ctx_u64 quiet_hook (16 + i * 8)) [0..<6]) =
      Some [16, 24, 32, 40, 48, 56]" by simp
  show ?thesis
    unfolding raw_wanted_def args
    by (simp add: bitmap_set_def empty_maps_def BITMAP_SIZE_def)
qed

theorem raw_syscall_end_to_end_witness:
  "\<exists>rec e. EVENTS (raw_sys_exit quiet_hook (raw_sys_enter quiet_globals quiet_hook empty_maps)) = [rec] \<and>
     deserialize str_of_bytes rec = Ok e \<and> be_return_code e = Some 16"
proof -
  let ?m = "raw_sys_enter quiet_globals quiet_hook empty_maps"
  have hyp: "(8 :: 64 word) \<noteq> NR_EXIT" "(8 :: 64 word) \<noteq> NR_EXIT_GROUP"
    "k_update_error quiet_hook ''SYSCALL_ENTRY_MAP'' = None"
    "k_delete_error quiet_hook ''SYSCALL_ENTRY_MAP'' = None" "\<forall>data. k_ring quiet_hook data"
    by (simp_all add: NR_EXIT_def NR_EXIT_GROUP_def quiet_hook_def)
  have ret: "ctx_u64 quiet_hook 16 = Some 16" by simp
  have "EVENTS ?m = []"
    using raw_enter_saves[OF quiet_raw_wanted hyp(1,2,3)] by (simp add: empty_maps_def)
  with raw_syscall_end_to_end[OF quiet_raw_wanted hyp(1,2) quiet_hook_ok hyp(3) refl refl ret
      hyp(4,5), of str_of_bytes]
  show ?thesis by auto
qed

end
