(* ===== verification/RichEntries.thy ===== *)
theory RichEntries
  imports Wire
begin

text \<open>
  The entry records that the rich syscall programs keep between \<open>sys_enter\<close> and
  \<open>sys_exit\<close> in the 256 data bytes of a \<open>RichSyscallEntry\<close>
  (\<open>bloodhound-ebpf/src/layer3_rich.rs\<close>), with their layouts, and \<open>struct iovec\<close>
  as user memory holds it.  They are written and read as raw bytes, so they go
  through the same layout functions and laws as the wire structs.
\<close>

section \<open>ReadWriteEntryData\<close>

record ReadWriteEntryData =
  rwd_fd :: "32 word"
  rwd_requested_size :: "64 word"
  rwd_fd_type :: "byte"

definition ReadWriteEntryData_layout :: layout where
  "ReadWriteEntryData_layout =
     [(''fd'', u32), (''requested_size'', u64), (''fd_type'', u8)]"

definition read_ReadWriteEntryData :: "bytes \<Rightarrow> ReadWriteEntryData" where
  "read_ReadWriteEntryData bs = (let fld = (\<lambda>f. field ReadWriteEntryData_layout f bs) in
     \<lparr>rwd_fd = le_word (fld ''fd''), rwd_requested_size = le_word (fld ''requested_size''),
      rwd_fd_type = le_word (fld ''fd_type'')\<rparr>)"

definition ReadWriteEntryData_fields :: "ReadWriteEntryData \<Rightarrow> bytes list" where
  "ReadWriteEntryData_fields v =
     [le_bytes 4 (unat (rwd_fd v)), le_bytes 8 (unat (rwd_requested_size v)), [rwd_fd_type v]]"

definition ReadWriteEntryData_bytes :: "(nat \<Rightarrow> byte) \<Rightarrow> ReadWriteEntryData \<Rightarrow> bytes" where
  "ReadWriteEntryData_bytes pad v = struct_bytes pad ReadWriteEntryData_layout (ReadWriteEntryData_fields v)"

definition ReadWriteEntryData_SIZE :: nat where "ReadWriteEntryData_SIZE = struct_size ReadWriteEntryData_layout"

lemma ReadWriteEntryData_SIZE [wire_simps]: "ReadWriteEntryData_SIZE = 24" by code_simp

lemma ReadWriteEntryData_fits: "fits ReadWriteEntryData_layout (ReadWriteEntryData_fields v)"
  by (simp add: ReadWriteEntryData_layout_def ReadWriteEntryData_fields_def ctype_defs wire_simps)

lemma ReadWriteEntryData_names: "map fst ReadWriteEntryData_layout =
     [''fd'', ''requested_size'', ''fd_type'']"
  by (simp add: ReadWriteEntryData_layout_def)

lemma ReadWriteEntryData_read: "read_ReadWriteEntryData (ReadWriteEntryData_bytes pad v @ rest) = v"
  by (simp add: read_ReadWriteEntryData_def ReadWriteEntryData_bytes_def Let_def
      field_of_struct[OF ReadWriteEntryData_fits] ReadWriteEntryData_names)
    (simp add: ReadWriteEntryData_fields_def wire_simps)

interpretation rwd_wire: wire_struct read_ReadWriteEntryData ReadWriteEntryData_bytes "(\<lambda>_. True)" ReadWriteEntryData_SIZE
  by unfold_locales (simp_all add: ReadWriteEntryData_bytes_def ReadWriteEntryData_SIZE_def length_struct_bytes ReadWriteEntryData_fits
      ReadWriteEntryData_read[unfolded ReadWriteEntryData_bytes_def])

section \<open>ConnBindData\<close>

record ConnBindData =
  cbd_family :: "16 word"
  cbd_port :: "16 word"
  cbd_addr_v4 :: "32 word"
  cbd_addr_v6 :: "bytes"

definition ConnBindData_layout :: layout where
  "ConnBindData_layout =
     [(''family'', u16), (''port'', u16), (''addr_v4'', u32), (''addr_v6'', array_of 16 u8)]"

definition read_ConnBindData :: "bytes \<Rightarrow> ConnBindData" where
  "read_ConnBindData bs = (let fld = (\<lambda>f. field ConnBindData_layout f bs) in
     \<lparr>cbd_family = le_word (fld ''family''), cbd_port = le_word (fld ''port''),
      cbd_addr_v4 = le_word (fld ''addr_v4''), cbd_addr_v6 = fld ''addr_v6''\<rparr>)"

definition ConnBindData_fields :: "ConnBindData \<Rightarrow> bytes list" where
  "ConnBindData_fields v =
     [le_bytes 2 (unat (cbd_family v)), le_bytes 2 (unat (cbd_port v)),
      le_bytes 4 (unat (cbd_addr_v4 v)), cbd_addr_v6 v]"

definition ConnBindData_bytes :: "(nat \<Rightarrow> byte) \<Rightarrow> ConnBindData \<Rightarrow> bytes" where
  "ConnBindData_bytes pad v = struct_bytes pad ConnBindData_layout (ConnBindData_fields v)"

definition wf_ConnBindData :: "ConnBindData \<Rightarrow> bool" where
  "wf_ConnBindData v \<longleftrightarrow> length (cbd_addr_v6 v) = 16"

definition ConnBindData_SIZE :: nat where "ConnBindData_SIZE = struct_size ConnBindData_layout"

lemma ConnBindData_SIZE [wire_simps]: "ConnBindData_SIZE = 24" by code_simp

lemma ConnBindData_fits: "wf_ConnBindData v \<Longrightarrow> fits ConnBindData_layout (ConnBindData_fields v)"
  by (simp add: ConnBindData_layout_def ConnBindData_fields_def wf_ConnBindData_def ctype_defs wire_simps)

lemma ConnBindData_names: "map fst ConnBindData_layout =
     [''family'', ''port'', ''addr_v4'', ''addr_v6'']"
  by (simp add: ConnBindData_layout_def)

lemma ConnBindData_read: "wf_ConnBindData v \<Longrightarrow> read_ConnBindData (ConnBindData_bytes pad v @ rest) = v"
  by (simp add: read_ConnBindData_def ConnBindData_bytes_def Let_def
      field_of_struct[OF ConnBindData_fits] ConnBindData_names)
    (simp add: ConnBindData_fields_def wf_ConnBindData_def wire_simps)

interpretation cbd_wire: wire_struct read_ConnBindData ConnBindData_bytes "wf_ConnBindData" ConnBindData_SIZE
  by unfold_locales (simp_all add: ConnBindData_bytes_def ConnBindData_SIZE_def length_struct_bytes ConnBindData_fits
      ConnBindData_read[unfolded ConnBindData_bytes_def])

section \<open>ListenData\<close>

record ListenData =
  lid_fd :: "32 word"
  lid_backlog :: "32 word"

definition ListenData_layout :: layout where
  "ListenData_layout =
     [(''fd'', u32), (''backlog'', u32)]"

definition read_ListenData :: "bytes \<Rightarrow> ListenData" where
  "read_ListenData bs = (let fld = (\<lambda>f. field ListenData_layout f bs) in
     \<lparr>lid_fd = le_word (fld ''fd''), lid_backlog = le_word (fld ''backlog'')\<rparr>)"

definition ListenData_fields :: "ListenData \<Rightarrow> bytes list" where
  "ListenData_fields v =
     [le_bytes 4 (unat (lid_fd v)), le_bytes 4 (unat (lid_backlog v))]"

definition ListenData_bytes :: "(nat \<Rightarrow> byte) \<Rightarrow> ListenData \<Rightarrow> bytes" where
  "ListenData_bytes pad v = struct_bytes pad ListenData_layout (ListenData_fields v)"

definition ListenData_SIZE :: nat where "ListenData_SIZE = struct_size ListenData_layout"

lemma ListenData_SIZE [wire_simps]: "ListenData_SIZE = 8" by code_simp

lemma ListenData_fits: "fits ListenData_layout (ListenData_fields v)"
  by (simp add: ListenData_layout_def ListenData_fields_def ctype_defs wire_simps)

lemma ListenData_names: "map fst ListenData_layout =
     [''fd'', ''backlog'']"
  by (simp add: ListenData_layout_def)

lemma ListenData_read: "read_ListenData (ListenData_bytes pad v @ rest) = v"
  by (simp add: read_ListenData_def ListenData_bytes_def Let_def
      field_of_struct[OF ListenData_fits] ListenData_names)
    (simp add: ListenData_fields_def wire_simps)

interpretation lid_wire: wire_struct read_ListenData ListenData_bytes "(\<lambda>_. True)" ListenData_SIZE
  by unfold_locales (simp_all add: ListenData_bytes_def ListenData_SIZE_def length_struct_bytes ListenData_fits
      ListenData_read[unfolded ListenData_bytes_def])

section \<open>SocketData\<close>

record SocketData =
  sod_domain :: "32 word"
  sod_sock_type :: "32 word"
  sod_protocol :: "32 word"

definition SocketData_layout :: layout where
  "SocketData_layout =
     [(''domain'', u32), (''sock_type'', u32), (''protocol'', u32)]"

definition read_SocketData :: "bytes \<Rightarrow> SocketData" where
  "read_SocketData bs = (let fld = (\<lambda>f. field SocketData_layout f bs) in
     \<lparr>sod_domain = le_word (fld ''domain''), sod_sock_type = le_word (fld ''sock_type''),
      sod_protocol = le_word (fld ''protocol'')\<rparr>)"

definition SocketData_fields :: "SocketData \<Rightarrow> bytes list" where
  "SocketData_fields v =
     [le_bytes 4 (unat (sod_domain v)), le_bytes 4 (unat (sod_sock_type v)),
      le_bytes 4 (unat (sod_protocol v))]"

definition SocketData_bytes :: "(nat \<Rightarrow> byte) \<Rightarrow> SocketData \<Rightarrow> bytes" where
  "SocketData_bytes pad v = struct_bytes pad SocketData_layout (SocketData_fields v)"

definition SocketData_SIZE :: nat where "SocketData_SIZE = struct_size SocketData_layout"

lemma SocketData_SIZE [wire_simps]: "SocketData_SIZE = 12" by code_simp

lemma SocketData_fits: "fits SocketData_layout (SocketData_fields v)"
  by (simp add: SocketData_layout_def SocketData_fields_def ctype_defs wire_simps)

lemma SocketData_names: "map fst SocketData_layout =
     [''domain'', ''sock_type'', ''protocol'']"
  by (simp add: SocketData_layout_def)

lemma SocketData_read: "read_SocketData (SocketData_bytes pad v @ rest) = v"
  by (simp add: read_SocketData_def SocketData_bytes_def Let_def
      field_of_struct[OF SocketData_fits] SocketData_names)
    (simp add: SocketData_fields_def wire_simps)

interpretation sod_wire: wire_struct read_SocketData SocketData_bytes "(\<lambda>_. True)" SocketData_SIZE
  by unfold_locales (simp_all add: SocketData_bytes_def SocketData_SIZE_def length_struct_bytes SocketData_fits
      SocketData_read[unfolded SocketData_bytes_def])

section \<open>CloneData\<close>

record CloneData =
  cld_flags :: "64 word"

definition CloneData_layout :: layout where
  "CloneData_layout =
     [(''flags'', u64)]"

definition read_CloneData :: "bytes \<Rightarrow> CloneData" where
  "read_CloneData bs = (let fld = (\<lambda>f. field CloneData_layout f bs) in
     \<lparr>cld_flags = le_word (fld ''flags'')\<rparr>)"

definition CloneData_fields :: "CloneData \<Rightarrow> bytes list" where
  "CloneData_fields v =
     [le_bytes 8 (unat (cld_flags v))]"

definition CloneData_bytes :: "(nat \<Rightarrow> byte) \<Rightarrow> CloneData \<Rightarrow> bytes" where
  "CloneData_bytes pad v = struct_bytes pad CloneData_layout (CloneData_fields v)"

definition CloneData_SIZE :: nat where "CloneData_SIZE = struct_size CloneData_layout"

lemma CloneData_SIZE [wire_simps]: "CloneData_SIZE = 8" by code_simp

lemma CloneData_fits: "fits CloneData_layout (CloneData_fields v)"
  by (simp add: CloneData_layout_def CloneData_fields_def ctype_defs wire_simps)

lemma CloneData_names: "map fst CloneData_layout =
     [''flags'']"
  by (simp add: CloneData_layout_def)

lemma CloneData_read: "read_CloneData (CloneData_bytes pad v @ rest) = v"
  by (simp add: read_CloneData_def CloneData_bytes_def Let_def
      field_of_struct[OF CloneData_fits] CloneData_names)
    (simp add: CloneData_fields_def wire_simps)

interpretation cld_wire: wire_struct read_CloneData CloneData_bytes "(\<lambda>_. True)" CloneData_SIZE
  by unfold_locales (simp_all add: CloneData_bytes_def CloneData_SIZE_def length_struct_bytes CloneData_fits
      CloneData_read[unfolded CloneData_bytes_def])

section \<open>FdData\<close>

record FdData =
  fdd_fd :: "32 word"

definition FdData_layout :: layout where
  "FdData_layout =
     [(''fd'', u32)]"

definition read_FdData :: "bytes \<Rightarrow> FdData" where
  "read_FdData bs = (let fld = (\<lambda>f. field FdData_layout f bs) in
     \<lparr>fdd_fd = le_word (fld ''fd'')\<rparr>)"

definition FdData_fields :: "FdData \<Rightarrow> bytes list" where
  "FdData_fields v =
     [le_bytes 4 (unat (fdd_fd v))]"

definition FdData_bytes :: "(nat \<Rightarrow> byte) \<Rightarrow> FdData \<Rightarrow> bytes" where
  "FdData_bytes pad v = struct_bytes pad FdData_layout (FdData_fields v)"

definition FdData_SIZE :: nat where "FdData_SIZE = struct_size FdData_layout"

lemma FdData_SIZE [wire_simps]: "FdData_SIZE = 4" by code_simp

lemma FdData_fits: "fits FdData_layout (FdData_fields v)"
  by (simp add: FdData_layout_def FdData_fields_def ctype_defs wire_simps)

lemma FdData_names: "map fst FdData_layout =
     [''fd'']"
  by (simp add: FdData_layout_def)

lemma FdData_read: "read_FdData (FdData_bytes pad v @ rest) = v"
  by (simp add: read_FdData_def FdData_bytes_def Let_def
      field_of_struct[OF FdData_fits] FdData_names)
    (simp add: FdData_fields_def wire_simps)

interpretation fdd_wire: wire_struct read_FdData FdData_bytes "(\<lambda>_. True)" FdData_SIZE
  by unfold_locales (simp_all add: FdData_bytes_def FdData_SIZE_def length_struct_bytes FdData_fits
      FdData_read[unfolded FdData_bytes_def])

section \<open>SendRecvData\<close>

record SendRecvData =
  srd_fd :: "32 word"
  srd_family :: "16 word"
  srd_port :: "16 word"
  srd_addr_v4 :: "32 word"
  srd_addr_v6 :: "bytes"
  srd_size :: "64 word"

definition SendRecvData_layout :: layout where
  "SendRecvData_layout =
     [(''fd'', u32), (''family'', u16), (''port'', u16), (''addr_v4'', u32),
      (''addr_v6'', array_of 16 u8), (''size'', u64)]"

definition read_SendRecvData :: "bytes \<Rightarrow> SendRecvData" where
  "read_SendRecvData bs = (let fld = (\<lambda>f. field SendRecvData_layout f bs) in
     \<lparr>srd_fd = le_word (fld ''fd''), srd_family = le_word (fld ''family''),
      srd_port = le_word (fld ''port''), srd_addr_v4 = le_word (fld ''addr_v4''),
      srd_addr_v6 = fld ''addr_v6'', srd_size = le_word (fld ''size'')\<rparr>)"

definition SendRecvData_fields :: "SendRecvData \<Rightarrow> bytes list" where
  "SendRecvData_fields v =
     [le_bytes 4 (unat (srd_fd v)), le_bytes 2 (unat (srd_family v)),
      le_bytes 2 (unat (srd_port v)), le_bytes 4 (unat (srd_addr_v4 v)), srd_addr_v6 v,
      le_bytes 8 (unat (srd_size v))]"

definition SendRecvData_bytes :: "(nat \<Rightarrow> byte) \<Rightarrow> SendRecvData \<Rightarrow> bytes" where
  "SendRecvData_bytes pad v = struct_bytes pad SendRecvData_layout (SendRecvData_fields v)"

definition wf_SendRecvData :: "SendRecvData \<Rightarrow> bool" where
  "wf_SendRecvData v \<longleftrightarrow> length (srd_addr_v6 v) = 16"

definition SendRecvData_SIZE :: nat where "SendRecvData_SIZE = struct_size SendRecvData_layout"

lemma SendRecvData_SIZE [wire_simps]: "SendRecvData_SIZE = 40" by code_simp

lemma SendRecvData_fits: "wf_SendRecvData v \<Longrightarrow> fits SendRecvData_layout (SendRecvData_fields v)"
  by (simp add: SendRecvData_layout_def SendRecvData_fields_def wf_SendRecvData_def ctype_defs wire_simps)

lemma SendRecvData_names: "map fst SendRecvData_layout =
     [''fd'', ''family'', ''port'', ''addr_v4'', ''addr_v6'', ''size'']"
  by (simp add: SendRecvData_layout_def)

lemma SendRecvData_read: "wf_SendRecvData v \<Longrightarrow> read_SendRecvData (SendRecvData_bytes pad v @ rest) = v"
  by (simp add: read_SendRecvData_def SendRecvData_bytes_def Let_def
      field_of_struct[OF SendRecvData_fits] SendRecvData_names)
    (simp add: SendRecvData_fields_def wf_SendRecvData_def wire_simps)

interpretation srd_wire: wire_struct read_SendRecvData SendRecvData_bytes "wf_SendRecvData" SendRecvData_SIZE
  by unfold_locales (simp_all add: SendRecvData_bytes_def SendRecvData_SIZE_def length_struct_bytes SendRecvData_fits
      SendRecvData_read[unfolded SendRecvData_bytes_def])

section \<open>DupEntryData\<close>

record DupEntryData =
  dud_oldfd :: "32 word"
  dud_cloexec :: "byte"

definition DupEntryData_layout :: layout where
  "DupEntryData_layout =
     [(''oldfd'', u32), (''cloexec'', u8), (''_pad'', array_of 3 u8)]"

definition read_DupEntryData :: "bytes \<Rightarrow> DupEntryData" where
  "read_DupEntryData bs = (let fld = (\<lambda>f. field DupEntryData_layout f bs) in
     \<lparr>dud_oldfd = le_word (fld ''oldfd''), dud_cloexec = le_word (fld ''cloexec'')\<rparr>)"

definition DupEntryData_fields :: "DupEntryData \<Rightarrow> bytes list" where
  "DupEntryData_fields v =
     [le_bytes 4 (unat (dud_oldfd v)), [dud_cloexec v], le_bytes 3 0]"

definition DupEntryData_bytes :: "(nat \<Rightarrow> byte) \<Rightarrow> DupEntryData \<Rightarrow> bytes" where
  "DupEntryData_bytes pad v = struct_bytes pad DupEntryData_layout (DupEntryData_fields v)"

definition DupEntryData_SIZE :: nat where "DupEntryData_SIZE = struct_size DupEntryData_layout"

lemma DupEntryData_SIZE [wire_simps]: "DupEntryData_SIZE = 8" by code_simp

lemma DupEntryData_fits: "fits DupEntryData_layout (DupEntryData_fields v)"
  by (simp add: DupEntryData_layout_def DupEntryData_fields_def ctype_defs wire_simps)

lemma DupEntryData_names: "map fst DupEntryData_layout =
     [''oldfd'', ''cloexec'', ''_pad'']"
  by (simp add: DupEntryData_layout_def)

lemma DupEntryData_read: "read_DupEntryData (DupEntryData_bytes pad v @ rest) = v"
  by (simp add: read_DupEntryData_def DupEntryData_bytes_def Let_def
      field_of_struct[OF DupEntryData_fits] DupEntryData_names)
    (simp add: DupEntryData_fields_def wire_simps)

interpretation dud_wire: wire_struct read_DupEntryData DupEntryData_bytes "(\<lambda>_. True)" DupEntryData_SIZE
  by unfold_locales (simp_all add: DupEntryData_bytes_def DupEntryData_SIZE_def length_struct_bytes DupEntryData_fits
      DupEntryData_read[unfolded DupEntryData_bytes_def])

section \<open>PreadPwriteEntryData\<close>

record PreadPwriteEntryData =
  ppd_fd :: "32 word"
  ppd_requested_size :: "64 word"
  ppd_offset :: "64 word"
  ppd_fd_type :: "byte"

definition PreadPwriteEntryData_layout :: layout where
  "PreadPwriteEntryData_layout =
     [(''fd'', u32), (''requested_size'', u64), (''offset'', u64), (''fd_type'', u8)]"

definition read_PreadPwriteEntryData :: "bytes \<Rightarrow> PreadPwriteEntryData" where
  "read_PreadPwriteEntryData bs = (let fld = (\<lambda>f. field PreadPwriteEntryData_layout f bs) in
     \<lparr>ppd_fd = le_word (fld ''fd''), ppd_requested_size = le_word (fld ''requested_size''),
      ppd_offset = le_word (fld ''offset''), ppd_fd_type = le_word (fld ''fd_type'')\<rparr>)"

definition PreadPwriteEntryData_fields :: "PreadPwriteEntryData \<Rightarrow> bytes list" where
  "PreadPwriteEntryData_fields v =
     [le_bytes 4 (unat (ppd_fd v)), le_bytes 8 (unat (ppd_requested_size v)),
      le_bytes 8 (unat (ppd_offset v)), [ppd_fd_type v]]"

definition PreadPwriteEntryData_bytes :: "(nat \<Rightarrow> byte) \<Rightarrow> PreadPwriteEntryData \<Rightarrow> bytes" where
  "PreadPwriteEntryData_bytes pad v = struct_bytes pad PreadPwriteEntryData_layout (PreadPwriteEntryData_fields v)"

definition PreadPwriteEntryData_SIZE :: nat where "PreadPwriteEntryData_SIZE = struct_size PreadPwriteEntryData_layout"

lemma PreadPwriteEntryData_SIZE [wire_simps]: "PreadPwriteEntryData_SIZE = 32" by code_simp

lemma PreadPwriteEntryData_fits: "fits PreadPwriteEntryData_layout (PreadPwriteEntryData_fields v)"
  by (simp add: PreadPwriteEntryData_layout_def PreadPwriteEntryData_fields_def ctype_defs wire_simps)

lemma PreadPwriteEntryData_names: "map fst PreadPwriteEntryData_layout =
     [''fd'', ''requested_size'', ''offset'', ''fd_type'']"
  by (simp add: PreadPwriteEntryData_layout_def)

lemma PreadPwriteEntryData_read: "read_PreadPwriteEntryData (PreadPwriteEntryData_bytes pad v @ rest) = v"
  by (simp add: read_PreadPwriteEntryData_def PreadPwriteEntryData_bytes_def Let_def
      field_of_struct[OF PreadPwriteEntryData_fits] PreadPwriteEntryData_names)
    (simp add: PreadPwriteEntryData_fields_def wire_simps)

interpretation ppd_wire: wire_struct read_PreadPwriteEntryData PreadPwriteEntryData_bytes "(\<lambda>_. True)" PreadPwriteEntryData_SIZE
  by unfold_locales (simp_all add: PreadPwriteEntryData_bytes_def PreadPwriteEntryData_SIZE_def length_struct_bytes PreadPwriteEntryData_fits
      PreadPwriteEntryData_read[unfolded PreadPwriteEntryData_bytes_def])

section \<open>UserIovec\<close>

record UserIovec =
  iov_iov_base :: "64 word"
  iov_iov_len :: "64 word"

definition UserIovec_layout :: layout where
  "UserIovec_layout =
     [(''iov_base'', u64), (''iov_len'', u64)]"

definition read_UserIovec :: "bytes \<Rightarrow> UserIovec" where
  "read_UserIovec bs = (let fld = (\<lambda>f. field UserIovec_layout f bs) in
     \<lparr>iov_iov_base = le_word (fld ''iov_base''), iov_iov_len = le_word (fld ''iov_len'')\<rparr>)"

definition UserIovec_fields :: "UserIovec \<Rightarrow> bytes list" where
  "UserIovec_fields v =
     [le_bytes 8 (unat (iov_iov_base v)), le_bytes 8 (unat (iov_iov_len v))]"

definition UserIovec_bytes :: "(nat \<Rightarrow> byte) \<Rightarrow> UserIovec \<Rightarrow> bytes" where
  "UserIovec_bytes pad v = struct_bytes pad UserIovec_layout (UserIovec_fields v)"

definition UserIovec_SIZE :: nat where "UserIovec_SIZE = struct_size UserIovec_layout"

lemma UserIovec_SIZE [wire_simps]: "UserIovec_SIZE = 16" by code_simp

lemma UserIovec_fits: "fits UserIovec_layout (UserIovec_fields v)"
  by (simp add: UserIovec_layout_def UserIovec_fields_def ctype_defs wire_simps)

lemma UserIovec_names: "map fst UserIovec_layout =
     [''iov_base'', ''iov_len'']"
  by (simp add: UserIovec_layout_def)

lemma UserIovec_read: "read_UserIovec (UserIovec_bytes pad v @ rest) = v"
  by (simp add: read_UserIovec_def UserIovec_bytes_def Let_def
      field_of_struct[OF UserIovec_fits] UserIovec_names)
    (simp add: UserIovec_fields_def wire_simps)

interpretation iov_wire: wire_struct read_UserIovec UserIovec_bytes "(\<lambda>_. True)" UserIovec_SIZE
  by unfold_locales (simp_all add: UserIovec_bytes_def UserIovec_SIZE_def length_struct_bytes UserIovec_fits
      UserIovec_read[unfolded UserIovec_bytes_def])

section \<open>ReadvWritevEntryData\<close>

record ReadvWritevEntryData =
  rvd_fd :: "32 word"
  rvd_iov_count :: "32 word"
  rvd_iov_truncated :: "byte"
  rvd_requested_size :: "64 word"
  rvd_fd_type :: "byte"

definition ReadvWritevEntryData_layout :: layout where
  "ReadvWritevEntryData_layout =
     [(''fd'', u32), (''iov_count'', u32), (''iov_truncated'', u8), (''_pad'', array_of 3 u8),
      (''requested_size'', u64), (''fd_type'', u8)]"

definition read_ReadvWritevEntryData :: "bytes \<Rightarrow> ReadvWritevEntryData" where
  "read_ReadvWritevEntryData bs = (let fld = (\<lambda>f. field ReadvWritevEntryData_layout f bs) in
     \<lparr>rvd_fd = le_word (fld ''fd''), rvd_iov_count = le_word (fld ''iov_count''),
      rvd_iov_truncated = le_word (fld ''iov_truncated''),
      rvd_requested_size = le_word (fld ''requested_size''),
      rvd_fd_type = le_word (fld ''fd_type'')\<rparr>)"

definition ReadvWritevEntryData_fields :: "ReadvWritevEntryData \<Rightarrow> bytes list" where
  "ReadvWritevEntryData_fields v =
     [le_bytes 4 (unat (rvd_fd v)), le_bytes 4 (unat (rvd_iov_count v)), [rvd_iov_truncated v],
      le_bytes 3 0, le_bytes 8 (unat (rvd_requested_size v)), [rvd_fd_type v]]"

definition ReadvWritevEntryData_bytes :: "(nat \<Rightarrow> byte) \<Rightarrow> ReadvWritevEntryData \<Rightarrow> bytes" where
  "ReadvWritevEntryData_bytes pad v = struct_bytes pad ReadvWritevEntryData_layout (ReadvWritevEntryData_fields v)"

definition ReadvWritevEntryData_SIZE :: nat where "ReadvWritevEntryData_SIZE = struct_size ReadvWritevEntryData_layout"

lemma ReadvWritevEntryData_SIZE [wire_simps]: "ReadvWritevEntryData_SIZE = 32" by code_simp

lemma ReadvWritevEntryData_fits: "fits ReadvWritevEntryData_layout (ReadvWritevEntryData_fields v)"
  by (simp add: ReadvWritevEntryData_layout_def ReadvWritevEntryData_fields_def ctype_defs wire_simps)

lemma ReadvWritevEntryData_names: "map fst ReadvWritevEntryData_layout =
     [''fd'', ''iov_count'', ''iov_truncated'', ''_pad'', ''requested_size'', ''fd_type'']"
  by (simp add: ReadvWritevEntryData_layout_def)

lemma ReadvWritevEntryData_read: "read_ReadvWritevEntryData (ReadvWritevEntryData_bytes pad v @ rest) = v"
  by (simp add: read_ReadvWritevEntryData_def ReadvWritevEntryData_bytes_def Let_def
      field_of_struct[OF ReadvWritevEntryData_fits] ReadvWritevEntryData_names)
    (simp add: ReadvWritevEntryData_fields_def wire_simps)

interpretation rvd_wire: wire_struct read_ReadvWritevEntryData ReadvWritevEntryData_bytes "(\<lambda>_. True)" ReadvWritevEntryData_SIZE
  by unfold_locales (simp_all add: ReadvWritevEntryData_bytes_def ReadvWritevEntryData_SIZE_def length_struct_bytes ReadvWritevEntryData_fits
      ReadvWritevEntryData_read[unfolded ReadvWritevEntryData_bytes_def])

section \<open>MmapEntryData\<close>

record MmapEntryData =
  mmd_fd :: "32 word"
  mmd_prot :: "32 word"
  mmd_flags :: "32 word"
  mmd_length :: "64 word"
  mmd_offset :: "64 word"

definition MmapEntryData_layout :: layout where
  "MmapEntryData_layout =
     [(''fd'', u32), (''prot'', u32), (''flags'', u32), (''length'', u64), (''offset'', u64)]"

definition read_MmapEntryData :: "bytes \<Rightarrow> MmapEntryData" where
  "read_MmapEntryData bs = (let fld = (\<lambda>f. field MmapEntryData_layout f bs) in
     \<lparr>mmd_fd = le_word (fld ''fd''), mmd_prot = le_word (fld ''prot''),
      mmd_flags = le_word (fld ''flags''), mmd_length = le_word (fld ''length''),
      mmd_offset = le_word (fld ''offset'')\<rparr>)"

definition MmapEntryData_fields :: "MmapEntryData \<Rightarrow> bytes list" where
  "MmapEntryData_fields v =
     [le_bytes 4 (unat (mmd_fd v)), le_bytes 4 (unat (mmd_prot v)),
      le_bytes 4 (unat (mmd_flags v)), le_bytes 8 (unat (mmd_length v)),
      le_bytes 8 (unat (mmd_offset v))]"

definition MmapEntryData_bytes :: "(nat \<Rightarrow> byte) \<Rightarrow> MmapEntryData \<Rightarrow> bytes" where
  "MmapEntryData_bytes pad v = struct_bytes pad MmapEntryData_layout (MmapEntryData_fields v)"

definition MmapEntryData_SIZE :: nat where "MmapEntryData_SIZE = struct_size MmapEntryData_layout"

lemma MmapEntryData_SIZE [wire_simps]: "MmapEntryData_SIZE = 32" by code_simp

lemma MmapEntryData_fits: "fits MmapEntryData_layout (MmapEntryData_fields v)"
  by (simp add: MmapEntryData_layout_def MmapEntryData_fields_def ctype_defs wire_simps)

lemma MmapEntryData_names: "map fst MmapEntryData_layout =
     [''fd'', ''prot'', ''flags'', ''length'', ''offset'']"
  by (simp add: MmapEntryData_layout_def)

lemma MmapEntryData_read: "read_MmapEntryData (MmapEntryData_bytes pad v @ rest) = v"
  by (simp add: read_MmapEntryData_def MmapEntryData_bytes_def Let_def
      field_of_struct[OF MmapEntryData_fits] MmapEntryData_names)
    (simp add: MmapEntryData_fields_def wire_simps)

interpretation mmd_wire: wire_struct read_MmapEntryData MmapEntryData_bytes "(\<lambda>_. True)" MmapEntryData_SIZE
  by unfold_locales (simp_all add: MmapEntryData_bytes_def MmapEntryData_SIZE_def length_struct_bytes MmapEntryData_fits
      MmapEntryData_read[unfolded MmapEntryData_bytes_def])

section \<open>SendfileSpliceEntryData\<close>

record SendfileSpliceEntryData =
  ssd_in_fd :: "32 word"
  ssd_out_fd :: "32 word"
  ssd_in_fd_type :: "byte"
  ssd_out_fd_type :: "byte"
  ssd_size :: "64 word"

definition SendfileSpliceEntryData_layout :: layout where
  "SendfileSpliceEntryData_layout =
     [(''in_fd'', u32), (''out_fd'', u32), (''in_fd_type'', u8), (''out_fd_type'', u8),
      (''_pad'', array_of 2 u8), (''size'', u64)]"

definition read_SendfileSpliceEntryData :: "bytes \<Rightarrow> SendfileSpliceEntryData" where
  "read_SendfileSpliceEntryData bs = (let fld = (\<lambda>f. field SendfileSpliceEntryData_layout f bs) in
     \<lparr>ssd_in_fd = le_word (fld ''in_fd''), ssd_out_fd = le_word (fld ''out_fd''),
      ssd_in_fd_type = le_word (fld ''in_fd_type''),
      ssd_out_fd_type = le_word (fld ''out_fd_type''), ssd_size = le_word (fld ''size'')\<rparr>)"

definition SendfileSpliceEntryData_fields :: "SendfileSpliceEntryData \<Rightarrow> bytes list" where
  "SendfileSpliceEntryData_fields v =
     [le_bytes 4 (unat (ssd_in_fd v)), le_bytes 4 (unat (ssd_out_fd v)), [ssd_in_fd_type v],
      [ssd_out_fd_type v], le_bytes 2 0, le_bytes 8 (unat (ssd_size v))]"

definition SendfileSpliceEntryData_bytes :: "(nat \<Rightarrow> byte) \<Rightarrow> SendfileSpliceEntryData \<Rightarrow> bytes" where
  "SendfileSpliceEntryData_bytes pad v = struct_bytes pad SendfileSpliceEntryData_layout (SendfileSpliceEntryData_fields v)"

definition SendfileSpliceEntryData_SIZE :: nat where "SendfileSpliceEntryData_SIZE = struct_size SendfileSpliceEntryData_layout"

lemma SendfileSpliceEntryData_SIZE [wire_simps]: "SendfileSpliceEntryData_SIZE = 24" by code_simp

lemma SendfileSpliceEntryData_fits: "fits SendfileSpliceEntryData_layout (SendfileSpliceEntryData_fields v)"
  by (simp add: SendfileSpliceEntryData_layout_def SendfileSpliceEntryData_fields_def ctype_defs wire_simps)

lemma SendfileSpliceEntryData_names: "map fst SendfileSpliceEntryData_layout =
     [''in_fd'', ''out_fd'', ''in_fd_type'', ''out_fd_type'', ''_pad'', ''size'']"
  by (simp add: SendfileSpliceEntryData_layout_def)

lemma SendfileSpliceEntryData_read: "read_SendfileSpliceEntryData (SendfileSpliceEntryData_bytes pad v @ rest) = v"
  by (simp add: read_SendfileSpliceEntryData_def SendfileSpliceEntryData_bytes_def Let_def
      field_of_struct[OF SendfileSpliceEntryData_fits] SendfileSpliceEntryData_names)
    (simp add: SendfileSpliceEntryData_fields_def wire_simps)

interpretation ssd_wire: wire_struct read_SendfileSpliceEntryData SendfileSpliceEntryData_bytes "(\<lambda>_. True)" SendfileSpliceEntryData_SIZE
  by unfold_locales (simp_all add: SendfileSpliceEntryData_bytes_def SendfileSpliceEntryData_SIZE_def length_struct_bytes SendfileSpliceEntryData_fits
      SendfileSpliceEntryData_read[unfolded SendfileSpliceEntryData_bytes_def])

end
