(* ===== verification/BpfLifecycle.thy ===== *)
theory BpfLifecycle
  imports BpfRaw RichEntries
begin

text \<open>
  \<open>bloodhound-ebpf/src/lifecycle.rs\<close> and \<open>signal.rs\<close>: process creation, exit and
  release as the scheduler tracepoints show them, and signal observation.  The
  exit program first reclaims whatever invocation the dying thread left in the
  entry maps, then elects one reporter per process instance through
  \<open>EXIT_CLAIMS\<close>; the free program gives the claim back.
\<close>

section \<open>Reason codes\<close>

definition OPENAT_INVOCATION_INTERRUPTED :: nat where "OPENAT_INVOCATION_INTERRUPTED = 3"
definition EXEC_INVOCATION_INTERRUPTED :: nat where "EXEC_INVOCATION_INTERRUPTED = 3"
definition EXEC_ENTRY_CLEANUP_FAILED :: nat where "EXEC_ENTRY_CLEANUP_FAILED = 4"
definition EXIT_CAPTURE_FAILED :: nat where "EXIT_CAPTURE_FAILED = 0"
definition EXIT_CLAIM_FAILED :: nat where "EXIT_CLAIM_FAILED = 1"
definition CLEANUP_CAPTURE_FAILED :: nat where "CLEANUP_CAPTURE_FAILED = 2"
definition CLEANUP_DELETE_FAILED :: nat where "CLEANUP_DELETE_FAILED = 3"

section \<open>Reclaiming interrupted invocations\<close>

definition tty_interrupt :: "Hook \<Rightarrow> Maps \<Rightarrow> Maps" where
  "tty_interrupt h m =
     (if TTY_READ_ENTRY_MAP m (k_pid_tgid h) = None then m
      else (case hash_remove (k_delete_error h ''TTY_READ_ENTRY_MAP'') (TTY_READ_ENTRY_MAP m) (k_pid_tgid h) of
        (r, entries) \<Rightarrow> cleanup_in TTY_FAILURES r
          ((failure TTY_FAILURES SYSCALL_INVOCATION_INTERRUPTED m)\<lparr>TTY_READ_ENTRY_MAP := entries\<rparr>)))"

definition openat_interrupt :: "Hook \<Rightarrow> Maps \<Rightarrow> Maps" where
  "openat_interrupt h m =
     (if OPENAT_ENTRY_MAP m (k_pid_tgid h) = None then m
      else (failure OPENAT_FAILURES OPENAT_INVOCATION_INTERRUPTED m)\<lparr>OPENAT_ENTRY_MAP :=
        snd (hash_remove (k_delete_error h ''OPENAT_ENTRY_MAP'') (OPENAT_ENTRY_MAP m) (k_pid_tgid h))\<rparr>)"

definition raw_interrupt :: "Hook \<Rightarrow> Maps \<Rightarrow> Maps" where
  "raw_interrupt h m =
     (if SYSCALL_ENTRY_MAP m (k_pid_tgid h) = None then m
      else raw_cleanup h (failure RAW_SYSCALL_FAILURES SYSCALL_INVOCATION_INTERRUPTED m))"

definition path_interrupt :: "Hook \<Rightarrow> Maps \<Rightarrow> Maps" where
  "path_interrupt h m =
     (if PATH_ENTRY_MAP m (k_pid_tgid h) = None then m
      else (case hash_remove (k_delete_error h ''PATH_ENTRY_MAP'') (PATH_ENTRY_MAP m) (k_pid_tgid h) of
        (r, entries) \<Rightarrow> cleanup_in SYSCALL_FAILURES r
          ((failure SYSCALL_FAILURES SYSCALL_INVOCATION_INTERRUPTED m)\<lparr>PATH_ENTRY_MAP := entries\<rparr>)))"

definition rich_interrupt :: "Hook \<Rightarrow> Maps \<Rightarrow> Maps" where
  "rich_interrupt h m =
     (if RICH_ENTRY_MAP m (k_pid_tgid h) = None then m
      else (case hash_remove (k_delete_error h ''RICH_ENTRY_MAP'') (RICH_ENTRY_MAP m) (k_pid_tgid h) of
        (r, entries) \<Rightarrow> cleanup_in SYSCALL_FAILURES r
          ((failure SYSCALL_FAILURES SYSCALL_INVOCATION_INTERRUPTED m)\<lparr>RICH_ENTRY_MAP := entries\<rparr>)))"

definition exec_remove_entry :: "Hook \<Rightarrow> Maps \<Rightarrow> Maps" where
  "exec_remove_entry h m =
     (case hash_remove (k_delete_error h ''EXECVE_ENTRY_MAP'') (EXECVE_ENTRY_MAP m) (k_task h) of
       (Inr _, entries) \<Rightarrow> m\<lparr>EXECVE_ENTRY_MAP := entries\<rparr>
     | (Inl _, entries) \<Rightarrow> failure EXEC_FAILURES EXEC_ENTRY_CLEANUP_FAILED m)"

definition exec_interrupt :: "Hook \<Rightarrow> Maps \<Rightarrow> Maps" where
  "exec_interrupt h m =
     (if EXECVE_ENTRY_MAP m (k_task h) = None then m
      else exec_remove_entry h (failure EXEC_FAILURES EXEC_INVOCATION_INTERRUPTED m))"

definition release_invocations :: "Hook \<Rightarrow> Maps \<Rightarrow> Maps" where
  "release_invocations h m =
     exec_interrupt h (rich_interrupt h (path_interrupt h (raw_interrupt h
       (openat_interrupt h (tty_interrupt h m)))))"

section \<open>Process exit and release\<close>

definition exit_record :: "Globals \<Rightarrow> Hook \<Rightarrow> KernelProcessRef \<Rightarrow> 32 word \<Rightarrow> bytes" where
  "exit_record g h process_ref raw_status =
     EventHeader_bytes (k_pad h) ((get_task_info g h (kind_byte ProcessExit))\<lparr>
         h_pid := kpr_tgid process_ref,
         h_process_start_boottime_ns := kpr_start_boottime_ns process_ref\<rparr>)
       @ ProcessExitPayload_bytes (k_pad h) \<lparr>pe_raw_status = raw_status\<rparr>"

definition claim_exit :: "Globals \<Rightarrow> Hook \<Rightarrow> KernelProcessRef \<Rightarrow> 32 word \<Rightarrow> Maps \<Rightarrow> Maps" where
  "claim_exit g h process_ref raw_status m =
     (case hash_insert_noexist (k_update_error h ''EXIT_CLAIMS'') (EXIT_CLAIMS m)
         (exit_claim_key (kpr_tgid process_ref) (kpr_start_boottime_ns process_ref)) 1 of
       (r, held) \<Rightarrow>
         (case claim_outcome r of
             Emit \<Rightarrow> emit_event h (exit_record g h process_ref raw_status)
                      (m\<lparr>EXIT_CLAIMS := held\<rparr>)
           | Duplicate \<Rightarrow> m\<lparr>EXIT_CLAIMS := held\<rparr>
           | Failed \<Rightarrow> failure EXIT_FAILURES EXIT_CLAIM_FAILED (m\<lparr>EXIT_CLAIMS := held\<rparr>)))"

definition try_process_exit :: "Globals \<Rightarrow> Hook \<Rightarrow> Maps \<Rightarrow> outcome" where
  "try_process_exit g h m0 =
     (let m = release_invocations h m0; task = k_raw_arg h 0 in
      if \<not> should_trace g h then (Ok (), m)
      else if task = 0 then (Err (- 1), m)
      else (case read_k64 h (task + ucast (OFF_SIGNAL g)) of
          None \<Rightarrow> (Err (- 1), m)
        | Some signal \<Rightarrow>
            if signal = 0 then (Err (- 1), m)
            else (case read_k32 h (signal + ucast (OFF_SIGNAL_LIVE g)) of
                None \<Rightarrow> (Err (- 1), m)
              | Some live \<Rightarrow>
                  if live \<noteq> 0 then (Ok (), m)
                  else (case process_ref_from_task g h task of
                      None \<Rightarrow> (Err (- 1), m)
                    | Some process_ref \<Rightarrow>
                        (case (read_k32 h (kpr_group_leader process_ref + ucast (OFF_EXIT_CODE g)),
                               read_k32 h (signal + ucast (OFF_SIGNAL_GROUP_EXIT_CODE g))) of
                            (Some leader_status, Some group_status) \<Rightarrow>
                              (Ok (), claim_exit g h process_ref
                                (select_process_exit_status group_status leader_status) m)
                          | _ \<Rightarrow> (Err (- 1), m))))))"

definition sched_process_exit :: "Globals \<Rightarrow> Hook \<Rightarrow> Maps \<Rightarrow> Maps" where
  "sched_process_exit g h m = (case try_process_exit g h m of
       (Inr _, m') \<Rightarrow> m'
     | (Inl _, m') \<Rightarrow> failure EXIT_FAILURES EXIT_CAPTURE_FAILED m')"

text \<open>The identity that the free program reads from the freed task itself.\<close>

definition freed_ids :: "Globals \<Rightarrow> Hook \<Rightarrow> int + (32 word \<times> 32 word)" where
  "freed_ids g h =
     (let task = k_raw_arg h 0 in
      if task = 0 then Err (- 1)
      else (case (read_k32 h (task + ucast (OFF_PID g)), read_k32 h (task + ucast (OFF_TGID g))) of
          (Some pid, Some tgid) \<Rightarrow> Ok (pid, tgid)
        | _ \<Rightarrow> Err (- 1)))"

definition try_process_free :: "Globals \<Rightarrow> Hook \<Rightarrow> Maps \<Rightarrow> outcome" where
  "try_process_free g h m =
     (case freed_ids g h of
         Inl e \<Rightarrow> (Err e, m)
       | Inr (pid, tgid) \<Rightarrow>
           if pid \<noteq> tgid \<or> tgid = 0 then (Ok (), m)
           else (case read_k64 h (k_raw_arg h 0 + ucast (OFF_START_BOOTTIME g)) of
               None \<Rightarrow> (Err (- 1), m)
             | Some start \<Rightarrow>
                 (case for_freed_task pid tgid start of
                     None \<Rightarrow> (Err (- 1), m)
                   | Some key \<Rightarrow>
                       (case hash_remove (k_delete_error h ''EXIT_CLAIMS'') (EXIT_CLAIMS m) key of
                         (r, held) \<Rightarrow>
                           (Ok (), if cleanup_failed r
                             then failure EXIT_FAILURES CLEANUP_DELETE_FAILED (m\<lparr>EXIT_CLAIMS := held\<rparr>)
                             else m\<lparr>EXIT_CLAIMS := held\<rparr>)))))"

definition sched_process_free :: "Globals \<Rightarrow> Hook \<Rightarrow> Maps \<Rightarrow> Maps" where
  "sched_process_free g h m = (case try_process_free g h m of
       (Inr _, m') \<Rightarrow> m'
     | (Inl _, m') \<Rightarrow> failure EXIT_FAILURES CLEANUP_CAPTURE_FAILED m')"

section \<open>Process creation\<close>

text \<open>\<open>pending_clone_flags\<close> of \<open>layer3_rich.rs\<close>: the flags of a clone in flight.\<close>

definition pending_clone_flags :: "Hook \<Rightarrow> Maps \<Rightarrow> 64 word" where
  "pending_clone_flags h m =
     (case RICH_ENTRY_MAP m (k_pid_tgid h) of
         None \<Rightarrow> 0
       | Some entry \<Rightarrow>
           if h_kind (re_header entry) \<noteq> kind_byte Clone \<and> h_kind (re_header entry) \<noteq> kind_byte Clone3
           then 0
           else cld_flags (read_CloneData (re_data entry)))"

definition fork_child_header :: "Globals \<Rightarrow> Hook \<Rightarrow> 64 word \<Rightarrow> KernelProcessRef \<Rightarrow> KernelProcessRef \<Rightarrow> EventHeader" where
  "fork_child_header g h child parent_ref child_ref =
     (get_task_info_from_task g h (kind_byte ProcessStart) child)\<lparr>
       h_pid := kpr_tgid child_ref, h_ppid := kpr_tgid parent_ref,
       h_process_start_boottime_ns := kpr_start_boottime_ns child_ref\<rparr>"

definition fork_payload :: "KernelProcessRef \<Rightarrow> KernelProcessRef \<Rightarrow> 64 word \<Rightarrow> ProcessForkPayload" where
  "fork_payload parent_ref child_ref flags =
     \<lparr>pf_parent_tgid = kpr_tgid parent_ref, pf_child_tgid = kpr_tgid child_ref,
      pf_parent_start_boottime_ns = kpr_start_boottime_ns parent_ref,
      pf_child_start_boottime_ns = kpr_start_boottime_ns child_ref, pf_clone_flags = flags\<rparr>"

definition try_process_fork :: "Globals \<Rightarrow> Hook \<Rightarrow> Maps \<Rightarrow> outcome" where
  "try_process_fork g h m =
     (let parent = k_raw_arg h 0; child = k_raw_arg h 1 in
      if \<not> should_trace g h then (Ok (), m)
      else if parent = 0 \<or> child = 0 then (Ok (), m)
      else (case read_k32 h (child + ucast (OFF_PID g)) of
          None \<Rightarrow> (Err (- 1), m)
        | Some child_pid \<Rightarrow>
            (let fork_header = get_task_info g h (kind_byte ProcessFork);
                 parent_ref = unwrap_or (process_ref_from_task g h parent)
                   \<lparr>kpr_tgid = h_pid fork_header, kpr_start_boottime_ns = 0, kpr_group_leader = 0\<rparr> in
             (case process_ref_from_task g h child of
                 None \<Rightarrow> (Ok (), m)
               | Some child_ref \<Rightarrow>
                   if child_pid \<noteq> kpr_tgid child_ref \<or> kpr_start_boottime_ns child_ref = 0
                   then (Ok (), m)
                   else
                     (let m1 = emit_fixed h (fork_child_header g h child parent_ref child_ref) [] m;
                          header = fork_header\<lparr>h_pid := kpr_tgid parent_ref,
                            h_process_start_boottime_ns := kpr_start_boottime_ns parent_ref\<rparr>
                      in (Ok (), emit_fixed h header (ProcessForkPayload_bytes (k_pad h)
                            (fork_payload parent_ref child_ref (pending_clone_flags h m1))) m1))))))"

definition sched_process_fork :: "Globals \<Rightarrow> Hook \<Rightarrow> Maps \<Rightarrow> Maps" where
  "sched_process_fork g h m = snd (try_process_fork g h m)"

section \<open>Signals\<close>

definition try_signal_generate :: "Globals \<Rightarrow> Hook \<Rightarrow> Maps \<Rightarrow> outcome" where
  "try_signal_generate g h m =
     (let target_task = k_raw_arg h 2 in
      if \<not> should_trace_signal g h target_task then (Ok (), m)
      else
        (let target_ref = process_ref_from_task g h target_task;
             target_tgid = (case target_ref of
                 Some r \<Rightarrow> kpr_tgid r
               | None \<Rightarrow> unwrap_or (read_k32 h (target_task + ucast (OFF_TGID g))) 0);
             payload = \<lparr>sg_target_tgid = target_tgid, sg_signal = ucast (k_raw_arg h 0),
               sg_target_start_boottime_ns =
                 unwrap_or (map_option kpr_start_boottime_ns target_ref) 0,
               sg_group = ucast (k_raw_arg h 3), sg_result = ucast (k_raw_arg h 4)\<rparr>
         in (Ok (), emit_fixed h (get_task_info g h (kind_byte SignalGenerate))
               (SignalGeneratePayload_bytes (k_pad h) payload) m)))"

definition signal_generate :: "Globals \<Rightarrow> Hook \<Rightarrow> Maps \<Rightarrow> Maps" where
  "signal_generate g h m = snd (try_signal_generate g h m)"

section \<open>What the programs leave alone\<close>

lemma failure_frame [simp]:
  "EVENTS (failure f r m) = EVENTS m" "EXIT_CLAIMS (failure f r m) = EXIT_CLAIMS m"
  "SYSCALL_ENTRY_MAP (failure f r m) = SYSCALL_ENTRY_MAP m"
  "TTY_READ_ENTRY_MAP (failure f r m) = TTY_READ_ENTRY_MAP m"
  "OPENAT_ENTRY_MAP (failure f r m) = OPENAT_ENTRY_MAP m"
  "PATH_ENTRY_MAP (failure f r m) = PATH_ENTRY_MAP m"
  "RICH_ENTRY_MAP (failure f r m) = RICH_ENTRY_MAP m"
  "EXECVE_ENTRY_MAP (failure f r m) = EXECVE_ENTRY_MAP m"
  "DROP_COUNT (failure f r m) = DROP_COUNT m"
  by (simp_all add: failure_def)

lemma cleanup_frame [simp]:
  "EVENTS (cleanup_in f r m) = EVENTS m" "EXIT_CLAIMS (cleanup_in f r m) = EXIT_CLAIMS m"
  "SYSCALL_ENTRY_MAP (cleanup_in f r m) = SYSCALL_ENTRY_MAP m"
  "TTY_READ_ENTRY_MAP (cleanup_in f r m) = TTY_READ_ENTRY_MAP m"
  "OPENAT_ENTRY_MAP (cleanup_in f r m) = OPENAT_ENTRY_MAP m"
  "PATH_ENTRY_MAP (cleanup_in f r m) = PATH_ENTRY_MAP m"
  "RICH_ENTRY_MAP (cleanup_in f r m) = RICH_ENTRY_MAP m"
  "EXECVE_ENTRY_MAP (cleanup_in f r m) = EXECVE_ENTRY_MAP m"
  "DROP_COUNT (cleanup_in f r m) = DROP_COUNT m"
  by (simp_all add: cleanup_in_def count_outcome_def split: option.splits)

lemma interrupt_frame [simp]:
  "EVENTS (tty_interrupt h m) = EVENTS m" "EXIT_CLAIMS (tty_interrupt h m) = EXIT_CLAIMS m"
  "EVENTS (openat_interrupt h m) = EVENTS m" "EXIT_CLAIMS (openat_interrupt h m) = EXIT_CLAIMS m"
  "EVENTS (raw_interrupt h m) = EVENTS m" "EXIT_CLAIMS (raw_interrupt h m) = EXIT_CLAIMS m"
  "EVENTS (path_interrupt h m) = EVENTS m" "EXIT_CLAIMS (path_interrupt h m) = EXIT_CLAIMS m"
  "EVENTS (rich_interrupt h m) = EVENTS m" "EXIT_CLAIMS (rich_interrupt h m) = EXIT_CLAIMS m"
  "EVENTS (exec_interrupt h m) = EVENTS m" "EXIT_CLAIMS (exec_interrupt h m) = EXIT_CLAIMS m"
  by (simp_all add: tty_interrupt_def openat_interrupt_def raw_interrupt_def path_interrupt_def
      rich_interrupt_def exec_interrupt_def exec_remove_entry_def raw_cleanup_def
      split: prod.splits sum.splits)

lemma release_frame [simp]:
  "EVENTS (release_invocations h m) = EVENTS m"
  "EXIT_CLAIMS (release_invocations h m) = EXIT_CLAIMS m"
  by (simp_all add: release_invocations_def)

lemma emit_event_frame [simp]:
  "EXIT_CLAIMS (emit_event h data m) = EXIT_CLAIMS m"
  "RICH_ENTRY_MAP (emit_event h data m) = RICH_ENTRY_MAP m"
  "SYSCALL_ENTRY_MAP (emit_event h data m) = SYSCALL_ENTRY_MAP m"
  by (simp_all add: emit_event_def increment_drop_count_def)

lemma emit_event_events:
  "EVENTS (emit_event h data m) = EVENTS m \<or> EVENTS (emit_event h data m) = EVENTS m @ [data]"
  by (simp add: emit_event_def increment_drop_count_def)

section \<open>The buffers keep their sizes\<close>

lemma raw_buffers:
  "buffers_ok (raw_cleanup h m) = buffers_ok m"
  "buffers_ok (raw_sys_enter g h m) = buffers_ok m" "buffers_ok (raw_sys_exit h m) = buffers_ok m"
proof -
  show c: "buffers_ok (raw_cleanup h m) = buffers_ok m" for m
    by (simp add: raw_cleanup_def split: prod.splits)
  show "buffers_ok (raw_sys_enter g h m) = buffers_ok m"
    by (simp add: raw_sys_enter_def try_raw_sys_enter_def Let_def split: prod.splits option.splits)
  show "buffers_ok (raw_sys_exit h m) = buffers_ok m"
    by (simp add: raw_sys_exit_def try_raw_sys_exit_def c split: prod.splits option.splits)
qed

lemma interrupt_buffers:
  assumes "buffers_ok m"
  shows "buffers_ok (tty_interrupt h m)" "buffers_ok (openat_interrupt h m)"
    "buffers_ok (raw_interrupt h m)" "buffers_ok (path_interrupt h m)"
    "buffers_ok (rich_interrupt h m)" "buffers_ok (exec_interrupt h m)"
    "buffers_ok (exec_remove_entry h m)"
proof -
  show "buffers_ok (tty_interrupt h m)"
    using assms by (simp add: tty_interrupt_def split: prod.splits)
  show "buffers_ok (openat_interrupt h m)"
    using assms
    by (simp add: openat_interrupt_def buffers_ok_entries(3) ran_hash_remove[OF surjective_pairing])
  show "buffers_ok (raw_interrupt h m)" using assms by (simp add: raw_interrupt_def raw_buffers)
  show "buffers_ok (path_interrupt h m)" "buffers_ok (rich_interrupt h m)"
    using assms
    by (auto simp: path_interrupt_def rich_interrupt_def intro!: buffers_ok_entries
        dest: ran_hash_remove[THEN subsetD] split: prod.splits)
  have e: "buffers_ok (exec_remove_entry h m)" if "buffers_ok m" for m
    using that
    by (auto simp: exec_remove_entry_def intro!: buffers_ok_entries dest: ran_hash_remove[THEN subsetD]
        split: prod.splits sum.splits)
  show "buffers_ok (exec_interrupt h m)" using assms by (simp add: exec_interrupt_def e)
  show "buffers_ok (exec_remove_entry h m)" using assms by (rule e)
qed

lemma lifecycle_buffers:
  assumes "buffers_ok m"
  shows "buffers_ok (sched_process_exit g h m)" "buffers_ok (sched_process_free g h m)"
    "buffers_ok (sched_process_fork g h m)" "buffers_ok (signal_generate g h m)"
proof -
  have r: "buffers_ok (release_invocations h m)"
    using assms by (simp add: release_invocations_def interrupt_buffers)
  have c: "buffers_ok (claim_exit g h p s m')" if "buffers_ok m'" for p s m'
    using that by (simp add: claim_exit_def split: prod.splits ClaimOutcome.splits)
  show "buffers_ok (sched_process_exit g h m)"
    using r c by (simp add: sched_process_exit_def try_process_exit_def Let_def split: option.splits)
  show "buffers_ok (sched_process_free g h m)"
    using assms
    by (simp add: sched_process_free_def try_process_free_def split: sum.splits prod.splits option.splits)
  show "buffers_ok (sched_process_fork g h m)"
    using assms by (simp add: sched_process_fork_def try_process_fork_def Let_def split: option.splits)
  show "buffers_ok (signal_generate g h m)"
    using assms by (simp add: signal_generate_def try_signal_generate_def Let_def)
qed

end
