(* ===== verification/BpfTty.thy ===== *)
theory BpfTty
  imports BpfLifecycle
begin

text \<open>
  \<open>bloodhound-ebpf/src/layer1_tty.rs\<close>: terminal capture.  \<open>pty_write\<close> is captured
  at entry; \<open>n_tty_read\<close> keeps its buffer pointer in \<open>TTY_READ_ENTRY_MAP\<close> until
  the return probe knows how many bytes were read.  Both assemble the record in a
  per-CPU buffer that still holds the bytes of earlier records.
\<close>

section \<open>Programs\<close>

definition tty_offset :: "Globals \<Rightarrow> nat \<Rightarrow> 64 word" where
  "tty_offset g i = (if i < length (OFF_TTY g) then ucast (OFF_TTY g ! i) else 0)"

definition read_k16 :: "Hook \<Rightarrow> 64 word \<Rightarrow> 16 word option" where
  "read_k16 h a = map_option le_word (k_kmem h a 2)"

definition TTY_DRIVER_TYPE_PTY :: "16 word" where "TTY_DRIVER_TYPE_PTY = 4"
definition PTY_TYPE_SLAVE :: "16 word" where "PTY_TYPE_SLAVE = 2"

definition is_pts_slave :: "Globals \<Rightarrow> Hook \<Rightarrow> 64 word \<Rightarrow> bool" where
  "is_pts_slave g h tty =
     (if tty = 0 \<or> TTY_SUPPORTED g = 0 then False
      else (case read_k64 h (tty + tty_offset g 0) of
          None \<Rightarrow> False
        | Some driver \<Rightarrow>
            if driver = 0 then False
            else (case read_k16 h (driver + tty_offset g 1) of
                None \<Rightarrow> False
              | Some drv_type \<Rightarrow>
                  if drv_type \<noteq> TTY_DRIVER_TYPE_PTY then False
                  else (case read_k16 h (driver + tty_offset g 2) of
                      None \<Rightarrow> False
                    | Some drv_subtype \<Rightarrow> drv_subtype = PTY_TYPE_SLAVE))))"

text \<open>
  \<open>emit_tty_event\<close>.  A failed probe read clears its destination; the record is the
  prefix of the assembly buffer that the header, the payload and the data fill.
\<close>

definition tty_header :: "Globals \<Rightarrow> Hook \<Rightarrow> byte \<Rightarrow> CaptureStatus \<Rightarrow> EventHeader" where
  "tty_header g h kind status =
     (get_task_info g h kind)\<lparr>h_capture :=
        \<lparr>cap_version = 1, cap_primary = status_byte status, cap_secondary = 0\<rparr>\<rparr>"

definition tty_assemble ::
  "Globals \<Rightarrow> Hook \<Rightarrow> byte \<Rightarrow> CaptureStatus \<Rightarrow> nat \<Rightarrow> Maps \<Rightarrow> Maps" where
  "tty_assemble g h kind status data_len m =
     (let out = write_at EventHeader_SIZE (TtyPayload_bytes (k_pad h) \<lparr>tty_data_len = of_nat data_len\<rparr>)
            (write_at 0 (EventHeader_bytes (k_pad h) (tty_header g h kind status)) (ASSEMBLY_BUF m));
          total_size = EventHeader_SIZE + TtyPayload_SIZE + data_len
      in emit_event h (take total_size out) (m\<lparr>ASSEMBLY_BUF := out\<rparr>))"

definition emit_tty_event :: "Globals \<Rightarrow> Hook \<Rightarrow> byte \<Rightarrow> 64 word \<Rightarrow> nat \<Rightarrow> Maps \<Rightarrow> outcome" where
  "emit_tty_event g h kind buf_ptr count m =
     (if count = 0 \<and> buf_ptr \<noteq> 0 then (Ok (), m)
      else
        (let data_len = min count (MAX_TTY_DATA - 1) AND (MAX_TTY_DATA - 1);
             status = (if count > MAX_TTY_DATA - 1 then Truncated else Complete) in
         if \<not> k_percpu h ''SCRATCH_BUF'' 2 then (Err (- 1), m)
         else if \<not> k_percpu h ''ASSEMBLY_BUF'' 0 then (Err (- 1), m)
         else if buf_ptr = 0 then (Ok (), tty_assemble g h kind ReadError 0 m)
         else (case k_kmem h buf_ptr data_len of
             None \<Rightarrow> (Ok (), tty_assemble g h kind ReadError 0
               (m\<lparr>SCRATCH_BUF := (SCRATCH_BUF m)(2 :=
                    write_at 0 (replicate data_len 0) (SCRATCH_BUF m 2))\<rparr>))
           | Some data \<Rightarrow>
               (let scratch = write_at 0 data (SCRATCH_BUF m 2);
                    m1 = m\<lparr>SCRATCH_BUF := (SCRATCH_BUF m)(2 := scratch)\<rparr> in
                if \<not> k_copy h ''tty'' 0 then
                  (Err (- 1), m1\<lparr>ASSEMBLY_BUF := write_at (EventHeader_SIZE + TtyPayload_SIZE)
                     (replicate data_len 0) (ASSEMBLY_BUF m1)\<rparr>)
                else
                  (Ok (), tty_assemble g h kind status data_len
                    (m1\<lparr>ASSEMBLY_BUF := write_at (EventHeader_SIZE + TtyPayload_SIZE)
                       (take data_len scratch) (ASSEMBLY_BUF m1)\<rparr>))))))"

definition try_tty_write :: "Globals \<Rightarrow> Hook \<Rightarrow> Maps \<Rightarrow> outcome" where
  "try_tty_write g h m =
     (if \<not> should_trace g h then (Ok (), m)
      else (case k_probe_arg h 0 of
          None \<Rightarrow> (Err (- 1), m)
        | Some tty \<Rightarrow>
            if \<not> is_pts_slave g h tty then (Ok (), m)
            else (case k_probe_arg h 1 of
                None \<Rightarrow> (Err (- 1), m)
              | Some buf_ptr \<Rightarrow>
                  (case k_probe_arg h 2 of
                      None \<Rightarrow> (Err (- 1), m)
                    | Some count \<Rightarrow>
                        emit_tty_event g h (kind_byte TtyWrite) buf_ptr (unat count) m))))"

definition tty_write_probe :: "Globals \<Rightarrow> Hook \<Rightarrow> Maps \<Rightarrow> Maps" where
  "tty_write_probe g h m = (case try_tty_write g h m of
       (Inr _, m') \<Rightarrow> m'
     | (Inl _, m') \<Rightarrow> failure TTY_FAILURES SYSCALL_ENTRY_CAPTURE_FAILED m')"

definition try_tty_read_entry :: "Globals \<Rightarrow> Hook \<Rightarrow> Maps \<Rightarrow> outcome" where
  "try_tty_read_entry g h m0 =
     (let m = tty_interrupt h m0 in
      if \<not> should_trace g h then (Ok (), m)
      else (case k_probe_arg h 0 of
          None \<Rightarrow> (Err (- 1), m)
        | Some tty \<Rightarrow>
            if \<not> is_pts_slave g h tty then (Ok (), m)
            else (case (k_probe_arg h 2, k_probe_arg h 3) of
                (Some buf_ptr, Some count) \<Rightarrow>
                  (case hash_insert (k_update_error h ''TTY_READ_ENTRY_MAP'') (TTY_READ_ENTRY_MAP m)
                      (k_pid_tgid h) \<lparr>tr_buf_ptr = buf_ptr, tr_count = count\<rparr> of
                    (r, entries) \<Rightarrow> (Ok (), save_in TTY_FAILURES r (m\<lparr>TTY_READ_ENTRY_MAP := entries\<rparr>)))
              | _ \<Rightarrow> (Err (- 1), m))))"

definition tty_read_probe :: "Globals \<Rightarrow> Hook \<Rightarrow> Maps \<Rightarrow> Maps" where
  "tty_read_probe g h m = (case try_tty_read_entry g h m of
       (Inr _, m') \<Rightarrow> m'
     | (Inl _, m') \<Rightarrow> failure TTY_FAILURES SYSCALL_ENTRY_CAPTURE_FAILED m')"

definition try_tty_read_ret :: "Globals \<Rightarrow> Hook \<Rightarrow> Maps \<Rightarrow> outcome" where
  "try_tty_read_ret g h m0 =
     (case TTY_READ_ENTRY_MAP m0 (k_pid_tgid h) of
         None \<Rightarrow> (Ok (), m0)
       | Some entry \<Rightarrow>
           (case hash_remove (k_delete_error h ''TTY_READ_ENTRY_MAP'') (TTY_READ_ENTRY_MAP m0) (k_pid_tgid h) of
             (r, entries) \<Rightarrow>
               (let m = cleanup_in TTY_FAILURES r (m0\<lparr>TTY_READ_ENTRY_MAP := entries\<rparr>) in
                (case k_ret h of
                    None \<Rightarrow> (Err (- 1), m)
                  | Some ret \<Rightarrow>
                      if sint ret \<le> 0 then (Ok (), m)
                      else emit_tty_event g h (kind_byte TtyRead) (tr_buf_ptr entry)
                        (min (unat ret) (unat (tr_count entry))) m))))"

definition tty_read_ret_probe :: "Globals \<Rightarrow> Hook \<Rightarrow> Maps \<Rightarrow> Maps" where
  "tty_read_ret_probe g h m = (case try_tty_read_ret g h m of
       (Inr _, m') \<Rightarrow> m'
     | (Inl _, m') \<Rightarrow> failure TTY_FAILURES SYSCALL_EXIT_CAPTURE_FAILED m')"

section \<open>Facts\<close>

definition tty_record :: "Globals \<Rightarrow> Hook \<Rightarrow> byte \<Rightarrow> CaptureStatus \<Rightarrow> bytes \<Rightarrow> bytes" where
  "tty_record g h kind status data =
     EventHeader_bytes (k_pad h) (tty_header g h kind status)
       @ TtyPayload_bytes (k_pad h) \<lparr>tty_data_len = of_nat (length data)\<rparr> @ data"

lemma tty_header_wf: "hook_ok h \<Longrightarrow> wf_EventHeader (tty_header g h kind status)"
  using get_task_info_wf[of h g kind] by (simp add: wf_EventHeader_def tty_header_def)

lemma tty_assemble_emits:
  assumes "hook_ok h" "length (ASSEMBLY_BUF m) = ASSEMBLY_BUF_SIZE" "length data \<le> 4095"
    and "take (length data) (drop (EventHeader_SIZE + TtyPayload_SIZE) (ASSEMBLY_BUF m)) = data"
  shows "tty_assemble g h kind status (length data) m =
    emit_event h (tty_record g h kind status data)
      (m\<lparr>ASSEMBLY_BUF := ASSEMBLY_BUF (tty_assemble g h kind status (length data) m)\<rparr>)"
proof -
  let ?hd = "EventHeader_bytes (k_pad h) (tty_header g h kind status)"
  let ?pl = "TtyPayload_bytes (k_pad h) \<lparr>tty_data_len = of_nat (length data)\<rparr>"
  have sz: "length ?hd = 96" "length ?pl = 4"
    using h_wire.size[OF tty_header_wf[OF assms(1)]] tty_wire.size by (simp_all add: wire_simps)
  have "take (EventHeader_SIZE + TtyPayload_SIZE + length data)
      (write_at EventHeader_SIZE ?pl (write_at 0 ?hd (ASSEMBLY_BUF m))) = tty_record g h kind status data"
    using sz assms(2-4)
    by (simp add: write_at_def tty_record_def wire_simps ASSEMBLY_BUF_SIZE_def MAX_PATH_SIZE_def)
  then show ?thesis
    unfolding tty_assemble_def Let_def by (simp add: emit_event_def increment_drop_count_def)
qed

lemma tty_data_len_eq: "min count (MAX_TTY_DATA - 1) AND (MAX_TTY_DATA - 1) = min count 4095" for count :: nat
proof -
  have "min count 4095 AND 4095 = take_bit 12 (min count 4095)"
    by (simp add: take_bit_eq_mask mask_eq_exp_minus_1)
  also have "\<dots> = min count 4095" by (simp add: take_bit_nat_eq_self)
  finally show ?thesis by (simp add: MAX_TTY_DATA_def)
qed

lemmas emit_tty_event_eq = emit_tty_event_def[unfolded tty_data_len_eq]

text \<open>What a capture of \<open>count\<close> bytes at a kernel buffer amounts to.\<close>

definition tty_capture :: "Hook \<Rightarrow> 64 word \<Rightarrow> nat \<Rightarrow> CaptureStatus \<times> bytes" where
  "tty_capture h buf_ptr count =
     (if buf_ptr = 0 then (ReadError, [])
      else (case k_kmem h buf_ptr (min count 4095) of
          None \<Rightarrow> (ReadError, [])
        | Some data \<Rightarrow> (if count > 4095 then Truncated else Complete, data)))"

lemma tty_capture_fits:
  assumes "hook_ok h" "0 < count" "tty_capture h buf_ptr count = (status, data)"
  shows "tty_length_fits status (length data)" "length data \<le> 4095"
  using assms by (auto simp: tty_capture_def tty_length_fits_def hook_ok_def split: if_splits option.splits)

lemma emit_tty_event_records:
  assumes "hook_ok h" "buffers_ok m" "0 < count" "tty_capture h buf_ptr count = (status, data)"
    and "k_percpu h ''SCRATCH_BUF'' 2" "k_percpu h ''ASSEMBLY_BUF'' 0" "k_copy h ''tty'' 0"
  shows "\<exists>m'. emit_tty_event g h kind buf_ptr count m =
      (Ok (), emit_event h (tty_record g h kind status data) m') \<and>
    EVENTS m' = EVENTS m \<and> TTY_READ_ENTRY_MAP m' = TTY_READ_ENTRY_MAP m"
proof -
  have asm: "length (ASSEMBLY_BUF m) = 8448"
    using assms(2) by (simp add: buffers_ok_def ASSEMBLY_BUF_SIZE_def MAX_PATH_SIZE_def)
  have len: "length bs = min count 4095" if "k_kmem h buf_ptr (min count 4095) = Some bs" for bs
    using assms(1) that by (auto simp: hook_ok_def)
  have asm_eq: "ASSEMBLY_BUF_SIZE = 8448" by (simp add: ASSEMBLY_BUF_SIZE_def MAX_PATH_SIZE_def)
  show ?thesis
  proof (cases "buf_ptr = 0 \<or> k_kmem h buf_ptr (min count 4095) = None")
    case True
    then have sd: "status = ReadError" "data = []"
      using assms(4) by (auto simp: tty_capture_def split: if_splits)
    obtain m1 where m1: "emit_tty_event g h kind buf_ptr count m = (Ok (), tty_assemble g h kind ReadError 0 m1)"
      "EVENTS m1 = EVENTS m" "TTY_READ_ENTRY_MAP m1 = TTY_READ_ENTRY_MAP m" "ASSEMBLY_BUF m1 = ASSEMBLY_BUF m"
      using True assms(3,5,6) that
      by (cases "buf_ptr = 0") (simp_all add: emit_tty_event_eq Let_def)
    then show ?thesis
      using tty_assemble_emits[OF assms(1), of m1 "[]" g kind ReadError] asm sd asm_eq
      by (intro exI[of _ "m1\<lparr>ASSEMBLY_BUF := ASSEMBLY_BUF (tty_assemble g h kind ReadError 0 m1)\<rparr>"]) simp
  next
    case False
    then obtain bs where bs: "k_kmem h buf_ptr (min count 4095) = Some bs" "buf_ptr \<noteq> 0" by auto
    then have sd: "status = (if count > 4095 then Truncated else Complete)" "data = bs"
      using assms(4) by (auto simp: tty_capture_def)
    let ?scr = "write_at 0 bs (SCRATCH_BUF m 2)"
    let ?m1 = "m\<lparr>SCRATCH_BUF := (SCRATCH_BUF m)(2 := ?scr),
      ASSEMBLY_BUF := write_at (EventHeader_SIZE + TtyPayload_SIZE) bs (ASSEMBLY_BUF m)\<rparr>"
    have scr: "take (min count 4095) ?scr = bs" using len[OF bs(1)] by (simp add: write_at_def)
    have st: "emit_tty_event g h kind buf_ptr count m =
        (Ok (), tty_assemble g h kind status (length bs) ?m1)"
      using bs assms(3,5,6,7) sd len[OF bs(1)]
      unfolding emit_tty_event_eq Let_def by (simp add: scr MAX_TTY_DATA_def)
    have "tty_assemble g h kind status (length bs) ?m1 = emit_event h (tty_record g h kind status bs)
        (?m1\<lparr>ASSEMBLY_BUF := ASSEMBLY_BUF (tty_assemble g h kind status (length bs) ?m1)\<rparr>)"
      using len[OF bs(1)] asm asm_eq
      by (intro tty_assemble_emits[OF assms(1)]) (simp_all add: write_at_def wire_simps)
    then show ?thesis unfolding st sd(2) by (intro exI conjI) (assumption | simp)+
  qed
qed

lemma tty_record_decodes:
  assumes "hook_ok h" "k = TtyRead \<or> k = TtyWrite" "tty_length_fits status (length data)"
    "length data \<le> 4095"
  shows "deserialize b64 (tty_record g h (kind_byte k) status data) =
    Ok (record_event (tty_header g h (kind_byte k) status)
      (''TTY'', if k = TtyRead then ''tty_read'' else ''tty_write'', ''intent'',
       Some (JObj [(''data'', JStr (b64 data)), (''tty_capture_version'', JNum 1),
         (''data_status'', JStr (status_str status))]), None))"
proof -
  have cap: "h_capture (tty_header g h (kind_byte k) status) = capture_v1 status 0"
    by (simp add: tty_header_def capture_v1_def)
  have "unat (of_nat (length data) :: 16 word) = length data"
    using assms(4) by (simp add: unat_of_nat take_bit_nat_eq_self)
  then show ?thesis
    unfolding tty_record_def
    using assms(2,3) tty_header_wf[OF assms(1)] tty_status_v1(1)[of 0 status "length data"] cap
    by (subst deserialize_emitted[where k = k])
      (auto simp: parse_tty_emitted tty_header_def capture_v1_def junum_def)
qed

lemma tty_read_saves:
  assumes "should_trace g h" "k_probe_arg h 0 = Some tty" "is_pts_slave g h tty"
    "k_probe_arg h 2 = Some buf_ptr" "k_probe_arg h 3 = Some count"
    "k_update_error h ''TTY_READ_ENTRY_MAP'' = None"
  shows "TTY_READ_ENTRY_MAP (tty_read_probe g h m) (k_pid_tgid h) =
    Some \<lparr>tr_buf_ptr = buf_ptr, tr_count = count\<rparr>"
  using assms
  by (simp add: tty_read_probe_def try_tty_read_entry_def Let_def hash_insert_def save_in_def
      save_outcome_def count_outcome_def)

lemma tty_ret_emits:
  assumes "TTY_READ_ENTRY_MAP m (k_pid_tgid h) = Some entry"
    "k_delete_error h ''TTY_READ_ENTRY_MAP'' = None" "k_ret h = Some ret" "0 < sint ret"
  shows "try_tty_read_ret g h m =
    emit_tty_event g h (kind_byte TtyRead) (tr_buf_ptr entry) (min (unat ret) (unat (tr_count entry)))
      (m\<lparr>TTY_READ_ENTRY_MAP := (TTY_READ_ENTRY_MAP m)(k_pid_tgid h := None)\<rparr>)"
  using assms
  by (simp add: try_tty_read_ret_def hash_remove_def cleanup_in_def cleanup_outcome_def
      count_outcome_def Let_def)

section \<open>The buffers keep their sizes\<close>

lemma tty_assemble_buffers:
  assumes "hook_ok h" "buffers_ok m"
  shows "buffers_ok (tty_assemble g h kind status n m)"
proof -
  have sz: "length (EventHeader_bytes (k_pad h) (tty_header g h kind status)) = 96"
    "length (TtyPayload_bytes (k_pad h) \<lparr>tty_data_len = of_nat n\<rparr>) = 4"
    using h_wire.size[OF tty_header_wf[OF assms(1)]] tty_wire.size by (simp_all add: wire_simps)
  show ?thesis
    unfolding tty_assemble_def Let_def buffers_ok_counters
    using assms(2) sz
    by (intro buffers_ok_scratch(2))
      (simp_all add: wire_simps buffers_ok_def ASSEMBLY_BUF_SIZE_def MAX_PATH_SIZE_def)
qed

lemma emit_tty_buffers:
  assumes "hook_ok h" "buffers_ok m"
  shows "buffers_ok (snd (emit_tty_event g h kind p n m))"
proof -
  have scr: "length (SCRATCH_BUF m 2) = 4096" "length (ASSEMBLY_BUF m) = 8448"
    using assms(2) by (simp_all add: buffers_ok_def MAX_PATH_SIZE_def ASSEMBLY_BUF_SIZE_def)
  have len: "length d = min n 4095" if "k_kmem h p (min n 4095) = Some d" for d
    using assms(1) that by (auto simp: hook_ok_def)
  show ?thesis
    unfolding emit_tty_event_eq Let_def
    using scr len assms
    by (auto simp: wire_simps MAX_PATH_SIZE_def ASSEMBLY_BUF_SIZE_def split: option.splits
        intro!: tty_assemble_buffers buffers_ok_scratch)
qed

lemma tty_buffers:
  assumes "hook_ok h" "buffers_ok m"
  shows "buffers_ok (tty_write_probe g h m)" "buffers_ok (tty_read_probe g h m)"
    "buffers_ok (tty_read_ret_probe g h m)"
proof -
  have e: "buffers_ok m'" if "emit_tty_event g h kind p n m1 = (r, m')" "buffers_ok m1" for kind p n m1 r m'
    using emit_tty_buffers[OF assms(1) that(2), of g kind p n] that(1) by simp
  show "buffers_ok (tty_write_probe g h m)"
    using assms(2)
    by (auto simp: tty_write_probe_def try_tty_write_def split: option.splits sum.splits prod.splits
        if_splits dest: e)
  show "buffers_ok (tty_read_probe g h m)"
    using assms(2)
    by (auto simp: tty_read_probe_def try_tty_read_entry_def Let_def interrupt_buffers
        split: option.splits sum.splits prod.splits if_splits)
  show "buffers_ok (tty_read_ret_probe g h m)"
    using assms(2)
    by (auto simp: tty_read_ret_probe_def try_tty_read_ret_def Let_def
        split: option.splits sum.splits prod.splits if_splits dest: e)
qed

section \<open>Properties\<close>

text \<open>
  C19: terminal input end to end.  A read of a pseudo-terminal by a traced task is
  remembered at entry.  At the return of that thread's read, whatever the assembly
  and scratch buffers hold from earlier records, one record is appended and the
  entry is gone.  The daemon decodes the record to the bytes of the kernel buffer,
  bounded by the return value, the requested count and 4095, with the status
  complete or truncated accordingly, or to no bytes and a read error.
\<close>

theorem tty_read_end_to_end:
  assumes entry: "should_trace g h1" "k_probe_arg h1 0 = Some tty" "is_pts_slave g h1 tty"
      "k_probe_arg h1 2 = Some buf_ptr" "k_probe_arg h1 3 = Some count"
      "k_update_error h1 ''TTY_READ_ENTRY_MAP'' = None"
    and frame: "TTY_READ_ENTRY_MAP m2 (k_pid_tgid h1) =
      TTY_READ_ENTRY_MAP (tty_read_probe g h1 m) (k_pid_tgid h1)" "buffers_ok m2"
    and return: "hook_ok h2" "k_pid_tgid h2 = k_pid_tgid h1" "k_ret h2 = Some ret" "0 < sint ret"
      "0 < unat count" "k_delete_error h2 ''TTY_READ_ENTRY_MAP'' = None"
      "k_percpu h2 ''SCRATCH_BUF'' 2" "k_percpu h2 ''ASSEMBLY_BUF'' 0" "k_copy h2 ''tty'' 0"
      "\<forall>data. k_ring h2 data"
    and capture: "tty_capture h2 buf_ptr (min (unat ret) (unat count)) = (status, data)"
  shows "\<exists>rec. EVENTS (tty_read_ret_probe g h2 m2) = EVENTS m2 @ [rec] \<and>
    TTY_READ_ENTRY_MAP (tty_read_ret_probe g h2 m2) (k_pid_tgid h1) = None \<and>
    deserialize b64 rec = Ok
      \<lparr>be_header = event_header_json (tty_header g h2 (kind_byte TtyRead) status),
       be_event = \<lparr>et_type = ''TTY'', et_name = ''tty_read'', et_layer = ''intent''\<rparr>,
       be_proc = None,
       be_args = Some (JObj [(''data'', JStr (b64 data)), (''tty_capture_version'', JNum 1),
         (''data_status'', JStr (status_str status))]),
       be_return_code = None\<rparr>"
proof -
  let ?n = "min (unat ret) (unat count)"
  let ?rec = "tty_record g h2 (kind_byte TtyRead) status data"
  let ?m = "m2\<lparr>TTY_READ_ENTRY_MAP := (TTY_READ_ENTRY_MAP m2)(k_pid_tgid h2 := None)\<rparr>"
  have saved: "TTY_READ_ENTRY_MAP m2 (k_pid_tgid h2) = Some \<lparr>tr_buf_ptr = buf_ptr, tr_count = count\<rparr>"
    using frame(1) tty_read_saves[OF entry] return(2) by simp
  have "ret \<noteq> 0" using return(4) by auto
  then have n: "0 < ?n" using return(5) by (simp add: unat_gt_0)
  have ok: "buffers_ok ?m" using frame(2) by (simp add: buffers_ok_def)
  obtain m' where m': "try_tty_read_ret g h2 m2 = (Ok (), emit_event h2 ?rec m')"
    "EVENTS m' = EVENTS m2" "TTY_READ_ENTRY_MAP m' (k_pid_tgid h2) = None"
    using tty_ret_emits[OF saved return(6,3,4), of g]
      emit_tty_event_records[OF return(1) ok n capture return(7-9), of g "kind_byte TtyRead"]
    by fastforce
  have "?rec \<noteq> []" by (simp add: tty_record_def EventHeader_first_byte)
  then have "EVENTS (tty_read_ret_probe g h2 m2) = EVENTS m2 @ [?rec]"
    "TTY_READ_ENTRY_MAP (tty_read_ret_probe g h2 m2) (k_pid_tgid h1) = None"
    using m' return(2,10) by (simp_all add: tty_read_ret_probe_def emit_event_def)
  then show ?thesis
    using tty_record_decodes[OF return(1) _ tty_capture_fits[OF return(1) n capture], of TtyRead b64 g]
    by (simp add: record_event_def)
qed

lemma empty_buffers_ok [simp]: "buffers_ok empty_maps"
  by (simp add: buffers_ok_def empty_maps_def ASSEMBLY_BUF_SIZE_def rich_entry_ok_def
      execve_entry_ok_def openat_entry_ok_def path_entry_ok_def wf_EventHeader_def
      wf_NsSnapshot_def zeroed_header_def default_ns_def COMM_SIZE_def)

text \<open>A kernel in which the terminal's driver is a pseudo-terminal slave.\<close>

definition tty_globals :: Globals where
  "tty_globals = quiet_globals\<lparr>OFF_TTY := [8, 16, 24]\<rparr>"

definition tty_hook :: Hook where
  "tty_hook = quiet_hook\<lparr>k_kmem := (\<lambda>a n. Some (
     if n = 2 then (if a = 0x0101010101010111 then [4, 0] else [2, 0]) else replicate n 1))\<rparr>"

lemma tty_hook_ok: "hook_ok tty_hook"
  using quiet_hook_ok by (auto simp: hook_ok_def tty_hook_def split: if_splits)

lemma replicate_3: "replicate 3 x = [x, x, x]" by (simp add: eval_nat_numeral)

lemma le_2: "le_word [4, 0] = (4 :: 16 word)" "le_word [2, 0] = (2 :: 16 word)"
  by (simp_all add: le_word_def)

lemma tty_hook_trace: "should_trace tty_globals tty_hook"
  by (simp add: should_trace_def get_current_auid_def task_auid_def read_k32_def
      tty_hook_def quiet_hook_def tty_globals_def quiet_globals_def current_tgid_def le_ones)

lemma tty_hook_slave: "is_pts_slave tty_globals tty_hook 2"
  by (simp add: is_pts_slave_def tty_offset_def read_k64_def read_k16_def tty_hook_def
      tty_globals_def quiet_globals_def le_ones le_2 TTY_DRIVER_TYPE_PTY_def PTY_TYPE_SLAVE_def)

lemma tty_hook_args:
  "k_probe_arg tty_hook 0 = Some 2" "k_probe_arg tty_hook 2 = Some 4"
  "k_probe_arg tty_hook 3 = Some 5" "k_update_error tty_hook s = None" "k_ret tty_hook = Some 3"
  "k_delete_error tty_hook s = None" "k_percpu tty_hook s n" "k_copy tty_hook s n" "\<forall>data. k_ring tty_hook data"
  "k_pid_tgid tty_hook = 0x500000006"
  by (simp_all add: tty_hook_def quiet_hook_def)

theorem tty_read_end_to_end_witness:
  "\<exists>rec e. EVENTS (tty_read_ret_probe tty_globals tty_hook
       (tty_read_probe tty_globals tty_hook empty_maps)) = [rec] \<and>
     deserialize str_of_bytes rec = Ok e \<and>
     be_args e = Some (JObj [(''data'', JStr (str_of_bytes [1, 1, 1])), (''tty_capture_version'', JNum 1),
       (''data_status'', JStr (status_str Complete))])"
proof -
  let ?m = "tty_read_probe tty_globals tty_hook empty_maps"
  have m: "?m = empty_maps\<lparr>TTY_READ_ENTRY_MAP := [0x500000006 \<mapsto> \<lparr>tr_buf_ptr = 4, tr_count = 5\<rparr>]\<rparr>"
    by (simp add: tty_hook_args tty_hook_trace tty_hook_slave tty_read_probe_def
        try_tty_read_entry_def tty_interrupt_def hash_insert_def save_in_def save_outcome_def
        count_outcome_def Let_def empty_maps_def)
  have ok: "buffers_ok ?m" "EVENTS ?m = []"
    unfolding m using empty_buffers_ok by (simp_all add: buffers_ok_def empty_maps_def)
  have pos: "0 < sint (3 :: 64 word)" "0 < unat (5 :: 64 word)" by simp_all
  have cap: "tty_capture tty_hook 4 (min (unat (3 :: 64 word)) (unat (5 :: 64 word))) = (Complete, [1, 1, 1])"
    by (simp add: tty_capture_def tty_hook_def replicate_3)
  from tty_read_end_to_end[OF tty_hook_trace tty_hook_args(1) tty_hook_slave tty_hook_args(2-4) refl
      ok(1) tty_hook_ok refl tty_hook_args(5) pos tty_hook_args(6,7,7,8,9) cap, of str_of_bytes]
  show ?thesis using ok(2) by auto
qed

end
