(* ===== verification/BpfExec.thy ===== *)
theory BpfExec
  imports BpfTty
begin

text \<open>
  \<open>bloodhound-ebpf/src/layer2_exec.rs\<close> and \<open>exec_view.rs\<close>: capture of \<open>execve\<close> and
  \<open>execveat\<close>.  The enter program reads the file name and the argument vector of the
  caller into per-CPU scratch, builds the entry in \<open>EXECVE_TMP_BUF\<close>, emits the
  mount view of the caller and stores the entry under the address of the task; the
  exit program assembles the record with the return value.
\<close>

section \<open>The mount view of the caller\<close>

datatype CaptureError = ReadFailed | Changed

definition view_offset :: "Globals \<Rightarrow> nat \<Rightarrow> 64 word" where
  "view_offset g i = (if i < length (OFF_EXEC_VIEW g) then ucast (OFF_EXEC_VIEW g ! i) else 0)"

type_synonym probe = "64 word \<Rightarrow> nat \<Rightarrow> bytes option"

definition view_read :: "Globals \<Rightarrow> probe \<Rightarrow> nat \<Rightarrow> 64 word \<Rightarrow> nat \<Rightarrow> CaptureError + 'a::len word" where
  "view_read g mem n base i = (case mem (base + view_offset g i) n of
       None \<Rightarrow> Err ReadFailed
     | Some bs \<Rightarrow> Ok (le_word bs))"

definition view_pointer :: "Globals \<Rightarrow> probe \<Rightarrow> 64 word \<Rightarrow> nat \<Rightarrow> CaptureError + 64 word" where
  "view_pointer g mem base i =
     and_then (view_read g mem 8 base i) (\<lambda>value. if value = 0 then Err ReadFailed else Ok value)"

definition view_fields ::
  "Globals \<Rightarrow> probe \<Rightarrow> 64 word \<Rightarrow> 64 word \<Rightarrow> 64 word \<Rightarrow> 64 word \<Rightarrow> CaptureError + ExecViewPayload" where
  "view_fields g mem inode sb ns mount =
     and_then (view_read g mem 8 inode 6) (\<lambda>root_inode.
     and_then (view_read g mem 4 sb 8) (\<lambda>root_dev.
     and_then (view_read g mem 4 (ns + view_offset g 10) 11) (\<lambda>mount_namespace.
     and_then (view_read g mem 4 mount 13) (\<lambda>root_mount_id.
       if mount_namespace = 0 \<or> root_mount_id = 0 then Err ReadFailed
       else Ok \<lparr>ev_root_inode = root_inode, ev_root_dev = root_dev,
         ev_mount_namespace = mount_namespace, ev_root_mount_id = root_mount_id,
         ev_version = 1, ev_status = 1\<rparr>))))"

text \<open>The recheck: every pointer endpoint is read again and compared, in this order.\<close>

fun view_unchanged :: "Globals \<Rightarrow> probe \<Rightarrow> (64 word \<times> nat \<times> 64 word) list \<Rightarrow> CaptureError + unit" where
  "view_unchanged g mem [] = Ok ()"
| "view_unchanged g mem ((base, i, seen) # rest) =
     and_then (view_pointer g mem base i) (\<lambda>value.
       if value \<noteq> seen then Err Changed else view_unchanged g mem rest)"

definition view_capture :: "Globals \<Rightarrow> Hook \<Rightarrow> CaptureError + ExecViewPayload" where
  "view_capture g h =
     (let task = k_task h; mem = k_kmem h in
      and_then (view_pointer g mem task 0) (\<lambda>fs.
      and_then (view_pointer g mem task 1) (\<lambda>nsproxy.
      let root = fs + view_offset g 2 in
      and_then (view_pointer g mem root 3) (\<lambda>mnt.
      and_then (view_pointer g mem root 4) (\<lambda>dentry.
      and_then (view_pointer g mem dentry 5) (\<lambda>inode.
      and_then (view_pointer g mem inode 7) (\<lambda>sb.
      and_then (view_pointer g mem nsproxy 9) (\<lambda>ns.
      if mnt < view_offset g 12 then Err ReadFailed
      else
        and_then (view_fields g mem inode sb ns (mnt - view_offset g 12)) (\<lambda>payload.
        and_then (view_unchanged g (k_kmem_later h)
            [(task, 0, fs), (task, 1, nsproxy), (root, 3, mnt), (root, 4, dentry), (nsproxy, 9, ns)])
          (\<lambda>_. Ok payload))))))))))"

definition view_without :: "byte \<Rightarrow> ExecViewPayload" where
  "view_without status = \<lparr>ev_root_inode = 0, ev_root_dev = 0, ev_mount_namespace = 0,
     ev_root_mount_id = 0, ev_version = 1, ev_status = status\<rparr>"

definition view_payload :: "Globals \<Rightarrow> Hook \<Rightarrow> ExecViewPayload" where
  "view_payload g h =
     (if EXEC_VIEW_SUPPORTED g = 0 then view_without 0
      else (case view_capture g h of
          Inr payload \<Rightarrow> payload
        | Inl ReadFailed \<Rightarrow> view_without 2
        | Inl Changed \<Rightarrow> view_without 3))"

definition exec_view_emit :: "Globals \<Rightarrow> Hook \<Rightarrow> EventHeader \<Rightarrow> Maps \<Rightarrow> Maps" where
  "exec_view_emit g h exec_header m =
     emit_fixed h (exec_header\<lparr>h_kind := kind_byte ExecView, h_capture := default_capture\<rparr>)
       (ExecViewPayload_bytes (k_pad h) (view_payload g h)) m"

section \<open>Reading the argument vector\<close>

definition MAX_SINGLE_ARG :: nat where "MAX_SINGLE_ARG = 256"
definition OFFSET_LIMIT :: nat where "OFFSET_LIMIT = MAX_ARGV_SIZE - MAX_SINGLE_ARG - 1"
definition MAX_ARGS :: nat where "MAX_ARGS = 20"
definition ARGV_MASK :: nat where "ARGV_MASK = MAX_ARGV_SIZE - 1"

definition argv_slot :: "Hook \<Rightarrow> 64 word \<Rightarrow> nat \<Rightarrow> 64 word option" where
  "argv_slot h argv_ptr i = map_option le_word (k_umem h (argv_ptr + 8 * of_nat i) 8)"

text \<open>
  The loop of \<open>read_argv\<close> with \<open>n\<close> rounds to go: the accumulated buffer (scratch
  slot 1) and the buffer of one argument (slot 3) are its state.
\<close>

primrec read_argv_loop ::
  "Hook \<Rightarrow> 64 word \<Rightarrow> nat \<Rightarrow> nat \<Rightarrow> bytes \<Rightarrow> bytes \<Rightarrow> (16 word \<times> CaptureStatus) \<times> bytes \<times> bytes" where
  "read_argv_loop h argv_ptr 0 offset buf tmp =
     ((of_nat offset, (case argv_slot h argv_ptr MAX_ARGS of
         Some p \<Rightarrow> if p = 0 then Complete else Truncated
       | None \<Rightarrow> ReadError)), buf, tmp)"
| "read_argv_loop h argv_ptr (Suc n) offset buf tmp =
     (let i = MAX_ARGS - Suc n in
      (case argv_slot h argv_ptr i of
          None \<Rightarrow> ((of_nat offset, ReadError), buf, tmp)
        | Some arg \<Rightarrow>
            if arg = 0 then ((of_nat offset, Complete), buf, tmp)
            else
              (let safe_offset = offset AND ARGV_MASK in
               if safe_offset > OFFSET_LIMIT then ((of_nat offset, Truncated), buf, tmp)
               else (case k_ustr h arg MAX_PATH_SIZE of
                   None \<Rightarrow> ((of_nat offset, ReadError), buf, replicate (length tmp) 0)
                 | Some s \<Rightarrow>
                     (let tmp' = write_at 0 (s @ [0]) tmp in
                      if \<not> k_copy h ''argv'' i then
                        ((of_nat offset, ReadError),
                         write_at safe_offset (replicate MAX_SINGLE_ARG 0) buf, tmp')
                      else
                        (let buf' = write_at safe_offset (take MAX_SINGLE_ARG tmp') buf in
                         if length s > MAX_SINGLE_ARG - 1 then
                           ((of_nat (safe_offset + MAX_SINGLE_ARG), Truncated),
                            buf'[(safe_offset + MAX_SINGLE_ARG - 1) AND ARGV_MASK := 0], tmp')
                         else
                           (let len = length s AND (MAX_SINGLE_ARG - 1);
                                separator = (safe_offset + len) AND ARGV_MASK
                            in read_argv_loop h argv_ptr n (separator + 1) (buf'[separator := 0]) tmp')))))))"

definition read_argv :: "Hook \<Rightarrow> 64 word \<Rightarrow> Maps \<Rightarrow> (16 word \<times> CaptureStatus) \<times> Maps" where
  "read_argv h argv_ptr m =
     (if argv_ptr = 0 then ((0, Complete), m)
      else if \<not> k_percpu h ''SCRATCH_BUF'' 1 then ((0, ReadError), m)
      else if \<not> k_percpu h ''SCRATCH_BUF'' 3 then ((0, ReadError), m)
      else (case read_argv_loop h argv_ptr MAX_ARGS 0 (SCRATCH_BUF m 1) (SCRATCH_BUF m 3) of
          (r, buf, tmp) \<Rightarrow> (r, m\<lparr>SCRATCH_BUF := (SCRATCH_BUF m)(1 := buf, 3 := tmp)\<rparr>)))"

definition read_filename :: "Hook \<Rightarrow> 64 word \<Rightarrow> Maps \<Rightarrow> (16 word \<times> CaptureStatus) \<times> Maps" where
  "read_filename h filename_ptr m =
     (if \<not> k_percpu h ''SCRATCH_BUF'' 0 then ((0, ReadError), m)
      else (case read_user_str h filename_ptr (SCRATCH_BUF m 0) of
          (r, buf) \<Rightarrow> (r, m\<lparr>SCRATCH_BUF := (SCRATCH_BUF m)(0 := buf)\<rparr>)))"

section \<open>Entry\<close>

definition EXEC_ENTRY_CAPTURE_FAILED :: nat where "EXEC_ENTRY_CAPTURE_FAILED = 0"
definition EXEC_ENTRY_SAVE_FAILED :: nat where "EXEC_ENTRY_SAVE_FAILED = 1"
definition EXEC_EXIT_CAPTURE_FAILED :: nat where "EXEC_EXIT_CAPTURE_FAILED = 2"

text \<open>The two copies from scratch into the entry; a failed one leaves length 0 and a read error.\<close>

definition copy_filename :: "Hook \<Rightarrow> Maps \<Rightarrow> ExecveEntry \<Rightarrow> ExecveEntry" where
  "copy_filename h m entry =
     (if xe_filename_len entry = 0 then entry
      else
        (let n = min (unat (xe_filename_len entry)) (MAX_PATH_SIZE - 1);
             lost = entry\<lparr>xe_filename_len := 0, xe_header := (xe_header entry)\<lparr>h_capture :=
               (h_capture (xe_header entry))\<lparr>cap_secondary := status_byte ReadError\<rparr>\<rparr>\<rparr> in
         if \<not> k_percpu h ''SCRATCH_BUF'' 0 then lost
         else if \<not> k_copy h ''entry_filename'' 0 then
           lost\<lparr>xe_filename_buf := write_at 0 (replicate n 0) (xe_filename_buf entry)\<rparr>
         else entry\<lparr>xe_filename_buf := write_at 0 (take n (SCRATCH_BUF m 0)) (xe_filename_buf entry)\<rparr>))"

definition copy_argv :: "Hook \<Rightarrow> Maps \<Rightarrow> ExecveEntry \<Rightarrow> ExecveEntry" where
  "copy_argv h m entry =
     (if xe_argv_len entry = 0 then entry
      else
        (let n = min (unat (xe_argv_len entry)) (MAX_ARGV_SIZE - 1);
             lost = entry\<lparr>xe_argv_len := 0, xe_header := (xe_header entry)\<lparr>h_capture :=
               (h_capture (xe_header entry))\<lparr>cap_primary := status_byte ReadError\<rparr>\<rparr>\<rparr> in
         if \<not> k_percpu h ''SCRATCH_BUF'' 1 then lost
         else if \<not> k_copy h ''entry_argv'' 0 then
           lost\<lparr>xe_argv_buf := write_at 0 (replicate n 0) (xe_argv_buf entry)\<rparr>
         else entry\<lparr>xe_argv_buf := write_at 0 (take n (SCRATCH_BUF m 1)) (xe_argv_buf entry)\<rparr>))"

definition capture_exec :: "Globals \<Rightarrow> Hook \<Rightarrow> EventKind \<Rightarrow> 64 word \<Rightarrow> 64 word \<Rightarrow> Maps \<Rightarrow> Maps" where
  "capture_exec g h kind filename_ptr argv_ptr m0 =
     (if \<not> k_percpu h ''EXECVE_TMP_BUF'' 0 then failure EXEC_FAILURES EXEC_ENTRY_CAPTURE_FAILED m0
      else
        (let header = fill_task_info g h (kind_byte kind) (xe_header (EXECVE_TMP_BUF m0));
             ((filename_len, filename_status), m1) = read_filename h filename_ptr m0;
             ((argv_len, argv_status), m2) = read_argv h argv_ptr m1;
             entry0 = (EXECVE_TMP_BUF m2)\<lparr>
               xe_header := header\<lparr>h_capture := \<lparr>cap_version = 1, cap_primary = status_byte argv_status,
                 cap_secondary = status_byte filename_status\<rparr>\<rparr>,
               xe_filename_len := filename_len, xe_argv_len := argv_len\<rparr>;
             entry = copy_argv h m2 (copy_filename h m2 entry0);
             m3 = exec_view_emit g h (xe_header entry) (m2\<lparr>EXECVE_TMP_BUF := entry\<rparr>)
         in (case hash_insert (k_update_error h ''EXECVE_ENTRY_MAP'') (EXECVE_ENTRY_MAP m3)
               (k_task h) entry of
             (Inr _, entries) \<Rightarrow> m3\<lparr>EXECVE_ENTRY_MAP := entries\<rparr>
           | (Inl _, _) \<Rightarrow> failure EXEC_FAILURES EXEC_ENTRY_SAVE_FAILED m3)))"

definition try_sys_enter_execve :: "Globals \<Rightarrow> Hook \<Rightarrow> Maps \<Rightarrow> outcome" where
  "try_sys_enter_execve g h m =
     (if \<not> should_trace g h then (Ok (), m)
      else (case (ctx_u64 h 16, ctx_u64 h 24) of
          (Some filename_ptr, Some argv_ptr) \<Rightarrow> (Ok (), capture_exec g h Execve filename_ptr argv_ptr m)
        | _ \<Rightarrow> (Err (- 1), m)))"

definition sys_enter_execve :: "Globals \<Rightarrow> Hook \<Rightarrow> Maps \<Rightarrow> Maps" where
  "sys_enter_execve g h m = (case try_sys_enter_execve g h m of
       (Inr _, m') \<Rightarrow> m'
     | (Inl _, m') \<Rightarrow> failure EXEC_FAILURES EXEC_ENTRY_CAPTURE_FAILED m')"

definition try_sys_enter_execveat :: "Globals \<Rightarrow> Hook \<Rightarrow> Maps \<Rightarrow> outcome" where
  "try_sys_enter_execveat g h m =
     (if \<not> should_trace g h then (Ok (), m)
      else (case (ctx_u64 h 24, ctx_u64 h 32) of
          (Some filename_ptr, Some argv_ptr) \<Rightarrow> (Ok (), capture_exec g h Execveat filename_ptr argv_ptr m)
        | _ \<Rightarrow> (Err (- 1), m)))"

definition sys_enter_execveat :: "Globals \<Rightarrow> Hook \<Rightarrow> Maps \<Rightarrow> Maps" where
  "sys_enter_execveat g h m = (case try_sys_enter_execveat g h m of
       (Inr _, m') \<Rightarrow> m'
     | (Inl _, m') \<Rightarrow> failure EXEC_FAILURES EXEC_ENTRY_CAPTURE_FAILED m')"

section \<open>Exit\<close>

text \<open>
  The record in the assembly buffer.  The state is the buffer, the header and the
  two lengths, which a failed copy resets.
\<close>

definition exec_assemble :: "Hook \<Rightarrow> ExecveEntry \<Rightarrow> 64 word \<Rightarrow> bytes \<Rightarrow> bytes \<times> nat" where
  "exec_assemble h entry return_code buf0 =
     (let fixed = EventHeader_SIZE + ExecvePayload_SIZE;
          filename_len0 = min (unat (xe_filename_len entry)) (MAX_PATH_SIZE - 1);
          argv_len0 = min (unat (xe_argv_len entry)) (MAX_ARGV_SIZE - 1);
          header0 = xe_header entry;
          filename_lost = filename_len0 > 0 \<and> \<not> k_copy h ''exit_filename'' 0;
          buf1 = write_at fixed (if filename_lost then replicate filename_len0 0
                   else take filename_len0 (xe_filename_buf entry)) buf0;
          filename_len = (if filename_lost then 0 else filename_len0);
          header1 = (if filename_lost then header0\<lparr>h_capture :=
            (h_capture header0)\<lparr>cap_secondary := status_byte ReadError\<rparr>\<rparr> else header0);
          argv_lost = argv_len0 > 0 \<and> \<not> k_copy h ''exit_argv'' 0;
          buf2 = write_at (fixed + filename_len) (if argv_lost then replicate argv_len0 0
                   else take argv_len0 (xe_argv_buf entry)) buf1;
          argv_len = (if argv_lost then 0 else argv_len0);
          header = (if argv_lost then header1\<lparr>h_capture :=
            (h_capture header1)\<lparr>cap_primary := status_byte ReadError\<rparr>\<rparr> else header1);
          payload = \<lparr>ex_filename_len = of_nat filename_len, ex_argv_len = of_nat argv_len,
            ex_return_code = ucast return_code\<rparr>
      in (write_at EventHeader_SIZE (ExecvePayload_bytes (k_pad h) payload)
            (write_at 0 (EventHeader_bytes (k_pad h) header) buf2),
          fixed + filename_len + argv_len))"

definition try_sys_exit_execve :: "Hook \<Rightarrow> Maps \<Rightarrow> outcome" where
  "try_sys_exit_execve h m =
     (case EXECVE_ENTRY_MAP m (k_task h) of
         None \<Rightarrow> (Ok (), m)
       | Some entry \<Rightarrow>
           (case ctx_u64 h 16 of
               None \<Rightarrow> (Err (- 1), exec_remove_entry h m)
             | Some return_code \<Rightarrow>
                 (Ok (), exec_remove_entry h
                   (if \<not> k_percpu h ''ASSEMBLY_BUF'' 0 then m
                    else (case exec_assemble h entry return_code (ASSEMBLY_BUF m) of
                        (buf, total_len) \<Rightarrow>
                          if total_len \<le> length buf
                          then emit_event h (take total_len buf) (m\<lparr>ASSEMBLY_BUF := buf\<rparr>)
                          else m\<lparr>ASSEMBLY_BUF := buf\<rparr>)))))"

definition sys_exit_execve :: "Hook \<Rightarrow> Maps \<Rightarrow> Maps" where
  "sys_exit_execve h m = (case try_sys_exit_execve h m of
       (Inr _, m') \<Rightarrow> m'
     | (Inl _, m') \<Rightarrow> failure EXEC_FAILURES EXEC_EXIT_CAPTURE_FAILED m')"

definition sys_exit_execveat :: "Hook \<Rightarrow> Maps \<Rightarrow> Maps" where
  "sys_exit_execveat h m = (case try_sys_exit_execve h m of
       (Inr _, m') \<Rightarrow> m'
     | (Inl _, m') \<Rightarrow> failure EXEC_FAILURES EXEC_EXIT_CAPTURE_FAILED m')"

section \<open>What the argument loop captures\<close>

definition user_arg :: "Hook \<Rightarrow> 64 word \<Rightarrow> nat \<Rightarrow> bytes option" where
  "user_arg h argv_ptr j = (case argv_slot h argv_ptr j of
       None \<Rightarrow> None
     | Some p \<Rightarrow> if p = 0 then None else k_ustr h p MAX_PATH_SIZE)"

definition seen_args :: "Hook \<Rightarrow> 64 word \<Rightarrow> bytes list \<Rightarrow> bool" where
  "seen_args h argv_ptr args \<longleftrightarrow> length args \<le> MAX_ARGS \<and>
     (\<forall>j < length args. \<exists>s. user_arg h argv_ptr j = Some s \<and> args ! j = take 255 s)"

definition exact_args :: "Hook \<Rightarrow> 64 word \<Rightarrow> bytes list \<Rightarrow> bool" where
  "exact_args h argv_ptr args \<longleftrightarrow> length args \<le> MAX_ARGS \<and>
     (\<forall>j < length args. user_arg h argv_ptr j = Some (args ! j) \<and> length (args ! j) \<le> 255)"

lemma exact_seen: "exact_args h a args \<Longrightarrow> seen_args h a args"
  by (auto simp: exact_args_def seen_args_def)

lemma and_mask_small: "x < 2 ^ n \<Longrightarrow> x AND (2 ^ n - 1) = x" for x :: nat
  using take_bit_eq_mask[of n x] take_bit_nat_eq_self[of x n]
  by (simp only: mask_eq_exp_minus_1)

lemma argv_masks:
  "x < 4096 \<Longrightarrow> x AND ARGV_MASK = x" "x < 256 \<Longrightarrow> x AND (MAX_SINGLE_ARG - 1) = x" for x :: nat
  using and_mask_small[of x 12] and_mask_small[of x 8]
  by (simp_all add: ARGV_MASK_def MAX_ARGV_SIZE_def MAX_SINGLE_ARG_def)

lemma argv_chunk:
  assumes "off + length chunk \<le> length buf" "k < length chunk"
  shows "take (off + k + 1) ((write_at off chunk buf)[off + k := 0]) = take off buf @ take k chunk @ [0]"
proof -
  have "take (off + k + 1) ((write_at off chunk buf)[off + k := 0]) =
      (take (off + k + 1) (write_at off chunk buf))[off + k := 0]" by (simp add: take_update_swap)
  also have "take (off + k + 1) (write_at off chunk buf) = take off buf @ take (k + 1) chunk"
    using assms by (simp add: write_at_def)
  also have "take (k + 1) chunk = take k chunk @ [chunk ! k]"
    using assms(2) by (simp add: take_Suc_conv_app_nth)
  finally show ?thesis using assms by (simp add: list_update_append)
qed

lemma argv_buffer_snoc: "argv_buffer (args @ [s]) = argv_buffer args @ s @ [0]"
  by (simp add: argv_buffer_def)

definition argv_result :: "Hook \<Rightarrow> 64 word \<Rightarrow> 16 word \<Rightarrow> CaptureStatus \<Rightarrow> bytes \<Rightarrow> bytes list \<Rightarrow> bool" where
  "argv_result h a len st buf args \<longleftrightarrow>
     take (unat len) buf = argv_buffer args \<and> unat len = length (argv_buffer args) \<and>
     unat len \<le> 4095 \<and> seen_args h a args \<and>
     (st = Complete \<longrightarrow> exact_args h a args \<and> argv_slot h a (length args) = Some 0)"

lemma unat_of_nat_16: "n < 65536 \<Longrightarrow> unat (of_nat n :: 16 word) = n"
  by (simp add: unat_of_nat take_bit_nat_eq_self)

lemma argv_stops:
  assumes "take off buf = argv_buffer args" "off = length (argv_buffer args)" "off \<le> 4095"
    "exact_args h a args" "st = Complete \<longrightarrow> argv_slot h a (length args) = Some 0"
  shows "argv_result h a (of_nat off) st buf args"
proof -
  have "unat (of_nat off :: 16 word) = off"
    using assms(3) by (intro unat_of_nat_16) simp
  then show ?thesis using assms exact_seen by (auto simp: argv_result_def)
qed

lemma user_argI: "argv_slot h a j = Some p \<Longrightarrow> p \<noteq> 0 \<Longrightarrow> user_arg h a j = k_ustr h p MAX_PATH_SIZE"
  by (simp add: user_arg_def)

lemma exact_snoc:
  "exact_args h a args \<Longrightarrow> length args < MAX_ARGS \<Longrightarrow> user_arg h a (length args) = Some s \<Longrightarrow>
     length s \<le> 255 \<Longrightarrow> exact_args h a (args @ [s])"
  by (auto simp: exact_args_def nth_append less_Suc_eq)

lemma seen_snoc:
  "exact_args h a args \<Longrightarrow> length args < MAX_ARGS \<Longrightarrow> user_arg h a (length args) = Some s \<Longrightarrow>
     seen_args h a (args @ [take 255 s])"
  by (auto simp: exact_args_def seen_args_def nth_append less_Suc_eq)

lemma argv_round:
  assumes "hook_ok h" "off = length (argv_buffer args)" "off \<le> OFFSET_LIMIT"
    "take off buf = argv_buffer args" "length buf = 4096" "length tmp = 4096"
    "k_ustr h p MAX_PATH_SIZE = Some s" "k = min (length s) 255"
  defines "tmp' \<equiv> write_at 0 (s @ [0]) tmp"
  shows "take (off + k + 1) ((write_at off (take MAX_SINGLE_ARG tmp') buf)[off + k := 0]) =
      argv_buffer (args @ [take 255 s])"
    and "length tmp' = 4096" "length (write_at off (take MAX_SINGLE_ARG tmp') buf) = 4096"
proof -
  have s: "length s < 4096" using assms(1,7) by (auto simp: hook_ok_def MAX_PATH_SIZE_def)
  show tmp: "length tmp' = 4096" using s assms(6) by (simp add: tmp'_def)
  have fit: "off + length (take MAX_SINGLE_ARG tmp') \<le> length buf" "k < length (take MAX_SINGLE_ARG tmp')"
    using tmp assms(3,5,8) by (auto simp: MAX_SINGLE_ARG_def OFFSET_LIMIT_def MAX_ARGV_SIZE_def)
  show "length (write_at off (take MAX_SINGLE_ARG tmp') buf) = 4096"
    using fit(1) assms(5) by simp
  have "take k (take MAX_SINGLE_ARG tmp') = take 255 s"
    using s assms(8) by (simp add: tmp'_def write_at_def MAX_SINGLE_ARG_def min_def)
  then show "take (off + k + 1) ((write_at off (take MAX_SINGLE_ARG tmp') buf)[off + k := 0]) =
      argv_buffer (args @ [take 255 s])"
    using argv_chunk[OF fit] assms(4) by (simp add: argv_buffer_snoc)
qed

lemma read_argv_loop_captures:
  assumes "hook_ok h" "length buf = 4096" "length tmp = 4096" "exact_args h a args"
    "length args + n = MAX_ARGS" "take off buf = argv_buffer args" "off = length (argv_buffer args)"
    "off \<le> 4095" "read_argv_loop h a n off buf tmp = ((len, st), buf', tmp')"
  shows "(\<exists>args'. argv_result h a len st buf' args') \<and> length buf' = 4096 \<and> length tmp' = 4096"
  using assms(2-)
proof (induction n arbitrary: off buf tmp args)
  case 0
  then show ?case
    using argv_stops[of off buf args h a st]
    by (auto split: option.splits if_splits)
next
  case (Suc n)
  have i: "MAX_ARGS - Suc n = length args" using Suc.prems(4) by simp
  have safe: "off AND ARGV_MASK = off" using Suc.prems(7) argv_masks by simp
  note loop = Suc.prems(8)[unfolded read_argv_loop.simps Let_def i safe]
  note stop = argv_stops[OF Suc.prems(5,6,7,3)]
  show ?case
  proof (cases "argv_slot h a (length args)")
    case None
    then show ?thesis using loop stop[of ReadError] Suc.prems(1,2) by auto
  next
    case (Some p)
    consider "p = 0" | "p \<noteq> 0" "off > OFFSET_LIMIT" | "p \<noteq> 0" "off \<le> OFFSET_LIMIT" by linarith
    then show ?thesis
    proof cases
      case 1
      then show ?thesis using loop Some stop[of Complete] Suc.prems(1,2) by auto
    next
      case 2
      then show ?thesis using loop Some stop[of Truncated] Suc.prems(1,2) by auto
    next
      case 3
      show ?thesis
      proof (cases "k_ustr h p MAX_PATH_SIZE")
        case None
        then show ?thesis using loop Some 3 stop[of ReadError] Suc.prems(1,2) by auto
      next
        case str: (Some s)
        let ?k = "min (length s) 255"
        let ?tmp = "write_at 0 (s @ [0]) tmp"
        let ?buf = "write_at off (take MAX_SINGLE_ARG ?tmp) buf"
        note round = argv_round[OF assms(1) Suc.prems(6) 3(2) Suc.prems(5,1,2) str refl]
        have arg: "user_arg h a (length args) = Some s" using Some 3 str by (simp add: user_argI)
        have lt: "length args < MAX_ARGS" using Suc.prems(4) by simp
        have off: "off \<le> 3839" using 3(2) by (simp add: OFFSET_LIMIT_def MAX_ARGV_SIZE_def MAX_SINGLE_ARG_def)
        have len: "length (argv_buffer (args @ [take 255 s])) = off + ?k + 1"
          using Suc.prems(6) by (simp add: argv_buffer_snoc)
        consider "\<not> k_copy h ''argv'' (length args)" | "k_copy h ''argv'' (length args)" "length s > 255"
          | "k_copy h ''argv'' (length args)" "length s \<le> 255" by linarith
        then show ?thesis
        proof cases
          case 1
          have "take off (write_at off (replicate MAX_SINGLE_ARG 0) buf) = take off buf"
            using off Suc.prems(1) by (simp add: take_write_at_below)
          then have "argv_result h a (of_nat off) ReadError (write_at off (replicate MAX_SINGLE_ARG 0) buf) args"
            using argv_stops[of off "write_at off (replicate MAX_SINGLE_ARG 0) buf" args h a ReadError]
              Suc.prems(3,5,6,7) by simp
          then show ?thesis
            using loop Some 3 str 1 Suc.prems(1) round(2) off by (auto simp: MAX_SINGLE_ARG_def)
        next
          case 2
          have mask: "(off + MAX_SINGLE_ARG - 1) AND ARGV_MASK = off + 255"
            using argv_masks(1)[of "off + 255"] off by (simp add: MAX_SINGLE_ARG_def add.commute)
          have res: "len = of_nat (off + 256)" "st = Truncated" "buf' = ?buf[off + 255 := 0]" "tmp' = ?tmp"
            using loop Some 3 str 2 mask by (auto simp: MAX_SINGLE_ARG_def)
          have "unat len = off + 256"
            unfolding res(1) using off by (intro unat_of_nat_16) simp
          then have "argv_result h a len st buf' (args @ [take 255 s])"
            using round(1) 2 len off res seen_snoc[OF Suc.prems(3) lt arg]
            by (simp add: argv_result_def add.commute)
          then show ?thesis using round res by auto
        next
          case 3
          have mask: "length s AND (MAX_SINGLE_ARG - 1) = length s" "(off + length s) AND ARGV_MASK = off + length s"
            using argv_masks(2)[of "length s"] argv_masks(1)[of "off + length s"] off 3 by simp_all
          have rec: "read_argv_loop h a n (off + length s + 1) (?buf[off + length s := 0]) ?tmp =
              ((len, st), buf', tmp')"
            using loop Some \<open>p \<noteq> 0\<close> \<open>off \<le> OFFSET_LIMIT\<close> str 3 mask by (simp add: MAX_SINGLE_ARG_def)
          show ?thesis
            by (rule Suc.IH[OF _ round(2) exact_snoc[OF Suc.prems(3) lt arg 3(2)] _ _ _ _ rec])
              (use round 3 len off Suc.prems(4) in simp_all)
        qed
      qed
    qed
  qed
qed

text \<open>
  A vector the loop can hold: NULL-terminated, at most 20 arguments of at most 255
  bytes, and the last one starts below the offset limit.
\<close>

definition argv_fits :: "Hook \<Rightarrow> 64 word \<Rightarrow> bytes list \<Rightarrow> bool" where
  "argv_fits h a args \<longleftrightarrow> exact_args h a args \<and> argv_slot h a (length args) = Some 0 \<and>
     length (argv_buffer (butlast args)) \<le> OFFSET_LIMIT"

lemma argv_prefix_below:
  assumes "argv_fits h a (pre @ s # post)"
  shows "length (argv_buffer pre) \<le> OFFSET_LIMIT"
proof -
  have "butlast (pre @ s # post) = pre @ butlast (s # post)" by (simp add: butlast_append)
  then show ?thesis using assms by (simp add: argv_fits_def argv_buffer_def)
qed

lemma user_argD:
  "user_arg h a j = Some s \<Longrightarrow> \<exists>p. argv_slot h a j = Some p \<and> p \<noteq> 0 \<and> k_ustr h p MAX_PATH_SIZE = Some s"
  by (auto simp: user_arg_def split: option.splits if_splits)

lemma read_argv_loop_complete:
  assumes "argv_fits h a (pre @ post)" "\<forall>i. k_copy h ''argv'' i" "length pre + n = MAX_ARGS"
    "off = length (argv_buffer pre)" "read_argv_loop h a n off buf tmp = ((len, st), buf', tmp')"
  shows "st = Complete"
  using assms
proof (induction n arbitrary: pre post off buf tmp)
  case 0
  then have "post = []" by (auto simp: argv_fits_def exact_args_def)
  then show ?case using 0 by (auto simp: argv_fits_def)
next
  case (Suc n)
  have i: "MAX_ARGS - Suc n = length pre" using Suc.prems(3) by simp
  show ?case
  proof (cases post)
    case Nil
    then show ?thesis using Suc.prems i by (auto simp: argv_fits_def Let_def)
  next
    case (Cons s rest)
    have off: "off \<le> OFFSET_LIMIT" using argv_prefix_below Suc.prems(1,4) Cons by blast
    then have off': "off \<le> 3839" by (simp add: OFFSET_LIMIT_def MAX_ARGV_SIZE_def MAX_SINGLE_ARG_def)
    have "user_arg h a (length pre) = Some s" and s: "length s \<le> 255"
      using Suc.prems(1) Cons by (auto simp: argv_fits_def exact_args_def dest!: spec[of _ "length pre"])
    then obtain p where p: "argv_slot h a (length pre) = Some p" "p \<noteq> 0" "k_ustr h p MAX_PATH_SIZE = Some s"
      using user_argD by blast
    have mask: "off AND ARGV_MASK = off" "length s AND (MAX_SINGLE_ARG - 1) = length s"
      "(off + length s) AND ARGV_MASK = off + length s"
      using argv_masks(2)[of "length s"] argv_masks(1)[of "off + length s"] argv_masks(1)[of off] off' s by simp_all
    have rec: "read_argv_loop h a n (off + length s + 1) ((write_at off (take MAX_SINGLE_ARG
        (write_at 0 (s @ [0]) tmp)) buf)[off + length s := 0]) (write_at 0 (s @ [0]) tmp) = ((len, st), buf', tmp')"
      using Suc.prems(5,2) i p off s mask by (simp add: Let_def MAX_SINGLE_ARG_def)
    show ?thesis
      by (rule Suc.IH[OF _ Suc.prems(2) _ _ rec, of "pre @ [s]" rest])
        (use Suc.prems(1,3,4) Cons in \<open>simp_all add: argv_buffer_snoc\<close>)
  qed
qed

text \<open>Only one NULL-terminated vector can be read at an address.\<close>

lemma exact_args_unique:
  assumes "exact_args h a xs" "argv_slot h a (length xs) = Some 0"
    and "exact_args h a ys" "argv_slot h a (length ys) = Some 0"
  shows "xs = ys"
proof -
  have "user_arg h a (length xs) = None" "user_arg h a (length ys) = None"
    using assms(2,4) by (simp_all add: user_arg_def)
  then have "length xs = length ys"
    using assms(1,3) unfolding exact_args_def by (metis linorder_neqE_nat option.distinct(1))
  then show ?thesis using assms(1,3) by (auto simp: exact_args_def intro: nth_equalityI)
qed

lemma read_argv_captures:
  assumes "hook_ok h" "buffers_ok m" "a \<noteq> 0" "k_percpu h ''SCRATCH_BUF'' 1" "k_percpu h ''SCRATCH_BUF'' 3"
  obtains len st m' args where "read_argv h a m = ((len, st), m')"
    "argv_result h a len st (SCRATCH_BUF m' 1) args" "buffers_ok m'"
    "\<And>x. argv_fits h a x \<Longrightarrow> \<forall>i. k_copy h ''argv'' i \<Longrightarrow> st = Complete \<and> args = x"
    "\<exists>b1 b3. m' = m\<lparr>SCRATCH_BUF := (SCRATCH_BUF m)(1 := b1, 3 := b3)\<rparr>"
proof -
  obtain len st buf tmp where r: "read_argv_loop h a MAX_ARGS 0 (SCRATCH_BUF m 1) (SCRATCH_BUF m 3) =
      ((len, st), buf, tmp)" by (metis surj_pair)
  let ?m = "m\<lparr>SCRATCH_BUF := (SCRATCH_BUF m)(1 := buf, 3 := tmp)\<rparr>"
  have len: "length (SCRATCH_BUF m 1) = 4096" "length (SCRATCH_BUF m 3) = 4096"
    using assms(2) by (simp_all add: buffers_ok_def MAX_PATH_SIZE_def)
  obtain args where args: "argv_result h a len st buf args" "length buf = 4096" "length tmp = 4096"
    using read_argv_loop_captures[OF assms(1) len, of a "[]" MAX_ARGS 0 len st buf tmp] r
    by (auto simp: exact_args_def)
  have certified: "st = Complete \<and> args = x" if x: "argv_fits h a x" "\<forall>i. k_copy h ''argv'' i" for x
  proof -
    have "argv_fits h a ([] @ x)" using x by simp
    from read_argv_loop_complete[OF this x(2) _ _ r] have st: "st = Complete" by simp
    then have "exact_args h a args" "argv_slot h a (length args) = Some 0"
      using args(1) by (simp_all add: argv_result_def)
    moreover have "exact_args h a x" "argv_slot h a (length x) = Some 0"
      using x(1) by (simp_all add: argv_fits_def)
    ultimately show ?thesis using st exact_args_unique by blast
  qed
  have "read_argv h a m = ((len, st), ?m)" using r assms by (simp add: read_argv_def)
  moreover have "buffers_ok ?m" using assms(2) args by (simp add: buffers_ok_def MAX_PATH_SIZE_def)
  moreover have "argv_result h a len st (SCRATCH_BUF ?m 1) args" using args(1) by simp
  ultimately show thesis using certified by (intro that[of len st ?m args]) blast+
qed

section \<open>The entry and the record\<close>

definition filename_capture :: "Hook \<Rightarrow> 64 word \<Rightarrow> CaptureStatus \<times> bytes" where
  "filename_capture h ptr = (case k_ustr h ptr MAX_PATH_SIZE of
       None \<Rightarrow> (ReadError, [])
     | Some s \<Rightarrow> (if length s < MAX_PATH_SIZE - 1 then Complete else Truncated, s))"

definition exec_entry_holds :: "EventHeader \<Rightarrow> CaptureStatus \<Rightarrow> CaptureStatus \<Rightarrow> bytes \<Rightarrow> bytes list \<Rightarrow> ExecveEntry \<Rightarrow> bool" where
  "exec_entry_holds header argv_status filename_status filename args entry \<longleftrightarrow>
     xe_header entry = header\<lparr>h_capture := \<lparr>cap_version = 1, cap_primary = status_byte argv_status,
       cap_secondary = status_byte filename_status\<rparr>\<rparr> \<and>
     unat (xe_filename_len entry) = length filename \<and> length filename \<le> 4095 \<and>
     take (length filename) (xe_filename_buf entry) = filename \<and>
     unat (xe_argv_len entry) = length (argv_buffer args) \<and> length (argv_buffer args) \<le> 4095 \<and>
     take (length (argv_buffer args)) (xe_argv_buf entry) = argv_buffer args"

lemma read_filename_captures:
  assumes "hook_ok h" "buffers_ok m" "k_percpu h ''SCRATCH_BUF'' 0" "filename_capture h p = (st, f)"
  obtains buf where "read_filename h p m = ((of_nat (length f), st), m\<lparr>SCRATCH_BUF := (SCRATCH_BUF m)(0 := buf)\<rparr>)"
    "take (length f) buf = f" "length buf = 4096" "length f \<le> 4095" "nul_free f"
proof (cases "k_ustr h p MAX_PATH_SIZE")
  case None
  then show thesis
    using that[of "replicate (length (SCRATCH_BUF m 0)) 0"] assms
    by (simp add: read_filename_def read_user_str_def filename_capture_def buffers_ok_def
        MAX_PATH_SIZE_def nul_free_def)
next
  case (Some s)
  then have s: "length s < 4096" "0 \<notin> set s" using assms(1) by (auto simp: hook_ok_def MAX_PATH_SIZE_def)
  have f: "f = s" "st = (if length s < MAX_PATH_SIZE - 1 then Complete else Truncated)"
    using Some assms(4) by (auto simp: filename_capture_def)
  then show thesis
    using that[of "s @ [0] @ drop (length s + 1) (SCRATCH_BUF m 0)"] Some s assms(2,3)
    by (simp add: read_filename_def read_user_str_def buffers_ok_def MAX_PATH_SIZE_def nul_free_def)
qed

lemma copy_filename_holds:
  assumes "k_percpu h ''SCRATCH_BUF'' 0" "k_copy h ''entry_filename'' 0" "unat (xe_filename_len e) = n"
    "n \<le> 4095" "n \<le> length (SCRATCH_BUF m 0)"
  shows "xe_header (copy_filename h m e) = xe_header e"
    "xe_filename_len (copy_filename h m e) = xe_filename_len e"
    "xe_argv_len (copy_filename h m e) = xe_argv_len e"
    "take n (xe_filename_buf (copy_filename h m e)) = take n (SCRATCH_BUF m 0)"
  using assms
  by (auto simp: copy_filename_def Let_def write_at_def MAX_PATH_SIZE_def unat_eq_zero)

lemma copy_argv_holds:
  assumes "k_percpu h ''SCRATCH_BUF'' 1" "k_copy h ''entry_argv'' 0" "unat (xe_argv_len e) = n"
    "n \<le> 4095" "n \<le> length (SCRATCH_BUF m 1)"
  shows "xe_header (copy_argv h m e) = xe_header e"
    "xe_filename_len (copy_argv h m e) = xe_filename_len e"
    "xe_filename_buf (copy_argv h m e) = xe_filename_buf e"
    "xe_argv_len (copy_argv h m e) = xe_argv_len e"
    "take n (xe_argv_buf (copy_argv h m e)) = take n (SCRATCH_BUF m 1)"
  using assms
  by (auto simp: copy_argv_def Let_def write_at_def MAX_ARGV_SIZE_def unat_eq_zero)

text \<open>Every helper of the enter program succeeds.\<close>

definition exec_entry_hook :: "Hook \<Rightarrow> bool" where
  "exec_entry_hook h \<longleftrightarrow> hook_ok h \<and> (\<forall>i < 4. k_percpu h ''SCRATCH_BUF'' i) \<and> k_percpu h ''EXECVE_TMP_BUF'' 0 \<and>
     k_copy h ''entry_filename'' 0 \<and> k_copy h ''entry_argv'' 0 \<and> (\<forall>i. k_copy h ''argv'' i) \<and>
     k_update_error h ''EXECVE_ENTRY_MAP'' = None"

lemma exec_view_emit_frame [simp]:
  "EXECVE_ENTRY_MAP (exec_view_emit g h exec_header m) = EXECVE_ENTRY_MAP m"
  "EXECVE_TMP_BUF (exec_view_emit g h exec_header m) = EXECVE_TMP_BUF m"
  by (simp_all add: exec_view_emit_def emit_fixed_def emit_event_def increment_drop_count_def)

lemma capture_exec_stores:
  assumes "exec_entry_hook h" "buffers_ok m" "a \<noteq> 0" "filename_capture h f = (fs, filename)"
  obtains entry args st where
    "EXECVE_ENTRY_MAP (capture_exec g h kind f a m) (k_task h) = Some entry"
    "exec_entry_holds (get_task_info g h (kind_byte kind)) st fs filename args entry"
    "seen_args h a args" "st = Complete \<Longrightarrow> exact_args h a args \<and> argv_slot h a (length args) = Some 0"
    "\<And>x. argv_fits h a x \<Longrightarrow> st = Complete \<and> args = x"
proof -
  have ok: "hook_ok h" "k_percpu h ''SCRATCH_BUF'' 0" "k_percpu h ''SCRATCH_BUF'' 1"
    "k_percpu h ''SCRATCH_BUF'' 3" "k_percpu h ''EXECVE_TMP_BUF'' 0" "k_copy h ''entry_filename'' 0"
    "k_copy h ''entry_argv'' 0" "\<forall>i. k_copy h ''argv'' i" "k_update_error h ''EXECVE_ENTRY_MAP'' = None"
    using assms(1) by (simp_all add: exec_entry_hook_def)
  obtain buf where f: "read_filename h f m =
      ((of_nat (length filename), fs), m\<lparr>SCRATCH_BUF := (SCRATCH_BUF m)(0 := buf)\<rparr>)" "take (length filename) buf = filename" "length buf = 4096"
    "length filename \<le> 4095"
    using read_filename_captures[OF ok(1) assms(2) ok(2) assms(4)] by blast
  let ?ma = "m\<lparr>SCRATCH_BUF := (SCRATCH_BUF m)(0 := buf)\<rparr>"
  have m1: "buffers_ok ?ma" using assms(2) f(3) by (simp add: buffers_ok_def MAX_PATH_SIZE_def)
  obtain len st m2 args where a: "read_argv h a ?ma = ((len, st), m2)"
    "argv_result h a len st (SCRATCH_BUF m2 1) args"
    "\<And>x. argv_fits h a x \<Longrightarrow> \<forall>i. k_copy h ''argv'' i \<Longrightarrow> st = Complete \<and> args = x"
    "\<exists>b1 b3. m2 = ?ma\<lparr>SCRATCH_BUF := (SCRATCH_BUF ?ma)(1 := b1, 3 := b3)\<rparr>" "buffers_ok m2"
    by (rule read_argv_captures[OF ok(1) m1 assms(3) ok(3,4)]) blast
  from a(4) have m2: "SCRATCH_BUF m2 0 = buf" "EXECVE_TMP_BUF m2 = EXECVE_TMP_BUF m"
    "EXECVE_ENTRY_MAP m2 = EXECVE_ENTRY_MAP m" by auto
  let ?hd = "get_task_info g h (kind_byte kind)"
  let ?raw = "(EXECVE_TMP_BUF m2)\<lparr>xe_header := ?hd\<lparr>h_capture := \<lparr>cap_version = 1, cap_primary = status_byte st,
      cap_secondary = status_byte fs\<rparr>\<rparr>, xe_filename_len := of_nat (length filename), xe_argv_len := len\<rparr>"
  let ?half = "copy_filename h m2 ?raw" and ?e = "copy_argv h m2 (copy_filename h m2 ?raw)"
  have hd: "fill_task_info g h (kind_byte kind) (xe_header (EXECVE_TMP_BUF m)) = ?hd"
    using assms(2) by (intro fill_task_info_fresh) (simp add: buffers_ok_def execve_entry_ok_def wf_EventHeader_def wf_NsSnapshot_sized)
  have stored: "EXECVE_ENTRY_MAP (capture_exec g h kind f a m) (k_task h) = Some ?e"
    unfolding capture_exec_def f(1) Let_def prod.case a(1) hd
    using ok by (simp add: hash_insert_def)
  have n1: "unat (xe_filename_len ?raw) = length filename"
    using f(4) by (simp add: unat_of_nat_16)
  have n0: "length (argv_buffer args) \<le> 4095" using a(2) by (simp add: argv_result_def)
  have lens: "length filename \<le> length (SCRATCH_BUF m2 0)" "length (argv_buffer args) \<le> length (SCRATCH_BUF m2 1)"
    using f(3,4) m2(1) n0 a(5) by (simp_all add: buffers_ok_def MAX_PATH_SIZE_def)
  note c1 = copy_filename_holds[OF ok(2,6) n1 f(4) lens(1)]
  have n2: "unat (xe_argv_len ?half) = length (argv_buffer args)"
    using a(2) by (simp add: argv_result_def c1)
  note c2 = copy_argv_holds[OF ok(3,7) n2 n0 lens(2)]
  have argv: "take (length (argv_buffer args)) (SCRATCH_BUF m2 1) = argv_buffer args"
    using a(2) by (auto simp: argv_result_def)
  have "exec_entry_holds ?hd st fs filename args ?e"
    unfolding exec_entry_holds_def c2 c1(1,2,4) using n0 n1 n2 f(2,4) argv m2(1) by simp
  then show thesis
    using stored a(2) a(3)[OF _ ok(8)] by (intro that[of ?e st args]) (auto simp: argv_result_def)
qed

definition exec_record :: "Hook \<Rightarrow> EventHeader \<Rightarrow> bytes \<Rightarrow> bytes \<Rightarrow> 64 word \<Rightarrow> bytes" where
  "exec_record h header filename argv ret =
     EventHeader_bytes (k_pad h) header
       @ ExecvePayload_bytes (k_pad h) \<lparr>ex_filename_len = of_nat (length filename),
           ex_argv_len = of_nat (length argv), ex_return_code = ucast ret\<rparr>
       @ filename @ argv"

lemma exec_assemble_records:
  assumes "exec_entry_holds header st fs filename args entry" "wf_EventHeader (xe_header entry)"
    "length buf = ASSEMBLY_BUF_SIZE" "k_copy h ''exit_filename'' 0" "k_copy h ''exit_argv'' 0"
  shows "case exec_assemble h entry ret buf of (buf', n) \<Rightarrow> n \<le> length buf' \<and>
    take n buf' = exec_record h (xe_header entry) filename (argv_buffer args) ret"
proof -
  let ?hd = "EventHeader_bytes (k_pad h) (xe_header entry)"
  let ?pl = "ExecvePayload_bytes (k_pad h) \<lparr>ex_filename_len = of_nat (length filename),
    ex_argv_len = of_nat (length (argv_buffer args)), ex_return_code = ucast ret\<rparr>"
  let ?argv = "argv_buffer args"
  have sz: "length ?hd = 96" "length ?pl = 8"
    using h_wire.size[OF assms(2)] ex_wire.size by (simp_all add: wire_simps)
  have e: "unat (xe_filename_len entry) = length filename" "length filename \<le> 4095"
    "take (length filename) (xe_filename_buf entry) = filename"
    "unat (xe_argv_len entry) = length ?argv" "length ?argv \<le> 4095"
    "take (length ?argv) (xe_argv_buf entry) = ?argv"
    using assms(1) by (simp_all add: exec_entry_holds_def)
  have out: "exec_assemble h entry ret buf =
      (write_at 96 ?pl (write_at 0 ?hd (write_at (104 + length filename) ?argv (write_at 104 filename buf))),
       104 + length filename + length ?argv)"
    unfolding exec_assemble_def Let_def using e assms(4,5)
    by (simp add: wire_simps MAX_PATH_SIZE_def MAX_ARGV_SIZE_def min_def)
  have buf: "length buf = 8448" using assms(3) by (simp add: ASSEMBLY_BUF_SIZE_def MAX_PATH_SIZE_def)
  show ?thesis
    unfolding out prod.case exec_record_def using sz e(2,5) buf by (simp add: write_at_def)
qed

lemma exec_exit_emits:
  assumes "EXECVE_ENTRY_MAP m (k_task h) = Some entry" "exec_entry_holds header st fs filename args entry"
    "wf_EventHeader (xe_header entry)" "buffers_ok m" "ctx_u64 h 16 = Some ret"
    "k_percpu h ''ASSEMBLY_BUF'' 0" "k_copy h ''exit_filename'' 0" "k_copy h ''exit_argv'' 0"
    "k_delete_error h ''EXECVE_ENTRY_MAP'' = None" "\<forall>data. k_ring h data"
  shows "EVENTS (sys_exit_execve h m) =
      EVENTS m @ [exec_record h (xe_header entry) filename (argv_buffer args) ret]"
    and "EXECVE_ENTRY_MAP (sys_exit_execve h m) (k_task h) = None"
proof -
  obtain buf n where a: "exec_assemble h entry ret (ASSEMBLY_BUF m) = (buf, n)" by fastforce
  have n: "n \<le> length buf" "take n buf = exec_record h (xe_header entry) filename (argv_buffer args) ret"
    using exec_assemble_records[OF assms(2,3) _ assms(7,8), of "ASSEMBLY_BUF m" ret] assms(4) a
    by (simp_all add: buffers_ok_def)
  have "sys_exit_execve h m = exec_remove_entry h (emit_event h (take n buf) (m\<lparr>ASSEMBLY_BUF := buf\<rparr>))"
    using assms(1,5,6) a n(1) by (simp add: sys_exit_execve_def try_sys_exit_execve_def)
  moreover have "take n buf \<noteq> []"
    unfolding n(2) exec_record_def by (simp add: EventHeader_first_byte)
  ultimately show "EVENTS (sys_exit_execve h m) =
      EVENTS m @ [exec_record h (xe_header entry) filename (argv_buffer args) ret]"
    and "EXECVE_ENTRY_MAP (sys_exit_execve h m) (k_task h) = None"
    using assms(1,9,10) n(2) by (simp_all add: emit_event_def exec_remove_entry_def hash_remove_def)
qed

section \<open>Decoding the record\<close>

definition lossy_str :: "bytes \<Rightarrow> string" where
  "lossy_str s = str_of_bytes (from_utf8_lossy s)"

definition reported_status :: "CaptureStatus \<Rightarrow> bytes \<Rightarrow> string" where
  "reported_status st data =
     (if st = Complete \<and> \<not> valid_utf8 data then ''invalid_encoding'' else status_str st)"

definition exec_args_json :: "bytes \<Rightarrow> bytes list \<Rightarrow> CaptureStatus \<Rightarrow> CaptureStatus \<Rightarrow> json" where
  "exec_args_json filename args argv_status filename_status =
     JObj [(''filename'', JStr (lossy_str filename)), (''argv'', jstrs (map lossy_str args)),
       (''exec_capture_version'', JNum 1),
       (''argv_status'', JStr (reported_status argv_status (argv_buffer args))),
       (''filename_status'', JStr (reported_status filename_status filename))]"

lemma seen_args_nul_free:
  assumes "hook_ok h" "seen_args h a args"
  shows "list_all nul_free args"
proof -
  have "nul_free (args ! j)" if j: "j < length args" for j
  proof -
    obtain s where s: "user_arg h a j = Some s" "args ! j = take 255 s"
      using assms(2) j by (auto simp: seen_args_def)
    then obtain p where "k_ustr h p MAX_PATH_SIZE = Some s" using user_argD by blast
    then have "0 \<notin> set s" using assms(1) by (auto simp: hook_ok_def)
    then show ?thesis using s(2) in_set_takeD[of 0 255 s] by (auto simp: nul_free_def)
  qed
  then show ?thesis by (simp add: list_all_length)
qed

lemma extract_argv_buffer_lossy:
  "list_all nul_free args \<Longrightarrow> extract_argv (argv_buffer args) = map lossy_str args"
  by (cases "args = []")
    (simp_all add: extract_argv_def argv_buffer_join split_join_nul lossy_str_def)

lemma exec_record_decodes:
  assumes "wf_EventHeader header" "h_kind header = kind_byte Execve"
    "h_capture header = capture_v1 st (status_byte fs)"
    "list_all nul_free args" "nul_free filename" "length filename \<le> 4095" "length (argv_buffer args) \<le> 4095"
  shows "deserialize b64 (exec_record h header filename (argv_buffer args) ret) =
    Ok (record_event header (''TRACEPOINT'', ''execve'', ''tooling'',
      Some (exec_args_json filename args st fs), Some (sint (ucast ret :: 32 word))))"
proof -
  let ?p = "\<lparr>ex_filename_len = of_nat (length filename),
    ex_argv_len = of_nat (length (argv_buffer args)), ex_return_code = ucast ret\<rparr>"
  have lens: "unat (ex_filename_len ?p) = length filename"
    "unat (ex_argv_len ?p) = length (argv_buffer args)"
    using assms(6,7) by (simp_all add: unat_of_nat_16)
  have "exec_statuses (capture_v1 st (status_byte fs)) (length filename) (length (argv_buffer args))
      (length filename + length (argv_buffer args)) filename (argv_buffer args)
    = Ok (reported_status st (argv_buffer args), reported_status fs filename)"
    using last_argv_buffer[of args]
    by (cases "args = []") (simp_all add: exec_statuses_def capture_v1_def reported_status_def)
  then show ?thesis
    unfolding exec_record_def using assms
    by (subst deserialize_emitted[where k = Execve])
      (simp_all add: parse_execve_emitted[OF lens] extract_argv_buffer_lossy exec_args_json_def
        extract_string_def lossy_str_def until_nul_free capture_v1_def junum_def)
qed

section \<open>The buffers keep their sizes\<close>

lemma read_argv_buffers:
  assumes "hook_ok h" "buffers_ok m" "read_argv h a m = (r, m')"
  shows "buffers_ok m'" "EXECVE_TMP_BUF m' = EXECVE_TMP_BUF m"
proof -
  show "buffers_ok m'"
  proof (cases "a \<noteq> 0 \<and> k_percpu h ''SCRATCH_BUF'' 1 \<and> k_percpu h ''SCRATCH_BUF'' 3")
    case True
    then show ?thesis using read_argv_captures[OF assms(1,2), of a] assms(3) by (metis snd_conv)
  next
    case False
    then show ?thesis using assms by (auto simp: read_argv_def split: if_splits)
  qed
  show "EXECVE_TMP_BUF m' = EXECVE_TMP_BUF m"
    using assms(3) by (auto simp: read_argv_def split: if_splits prod.splits)
qed

lemma read_filename_buffers:
  assumes "hook_ok h" "buffers_ok m" "read_filename h f m = (r, m')"
  shows "buffers_ok m'" "EXECVE_TMP_BUF m' = EXECVE_TMP_BUF m"
proof -
  show "buffers_ok m'"
  proof (cases "k_percpu h ''SCRATCH_BUF'' 0")
    case True
    obtain st s where "filename_capture h f = (st, s)" by fastforce
    from read_filename_captures[OF assms(1,2) True this] show ?thesis
      using assms(2,3) buffers_ok_scratch(1) by (metis MAX_PATH_SIZE_def snd_conv)
  next
    case False
    then show ?thesis using assms by (auto simp: read_filename_def)
  qed
  show "EXECVE_TMP_BUF m' = EXECVE_TMP_BUF m"
    using assms(3) by (auto simp: read_filename_def split: if_splits prod.splits)
qed

lemma copy_ok:
  assumes "execve_entry_ok e" "buffers_ok m"
  shows "execve_entry_ok (copy_filename h m e)" "execve_entry_ok (copy_argv h m e)"
  using assms
  by (auto simp: copy_filename_def copy_argv_def Let_def execve_entry_ok_def buffers_ok_def
      MAX_PATH_SIZE_def MAX_ARGV_SIZE_def)

lemma fill_wf: "hook_ok h \<Longrightarrow> wf_EventHeader hdr \<Longrightarrow> wf_EventHeader (fill_task_info g h k hdr)"
  using fill_task_info_fresh[of hdr g h k] get_task_info_wf[of h g k]
  by (simp add: wf_EventHeader_def wf_NsSnapshot_sized)

lemma exec_view_buffers [simp]: "buffers_ok (exec_view_emit g h hdr m) = buffers_ok m"
  by (simp add: exec_view_emit_def)

lemma capture_exec_buffers:
  assumes "hook_ok h" "buffers_ok m"
  shows "buffers_ok (capture_exec g h kind f a m)"
proof -
  obtain l1 s1 m1 where r1: "read_filename h f m = ((l1, s1), m1)" by (metis surj_pair)
  obtain l2 s2 m2 where r2: "read_argv h a m1 = ((l2, s2), m2)" by (metis surj_pair)
  have m1: "buffers_ok m1" "EXECVE_TMP_BUF m1 = EXECVE_TMP_BUF m"
    using read_filename_buffers[OF assms r1] by simp_all
  have m2: "buffers_ok m2" "EXECVE_TMP_BUF m2 = EXECVE_TMP_BUF m"
    using read_argv_buffers[OF assms(1) m1(1) r2] m1(2) by simp_all
  define entry where "entry = copy_argv h m2 (copy_filename h m2 ((EXECVE_TMP_BUF m2)\<lparr>xe_header :=
      (fill_task_info g h (kind_byte kind) (xe_header (EXECVE_TMP_BUF m)))\<lparr>h_capture :=
      \<lparr>cap_version = 1, cap_primary = status_byte s2, cap_secondary = status_byte s1\<rparr>\<rparr>,
      xe_filename_len := l1, xe_argv_len := l2\<rparr>))"
  have "wf_EventHeader (fill_task_info g h (kind_byte kind) (xe_header (EXECVE_TMP_BUF m)))"
    using fill_wf[OF assms(1)] assms(2) by (simp add: execve_entry_ok_def buffers_ok_def)
  then have e: "execve_entry_ok entry"
    unfolding entry_def using m2
    by (intro copy_ok) (simp_all add: execve_entry_ok_def buffers_ok_def wf_EventHeader_def)
  have m3: "buffers_ok (exec_view_emit g h (xe_header entry) (m2\<lparr>EXECVE_TMP_BUF := entry\<rparr>))"
    unfolding exec_view_buffers using m2(1) e by (simp add: buffers_ok_def)
  show ?thesis
    unfolding capture_exec_def r1 r2 Let_def prod.case entry_def[symmetric]
    using m3 e assms(2)
    by (auto intro!: buffers_ok_inserts(2)[OF _ e] dest: ran_hash_insert[THEN subsetD]
        split: prod.splits sum.splits)
qed

lemma exec_assemble_length:
  assumes "execve_entry_ok e" "wf_EventHeader (xe_header e)" "length buf = ASSEMBLY_BUF_SIZE"
  shows "length (fst (exec_assemble h e ret buf)) = ASSEMBLY_BUF_SIZE"
proof -
  have hd: "length (EventHeader_bytes (k_pad h) ((xe_header e)\<lparr>h_capture := c\<rparr>)) = 96"
    "length (EventHeader_bytes (k_pad h) (xe_header e)) = 96" for c
    using h_wire.size[of "(xe_header e)\<lparr>h_capture := c\<rparr>"] h_wire.size[of "xe_header e"] assms(2)
    by (simp_all add: wire_simps wf_EventHeader_def)
  have pl: "length (ExecvePayload_bytes pad p) = 8" for pad p
    using ex_wire.size[of pad p] by (simp add: wire_simps)
  show ?thesis
    unfolding exec_assemble_def Let_def fst_conv
    using assms hd pl
    by (simp add: wire_simps execve_entry_ok_def ASSEMBLY_BUF_SIZE_def MAX_PATH_SIZE_def MAX_ARGV_SIZE_def)
qed

lemma exec_buffers:
  assumes "hook_ok h" "buffers_ok m"
  shows "buffers_ok (sys_enter_execve g h m)" "buffers_ok (sys_enter_execveat g h m)"
    "buffers_ok (sys_exit_execve h m)" "buffers_ok (sys_exit_execveat h m)"
proof -
  show "buffers_ok (sys_enter_execve g h m)" "buffers_ok (sys_enter_execveat g h m)"
    using assms capture_exec_buffers[OF assms]
    by (simp_all add: sys_enter_execve_def try_sys_enter_execve_def sys_enter_execveat_def
        try_sys_enter_execveat_def split: option.splits)
  have "buffers_ok (m\<lparr>ASSEMBLY_BUF := buf\<rparr>)"
    if "EXECVE_ENTRY_MAP m (k_task h) = Some e" "exec_assemble h e ret (ASSEMBLY_BUF m) = (buf, n)" for e ret buf n
  proof -
    have "execve_entry_ok e" using assms(2) that(1) by (auto simp: buffers_ok_def ran_def)
    then show ?thesis
      using exec_assemble_length[of e "ASSEMBLY_BUF m" h ret] assms(2) that(2)
      by (intro buffers_ok_scratch) (simp_all add: buffers_ok_def execve_entry_ok_def)
  qed
  then show "buffers_ok (sys_exit_execve h m)" "buffers_ok (sys_exit_execveat h m)"
    using assms(2)
    by (auto simp: sys_exit_execve_def sys_exit_execveat_def try_sys_exit_execve_def
        split: option.splits prod.splits intro!: interrupt_buffers)
qed

section \<open>Properties\<close>


text \<open>A caller that runs \<open>ls\<close> with one argument.\<close>

definition exec_hook :: Hook where
  "exec_hook = quiet_hook\<lparr>k_umem := (\<lambda>a n. Some (le_bytes n (if a = 24 then 100 else 0)))\<rparr>"

lemma exec_hook_ok: "exec_entry_hook exec_hook"
  using quiet_hook_ok by (auto simp: exec_entry_hook_def hook_ok_def exec_hook_def quiet_hook_def)

lemma exec_hook_ctx: "ctx_u64 exec_hook off = ctx_u64 quiet_hook off"
  by (simp add: ctx_u64_def exec_hook_def)

lemma exec_hook_args:
  "should_trace quiet_globals exec_hook" "ctx_u64 exec_hook 16 = Some 16" "ctx_u64 exec_hook 24 = Some 24"
  "filename_capture exec_hook 16 = (Complete, [0x6C, 0x73])"
  "argv_fits exec_hook 24 [[0x6C, 0x73]]"
proof -
  show "should_trace quiet_globals exec_hook"
    by (simp add: should_trace_def get_current_auid_def task_auid_def read_k32_def exec_hook_def
        quiet_hook_def quiet_globals_def current_tgid_def le_ones)
  show "ctx_u64 exec_hook 16 = Some 16" "ctx_u64 exec_hook 24 = Some 24"
    by (simp_all add: exec_hook_ctx)
  show "filename_capture exec_hook 16 = (Complete, [0x6C, 0x73])"
    by (simp add: filename_capture_def exec_hook_def quiet_hook_def MAX_PATH_SIZE_def)
  have "argv_slot exec_hook 24 0 = Some 100" "argv_slot exec_hook 24 1 = Some 0"
    by (simp_all add: argv_slot_def exec_hook_def le_word_def le_nat_le_bytes)
  then show "argv_fits exec_hook 24 [[0x6C, 0x73]]"
    by (simp add: argv_fits_def exact_args_def user_arg_def MAX_ARGS_def OFFSET_LIMIT_def)
      (simp add: exec_hook_def quiet_hook_def MAX_PATH_SIZE_def)
qed


end
