(* ===== verification/BpfRich.thy ===== *)
theory BpfRich
  imports BpfExec
begin

text \<open>
  \<open>bloodhound-ebpf/src/layer3_rich.rs\<close> and \<open>fd_ident.rs\<close>: the Tier-2 programs.
  The enter program of a syscall keeps the decoded arguments in an entry map (the
  generic one, the one for paths or the one for openat); the exit program adds the
  return value and emits the record.
\<close>

section \<open>Descriptor identity\<close>

record DevIno =
  di_dev :: "64 word"
  di_ino :: "64 word"
  di_valid :: byte

definition DevIno_default :: DevIno where
  "DevIno_default = \<lparr>di_dev = 0, di_ino = 0, di_valid = 0\<rparr>"

definition ident_offset :: "Globals \<Rightarrow> nat \<Rightarrow> 64 word" where
  "ident_offset g i = (if i < length (OFF_FD_IDENT g) then ucast (OFF_FD_IDENT g ! i) else 0)"

definition ident_read :: "Globals \<Rightarrow> Hook \<Rightarrow> nat \<Rightarrow> 64 word \<Rightarrow> nat \<Rightarrow> 'a::len word option" where
  "ident_read g h n base i = map_option le_word (k_kmem h (base + ident_offset g i) n)"

definition ident_pointer :: "Globals \<Rightarrow> Hook \<Rightarrow> 64 word \<Rightarrow> nat \<Rightarrow> 64 word option" where
  "ident_pointer g h base i =
     Option.bind (ident_read g h 8 base i) (\<lambda>value. if value = 0 then None else Some value)"

definition inode_for_fd :: "Globals \<Rightarrow> Hook \<Rightarrow> 32 word \<Rightarrow> 64 word option" where
  "inode_for_fd g h fd =
     (if k_task h = 0 then None
      else
        Option.bind (ident_pointer g h (k_task h) 0) (\<lambda>files.
        Option.bind (ident_pointer g h files 1) (\<lambda>fdt.
        Option.bind (ident_read g h 4 fdt 2) (\<lambda>max_fds.
          if max_fds \<le> fd then None
          else
            Option.bind (ident_pointer g h fdt 3) (\<lambda>arr.
            Option.bind (read_k64 h (arr + ucast fd * 8)) (\<lambda>file.
              if file = 0 then None else ident_pointer g h file 4))))))"

definition fd_to_dev_ino :: "Globals \<Rightarrow> Hook \<Rightarrow> 32 word \<Rightarrow> DevIno" where
  "fd_to_dev_ino g h fd =
     (if sint fd < 0 \<or> FD_IDENT_SUPPORTED g = 0 then DevIno_default
      else (case inode_for_fd g h fd of
          None \<Rightarrow> DevIno_default
        | Some inode \<Rightarrow>
            (let (ino, ino_valid) = (case ident_read g h 8 inode 5 of
                 Some value \<Rightarrow> (value, INO_VALID)
               | None \<Rightarrow> (0, 0)) in
             (case ident_pointer g h inode 6 of
                 None \<Rightarrow> \<lparr>di_dev = 0, di_ino = ino, di_valid = ino_valid\<rparr>
               | Some sb \<Rightarrow>
                   (let (dev, dev_valid) = (case ident_read g h 4 sb 7 of
                        Some value \<Rightarrow> (ucast (value :: 32 word), DEV_VALID)
                      | None \<Rightarrow> (0, 0))
                    in \<lparr>di_dev = dev, di_ino = ino, di_valid = ino_valid OR dev_valid\<rparr>)))))"

section \<open>Entries and records\<close>

text \<open>\<open>emit_varlen\<close> assembles header, payload and data; it fails before anything is emitted.\<close>

definition emit_varlen :: "Hook \<Rightarrow> EventHeader \<Rightarrow> bytes \<Rightarrow> bytes \<Rightarrow> Maps \<Rightarrow> bool \<times> Maps" where
  "emit_varlen h header payload var_data m =
     (let fixed = EventHeader_SIZE + length payload;
          total_len = fixed + length var_data in
      if \<not> k_percpu h ''ASSEMBLY_BUF'' 0 then (False, m)
      else if total_len > length (ASSEMBLY_BUF m) then (False, m)
      else
        (let buf = write_at EventHeader_SIZE payload
               (write_at 0 (EventHeader_bytes (k_pad h) header) (ASSEMBLY_BUF m)) in
         if var_data \<noteq> [] \<and> \<not> k_copy h ''varlen'' 0 then
           (False, m\<lparr>ASSEMBLY_BUF := write_at fixed (replicate (length var_data) 0) buf\<rparr>)
         else
           (let out = write_at fixed var_data buf
            in (True, emit_event h (take total_len out) (m\<lparr>ASSEMBLY_BUF := out\<rparr>)))))"

definition entry_result :: "outcome \<Rightarrow> Maps" where
  "entry_result result = (case result of
       (Inr _, m) \<Rightarrow> m
     | (Inl _, m) \<Rightarrow> failure SYSCALL_FAILURES SYSCALL_ENTRY_CAPTURE_FAILED m)"

definition rich_cleanup :: "Hook \<Rightarrow> Maps \<Rightarrow> Maps" where
  "rich_cleanup h m =
     (case hash_remove (k_delete_error h ''RICH_ENTRY_MAP'') (RICH_ENTRY_MAP m) (k_pid_tgid h) of
       (r, entries) \<Rightarrow> cleanup_in SYSCALL_FAILURES r (m\<lparr>RICH_ENTRY_MAP := entries\<rparr>))"

definition path_cleanup :: "Hook \<Rightarrow> Maps \<Rightarrow> Maps" where
  "path_cleanup h m =
     (case hash_remove (k_delete_error h ''PATH_ENTRY_MAP'') (PATH_ENTRY_MAP m) (k_pid_tgid h) of
       (r, entries) \<Rightarrow> cleanup_in SYSCALL_FAILURES r (m\<lparr>PATH_ENTRY_MAP := entries\<rparr>))"

definition exit_result :: "Hook \<Rightarrow> outcome \<Rightarrow> Maps" where
  "exit_result h result = (case result of
       (Inr _, m) \<Rightarrow> m
     | (Inl _, m) \<Rightarrow>
         path_cleanup h (rich_cleanup h (failure SYSCALL_FAILURES SYSCALL_EXIT_CAPTURE_FAILED m)))"

text \<open>
  The common end of every enter program that uses the generic entry map: the entry
  is built in \<open>SYSCALL_TMP_BUF\<close>, whose data array keeps what lies behind the copied
  struct, and saved.
\<close>

definition rich_stash :: "Globals \<Rightarrow> Hook \<Rightarrow> byte \<Rightarrow> bytes \<Rightarrow> Maps \<Rightarrow> outcome" where
  "rich_stash g h kind ed m =
     (if \<not> k_percpu h ''SYSCALL_TMP_BUF'' 0 then (Err (- 1), m)
      else
        (let entry = (SYSCALL_TMP_BUF m)\<lparr>re_header := get_task_info g h kind,
               re_data := write_at 0 ed (re_data (SYSCALL_TMP_BUF m)), re_data_len := of_nat (length ed)\<rparr>;
             m1 = m\<lparr>SYSCALL_TMP_BUF := entry\<rparr> in
         (case hash_insert (k_update_error h ''RICH_ENTRY_MAP'') (RICH_ENTRY_MAP m1) (k_pid_tgid h) entry of
           (r, entries) \<Rightarrow> (Ok (), save_in SYSCALL_FAILURES r (m1\<lparr>RICH_ENTRY_MAP := entries\<rparr>)))))"

text \<open>The common exit program over the generic entry map; the payload is its argument.\<close>

definition rich_exit :: "Hook \<Rightarrow> (bytes \<Rightarrow> 64 word \<Rightarrow> bytes) \<Rightarrow> Maps \<Rightarrow> outcome" where
  "rich_exit h payload m =
     (case RICH_ENTRY_MAP m (k_pid_tgid h) of
         None \<Rightarrow> (Ok (), m)
       | Some entry \<Rightarrow>
           (case ctx_u64 h 16 of
               None \<Rightarrow> (Err (- 1), m)
             | Some ret \<Rightarrow>
                 (Ok (), rich_cleanup h (emit_fixed h (re_header entry) (payload (re_data entry) ret) m))))"

abbreviation ctx_or0 :: "Hook \<Rightarrow> nat \<Rightarrow> 64 word" where
  "ctx_or0 h off \<equiv> unwrap_or (ctx_u64 h off) 0"

section \<open>openat\<close>

definition OPENAT_ENTRY_CAPTURE_FAILED :: nat where "OPENAT_ENTRY_CAPTURE_FAILED = 0"
definition OPENAT_ENTRY_SAVE_FAILED :: nat where "OPENAT_ENTRY_SAVE_FAILED = 1"
definition OPENAT_EXIT_CAPTURE_FAILED :: nat where "OPENAT_EXIT_CAPTURE_FAILED = 2"

primrec path_flag :: "CaptureStatus \<Rightarrow> byte" where
  "path_flag Complete = PATH_COMPLETE"
| "path_flag Truncated = 0"
| "path_flag ReadError = PATH_READ_FAILED"

definition try_sys_enter_openat :: "Globals \<Rightarrow> Hook \<Rightarrow> Maps \<Rightarrow> outcome" where
  "try_sys_enter_openat g h m =
     (if \<not> should_trace g h then (Ok (), m)
      else (case (ctx_u64 h 24, ctx_u32 h 32, ctx_u64 h 40) of
          (Some filename_ptr, Some flags, Some mode) \<Rightarrow>
            if \<not> k_percpu h ''OPENAT_TMP_BUF'' 0 then (Err (- 1), m)
            else
              (let entry0 = (OPENAT_TMP_BUF m)\<lparr>oe_header := get_task_info g h (kind_byte Openat),
                     oe_flags := flags\<rparr> in
               (case ctx_u32 h 16 of
                   None \<Rightarrow> (Err (- 1), m\<lparr>OPENAT_TMP_BUF := entry0\<rparr>)
                 | Some dirfd \<Rightarrow>
                     (case read_user_str h filename_ptr (oe_filename entry0) of
                       ((filename_len, status), filename) \<Rightarrow>
                         (let entry = entry0\<lparr>oe_dirfd := dirfd, oe_mode := ucast mode, oe_filename := filename,
                                oe_filename_len := filename_len, oe_capture_flags := path_flag status\<rparr>;
                              m1 = m\<lparr>OPENAT_TMP_BUF := entry\<rparr> in
                          (case hash_insert (k_update_error h ''OPENAT_ENTRY_MAP'') (OPENAT_ENTRY_MAP m1)
                              (k_pid_tgid h) entry of
                            (Inr _, entries) \<Rightarrow> (Ok (), m1\<lparr>OPENAT_ENTRY_MAP := entries\<rparr>)
                          | (Inl _, _) \<Rightarrow> (Ok (), failure OPENAT_FAILURES OPENAT_ENTRY_SAVE_FAILED m1))))))
        | _ \<Rightarrow> (Err (- 1), m)))"

definition sys_enter_openat :: "Globals \<Rightarrow> Hook \<Rightarrow> Maps \<Rightarrow> Maps" where
  "sys_enter_openat g h m = (case try_sys_enter_openat g h m of
       (Inr _, m') \<Rightarrow> m'
     | (Inl _, m') \<Rightarrow> failure OPENAT_FAILURES OPENAT_ENTRY_CAPTURE_FAILED m')"

definition openat_remove :: "Hook \<Rightarrow> Maps \<Rightarrow> Maps" where
  "openat_remove h m = m\<lparr>OPENAT_ENTRY_MAP :=
     snd (hash_remove (k_delete_error h ''OPENAT_ENTRY_MAP'') (OPENAT_ENTRY_MAP m) (k_pid_tgid h))\<rparr>"

definition openat_payload :: "OpenatEntry \<Rightarrow> DevIno \<Rightarrow> 64 word \<Rightarrow> OpenatPayload" where
  "openat_payload entry dev_ino ret =
     \<lparr>oa_flags = oe_flags entry, oa_mode = oe_mode entry,
      oa_filename_len = of_nat (unat (oe_filename_len entry) AND (MAX_PATH_SIZE - 1)),
      oa_capture_version = 1, oa_capture_flags = oe_capture_flags entry OR di_valid dev_ino,
      oa_return_code = ucast ret, oa_dirfd = oe_dirfd entry, oa_dev = di_dev dev_ino,
      oa_ino = di_ino dev_ino\<rparr>"

definition try_sys_exit_openat :: "Globals \<Rightarrow> Hook \<Rightarrow> Maps \<Rightarrow> outcome" where
  "try_sys_exit_openat g h m =
     (case OPENAT_ENTRY_MAP m (k_pid_tgid h) of
         None \<Rightarrow> (Ok (), m)
       | Some entry \<Rightarrow>
           (case ctx_u64 h 16 of
               None \<Rightarrow> (Err (- 1), m)
             | Some ret \<Rightarrow>
                 (let dev_ino = (if 0 \<le> sint ret then fd_to_dev_ino g h (ucast ret) else DevIno_default);
                      filename_len = unat (oe_filename_len entry) AND (MAX_PATH_SIZE - 1) in
                  (case emit_varlen h (oe_header entry)
                      (OpenatPayload_bytes (k_pad h) (openat_payload entry dev_ino ret))
                      (take filename_len (oe_filename entry)) m of
                    (False, m') \<Rightarrow> (Err (- 1), m')
                  | (True, m') \<Rightarrow> (Ok (), openat_remove h m')))))"

definition sys_exit_openat :: "Globals \<Rightarrow> Hook \<Rightarrow> Maps \<Rightarrow> Maps" where
  "sys_exit_openat g h m = (case try_sys_exit_openat g h m of
       (Inr _, m') \<Rightarrow> m'
     | (Inl _, m') \<Rightarrow> openat_remove h (failure OPENAT_FAILURES OPENAT_EXIT_CAPTURE_FAILED m'))"

section \<open>read and write\<close>

definition try_sys_enter_rw :: "Globals \<Rightarrow> Hook \<Rightarrow> EventKind \<Rightarrow> Maps \<Rightarrow> outcome" where
  "try_sys_enter_rw g h kind m =
     (if \<not> should_trace g h then (Ok (), m)
      else (case ctx_u64 h 16 of
          None \<Rightarrow> (Err (- 1), m)
        | Some fd \<Rightarrow> rich_stash g h (kind_byte kind) (ReadWriteEntryData_bytes (k_pad h)
            \<lparr>rwd_fd = ucast fd, rwd_requested_size = ctx_or0 h 32, rwd_fd_type = FD_TYPE_OTHER\<rparr>) m))"

definition rw_payload :: "ReadWriteEntryData \<Rightarrow> 64 word \<Rightarrow> ReadWritePayload" where
  "rw_payload ed ret = \<lparr>rw_fd = rwd_fd ed, rw_fd_type = rwd_fd_type ed,
     rw_requested_size = rwd_requested_size ed, rw_return_code = ret\<rparr>"

definition try_sys_exit_rw :: "Hook \<Rightarrow> Maps \<Rightarrow> outcome" where
  "try_sys_exit_rw h m = rich_exit h
     (\<lambda>data ret. ReadWritePayload_bytes (k_pad h) (rw_payload (read_ReadWriteEntryData data) ret)) m"

section \<open>connect and bind\<close>

definition from_be16 :: "16 word \<Rightarrow> 16 word" where
  "from_be16 w = le_word (rev (le_bytes 2 (unat w)))"

definition user16 :: "Hook \<Rightarrow> 64 word \<Rightarrow> 16 word option" where
  "user16 h a = map_option le_word (k_umem h a 2)"

definition sockaddr_port :: "Hook \<Rightarrow> 64 word \<Rightarrow> 16 word" where
  "sockaddr_port h addr = (case user16 h (addr + 2) of Some p \<Rightarrow> from_be16 p | None \<Rightarrow> 0)"

text \<open>Family, port, IPv4 and IPv6 address of a user's \<open>sockaddr\<close>; unread parts stay zero.\<close>

definition read_sockaddr :: "Hook \<Rightarrow> 64 word \<Rightarrow> 64 word \<Rightarrow> 16 word \<times> 16 word \<times> 32 word \<times> bytes" where
  "read_sockaddr h addr addrlen =
     (if addr \<noteq> 0 \<and> 2 \<le> addrlen then
        (let family = unwrap_or (user16 h addr) 0 in
         if family = 2 \<and> 8 \<le> addrlen then
           (family, sockaddr_port h addr,
            unwrap_or (map_option le_word (k_umem h (addr + 4) 4)) 0, replicate 16 0)
         else if family = 10 \<and> 28 \<le> addrlen then
           (family, sockaddr_port h addr, 0,
            map (\<lambda>i. unwrap_or (map_option le_word (k_umem h (addr + 8 + of_nat i) 1)) 0) [0..<16])
         else (family, 0, 0, replicate 16 0))
      else (0, 0, 0, replicate 16 0))"

definition try_sys_enter_sockaddr :: "Globals \<Rightarrow> Hook \<Rightarrow> EventKind \<Rightarrow> Maps \<Rightarrow> outcome" where
  "try_sys_enter_sockaddr g h kind m =
     (if \<not> should_trace g h then (Ok (), m)
      else (case ctx_u64 h 24 of
          None \<Rightarrow> (Err (- 1), m)
        | Some uservaddr \<Rightarrow>
            (case read_sockaddr h uservaddr (ctx_or0 h 32) of
              (family, port, addr_v4, addr_v6) \<Rightarrow>
                rich_stash g h (kind_byte kind) (ConnBindData_bytes (k_pad h)
                  \<lparr>cbd_family = family, cbd_port = port, cbd_addr_v4 = addr_v4, cbd_addr_v6 = addr_v6\<rparr>) m)))"

definition sockaddr_payload :: "ConnBindData \<Rightarrow> 64 word \<Rightarrow> ConnectBindPayload" where
  "sockaddr_payload ed ret = \<lparr>cb_family = cbd_family ed, cb_port = cbd_port ed,
     cb_addr_v4 = cbd_addr_v4 ed, cb_addr_v6 = cbd_addr_v6 ed, cb_return_code = ucast ret\<rparr>"

definition try_sys_exit_sockaddr :: "Hook \<Rightarrow> Maps \<Rightarrow> outcome" where
  "try_sys_exit_sockaddr h m = rich_exit h
     (\<lambda>data ret. ConnectBindPayload_bytes (k_pad h) (sockaddr_payload (read_ConnBindData data) ret)) m"

section \<open>listen, socket and clone\<close>

definition try_enter_listen :: "Globals \<Rightarrow> Hook \<Rightarrow> Maps \<Rightarrow> outcome" where
  "try_enter_listen g h m =
     (if \<not> should_trace g h then (Ok (), m)
      else (case ctx_u64 h 16 of
          None \<Rightarrow> (Err (- 1), m)
        | Some fd \<Rightarrow> rich_stash g h (kind_byte Listen) (ListenData_bytes (k_pad h)
            \<lparr>lid_fd = ucast fd, lid_backlog = ucast (ctx_or0 h 24)\<rparr>) m))"

definition listen_payload :: "ListenData \<Rightarrow> 64 word \<Rightarrow> ListenPayload" where
  "listen_payload ed ret = \<lparr>li_fd = lid_fd ed, li_backlog = lid_backlog ed, li_return_code = ucast ret\<rparr>"

definition try_exit_listen :: "Hook \<Rightarrow> Maps \<Rightarrow> outcome" where
  "try_exit_listen h m = rich_exit h
     (\<lambda>data ret. ListenPayload_bytes (k_pad h) (listen_payload (read_ListenData data) ret)) m"

definition try_enter_socket :: "Globals \<Rightarrow> Hook \<Rightarrow> Maps \<Rightarrow> outcome" where
  "try_enter_socket g h m =
     (if \<not> should_trace g h then (Ok (), m)
      else (case ctx_u64 h 16 of
          None \<Rightarrow> (Err (- 1), m)
        | Some domain \<Rightarrow> rich_stash g h (kind_byte Socket) (SocketData_bytes (k_pad h)
            \<lparr>sod_domain = ucast domain, sod_sock_type = ucast (ctx_or0 h 24),
             sod_protocol = ucast (ctx_or0 h 32)\<rparr>) m))"

definition socket_payload :: "SocketData \<Rightarrow> 64 word \<Rightarrow> SocketPayload" where
  "socket_payload ed ret = \<lparr>so_domain = sod_domain ed, so_sock_type = sod_sock_type ed,
     so_protocol = sod_protocol ed, so_return_code = ucast ret\<rparr>"

definition try_exit_socket :: "Hook \<Rightarrow> Maps \<Rightarrow> outcome" where
  "try_exit_socket h m = rich_exit h
     (\<lambda>data ret. SocketPayload_bytes (k_pad h) (socket_payload (read_SocketData data) ret)) m"

definition try_enter_clone :: "Globals \<Rightarrow> Hook \<Rightarrow> EventKind \<Rightarrow> Maps \<Rightarrow> outcome" where
  "try_enter_clone g h kind m =
     (if \<not> should_trace g h then (Ok (), m)
      else
        (let first_arg = ctx_or0 h 16;
             flags = (if kind = Clone3 \<and> first_arg \<noteq> 0
               then unwrap_or (map_option le_word (k_umem h first_arg 8)) 0 else first_arg)
         in rich_stash g h (kind_byte kind) (CloneData_bytes (k_pad h) \<lparr>cld_flags = flags\<rparr>) m))"

definition clone_payload :: "CloneData \<Rightarrow> 64 word \<Rightarrow> ClonePayload" where
  "clone_payload ed ret = \<lparr>cl_flags = cld_flags ed, cl_return_code = ret\<rparr>"

definition try_exit_clone :: "Hook \<Rightarrow> Maps \<Rightarrow> outcome" where
  "try_exit_clone h m = rich_exit h
     (\<lambda>data ret. ClonePayload_bytes (k_pad h) (clone_payload (read_CloneData data) ret)) m"

section \<open>Paths\<close>

definition path_save :: "Hook \<Rightarrow> PathEntry \<Rightarrow> Maps \<Rightarrow> outcome" where
  "path_save h entry m =
     (case hash_insert (k_update_error h ''PATH_ENTRY_MAP'') (PATH_ENTRY_MAP m) (k_pid_tgid h) entry of
       (r, entries) \<Rightarrow> (Ok (), save_in SYSCALL_FAILURES r
          (m\<lparr>PATH_TMP_BUF := entry, PATH_ENTRY_MAP := entries\<rparr>)))"

definition enter_path_arg :: "Globals \<Rightarrow> Hook \<Rightarrow> byte \<Rightarrow> nat \<Rightarrow> Maps \<Rightarrow> outcome" where
  "enter_path_arg g h kind path_arg m =
     (if \<not> should_trace g h then (Ok (), m)
      else (case ctx_u64 h (16 + 8 * path_arg) of
          None \<Rightarrow> (Err (- 1), m)
        | Some pathname \<Rightarrow>
            if \<not> k_percpu h ''PATH_TMP_BUF'' 0 then (Err (- 1), m)
            else (case read_user_str h pathname (pe_path1 (PATH_TMP_BUF m)) of
              ((path_len, status), path) \<Rightarrow>
                path_save h ((PATH_TMP_BUF m)\<lparr>
                  pe_header := (get_task_info g h kind)\<lparr>h_capture :=
                    \<lparr>cap_version = 1, cap_primary = status_byte status, cap_secondary = 0\<rparr>\<rparr>,
                  pe_path1 := path, pe_path1_len := path_len, pe_path2_len := 0\<rparr>) m)))"

definition try_enter_path :: "Globals \<Rightarrow> Hook \<Rightarrow> EventKind \<Rightarrow> Maps \<Rightarrow> outcome" where
  "try_enter_path g h kind m = enter_path_arg g h (kind_byte kind) 0 m"

definition try_enter_at_path :: "Globals \<Rightarrow> Hook \<Rightarrow> EventKind \<Rightarrow> Maps \<Rightarrow> outcome" where
  "try_enter_at_path g h kind m = enter_path_arg g h (kind_byte kind) 1 m"

definition path_payload :: "PathEntry \<Rightarrow> 64 word \<Rightarrow> PathPayload" where
  "path_payload entry ret = \<lparr>pa_path_len = of_nat (unat (pe_path1_len entry) AND (MAX_PATH_SIZE - 1)),
     pa_return_code = ucast ret\<rparr>"

definition try_exit_path :: "Hook \<Rightarrow> Maps \<Rightarrow> outcome" where
  "try_exit_path h m =
     (case PATH_ENTRY_MAP m (k_pid_tgid h) of
         None \<Rightarrow> (Ok (), m)
       | Some entry \<Rightarrow>
           (case ctx_u64 h 16 of
               None \<Rightarrow> (Err (- 1), m)
             | Some ret \<Rightarrow>
                 (case emit_varlen h (pe_header entry) (PathPayload_bytes (k_pad h) (path_payload entry ret))
                     (take (unat (pe_path1_len entry) AND (MAX_PATH_SIZE - 1)) (pe_path1 entry)) m of
                   (False, m') \<Rightarrow> (Err (- 1), m')
                 | (True, m') \<Rightarrow> (Ok (), path_cleanup h m'))))"

section \<open>Descriptors\<close>

definition try_enter_fd :: "Globals \<Rightarrow> Hook \<Rightarrow> EventKind \<Rightarrow> Maps \<Rightarrow> outcome" where
  "try_enter_fd g h kind m =
     (if \<not> should_trace g h then (Ok (), m)
      else (case ctx_u64 h 16 of
          None \<Rightarrow> (Err (- 1), m)
        | Some fd \<Rightarrow> rich_stash g h (kind_byte kind) (FdData_bytes (k_pad h) \<lparr>fdd_fd = ucast fd\<rparr>) m))"

definition fd_payload :: "FdData \<Rightarrow> 64 word \<Rightarrow> FdPayload" where
  "fd_payload ed ret = \<lparr>fdp_fd = fdd_fd ed, fdp_return_code = ucast ret\<rparr>"

definition try_exit_fd :: "Hook \<Rightarrow> Maps \<Rightarrow> outcome" where
  "try_exit_fd h m = rich_exit h
     (\<lambda>data ret. FdPayload_bytes (k_pad h) (fd_payload (read_FdData data) ret)) m"

section \<open>Two paths\<close>

datatype TwoPathKind = TPRename | TPRenameat2 | TPLink | TPLinkat | TPSymlink | TPSymlinkat | TPMount

primrec two_path_kind :: "TwoPathKind \<Rightarrow> EventKind" where
  "two_path_kind TPRename = Rename"
| "two_path_kind TPRenameat2 = Renameat2"
| "two_path_kind TPLink = Link"
| "two_path_kind TPLinkat = Linkat"
| "two_path_kind TPSymlink = Symlink"
| "two_path_kind TPSymlinkat = Symlinkat"
| "two_path_kind TPMount = Mount"

primrec two_path_args :: "TwoPathKind \<Rightarrow> nat \<times> nat" where
  "two_path_args TPRename = (0, 1)"
| "two_path_args TPRenameat2 = (1, 3)"
| "two_path_args TPLink = (0, 1)"
| "two_path_args TPLinkat = (1, 3)"
| "two_path_args TPSymlink = (0, 1)"
| "two_path_args TPSymlinkat = (0, 2)"
| "two_path_args TPMount = (0, 1)"

definition try_enter_two_path :: "Globals \<Rightarrow> Hook \<Rightarrow> TwoPathKind \<Rightarrow> Maps \<Rightarrow> outcome" where
  "try_enter_two_path g h kind m =
     (if \<not> should_trace g h then (Ok (), m)
      else (case (ctx_u64 h (16 + 8 * fst (two_path_args kind)), ctx_u64 h (16 + 8 * snd (two_path_args kind))) of
          (Some path1_ptr, Some path2_ptr) \<Rightarrow>
            if \<not> k_percpu h ''PATH_TMP_BUF'' 0 then (Err (- 1), m)
            else (case (read_user_str h path1_ptr (pe_path1 (PATH_TMP_BUF m)),
                        read_user_str h path2_ptr (pe_path2 (PATH_TMP_BUF m))) of
              (((path1_len, status1), path1), ((path2_len, status2), path2)) \<Rightarrow>
                path_save h ((PATH_TMP_BUF m)\<lparr>
                  pe_header := (get_task_info g h (kind_byte (two_path_kind kind)))\<lparr>h_capture :=
                    \<lparr>cap_version = 1, cap_primary = status_byte status1, cap_secondary = status_byte status2\<rparr>\<rparr>,
                  pe_path1 := path1, pe_path1_len := path1_len,
                  pe_path2 := path2, pe_path2_len := path2_len\<rparr>) m)
        | _ \<Rightarrow> (Err (- 1), m)))"

definition two_path_payload :: "PathEntry \<Rightarrow> 64 word \<Rightarrow> TwoPathPayload" where
  "two_path_payload entry ret =
     \<lparr>tp_path1_len = of_nat (unat (pe_path1_len entry) AND (MAX_PATH_SIZE - 1)),
      tp_path2_len = of_nat (unat (pe_path2_len entry) AND (MAX_PATH_SIZE - 1)),
      tp_return_code = ucast ret\<rparr>"

text \<open>The record in the assembly buffer, or the state in which a failed copy leaves it.\<close>

definition two_path_assemble :: "Hook \<Rightarrow> PathEntry \<Rightarrow> 64 word \<Rightarrow> bytes \<Rightarrow> bytes + bytes \<times> nat" where
  "two_path_assemble h entry ret dst0 =
     (let p1 = unat (pe_path1_len entry) AND (MAX_PATH_SIZE - 1);
          p2 = unat (pe_path2_len entry) AND (MAX_PATH_SIZE - 1);
          fixed = EventHeader_SIZE + TwoPathPayload_SIZE in
      if fixed + p1 + p2 > length dst0 then Err dst0
      else
        (let dst = write_at EventHeader_SIZE (TwoPathPayload_bytes (k_pad h) (two_path_payload entry ret))
               (write_at 0 (EventHeader_bytes (k_pad h) (pe_header entry)) dst0) in
         if \<not> k_copy h ''path1'' 0 then Err (write_at fixed (replicate p1 0) dst)
         else
           (let dst1 = write_at fixed (take p1 (pe_path1 entry)) dst in
            if \<not> k_copy h ''path2'' 0 then Err (write_at (fixed + p1) (replicate p2 0) dst1)
            else Ok (write_at (fixed + p1) (take p2 (pe_path2 entry)) dst1, fixed + p1 + p2))))"

definition try_exit_two_path :: "Hook \<Rightarrow> Maps \<Rightarrow> outcome" where
  "try_exit_two_path h m =
     (case PATH_ENTRY_MAP m (k_pid_tgid h) of
         None \<Rightarrow> (Ok (), m)
       | Some entry \<Rightarrow>
           (case ctx_u64 h 16 of
               None \<Rightarrow> (Err (- 1), m)
             | Some ret \<Rightarrow>
                 if \<not> k_percpu h ''ASSEMBLY_BUF'' 0 then (Err (- 1), m)
                 else (case two_path_assemble h entry ret (ASSEMBLY_BUF m) of
                     Inl dst \<Rightarrow> (Err (- 1), m\<lparr>ASSEMBLY_BUF := dst\<rparr>)
                   | Inr (dst, n) \<Rightarrow>
                       (Ok (), path_cleanup h (emit_event h (take n dst) (m\<lparr>ASSEMBLY_BUF := dst\<rparr>))))))"

section \<open>sendto and recvfrom\<close>

definition try_enter_sendto_recvfrom :: "Globals \<Rightarrow> Hook \<Rightarrow> EventKind \<Rightarrow> Maps \<Rightarrow> outcome" where
  "try_enter_sendto_recvfrom g h kind m =
     (if \<not> should_trace g h then (Ok (), m)
      else (case ctx_u64 h 16 of
          None \<Rightarrow> (Err (- 1), m)
        | Some fd \<Rightarrow>
            (case read_sockaddr h (ctx_or0 h 48) (ctx_or0 h 56) of
              (family, port, addr_v4, addr_v6) \<Rightarrow>
                rich_stash g h (kind_byte kind) (SendRecvData_bytes (k_pad h)
                  \<lparr>srd_fd = ucast fd, srd_family = family, srd_port = port, srd_addr_v4 = addr_v4,
                   srd_addr_v6 = addr_v6, srd_size = ctx_or0 h 32\<rparr>) m)))"

definition sendto_payload :: "SendRecvData \<Rightarrow> 64 word \<Rightarrow> SendtoRecvfromPayload" where
  "sendto_payload ed ret = \<lparr>sr_fd = srd_fd ed, sr_family = srd_family ed, sr_port = srd_port ed,
     sr_addr_v4 = srd_addr_v4 ed, sr_addr_v6 = srd_addr_v6 ed, sr_size = srd_size ed, sr_return_code = ret\<rparr>"

definition try_exit_sendto_recvfrom :: "Hook \<Rightarrow> Maps \<Rightarrow> outcome" where
  "try_exit_sendto_recvfrom h m = rich_exit h
     (\<lambda>data ret. SendtoRecvfromPayload_bytes (k_pad h) (sendto_payload (read_SendRecvData data) ret)) m"

section \<open>dup and fcntl\<close>

definition stash_dup_entry :: "Globals \<Rightarrow> Hook \<Rightarrow> EventKind \<Rightarrow> 32 word \<Rightarrow> byte \<Rightarrow> Maps \<Rightarrow> outcome" where
  "stash_dup_entry g h kind oldfd cloexec m =
     rich_stash g h (kind_byte kind) (DupEntryData_bytes (k_pad h)
       \<lparr>dud_oldfd = oldfd, dud_cloexec = cloexec\<rparr>) m"

definition try_enter_dup_family :: "Globals \<Rightarrow> Hook \<Rightarrow> EventKind \<Rightarrow> byte \<Rightarrow> Maps \<Rightarrow> outcome" where
  "try_enter_dup_family g h kind cloexec m =
     (if \<not> should_trace g h then (Ok (), m)
      else (case ctx_u64 h 16 of
          None \<Rightarrow> (Err (- 1), m)
        | Some oldfd \<Rightarrow> stash_dup_entry g h kind (ucast oldfd) cloexec m))"

definition try_enter_dup3 :: "Globals \<Rightarrow> Hook \<Rightarrow> Maps \<Rightarrow> outcome" where
  "try_enter_dup3 g h m =
     (if \<not> should_trace g h then (Ok (), m)
      else (case ctx_u64 h 16 of
          None \<Rightarrow> (Err (- 1), m)
        | Some oldfd \<Rightarrow> stash_dup_entry g h Dup3 (ucast oldfd)
            (if ucast (ctx_or0 h 32) AND O_CLOEXEC \<noteq> 0 then 1 else 0) m))"

definition try_enter_fcntl :: "Globals \<Rightarrow> Hook \<Rightarrow> Maps \<Rightarrow> outcome" where
  "try_enter_fcntl g h m =
     (if \<not> should_trace g h then (Ok (), m)
      else (case ctx_u64 h 16 of
          None \<Rightarrow> (Err (- 1), m)
        | Some fd \<Rightarrow>
            (let cmd32 = ucast (ctx_or0 h 24) in
             if cmd32 \<noteq> F_DUPFD \<and> cmd32 \<noteq> F_DUPFD_CLOEXEC then (Ok (), m)
             else stash_dup_entry g h Fcntl (ucast fd) (if cmd32 = F_DUPFD_CLOEXEC then 1 else 0) m)))"

definition dup_payload :: "DupEntryData \<Rightarrow> 64 word \<Rightarrow> DupPayload" where
  "dup_payload ed ret = \<lparr>du_oldfd = dud_oldfd ed, du_newfd = ucast ret, du_cloexec = dud_cloexec ed,
     du_return_code = ret\<rparr>"

definition try_exit_dup_family :: "Hook \<Rightarrow> Maps \<Rightarrow> outcome" where
  "try_exit_dup_family h m = rich_exit h
     (\<lambda>data ret. DupPayload_bytes (k_pad h) (dup_payload (read_DupEntryData data) ret)) m"

section \<open>pread64 and pwrite64\<close>

definition try_enter_prw :: "Globals \<Rightarrow> Hook \<Rightarrow> EventKind \<Rightarrow> Maps \<Rightarrow> outcome" where
  "try_enter_prw g h kind m =
     (if \<not> should_trace g h then (Ok (), m)
      else (case ctx_u64 h 16 of
          None \<Rightarrow> (Err (- 1), m)
        | Some fd \<Rightarrow> rich_stash g h (kind_byte kind) (PreadPwriteEntryData_bytes (k_pad h)
            \<lparr>ppd_fd = ucast fd, ppd_requested_size = ctx_or0 h 32, ppd_offset = ctx_or0 h 40,
             ppd_fd_type = FD_TYPE_OTHER\<rparr>) m))"

definition prw_payload :: "PreadPwriteEntryData \<Rightarrow> 64 word \<Rightarrow> PreadPwritePayload" where
  "prw_payload ed ret = \<lparr>pp_fd = ppd_fd ed, pp_fd_type = ppd_fd_type ed,
     pp_requested_size = ppd_requested_size ed, pp_offset = ppd_offset ed, pp_return_code = ret\<rparr>"

definition try_exit_prw :: "Hook \<Rightarrow> Maps \<Rightarrow> outcome" where
  "try_exit_prw h m = rich_exit h
     (\<lambda>data ret. PreadPwritePayload_bytes (k_pad h) (prw_payload (read_PreadPwriteEntryData data) ret)) m"

section \<open>readv and writev\<close>

text \<open>The bounded traversal: unreadable vectors are skipped, the sum wraps.\<close>

primrec iov_loop :: "Hook \<Rightarrow> 64 word \<Rightarrow> 32 word \<Rightarrow> nat \<Rightarrow> 64 word \<Rightarrow> 64 word" where
  "iov_loop h iov_ptr traverse 0 acc = acc"
| "iov_loop h iov_ptr traverse (Suc n) acc =
     (let i = MAX_IOV_TRAVERSE - Suc n in
      if unat traverse \<le> i then acc
      else (case k_umem h (iov_ptr + of_nat i * of_nat UserIovec_SIZE) UserIovec_SIZE of
          Some bs \<Rightarrow> iov_loop h iov_ptr traverse n (acc + iov_iov_len (read_UserIovec bs))
        | None \<Rightarrow> iov_loop h iov_ptr traverse n acc))"

definition iov_total :: "Hook \<Rightarrow> 64 word \<Rightarrow> 64 word \<Rightarrow> 64 word" where
  "iov_total h iov_ptr iovcnt =
     (let traverse = (if of_nat MAX_IOV_TRAVERSE < iovcnt then of_nat MAX_IOV_TRAVERSE else ucast iovcnt) in
      if iov_ptr \<noteq> 0 then iov_loop h iov_ptr traverse MAX_IOV_TRAVERSE 0 else 0)"

definition try_enter_rwv :: "Globals \<Rightarrow> Hook \<Rightarrow> EventKind \<Rightarrow> Maps \<Rightarrow> outcome" where
  "try_enter_rwv g h kind m =
     (if \<not> should_trace g h then (Ok (), m)
      else (case ctx_u64 h 16 of
          None \<Rightarrow> (Err (- 1), m)
        | Some fd \<Rightarrow>
            (let iovcnt = ctx_or0 h 32 in
             rich_stash g h (kind_byte kind) (ReadvWritevEntryData_bytes (k_pad h)
               \<lparr>rvd_fd = ucast fd, rvd_iov_count = ucast iovcnt,
                rvd_iov_truncated = (if of_nat MAX_IOV_TRAVERSE < iovcnt then 1 else 0),
                rvd_requested_size = iov_total h (ctx_or0 h 24) iovcnt, rvd_fd_type = FD_TYPE_OTHER\<rparr>) m)))"

definition rwv_payload :: "ReadvWritevEntryData \<Rightarrow> 64 word \<Rightarrow> ReadvWritevPayload" where
  "rwv_payload ed ret = \<lparr>rv_fd = rvd_fd ed, rv_fd_type = rvd_fd_type ed,
     rv_iov_truncated = rvd_iov_truncated ed, rv_iov_count = rvd_iov_count ed,
     rv_requested_size = rvd_requested_size ed, rv_return_code = ret\<rparr>"

definition try_exit_rwv :: "Hook \<Rightarrow> Maps \<Rightarrow> outcome" where
  "try_exit_rwv h m = rich_exit h
     (\<lambda>data ret. ReadvWritevPayload_bytes (k_pad h) (rwv_payload (read_ReadvWritevEntryData data) ret)) m"

section \<open>mmap\<close>

definition try_enter_mmap :: "Globals \<Rightarrow> Hook \<Rightarrow> Maps \<Rightarrow> outcome" where
  "try_enter_mmap g h m =
     (if \<not> should_trace g h then (Ok (), m)
      else
        (let flags = ctx_or0 h 40; fd_raw = unwrap_or (ctx_u64 h 48) (- 1) in
         if sint fd_raw < 0 \<or> ucast flags AND MAP_ANONYMOUS \<noteq> 0 then (Ok (), m)
         else rich_stash g h (kind_byte Mmap) (MmapEntryData_bytes (k_pad h)
           \<lparr>mmd_fd = ucast fd_raw, mmd_prot = ucast (ctx_or0 h 32), mmd_flags = ucast flags,
            mmd_length = ctx_or0 h 24, mmd_offset = ctx_or0 h 56\<rparr>) m))"

definition mmap_payload :: "MmapEntryData \<Rightarrow> DevIno \<Rightarrow> 64 word \<Rightarrow> MmapPayload" where
  "mmap_payload ed dev_ino ret = \<lparr>mm_fd = mmd_fd ed, mm_prot = mmd_prot ed, mm_flags = mmd_flags ed,
     mm_length = mmd_length ed, mm_offset = mmd_offset ed, mm_dev = di_dev dev_ino,
     mm_ino = di_ino dev_ino, mm_return_code = ret\<rparr>"

definition try_exit_mmap :: "Globals \<Rightarrow> Hook \<Rightarrow> Maps \<Rightarrow> outcome" where
  "try_exit_mmap g h m = rich_exit h
     (\<lambda>data ret. let ed = read_MmapEntryData data in
        MmapPayload_bytes (k_pad h) (mmap_payload ed (fd_to_dev_ino g h (mmd_fd ed)) ret)) m"

section \<open>sendfile and splice\<close>

definition stash_sendfile_splice_entry ::
  "Globals \<Rightarrow> Hook \<Rightarrow> EventKind \<Rightarrow> 32 word \<Rightarrow> 32 word \<Rightarrow> 64 word \<Rightarrow> Maps \<Rightarrow> outcome" where
  "stash_sendfile_splice_entry g h kind in_fd out_fd sz m =
     rich_stash g h (kind_byte kind) (SendfileSpliceEntryData_bytes (k_pad h)
       \<lparr>ssd_in_fd = in_fd, ssd_out_fd = out_fd, ssd_in_fd_type = FD_TYPE_OTHER,
        ssd_out_fd_type = FD_TYPE_OTHER, ssd_size = sz\<rparr>) m"

definition try_enter_sendfile :: "Globals \<Rightarrow> Hook \<Rightarrow> Maps \<Rightarrow> outcome" where
  "try_enter_sendfile g h m =
     (if \<not> should_trace g h then (Ok (), m)
      else (case ctx_u64 h 16 of
          None \<Rightarrow> (Err (- 1), m)
        | Some out_fd \<Rightarrow> stash_sendfile_splice_entry g h Sendfile (ucast (ctx_or0 h 24)) (ucast out_fd)
            (ctx_or0 h 40) m))"

definition try_enter_splice :: "Globals \<Rightarrow> Hook \<Rightarrow> Maps \<Rightarrow> outcome" where
  "try_enter_splice g h m =
     (if \<not> should_trace g h then (Ok (), m)
      else (case ctx_u64 h 16 of
          None \<Rightarrow> (Err (- 1), m)
        | Some in_fd \<Rightarrow> stash_sendfile_splice_entry g h Splice (ucast in_fd) (ucast (ctx_or0 h 32))
            (ctx_or0 h 48) m))"

definition sendfile_payload :: "SendfileSpliceEntryData \<Rightarrow> 64 word \<Rightarrow> SendfileSplicePayload" where
  "sendfile_payload ed ret = \<lparr>ss_in_fd = ssd_in_fd ed, ss_out_fd = ssd_out_fd ed,
     ss_in_fd_type = ssd_in_fd_type ed, ss_out_fd_type = ssd_out_fd_type ed, ss_size = ssd_size ed,
     ss_return_code = ret\<rparr>"

definition try_exit_sendfile_splice :: "Hook \<Rightarrow> Maps \<Rightarrow> outcome" where
  "try_exit_sendfile_splice h m = rich_exit h
     (\<lambda>data ret. SendfileSplicePayload_bytes (k_pad h)
        (sendfile_payload (read_SendfileSpliceEntryData data) ret)) m"

section \<open>The tracepoint programs\<close>

definition sys_enter_read :: "Globals \<Rightarrow> Hook \<Rightarrow> Maps \<Rightarrow> Maps" where
  "sys_enter_read g h m = entry_result (try_sys_enter_rw g h Read m)"

definition sys_exit_read :: "Hook \<Rightarrow> Maps \<Rightarrow> Maps" where
  "sys_exit_read h m = exit_result h (try_sys_exit_rw h m)"

definition sys_enter_write :: "Globals \<Rightarrow> Hook \<Rightarrow> Maps \<Rightarrow> Maps" where
  "sys_enter_write g h m = entry_result (try_sys_enter_rw g h Write m)"

definition sys_exit_write :: "Hook \<Rightarrow> Maps \<Rightarrow> Maps" where
  "sys_exit_write h m = exit_result h (try_sys_exit_rw h m)"

definition sys_enter_connect :: "Globals \<Rightarrow> Hook \<Rightarrow> Maps \<Rightarrow> Maps" where
  "sys_enter_connect g h m = entry_result (try_sys_enter_sockaddr g h Connect m)"

definition sys_exit_connect :: "Hook \<Rightarrow> Maps \<Rightarrow> Maps" where
  "sys_exit_connect h m = exit_result h (try_sys_exit_sockaddr h m)"

definition sys_enter_bind :: "Globals \<Rightarrow> Hook \<Rightarrow> Maps \<Rightarrow> Maps" where
  "sys_enter_bind g h m = entry_result (try_sys_enter_sockaddr g h Bind m)"

definition sys_exit_bind :: "Hook \<Rightarrow> Maps \<Rightarrow> Maps" where
  "sys_exit_bind h m = exit_result h (try_sys_exit_sockaddr h m)"

definition sys_enter_listen :: "Globals \<Rightarrow> Hook \<Rightarrow> Maps \<Rightarrow> Maps" where
  "sys_enter_listen g h m = entry_result (try_enter_listen g h m)"

definition sys_exit_listen :: "Hook \<Rightarrow> Maps \<Rightarrow> Maps" where
  "sys_exit_listen h m = exit_result h (try_exit_listen h m)"

definition sys_enter_socket :: "Globals \<Rightarrow> Hook \<Rightarrow> Maps \<Rightarrow> Maps" where
  "sys_enter_socket g h m = entry_result (try_enter_socket g h m)"

definition sys_exit_socket :: "Hook \<Rightarrow> Maps \<Rightarrow> Maps" where
  "sys_exit_socket h m = exit_result h (try_exit_socket h m)"

definition sys_enter_clone :: "Globals \<Rightarrow> Hook \<Rightarrow> Maps \<Rightarrow> Maps" where
  "sys_enter_clone g h m = entry_result (try_enter_clone g h Clone m)"

definition sys_enter_clone3 :: "Globals \<Rightarrow> Hook \<Rightarrow> Maps \<Rightarrow> Maps" where
  "sys_enter_clone3 g h m = entry_result (try_enter_clone g h Clone3 m)"

definition sys_exit_clone :: "Hook \<Rightarrow> Maps \<Rightarrow> Maps" where
  "sys_exit_clone h m = exit_result h (try_exit_clone h m)"

definition sys_exit_clone3 :: "Hook \<Rightarrow> Maps \<Rightarrow> Maps" where
  "sys_exit_clone3 h m = exit_result h (try_exit_clone h m)"

definition sys_enter_chdir :: "Globals \<Rightarrow> Hook \<Rightarrow> Maps \<Rightarrow> Maps" where
  "sys_enter_chdir g h m = entry_result (try_enter_path g h Chdir m)"

definition sys_exit_chdir :: "Hook \<Rightarrow> Maps \<Rightarrow> Maps" where
  "sys_exit_chdir h m = exit_result h (try_exit_path h m)"

definition sys_enter_fchdir :: "Globals \<Rightarrow> Hook \<Rightarrow> Maps \<Rightarrow> Maps" where
  "sys_enter_fchdir g h m = entry_result (try_enter_fd g h Fchdir m)"

definition sys_exit_fchdir :: "Hook \<Rightarrow> Maps \<Rightarrow> Maps" where
  "sys_exit_fchdir h m = exit_result h (try_exit_fd h m)"

definition sys_enter_unlink :: "Globals \<Rightarrow> Hook \<Rightarrow> Maps \<Rightarrow> Maps" where
  "sys_enter_unlink g h m = entry_result (try_enter_path g h Unlink m)"

definition sys_exit_unlink :: "Hook \<Rightarrow> Maps \<Rightarrow> Maps" where
  "sys_exit_unlink h m = exit_result h (try_exit_path h m)"

definition sys_enter_unlinkat :: "Globals \<Rightarrow> Hook \<Rightarrow> Maps \<Rightarrow> Maps" where
  "sys_enter_unlinkat g h m = entry_result (try_enter_at_path g h Unlinkat m)"

definition sys_exit_unlinkat :: "Hook \<Rightarrow> Maps \<Rightarrow> Maps" where
  "sys_exit_unlinkat h m = exit_result h (try_exit_path h m)"

definition sys_enter_rmdir :: "Globals \<Rightarrow> Hook \<Rightarrow> Maps \<Rightarrow> Maps" where
  "sys_enter_rmdir g h m = entry_result (try_enter_path g h Rmdir m)"

definition sys_exit_rmdir :: "Hook \<Rightarrow> Maps \<Rightarrow> Maps" where
  "sys_exit_rmdir h m = exit_result h (try_exit_path h m)"

definition sys_enter_mkdir :: "Globals \<Rightarrow> Hook \<Rightarrow> Maps \<Rightarrow> Maps" where
  "sys_enter_mkdir g h m = entry_result (try_enter_path g h Mkdir m)"

definition sys_exit_mkdir :: "Hook \<Rightarrow> Maps \<Rightarrow> Maps" where
  "sys_exit_mkdir h m = exit_result h (try_exit_path h m)"

definition sys_enter_mkdirat :: "Globals \<Rightarrow> Hook \<Rightarrow> Maps \<Rightarrow> Maps" where
  "sys_enter_mkdirat g h m = entry_result (try_enter_at_path g h Mkdirat m)"

definition sys_exit_mkdirat :: "Hook \<Rightarrow> Maps \<Rightarrow> Maps" where
  "sys_exit_mkdirat h m = exit_result h (try_exit_path h m)"

definition sys_enter_symlink :: "Globals \<Rightarrow> Hook \<Rightarrow> Maps \<Rightarrow> Maps" where
  "sys_enter_symlink g h m = entry_result (try_enter_two_path g h TPSymlink m)"

definition sys_exit_symlink :: "Hook \<Rightarrow> Maps \<Rightarrow> Maps" where
  "sys_exit_symlink h m = exit_result h (try_exit_two_path h m)"

definition sys_enter_symlinkat :: "Globals \<Rightarrow> Hook \<Rightarrow> Maps \<Rightarrow> Maps" where
  "sys_enter_symlinkat g h m = entry_result (try_enter_two_path g h TPSymlinkat m)"

definition sys_exit_symlinkat :: "Hook \<Rightarrow> Maps \<Rightarrow> Maps" where
  "sys_exit_symlinkat h m = exit_result h (try_exit_two_path h m)"

definition sys_enter_link :: "Globals \<Rightarrow> Hook \<Rightarrow> Maps \<Rightarrow> Maps" where
  "sys_enter_link g h m = entry_result (try_enter_two_path g h TPLink m)"

definition sys_exit_link :: "Hook \<Rightarrow> Maps \<Rightarrow> Maps" where
  "sys_exit_link h m = exit_result h (try_exit_two_path h m)"

definition sys_enter_linkat :: "Globals \<Rightarrow> Hook \<Rightarrow> Maps \<Rightarrow> Maps" where
  "sys_enter_linkat g h m = entry_result (try_enter_two_path g h TPLinkat m)"

definition sys_exit_linkat :: "Hook \<Rightarrow> Maps \<Rightarrow> Maps" where
  "sys_exit_linkat h m = exit_result h (try_exit_two_path h m)"

definition sys_enter_rename :: "Globals \<Rightarrow> Hook \<Rightarrow> Maps \<Rightarrow> Maps" where
  "sys_enter_rename g h m = entry_result (try_enter_two_path g h TPRename m)"

definition sys_exit_rename :: "Hook \<Rightarrow> Maps \<Rightarrow> Maps" where
  "sys_exit_rename h m = exit_result h (try_exit_two_path h m)"

definition sys_enter_renameat2 :: "Globals \<Rightarrow> Hook \<Rightarrow> Maps \<Rightarrow> Maps" where
  "sys_enter_renameat2 g h m = entry_result (try_enter_two_path g h TPRenameat2 m)"

definition sys_exit_renameat2 :: "Hook \<Rightarrow> Maps \<Rightarrow> Maps" where
  "sys_exit_renameat2 h m = exit_result h (try_exit_two_path h m)"

definition sys_enter_chmod :: "Globals \<Rightarrow> Hook \<Rightarrow> Maps \<Rightarrow> Maps" where
  "sys_enter_chmod g h m = entry_result (try_enter_path g h Chmod m)"

definition sys_exit_chmod :: "Hook \<Rightarrow> Maps \<Rightarrow> Maps" where
  "sys_exit_chmod h m = exit_result h (try_exit_path h m)"

definition sys_enter_fchmod :: "Globals \<Rightarrow> Hook \<Rightarrow> Maps \<Rightarrow> Maps" where
  "sys_enter_fchmod g h m = entry_result (try_enter_fd g h Fchmod m)"

definition sys_exit_fchmod :: "Hook \<Rightarrow> Maps \<Rightarrow> Maps" where
  "sys_exit_fchmod h m = exit_result h (try_exit_fd h m)"

definition sys_enter_fchmodat :: "Globals \<Rightarrow> Hook \<Rightarrow> Maps \<Rightarrow> Maps" where
  "sys_enter_fchmodat g h m = entry_result (try_enter_at_path g h Fchmodat m)"

definition sys_exit_fchmodat :: "Hook \<Rightarrow> Maps \<Rightarrow> Maps" where
  "sys_exit_fchmodat h m = exit_result h (try_exit_path h m)"

definition sys_enter_chown :: "Globals \<Rightarrow> Hook \<Rightarrow> Maps \<Rightarrow> Maps" where
  "sys_enter_chown g h m = entry_result (try_enter_path g h Chown m)"

definition sys_exit_chown :: "Hook \<Rightarrow> Maps \<Rightarrow> Maps" where
  "sys_exit_chown h m = exit_result h (try_exit_path h m)"

definition sys_enter_fchown :: "Globals \<Rightarrow> Hook \<Rightarrow> Maps \<Rightarrow> Maps" where
  "sys_enter_fchown g h m = entry_result (try_enter_fd g h Fchown m)"

definition sys_exit_fchown :: "Hook \<Rightarrow> Maps \<Rightarrow> Maps" where
  "sys_exit_fchown h m = exit_result h (try_exit_fd h m)"

definition sys_enter_fchownat :: "Globals \<Rightarrow> Hook \<Rightarrow> Maps \<Rightarrow> Maps" where
  "sys_enter_fchownat g h m = entry_result (try_enter_at_path g h Fchownat m)"

definition sys_exit_fchownat :: "Hook \<Rightarrow> Maps \<Rightarrow> Maps" where
  "sys_exit_fchownat h m = exit_result h (try_exit_path h m)"

definition sys_enter_truncate :: "Globals \<Rightarrow> Hook \<Rightarrow> Maps \<Rightarrow> Maps" where
  "sys_enter_truncate g h m = entry_result (try_enter_path g h Truncate m)"

definition sys_exit_truncate :: "Hook \<Rightarrow> Maps \<Rightarrow> Maps" where
  "sys_exit_truncate h m = exit_result h (try_exit_path h m)"

definition sys_enter_ftruncate :: "Globals \<Rightarrow> Hook \<Rightarrow> Maps \<Rightarrow> Maps" where
  "sys_enter_ftruncate g h m = entry_result (try_enter_fd g h Ftruncate m)"

definition sys_exit_ftruncate :: "Hook \<Rightarrow> Maps \<Rightarrow> Maps" where
  "sys_exit_ftruncate h m = exit_result h (try_exit_fd h m)"

definition sys_enter_mount :: "Globals \<Rightarrow> Hook \<Rightarrow> Maps \<Rightarrow> Maps" where
  "sys_enter_mount g h m = entry_result (try_enter_two_path g h TPMount m)"

definition sys_exit_mount :: "Hook \<Rightarrow> Maps \<Rightarrow> Maps" where
  "sys_exit_mount h m = exit_result h (try_exit_two_path h m)"

definition sys_enter_umount2 :: "Globals \<Rightarrow> Hook \<Rightarrow> Maps \<Rightarrow> Maps" where
  "sys_enter_umount2 g h m = entry_result (try_enter_path g h Umount2 m)"

definition sys_exit_umount2 :: "Hook \<Rightarrow> Maps \<Rightarrow> Maps" where
  "sys_exit_umount2 h m = exit_result h (try_exit_path h m)"

definition sys_enter_sendto :: "Globals \<Rightarrow> Hook \<Rightarrow> Maps \<Rightarrow> Maps" where
  "sys_enter_sendto g h m = entry_result (try_enter_sendto_recvfrom g h Sendto m)"

definition sys_exit_sendto :: "Hook \<Rightarrow> Maps \<Rightarrow> Maps" where
  "sys_exit_sendto h m = exit_result h (try_exit_sendto_recvfrom h m)"

definition sys_enter_recvfrom :: "Globals \<Rightarrow> Hook \<Rightarrow> Maps \<Rightarrow> Maps" where
  "sys_enter_recvfrom g h m = entry_result (try_enter_sendto_recvfrom g h Recvfrom m)"

definition sys_exit_recvfrom :: "Hook \<Rightarrow> Maps \<Rightarrow> Maps" where
  "sys_exit_recvfrom h m = exit_result h (try_exit_sendto_recvfrom h m)"

definition sys_enter_dup :: "Globals \<Rightarrow> Hook \<Rightarrow> Maps \<Rightarrow> Maps" where
  "sys_enter_dup g h m = entry_result (try_enter_dup_family g h Dup 0 m)"

definition sys_exit_dup :: "Hook \<Rightarrow> Maps \<Rightarrow> Maps" where
  "sys_exit_dup h m = exit_result h (try_exit_dup_family h m)"

definition sys_enter_dup2 :: "Globals \<Rightarrow> Hook \<Rightarrow> Maps \<Rightarrow> Maps" where
  "sys_enter_dup2 g h m = entry_result (try_enter_dup_family g h Dup2 0 m)"

definition sys_exit_dup2 :: "Hook \<Rightarrow> Maps \<Rightarrow> Maps" where
  "sys_exit_dup2 h m = exit_result h (try_exit_dup_family h m)"

definition sys_enter_dup3 :: "Globals \<Rightarrow> Hook \<Rightarrow> Maps \<Rightarrow> Maps" where
  "sys_enter_dup3 g h m = entry_result (try_enter_dup3 g h m)"

definition sys_exit_dup3 :: "Hook \<Rightarrow> Maps \<Rightarrow> Maps" where
  "sys_exit_dup3 h m = exit_result h (try_exit_dup_family h m)"

definition sys_enter_fcntl :: "Globals \<Rightarrow> Hook \<Rightarrow> Maps \<Rightarrow> Maps" where
  "sys_enter_fcntl g h m = entry_result (try_enter_fcntl g h m)"

definition sys_exit_fcntl :: "Hook \<Rightarrow> Maps \<Rightarrow> Maps" where
  "sys_exit_fcntl h m = exit_result h (try_exit_dup_family h m)"

definition sys_enter_pread64 :: "Globals \<Rightarrow> Hook \<Rightarrow> Maps \<Rightarrow> Maps" where
  "sys_enter_pread64 g h m = entry_result (try_enter_prw g h Pread64 m)"

definition sys_exit_pread64 :: "Hook \<Rightarrow> Maps \<Rightarrow> Maps" where
  "sys_exit_pread64 h m = exit_result h (try_exit_prw h m)"

definition sys_enter_pwrite64 :: "Globals \<Rightarrow> Hook \<Rightarrow> Maps \<Rightarrow> Maps" where
  "sys_enter_pwrite64 g h m = entry_result (try_enter_prw g h Pwrite64 m)"

definition sys_exit_pwrite64 :: "Hook \<Rightarrow> Maps \<Rightarrow> Maps" where
  "sys_exit_pwrite64 h m = exit_result h (try_exit_prw h m)"

definition sys_enter_readv :: "Globals \<Rightarrow> Hook \<Rightarrow> Maps \<Rightarrow> Maps" where
  "sys_enter_readv g h m = entry_result (try_enter_rwv g h Readv m)"

definition sys_exit_readv :: "Hook \<Rightarrow> Maps \<Rightarrow> Maps" where
  "sys_exit_readv h m = exit_result h (try_exit_rwv h m)"

definition sys_enter_writev :: "Globals \<Rightarrow> Hook \<Rightarrow> Maps \<Rightarrow> Maps" where
  "sys_enter_writev g h m = entry_result (try_enter_rwv g h Writev m)"

definition sys_exit_writev :: "Hook \<Rightarrow> Maps \<Rightarrow> Maps" where
  "sys_exit_writev h m = exit_result h (try_exit_rwv h m)"

definition sys_enter_mmap :: "Globals \<Rightarrow> Hook \<Rightarrow> Maps \<Rightarrow> Maps" where
  "sys_enter_mmap g h m = entry_result (try_enter_mmap g h m)"

definition sys_exit_mmap :: "Globals \<Rightarrow> Hook \<Rightarrow> Maps \<Rightarrow> Maps" where
  "sys_exit_mmap g h m = exit_result h (try_exit_mmap g h m)"

definition sys_enter_sendfile :: "Globals \<Rightarrow> Hook \<Rightarrow> Maps \<Rightarrow> Maps" where
  "sys_enter_sendfile g h m = entry_result (try_enter_sendfile g h m)"

definition sys_exit_sendfile :: "Hook \<Rightarrow> Maps \<Rightarrow> Maps" where
  "sys_exit_sendfile h m = exit_result h (try_exit_sendfile_splice h m)"

definition sys_enter_splice :: "Globals \<Rightarrow> Hook \<Rightarrow> Maps \<Rightarrow> Maps" where
  "sys_enter_splice g h m = entry_result (try_enter_splice g h m)"

definition sys_exit_splice :: "Hook \<Rightarrow> Maps \<Rightarrow> Maps" where
  "sys_exit_splice h m = exit_result h (try_exit_sendfile_splice h m)"

end
