(* ===== verification/BpfHooks.thy ===== *)
theory BpfHooks
  imports BpfRich
begin

text \<open>
  \<open>bloodhound-ebpf/src/lsm_hooks.rs\<close> and \<open>usdt.rs\<close>: the hooks that guard the daemon
  and observe the target user, and the programs behind the static probes of the
  training shell and peer.
\<close>

section \<open>Structs of the inode hooks\<close>

subsection \<open>LsmInodePayload\<close>

record LsmInodePayload =
  lin_path_len :: "16 word"
  lin_return_code :: "32 word"

definition LsmInodePayload_layout :: layout where
  "LsmInodePayload_layout =
     [(''path_len'', u16), (''_pad'', array_of 2 u8), (''return_code'', u32)]"

definition read_LsmInodePayload :: "bytes \<Rightarrow> LsmInodePayload" where
  "read_LsmInodePayload bs = (let fld = (\<lambda>f. field LsmInodePayload_layout f bs) in
     \<lparr>lin_path_len = le_word (fld ''path_len''), lin_return_code = le_word (fld ''return_code'')\<rparr>)"

definition LsmInodePayload_fields :: "LsmInodePayload \<Rightarrow> bytes list" where
  "LsmInodePayload_fields v =
     [le_bytes 2 (unat (lin_path_len v)), le_bytes 2 0, le_bytes 4 (unat (lin_return_code v))]"

definition LsmInodePayload_bytes :: "(nat \<Rightarrow> byte) \<Rightarrow> LsmInodePayload \<Rightarrow> bytes" where
  "LsmInodePayload_bytes pad v = struct_bytes pad LsmInodePayload_layout (LsmInodePayload_fields v)"

definition LsmInodePayload_SIZE :: nat where "LsmInodePayload_SIZE = struct_size LsmInodePayload_layout"

lemma LsmInodePayload_SIZE [wire_simps]: "LsmInodePayload_SIZE = 8" by code_simp

lemma LsmInodePayload_fits: "fits LsmInodePayload_layout (LsmInodePayload_fields v)"
  by (simp add: LsmInodePayload_layout_def LsmInodePayload_fields_def ctype_defs wire_simps)

lemma LsmInodePayload_names: "map fst LsmInodePayload_layout =
     [''path_len'', ''_pad'', ''return_code'']"
  by (simp add: LsmInodePayload_layout_def)

lemma LsmInodePayload_read: "read_LsmInodePayload (LsmInodePayload_bytes pad v @ rest) = v"
  by (simp add: read_LsmInodePayload_def LsmInodePayload_bytes_def Let_def
      field_of_struct[OF LsmInodePayload_fits] LsmInodePayload_names)
    (simp add: LsmInodePayload_fields_def wire_simps)

interpretation lin_wire: wire_struct read_LsmInodePayload LsmInodePayload_bytes "(\<lambda>_. True)" LsmInodePayload_SIZE
  by unfold_locales (simp_all add: LsmInodePayload_bytes_def LsmInodePayload_SIZE_def length_struct_bytes LsmInodePayload_fits
      LsmInodePayload_read[unfolded LsmInodePayload_bytes_def])

subsection \<open>LsmInodeRenamePayload\<close>

record LsmInodeRenamePayload =
  lir_old_path_len :: "16 word"
  lir_new_path_len :: "16 word"
  lir_return_code :: "32 word"

definition LsmInodeRenamePayload_layout :: layout where
  "LsmInodeRenamePayload_layout =
     [(''old_path_len'', u16), (''new_path_len'', u16), (''return_code'', u32)]"

definition read_LsmInodeRenamePayload :: "bytes \<Rightarrow> LsmInodeRenamePayload" where
  "read_LsmInodeRenamePayload bs = (let fld = (\<lambda>f. field LsmInodeRenamePayload_layout f bs) in
     \<lparr>lir_old_path_len = le_word (fld ''old_path_len''),
      lir_new_path_len = le_word (fld ''new_path_len''), lir_return_code = le_word (fld ''return_code'')\<rparr>)"

definition LsmInodeRenamePayload_fields :: "LsmInodeRenamePayload \<Rightarrow> bytes list" where
  "LsmInodeRenamePayload_fields v =
     [le_bytes 2 (unat (lir_old_path_len v)), le_bytes 2 (unat (lir_new_path_len v)),
       le_bytes 4 (unat (lir_return_code v))]"

definition LsmInodeRenamePayload_bytes :: "(nat \<Rightarrow> byte) \<Rightarrow> LsmInodeRenamePayload \<Rightarrow> bytes" where
  "LsmInodeRenamePayload_bytes pad v = struct_bytes pad LsmInodeRenamePayload_layout (LsmInodeRenamePayload_fields v)"

definition LsmInodeRenamePayload_SIZE :: nat where "LsmInodeRenamePayload_SIZE = struct_size LsmInodeRenamePayload_layout"

lemma LsmInodeRenamePayload_SIZE [wire_simps]: "LsmInodeRenamePayload_SIZE = 8" by code_simp

lemma LsmInodeRenamePayload_fits: "fits LsmInodeRenamePayload_layout (LsmInodeRenamePayload_fields v)"
  by (simp add: LsmInodeRenamePayload_layout_def LsmInodeRenamePayload_fields_def ctype_defs wire_simps)

lemma LsmInodeRenamePayload_names: "map fst LsmInodeRenamePayload_layout =
     [''old_path_len'', ''new_path_len'', ''return_code'']"
  by (simp add: LsmInodeRenamePayload_layout_def)

lemma LsmInodeRenamePayload_read: "read_LsmInodeRenamePayload (LsmInodeRenamePayload_bytes pad v @ rest) = v"
  by (simp add: read_LsmInodeRenamePayload_def LsmInodeRenamePayload_bytes_def Let_def
      field_of_struct[OF LsmInodeRenamePayload_fits] LsmInodeRenamePayload_names)
    (simp add: LsmInodeRenamePayload_fields_def wire_simps)

interpretation lir_wire: wire_struct read_LsmInodeRenamePayload LsmInodeRenamePayload_bytes "(\<lambda>_. True)" LsmInodeRenamePayload_SIZE
  by unfold_locales (simp_all add: LsmInodeRenamePayload_bytes_def LsmInodeRenamePayload_SIZE_def length_struct_bytes LsmInodeRenamePayload_fits
      LsmInodeRenamePayload_read[unfolded LsmInodeRenamePayload_bytes_def])

section \<open>LSM hooks\<close>

text \<open>A hook returns its decision, 0 to allow; the error branch allows.\<close>

definition is_daemon :: "Globals \<Rightarrow> Hook \<Rightarrow> bool" where
  "is_daemon g h \<longleftrightarrow> DAEMON_PID g \<noteq> 0 \<and> current_tgid h = DAEMON_PID g"

definition emit_lsm_event :: "Globals \<Rightarrow> Hook \<Rightarrow> EventKind \<Rightarrow> bytes \<Rightarrow> Maps \<Rightarrow> Maps" where
  "emit_lsm_event g h kind payload m =
     (let header = \<lparr>h_kind = kind_byte kind, h_capture = default_capture,
            h_timestamp_ns = k_now h (kind_byte kind), h_auid = get_current_auid g h,
            h_sessionid = get_current_sessionid g h, h_pid = current_tgid h, h_ppid = 0,
            h_process_start_boottime_ns =
              unwrap_or (map_option kpr_start_boottime_ns (process_ref_from_task g h (k_task h))) 0,
            h_comm = unwrap_or (k_comm h) (replicate COMM_SIZE 0), h_tid = ucast (k_pid_tgid h),
            h_ns = snapshot g h (k_task h) default_ns\<rparr>
      in emit_event h (EventHeader_bytes (k_pad h) header @ payload) m)"

type_synonym decision = "32 word \<times> Maps"

definition kill_target :: "Globals \<Rightarrow> Hook \<Rightarrow> 32 word" where
  "kill_target g h = unwrap_or (read_k32 h (k_raw_arg h 0 + ucast (OFF_TGID g))) 0"

definition task_kill :: "Globals \<Rightarrow> Hook \<Rightarrow> Maps \<Rightarrow> decision" where
  "task_kill g h m =
     (if is_daemon g h then (0, m)
      else if get_current_auid g h \<noteq> TARGET_AUID g then (0, m)
      else
        (let target_tgid = kill_target g h;
             payload = \<lparr>ltk_target_pid = target_tgid, ltk_signal = ucast (k_raw_arg h 2),
               ltk_target_start_boottime_ns =
                 unwrap_or (map_option kpr_start_boottime_ns (process_ref_from_task g h (k_raw_arg h 0))) 0,
               ltk_return_code = 0\<rparr> in
         if DAEMON_PID g \<noteq> 0 \<and> target_tgid = DAEMON_PID g then
           (- 1, emit_lsm_event g h LsmTaskKill
              (LsmTaskKillPayload_bytes (k_pad h) (payload\<lparr>ltk_return_code := - 1\<rparr>)) m)
         else
           (0, emit_lsm_event g h LsmTaskKill (LsmTaskKillPayload_bytes (k_pad h) payload) m)))"

definition bpf_hook :: "Globals \<Rightarrow> Hook \<Rightarrow> Maps \<Rightarrow> decision" where
  "bpf_hook g h m =
     (if is_daemon g h then (0, m)
      else if get_current_auid g h \<noteq> TARGET_AUID g then (0, m)
      else (0, emit_lsm_event g h LsmBpf (LsmBpfPayload_bytes (k_pad h) \<lparr>lb_cmd = 0, lb_return_code = 0\<rparr>) m))"

definition try_ptrace :: "Globals \<Rightarrow> Hook \<Rightarrow> Maps \<Rightarrow> (int + 32 word) \<times> Maps" where
  "try_ptrace g h m =
     (let previous = ucast (k_raw_arg h 2) in
      if previous \<noteq> 0 then (Ok previous, m)
      else if is_daemon g h then (Ok 0, m)
      else if get_current_auid g h \<noteq> TARGET_AUID g then (Ok 0, m)
      else (case read_k32 h (k_raw_arg h 0 + ucast (OFF_TGID g)) of
          None \<Rightarrow> (Err (- 1), m)
        | Some target_pid \<Rightarrow>
            if target_pid \<noteq> DAEMON_PID g then (Ok 0, m)
            else (Ok (- 1), emit_lsm_event g h LsmPtraceAccessCheck
              (LsmPtracePayload_bytes (k_pad h) \<lparr>lp_target_pid = DAEMON_PID g, lp_return_code = - 1\<rparr>) m)))"

definition ptrace_access_check :: "Globals \<Rightarrow> Hook \<Rightarrow> Maps \<Rightarrow> decision" where
  "ptrace_access_check g h m = (case try_ptrace g h m of
       (Inr ret, m') \<Rightarrow> (ret, m')
     | (Inl _, m') \<Rightarrow> (0, m'))"

definition file_open :: "Globals \<Rightarrow> Hook \<Rightarrow> Maps \<Rightarrow> decision" where
  "file_open g h m =
     (if is_daemon g h then (0, m)
      else if get_current_auid g h \<noteq> TARGET_AUID g then (0, m)
      else (0, emit_lsm_event g h LsmFileOpen
        (LsmFileOpenPayload_bytes (k_pad h) \<lparr>lfo_path_len = 0, lfo_return_code = 0\<rparr>) m))"

definition try_inode_op :: "Globals \<Rightarrow> Hook \<Rightarrow> EventKind \<Rightarrow> Maps \<Rightarrow> decision" where
  "try_inode_op g h kind m =
     (if is_daemon g h then (0, m)
      else if get_current_auid g h \<noteq> TARGET_AUID g then (0, m)
      else (0, emit_lsm_event g h kind
        (LsmInodePayload_bytes (k_pad h) \<lparr>lin_path_len = 0, lin_return_code = 0\<rparr>) m))"

definition inode_unlink :: "Globals \<Rightarrow> Hook \<Rightarrow> Maps \<Rightarrow> decision" where
  "inode_unlink g h m = try_inode_op g h LsmInodeUnlink m"

definition inode_rename :: "Globals \<Rightarrow> Hook \<Rightarrow> Maps \<Rightarrow> decision" where
  "inode_rename g h m =
     (if is_daemon g h then (0, m)
      else if get_current_auid g h \<noteq> TARGET_AUID g then (0, m)
      else (0, emit_lsm_event g h LsmInodeRename (LsmInodeRenamePayload_bytes (k_pad h)
        \<lparr>lir_old_path_len = 0, lir_new_path_len = 0, lir_return_code = 0\<rparr>) m))"

definition task_fix_setuid :: "Globals \<Rightarrow> Hook \<Rightarrow> Maps \<Rightarrow> decision" where
  "task_fix_setuid g h m =
     (if get_current_auid g h \<noteq> TARGET_AUID g then (0, m)
      else (0, emit_lsm_event g h LsmTaskFixSetuid (LsmSetuidPayload_bytes (k_pad h)
        \<lparr>lsu_old_uid = 0, lsu_new_uid = 0, lsu_old_gid = 0, lsu_new_gid = 0, lsu_return_code = 0\<rparr>) m))"

section \<open>USDT programs\<close>

definition COMMAND_NAME_LIMIT :: nat where "COMMAND_NAME_LIMIT = 64"

definition emit_shell_capture_error :: "Globals \<Rightarrow> Hook \<Rightarrow> 32 word \<Rightarrow> byte \<Rightarrow> byte \<Rightarrow> Maps \<Rightarrow> Maps" where
  "emit_shell_capture_error g h attach_point_id field_id read_error_code m =
     emit_event h (EventHeader_bytes (k_pad h) (get_task_info g h (kind_byte UsdtTrainingShellV3CaptureError))
       @ UsdtTrainingShellCaptureErrorPayload_bytes (k_pad h)
           \<lparr>uce_attach_point_id = attach_point_id, uce_field_id = field_id,
            uce_read_error_code = read_error_code\<rparr>) m"

definition emit_shell ::
  "Globals \<Rightarrow> Hook \<Rightarrow> 32 word \<Rightarrow> 32 word \<Rightarrow> 64 word \<Rightarrow> 32 word \<Rightarrow> 64 word \<Rightarrow> 32 word \<Rightarrow> 32 word \<Rightarrow> Maps \<Rightarrow> Maps" where
  "emit_shell g h attach_point_id shell_pid command_id command_kind command_name semantic_flags
     exit_status m =
     (if command_name = 0 then emit_shell_capture_error g h attach_point_id 3 1 m
      else (case k_ustr h command_name COMMAND_NAME_LIMIT of
          None \<Rightarrow> emit_shell_capture_error g h attach_point_id 3 1 m
        | Some name \<Rightarrow>
            (let header = get_task_info g h (kind_byte UsdtTrainingShellV3);
                 payload = \<lparr>ush_attach_point_id = attach_point_id, ush_shell_pid = shell_pid,
                   ush_command_id = command_id, ush_command_kind = command_kind,
                   ush_semantic_flags = semantic_flags, ush_exit_status = exit_status,
                   ush_command_name_len = of_nat (length name),
                   ush_command_name_truncated = (if length name = COMMAND_NAME_LIMIT - 1 then 1 else 0)\<rparr>;
                 total_len = EventHeader_SIZE + UsdtTrainingShellPayload_SIZE + length name in
             if \<not> k_percpu h ''ASSEMBLY_BUF'' 0 then m
             else if total_len > length (ASSEMBLY_BUF m) then m
             else
               (let buf = write_at (EventHeader_SIZE + UsdtTrainingShellPayload_SIZE) name
                      (write_at EventHeader_SIZE (UsdtTrainingShellPayload_bytes (k_pad h) payload)
                        (write_at 0 (EventHeader_bytes (k_pad h) header) (ASSEMBLY_BUF m)))
                in emit_event h (take total_len buf) (m\<lparr>ASSEMBLY_BUF := buf\<rparr>)))))"

text \<open>\<open>shell_attach_point!\<close> and \<open>peer_attach_point!\<close>: one program per attach point id.\<close>

definition usdt_training_shell :: "32 word \<Rightarrow> Globals \<Rightarrow> Hook \<Rightarrow> Maps \<Rightarrow> Maps" where
  "usdt_training_shell i g h m =
     (if \<not> should_trace g h then m
      else emit_shell g h i (ucast (unwrap_or (k_probe_arg h 0) 0)) (unwrap_or (k_probe_arg h 1) 0)
        (ucast (unwrap_or (k_probe_arg h 2) (- 1))) (unwrap_or (k_probe_arg h 3) 0)
        (ucast (unwrap_or (k_probe_arg h 4) 0)) (ucast (unwrap_or (k_probe_arg h 5) 0)) m)"

definition usdt_training_peer :: "32 word \<Rightarrow> Globals \<Rightarrow> Hook \<Rightarrow> Maps \<Rightarrow> Maps" where
  "usdt_training_peer i g h m =
     (if \<not> should_trace g h then m
      else if \<not> k_percpu h ''ASSEMBLY_BUF'' 0 then m
      else
        (let header = get_task_info g h (kind_byte UsdtTrainingPeerV1);
             payload = \<lparr>upe_attach_point_id = i, upe_task_id = unwrap_or (k_probe_arg h 0) 0,
               upe_result = ucast (unwrap_or (k_probe_arg h 1) (- 1))\<rparr>;
             buf = write_at EventHeader_SIZE (UsdtTrainingPeerPayload_bytes (k_pad h) payload)
               (write_at 0 (EventHeader_bytes (k_pad h) header) (ASSEMBLY_BUF m))
         in emit_event h (take (EventHeader_SIZE + UsdtTrainingPeerPayload_SIZE) buf)
              (m\<lparr>ASSEMBLY_BUF := buf\<rparr>)))"

end
