(* ===== verification/BpfFrame.thy ===== *)
theory BpfFrame
  imports BpfHooks
begin

text \<open>
  What every program but the exit program keeps: the sizes of the buffers, the
  well-formedness of the stored entries, the exit claims, and a ring that only grows
  by records with the header of a collector.
\<close>

section \<open>Records and entries\<close>

definition collector_header :: "EventHeader \<Rightarrow> bool" where
  "collector_header hdr \<longleftrightarrow> wf_EventHeader hdr \<and>
     (\<exists>k. k \<noteq> ProcessExit \<and> k \<noteq> PacketIngress \<and> k \<noteq> PacketEgress \<and> h_kind hdr = kind_byte k)"

definition framed :: "bytes \<Rightarrow> bool" where
  "framed rec \<longleftrightarrow> (\<exists>pad hdr payload. rec = EventHeader_bytes pad hdr @ payload \<and> collector_header hdr)"

definition entries_ok :: "Maps \<Rightarrow> bool" where
  "entries_ok m \<longleftrightarrow>
     (\<forall>e \<in> ran (SYSCALL_ENTRY_MAP m). collector_header (se_header e)) \<and>
     (\<forall>e \<in> ran (RICH_ENTRY_MAP m). collector_header (re_header e)) \<and>
     (\<forall>e \<in> ran (EXECVE_ENTRY_MAP m). collector_header (xe_header e)) \<and>
     (\<forall>e \<in> ran (OPENAT_ENTRY_MAP m). collector_header (oe_header e)) \<and>
     (\<forall>e \<in> ran (PATH_ENTRY_MAP m). collector_header (pe_header e))"

definition maps_ok :: "Maps \<Rightarrow> bool" where
  "maps_ok m \<longleftrightarrow> buffers_ok m \<and> entries_ok m"

definition quiet :: "Maps \<Rightarrow> Maps \<Rightarrow> bool" where
  "quiet m m' \<longleftrightarrow> (maps_ok m \<longrightarrow> maps_ok m' \<and> EXIT_CLAIMS m' = EXIT_CLAIMS m \<and>
     (\<exists>new. EVENTS m' = EVENTS m @ new \<and> list_all framed new))"

named_theorems quiet_rules

lemma quiet_refl [quiet_rules, simp]: "quiet m m"
  by (simp add: quiet_def)

lemma quiet_trans: "quiet m m' \<Longrightarrow> quiet m' m'' \<Longrightarrow> quiet m m''"
  unfolding quiet_def by (metis append_assoc list_all_append)

lemma quietI:
  assumes "maps_ok m \<Longrightarrow> buffers_ok m'" "maps_ok m \<Longrightarrow> entries_ok m'" "EXIT_CLAIMS m' = EXIT_CLAIMS m"
    "EVENTS m' = EVENTS m"
  shows "quiet m m'"
  using assms by (simp add: quiet_def maps_ok_def)

lemma quiet_failure [quiet_rules]: "quiet m m' \<Longrightarrow> quiet m (failure f r m')"
  by (erule quiet_trans) (auto simp: quiet_def maps_ok_def entries_ok_def)

lemma quiet_counted [quiet_rules]: "quiet m m' \<Longrightarrow> quiet m (count_outcome f r m')"
  by (cases r) (simp_all add: count_outcome_def quiet_failure)

lemma quiet_saved [quiet_rules]:
  "quiet m m' \<Longrightarrow> quiet m (save_in f r m')" "quiet m m' \<Longrightarrow> quiet m (cleanup_in f r m')"
  by (simp_all add: save_in_def cleanup_in_def quiet_counted)

lemma quiet_emit:
  assumes "quiet m m'" "maps_ok m' \<Longrightarrow> framed data"
  shows "quiet m (emit_event h data m')"
proof (rule quiet_trans[OF assms(1)])
  show "quiet m' (emit_event h data m')"
    unfolding quiet_def
    using assms(2) buffers_ok_counters(6)[of h data m']
    by (auto simp: maps_ok_def entries_ok_def emit_event_def increment_drop_count_def)
qed

lemma collector_task_info:
  "hook_ok h \<Longrightarrow> k \<noteq> ProcessExit \<Longrightarrow> k \<noteq> PacketIngress \<Longrightarrow> k \<noteq> PacketEgress \<Longrightarrow>
     collector_header (get_task_info g h (kind_byte k))"
  using get_task_info_wf[of h g "kind_byte k"] by (auto simp: collector_header_def)

lemma collector_updates [simp]:
  "collector_header (hdr\<lparr>h_capture := c\<rparr>) = collector_header hdr"
  "collector_header (hdr\<lparr>h_pid := p\<rparr>) = collector_header hdr"
  "collector_header (hdr\<lparr>h_ppid := p\<rparr>) = collector_header hdr"
  "collector_header (hdr\<lparr>h_process_start_boottime_ns := s\<rparr>) = collector_header hdr"
  by (simp_all add: collector_header_def)

lemma framedI: "collector_header hdr \<Longrightarrow> framed (EventHeader_bytes pad hdr @ payload)"
  "collector_header hdr \<Longrightarrow> framed (EventHeader_bytes pad hdr)"
  unfolding framed_def by blast (metis append_Nil2)

text \<open>Changes of a single map.\<close>

lemma quiet_removes:
  "ran w \<subseteq> ran (SYSCALL_ENTRY_MAP m) \<Longrightarrow> quiet m (m\<lparr>SYSCALL_ENTRY_MAP := w\<rparr>)"
  "ran x \<subseteq> ran (RICH_ENTRY_MAP m) \<Longrightarrow> quiet m (m\<lparr>RICH_ENTRY_MAP := x\<rparr>)"
  "ran y \<subseteq> ran (EXECVE_ENTRY_MAP m) \<Longrightarrow> quiet m (m\<lparr>EXECVE_ENTRY_MAP := y\<rparr>)"
  "ran z \<subseteq> ran (OPENAT_ENTRY_MAP m) \<Longrightarrow> quiet m (m\<lparr>OPENAT_ENTRY_MAP := z\<rparr>)"
  "ran v \<subseteq> ran (PATH_ENTRY_MAP m) \<Longrightarrow> quiet m (m\<lparr>PATH_ENTRY_MAP := v\<rparr>)"
  by (rule quietI; auto simp: maps_ok_def buffers_ok_entries entries_ok_def)+

lemma quiet_other:
  "quiet m (m\<lparr>TTY_READ_ENTRY_MAP := t\<rparr>)" "quiet m (m\<lparr>DROP_COUNT := d\<rparr>)" "quiet m (m\<lparr>FAILURES := f\<rparr>)"
  by (rule quietI; auto simp: maps_ok_def entries_ok_def)+

lemma quiet_buffer:
  "(buffers_ok m \<Longrightarrow> length b = ASSEMBLY_BUF_SIZE) \<Longrightarrow> quiet m (m\<lparr>ASSEMBLY_BUF := b\<rparr>)"
  by (rule quietI) (auto simp: maps_ok_def buffers_ok_scratch entries_ok_def)

lemma quiet_cleanup:
  "hash_remove err (SYSCALL_ENTRY_MAP m) k = (r1, w) \<Longrightarrow> quiet m (m\<lparr>SYSCALL_ENTRY_MAP := w\<rparr>)"
  "hash_remove err (RICH_ENTRY_MAP m) k = (r2, x) \<Longrightarrow> quiet m (m\<lparr>RICH_ENTRY_MAP := x\<rparr>)"
  "hash_remove err (EXECVE_ENTRY_MAP m) k = (r3, y) \<Longrightarrow> quiet m (m\<lparr>EXECVE_ENTRY_MAP := y\<rparr>)"
  "hash_remove err (OPENAT_ENTRY_MAP m) k = (r4, z) \<Longrightarrow> quiet m (m\<lparr>OPENAT_ENTRY_MAP := z\<rparr>)"
  "hash_remove err (PATH_ENTRY_MAP m) k = (r5, v) \<Longrightarrow> quiet m (m\<lparr>PATH_ENTRY_MAP := v\<rparr>)"
  by (simp_all add: quiet_removes ran_hash_remove)

lemma quiet_inserts:
  "collector_header (se_header e1) \<Longrightarrow> hash_insert err (SYSCALL_ENTRY_MAP m) k e1 = (r1, w) \<Longrightarrow>
     quiet m (m\<lparr>SYSCALL_ENTRY_MAP := w\<rparr>)"
  "collector_header (re_header e2) \<Longrightarrow> (maps_ok m \<Longrightarrow> rich_entry_ok e2) \<Longrightarrow>
     hash_insert err (RICH_ENTRY_MAP m) k e2 = (r2, x) \<Longrightarrow> quiet m (m\<lparr>RICH_ENTRY_MAP := x\<rparr>)"
  "collector_header (oe_header e3) \<Longrightarrow> (maps_ok m \<Longrightarrow> openat_entry_ok e3) \<Longrightarrow>
     hash_insert err (OPENAT_ENTRY_MAP m) k e3 = (r3, z) \<Longrightarrow> quiet m (m\<lparr>OPENAT_ENTRY_MAP := z\<rparr>)"
  "collector_header (pe_header e4) \<Longrightarrow> (maps_ok m \<Longrightarrow> path_entry_ok e4) \<Longrightarrow>
     hash_insert err (PATH_ENTRY_MAP m) k e4 = (r4, v) \<Longrightarrow> quiet m (m\<lparr>PATH_ENTRY_MAP := v\<rparr>)"
  by (rule quietI; auto simp: maps_ok_def entries_ok_def intro: buffers_ok_inserts[OF _ _ ran_hash_insert]
      dest: ran_hash_insert[THEN subsetD])+

section \<open>Raw syscalls, interrupts, lifecycle and signals\<close>

lemma quiet_raw_cleanup [quiet_rules]: "quiet m (raw_cleanup h m)"
  by (auto simp: raw_cleanup_def split: prod.splits intro: quiet_saved quiet_cleanup)

lemma framed_raw: "collector_header hdr \<Longrightarrow> framed (raw_record h hdr nr args ret)"
  by (simp add: raw_record_def framedI)

lemma quiet_raw_save:
  "hash_insert err (SYSCALL_ENTRY_MAP m) k \<lparr>se_header = hdr, se_syscall_nr = nr, se_args = args\<rparr> = (r, w) \<Longrightarrow>
     collector_header hdr \<Longrightarrow> quiet m (m\<lparr>SYSCALL_ENTRY_MAP := w\<rparr>)"
  by (erule quiet_inserts(1)[rotated]) simp

lemma quiet_raw_enter: "hook_ok h \<Longrightarrow> quiet m (raw_sys_enter g h m)"
  using collector_task_info[of h RawSyscall g]
  by (auto simp: raw_sys_enter_def try_raw_sys_enter_def Let_def split: option.splits prod.splits
      intro!: quiet_failure quiet_saved quiet_emit framed_raw intro: quiet_raw_save)

lemma quiet_raw_exit: "quiet m (raw_sys_exit h m)"
  by (auto simp: raw_sys_exit_def try_raw_sys_exit_def maps_ok_def entries_ok_def split: option.splits
      intro!: quiet_failure quiet_raw_cleanup quiet_trans[OF _ quiet_raw_cleanup] quiet_emit framed_raw ranI)

lemma quiet_after_failure: "quiet (failure f r m) m' \<Longrightarrow> quiet m m'"
  by (rule quiet_trans[OF quiet_failure[OF quiet_refl]])

lemma quiet_failed_removes:
  "quiet m ((failure f r m)\<lparr>TTY_READ_ENTRY_MAP := t\<rparr>)"
  "ran x \<subseteq> ran (RICH_ENTRY_MAP m) \<Longrightarrow> quiet m ((failure f r m)\<lparr>RICH_ENTRY_MAP := x\<rparr>)"
  "ran z \<subseteq> ran (OPENAT_ENTRY_MAP m) \<Longrightarrow> quiet m ((failure f r m)\<lparr>OPENAT_ENTRY_MAP := z\<rparr>)"
  "ran v \<subseteq> ran (PATH_ENTRY_MAP m) \<Longrightarrow> quiet m ((failure f r m)\<lparr>PATH_ENTRY_MAP := v\<rparr>)"
  by (rule quiet_after_failure[of f r], simp add: quiet_removes quiet_other)+

lemma quiet_interrupts [quiet_rules]:
  "quiet m (tty_interrupt h m)" "quiet m (raw_interrupt h m)" "quiet m (path_interrupt h m)"
  "quiet m (rich_interrupt h m)" "quiet m (exec_remove_entry h m)" "quiet m (exec_interrupt h m)"
  "quiet m (openat_interrupt h m)"
proof -
  show "quiet m (tty_interrupt h m)"
    by (simp add: tty_interrupt_def quiet_saved quiet_failed_removes split: prod.splits)
  show "quiet m (raw_interrupt h m)"
    by (simp add: raw_interrupt_def quiet_after_failure[OF quiet_raw_cleanup])
  show "quiet m (path_interrupt h m)" "quiet m (rich_interrupt h m)"
    by (simp_all add: path_interrupt_def rich_interrupt_def quiet_saved quiet_failed_removes ran_hash_remove
        split: prod.splits)
  have x: "quiet m (exec_remove_entry h m)" for m
    by (simp add: exec_remove_entry_def quiet_failure quiet_removes ran_hash_remove split: prod.splits sum.splits)
  then show "quiet m (exec_remove_entry h m)" .
  show "quiet m (exec_interrupt h m)"
    by (simp add: exec_interrupt_def quiet_after_failure[OF x])
  show "quiet m (openat_interrupt h m)"
    by (simp add: openat_interrupt_def quiet_failed_removes ran_hash_remove[OF surjective_pairing])
qed

lemma quiet_release: "quiet m (release_invocations h m)"
  unfolding release_invocations_def by (intro quiet_interrupts quiet_trans[OF _ quiet_interrupts(6)]
      quiet_trans[OF _ quiet_interrupts(4)] quiet_trans[OF _ quiet_interrupts(3)]
      quiet_trans[OF _ quiet_interrupts(2)] quiet_trans[OF _ quiet_interrupts(7)])

lemma task_header_wf:
  assumes "hook_ok h"
  shows "wf_EventHeader (get_task_info_from_task g h kind task)"
proof -
  have "length (task_comm g h task) = COMM_SIZE"
    using assms by (auto simp: task_comm_def unwrap_or_def hook_ok_def split: option.splits)
  moreover have "sized_ns (snapshot g h task default_ns)" "sized_ns default_ns"
    using snapshot_fresh[of default_ns default_ns g h task] by (simp_all add: sized_ns_def default_ns_def)
  ultimately show ?thesis
    by (simp add: wf_EventHeader_def wf_NsSnapshot_sized get_task_info_from_task_def Let_def COMM_SIZE_def)
qed

lemma task_header_kind: "h_kind (get_task_info_from_task g h kind task) = kind"
  by (simp add: get_task_info_from_task_def Let_def)

lemma quiet_emit_fixed: "quiet m m' \<Longrightarrow> collector_header hdr \<Longrightarrow> quiet m (emit_fixed h hdr payload m')"
  unfolding emit_fixed_def by (rule quiet_emit) (simp_all add: framedI)

lemma quiet_fork:
  assumes "hook_ok h"
  shows "quiet m (sched_process_fork g h m)"
proof -
  have "collector_header (fork_child_header g h c p r)" for c p r
    using task_header_wf[OF assms, of g "kind_byte ProcessStart" c] unfolding collector_header_def
    by (intro conjI exI[of _ ProcessStart]) (simp_all add: fork_child_header_def task_header_kind)
  moreover have "collector_header (get_task_info g h (kind_byte ProcessFork))"
    using assms by (rule collector_task_info) simp_all
  ultimately show ?thesis
    unfolding sched_process_fork_def try_process_fork_def Let_def
    by (simp add: quiet_emit_fixed del: kind_byte.simps split: option.splits)
qed

lemma quiet_signal:
  assumes "hook_ok h"
  shows "quiet m (signal_generate g h m)"
proof -
  have "collector_header (get_task_info g h (kind_byte SignalGenerate))"
    using assms by (rule collector_task_info) simp_all
  then show ?thesis
    unfolding signal_generate_def try_signal_generate_def Let_def
    by (simp add: quiet_emit_fixed del: kind_byte.simps)
qed

section \<open>Assembled records\<close>

lemma framed_take:
  assumes "take 96 out = EventHeader_bytes pad hdr" "96 \<le> n" "collector_header hdr"
  shows "framed (take n out)"
proof -
  have "take n out = EventHeader_bytes pad hdr @ drop 96 (take n out)"
    using append_take_drop_id[of 96 "take n out"] assms(1,2)
    by (simp add: min_absorb1 del: append_take_drop_id)
  then show ?thesis using assms(3) unfolding framed_def by blast
qed

lemma quiet_assembled:
  assumes "buffers_ok m \<Longrightarrow> length out = ASSEMBLY_BUF_SIZE" "take 96 out = EventHeader_bytes pad hdr"
    "maps_ok m \<Longrightarrow> collector_header hdr" "96 \<le> n"
  shows "quiet m (emit_event h (take n out) (m\<lparr>ASSEMBLY_BUF := out\<rparr>))"
proof (cases "maps_ok m")
  case True
  have "quiet m (m\<lparr>ASSEMBLY_BUF := out\<rparr>)" by (rule quiet_buffer) (rule assms(1))
  then show ?thesis using framed_take[OF assms(2,4) assms(3)[OF True]] by (rule quiet_emit)
qed (simp add: quiet_def)

lemma header_stays:
  "length hb = 96 \<Longrightarrow> take 96 (write_at 0 hb buf) = hb"
  "96 \<le> off \<Longrightarrow> 96 \<le> length buf \<Longrightarrow> take 96 (write_at off data buf) = take 96 buf"
  by (simp_all add: write_at_def min_def)

lemma header_room: "96 \<le> length (write_at 0 hb buf)" if "length hb = 96"
  using that by (simp add: write_at_def)

lemma header_size: "collector_header hdr \<Longrightarrow> length (EventHeader_bytes pad hdr) = 96"
  using h_wire.size[of hdr pad] by (simp add: collector_header_def wire_simps)

lemma quiet_tty_assemble:
  assumes "hook_ok h" "k = TtyRead \<or> k = TtyWrite"
  shows "quiet m (tty_assemble g h (kind_byte k) status n m)"
proof -
  let ?hdr = "tty_header g h (kind_byte k) status"
  have c: "collector_header ?hdr"
    using collector_task_info[OF assms(1), of k g] assms(2) by (auto simp: tty_header_def)
  note sz = header_size[OF c, of "k_pad h"]
  have pl: "length (TtyPayload_bytes pad p) = 4" for pad p
    using tty_wire.size[of pad p] by (simp add: wire_simps)
  show ?thesis
    unfolding tty_assemble_def Let_def
    by (rule quiet_assembled[where hdr = ?hdr and pad = "k_pad h"])
      (use c sz pl header_room[OF sz] in \<open>simp_all add: header_stays EventHeader_SIZE TtyPayload_SIZE
        buffers_ok_def ASSEMBLY_BUF_SIZE_def MAX_PATH_SIZE_def\<close>)
qed

lemma quiet_emit_tty:
  assumes "hook_ok h" "k = TtyRead \<or> k = TtyWrite" "quiet m0 m"
  shows "quiet m0 (snd (emit_tty_event g h (kind_byte k) p n m))"
proof (rule quiet_trans[OF assms(3)])
  have len: "length d = min n 4095" if "k_kmem h p (min n 4095) = Some d" for d
    using assms(1) that by (auto simp: hook_ok_def)
  have scr: "quiet m (m\<lparr>SCRATCH_BUF := (SCRATCH_BUF m)(2 := b)\<rparr>)"
    if "maps_ok m \<Longrightarrow> length b = MAX_PATH_SIZE" for b
    by (rule quietI) (use that in \<open>auto simp: maps_ok_def buffers_ok_scratch entries_ok_def\<close>)
  have both: "quiet m (m\<lparr>SCRATCH_BUF := (SCRATCH_BUF m)(2 := b), ASSEMBLY_BUF := c\<rparr>)"
    if "maps_ok m \<Longrightarrow> length b = MAX_PATH_SIZE" "maps_ok m \<Longrightarrow> length c = ASSEMBLY_BUF_SIZE" for b c
    by (rule quietI) (use that in \<open>auto simp: maps_ok_def buffers_ok_def entries_ok_def\<close>)
  note t = quiet_tty_assemble[OF assms(1,2)]
  show "quiet m (snd (emit_tty_event g h (kind_byte k) p n m))"
    unfolding emit_tty_event_eq Let_def
    using len
    by (auto split: option.splits intro!: t quiet_trans[OF _ t] scr both
        simp: maps_ok_def buffers_ok_def MAX_PATH_SIZE_def ASSEMBLY_BUF_SIZE_def wire_simps)
qed

lemma quiet_outcome:
  "quiet m (snd out) \<Longrightarrow> quiet m (case out of (Inr _, m') \<Rightarrow> m' | (Inl _, m') \<Rightarrow> failure f r m')"
  by (cases out) (simp add: quiet_failure split: sum.splits)

lemma quiet_tty:
  assumes "hook_ok h"
  shows "quiet m (tty_write_probe g h m)" "quiet m (tty_read_probe g h m)" "quiet m (tty_read_ret_probe g h m)"
proof -
  have w: "quiet m0 m \<Longrightarrow> quiet m0 (snd (emit_tty_event g h 1 p n m))"
    and r: "quiet m0 m \<Longrightarrow> quiet m0 (snd (emit_tty_event g h 0 p n m))" for m0 m p n
    using quiet_emit_tty[OF assms, of TtyWrite m0 m g p n] quiet_emit_tty[OF assms, of TtyRead m0 m g p n]
    by simp_all
  have i: "quiet m ((tty_interrupt h m)\<lparr>TTY_READ_ENTRY_MAP := t\<rparr>)" for t
    by (rule quiet_trans[OF quiet_interrupts(1) quiet_other(1)])
  have "quiet m (snd (try_tty_write g h m))"
    by (simp add: try_tty_write_def w split: option.splits)
  then show "quiet m (tty_write_probe g h m)" unfolding tty_write_probe_def by (rule quiet_outcome)
  have "quiet m (snd (try_tty_read_entry g h m))"
    by (simp add: try_tty_read_entry_def Let_def quiet_interrupts quiet_saved i split: option.splits prod.splits)
  then show "quiet m (tty_read_probe g h m)" unfolding tty_read_probe_def by (rule quiet_outcome)
  have "quiet m (snd (try_tty_read_ret g h m))"
    by (simp add: try_tty_read_ret_def Let_def quiet_saved quiet_other r split: option.splits prod.splits)
  then show "quiet m (tty_read_ret_probe g h m)" unfolding tty_read_ret_probe_def by (rule quiet_outcome)
qed

section \<open>Exec\<close>

lemma copy_collector:
  "collector_header (xe_header (copy_filename h m e)) = collector_header (xe_header e)"
  "collector_header (xe_header (copy_argv h m e)) = collector_header (xe_header e)"
  by (simp_all add: copy_filename_def copy_argv_def Let_def)

lemma quiet_exec_insert:
  assumes "collector_header (xe_header e)" "execve_entry_ok e"
    "hash_insert err (EXECVE_ENTRY_MAP m) k e = (r, y)"
  shows "quiet m (m\<lparr>EXECVE_ENTRY_MAP := y\<rparr>)"
  by (rule quietI)
    (use assms(1) buffers_ok_inserts(2)[OF _ assms(2) ran_hash_insert[OF assms(3)]]
      ran_hash_insert[OF assms(3)] in \<open>auto simp: maps_ok_def entries_ok_def\<close>)

lemma quiet_capture_exec:
  assumes "hook_ok h" "k = Execve \<or> k = Execveat"
  shows "quiet m (capture_exec g h k f a m)"
proof (cases "maps_ok m")
  case True
  then have m: "buffers_ok m" "entries_ok m" by (simp_all add: maps_ok_def)
  obtain l1 s1 m1 where r1: "read_filename h f m = ((l1, s1), m1)" by (metis surj_pair)
  obtain l2 s2 m2 where r2: "read_argv h a m1 = ((l2, s2), m2)" by (metis surj_pair)
  have b1: "buffers_ok m1" "EXECVE_TMP_BUF m1 = EXECVE_TMP_BUF m"
    using read_filename_buffers[OF assms(1) m(1) r1] by simp_all
  have b2: "buffers_ok m2" "EXECVE_TMP_BUF m2 = EXECVE_TMP_BUF m"
    using read_argv_buffers[OF assms(1) b1(1) r2] b1(2) by simp_all
  obtain x where x: "m1 = m\<lparr>SCRATCH_BUF := x\<rparr>"
    using r1 that[of "SCRATCH_BUF m1"]
    by (cases "k_percpu h ''SCRATCH_BUF'' 0") (auto simp: read_filename_def split: prod.splits)
  obtain y where y: "m2 = m\<lparr>SCRATCH_BUF := y\<rparr>"
    using r2 by (auto simp: x read_argv_def split: if_splits prod.splits)
  define raw where "raw = (EXECVE_TMP_BUF m2)\<lparr>xe_header :=
      (fill_task_info g h (kind_byte k) (xe_header (EXECVE_TMP_BUF m)))\<lparr>h_capture :=
      \<lparr>cap_version = 1, cap_primary = status_byte s2, cap_secondary = status_byte s1\<rparr>\<rparr>,
      xe_filename_len := l1, xe_argv_len := l2\<rparr>"
  define entry where "entry = copy_argv h m2 (copy_filename h m2 raw)"
  have tmp: "execve_entry_ok (EXECVE_TMP_BUF m)" using m(1) by (simp add: buffers_ok_def)
  then have fresh: "fill_task_info g h (kind_byte k) (xe_header (EXECVE_TMP_BUF m)) = get_task_info g h (kind_byte k)"
    by (intro fill_task_info_fresh) (simp add: execve_entry_ok_def wf_EventHeader_def wf_NsSnapshot_sized)
  have task: "collector_header (get_task_info g h (kind_byte k))"
    using assms by (intro collector_task_info) auto
  then have c: "collector_header (xe_header entry)" by (simp add: entry_def copy_collector raw_def fresh)
  have "execve_entry_ok raw"
    using tmp b2(2) task by (simp add: raw_def fresh execve_entry_ok_def collector_header_def)
  then have e: "execve_entry_ok entry" unfolding entry_def using b2(1) by (intro copy_ok)
  let ?view = "(xe_header entry)\<lparr>h_kind := kind_byte ExecView, h_capture := default_capture\<rparr>"
  have v: "collector_header ?view"
    using c unfolding collector_header_def by (intro conjI exI[of _ ExecView]) simp_all
  let ?ma = "m2\<lparr>EXECVE_TMP_BUF := entry\<rparr>"
  have "buffers_ok ?ma" using b2(1) e by (simp add: buffers_ok_def)
  then have "quiet m ?ma"
    using m(2) by (intro quietI) (simp_all add: y entries_ok_def)
  then have view: "quiet m (exec_view_emit g h (xe_header entry) ?ma)"
    unfolding exec_view_emit_def using v by (rule quiet_emit_fixed)
  show ?thesis
    unfolding capture_exec_def r1 r2 Let_def prod.case raw_def[symmetric] entry_def[symmetric]
    using view quiet_exec_insert[OF c e]
    by (auto intro: quiet_failure quiet_trans split: prod.splits sum.splits)
qed (simp add: quiet_def)

lemma exec_assemble_header:
  assumes "collector_header (xe_header e)"
  shows "\<exists>hdr. collector_header hdr \<and> take 96 (fst (exec_assemble h e ret buf)) = EventHeader_bytes (k_pad h) hdr"
    and "96 \<le> snd (exec_assemble h e ret buf)"
proof -
  have "\<exists>hdr pl b n. collector_header hdr \<and> exec_assemble h e ret buf =
      (write_at 96 pl (write_at 0 (EventHeader_bytes (k_pad h) hdr) b), 104 + n)"
    unfolding exec_assemble_def Let_def EventHeader_SIZE ExecvePayload_SIZE
    using assms by (intro exI conjI, rule_tac[2] prod_eqI) (simp_all add: add.assoc)
  then obtain hdr pl b n where x: "collector_header hdr" "exec_assemble h e ret buf =
      (write_at 96 pl (write_at 0 (EventHeader_bytes (k_pad h) hdr) b), 104 + n)" by blast
  then show "\<exists>hdr. collector_header hdr \<and> take 96 (fst (exec_assemble h e ret buf)) = EventHeader_bytes (k_pad h) hdr"
    using header_room[OF header_size[OF x(1)]] header_size[OF x(1)] by (auto simp: header_stays)
  show "96 \<le> snd (exec_assemble h e ret buf)" by (simp add: x(2))
qed

lemma quiet_exec_exit:
  "quiet m (sys_exit_execve h m)" "quiet m (sys_exit_execveat h m)"
proof -
  have "quiet m (snd (try_sys_exit_execve h m))"
  proof (cases "maps_ok m \<and> EXECVE_ENTRY_MAP m (k_task h) \<noteq> None")
    case True
    then obtain e where e: "EXECVE_ENTRY_MAP m (k_task h) = Some e" "maps_ok m" by auto
    then have ok: "collector_header (xe_header e)" "execve_entry_ok e"
      by (auto simp: maps_ok_def entries_ok_def buffers_ok_def intro: ranI)
    have "quiet m (case exec_assemble h e ret (ASSEMBLY_BUF m) of (buf, total_len) \<Rightarrow>
        if total_len \<le> length buf then emit_event h (take total_len buf) (m\<lparr>ASSEMBLY_BUF := buf\<rparr>)
        else m\<lparr>ASSEMBLY_BUF := buf\<rparr>)" for ret
    proof -
      obtain buf n where a: "exec_assemble h e ret (ASSEMBLY_BUF m) = (buf, n)" by fastforce
      obtain hdr where hdr: "collector_header hdr" "take 96 buf = EventHeader_bytes (k_pad h) hdr" "96 \<le> n"
        using exec_assemble_header[OF ok(1), of h ret "ASSEMBLY_BUF m"] a by auto
      have len: "length buf = ASSEMBLY_BUF_SIZE" if "buffers_ok m"
        using exec_assemble_length[OF ok(2), of "ASSEMBLY_BUF m" h ret] that a ok(1)
        by (simp add: buffers_ok_def collector_header_def)
      show ?thesis
        unfolding a prod.case using quiet_assembled[OF len hdr(2) hdr(1) hdr(3)] quiet_buffer[OF len] by simp
    qed
    then show ?thesis
      using e(1)
      by (auto simp: try_sys_exit_execve_def split: option.splits
          intro: quiet_interrupts quiet_trans[OF _ quiet_interrupts(5)])
  next
    case False
    then show ?thesis by (auto simp: try_sys_exit_execve_def quiet_def)
  qed
  then show "quiet m (sys_exit_execve h m)" "quiet m (sys_exit_execveat h m)"
    unfolding sys_exit_execve_def sys_exit_execveat_def by (rule quiet_outcome)+
qed

lemma quiet_exec_enter:
  assumes "hook_ok h"
  shows "quiet m (sys_enter_execve g h m)" "quiet m (sys_enter_execveat g h m)"
  using quiet_capture_exec[OF assms]
  by (simp_all add: sys_enter_execve_def sys_enter_execveat_def try_sys_enter_execve_def
      try_sys_enter_execveat_def quiet_failure split: option.splits)

end
