(* ===== verification/BpfFrameRich.thy ===== *)
theory BpfFrameRich
  imports BpfFrame
begin

text \<open>
  The frame of the Tier-2 programs, of the security hooks and of the static probes:
  each of them is quiet.
\<close>

section \<open>Building blocks\<close>

lemma quiet_keeps: "quiet m m' \<Longrightarrow> maps_ok m \<Longrightarrow> maps_ok m' \<and> buffers_ok m'"
  by (simp add: quiet_def maps_ok_def)

lemma empty_maps_ok [simp]: "maps_ok empty_maps"
  using empty_buffers_ok by (simp add: maps_ok_def entries_ok_def empty_maps_def)

lemma quiet_emit_stored:
  assumes "maps_ok m \<Longrightarrow> collector_header hdr"
  shows "quiet m (emit_fixed h hdr payload m)"
  by (cases "maps_ok m") (simp add: quiet_emit_fixed assms, simp add: quiet_def)

lemma quiet_rich_cleanup: "quiet m m' \<Longrightarrow> quiet m (rich_cleanup h m')" "quiet m m' \<Longrightarrow> quiet m (path_cleanup h m')"
  by (erule quiet_trans,
      auto simp: rich_cleanup_def path_cleanup_def split: prod.splits intro: quiet_saved quiet_cleanup)+

lemma quiet_entry_result: "quiet m (snd out) \<Longrightarrow> quiet m (entry_result out)"
  unfolding entry_result_def by (rule quiet_outcome)

lemma quiet_exit_result: "quiet m (snd out) \<Longrightarrow> quiet m (exit_result h out)"
  by (cases out) (simp add: exit_result_def quiet_rich_cleanup quiet_failure split: sum.splits)

lemma stored_headers:
  "maps_ok m \<Longrightarrow> RICH_ENTRY_MAP m k = Some e1 \<Longrightarrow> collector_header (re_header e1)"
  "maps_ok m \<Longrightarrow> OPENAT_ENTRY_MAP m k = Some e2 \<Longrightarrow> collector_header (oe_header e2)"
  "maps_ok m \<Longrightarrow> PATH_ENTRY_MAP m k = Some e3 \<Longrightarrow> collector_header (pe_header e3)"
  by (auto simp: maps_ok_def entries_ok_def ran_def)

lemma quiet_rich_exit: "quiet m (snd (rich_exit h payload m))"
  by (simp add: rich_exit_def quiet_rich_cleanup quiet_emit_stored stored_headers split: option.splits)

lemma quiet_tmp_buffers:
  "(buffers_ok m \<Longrightarrow> rich_entry_ok e1) \<Longrightarrow> quiet m (m\<lparr>SYSCALL_TMP_BUF := e1\<rparr>)"
  "(buffers_ok m \<Longrightarrow> openat_entry_ok e2) \<Longrightarrow> quiet m (m\<lparr>OPENAT_TMP_BUF := e2\<rparr>)"
  "(buffers_ok m \<Longrightarrow> path_entry_ok e3) \<Longrightarrow> quiet m (m\<lparr>PATH_TMP_BUF := e3\<rparr>)"
  by (rule quietI; simp add: maps_ok_def buffers_ok_def entries_ok_def)+

lemma quiet_rich_stash:
  assumes "collector_header (get_task_info g h b)" "length ed \<le> 256"
  shows "quiet m (snd (rich_stash g h b ed m))"
proof -
  define entry where "entry = (SYSCALL_TMP_BUF m)\<lparr>re_header := get_task_info g h b,
      re_data := write_at 0 ed (re_data (SYSCALL_TMP_BUF m)), re_data_len := of_nat (length ed)\<rparr>"
  have e: "rich_entry_ok entry" if "buffers_ok m"
    using that assms by (simp add: entry_def buffers_ok_def rich_entry_ok_def collector_header_def)
  have c: "collector_header (re_header entry)" using assms(1) by (simp add: entry_def)
  let ?m = "m\<lparr>SYSCALL_TMP_BUF := entry\<rparr>"
  have "quiet m (?m\<lparr>RICH_ENTRY_MAP := x\<rparr>)"
    if "hash_insert err (RICH_ENTRY_MAP ?m) k entry = (r, x)" for err k r x
  proof (cases "buffers_ok m")
    case True
    show ?thesis
      by (rule quiet_trans[OF quiet_tmp_buffers(1) quiet_inserts(2)[OF c _ that]]) (use e True in blast)+
  qed (simp add: quiet_def maps_ok_def)
  then show ?thesis
    unfolding rich_stash_def Let_def entry_def[symmetric] by (auto intro: quiet_saved split: prod.splits)
qed

lemma header_kept: "96 \<le> off \<Longrightarrow> 96 \<le> length buf \<Longrightarrow> 96 \<le> length (write_at off d buf)"
  by (simp add: write_at_def)

lemma quiet_emit_varlen:
  assumes "maps_ok m \<Longrightarrow> collector_header hdr"
  shows "quiet m (snd (emit_varlen h hdr payload data m))"
proof (cases "maps_ok m")
  case True
  then have c: "collector_header hdr" by (rule assms)
  note sz = header_size[OF c, of "k_pad h"]
  define buf where "buf = write_at 96 payload
      (write_at 0 (EventHeader_bytes (k_pad h) hdr) (ASSEMBLY_BUF m))"
  have len: "length (write_at (96 + length payload) d buf) = length (ASSEMBLY_BUF m)"
    if "96 + length payload + length data \<le> length (ASSEMBLY_BUF m)"
      "length d = length data" for d
    using that sz by (simp add: buf_def EventHeader_SIZE)
  have hd: "take 96 (write_at (96 + length payload) d buf) = EventHeader_bytes (k_pad h) hdr" for d
    using sz header_room[OF sz] by (simp add: buf_def header_stays header_kept EventHeader_SIZE)
  show ?thesis
    unfolding emit_varlen_def Let_def EventHeader_SIZE buf_def[symmetric]
    using len True
    by (auto intro!: quiet_buffer quiet_assembled[OF _ hd c] simp: not_less maps_ok_def buffers_ok_def)
qed (simp add: quiet_def)

section \<open>Enter programs over the generic entry\<close>

abbreviation plain_kind :: "EventKind \<Rightarrow> bool" where
  "plain_kind k \<equiv> k \<noteq> ProcessExit \<and> k \<noteq> PacketIngress \<and> k \<noteq> PacketEgress"

lemma quiet_stash:
  "hook_ok h \<Longrightarrow> plain_kind k \<Longrightarrow> length ed \<le> 256 \<Longrightarrow> quiet m (snd (rich_stash g h (kind_byte k) ed m))"
  by (intro quiet_rich_stash collector_task_info) simp_all

lemma sockaddr_v6: "read_sockaddr h a n = (family, port, v4, v6) \<Longrightarrow> length v6 = 16"
  by (auto simp: read_sockaddr_def Let_def split: if_splits)

lemmas entry_data_sizes = rwd_wire.size cbd_wire.size lid_wire.size sod_wire.size cld_wire.size fdd_wire.size
  srd_wire.size dud_wire.size ppd_wire.size rvd_wire.size mmd_wire.size ssd_wire.size

lemma quiet_generic_enters:
  assumes "hook_ok h"
  shows "plain_kind k \<Longrightarrow> quiet m (snd (try_sys_enter_rw g h k m))"
    and "quiet m (snd (try_enter_listen g h m))"
    and "quiet m (snd (try_enter_socket g h m))"
    and "plain_kind k \<Longrightarrow> quiet m (snd (try_enter_clone g h k m))"
    and "plain_kind k \<Longrightarrow> quiet m (snd (try_enter_fd g h k m))"
    and "plain_kind k \<Longrightarrow> quiet m (snd (try_enter_prw g h k m))"
    and "plain_kind k \<Longrightarrow> quiet m (snd (try_enter_rwv g h k m))"
    and "quiet m (snd (try_enter_mmap g h m))"
    and "plain_kind k \<Longrightarrow> quiet m (snd (try_enter_dup_family g h k c m))"
    and "quiet m (snd (try_enter_dup3 g h m))"
    and "quiet m (snd (try_enter_fcntl g h m))"
    and "quiet m (snd (try_enter_sendfile g h m))"
    and "quiet m (snd (try_enter_splice g h m))"
  by (simp_all add: try_sys_enter_rw_def try_enter_listen_def try_enter_socket_def try_enter_clone_def
      try_enter_fd_def try_enter_prw_def try_enter_rwv_def try_enter_mmap_def try_enter_dup_family_def
      try_enter_dup3_def try_enter_fcntl_def try_enter_sendfile_def try_enter_splice_def stash_dup_entry_def
      stash_sendfile_splice_entry_def Let_def quiet_stash assms entry_data_sizes wire_simps
      del: kind_byte.simps split: option.splits)

lemma quiet_sockaddr_enters:
  assumes "hook_ok h" "plain_kind k"
  shows "quiet m (snd (try_sys_enter_sockaddr g h k m))"
    and "quiet m (snd (try_enter_sendto_recvfrom g h k m))"
  by (auto simp: try_sys_enter_sockaddr_def try_enter_sendto_recvfrom_def assms entry_data_sizes wire_simps
      wf_ConnBindData_def wf_SendRecvData_def dest!: sockaddr_v6 intro!: quiet_stash
      split: option.splits prod.splits)

section \<open>Paths and openat\<close>

lemma quiet_path_save:
  assumes "collector_header (pe_header e)" "buffers_ok m \<Longrightarrow> path_entry_ok e"
  shows "quiet m (snd (path_save h e m))"
proof -
  have "quiet m (m\<lparr>PATH_TMP_BUF := e, PATH_ENTRY_MAP := v\<rparr>)"
    if "hash_insert err (PATH_ENTRY_MAP m) k e = (r, v)" for err k r v
  proof (cases "buffers_ok m")
    case True
    show ?thesis
      by (rule quiet_trans[OF quiet_tmp_buffers(3) quiet_inserts(4)[OF assms(1)]])
        (use assms(2) True that in auto)
  qed (simp add: quiet_def maps_ok_def)
  then show ?thesis
    unfolding path_save_def by (auto intro: quiet_saved split: prod.splits)
qed

lemma user_str_length:
  "hook_ok h \<Longrightarrow> length buf = MAX_PATH_SIZE \<Longrightarrow> read_user_str h p buf = ((n, st), out) \<Longrightarrow> length out = MAX_PATH_SIZE"
  by (fastforce simp: read_user_str_def hook_ok_def MAX_PATH_SIZE_def split: option.splits if_splits)

lemma quiet_path_enters:
  assumes "hook_ok h"
  shows "plain_kind k \<Longrightarrow> quiet m (snd (enter_path_arg g h (kind_byte k) i m))"
    and "plain_kind (two_path_kind tk) \<Longrightarrow> quiet m (snd (try_enter_two_path g h tk m))"
  using collector_task_info[OF assms]
  by (auto simp: enter_path_arg_def try_enter_two_path_def buffers_ok_def path_entry_ok_def collector_header_def
      split: option.splits prod.splits intro!: quiet_path_save dest: user_str_length[OF assms, rotated])

lemma quiet_path_exit: "quiet m (snd (try_exit_path h m))"
proof (cases "PATH_ENTRY_MAP m (k_pid_tgid h)")
  case (Some e)
  have "quiet m m'" if "emit_varlen h (pe_header e) pl d m = (r, m')" for pl d r m'
    using quiet_emit_varlen[of m "pe_header e" h pl d] stored_headers(3)[OF _ Some] that by simp
  then show ?thesis
    by (auto simp: try_exit_path_def Some intro: quiet_rich_cleanup split: option.splits prod.splits bool.splits)
qed (simp add: try_exit_path_def)

lemma two_path_assemble_header:
  assumes "collector_header (pe_header e)" "path_entry_ok e"
  shows "two_path_assemble h e ret dst = Inl out \<Longrightarrow> length out = length dst"
    and "two_path_assemble h e ret dst = Inr (out, n) \<Longrightarrow> length out = length dst \<and> 96 \<le> n \<and>
      take 96 out = EventHeader_bytes (k_pad h) (pe_header e)"
proof -
  note sz = header_size[OF assms(1), of "k_pad h"]
  have tp: "length (TwoPathPayload_bytes pad p) = 8" for pad p
    using tp_wire.size[of pad p] by (simp add: wire_simps)
  have small: "(x :: nat) AND 4095 \<le> 4095" for x
    using take_bit_nat_less_exp[of 12 x] by (simp add: take_bit_eq_mask mask_eq_exp_minus_1)
  show "two_path_assemble h e ret dst = Inl out \<Longrightarrow> length out = length dst"
    and "two_path_assemble h e ret dst = Inr (out, n) \<Longrightarrow> length out = length dst \<and> 96 \<le> n \<and>
      take 96 out = EventHeader_bytes (k_pad h) (pe_header e)"
    using sz tp small assms(2) header_room[OF sz]
    by (auto simp: two_path_assemble_def Let_def header_stays header_kept path_entry_ok_def wire_simps MAX_PATH_SIZE_def
        split: if_splits)
qed

lemma quiet_two_path_exit: "quiet m (snd (try_exit_two_path h m))"
proof (cases "maps_ok m \<and> PATH_ENTRY_MAP m (k_pid_tgid h) \<noteq> None")
  case True
  then obtain e where e: "PATH_ENTRY_MAP m (k_pid_tgid h) = Some e" "maps_ok m" by auto
  have ok: "collector_header (pe_header e)" "path_entry_ok e" "length (ASSEMBLY_BUF m) = ASSEMBLY_BUF_SIZE"
    using e stored_headers(3)[OF e(2,1)] by (auto simp: maps_ok_def buffers_ok_def intro: ranI)
  note hd = two_path_assemble_header[OF ok(1,2), where dst = "ASSEMBLY_BUF m"]
  have l: "quiet m (m\<lparr>ASSEMBLY_BUF := out\<rparr>)" if "two_path_assemble h e ret (ASSEMBLY_BUF m) = Inl out" for ret out
    using hd(1)[OF that] ok(3) by (intro quiet_buffer) simp
  have r: "quiet m (emit_event h (take n out) (m\<lparr>ASSEMBLY_BUF := out\<rparr>))"
    if "two_path_assemble h e ret (ASSEMBLY_BUF m) = Inr (out, n)" for ret out n
    using hd(2)[OF that] ok by (intro quiet_assembled[where pad = "k_pad h" and hdr = "pe_header e"]) simp_all
  show ?thesis
    by (auto simp: try_exit_two_path_def e(1) l r quiet_rich_cleanup split: option.splits sum.splits)
qed (auto simp: try_exit_two_path_def quiet_def)

lemma quiet_openat_remove: "quiet m m' \<Longrightarrow> quiet m (openat_remove h m')"
  unfolding openat_remove_def by (erule quiet_trans) (metis prod.collapse quiet_cleanup(4))

lemma quiet_openat_enter:
  assumes "hook_ok h"
  shows "quiet m (sys_enter_openat g h m)"
proof -
  have t: "collector_header (get_task_info g h (kind_byte Openat))" by (rule collector_task_info[OF assms]) simp_all
  have save: "quiet m (m\<lparr>OPENAT_TMP_BUF := e, OPENAT_ENTRY_MAP := z\<rparr>)"
    if "collector_header (oe_header e)" "buffers_ok m \<Longrightarrow> openat_entry_ok e"
      "hash_insert err (OPENAT_ENTRY_MAP m) k e = (r, z)" for e err k r z
  proof (cases "buffers_ok m")
    case True
    show ?thesis
      by (rule quiet_trans[OF quiet_tmp_buffers(2) quiet_inserts(3)[OF that(1)]]) (use that True in auto)
  qed (simp add: quiet_def maps_ok_def)
  have "quiet m (snd (try_sys_enter_openat g h m))"
    unfolding try_sys_enter_openat_def Let_def
    using t
    by (auto simp: buffers_ok_def openat_entry_ok_def collector_header_def
        split: option.splits prod.splits sum.splits intro!: quiet_tmp_buffers save quiet_failure
        dest: user_str_length[OF assms, rotated])
  then show ?thesis unfolding sys_enter_openat_def by (rule quiet_outcome)
qed

lemma quiet_openat_exit: "quiet m (sys_exit_openat g h m)"
proof (cases "OPENAT_ENTRY_MAP m (k_pid_tgid h)")
  case (Some e)
  have "quiet m m'" if "emit_varlen h (oe_header e) pl d m = (r, m')" for pl d r m'
    using quiet_emit_varlen[of m "oe_header e" h pl d] stored_headers(2)[OF _ Some] that by simp
  then have "quiet m (snd (try_sys_exit_openat g h m))"
    by (auto simp: try_sys_exit_openat_def Some Let_def intro: quiet_openat_remove
        split: option.splits prod.splits bool.splits)
  then show ?thesis
    by (cases "try_sys_exit_openat g h m")
      (auto simp: sys_exit_openat_def intro: quiet_openat_remove quiet_failure split: sum.splits)
qed (simp add: sys_exit_openat_def try_sys_exit_openat_def)

section \<open>Security hooks and static probes\<close>

lemma quiet_emit_lsm:
  assumes "hook_ok h" "plain_kind k"
  shows "quiet m (emit_lsm_event g h k payload m)"
proof -
  have "wf_EventHeader \<lparr>h_kind = kind_byte k, h_capture = default_capture,
            h_timestamp_ns = k_now h (kind_byte k), h_auid = get_current_auid g h,
            h_sessionid = get_current_sessionid g h, h_pid = current_tgid h, h_ppid = 0,
            h_process_start_boottime_ns =
              unwrap_or (map_option kpr_start_boottime_ns (process_ref_from_task g h (k_task h))) 0,
            h_comm = unwrap_or (k_comm h) (replicate COMM_SIZE 0), h_tid = ucast (k_pid_tgid h),
            h_ns = snapshot g h (k_task h) default_ns\<rparr>"
    using get_task_info_wf[OF assms(1), of g "kind_byte k"]
    by (simp add: wf_EventHeader_def get_task_info_def fill_task_info_def zeroed_header_def)
  then show ?thesis
    unfolding emit_lsm_event_def Let_def using assms(2)
    by (intro quiet_emit quiet_refl framedI) (auto simp: collector_header_def)
qed

lemma quiet_lsm:
  assumes "hook_ok h"
  shows "quiet m (snd (task_kill g h m))" "quiet m (snd (bpf_hook g h m))"
    "quiet m (snd (ptrace_access_check g h m))" "quiet m (snd (file_open g h m))"
    "quiet m (snd (inode_unlink g h m))" "quiet m (snd (inode_rename g h m))"
    "quiet m (snd (task_fix_setuid g h m))"
  by (auto simp: task_kill_def bpf_hook_def ptrace_access_check_def try_ptrace_def file_open_def inode_unlink_def
      try_inode_op_def inode_rename_def task_fix_setuid_def Let_def quiet_emit_lsm[OF assms] split: option.splits)

lemma quiet_shell_error: "hook_ok h \<Longrightarrow> quiet m (emit_shell_capture_error g h i f e m)"
  unfolding emit_shell_capture_error_def
  by (intro quiet_emit quiet_refl framedI collector_task_info) simp_all

lemma quiet_usdt:
  assumes "hook_ok h"
  shows "quiet m (usdt_training_shell i g h m)" "quiet m (usdt_training_peer i g h m)"
proof -
  have c: "collector_header (get_task_info g h (kind_byte k))" if "plain_kind k" for k
    using that by (intro collector_task_info[OF assms]) auto
  note sz = header_size[OF c, of _ "k_pad h"]
  have pl: "length (UsdtTrainingShellPayload_bytes pad s) = UsdtTrainingShellPayload_SIZE"
    "length (UsdtTrainingPeerPayload_bytes pad p) = UsdtTrainingPeerPayload_SIZE" for pad s p
    using ush_wire.size[of pad s] upe_wire.size[of pad p] by simp_all
  have "quiet m (emit_shell g h a b c' d e f x m)" for a b c' d e f x
    unfolding emit_shell_def Let_def
    using sz[of UsdtTrainingShellV3] header_room[OF sz[of UsdtTrainingShellV3]] c[of UsdtTrainingShellV3] pl
    by (auto simp: quiet_shell_error[OF assms] header_stays header_kept buffers_ok_def wire_simps
        split: option.splits simp del: kind_byte.simps
        intro!: quiet_assembled[where pad = "k_pad h" and hdr = "get_task_info g h (kind_byte UsdtTrainingShellV3)"])
  then show "quiet m (usdt_training_shell i g h m)" by (simp add: usdt_training_shell_def)
  show "quiet m (usdt_training_peer i g h m)"
    unfolding usdt_training_peer_def Let_def
    using sz[of UsdtTrainingPeerV1] header_room[OF sz[of UsdtTrainingPeerV1]] c[of UsdtTrainingPeerV1] pl
    by (auto simp: header_stays header_kept buffers_ok_def wire_simps ASSEMBLY_BUF_SIZE_def MAX_PATH_SIZE_def simp del: kind_byte.simps
        intro!: quiet_assembled[where pad = "k_pad h" and hdr = "get_task_info g h (kind_byte UsdtTrainingPeerV1)"])
qed

end
