(* ===== verification/BpfRichFacts.thy ===== *)
theory BpfRichFacts
  imports BpfFrameRich
begin

text \<open>
  Correctness of the Tier-2 programs: what the exit program emits is what the enter
  program saw, and the daemon decodes it so.
\<close>

section \<open>Assembled records\<close>

lemma emit_varlen_emits:
  assumes "wf_EventHeader hdr" "buffers_ok m" "length payload + length data \<le> 8192"
    "k_percpu h ''ASSEMBLY_BUF'' 0" "k_copy h ''varlen'' 0"
  obtains m' where "emit_varlen h hdr payload data m =
      (True, emit_event h (EventHeader_bytes (k_pad h) hdr @ payload @ data) m')"
    "\<exists>b. m' = m\<lparr>ASSEMBLY_BUF := b\<rparr>"
proof -
  let ?hd = "EventHeader_bytes (k_pad h) hdr"
  let ?out = "write_at (EventHeader_SIZE + length payload) data
    (write_at EventHeader_SIZE payload (write_at 0 ?hd (ASSEMBLY_BUF m)))"
  have sz: "length ?hd = 96" using h_wire.size[OF assms(1)] by (simp add: wire_simps)
  have buf: "length (ASSEMBLY_BUF m) = 8448"
    using assms(2) by (simp add: buffers_ok_def ASSEMBLY_BUF_SIZE_def MAX_PATH_SIZE_def)
  have "take (EventHeader_SIZE + length payload + length data) ?out = ?hd @ payload @ data"
    using sz buf assms(3) by (simp add: write_at_def wire_simps)
  then have "emit_varlen h hdr payload data m =
      (True, emit_event h (?hd @ payload @ data) (m\<lparr>ASSEMBLY_BUF := ?out\<rparr>))"
    using assms(3-5) buf by (simp add: emit_varlen_def Let_def wire_simps)
  then show thesis using that by blast
qed

lemma two_path_assemble_records:
  assumes "wf_EventHeader (pe_header entry)" "length dst = ASSEMBLY_BUF_SIZE"
    "unat (pe_path1_len entry) = length p1" "take (length p1) (pe_path1 entry) = p1" "length p1 \<le> 4095"
    "unat (pe_path2_len entry) = length p2" "take (length p2) (pe_path2 entry) = p2" "length p2 \<le> 4095"
    "k_copy h ''path1'' 0" "k_copy h ''path2'' 0"
  obtains dst' n where "two_path_assemble h entry ret dst = Ok (dst', n)"
    "take n dst' = EventHeader_bytes (k_pad h) (pe_header entry)
       @ TwoPathPayload_bytes (k_pad h) \<lparr>tp_path1_len = of_nat (length p1),
           tp_path2_len = of_nat (length p2), tp_return_code = ucast ret\<rparr> @ p1 @ p2"
    "two_path_payload entry ret = \<lparr>tp_path1_len = of_nat (length p1),
           tp_path2_len = of_nat (length p2), tp_return_code = ucast ret\<rparr>"
proof -
  let ?hd = "EventHeader_bytes (k_pad h) (pe_header entry)"
  let ?pl = "TwoPathPayload_bytes (k_pad h) (two_path_payload entry ret)"
  have mask: "length p1 AND (MAX_PATH_SIZE - 1) = length p1" "length p2 AND (MAX_PATH_SIZE - 1) = length p2"
    using and_mask_small[of "length p1" 12] and_mask_small[of "length p2" 12] assms(5,8)
    by (simp_all add: MAX_PATH_SIZE_def)
  have pl: "two_path_payload entry ret = \<lparr>tp_path1_len = of_nat (length p1),
      tp_path2_len = of_nat (length p2), tp_return_code = ucast ret\<rparr>"
    using assms(3,6) mask by (simp add: two_path_payload_def)
  have sz: "length ?hd = 96" "length ?pl = 8"
    using h_wire.size[OF assms(1)] tp_wire.size by (simp_all add: wire_simps)
  have dst: "length dst = 8448" using assms(2) by (simp add: ASSEMBLY_BUF_SIZE_def MAX_PATH_SIZE_def)
  have out: "two_path_assemble h entry ret dst = Ok (write_at (104 + length p1) p2
      (write_at 104 p1 (write_at 96 ?pl (write_at 0 ?hd dst))), 104 + length p1 + length p2)"
    unfolding two_path_assemble_def Let_def assms(3,6) mask using assms(4,5,7-10) dst
    by (simp add: wire_simps)
  have "take (104 + length p1 + length p2) (write_at (104 + length p1) p2
      (write_at 104 p1 (write_at 96 ?pl (write_at 0 ?hd dst)))) = ?hd @ ?pl @ p1 @ p2"
    using sz assms(5,8) dst by (simp add: write_at_def)
  then show thesis using that[OF out] pl by simp
qed

section \<open>Enter and exit through the generic entry map\<close>

text \<open>
  What the exit program reads back from the entry's data array is the struct the
  enter program copied there, whatever the array held before.
\<close>

locale rich_entry = wire_struct rd wr wf sz
  for rd :: "bytes \<Rightarrow> 'e" and wr :: "(nat \<Rightarrow> byte) \<Rightarrow> 'e \<Rightarrow> bytes" and wf :: "'e \<Rightarrow> bool" and sz :: nat +
  assumes small: "sz \<le> 256"
begin

lemma stored_back:
  assumes "wf v" "length buf = 256"
  shows "rd (write_at 0 (wr pad v) buf) = v"
  using round_trip[OF assms(1)] by (simp add: write_at_def)

lemma stash_exit:
  assumes "wf v" "buffers_ok m" "k_percpu h1 ''SYSCALL_TMP_BUF'' 0"
    "k_update_error h1 ''RICH_ENTRY_MAP'' = None"
    "RICH_ENTRY_MAP m2 (k_pid_tgid h1) =
       RICH_ENTRY_MAP (snd (rich_stash g h1 kind (wr pad v) m)) (k_pid_tgid h1)"
    "k_pid_tgid h2 = k_pid_tgid h1" "ctx_u64 h2 16 = Some ret"
    "k_delete_error h2 ''RICH_ENTRY_MAP'' = None" "\<forall>data. k_ring h2 data"
  shows "EVENTS (exit_result h2 (rich_exit h2 (\<lambda>data ret. P (rd data) ret) m2)) =
      EVENTS m2 @ [EventHeader_bytes (k_pad h2) (get_task_info g h1 kind) @ P v ret]"
    and "RICH_ENTRY_MAP (exit_result h2 (rich_exit h2 (\<lambda>data ret. P (rd data) ret) m2)) (k_pid_tgid h1) = None"
proof -
  have buf: "length (re_data (SYSCALL_TMP_BUF m)) = 256"
    using assms(2) by (simp add: buffers_ok_def rich_entry_ok_def)
  obtain e where e: "RICH_ENTRY_MAP m2 (k_pid_tgid h2) = Some e" "re_header e = get_task_info g h1 kind"
    "rd (re_data e) = v"
    using assms(3-6) stored_back[OF assms(1) buf]
    by (simp add: rich_stash_def Let_def hash_insert_def save_in_def save_outcome_def count_outcome_def)
  have out: "exit_result h2 (rich_exit h2 (\<lambda>data ret. P (rd data) ret) m2) =
      rich_cleanup h2 (emit_fixed h2 (get_task_info g h1 kind) (P v ret) m2)"
    using e assms(7) by (simp add: rich_exit_def exit_result_def)
  show "EVENTS (exit_result h2 (rich_exit h2 (\<lambda>data ret. P (rd data) ret) m2)) =
      EVENTS m2 @ [EventHeader_bytes (k_pad h2) (get_task_info g h1 kind) @ P v ret]"
    "RICH_ENTRY_MAP (exit_result h2 (rich_exit h2 (\<lambda>data ret. P (rd data) ret) m2)) (k_pid_tgid h1) = None"
    unfolding out using e(1) assms(6,8,9)
    by (simp_all add: rich_cleanup_def hash_remove_def cleanup_in_def cleanup_outcome_def
        count_outcome_def emit_fixed_def emit_event_def EventHeader_first_byte)
qed

end

interpretation rwd_entry: rich_entry read_ReadWriteEntryData ReadWriteEntryData_bytes "(\<lambda>_. True)" ReadWriteEntryData_SIZE
  by unfold_locales (simp add: wire_simps)

interpretation cbd_entry: rich_entry read_ConnBindData ConnBindData_bytes "wf_ConnBindData" ConnBindData_SIZE
  by unfold_locales (simp add: wire_simps)

interpretation lid_entry: rich_entry read_ListenData ListenData_bytes "(\<lambda>_. True)" ListenData_SIZE
  by unfold_locales (simp add: wire_simps)

interpretation sod_entry: rich_entry read_SocketData SocketData_bytes "(\<lambda>_. True)" SocketData_SIZE
  by unfold_locales (simp add: wire_simps)

interpretation cld_entry: rich_entry read_CloneData CloneData_bytes "(\<lambda>_. True)" CloneData_SIZE
  by unfold_locales (simp add: wire_simps)

interpretation fdd_entry: rich_entry read_FdData FdData_bytes "(\<lambda>_. True)" FdData_SIZE
  by unfold_locales (simp add: wire_simps)

interpretation srd_entry: rich_entry read_SendRecvData SendRecvData_bytes "wf_SendRecvData" SendRecvData_SIZE
  by unfold_locales (simp add: wire_simps)

interpretation dud_entry: rich_entry read_DupEntryData DupEntryData_bytes "(\<lambda>_. True)" DupEntryData_SIZE
  by unfold_locales (simp add: wire_simps)

interpretation ppd_entry: rich_entry read_PreadPwriteEntryData PreadPwriteEntryData_bytes "(\<lambda>_. True)" PreadPwriteEntryData_SIZE
  by unfold_locales (simp add: wire_simps)

interpretation rvd_entry: rich_entry read_ReadvWritevEntryData ReadvWritevEntryData_bytes "(\<lambda>_. True)" ReadvWritevEntryData_SIZE
  by unfold_locales (simp add: wire_simps)

interpretation mmd_entry: rich_entry read_MmapEntryData MmapEntryData_bytes "(\<lambda>_. True)" MmapEntryData_SIZE
  by unfold_locales (simp add: wire_simps)

interpretation ssd_entry: rich_entry read_SendfileSpliceEntryData SendfileSpliceEntryData_bytes "(\<lambda>_. True)" SendfileSpliceEntryData_SIZE
  by unfold_locales (simp add: wire_simps)

section \<open>Captured paths\<close>

lemma read_user_str_captures:
  assumes "hook_ok h" "length buf = MAX_PATH_SIZE" "filename_capture h p = (st, f)"
  obtains buf' where "read_user_str h p buf = ((of_nat (length f), st), buf')"
    "take (length f) buf' = f" "length buf' = MAX_PATH_SIZE" "length f \<le> 4095" "nul_free f"
proof (cases "k_ustr h p MAX_PATH_SIZE")
  case None
  then show thesis
    using that[of "replicate (length buf) 0"] assms
    by (simp add: read_user_str_def filename_capture_def nul_free_def)
next
  case (Some s)
  then have s: "length s < 4096" "0 \<notin> set s" using assms(1) by (auto simp: hook_ok_def MAX_PATH_SIZE_def)
  have "f = s" "st = (if length s < MAX_PATH_SIZE - 1 then Complete else Truncated)"
    using Some assms(3) by (auto simp: filename_capture_def)
  then show thesis
    using that[of "s @ [0] @ drop (length s + 1) buf"] Some s assms(2)
    by (simp add: read_user_str_def MAX_PATH_SIZE_def nul_free_def)
qed

definition path_entry_holds :: "EventHeader \<Rightarrow> bytes \<Rightarrow> bytes \<Rightarrow> PathEntry \<Rightarrow> bool" where
  "path_entry_holds header p1 p2 e \<longleftrightarrow> pe_header e = header \<and>
     unat (pe_path1_len e) = length p1 \<and> take (length p1) (pe_path1 e) = p1 \<and> length p1 \<le> 4095 \<and>
     unat (pe_path2_len e) = length p2 \<and> take (length p2) (pe_path2 e) = p2 \<and> length p2 \<le> 4095"

definition two_path_header :: "Globals \<Rightarrow> Hook \<Rightarrow> TwoPathKind \<Rightarrow> CaptureStatus \<Rightarrow> CaptureStatus \<Rightarrow> EventHeader" where
  "two_path_header g h tk s1 s2 = (get_task_info g h (kind_byte (two_path_kind tk)))\<lparr>h_capture :=
     \<lparr>cap_version = 1, cap_primary = status_byte s1, cap_secondary = status_byte s2\<rparr>\<rparr>"

lemma two_path_saves:
  assumes "hook_ok h" "should_trace g h" "buffers_ok m"
    "ctx_u64 h (16 + 8 * fst (two_path_args tk)) = Some a1" "ctx_u64 h (16 + 8 * snd (two_path_args tk)) = Some a2"
    "filename_capture h a1 = (s1, p1)" "filename_capture h a2 = (s2, p2)"
    "k_percpu h ''PATH_TMP_BUF'' 0" "k_update_error h ''PATH_ENTRY_MAP'' = None"
  obtains e where "PATH_ENTRY_MAP (entry_result (try_enter_two_path g h tk m)) (k_pid_tgid h) = Some e"
    "path_entry_holds (two_path_header g h tk s1 s2) p1 p2 e" "nul_free p1" "nul_free p2"
proof -
  have lens: "length (pe_path1 (PATH_TMP_BUF m)) = MAX_PATH_SIZE" "length (pe_path2 (PATH_TMP_BUF m)) = MAX_PATH_SIZE"
    using assms(3) by (simp_all add: buffers_ok_def path_entry_ok_def)
  obtain b1 where b1: "read_user_str h a1 (pe_path1 (PATH_TMP_BUF m)) = ((of_nat (length p1), s1), b1)"
    "take (length p1) b1 = p1" "length p1 \<le> 4095" "nul_free p1"
    using read_user_str_captures[OF assms(1) lens(1) assms(6)] by blast
  obtain b2 where b2: "read_user_str h a2 (pe_path2 (PATH_TMP_BUF m)) = ((of_nat (length p2), s2), b2)"
    "take (length p2) b2 = p2" "length p2 \<le> 4095" "nul_free p2"
    using read_user_str_captures[OF assms(1) lens(2) assms(7)] by blast
  let ?e = "(PATH_TMP_BUF m)\<lparr>pe_header := two_path_header g h tk s1 s2,
    pe_path1 := b1, pe_path1_len := of_nat (length p1), pe_path2 := b2, pe_path2_len := of_nat (length p2)\<rparr>"
  have "PATH_ENTRY_MAP (entry_result (try_enter_two_path g h tk m)) (k_pid_tgid h) = Some ?e"
    using assms(2,4,5,8,9) b1(1) b2(1)
    by (simp add: try_enter_two_path_def entry_result_def path_save_def hash_insert_def save_in_def
        save_outcome_def count_outcome_def two_path_header_def)
  moreover have "path_entry_holds (two_path_header g h tk s1 s2) p1 p2 ?e"
    using b1(2,3) b2(2,3) by (simp add: path_entry_holds_def unat_of_nat_16)
  ultimately show thesis using that b1(4) b2(4) by blast
qed

lemma two_path_exit_emits:
  assumes "PATH_ENTRY_MAP m (k_pid_tgid h) = Some e" "path_entry_holds hdr p1 p2 e" "wf_EventHeader hdr"
    "buffers_ok m" "ctx_u64 h 16 = Some ret" "k_percpu h ''ASSEMBLY_BUF'' 0" "k_copy h ''path1'' 0"
    "k_copy h ''path2'' 0" "k_delete_error h ''PATH_ENTRY_MAP'' = None" "\<forall>data. k_ring h data"
  shows "EVENTS (exit_result h (try_exit_two_path h m)) = EVENTS m @ [EventHeader_bytes (k_pad h) hdr
       @ TwoPathPayload_bytes (k_pad h) \<lparr>tp_path1_len = of_nat (length p1),
           tp_path2_len = of_nat (length p2), tp_return_code = ucast ret\<rparr> @ p1 @ p2]"
    and "PATH_ENTRY_MAP (exit_result h (try_exit_two_path h m)) (k_pid_tgid h) = None"
proof -
  have e: "wf_EventHeader (pe_header e)" "unat (pe_path1_len e) = length p1" "take (length p1) (pe_path1 e) = p1"
    "length p1 \<le> 4095" "unat (pe_path2_len e) = length p2" "take (length p2) (pe_path2 e) = p2"
    "length p2 \<le> 4095" "pe_header e = hdr"
    using assms(2,3) by (simp_all add: path_entry_holds_def)
  have asm: "length (ASSEMBLY_BUF m) = ASSEMBLY_BUF_SIZE" using assms(4) by (simp add: buffers_ok_def)
  obtain dst n where d: "two_path_assemble h e ret (ASSEMBLY_BUF m) = Ok (dst, n)"
    "take n dst = EventHeader_bytes (k_pad h) hdr @ TwoPathPayload_bytes (k_pad h)
       \<lparr>tp_path1_len = of_nat (length p1), tp_path2_len = of_nat (length p2), tp_return_code = ucast ret\<rparr> @ p1 @ p2"
    using two_path_assemble_records[OF e(1) asm e(2-7) assms(7,8), of ret] e(8) by metis
  have "exit_result h (try_exit_two_path h m) = path_cleanup h (emit_event h (take n dst) (m\<lparr>ASSEMBLY_BUF := dst\<rparr>))"
    using assms(1,5,6) d(1) by (simp add: try_exit_two_path_def exit_result_def)
  moreover have "take n dst \<noteq> []" unfolding d(2) by (simp add: EventHeader_first_byte)
  ultimately show "EVENTS (exit_result h (try_exit_two_path h m)) = EVENTS m @ [EventHeader_bytes (k_pad h) hdr
       @ TwoPathPayload_bytes (k_pad h) \<lparr>tp_path1_len = of_nat (length p1),
           tp_path2_len = of_nat (length p2), tp_return_code = ucast ret\<rparr> @ p1 @ p2]"
    "PATH_ENTRY_MAP (exit_result h (try_exit_two_path h m)) (k_pid_tgid h) = None"
    using assms(1,9,10) d(2)
    by (simp_all add: path_cleanup_def emit_event_def hash_remove_def cleanup_in_def cleanup_outcome_def
        count_outcome_def)
qed

primrec two_path_name :: "TwoPathKind \<Rightarrow> string" where
  "two_path_name TPRename = ''rename''"
| "two_path_name TPRenameat2 = ''renameat2''"
| "two_path_name TPLink = ''link''"
| "two_path_name TPLinkat = ''linkat''"
| "two_path_name TPSymlink = ''symlink''"
| "two_path_name TPSymlinkat = ''symlinkat''"
| "two_path_name TPMount = ''mount''"

lemma parse_two_path_kind:
  "parse_payload (two_path_kind tk) b64 capture payload = parse_two_path_event payload (two_path_name tk) capture"
  by (cases tk) simp_all

lemma two_path_kind_plain:
  "two_path_kind tk \<noteq> PacketIngress" "two_path_kind tk \<noteq> PacketEgress" "two_path_kind tk \<noteq> ProcessStart"
  by (cases tk; simp)+

lemma path_status_v1: "path_capture_status 1 (status_byte s) data = Ok (reported_status s data)"
  by (simp add: path_capture_status_def reported_status_def)

lemma two_path_decodes:
  assumes "hook_ok h1" "nul_free p1" "nul_free p2" "length p1 \<le> 4095" "length p2 \<le> 4095"
  shows "deserialize b64 (EventHeader_bytes pad (two_path_header g h1 tk s1 s2)
      @ TwoPathPayload_bytes pad' \<lparr>tp_path1_len = of_nat (length p1), tp_path2_len = of_nat (length p2),
          tp_return_code = ret\<rparr> @ p1 @ p2) =
    Ok (record_event (two_path_header g h1 tk s1 s2) (''TRACEPOINT'', two_path_name tk, behavior,
      Some (JObj [(''oldpath'', JStr (lossy_str p1)), (''newpath'', JStr (lossy_str p2)),
        (''path_capture_version'', JNum 1), (''path1_status'', JStr (reported_status s1 p1)),
        (''path2_status'', JStr (reported_status s2 p2))]), Some (sint ret)))"
proof -
  let ?hdr = "two_path_header g h1 tk s1 s2"
  have hdr: "wf_EventHeader ?hdr" "h_kind ?hdr = kind_byte (two_path_kind tk)"
    "h_capture ?hdr = \<lparr>cap_version = 1, cap_primary = status_byte s1, cap_secondary = status_byte s2\<rparr>"
    using get_task_info_wf[OF assms(1)] by (simp_all add: two_path_header_def)
  have lens: "unat (of_nat (length p1) :: 16 word) = length p1" "unat (of_nat (length p2) :: 16 word) = length p2"
    using assms(4,5) by (simp_all add: unat_of_nat_16)
  show ?thesis
    using hdr two_path_kind_plain[of tk] lens assms(2,3)
    by (subst deserialize_emitted[where k = "two_path_kind tk"])
      (simp_all add: parse_two_path_kind parse_two_path_emitted path_status_v1 extract_string_def
        lossy_str_def until_nul_free junum_def)
qed

section \<open>openat\<close>

lemma openat_flags:
  assumes "v \<in> {0, DEV_VALID, INO_VALID, INO_VALID OR DEV_VALID}"
  shows "(path_flag st OR v) AND NOT (openat_identity OR openat_path) = 0"
    "(path_flag st OR v) AND openat_path = path_flag st" "path_flag st \<noteq> openat_path"
    "(path_flag st OR v) AND openat_identity = v"
    "(path_flag st OR v) AND DEV_VALID = v AND DEV_VALID" "(path_flag st OR v) AND INO_VALID = v AND INO_VALID"
  using assms by (cases st; auto simp: openat_identity_def openat_path_def capture_consts)+

lemma dev_ino_valid: "di_valid (fd_to_dev_ino g h fd) \<in> {0, DEV_VALID, INO_VALID, INO_VALID OR DEV_VALID}"
  by (auto simp: fd_to_dev_ino_def DevIno_default_def Let_def split: option.splits)

lemma openat_status_str: "openat_filename_status (path_flag st) data = reported_status st data"
  by (cases st) (auto simp: openat_filename_status_def reported_status_def status_str_def capture_consts)

lemma sint_ucast_32:
  assumes "- (2 ^ 31) \<le> sint w" "sint w < 2 ^ 31"
  shows "sint (ucast w :: 32 word) = sint (w :: 64 word)"
proof -
  have "sint (ucast w :: 32 word) = signed_take_bit 31 (uint w)" by (simp add: signed_ucast_eq)
  also have "\<dots> = signed_take_bit 31 (signed_take_bit 63 (uint w))" by simp
  also have "signed_take_bit 63 (uint w) = sint w" using sint_uint[of w] by simp
  also have "signed_take_bit 31 (sint w) = sint w" using assms by (simp add: signed_take_bit_int_eq_self)
  finally show ?thesis .
qed

definition openat_entry_holds :: "EventHeader \<Rightarrow> 32 word \<Rightarrow> 32 word \<Rightarrow> 32 word \<Rightarrow> CaptureStatus \<Rightarrow> bytes \<Rightarrow> OpenatEntry \<Rightarrow> bool" where
  "openat_entry_holds header dirfd flags mode st name e \<longleftrightarrow> oe_header e = header \<and> oe_dirfd e = dirfd \<and>
     oe_flags e = flags \<and> oe_mode e = mode \<and> oe_capture_flags e = path_flag st \<and>
     unat (oe_filename_len e) = length name \<and> take (length name) (oe_filename e) = name \<and> length name \<le> 4095"

lemma openat_saves:
  assumes "hook_ok h" "should_trace g h" "buffers_ok m" "ctx_u64 h 24 = Some a" "ctx_u32 h 32 = Some flags"
    "ctx_u64 h 40 = Some mode" "ctx_u32 h 16 = Some dirfd" "filename_capture h a = (st, name)"
    "k_percpu h ''OPENAT_TMP_BUF'' 0" "k_update_error h ''OPENAT_ENTRY_MAP'' = None"
  obtains e where "OPENAT_ENTRY_MAP (sys_enter_openat g h m) (k_pid_tgid h) = Some e"
    "openat_entry_holds (get_task_info g h (kind_byte Openat)) dirfd flags (ucast mode) st name e" "nul_free name"
proof -
  have len: "length (oe_filename (OPENAT_TMP_BUF m)) = MAX_PATH_SIZE"
    using assms(3) by (simp add: buffers_ok_def openat_entry_ok_def)
  obtain b where b: "read_user_str h a (oe_filename (OPENAT_TMP_BUF m)) = ((of_nat (length name), st), b)"
    "take (length name) b = name" "length name \<le> 4095" "nul_free name"
    using read_user_str_captures[OF assms(1) len assms(8)] by blast
  let ?e = "(OPENAT_TMP_BUF m)\<lparr>oe_header := get_task_info g h (kind_byte Openat), oe_flags := flags,
    oe_dirfd := dirfd, oe_mode := ucast mode, oe_filename := b, oe_filename_len := of_nat (length name),
    oe_capture_flags := path_flag st\<rparr>"
  have "OPENAT_ENTRY_MAP (sys_enter_openat g h m) (k_pid_tgid h) = Some ?e"
    using assms b(1) by (simp add: sys_enter_openat_def try_sys_enter_openat_def Let_def hash_insert_def)
  moreover have "openat_entry_holds (get_task_info g h (kind_byte Openat)) dirfd flags (ucast mode) st name ?e"
    using b(2,3) by (simp add: openat_entry_holds_def unat_of_nat_16)
  ultimately show thesis using that b(4) by blast
qed

definition openat_record :: "Hook \<Rightarrow> EventHeader \<Rightarrow> OpenatEntry \<Rightarrow> DevIno \<Rightarrow> 64 word \<Rightarrow> bytes \<Rightarrow> bytes" where
  "openat_record h header e d ret name = EventHeader_bytes (k_pad h) header
     @ OpenatPayload_bytes (k_pad h) (openat_payload e d ret) @ name"

definition opened_identity :: "Globals \<Rightarrow> Hook \<Rightarrow> 64 word \<Rightarrow> DevIno" where
  "opened_identity g h ret = (if 0 \<le> sint ret then fd_to_dev_ino g h (ucast ret) else DevIno_default)"

lemma openat_exit_emits:
  assumes "OPENAT_ENTRY_MAP m (k_pid_tgid h) = Some e" "openat_entry_holds hdr dirfd flags mode st name e"
    "wf_EventHeader hdr" "buffers_ok m" "ctx_u64 h 16 = Some ret" "k_percpu h ''ASSEMBLY_BUF'' 0"
    "k_copy h ''varlen'' 0" "k_delete_error h ''OPENAT_ENTRY_MAP'' = None" "\<forall>data. k_ring h data"
  shows "EVENTS (sys_exit_openat g h m) = EVENTS m @ [openat_record h hdr e (opened_identity g h ret) ret name]"
    and "OPENAT_ENTRY_MAP (sys_exit_openat g h m) (k_pid_tgid h) = None"
proof -
  let ?pl = "OpenatPayload_bytes (k_pad h) (openat_payload e (opened_identity g h ret) ret)"
  have e: "oe_header e = hdr" "unat (oe_filename_len e) = length name" "take (length name) (oe_filename e) = name"
    "length name \<le> 4095" using assms(2) by (simp_all add: openat_entry_holds_def)
  have mask: "length name AND (MAX_PATH_SIZE - 1) = length name"
    using and_mask_small[of "length name" 12] e(4) by (simp add: MAX_PATH_SIZE_def)
  have "length ?pl + length name \<le> 8192" using oa_wire.size e(4) by (simp add: wire_simps)
  then obtain m' where v: "emit_varlen h hdr ?pl name m =
      (True, emit_event h (openat_record h hdr e (opened_identity g h ret) ret name) m')"
    "\<exists>b. m' = m\<lparr>ASSEMBLY_BUF := b\<rparr>"
    unfolding openat_record_def
    by (rule emit_varlen_emits[OF assms(3,4) _ assms(6,7)]) blast
  have "sys_exit_openat g h m =
      openat_remove h (emit_event h (openat_record h hdr e (opened_identity g h ret) ret name) m')"
    using assms(1,5) v(1) e mask
    by (simp add: sys_exit_openat_def try_sys_exit_openat_def Let_def opened_identity_def[symmetric])
  then show "EVENTS (sys_exit_openat g h m) = EVENTS m @ [openat_record h hdr e (opened_identity g h ret) ret name]"
    "OPENAT_ENTRY_MAP (sys_exit_openat g h m) (k_pid_tgid h) = None"
    using v(2) assms(1,8,9)
    by (auto simp: openat_remove_def emit_event_def hash_remove_def openat_record_def EventHeader_first_byte)
qed

lemma openat_record_decodes:
  assumes "wf_EventHeader hdr" "h_kind hdr = kind_byte Openat"
    "openat_entry_holds hdr dirfd flags mode st name e" "nul_free name"
    "di_valid d \<in> {0, DEV_VALID, INO_VALID, INO_VALID OR DEV_VALID}"
    "sint (ucast ret :: 32 word) < 0 \<longrightarrow> di_valid d = 0"
  shows "\<exists>ev args. deserialize b64 (openat_record h hdr e d ret name) = Ok ev \<and> be_args ev = Some args \<and>
    be_return_code ev = Some (sint (ucast ret :: 32 word)) \<and>
    jget args ''filename'' = Some (JStr (lossy_str name)) \<and>
    jget args ''filename_status'' = Some (JStr (reported_status st name)) \<and>
    jget args ''flags'' = Some (jstrs (decode_open_flags flags)) \<and>
    jget args ''dirfd'' = Some (jsnum dirfd) \<and>
    jget args ''dev'' = (if di_valid d AND DEV_VALID \<noteq> 0 then Some (junum (di_dev d)) else None) \<and>
    jget args ''ino'' = (if di_valid d AND INO_VALID \<noteq> 0 then Some (junum (di_ino d)) else None)"
proof -
  let ?p = "openat_payload e d ret"
  have e: "unat (oe_filename_len e) = length name" "length name \<le> 4095" "oe_flags e = flags" "oe_dirfd e = dirfd"
    "oe_capture_flags e = path_flag st" using assms(3) by (simp_all add: openat_entry_holds_def)
  have mask: "length name AND (MAX_PATH_SIZE - 1) = length name"
    using and_mask_small[of "length name" 12] e(2) by (simp add: MAX_PATH_SIZE_def)
  have p: "oa_flags ?p = flags" "oa_dirfd ?p = dirfd" "oa_capture_flags ?p = path_flag st OR di_valid d"
    "oa_capture_version ?p = 1" "oa_return_code ?p = ucast ret" "oa_dev ?p = di_dev d" "oa_ino ?p = di_ino d"
    "unat (oa_filename_len ?p) = length name"
    using e mask by (simp_all add: openat_payload_def unat_of_nat_16)
  note fl = openat_flags[OF assms(5), of st]
  have good: "\<not> openat_metadata_bad ?p (length name)"
    using assms(6) fl by (simp add: openat_metadata_bad_def p)
  have sz: "length (OpenatPayload_bytes (k_pad h) ?p) = 40"
    "read_OpenatPayload (OpenatPayload_bytes (k_pad h) ?p @ name) = ?p"
    using oa_wire.size[of "k_pad h" ?p] oa_wire.round_trip[of "k_pad h" ?p name] by (simp_all add: OpenatPayload_SIZE)
  have valid: "di_valid d AND openat_identity = di_valid d" using assms(5)
    by (auto simp: openat_identity_def capture_consts)
  show ?thesis
    unfolding openat_record_def using assms(1,2,4) good sz p
    by (auto simp: deserialize_emitted[where k = Openat] parse_openat_def Let_def record_event_def
        OpenatPayload_SIZE fl openat_status_str extract_string_def lossy_str_def until_nul_free valid)
qed

section \<open>Vectored I/O\<close>

text \<open>The length of the i-th vector as the traversal sees it; an unreadable one counts nothing.\<close>

definition iov_len_at :: "Hook \<Rightarrow> 64 word \<Rightarrow> nat \<Rightarrow> 64 word" where
  "iov_len_at h iov_ptr i = (case k_umem h (iov_ptr + of_nat i * 16) 16 of
       Some bs \<Rightarrow> iov_iov_len (read_UserIovec bs)
     | None \<Rightarrow> 0)"

lemma iov_loop_step:
  "iov_loop h p t (Suc n) acc = (if unat t \<le> 8 - Suc n then acc
     else iov_loop h p t n (acc + iov_len_at h p (8 - Suc n)))"
  unfolding iov_loop.simps iov_len_at_def Let_def MAX_IOV_TRAVERSE_def
  by (simp add: UserIovec_SIZE del: of_nat_diff split: option.splits)

declare iov_loop.simps(2) [simp del]

lemma iov_loop_sum:
  assumes "n \<le> 8"
  shows "iov_loop h p t n acc = acc + (\<Sum>i \<in> {8 - n..<min 8 (unat t)}. iov_len_at h p i)"
  using assms
proof (induction n arbitrary: acc)
  case (Suc n)
  let ?i = "8 - Suc n"
  show ?case
  proof (cases "unat t \<le> ?i")
    case False
    then have "{?i..<min 8 (unat t)} = insert ?i {8 - n..<min 8 (unat t)}" using Suc.prems by auto
    then have "(\<Sum>i \<in> {?i..<min 8 (unat t)}. iov_len_at h p i) =
        iov_len_at h p ?i + (\<Sum>i \<in> {8 - n..<min 8 (unat t)}. iov_len_at h p i)"
      using Suc.prems by (simp only:) (subst sum.insert; force)
    then show ?thesis using Suc False by (simp add: iov_loop_step)
  qed (use Suc.prems in \<open>simp add: iov_loop_step\<close>)
qed simp

lemma iov_total_sum:
  "iov_total h p c = (if p = 0 then 0 else \<Sum>i < min 8 (unat c). iov_len_at h p i)"
proof -
  let ?t = "if of_nat MAX_IOV_TRAVERSE < c then of_nat MAX_IOV_TRAVERSE else ucast c :: 32 word"
  have "min 8 (unat ?t) = min 8 (unat c)"
  proof (cases "(8 :: 64 word) < c")
    case True
    then have "8 < unat c" by (simp add: word_less_nat_alt)
    then show ?thesis using True by (simp add: MAX_IOV_TRAVERSE_def)
  next
    case False
    then have "unat c \<le> 8" by (simp add: word_less_nat_alt)
    then have "unat (ucast c :: 32 word) = unat c" by (simp add: unsigned_ucast_eq take_bit_nat_eq_self)
    then show ?thesis using False by (simp add: MAX_IOV_TRAVERSE_def)
  qed
  then show ?thesis
    using iov_loop_sum[of 8 h p ?t 0] by (simp add: iov_total_def Let_def MAX_IOV_TRAVERSE_def atLeast0LessThan)
qed

section \<open>Forks during a clone\<close>

text \<open>The flags a clone passes: directly, or in the first word of \<open>clone_args\<close>.\<close>

definition clone_flags_of :: "Hook \<Rightarrow> EventKind \<Rightarrow> 64 word" where
  "clone_flags_of h kind = (if kind = Clone3 \<and> ctx_or0 h 16 \<noteq> 0
     then unwrap_or (map_option le_word (k_umem h (ctx_or0 h 16) 8)) 0 else ctx_or0 h 16)"

lemma clone_pending:
  assumes "should_trace g h1" "buffers_ok m" "k_percpu h1 ''SYSCALL_TMP_BUF'' 0"
    "k_update_error h1 ''RICH_ENTRY_MAP'' = None" "kind = Clone \<or> kind = Clone3"
    "RICH_ENTRY_MAP m2 (k_pid_tgid h2) =
       RICH_ENTRY_MAP (entry_result (try_enter_clone g h1 kind m)) (k_pid_tgid h1)"
  shows "pending_clone_flags h2 m2 = clone_flags_of h1 kind"
proof -
  have buf: "length (re_data (SYSCALL_TMP_BUF m)) = 256"
    using assms(2) by (simp add: buffers_ok_def rich_entry_ok_def)
  obtain e where "RICH_ENTRY_MAP m2 (k_pid_tgid h2) = Some e" "h_kind (re_header e) = kind_byte kind"
    "read_CloneData (re_data e) = \<lparr>cld_flags = clone_flags_of h1 kind\<rparr>"
    using assms(1,3,4,6) cld_entry.stored_back[OF _ buf]
    by (simp add: try_enter_clone_def entry_result_def rich_stash_def Let_def hash_insert_def save_in_def
        save_outcome_def count_outcome_def clone_flags_of_def)
  then show ?thesis using assms(5) by (auto simp: pending_clone_flags_def)
qed

lemma fork_emits:
  assumes "should_trace g h" "k_raw_arg h 0 \<noteq> 0" "k_raw_arg h 1 \<noteq> 0"
    "process_ref_from_task g h (k_raw_arg h 0) = Some parent" "process_ref_from_task g h (k_raw_arg h 1) = Some child"
    "read_k32 h (k_raw_arg h 1 + ucast (OFF_PID g)) = Some (kpr_tgid child)" "kpr_start_boottime_ns child \<noteq> 0"
    "\<forall>data. k_ring h data"
  shows "EVENTS (sched_process_fork g h m) = EVENTS m @
    [EventHeader_bytes (k_pad h) (fork_child_header g h (k_raw_arg h 1) parent child),
     EventHeader_bytes (k_pad h) ((get_task_info g h (kind_byte ProcessFork))\<lparr>h_pid := kpr_tgid parent,
         h_process_start_boottime_ns := kpr_start_boottime_ns parent\<rparr>)
       @ ProcessForkPayload_bytes (k_pad h) (fork_payload parent child (pending_clone_flags h m))]"
proof -
  have frame: "pending_clone_flags h (emit_fixed h hdr pl m) = pending_clone_flags h m" for hdr pl
    by (simp add: pending_clone_flags_def emit_fixed_def)
  show ?thesis
    using assms
    by (simp add: sched_process_fork_def try_process_fork_def Let_def frame)
      (simp add: emit_fixed_def emit_event_def EventHeader_first_byte)
qed

lemma process_start_decodes:
  assumes "wf_EventHeader hdr" "h_kind hdr = kind_byte ProcessStart" "h_pid hdr \<noteq> 0"
    "h_process_start_boottime_ns hdr \<noteq> 0"
  shows "\<exists>e. deserialize b64 (EventHeader_bytes pad hdr) = Ok e \<and> et_name (be_event e) = ''process_start'' \<and>
    hj_process_ref (be_header e) =
      Some \<lparr>pr_tgid = h_pid hdr, pr_start_boottime_ns = h_process_start_boottime_ns hdr\<rparr>"
  using assms deserialize_record[OF assms(1,2), of b64 pad "[]"]
    deserialize_process_record[OF assms(1), of b64 pad "[]" ProcessStart]
  by (simp add: deserialize_def parse_process_start_def event_header_json_def)

lemma process_fork_decodes:
  assumes "wf_EventHeader hdr" "h_kind hdr = kind_byte ProcessFork" "kpr_tgid child \<noteq> 0"
    "kpr_start_boottime_ns child \<noteq> 0"
  shows "\<exists>e args. deserialize b64 (EventHeader_bytes pad hdr
      @ ProcessForkPayload_bytes pad' (fork_payload parent child flags)) = Ok e \<and>
    et_name (be_event e) = ''process_fork'' \<and> be_args e = Some args \<and>
    jget args ''child_ref'' = Some (ref_json (kpr_tgid child) (kpr_start_boottime_ns child)) \<and>
    jget args ''clone_flags'' = Some (jstrs (decode_clone_flags flags))"
proof -
  let ?p = "fork_payload parent child flags"
  have "length (ProcessForkPayload_bytes pad' ?p) = 32" "read_ProcessForkPayload (ProcessForkPayload_bytes pad' ?p) = ?p"
    using pf_wire.size[of pad' ?p] pf_wire.round_trip[of pad' ?p "[]"] by (simp_all add: wire_simps)
  then show ?thesis
    using assms(1,2,3,4)
    by (simp add: deserialize_emitted[where k = ProcessFork] parse_process_fork_def Let_def record_event_def
        ProcessForkPayload_SIZE fork_payload_def)
qed

lemma process_ref_nonzero:
  "process_ref_from_task g h t = Some r \<Longrightarrow> kpr_tgid r \<noteq> 0 \<and> kpr_start_boottime_ns r \<noteq> 0"
  by (auto simp: process_ref_from_task_def Let_def split: if_splits option.splits bind_splits)

section \<open>Properties\<close>


lemma quiet_capture: "filename_capture quiet_hook a = (Complete, [0x6C, 0x73])"
  by (simp add: filename_capture_def quiet_hook_def MAX_PATH_SIZE_def)

lemma quiet_helpers:
  "k_percpu quiet_hook s n" "k_copy quiet_hook s n" "k_update_error quiet_hook s = None"
  "k_delete_error quiet_hook s = None" "\<forall>data. k_ring quiet_hook data"
  by (simp_all add: quiet_hook_def)


text \<open>
  The size a vectored read or write reports.  The traversal adds the lengths of
  the first eight vectors that can be read, modulo 2^64, and nothing else.
\<close>

theorem iov_total_exact:
  "iov_total h iov_ptr iovcnt = (if iov_ptr = 0 then 0
     else \<Sum>i < min 8 (unat iovcnt). case k_umem h (iov_ptr + of_nat i * 16) 16 of
         Some bs \<Rightarrow> iov_iov_len (read_UserIovec bs)
       | None \<Rightarrow> 0)"
  using iov_total_sum[of h iov_ptr iovcnt] by (simp add: iov_len_at_def)

text \<open>
  C23: a fork during a clone.  While a thread is between the entry and the exit of
  \<open>clone\<close> or \<open>clone3\<close>, the fork hook of that thread emits the start of the child and
  then the fork.  The start names the child's process instance; the fork names it
  too, and carries the flags of the clone that is in flight.
\<close>

theorem fork_carries_clone_flags:
  assumes clone: "should_trace g h1" "buffers_ok m" "k_percpu h1 ''SYSCALL_TMP_BUF'' 0"
      "k_update_error h1 ''RICH_ENTRY_MAP'' = None" "kind = Clone \<or> kind = Clone3"
    and frame: "RICH_ENTRY_MAP m2 (k_pid_tgid h2) =
      RICH_ENTRY_MAP (entry_result (try_enter_clone g h1 kind m)) (k_pid_tgid h1)"
    and fork: "hook_ok h2" "should_trace g h2" "k_raw_arg h2 0 \<noteq> 0" "k_raw_arg h2 1 \<noteq> 0"
      "process_ref_from_task g h2 (k_raw_arg h2 0) = Some parent"
      "process_ref_from_task g h2 (k_raw_arg h2 1) = Some child"
      "read_k32 h2 (k_raw_arg h2 1 + ucast (OFF_PID g)) = Some (kpr_tgid child)" "\<forall>data. k_ring h2 data"
  shows "\<exists>start_rec fork_rec e1 e2 args.
    EVENTS (sched_process_fork g h2 m2) = EVENTS m2 @ [start_rec, fork_rec] \<and>
    deserialize b64 start_rec = Ok e1 \<and> et_name (be_event e1) = ''process_start'' \<and>
    hj_process_ref (be_header e1) =
      Some \<lparr>pr_tgid = kpr_tgid child, pr_start_boottime_ns = kpr_start_boottime_ns child\<rparr> \<and>
    deserialize b64 fork_rec = Ok e2 \<and> et_name (be_event e2) = ''process_fork'' \<and> be_args e2 = Some args \<and>
    jget args ''child_ref'' = Some (ref_json (kpr_tgid child) (kpr_start_boottime_ns child)) \<and>
    jget args ''clone_flags'' = Some (jstrs (decode_clone_flags (clone_flags_of h1 kind)))"
proof -
  have child: "kpr_tgid child \<noteq> 0" "kpr_start_boottime_ns child \<noteq> 0"
    using process_ref_nonzero[OF fork(6)] by simp_all
  let ?sh = "fork_child_header g h2 (k_raw_arg h2 1) parent child"
  let ?fh = "(get_task_info g h2 (kind_byte ProcessFork))\<lparr>h_pid := kpr_tgid parent,
    h_process_start_boottime_ns := kpr_start_boottime_ns parent\<rparr>"
  have wf: "wf_EventHeader ?sh" "wf_EventHeader ?fh"
    using task_header_wf[OF fork(1)] get_task_info_wf[OF fork(1)] by (simp_all add: fork_child_header_def)
  have sh: "h_kind ?sh = kind_byte ProcessStart" "h_pid ?sh = kpr_tgid child"
    "h_process_start_boottime_ns ?sh = kpr_start_boottime_ns child"
    by (simp_all add: fork_child_header_def get_task_info_from_task_def Let_def)
  have flags: "pending_clone_flags h2 m2 = clone_flags_of h1 kind" by (rule clone_pending[OF clone frame])
  show ?thesis
    using fork_emits[OF fork(2-7) child(2) fork(8), of m2] flags
      process_start_decodes[OF wf(1) sh(1), of b64 "k_pad h2"] sh child
      process_fork_decodes[OF wf(2) _ child, of b64 "k_pad h2" "k_pad h2" parent "clone_flags_of h1 kind"]
    by fastforce
qed

lemma quiet_process_ref: "task \<noteq> 0 \<Longrightarrow> process_ref_from_task quiet_globals quiet_hook task =
    Some \<lparr>kpr_tgid = 0x01010101, kpr_start_boottime_ns = 0x0101010101010101, kpr_group_leader = 0x0101010101010101\<rparr>"
  by (simp add: process_ref_from_task_def Let_def read_k64_def read_k32_def quiet_hook_def le_ones)

theorem fork_carries_clone_flags_witness:
  "\<exists>start_rec fork_rec e args.
     EVENTS (sched_process_fork quiet_globals quiet_hook (sys_enter_clone quiet_globals quiet_hook empty_maps)) =
       EVENTS (sys_enter_clone quiet_globals quiet_hook empty_maps) @ [start_rec, fork_rec] \<and>
     deserialize str_of_bytes fork_rec = Ok e \<and> be_args e = Some args \<and>
     jget args ''child_ref'' = Some (ref_json 0x01010101 0x0101010101010101) \<and>
     jget args ''clone_flags'' = Some (jstrs (decode_clone_flags 16))"
proof -
  have arg: "k_raw_arg quiet_hook 0 \<noteq> 0" "k_raw_arg quiet_hook 1 \<noteq> 0" by (simp_all add: quiet_hook_def)
  have pid: "read_k32 quiet_hook a = Some 0x01010101" for a by (simp add: read_k32_def quiet_hook_def le_ones)
  have flags: "clone_flags_of quiet_hook Clone = 16" by (simp add: clone_flags_of_def)
  show ?thesis
    using fork_carries_clone_flags[OF quiet_trace empty_buffers_ok quiet_helpers(1,3), of Clone, OF _ refl
        quiet_hook_ok quiet_trace arg quiet_process_ref[OF arg(1)] quiet_process_ref[OF arg(2)] _ quiet_helpers(5),
        of str_of_bytes]
    by (fastforce simp: sys_enter_clone_def pid flags)
qed


lemma quiet_identity: "fd_to_dev_ino quiet_globals quiet_hook 16 =
    \<lparr>di_dev = 0x01010101, di_ino = 0x0101010101010101, di_valid = INO_VALID OR DEV_VALID\<rparr>"
proof -
  have k: "ident_read quiet_globals quiet_hook 4 b i = Some (0x01010101 :: 32 word)"
    "ident_read quiet_globals quiet_hook 8 b i = Some (0x0101010101010101 :: 64 word)"
    "read_k64 quiet_hook b = Some 0x0101010101010101" for b i
    by (simp_all add: ident_read_def read_k64_def quiet_hook_def le_ones)
  have p: "ident_pointer quiet_globals quiet_hook b i = Some 0x0101010101010101" for b i
    by (simp add: ident_pointer_def k)
  have t: "k_task quiet_hook \<noteq> 0" "FD_IDENT_SUPPORTED quiet_globals \<noteq> 0"
    by (simp_all add: quiet_hook_def quiet_globals_def)
  show ?thesis by (simp add: fd_to_dev_ino_def inode_for_fd_def k p t)
qed

lemma quiet_ctx32: "off < 2 ^ 32 \<Longrightarrow> ctx_u32 quiet_hook off = Some (of_nat off)"
  by (simp add: ctx_u32_def quiet_hook_def le_word_def le_nat_le_bytes)


end
