(* ===== verification/BpfHooksFacts.thy ===== *)
theory BpfHooksFacts
  imports BpfRichFacts
begin

text \<open>
  Correctness of the exit hook, of the security hooks that guard the daemon and of
  the training shell's static probe, from the kernel's view to the decoded event.
\<close>

section \<open>Headers of the hooks\<close>

lemma lsm_header_is_task_info:
  "emit_lsm_event g h kind payload m = emit_fixed h (get_task_info g h (kind_byte kind)) payload m"
  by (simp add: emit_lsm_event_def emit_fixed_def get_task_info_def fill_task_info_def zeroed_header_def)

lemma task_info_kind: "h_kind (get_task_info g h b) = b"
  by (simp add: get_task_info_def fill_task_info_def)

text \<open>A decoded record with its event name, its arguments and its return code.\<close>

definition decodes_to :: "(bytes \<Rightarrow> string) \<Rightarrow> bytes \<Rightarrow> EventHeader \<Rightarrow> string \<Rightarrow> (string \<times> json) list \<Rightarrow> int option \<Rightarrow> bool" where
  "decodes_to b64 rec hdr name args ret \<longleftrightarrow> (\<exists>e. deserialize b64 rec = Ok e \<and>
     be_header e = event_header_json hdr \<and> et_name (be_event e) = name \<and>
     be_args e = Some (JObj args) \<and> be_return_code e = ret)"

lemma decodes_toI:
  assumes "hook_ok h" "plain_kind k" "k \<noteq> ProcessStart"
    "parse_payload k b64 default_capture payload = Ok (ty, name, layer, Some (JObj args), ret)"
  shows "decodes_to b64 (EventHeader_bytes pad (get_task_info g h (kind_byte k)) @ payload)
    (get_task_info g h (kind_byte k)) name args ret"
proof -
  have c: "h_capture (get_task_info g h (kind_byte k)) = default_capture"
    by (simp add: get_task_info_def fill_task_info_def)
  show ?thesis
    unfolding decodes_to_def
    using deserialize_emitted[OF get_task_info_wf[OF assms(1)] task_info_kind, of k] assms(2-4)
    by (simp add: c record_event_def)
qed

section \<open>Security hooks\<close>

definition watched :: "Globals \<Rightarrow> Hook \<Rightarrow> bool" where
  "watched g h \<longleftrightarrow> \<not> is_daemon g h \<and> get_current_auid g h = TARGET_AUID g"

definition kill_args :: "LsmTaskKillPayload \<Rightarrow> (string \<times> json) list" where
  "kill_args tk = [(''target_pid'', junum (ltk_target_pid tk)), (''signal'', junum (ltk_signal tk))]
     @ (if ltk_target_pid tk \<noteq> 0 \<and> ltk_target_start_boottime_ns tk \<noteq> 0
        then [(''target_ref'', ref_json (ltk_target_pid tk) (ltk_target_start_boottime_ns tk))] else [])"

lemma kill_decodes:
  assumes "hook_ok h"
  shows "decodes_to b64 (EventHeader_bytes pad (get_task_info g h (kind_byte LsmTaskKill)) @ LsmTaskKillPayload_bytes pad' p)
    (get_task_info g h (kind_byte LsmTaskKill)) ''task_kill'' (kill_args p) (Some (sint (ltk_return_code p)))"
  using ltk_wire.size[of pad' p] ltk_wire.round_trip[of pad' p "[]"]
  by (intro decodes_toI[OF assms]) (simp_all add: parse_lsm_task_kill_def Let_def kill_args_def)

lemma ptrace_decodes:
  assumes "hook_ok h"
  shows "decodes_to b64 (EventHeader_bytes pad (get_task_info g h (kind_byte LsmPtraceAccessCheck)) @ LsmPtracePayload_bytes pad' p)
    (get_task_info g h (kind_byte LsmPtraceAccessCheck)) ''ptrace_access_check''
    [(''target_pid'', junum (lp_target_pid p))] (Some (sint (lp_return_code p)))"
  using lp_wire.size[of pad' p] lp_wire.round_trip[of pad' p "[]"]
  by (intro decodes_toI[OF assms]) (simp_all add: parse_lsm_ptrace_def Let_def)

definition kill_payload :: "Globals \<Rightarrow> Hook \<Rightarrow> LsmTaskKillPayload" where
  "kill_payload g h = \<lparr>ltk_target_pid = kill_target g h, ltk_signal = ucast (k_raw_arg h 2),
     ltk_target_start_boottime_ns =
       unwrap_or (map_option kpr_start_boottime_ns (process_ref_from_task g h (k_raw_arg h 0))) 0,
     ltk_return_code = (if DAEMON_PID g \<noteq> 0 \<and> kill_target g h = DAEMON_PID g then - 1 else 0)\<rparr>"

lemma task_kill_eq:
  "task_kill g h m = (if watched g h then (ltk_return_code (kill_payload g h),
      emit_event h (EventHeader_bytes (k_pad h) (get_task_info g h (kind_byte LsmTaskKill))
        @ LsmTaskKillPayload_bytes (k_pad h) (kill_payload g h)) m)
    else (0, m))"
  by (simp add: task_kill_def watched_def kill_payload_def Let_def lsm_header_is_task_info emit_fixed_def)

lemma ptrace_eq:
  "ptrace_access_check g h m =
    (if ucast (k_raw_arg h 2) \<noteq> (0 :: 32 word) then (ucast (k_raw_arg h 2), m)
     else if watched g h \<and> read_k32 h (k_raw_arg h 0 + ucast (OFF_TGID g)) = Some (DAEMON_PID g)
     then (- 1, emit_event h (EventHeader_bytes (k_pad h) (get_task_info g h (kind_byte LsmPtraceAccessCheck))
        @ LsmPtracePayload_bytes (k_pad h) \<lparr>lp_target_pid = DAEMON_PID g, lp_return_code = - 1\<rparr>) m)
     else (0, m))"
  by (auto simp: ptrace_access_check_def try_ptrace_def watched_def Let_def lsm_header_is_task_info emit_fixed_def
      split: option.splits)

section \<open>Process exit\<close>

lemma exit_decodes:
  assumes "wf_EventHeader hdr" "h_kind hdr = kind_byte ProcessExit" "h_pid hdr \<noteq> 0"
    "h_process_start_boottime_ns hdr \<noteq> 0"
  shows "\<exists>e args. deserialize b64 (EventHeader_bytes pad hdr @ ProcessExitPayload_bytes pad' \<lparr>pe_raw_status = st\<rparr>) = Ok e \<and>
    et_name (be_event e) = ''process_exit'' \<and> hj_process_ref (be_header e) =
      Some \<lparr>pr_tgid = h_pid hdr, pr_start_boottime_ns = h_process_start_boottime_ns hdr\<rparr> \<and>
    be_args e = Some args \<and> jget args ''raw_status'' = Some (jsnum st)"
proof -
  let ?p = "\<lparr>pe_raw_status = st\<rparr>"
  have "length (ProcessExitPayload_bytes pad' ?p) = ProcessExitPayload_SIZE"
    "read_ProcessExitPayload (ProcessExitPayload_bytes pad' ?p) = ?p"
    using pe_wire.size[of pad' ?p] pe_wire.round_trip[of pad' ?p "[]"] by simp_all
  then show ?thesis
    using assms
    by (simp add: deserialize_emitted[where k = ProcessExit] parse_process_exit_def Let_def record_event_def
        event_header_json_def)
qed

section \<open>Properties\<close>

text \<open>
  C10: the security hooks guard the daemon.  A signal is refused exactly when a task
  of the target user other than the daemon sends it to the daemon; an attach of a
  tracer is refused in the same case, and an earlier refusal by another security
  module is passed on.  Every refusal is on record: the hook hands one record to the
  ring, which decodes to the refused target, the signal and the return code -1.
\<close>

theorem lsm_guards_daemon:
  assumes "hook_ok h" "DAEMON_PID g \<noteq> 0"
  shows "fst (task_kill g h m) = (if watched g h \<and> kill_target g h = DAEMON_PID g then - 1 else 0) \<and>
    (if watched g h then \<exists>rec args. snd (task_kill g h m) = emit_event h rec m \<and>
        decodes_to b64 rec (get_task_info g h (kind_byte LsmTaskKill)) ''task_kill'' args
          (Some (sint (fst (task_kill g h m)))) \<and>
        jget (JObj args) ''target_pid'' = Some (junum (kill_target g h)) \<and>
        jget (JObj args) ''signal'' = Some (junum (ucast (k_raw_arg h 2) :: 32 word))
     else snd (task_kill g h m) = m) \<and>
    fst (ptrace_access_check g h m) = (if ucast (k_raw_arg h 2) \<noteq> (0 :: 32 word) then ucast (k_raw_arg h 2)
      else if watched g h \<and> read_k32 h (k_raw_arg h 0 + ucast (OFF_TGID g)) = Some (DAEMON_PID g)
      then - 1 else 0) \<and>
    (if ucast (k_raw_arg h 2) = (0 :: 32 word) \<and> watched g h \<and>
        read_k32 h (k_raw_arg h 0 + ucast (OFF_TGID g)) = Some (DAEMON_PID g)
     then \<exists>rec. snd (ptrace_access_check g h m) = emit_event h rec m \<and>
       decodes_to b64 rec (get_task_info g h (kind_byte LsmPtraceAccessCheck)) ''ptrace_access_check''
         [(''target_pid'', junum (DAEMON_PID g))] (Some (- 1))
     else snd (ptrace_access_check g h m) = m)"
proof -
  have k: "\<exists>rec args. snd (task_kill g h m) = emit_event h rec m \<and>
      decodes_to b64 rec (get_task_info g h (kind_byte LsmTaskKill)) ''task_kill'' args
        (Some (sint (fst (task_kill g h m)))) \<and>
      jget (JObj args) ''target_pid'' = Some (junum (kill_target g h)) \<and>
      jget (JObj args) ''signal'' = Some (junum (ucast (k_raw_arg h 2) :: 32 word))" if "watched g h"
    using kill_decodes[OF assms(1), of b64 "k_pad h" g "k_pad h" "kill_payload g h"] that
    by (intro exI conjI) (assumption | simp add: task_kill_eq kill_args_def kill_payload_def)+
  show ?thesis
    using k assms(2) ptrace_decodes[OF assms(1), of b64 "k_pad h" g "k_pad h" "\<lparr>lp_target_pid = DAEMON_PID g, lp_return_code = - 1\<rparr>"]
    by (auto simp: task_kill_eq kill_payload_def ptrace_eq)
qed

theorem lsm_guards_daemon_witness:
  "fst (task_kill (quiet_globals\<lparr>DAEMON_PID := 0x01010101\<rparr>) quiet_hook empty_maps) = - 1 \<and>
   fst (task_kill quiet_globals quiet_hook empty_maps) = 0"
proof -
  let ?g = "quiet_globals\<lparr>DAEMON_PID := 0x01010101\<rparr>"
  have w: "watched ?g quiet_hook" "kill_target ?g quiet_hook = 0x01010101" "kill_target quiet_globals quiet_hook = 0x01010101"
    by (simp_all add: watched_def is_daemon_def get_current_auid_def task_auid_def current_tgid_def kill_target_def
        read_k32_def quiet_hook_def quiet_globals_def le_ones)
  have d: "DAEMON_PID ?g = 0x01010101" "DAEMON_PID quiet_globals = 1" by (simp_all add: quiet_globals_def)
  show ?thesis
    using lsm_guards_daemon[OF quiet_hook_ok, of ?g empty_maps str_of_bytes]
      lsm_guards_daemon[OF quiet_hook_ok, of quiet_globals empty_maps str_of_bytes] w d by auto
qed

text \<open>
  C21: process exit end to end.  While other threads of the process live, the exit of
  a thread emits nothing.  The exit of the last thread emits one record under the
  identity of the process, not of the thread: its start time and id come from the
  group leader.  The record carries the status of the whole group when there is one
  and that of the leader otherwise, and the instance is claimed.
\<close>

theorem process_exit_end_to_end:
  assumes "hook_ok h" "should_trace g h" "k_raw_arg h 0 \<noteq> 0"
    "read_k64 h (k_raw_arg h 0 + ucast (OFF_SIGNAL g)) = Some signal" "signal \<noteq> 0"
    "read_k32 h (signal + ucast (OFF_SIGNAL_LIVE g)) = Some live"
    "process_ref_from_task g h (k_raw_arg h 0) = Some r"
    "read_k32 h (kpr_group_leader r + ucast (OFF_EXIT_CODE g)) = Some leader_status"
    "read_k32 h (signal + ucast (OFF_SIGNAL_GROUP_EXIT_CODE g)) = Some group_status"
    "EXIT_CLAIMS m (exit_claim_key (kpr_tgid r) (kpr_start_boottime_ns r)) = None"
    "k_update_error h ''EXIT_CLAIMS'' = None" "\<forall>data. k_ring h data"
  shows "if live \<noteq> 0 then EVENTS (sched_process_exit g h m) = EVENTS m
    else \<exists>rec e args. EVENTS (sched_process_exit g h m) = EVENTS m @ [rec] \<and>
      EXIT_CLAIMS (sched_process_exit g h m) (exit_claim_key (kpr_tgid r) (kpr_start_boottime_ns r)) = Some 1 \<and>
      deserialize b64 rec = Ok e \<and> et_name (be_event e) = ''process_exit'' \<and>
      hj_process_ref (be_header e) =
        Some \<lparr>pr_tgid = kpr_tgid r, pr_start_boottime_ns = kpr_start_boottime_ns r\<rparr> \<and>
      be_args e = Some args \<and>
      jget args ''raw_status'' = Some (jsnum (if group_status \<noteq> 0 then group_status else leader_status))"
proof -
  let ?st = "if group_status \<noteq> 0 then group_status else leader_status"
  let ?hdr = "(get_task_info g h (kind_byte ProcessExit))\<lparr>h_pid := kpr_tgid r,
    h_process_start_boottime_ns := kpr_start_boottime_ns r\<rparr>"
  have wf: "wf_EventHeader ?hdr" using get_task_info_wf[OF assms(1)] by simp
  have kind: "h_kind ?hdr = kind_byte ProcessExit" using task_info_kind[of g h "kind_byte ProcessExit"] by simp
  have nz: "kpr_tgid r \<noteq> 0" "kpr_start_boottime_ns r \<noteq> 0" using process_ref_nonzero[OF assms(7)] by simp_all
  have dec: "\<exists>e args. deserialize b64 (exit_record g h r ?st) = Ok e \<and> et_name (be_event e) = ''process_exit'' \<and>
      hj_process_ref (be_header e) =
        Some \<lparr>pr_tgid = kpr_tgid r, pr_start_boottime_ns = kpr_start_boottime_ns r\<rparr> \<and>
      be_args e = Some args \<and> jget args ''raw_status'' = Some (jsnum ?st)"
    using exit_decodes[OF wf kind, of b64 "k_pad h" "k_pad h" ?st] nz unfolding exit_record_def by simp
  have "sched_process_exit g h m = emit_event h (exit_record g h r ?st) ((release_invocations h m)
      \<lparr>EXIT_CLAIMS := (EXIT_CLAIMS m)(exit_claim_key (kpr_tgid r) (kpr_start_boottime_ns r) \<mapsto> 1)\<rparr>)" if "live = 0"
    using assms that
    by (simp add: sched_process_exit_def try_process_exit_def Let_def claim_exit_def hash_insert_noexist_def
        hash_insert_def claim_outcome_def select_process_exit_status_def)
  moreover have "EVENTS (sched_process_exit g h m) = EVENTS m" if "live \<noteq> 0"
    using assms that by (simp add: sched_process_exit_def try_process_exit_def Let_def)
  ultimately show ?thesis
    using dec assms(12) by (auto simp: emit_event_def exit_record_def EventHeader_first_byte)
qed

text \<open>The last thread of a process that was ended by its leader.\<close>

definition exit_hook :: Hook where
  "exit_hook = quiet_hook\<lparr>k_kmem := (\<lambda>a n. Some (replicate n (if a = 0x0101010101010105 then 0 else 1)))\<rparr>"

lemma exit_hook_ok: "hook_ok exit_hook"
  using quiet_hook_ok by (simp add: hook_ok_def exit_hook_def)

lemma exit_hook_reads:
  "a \<noteq> 0x0101010101010105 \<Longrightarrow> read_k32 exit_hook a = Some 0x01010101"
  "a \<noteq> 0x0101010101010105 \<Longrightarrow> read_k64 exit_hook a = Some 0x0101010101010101"
  "read_k32 exit_hook 0x0101010101010105 = Some 0"
  by (simp_all add: read_k32_def read_k64_def exit_hook_def le_ones) (simp add: replicate_4_8 le_word_def)

lemma exit_hook_facts:
  "should_trace quiet_globals exit_hook" "k_raw_arg exit_hook 0 = 4096" "k_update_error exit_hook s = None"
  "\<forall>data. k_ring exit_hook data"
  "process_ref_from_task quiet_globals exit_hook 4096 =
     Some \<lparr>kpr_tgid = 0x01010101, kpr_start_boottime_ns = 0x0101010101010101, kpr_group_leader = 0x0101010101010101\<rparr>"
proof -
  have "k_task exit_hook = 64" "current_tgid exit_hook = 5"
    by (simp_all add: exit_hook_def quiet_hook_def current_tgid_def)
  then show "should_trace quiet_globals exit_hook"
    by (simp add: should_trace_def get_current_auid_def task_auid_def quiet_globals_def exit_hook_reads)
  show "process_ref_from_task quiet_globals exit_hook 4096 =
     Some \<lparr>kpr_tgid = 0x01010101, kpr_start_boottime_ns = 0x0101010101010101, kpr_group_leader = 0x0101010101010101\<rparr>"
    by (simp add: process_ref_from_task_def quiet_globals_def exit_hook_reads)
qed (simp_all add: exit_hook_def quiet_hook_def)

theorem process_exit_end_to_end_witness:
  "\<exists>rec e args. EVENTS (sched_process_exit quiet_globals exit_hook empty_maps) = [rec] \<and>
     deserialize str_of_bytes rec = Ok e \<and> be_args e = Some args \<and>
     jget args ''raw_status'' = Some (jsnum (0x01010101 :: 32 word))"
proof -
  let ?r = "\<lparr>kpr_tgid = 0x01010101, kpr_start_boottime_ns = 0x0101010101010101, kpr_group_leader = 0x0101010101010101\<rparr>"
  have r: "k_raw_arg exit_hook 0 \<noteq> 0"
    "read_k64 exit_hook (k_raw_arg exit_hook 0 + ucast (OFF_SIGNAL quiet_globals)) = Some 0x0101010101010101"
    "0x0101010101010101 \<noteq> (0 :: 64 word)"
    "read_k32 exit_hook (0x0101010101010101 + ucast (OFF_SIGNAL_LIVE quiet_globals)) = Some 0"
    "process_ref_from_task quiet_globals exit_hook (k_raw_arg exit_hook 0) = Some ?r"
    "read_k32 exit_hook (kpr_group_leader ?r + ucast (OFF_EXIT_CODE quiet_globals)) = Some 0x01010101"
    "read_k32 exit_hook (0x0101010101010101 + ucast (OFF_SIGNAL_GROUP_EXIT_CODE quiet_globals)) = Some 0x01010101"
    unfolding exit_hook_facts(2,5) by (simp_all add: quiet_globals_def exit_hook_reads)
  have e: "EVENTS empty_maps = []" "EXIT_CLAIMS empty_maps k = None" for k by (simp_all add: empty_maps_def)
  show ?thesis
    using process_exit_end_to_end[OF exit_hook_ok exit_hook_facts(1) r e(2) exit_hook_facts(3,4), of str_of_bytes]
    unfolding e by auto
qed

text \<open>The two records of the shell probe.\<close>

definition shell_payload :: "Hook \<Rightarrow> 32 word \<Rightarrow> bytes \<Rightarrow> UsdtTrainingShellPayload" where
  "shell_payload h i name =
     \<lparr>ush_attach_point_id = i, ush_shell_pid = ucast (unwrap_or (k_probe_arg h 0) 0),
      ush_command_id = unwrap_or (k_probe_arg h 1) 0,
      ush_command_kind = ucast (unwrap_or (k_probe_arg h 2) (- 1)),
      ush_semantic_flags = ucast (unwrap_or (k_probe_arg h 4) 0),
      ush_exit_status = ucast (unwrap_or (k_probe_arg h 5) 0),
      ush_command_name_len = of_nat (length name),
      ush_command_name_truncated = (if length name = COMMAND_NAME_LIMIT - 1 then 1 else 0)\<rparr>"

definition shell_record :: "Globals \<Rightarrow> Hook \<Rightarrow> 32 word \<Rightarrow> bytes \<Rightarrow> bytes" where
  "shell_record g h i name = EventHeader_bytes (k_pad h) (get_task_info g h (kind_byte UsdtTrainingShellV3))
     @ UsdtTrainingShellPayload_bytes (k_pad h) (shell_payload h i name) @ name"

lemma shell_emits:
  assumes "hook_ok h" "should_trace g h" "buffers_ok m" "k_percpu h ''ASSEMBLY_BUF'' 0" "\<forall>data. k_ring h data"
    "k_probe_arg h 3 = Some p" "p \<noteq> 0" "k_ustr h p 64 = Some name"
  shows "EVENTS (usdt_training_shell i g h m) = EVENTS m @ [shell_record g h i name]"
proof -
  let ?hd = "EventHeader_bytes (k_pad h) (get_task_info g h (kind_byte UsdtTrainingShellV3))"
  let ?pl = "UsdtTrainingShellPayload_bytes (k_pad h) (shell_payload h i name)"
  have small: "length name < 64" using assms(1,8) by (auto simp: hook_ok_def)
  have sz: "length ?hd = 96" "length ?pl = UsdtTrainingShellPayload_SIZE"
    using h_wire.size[OF get_task_info_wf[OF assms(1)]] ush_wire.size by (simp_all add: wire_simps)
  have buf: "length (ASSEMBLY_BUF m) = 8448"
    using assms(3) by (simp add: buffers_ok_def ASSEMBLY_BUF_SIZE_def MAX_PATH_SIZE_def)
  let ?out = "write_at (EventHeader_SIZE + UsdtTrainingShellPayload_SIZE) name
    (write_at EventHeader_SIZE ?pl (write_at 0 ?hd (ASSEMBLY_BUF m)))"
  have out: "take (EventHeader_SIZE + UsdtTrainingShellPayload_SIZE + length name) ?out = shell_record g h i name"
    using sz buf small by (simp add: write_at_def wire_simps shell_record_def)
  have "usdt_training_shell i g h m =
      emit_event h (take (EventHeader_SIZE + UsdtTrainingShellPayload_SIZE + length name) ?out) (m\<lparr>ASSEMBLY_BUF := ?out\<rparr>)"
    using assms(2,4,6-8) buf small
    by (simp add: usdt_training_shell_def emit_shell_def Let_def COMMAND_NAME_LIMIT_def shell_payload_def wire_simps)
  then show ?thesis
    unfolding out using assms(5) by (simp add: emit_event_def shell_record_def EventHeader_first_byte)
qed

definition shell_args :: "(bytes \<Rightarrow> string) \<Rightarrow> UsdtTrainingShellPayload \<Rightarrow> bytes \<Rightarrow> (string \<times> json) list" where
  "shell_args b64 fixed name =
     [(''attach_point_id'', junum (ush_attach_point_id fixed)),
      (''shell_pid'', junum (ush_shell_pid fixed)),
      (''command_id'', junum (ush_command_id fixed)),
      (''command_kind'', JStr (command_kind_str (ush_command_kind fixed))),
      (''command_name'', JObj [(''value'', JStr (str_of_bytes name)), (''capture_limit'', JNum 64),
         (''truncated'', JBool (length name = 63))]),
      (''command_name_bytes'', JObj [(''base64'', JStr (b64 name)), (''capture_limit'', JNum 64),
         (''observed_length'', junum (ush_command_name_len fixed)), (''truncated'', JBool (length name = 63))]),
      (''semantic_flags'', jstrs (if ush_semantic_flags fixed AND 1 \<noteq> 0 then [''SELF_PID_EXPANDED''] else [])),
      (''exit_status'', jsnum (ush_exit_status fixed))]"

lemma shell_decodes:
  assumes "hook_ok h" "length name < 64"
  shows "if valid_utf8 name then \<exists>args.
      decodes_to b64 (shell_record g h i name) (get_task_info g h (kind_byte UsdtTrainingShellV3))
        ''abyss0_shell.simple_command_completed'' args None \<and>
      jget (JObj args) ''attach_point_id'' = Some (junum i) \<and>
      jget (JObj args) ''shell_pid'' = Some (junum (ucast (unwrap_or (k_probe_arg h 0) 0) :: 32 word)) \<and>
      jget (JObj args) ''command_id'' = Some (junum (unwrap_or (k_probe_arg h 1) 0)) \<and>
      jget (JObj args) ''command_name'' = Some (JObj [(''value'', JStr (str_of_bytes name)),
        (''capture_limit'', JNum 64), (''truncated'', JBool (length name = 63))])
    else deserialize b64 (shell_record g h i name) = Err ''USDT command-name is not UTF-8''"
proof -
  let ?p = "shell_payload h i name"
  let ?data = "UsdtTrainingShellPayload_bytes (k_pad h) ?p @ name"
  have len: "unat (ush_command_name_len ?p) = length name" "ush_command_name_truncated ?p \<le> 1"
    "(ush_command_name_truncated ?p \<noteq> 0) = (length name = 63)"
    using assms(2) by (simp_all add: shell_payload_def unat_of_nat_16 COMMAND_NAME_LIMIT_def)
  have rd: "length ?data = UsdtTrainingShellPayload_SIZE + length name" "read_UsdtTrainingShellPayload ?data = ?p"
    "drop UsdtTrainingShellPayload_SIZE ?data = name"
    using ush_wire.size[of "k_pad h" ?p] ush_wire.round_trip[of "k_pad h" ?p name] by simp_all
  have parse: "parse_payload UsdtTrainingShellV3 b64 default_capture ?data = (if valid_utf8 name
      then Ok (''USDT'', ''abyss0_shell.simple_command_completed'', ''behavior'', Some (JObj (shell_args b64 ?p name)), None)
      else Err ''USDT command-name is not UTF-8'')"
    unfolding parse_payload.simps decode_payload_def decode_training_shell_payload_def Let_def rd len shell_args_def
    using assms(2) len(2) by (simp add: TRAINING_SHELL_COMMAND_NAME_LIMIT_def not_less)
  show ?thesis
  proof (cases "valid_utf8 name")
    case True
    then show ?thesis
      using decodes_toI[OF assms(1) _ _ parse[simplified True if_True], of "k_pad h" g]
      by (intro if_P[THEN iffD2] exI[of _ "shell_args b64 ?p name"])
        (simp_all add: shell_record_def shell_args_def shell_payload_def COMMAND_NAME_LIMIT_def)
  next
    case False
    have "h_capture (get_task_info g h b) = default_capture" for b
      by (simp add: get_task_info_def fill_task_info_def)
    then show ?thesis
      using False parse deserialize_emitted[OF get_task_info_wf[OF assms(1)] task_info_kind, of UsdtTrainingShellV3]
      by (simp add: shell_record_def)
  qed
qed

lemma shell_error_decodes:
  assumes "hook_ok h"
  shows "\<exists>args. decodes_to b64 (EventHeader_bytes (k_pad h) (get_task_info g h (kind_byte UsdtTrainingShellV3CaptureError))
      @ UsdtTrainingShellCaptureErrorPayload_bytes (k_pad h)
          \<lparr>uce_attach_point_id = i, uce_field_id = 3, uce_read_error_code = 1\<rparr>)
      (get_task_info g h (kind_byte UsdtTrainingShellV3CaptureError)) ''usdt.collector'' args None \<and>
    jget (JObj args) ''attach_point_id'' = Some (junum i) \<and>
    jget (JObj args) ''read_error_code'' = Some (JStr ''unreadable_user_memory'')"
proof -
  let ?p = "\<lparr>uce_attach_point_id = i, uce_field_id = 3, uce_read_error_code = 1\<rparr>"
  let ?data = "UsdtTrainingShellCaptureErrorPayload_bytes (k_pad h) ?p"
  obtain ty layer args where p: "parse_payload UsdtTrainingShellV3CaptureError b64 default_capture ?data =
      Ok (ty, ''usdt.collector'', layer, Some (JObj args), None)"
    "jget (JObj args) ''attach_point_id'' = Some (junum i)"
    "jget (JObj args) ''read_error_code'' = Some (JStr ''unreadable_user_memory'')"
    using uce_wire.size[of "k_pad h" ?p] uce_wire.round_trip[of "k_pad h" ?p "[]"]
    by (simp add: decode_payload_def decode_training_shell_capture_error_def Let_def)
  then show ?thesis using decodes_toI[OF assms _ _ p(1)] by auto
qed

text \<open>
  C32: the training shell's probe end to end.  A probe whose command name can be read
  hands one record to the ring, whatever the assembly buffer held; it decodes to the
  attach point, the shell, the command and the name, and says that the name may be
  cut exactly when it fills the capture.  A name that is not UTF-8 is rejected by the
  decoder; a name that cannot be read is reported as a capture error.
\<close>

theorem usdt_shell_end_to_end:
  assumes "hook_ok h" "should_trace g h" "buffers_ok m" "k_percpu h ''ASSEMBLY_BUF'' 0" "\<forall>data. k_ring h data"
    "k_probe_arg h 0 = Some shell" "k_probe_arg h 1 = Some command" "k_probe_arg h 3 = Some p"
  shows "\<exists>rec. EVENTS (usdt_training_shell i g h m) = EVENTS m @ [rec] \<and>
    (case (if p = 0 then None else k_ustr h p 64) of
        Some name \<Rightarrow>
          if valid_utf8 name then \<exists>args.
            decodes_to b64 rec (get_task_info g h (kind_byte UsdtTrainingShellV3))
              ''abyss0_shell.simple_command_completed'' args None \<and>
            jget (JObj args) ''attach_point_id'' = Some (junum i) \<and>
            jget (JObj args) ''shell_pid'' = Some (junum (ucast shell :: 32 word)) \<and>
            jget (JObj args) ''command_id'' = Some (junum command) \<and>
            jget (JObj args) ''command_name'' = Some (JObj [(''value'', JStr (str_of_bytes name)),
              (''capture_limit'', JNum 64), (''truncated'', JBool (length name = 63))])
          else deserialize b64 rec = Err ''USDT command-name is not UTF-8''
      | None \<Rightarrow> \<exists>args.
            decodes_to b64 rec (get_task_info g h (kind_byte UsdtTrainingShellV3CaptureError))
              ''usdt.collector'' args None \<and>
            jget (JObj args) ''attach_point_id'' = Some (junum i) \<and>
            jget (JObj args) ''read_error_code'' = Some (JStr ''unreadable_user_memory''))"
proof (cases "if p = 0 then None else k_ustr h p 64")
  case None
  let ?rec = "EventHeader_bytes (k_pad h) (get_task_info g h (kind_byte UsdtTrainingShellV3CaptureError))
      @ UsdtTrainingShellCaptureErrorPayload_bytes (k_pad h)
          \<lparr>uce_attach_point_id = i, uce_field_id = 3, uce_read_error_code = 1\<rparr>"
  have "usdt_training_shell i g h m = emit_shell_capture_error g h i 3 1 m"
    using None assms(2,8) by (auto simp: usdt_training_shell_def emit_shell_def COMMAND_NAME_LIMIT_def split: if_splits)
  then have "EVENTS (usdt_training_shell i g h m) = EVENTS m @ [?rec]"
    using assms(5) by (simp add: emit_shell_capture_error_def emit_event_def EventHeader_first_byte)
  then show ?thesis
    unfolding None option.case using shell_error_decodes[OF assms(1), of b64 g i] by blast
next
  case (Some name)
  then have p: "p \<noteq> 0" "k_ustr h p 64 = Some name" by (simp_all split: if_splits)
  then have "length name < 64" using assms(1) by (auto simp: hook_ok_def)
  then show ?thesis
    unfolding Some option.case
    using shell_emits[OF assms(1-5,8) p, of i] shell_decodes[OF assms(1), of name b64 g i]
    unfolding assms(6,7) unwrap_or_simps by blast
qed

theorem usdt_shell_end_to_end_witness:
  "\<exists>rec args. EVENTS (usdt_training_shell 3 quiet_globals quiet_hook empty_maps) = EVENTS empty_maps @ [rec] \<and>
     decodes_to str_of_bytes rec (get_task_info quiet_globals quiet_hook (kind_byte UsdtTrainingShellV3))
       ''abyss0_shell.simple_command_completed'' args None \<and>
     jget (JObj args) ''attach_point_id'' = Some (junum (3 :: 32 word))"
proof -
  have a: "k_probe_arg quiet_hook 0 = Some 2" "k_probe_arg quiet_hook 1 = Some 3" "k_probe_arg quiet_hook 3 = Some 5"
    "k_ustr quiet_hook 5 64 = Some [0x6C, 0x73]" "valid_utf8 [0x6C, 0x73]"
    by (simp_all add: quiet_hook_def) code_simp
  show ?thesis
    using usdt_shell_end_to_end[OF quiet_hook_ok quiet_trace empty_buffers_ok quiet_helpers(1,5) a(1-3), of 3 str_of_bytes]
      a(4,5) by auto
qed

end
