(* ===== verification/BpfPrograms.thy ===== *)
theory BpfPrograms
  imports BpfHooksFacts
begin

text \<open>
  The object file as a whole: the table of its programs by the name under which the
  loader attaches them, histories of program runs, and what holds after every history.
\<close>

section \<open>The programs of the object\<close>

type_synonym program = "Globals \<Rightarrow> Hook \<Rightarrow> Maps \<Rightarrow> Maps"

definition core_programs :: "(string \<times> program) list" where
  "core_programs =
    [(''raw_sys_enter'', raw_sys_enter), (''raw_sys_exit'', \<lambda>_. raw_sys_exit),
    (''sched_process_fork'', sched_process_fork), (''sched_process_exit'', sched_process_exit),
    (''sched_process_free'', sched_process_free), (''signal_generate'', signal_generate),
    (''tty_write_probe'', tty_write_probe), (''tty_read_probe'', tty_read_probe),
    (''tty_read_ret_probe'', tty_read_ret_probe), (''sys_enter_execve'', sys_enter_execve),
    (''sys_exit_execve'', \<lambda>_. sys_exit_execve), (''sys_enter_execveat'', sys_enter_execveat),
    (''sys_exit_execveat'', \<lambda>_. sys_exit_execveat)]"

definition rich_programs :: "(string \<times> program) list" where
  "rich_programs =
    [(''sys_enter_openat'', sys_enter_openat), (''sys_exit_openat'', sys_exit_openat),
    (''sys_enter_read'', sys_enter_read), (''sys_exit_read'', \<lambda>_. sys_exit_read),
    (''sys_enter_write'', sys_enter_write), (''sys_exit_write'', \<lambda>_. sys_exit_write),
    (''sys_enter_connect'', sys_enter_connect), (''sys_exit_connect'', \<lambda>_. sys_exit_connect),
    (''sys_enter_bind'', sys_enter_bind), (''sys_exit_bind'', \<lambda>_. sys_exit_bind),
    (''sys_enter_listen'', sys_enter_listen), (''sys_exit_listen'', \<lambda>_. sys_exit_listen),
    (''sys_enter_socket'', sys_enter_socket), (''sys_exit_socket'', \<lambda>_. sys_exit_socket),
    (''sys_enter_clone'', sys_enter_clone), (''sys_exit_clone'', \<lambda>_. sys_exit_clone),
    (''sys_enter_clone3'', sys_enter_clone3), (''sys_exit_clone3'', \<lambda>_. sys_exit_clone3),
    (''sys_enter_chdir'', sys_enter_chdir), (''sys_exit_chdir'', \<lambda>_. sys_exit_chdir),
    (''sys_enter_fchdir'', sys_enter_fchdir), (''sys_exit_fchdir'', \<lambda>_. sys_exit_fchdir),
    (''sys_enter_unlink'', sys_enter_unlink), (''sys_exit_unlink'', \<lambda>_. sys_exit_unlink),
    (''sys_enter_unlinkat'', sys_enter_unlinkat),
    (''sys_exit_unlinkat'', \<lambda>_. sys_exit_unlinkat), (''sys_enter_rename'', sys_enter_rename),
    (''sys_exit_rename'', \<lambda>_. sys_exit_rename), (''sys_enter_renameat2'', sys_enter_renameat2),
    (''sys_exit_renameat2'', \<lambda>_. sys_exit_renameat2), (''sys_enter_mkdir'', sys_enter_mkdir),
    (''sys_exit_mkdir'', \<lambda>_. sys_exit_mkdir), (''sys_enter_mkdirat'', sys_enter_mkdirat),
    (''sys_exit_mkdirat'', \<lambda>_. sys_exit_mkdirat), (''sys_enter_rmdir'', sys_enter_rmdir),
    (''sys_exit_rmdir'', \<lambda>_. sys_exit_rmdir), (''sys_enter_symlink'', sys_enter_symlink),
    (''sys_exit_symlink'', \<lambda>_. sys_exit_symlink),
    (''sys_enter_symlinkat'', sys_enter_symlinkat),
    (''sys_exit_symlinkat'', \<lambda>_. sys_exit_symlinkat), (''sys_enter_link'', sys_enter_link),
    (''sys_exit_link'', \<lambda>_. sys_exit_link), (''sys_enter_linkat'', sys_enter_linkat),
    (''sys_exit_linkat'', \<lambda>_. sys_exit_linkat), (''sys_enter_chmod'', sys_enter_chmod),
    (''sys_exit_chmod'', \<lambda>_. sys_exit_chmod), (''sys_enter_fchmod'', sys_enter_fchmod),
    (''sys_exit_fchmod'', \<lambda>_. sys_exit_fchmod), (''sys_enter_fchmodat'', sys_enter_fchmodat),
    (''sys_exit_fchmodat'', \<lambda>_. sys_exit_fchmodat), (''sys_enter_chown'', sys_enter_chown),
    (''sys_exit_chown'', \<lambda>_. sys_exit_chown), (''sys_enter_fchown'', sys_enter_fchown),
    (''sys_exit_fchown'', \<lambda>_. sys_exit_fchown), (''sys_enter_fchownat'', sys_enter_fchownat),
    (''sys_exit_fchownat'', \<lambda>_. sys_exit_fchownat),
    (''sys_enter_truncate'', sys_enter_truncate),
    (''sys_exit_truncate'', \<lambda>_. sys_exit_truncate),
    (''sys_enter_ftruncate'', sys_enter_ftruncate),
    (''sys_exit_ftruncate'', \<lambda>_. sys_exit_ftruncate), (''sys_enter_mount'', sys_enter_mount),
    (''sys_exit_mount'', \<lambda>_. sys_exit_mount), (''sys_enter_umount2'', sys_enter_umount2),
    (''sys_exit_umount2'', \<lambda>_. sys_exit_umount2), (''sys_enter_sendto'', sys_enter_sendto),
    (''sys_exit_sendto'', \<lambda>_. sys_exit_sendto), (''sys_enter_recvfrom'', sys_enter_recvfrom),
    (''sys_exit_recvfrom'', \<lambda>_. sys_exit_recvfrom), (''sys_enter_dup'', sys_enter_dup),
    (''sys_exit_dup'', \<lambda>_. sys_exit_dup), (''sys_enter_dup2'', sys_enter_dup2),
    (''sys_exit_dup2'', \<lambda>_. sys_exit_dup2), (''sys_enter_dup3'', sys_enter_dup3),
    (''sys_exit_dup3'', \<lambda>_. sys_exit_dup3), (''sys_enter_pread64'', sys_enter_pread64),
    (''sys_exit_pread64'', \<lambda>_. sys_exit_pread64), (''sys_enter_pwrite64'', sys_enter_pwrite64),
    (''sys_exit_pwrite64'', \<lambda>_. sys_exit_pwrite64), (''sys_enter_readv'', sys_enter_readv),
    (''sys_exit_readv'', \<lambda>_. sys_exit_readv), (''sys_enter_writev'', sys_enter_writev),
    (''sys_exit_writev'', \<lambda>_. sys_exit_writev), (''sys_enter_mmap'', sys_enter_mmap),
    (''sys_exit_mmap'', sys_exit_mmap), (''sys_enter_fcntl'', sys_enter_fcntl),
    (''sys_exit_fcntl'', \<lambda>_. sys_exit_fcntl), (''sys_enter_sendfile'', sys_enter_sendfile),
    (''sys_exit_sendfile'', \<lambda>_. sys_exit_sendfile), (''sys_enter_splice'', sys_enter_splice),
    (''sys_exit_splice'', \<lambda>_. sys_exit_splice)]"

text \<open>The state part of the security hooks; their decision is the subject of its own property.\<close>

definition lsm_programs :: "(string \<times> program) list" where
  "lsm_programs =
    [(''task_kill'', \<lambda>g h m. snd (task_kill g h m)),
    (''bpf_hook'', \<lambda>g h m. snd (bpf_hook g h m)),
    (''ptrace_access_check'', \<lambda>g h m. snd (ptrace_access_check g h m)),
    (''file_open'', \<lambda>g h m. snd (file_open g h m)),
    (''inode_unlink'', \<lambda>g h m. snd (inode_unlink g h m)),
    (''inode_rename'', \<lambda>g h m. snd (inode_rename g h m)),
    (''task_fix_setuid'', \<lambda>g h m. snd (task_fix_setuid g h m))]"

definition usdt_programs :: "(string \<times> program) list" where
  "usdt_programs =
    [(''usdt_training_shell_v3_0'', usdt_training_shell 0),
    (''usdt_training_shell_v3_1'', usdt_training_shell 1),
    (''usdt_training_shell_v3_2'', usdt_training_shell 2),
    (''usdt_training_shell_v3_3'', usdt_training_shell 3),
    (''usdt_training_shell_v3_4'', usdt_training_shell 4),
    (''usdt_training_shell_v3_5'', usdt_training_shell 5),
    (''usdt_training_shell_v3_6'', usdt_training_shell 6),
    (''usdt_training_shell_v3_7'', usdt_training_shell 7),
    (''usdt_training_peer_v1_0'', usdt_training_peer 0),
    (''usdt_training_peer_v1_1'', usdt_training_peer 1),
    (''usdt_training_peer_v1_2'', usdt_training_peer 2),
    (''usdt_training_peer_v1_3'', usdt_training_peer 3),
    (''usdt_training_peer_v1_4'', usdt_training_peer 4),
    (''usdt_training_peer_v1_5'', usdt_training_peer 5),
    (''usdt_training_peer_v1_6'', usdt_training_peer 6),
    (''usdt_training_peer_v1_7'', usdt_training_peer 7)]"

definition programs :: "(string \<times> program) list" where
  "programs = core_programs @ rich_programs @ lsm_programs @ usdt_programs"

text \<open>
  A history: the programs that ran, each to its end, with the kernel state each of
  them saw, and the maps it left.
\<close>

inductive history :: "Globals \<Rightarrow> Maps \<Rightarrow> (string \<times> Hook) list \<Rightarrow> Maps \<Rightarrow> bool" for g m0 where
  loaded: "history g m0 [] m0"
| ran: "history g m0 runs m \<Longrightarrow> (name, p) \<in> set programs \<Longrightarrow> hook_ok h \<Longrightarrow>
    history g m0 (runs @ [(name, h)]) (p g h m)"

section \<open>Every program but the exit hooks is quiet\<close>

lemmas rich_program_defs =
  sys_enter_read_def sys_exit_read_def sys_enter_write_def sys_exit_write_def sys_enter_connect_def
  sys_exit_connect_def sys_enter_bind_def sys_exit_bind_def sys_enter_listen_def sys_exit_listen_def
  sys_enter_socket_def sys_exit_socket_def sys_enter_clone_def sys_enter_clone3_def sys_exit_clone_def
  sys_exit_clone3_def sys_enter_chdir_def sys_exit_chdir_def sys_enter_fchdir_def sys_exit_fchdir_def
  sys_enter_unlink_def sys_exit_unlink_def sys_enter_unlinkat_def sys_exit_unlinkat_def sys_enter_rmdir_def
  sys_exit_rmdir_def sys_enter_mkdir_def sys_exit_mkdir_def sys_enter_mkdirat_def sys_exit_mkdirat_def
  sys_enter_symlink_def sys_exit_symlink_def sys_enter_symlinkat_def sys_exit_symlinkat_def
  sys_enter_link_def sys_exit_link_def sys_enter_linkat_def sys_exit_linkat_def sys_enter_rename_def
  sys_exit_rename_def sys_enter_renameat2_def sys_exit_renameat2_def sys_enter_chmod_def sys_exit_chmod_def
  sys_enter_fchmod_def sys_exit_fchmod_def sys_enter_fchmodat_def sys_exit_fchmodat_def sys_enter_chown_def
  sys_exit_chown_def sys_enter_fchown_def sys_exit_fchown_def sys_enter_fchownat_def sys_exit_fchownat_def
  sys_enter_truncate_def sys_exit_truncate_def sys_enter_ftruncate_def sys_exit_ftruncate_def
  sys_enter_mount_def sys_exit_mount_def sys_enter_umount2_def sys_exit_umount2_def sys_enter_sendto_def
  sys_exit_sendto_def sys_enter_recvfrom_def sys_exit_recvfrom_def sys_enter_dup_def sys_exit_dup_def
  sys_enter_dup2_def sys_exit_dup2_def sys_enter_dup3_def sys_exit_dup3_def sys_enter_fcntl_def
  sys_exit_fcntl_def sys_enter_pread64_def sys_exit_pread64_def sys_enter_pwrite64_def
  sys_exit_pwrite64_def sys_enter_readv_def sys_exit_readv_def sys_enter_writev_def sys_exit_writev_def
  sys_enter_mmap_def sys_exit_mmap_def sys_enter_sendfile_def sys_exit_sendfile_def sys_enter_splice_def
  sys_exit_splice_def

lemma quiet_rich_programs:
  assumes "hook_ok h" "(name, p) \<in> set rich_programs"
  shows "quiet m (p g h m)"
proof -
  have exits: "quiet m (snd (try_sys_exit_rw h m))" "quiet m (snd (try_sys_exit_sockaddr h m))"
    "quiet m (snd (try_exit_listen h m))" "quiet m (snd (try_exit_socket h m))" "quiet m (snd (try_exit_clone h m))"
    "quiet m (snd (try_exit_fd h m))" "quiet m (snd (try_exit_sendto_recvfrom h m))"
    "quiet m (snd (try_exit_dup_family h m))" "quiet m (snd (try_exit_prw h m))" "quiet m (snd (try_exit_rwv h m))"
    "quiet m (snd (try_exit_mmap g h m))" "quiet m (snd (try_exit_sendfile_splice h m))"
    unfolding try_sys_exit_rw_def try_sys_exit_sockaddr_def try_exit_listen_def try_exit_socket_def
      try_exit_clone_def try_exit_fd_def try_exit_sendto_recvfrom_def try_exit_dup_family_def try_exit_prw_def
      try_exit_rwv_def try_exit_mmap_def try_exit_sendfile_splice_def
    by (rule quiet_rich_exit)+
  have "list_all (\<lambda>(name, p). quiet m (p g h m)) rich_programs"
    unfolding rich_programs_def rich_program_defs
    by (simp add: quiet_entry_result quiet_exit_result exits quiet_path_exit quiet_two_path_exit
        quiet_generic_enters[OF assms(1)] quiet_sockaddr_enters[OF assms(1)] quiet_path_enters[OF assms(1)]
        try_enter_path_def try_enter_at_path_def quiet_openat_enter[OF assms(1)] quiet_openat_exit
        del: kind_byte.simps)
  then show ?thesis using assms(2) by (auto simp: list_all_iff)
qed

lemma quiet_programs:
  assumes "hook_ok h" "(name, p) \<in> set programs" "name \<noteq> ''sched_process_exit''" "name \<noteq> ''sched_process_free''"
  shows "quiet m (p g h m)"
proof -
  have "list_all (\<lambda>(name, p). name \<noteq> ''sched_process_exit'' \<longrightarrow> name \<noteq> ''sched_process_free'' \<longrightarrow>
      quiet m (p g h m)) core_programs"
    by (simp add: core_programs_def quiet_raw_enter quiet_raw_exit quiet_fork quiet_signal quiet_tty
        quiet_exec_enter quiet_exec_exit assms(1))
  moreover have "list_all (\<lambda>(name, p). quiet m (p g h m)) lsm_programs"
    by (simp add: lsm_programs_def quiet_lsm assms(1))
  moreover have "list_all (\<lambda>(name, p). quiet m (p g h m)) usdt_programs"
    by (simp add: usdt_programs_def quiet_usdt assms(1))
  ultimately show ?thesis
    using assms quiet_rich_programs[OF assms(1)] by (auto simp: programs_def list_all_iff)
qed

lemma table_exit_programs:
  "(''sched_process_exit'', p) \<in> set programs \<longleftrightarrow> p = sched_process_exit"
  "(''sched_process_free'', p) \<in> set programs \<longleftrightarrow> p = sched_process_free"
  by (auto simp: programs_def core_programs_def rich_programs_def lsm_programs_def usdt_programs_def)

section \<open>The exit hooks\<close>

lemma free_step:
  "maps_ok m \<Longrightarrow> maps_ok (sched_process_free g h m)"
  "EVENTS (sched_process_free g h m) = EVENTS m"
  by (auto simp: sched_process_free_def try_process_free_def maps_ok_def entries_ok_def
      split: sum.splits prod.splits option.splits)

text \<open>The process instance whose claim a run of the free hook gives up.\<close>

definition freed_instance :: "Globals \<Rightarrow> Hook \<Rightarrow> (32 word \<times> 64 word) option" where
  "freed_instance g h = (case freed_ids g h of
       Inl _ \<Rightarrow> None
     | Inr (pid, tgid) \<Rightarrow> if pid = tgid then map_option (Pair tgid) (read_k64 h (k_raw_arg h 0 + ucast (OFF_START_BOOTTIME g)))
                        else None)"

lemma free_keeps_claim:
  assumes "freed_instance g h \<noteq> Some (tgid, start)"
  shows "EXIT_CLAIMS (sched_process_free g h m) (exit_claim_key tgid start) =
    EXIT_CLAIMS m (exit_claim_key tgid start)"
  using assms
  by (auto simp: sched_process_free_def try_process_free_def freed_instance_def for_freed_task_def hash_remove_def
      split: sum.splits prod.splits option.splits if_splits)

lemma exit_step:
  assumes "hook_ok h"
  obtains "quiet m (sched_process_exit g h m)"
  | r st where "EXIT_CLAIMS m (exit_claim_key (kpr_tgid r) (kpr_start_boottime_ns r)) = None"
      "EXIT_CLAIMS (sched_process_exit g h m) =
         (EXIT_CLAIMS m)(exit_claim_key (kpr_tgid r) (kpr_start_boottime_ns r) \<mapsto> 1)"
      "EVENTS (sched_process_exit g h m) = EVENTS m \<or>
       EVENTS (sched_process_exit g h m) = EVENTS m @ [exit_record g h r st]"
      "maps_ok m \<Longrightarrow> maps_ok (sched_process_exit g h m)"
proof -
  let ?m = "release_invocations h m"
  have rel: "quiet m ?m" by (rule quiet_release)
  have claimed: "quiet m (?m\<lparr>EXIT_CLAIMS := EXIT_CLAIMS m\<rparr>)"
  proof -
    have "?m\<lparr>EXIT_CLAIMS := EXIT_CLAIMS m\<rparr> = ?m" by (rule Maps.equality) simp_all
    then show ?thesis using rel by (simp only:)
  qed
  have ok: "maps_ok (?m\<lparr>EXIT_CLAIMS := x\<rparr>)" if "maps_ok m" for x
    using quiet_keeps[OF rel that] by (simp add: maps_ok_def entries_ok_def)
  have ok_emit: "maps_ok (emit_event h d (?m\<lparr>EXIT_CLAIMS := x\<rparr>))" if "maps_ok m" for d x
    using ok[OF that, of x] by (simp add: maps_ok_def entries_ok_def emit_event_def increment_drop_count_def)
  have "quiet m (sched_process_exit g h m) \<or> (\<exists>r st. sched_process_exit g h m = claim_exit g h r st ?m)"
    using rel
    by (auto simp: sched_process_exit_def try_process_exit_def Let_def intro: quiet_failure split: option.splits)
  then consider (same) "quiet m (sched_process_exit g h m)"
    | (claim) r st where "sched_process_exit g h m = claim_exit g h r st ?m" by blast
  then show thesis
  proof cases
    case same
    then show thesis by (rule that(1))
  next
    case (claim r st)
    let ?k = "exit_claim_key (kpr_tgid r) (kpr_start_boottime_ns r)"
    show thesis
    proof (cases "EXIT_CLAIMS m ?k = None \<and> k_update_error h ''EXIT_CLAIMS'' = None")
      case True
      then have s: "sched_process_exit g h m =
          emit_event h (exit_record g h r st) (?m\<lparr>EXIT_CLAIMS := (EXIT_CLAIMS m)(?k \<mapsto> 1)\<rparr>)"
        by (simp add: claim claim_exit_def hash_insert_noexist_def hash_insert_def claim_outcome_def)
      show thesis
        by (rule that(2)[of r st])
          (use True ok_emit emit_event_events[of h "exit_record g h r st" "?m\<lparr>EXIT_CLAIMS := (EXIT_CLAIMS m)(?k \<mapsto> 1)\<rparr>"]
            in \<open>auto simp: s\<close>)
    next
      case False
      then have "quiet m (claim_exit g h r st ?m)"
        using claimed by (auto simp: claim_exit_def hash_insert_noexist_def hash_insert_def claim_outcome_def
            intro: quiet_failure split: option.splits)
      then show thesis using that(1) by (simp add: claim)
    qed
  qed
qed

section \<open>What holds after every history\<close>

text \<open>A record of the ring: a well-formed header of a known kind, then a payload.\<close>

definition recorded :: "bytes \<Rightarrow> bool" where
  "recorded rec \<longleftrightarrow> (\<exists>pad hdr payload k. rec = EventHeader_bytes pad hdr @ payload \<and> wf_EventHeader hdr \<and>
     h_kind hdr = kind_byte k \<and> k \<noteq> PacketIngress \<and> k \<noteq> PacketEgress)"

lemma framed_recorded: "framed rec \<Longrightarrow> recorded rec"
  unfolding framed_def recorded_def collector_header_def by blast

definition exit_header :: "Globals \<Rightarrow> Hook \<Rightarrow> KernelProcessRef \<Rightarrow> EventHeader" where
  "exit_header g h r = (get_task_info g h (kind_byte ProcessExit))\<lparr>h_pid := kpr_tgid r,
     h_process_start_boottime_ns := kpr_start_boottime_ns r\<rparr>"

lemma exit_header_facts:
  assumes "hook_ok h"
  shows "wf_EventHeader (exit_header g h r)" "h_kind (exit_header g h r) = kind_byte ProcessExit"
    "h_pid (exit_header g h r) = kpr_tgid r"
    "h_process_start_boottime_ns (exit_header g h r) = kpr_start_boottime_ns r"
proof -
  show "wf_EventHeader (exit_header g h r)" using get_task_info_wf[OF assms] by (simp add: exit_header_def)
qed (simp_all add: exit_header_def get_task_info_def fill_task_info_def)

lemma exit_recorded: "hook_ok h \<Longrightarrow> recorded (exit_record g h r st)"
  unfolding recorded_def exit_record_def exit_header_def[symmetric]
  using exit_header_facts by (intro exI[of _ "k_pad h"] exI[of _ "exit_header g h r"] exI[of _ ProcessExit] exI conjI)
    (rule refl | simp del: kind_byte.simps)+

text \<open>The exit records of one process instance.\<close>

definition exit_of :: "32 word \<Rightarrow> 64 word \<Rightarrow> bytes \<Rightarrow> bool" where
  "exit_of tgid start rec \<longleftrightarrow> (let hdr = read_EventHeader rec in
     h_kind hdr = kind_byte ProcessExit \<and> h_pid hdr = tgid \<and> h_process_start_boottime_ns hdr = start)"

lemma framed_no_exit: "framed rec \<Longrightarrow> \<not> exit_of tgid start rec"
proof (unfold framed_def, elim exE conjE)
  fix pad hdr payload assume r: "rec = EventHeader_bytes pad hdr @ payload" "collector_header hdr"
  then have "read_EventHeader rec = hdr" by (simp add: h_wire.round_trip collector_header_def)
  moreover have "h_kind hdr \<noteq> kind_byte ProcessExit"
    using r(2) from_u8_kind_byte unfolding collector_header_def by (metis option.inject)
  ultimately show "\<not> exit_of tgid start rec" by (simp add: exit_of_def)
qed

lemma exit_of_record:
  "hook_ok h \<Longrightarrow> exit_of tgid start (exit_record g h r st) \<longleftrightarrow> tgid = kpr_tgid r \<and> start = kpr_start_boottime_ns r"
  unfolding exit_of_def exit_record_def exit_header_def[symmetric]
  by (auto simp: h_wire.round_trip exit_header_facts)

text \<open>At most one exit record of the instance, and none without the claim being held.\<close>

definition exit_count :: "32 word \<Rightarrow> 64 word \<Rightarrow> Maps \<Rightarrow> nat" where
  "exit_count tgid start m = length (filter (exit_of tgid start) (EVENTS m))"

definition claim_inv :: "32 word \<Rightarrow> 64 word \<Rightarrow> Maps \<Rightarrow> bool" where
  "claim_inv tgid start m \<longleftrightarrow> exit_count tgid start m = 0 \<or>
     exit_count tgid start m = 1 \<and> EXIT_CLAIMS m (exit_claim_key tgid start) \<noteq> None"

lemma quiet_step:
  assumes "quiet m m'" "maps_ok m"
  shows "maps_ok m'" "list_all recorded (EVENTS m) \<Longrightarrow> list_all recorded (EVENTS m')"
    "claim_inv tgid start m \<Longrightarrow> claim_inv tgid start m'"
proof -
  obtain new where n: "maps_ok m'" "EXIT_CLAIMS m' = EXIT_CLAIMS m" "EVENTS m' = EVENTS m @ new" "list_all framed new"
    using assms by (auto simp: quiet_def)
  then show "maps_ok m'" by simp
  show "list_all recorded (EVENTS m) \<Longrightarrow> list_all recorded (EVENTS m')"
    using n(3,4) framed_recorded by (auto simp: list_all_iff)
  have "filter (exit_of tgid start) new = []"
    using n(4) framed_no_exit by (auto simp: filter_empty_conv list_all_iff)
  then show "claim_inv tgid start m \<Longrightarrow> claim_inv tgid start m'"
    using n(2,3) by (simp add: claim_inv_def exit_count_def)
qed

lemma program_step:
  assumes "hook_ok h" "(name, p) \<in> set programs" "maps_ok m"
  shows "maps_ok (p g h m)" "list_all recorded (EVENTS m) \<Longrightarrow> list_all recorded (EVENTS (p g h m))"
    "claim_inv tgid start m \<Longrightarrow> (name = ''sched_process_free'' \<Longrightarrow> freed_instance g h \<noteq> Some (tgid, start)) \<Longrightarrow>
       claim_inv tgid start (p g h m)"
proof -
  let ?goal = "maps_ok (p g h m) \<and> (list_all recorded (EVENTS m) \<longrightarrow> list_all recorded (EVENTS (p g h m))) \<and>
    (claim_inv tgid start m \<longrightarrow> (name = ''sched_process_free'' \<longrightarrow> freed_instance g h \<noteq> Some (tgid, start)) \<longrightarrow>
       claim_inv tgid start (p g h m))"
  have q: ?goal if "quiet m (p g h m)" using quiet_step[OF that assms(3)] by blast
  consider (exit) "name = ''sched_process_exit''" | (free) "name = ''sched_process_free''"
    | (other) "name \<noteq> ''sched_process_exit''" "name \<noteq> ''sched_process_free''" by blast
  then have ?goal
  proof cases
    case exit
    then have p: "p = sched_process_exit" using assms(2) table_exit_programs(1) by simp
    from assms(1) show ?thesis
    proof (rule exit_step[of h m g])
      assume "quiet m (sched_process_exit g h m)"
      then show ?thesis using q p by simp
    next
      fix r st
      assume "EXIT_CLAIMS m (exit_claim_key (kpr_tgid r) (kpr_start_boottime_ns r)) = None"
        "EXIT_CLAIMS (sched_process_exit g h m) =
           (EXIT_CLAIMS m)(exit_claim_key (kpr_tgid r) (kpr_start_boottime_ns r) \<mapsto> 1)"
        "EVENTS (sched_process_exit g h m) = EVENTS m \<or>
         EVENTS (sched_process_exit g h m) = EVENTS m @ [exit_record g h r st]"
        "maps_ok m \<Longrightarrow> maps_ok (sched_process_exit g h m)"
      then show ?thesis
        using assms(1,3) p exit exit_recorded exit_of_record[OF assms(1)]
        by (auto simp: claim_inv_def exit_count_def)
    qed
  next
    case free
    then have "p = sched_process_free" using assms(2) table_exit_programs(2) by simp
    then show ?thesis
      using assms(3) free_step free_keeps_claim[of g h tgid start m] free by (auto simp: claim_inv_def exit_count_def)
  next
    case other
    then show ?thesis using q quiet_programs[OF assms(1,2)] by blast
  qed
  then show "maps_ok (p g h m)" "list_all recorded (EVENTS m) \<Longrightarrow> list_all recorded (EVENTS (p g h m))"
    "claim_inv tgid start m \<Longrightarrow> (name = ''sched_process_free'' \<Longrightarrow> freed_instance g h \<noteq> Some (tgid, start)) \<Longrightarrow>
       claim_inv tgid start (p g h m)" by blast+
qed

lemma history_inv:
  assumes "history g m0 runs m" "maps_ok m0" "EVENTS m0 = []"
  shows "maps_ok m" "list_all recorded (EVENTS m)"
    "\<forall>h. (''sched_process_free'', h) \<in> set runs \<longrightarrow> freed_instance g h \<noteq> Some (tgid, start) \<Longrightarrow> claim_inv tgid start m"
  using assms
proof (induction rule: history.induct)
  case loaded
  {
    case 1
    then show ?case by simp
  next
    case 2
    then show ?case by simp
  next
    case 3
    then show ?case by (simp add: claim_inv_def exit_count_def)
  }
next
  case (ran runs m name p h)
  note step = program_step[OF ran.hyps(3,2), where m = m and g = g]
  {
    case 1
    then show ?case using step(1) ran.IH(1) by simp
  next
    case 2
    then show ?case using step(2) ran.IH(1,2) by simp
  next
    case 3
    then show ?case using step(3)[of tgid start] ran.IH(1,3) by auto
  }
qed

section \<open>Properties\<close>

text \<open>
  C2: whatever programs of the object run, in whatever order, and whichever helper
  calls of the kernel fail, the buffers keep their sizes, the stored entries stay
  well formed, and every record that reaches the ring is the encoding of a
  well-formed header of a known event kind, followed by a payload.  The daemon reads
  exactly that header back; only the payload parser of that kind can reject a record.
\<close>

theorem ring_holds_only_records:
  assumes "history g m0 runs m" "maps_ok m0" "EVENTS m0 = []"
  shows "maps_ok m \<and> (\<forall>rec \<in> set (EVENTS m). \<exists>hdr payload k.
    96 + length payload = length rec \<and> read_EventHeader rec = hdr \<and> wf_EventHeader hdr \<and>
    from_u8 (h_kind hdr) = Some k \<and> k \<noteq> PacketIngress \<and> k \<noteq> PacketEgress \<and>
    (k \<noteq> ProcessStart \<longrightarrow> deserialize b64 rec =
       and_then (parse_payload k b64 (h_capture hdr) payload) (\<lambda>p. Ok (record_event hdr p))))"
proof (intro conjI ballI)
  show "maps_ok m" by (rule history_inv(1)[OF assms])
  fix rec assume "rec \<in> set (EVENTS m)"
  then have "recorded rec" using history_inv(2)[OF assms] by (simp add: list_all_iff)
  then obtain pad hdr payload k where r: "rec = EventHeader_bytes pad hdr @ payload" "wf_EventHeader hdr"
      "h_kind hdr = kind_byte k" "k \<noteq> PacketIngress" "k \<noteq> PacketEgress"
    unfolding recorded_def by blast
  have "length (EventHeader_bytes pad hdr) = 96" using h_wire.size[OF r(2)] by (simp add: wire_simps)
  then show "\<exists>hdr payload k.
    96 + length payload = length rec \<and> read_EventHeader rec = hdr \<and> wf_EventHeader hdr \<and>
    from_u8 (h_kind hdr) = Some k \<and> k \<noteq> PacketIngress \<and> k \<noteq> PacketEgress \<and>
    (k \<noteq> ProcessStart \<longrightarrow> deserialize b64 rec =
       and_then (parse_payload k b64 (h_capture hdr) payload) (\<lambda>p. Ok (record_event hdr p)))"
    using r by (intro exI[of _ hdr] exI[of _ payload] exI[of _ k])
      (simp add: h_wire.round_trip deserialize_emitted[OF r(2,3)])
qed

text \<open>A thread of the target user that enters a syscall, and two exits of the same process.\<close>

abbreviation sample_state :: Maps where
  "sample_state \<equiv> sched_process_exit quiet_globals exit_hook (sched_process_exit quiet_globals exit_hook
     (raw_sys_enter quiet_globals quiet_hook empty_maps))"

lemma sample_history:
  "history quiet_globals empty_maps [(''raw_sys_enter'', quiet_hook), (''sched_process_exit'', exit_hook),
     (''sched_process_exit'', exit_hook)] sample_state"
proof -
  have "history quiet_globals empty_maps ([] @ [(''raw_sys_enter'', quiet_hook)])
      (raw_sys_enter quiet_globals quiet_hook empty_maps)"
    by (intro history.intros) (simp_all add: programs_def core_programs_def)
  then have "history quiet_globals empty_maps (([] @ [(''raw_sys_enter'', quiet_hook)]) @ [(''sched_process_exit'', exit_hook)])
      (sched_process_exit quiet_globals exit_hook (raw_sys_enter quiet_globals quiet_hook empty_maps))"
    by (rule history.ran) (simp_all add: table_exit_programs exit_hook_ok)
  then have "history quiet_globals empty_maps ((([] @ [(''raw_sys_enter'', quiet_hook)]) @ [(''sched_process_exit'', exit_hook)])
      @ [(''sched_process_exit'', exit_hook)]) sample_state"
    by (rule history.ran) (simp_all add: table_exit_programs exit_hook_ok)
  then show ?thesis by simp
qed

lemma empty_ring: "EVENTS empty_maps = []" by (simp add: empty_maps_def)

theorem ring_holds_only_records_witness:
  "maps_ok sample_state"
  using ring_holds_only_records[OF sample_history empty_maps_ok empty_ring] by blast

text \<open>
  C4: one exit per process instance.  In every history, as long as no run of the
  free hook releases a process instance, the ring gains at most one exit record of
  that instance, however many threads of it run the exit hook and whatever the map
  operations return.
\<close>

theorem one_exit_per_instance:
  assumes "history g m0 runs m" "maps_ok m0" "EVENTS m0 = []"
    "\<forall>h. (''sched_process_free'', h) \<in> set runs \<longrightarrow> freed_instance g h \<noteq> Some (tgid, start)"
  shows "length (filter (exit_of tgid start) (EVENTS m)) \<le> 1"
  using history_inv(3)[OF assms(1-3) assms(4)] by (auto simp: claim_inv_def exit_count_def)

theorem one_exit_per_instance_witness:
  "length (filter (exit_of 0x01010101 0x0101010101010101) (EVENTS sample_state)) \<le> 1"
  by (rule one_exit_per_instance[OF sample_history empty_maps_ok empty_ring]) simp

end
