(* ===== verification/Deployment.thy ===== *)
theory Deployment
  imports BpfPrograms Loader
begin

text \<open>
  The loader against the object it loads: every program that startup attaches is a
  program of the object, under one name each.
\<close>

section \<open>The names an attachment step can add\<close>

definition attaches_only :: "string set \<Rightarrow> (Bpf, 'r) attach_op \<Rightarrow> bool" where
  "attaches_only N f \<longleftrightarrow> (\<forall>st. set (bpf_live (fst st)) \<subseteq> N \<longrightarrow> set (bpf_live (fst (snd (f st)))) \<subseteq> N)"

named_theorems attaches

lemma attaches_program [attaches]: "p \<in> N \<Longrightarrow> attaches_only N (attach_program k p hook)"
  by (auto simp: attaches_only_def attach_program_def Let_def split: option.splits)

lemma attaches_return [attaches]: "attaches_only N (\<lambda>st. (r, st))"
  by (simp add: attaches_only_def)

lemma attaches_then [attaches]:
  assumes "attaches_only N f" "attaches_only N g"
  shows "attaches_only N (then_op f g)"
  unfolding attaches_only_def
proof (intro allI impI)
  fix st :: "Bpf attach_state"
  assume "set (bpf_live (fst st)) \<subseteq> N"
  then have "set (bpf_live (fst (snd (f st)))) \<subseteq> N" using assms(1) unfolding attaches_only_def by blast
  then show "set (bpf_live (fst (snd (then_op f g st)))) \<subseteq> N"
    using assms(2) by (cases "f st"; cases "fst (f st)") (simp_all add: then_op_def attaches_only_def)
qed

lemma attaches_required [attaches]: "attaches_only N f \<Longrightarrow> attaches_only N (required key f)"
  unfolding attaches_only_def required_def
  by (auto split: prod.splits sum.splits) (metis fst_conv snd_conv subsetD)+

lemma attaches_each [attaches]:
  "(\<And>x. x \<in> set xs \<Longrightarrow> attaches_only N (f x)) \<Longrightarrow> attaches_only N (each_op f xs)"
proof (induction xs)
  case (Cons x xs)
  then have "attaches_only N (then_op (f x) (each_op f xs))" by (intro attaches_then) auto
  then show ?case by (simp add: attaches_only_def)
qed (simp add: attaches_only_def)

lemma attaches_pair [attaches]:
  assumes "x \<in> N" "e \<in> N"
  shows "attaches_only N (attach_pair (attach_program k x h1) (attach_program k e h2) (detach_program k))"
  using assms set_remove1_subset[of x]
  by (fastforce simp: attaches_only_def attach_pair_def attach_program_def detach_program_def Let_def
      split: option.splits)

lemma attaches_tier2:
  assumes "enter_program name \<in> N" "exit_program name \<in> N"
  shows "attaches_only N (forget (try_attach_syscall_pair k name tp key))"
proof -
  have "attaches_only N (attach_syscall_pair k name tp)"
    unfolding attach_syscall_pair_def attach_tracepoint_pair_def using assms by (simp add: attaches)
  then show ?thesis
    unfolding attaches_only_def forget_def try_attach_syscall_pair_def
    by (auto split: prod.splits) (metis fst_conv snd_conv subsetD)
qed

section \<open>The attachment sequence\<close>

abbreviation program_set :: "string set" where
  "program_set \<equiv> set (map fst programs)"

text \<open>The object has one pair of rich programs per row of the Tier-2 table, in its order.\<close>

lemma rich_names: "map fst rich_programs = concat (map (\<lambda>s. [enter_program (t2_name s), exit_program (t2_name s)]) TIER2)"
  by (simp add: rich_programs_def TIER2_def tier2_def enter_program_def exit_program_def)

lemma tier2_programs:
  assumes "s \<in> set TIER2"
  shows "enter_program (t2_name s) \<in> program_set" "exit_program (t2_name s) \<in> program_set"
proof -
  have "{enter_program (t2_name s), exit_program (t2_name s)} \<subseteq> set (map fst rich_programs)"
    unfolding rich_names using assms by auto
  then show "enter_program (t2_name s) \<in> program_set" "exit_program (t2_name s) \<in> program_set"
    by (auto simp: programs_def)
qed

lemma distinct_rich: "distinct (map t2_name xs) \<Longrightarrow>
    distinct (concat (map (\<lambda>s. [enter_program (t2_name s), exit_program (t2_name s)]) xs))"
  by (induction xs) auto

abbreviation other_programs :: "(string \<times> program) list" where
  "other_programs \<equiv> core_programs @ lsm_programs @ usdt_programs"

lemma other_names:
  assumes "x \<in> set (map fst other_programs)" "x = enter_program n \<or> x = exit_program n"
  shows "n = ''execve'' \<or> n = ''execveat''"
  using assms by (auto simp: core_programs_def lsm_programs_def usdt_programs_def enter_program_def exit_program_def)

lemma tier2_names: "distinct (map t2_name TIER2)" "''execve'' \<notin> set (map t2_name TIER2)" "''execveat'' \<notin> set (map t2_name TIER2)"
  by (simp_all add: TIER2_def tier2_def)

lemma usdt_names: "map fst usdt_programs =
    map ((@) ''usdt_training_shell_v3_'') [''0'', ''1'', ''2'', ''3'', ''4'', ''5'', ''6'', ''7'']
    @ map ((@) ''usdt_training_peer_v1_'') [''0'', ''1'', ''2'', ''3'', ''4'', ''5'', ''6'', ''7'']"
  by (simp add: usdt_programs_def)

lemma distinct_other: "distinct (map fst other_programs)"
proof -
  have "distinct (map fst core_programs)" "distinct (map fst lsm_programs)"
    by (simp_all add: core_programs_def lsm_programs_def)
  moreover have "distinct (map fst usdt_programs)"
    unfolding usdt_names distinct_append distinct_map by (auto simp: inj_on_def)
  moreover have "set (map fst core_programs) \<inter> set (map fst lsm_programs) = {}"
    by (simp add: core_programs_def lsm_programs_def)
  moreover have "set (map fst core_programs) \<inter> set (map fst usdt_programs) = {}"
    "set (map fst lsm_programs) \<inter> set (map fst usdt_programs) = {}"
    unfolding usdt_names by (simp_all add: core_programs_def lsm_programs_def)
  ultimately show ?thesis unfolding map_append distinct_append set_append by blast
qed

lemma distinct_programs: "distinct (map fst programs)"
proof -
  have "distinct (map fst rich_programs)" unfolding rich_names by (rule distinct_rich[OF tier2_names(1)])
  moreover have "distinct (map fst other_programs)" by (rule distinct_other)
  moreover have "set (map fst other_programs) \<inter> set (map fst rich_programs) = {}"
  proof (rule ccontr)
    assume "set (map fst other_programs) \<inter> set (map fst rich_programs) \<noteq> {}"
    then obtain x where x: "x \<in> set (map fst other_programs)" "x \<in> set (map fst rich_programs)" by blast
    from x(2) obtain s where "s \<in> set TIER2" "x = enter_program (t2_name s) \<or> x = exit_program (t2_name s)"
      unfolding rich_names by auto
    then have "t2_name s \<in> set (map t2_name TIER2)" "t2_name s = ''execve'' \<or> t2_name s = ''execveat''"
      using other_names[OF x(1)] by simp_all
    then show False using tier2_names(2,3) by (elim disjE) (simp_all only: not_False_eq_True)
  qed
  ultimately show ?thesis unfolding programs_def map_append distinct_append set_append by blast
qed

lemma fixed_programs:
  "{''sched_process_free'', ''sched_process_fork'', ''sched_process_exit'', ''signal_generate'', ''raw_sys_enter'',
    ''raw_sys_exit'', ''tty_write_probe'', ''tty_read_probe'', ''tty_read_ret_probe''} \<subseteq> program_set"
  "enter_program ''execve'' \<in> program_set" "exit_program ''execve'' \<in> program_set"
  "enter_program ''execveat'' \<in> program_set" "exit_program ''execveat'' \<in> program_set"
  by (simp_all add: programs_def core_programs_def enter_program_def exit_program_def)

lemma lsm_hook_programs: "hook \<in> set lsm_hooks \<Longrightarrow> fst hook \<in> program_set"
  by (auto simp: lsm_hooks_def programs_def lsm_programs_def)

lemma attaches_lsm_hook: "fst hook \<in> N \<Longrightarrow> attaches_only N (attach_lsm_hook k hook)"
  by (auto simp: attaches_only_def attach_lsm_hook_def attach_program_def Let_def split: option.splits)

lemma attaches_bitmap: "attaches_only N write_tier2_bitmap"
  by (auto simp: attaches_only_def write_tier2_bitmap_def split: sum.splits)

lemma attaches_tty: "{''tty_write_probe'', ''tty_read_probe'', ''tty_read_ret_probe''} \<subseteq> N \<Longrightarrow>
    attaches_only N (attach_tty k offsets)"
  using set_remove1_subset[of "''tty_read_ret_probe''"]
  by (fastforce simp: attaches_only_def attach_tty_def try_attach_kprobe_def forget_def attach_tty_read_pair_def
      attach_pair_def attach_program_def detach_program_def Let_def split: option.splits)

lemma attaches_sequence: "attaches_only program_set (attach_sequence k args offsets)"
  unfolding attach_sequence_def attach_lifecycle_def attach_signal_def attach_raw_syscalls_def
    attach_tracepoint_pair_def attach_lsm_hooks_def
  using fixed_programs tier2_programs lsm_hook_programs
  by (auto intro!: attaches attaches_tier2 attaches_bitmap attaches_tty attaches_lsm_hook
      simp: attach_tier2_def selected_tier2_def attach_syscall_pair_def attach_tracepoint_pair_def)

section \<open>Properties\<close>

text \<open>
  C24: the loader and the object agree on names.  However the kernel answers, every
  program that startup leaves attached is a program of the object, and a name stands
  for one program only, so what runs behind a hook is what the hook's name says.
\<close>

theorem attached_programs_exist:
  assumes "attach_collectors k args offsets new_bpf = (r, (bpf, report))" "name \<in> set (bpf_live bpf)"
  shows "\<exists>!p. (name, p) \<in> set programs"
proof -
  note d = distinct_programs
  obtain bits where c: "attach_collectors k args offsets new_bpf =
      attach_sequence k args offsets (new_bpf\<lparr>bpf_exclusion_bitmap := bits\<rparr>, default_report)"
    by (rule attach_collectors_new)
  have "set (bpf_live (fst (snd (attach_sequence k args offsets
      (new_bpf\<lparr>bpf_exclusion_bitmap := bits\<rparr>, default_report))))) \<subseteq> program_set"
    using attaches_sequence[of k args offsets] unfolding attaches_only_def by (simp add: new_bpf_def)
  then have "set (bpf_live bpf) \<subseteq> program_set" using assms(1) unfolding c by simp
  then have "map_of programs name \<noteq> None" using assms(2) by (auto simp: map_of_eq_None_iff)
  then show ?thesis using map_of_eq_Some_iff[OF d, of name] by (metis not_None_eq option.inject)
qed

theorem attached_programs_exist_witness:
  "\<exists>!p. (''sys_enter_execve'', p) \<in> set programs"
proof (rule minimal_run)
  fix r bpf report
  assume run: "attach_collectors minimal_kernel plain_args None new_bpf = (r, (bpf, report))"
    and key: "key_true report ''exec.execve''"
  have "report_honest (bpf_live bpf) report"
    using attach_collectors_inv[of minimal_kernel plain_args None] run by (simp add: loader_inv_def)
  moreover have "(''exec.execve'', ''sys_enter_execve'') \<in> claims"
    by (auto simp: claims_def exec_key_def enter_program_def)
  ultimately have "''sys_enter_execve'' \<in> set (bpf_live bpf)" using key by (auto simp: report_honest_def)
  with run show ?thesis by (rule attached_programs_exist)
qed

end
