(* ===== verification/Btf.thy ===== *)
theory Btf
  imports Text Common
begin

unbundle bit_operations_syntax

text \<open>
  \<open>bloodhound/src/btf_offsets.rs\<close>: the bounded reader that resolves the member
  offsets of the running kernel's structs from its BTF, and the specification of what
  it resolves.  A \<open>usize\<close> is a natural number below \<open>2 ^ 64\<close>; positions are at most
  the length of the buffer plus one type record, so the unchecked sums of the code
  cannot wrap, and the checked ones are written out.
\<close>

section \<open>The fields that the programs need\<close>

definition EXEC_VIEW_FIELDS :: "(string \<times> string) list" where
  "EXEC_VIEW_FIELDS =
    [(''task_struct'', ''fs''), (''task_struct'', ''nsproxy''), (''fs_struct'', ''root''),
     (''path'', ''mnt''), (''path'', ''dentry''), (''dentry'', ''d_inode''),
     (''inode'', ''i_ino''), (''inode'', ''i_sb''), (''super_block'', ''s_dev''),
     (''nsproxy'', ''mnt_ns''), (''mnt_namespace'', ''ns''), (''ns_common'', ''inum''),
     (''mount'', ''mnt''), (''mount'', ''mnt_id'')]"

definition FD_CHAIN_FIELDS :: "(string \<times> string) list" where
  "FD_CHAIN_FIELDS =
    [(''task_struct'', ''files''), (''files_struct'', ''fdt''), (''fdtable'', ''max_fds''),
     (''fdtable'', ''fd''), (''file'', ''f_inode'')]"

definition TTY_FIELDS :: "(string \<times> string) list" where
  "TTY_FIELDS =
    [(''tty_struct'', ''driver''), (''tty_driver'', ''type''), (''tty_driver'', ''subtype'')]"

definition NS_FIELDS :: "(string \<times> string) list" where
  "NS_FIELDS =
    [(''task_struct'', ''nsproxy''), (''nsproxy'', ''mnt_ns''), (''nsproxy'', ''net_ns''),
     (''nsproxy'', ''uts_ns''), (''nsproxy'', ''ipc_ns''), (''nsproxy'', ''cgroup_ns''),
     (''task_struct'', ''real_cred''), (''cred'', ''user_ns''), (''task_struct'', ''thread_pid''),
     (''pid'', ''level''), (''pid'', ''numbers''), (''upid'', ''ns''),
     (''nsproxy'', ''pid_ns_for_children''), (''ns_common'', ''inum''), (''mnt_namespace'', ''ns''),
     (''net'', ''ns''), (''uts_namespace'', ''ns''), (''ipc_namespace'', ''ns''),
     (''cgroup_namespace'', ''ns''), (''user_namespace'', ''ns''), (''pid_namespace'', ''ns'')]"

definition NS_OFFSETS_LEN :: nat where "NS_OFFSETS_LEN = length NS_FIELDS + 1"

definition NS_SLOT_FIELDS :: "nat list list" where
  "NS_SLOT_FIELDS =
    [[0, 1, 14, 13], [0, 2, 15, 13], [0, 3, 16, 13], [0, 4, 17, 13], [0, 5, 18, 13],
     [6, 7, 19, 13], [8, 9, 10, 11, 20, 13], [0, 12, 20, 13]]"

record NamespaceOffsets =
  no_offsets :: "32 word list"
  no_supported :: "32 word"

record TaskStructOffsets =
  ts_exec_view :: "32 word list option"
  ts_fd_ident :: "32 word list option"
  ts_tty :: "32 word list option"
  ts_namespaces :: NamespaceOffsets
  ts_loginuid :: "32 word"
  ts_sessionid :: "32 word"
  ts_tgid :: "32 word"
  ts_pid :: "32 word"
  ts_group_leader :: "32 word"
  ts_start_boottime :: "32 word"
  ts_signal :: "32 word"
  ts_exit_code :: "32 word"
  ts_comm :: "32 word"
  ts_signal_live :: "32 word"
  ts_signal_group_exit_code :: "32 word"

text \<open>\<open>NamespaceOffsets::from_resolved\<close>.  The loop over the slots sets one bit each.\<close>

definition slot_supported :: "32 word option list \<Rightarrow> 32 word option \<Rightarrow> nat list \<Rightarrow> bool" where
  "slot_supported flds upid_size needed \<longleftrightarrow>
     list_all (\<lambda>index. flds ! index \<noteq> None) needed \<and>
     (9 \<notin> set needed \<or> (case upid_size of None \<Rightarrow> False | Some n \<Rightarrow> n > 0))"

primrec support_mask :: "32 word option list \<Rightarrow> 32 word option \<Rightarrow> nat \<Rightarrow> nat list list \<Rightarrow> 32 word \<Rightarrow> 32 word" where
  "support_mask flds upid_size b [] acc = acc"
| "support_mask flds upid_size b (needed # rest) acc =
     support_mask flds upid_size (Suc b) rest
       (if slot_supported flds upid_size needed then acc OR push_bit b 1 else acc)"

definition from_resolved :: "32 word option list \<Rightarrow> 32 word option \<Rightarrow> NamespaceOffsets" where
  "from_resolved flds upid_size =
     \<lparr>no_offsets = map (\<lambda>f. case f of None \<Rightarrow> 0 | Some x \<Rightarrow> x) flds @
        [case upid_size of None \<Rightarrow> 0 | Some x \<Rightarrow> x],
      no_supported = support_mask flds upid_size 0 NS_SLOT_FIELDS 0\<rparr>"

section \<open>The reader\<close>

definition BTF_MAGIC :: nat where "BTF_MAGIC = 0xeb9f"
definition BTF_HEADER_LEN :: nat where "BTF_HEADER_LEN = 24"
definition BTF_KIND_STRUCT :: "32 word" where "BTF_KIND_STRUCT = 4"

record Reader =
  rd_buf :: bytes
  rd_little_endian :: bool

definition reader_u32 :: "Reader \<Rightarrow> nat \<Rightarrow> string + 32 word" where
  "reader_u32 r off =
     (if off + 4 \<le> length (rd_buf r) then
        (let b = take 4 (drop off (rd_buf r)) in
         Ok (le_word (if rd_little_endian r then b else rev b)))
      else Err ''u32 read out of bounds'')"

definition checked_add :: "string \<Rightarrow> nat \<Rightarrow> nat \<Rightarrow> string + nat" where
  "checked_add context_msg a b = (if a + b < 2 ^ 64 then Ok (a + b) else Err context_msg)"

definition str_at :: "Reader \<Rightarrow> nat \<Rightarrow> 32 word \<Rightarrow> string + string" where
  "str_at r str_base name_off =
     and_then (checked_add ''string offset overflow'' str_base (unat name_off)) (\<lambda>start.
       if start > length (rd_buf r) then Err ''string offset out of bounds''
       else (let s = until_nul (drop start (rd_buf r)) in
         if valid_utf8 s then Ok (str_of_bytes s) else Err ''BTF string is not UTF-8''))"

text \<open>The byte offset in a member's offset word.\<close>

definition byte_offset :: "32 word \<Rightarrow> 32 word" where
  "byte_offset raw = (raw AND 0x00ffffff) div 8"

text \<open>The loops over the members count down \<open>vlen\<close> and carry the position of the next one.\<close>

primrec member_offset :: "Reader \<Rightarrow> nat \<Rightarrow> string \<Rightarrow> nat \<Rightarrow> nat \<Rightarrow> string + 32 word option" where
  "member_offset r str_base wanted 0 m = Ok None"
| "member_offset r str_base wanted (Suc n) m =
     and_then (reader_u32 r m) (\<lambda>name_off. and_then (str_at r str_base name_off) (\<lambda>name.
       if name = wanted then and_then (reader_u32 r (m + 8)) (\<lambda>raw. Ok (Some (byte_offset raw)))
       else member_offset r str_base wanted n (m + 12)))"

primrec read_named_member ::
  "Reader \<Rightarrow> nat \<Rightarrow> 32 word \<Rightarrow> string \<Rightarrow> nat \<Rightarrow> nat \<Rightarrow> string + 32 word" where
  "read_named_member r str_base ssize wanted 0 m = Err (''member '' @ wanted @ '' not found'')"
| "read_named_member r str_base ssize wanted (Suc n) m =
     and_then (reader_u32 r m) (\<lambda>name_off. and_then (str_at r str_base name_off) (\<lambda>name.
       if name = wanted then
         and_then (reader_u32 r (m + 8)) (\<lambda>raw.
           if byte_offset raw \<ge> ssize then Err ''resolved member offset exceeds struct size''
           else Ok (byte_offset raw))
       else read_named_member r str_base ssize wanted n (m + 12)))"

text \<open>\<open>read_task_members\<close>: its nine variables are nine slots, in the order of the code.\<close>

definition TASK_FIELDS :: "string list" where
  "TASK_FIELDS = [''loginuid'', ''sessionid'', ''tgid'', ''pid'', ''group_leader'',
     ''start_boottime'', ''signal'', ''exit_code'', ''comm'']"

primrec scan_task_members ::
  "Reader \<Rightarrow> nat \<Rightarrow> nat \<Rightarrow> nat \<Rightarrow> 32 word option list \<Rightarrow> string + 32 word option list" where
  "scan_task_members r str_base 0 m slots = Ok slots"
| "scan_task_members r str_base (Suc n) m slots =
     and_then (reader_u32 r m) (\<lambda>name_off. and_then (str_at r str_base name_off) (\<lambda>name.
       and_then (reader_u32 r (m + 8)) (\<lambda>raw.
         scan_task_members r str_base n (m + 12)
           (map2 (\<lambda>f old. if name = f then Some (byte_offset raw) else old) TASK_FIELDS slots))))"

fun require_fields :: "string list \<Rightarrow> 32 word option list \<Rightarrow> string + 32 word list" where
  "require_fields (f # fs) (None # slots) = Err (''task_struct::'' @ f @ '' not found in BTF'')"
| "require_fields (f # fs) (Some v # slots) =
     and_then (require_fields fs slots) (\<lambda>vs. Ok (v # vs))"
| "require_fields _ _ = Ok []"

definition desynced :: "string \<Rightarrow> 32 word \<Rightarrow> 32 word \<Rightarrow> string" where
  "desynced name v ssize =
     ''resolved task_struct::'' @ name @ '' offset 0x'' @ hex_string (unat v) @
     '' >= struct size 0x'' @ hex_string (unat ssize) @ '' '' @
     [CHR 0xE2, CHR 0x80, CHR 0x94] @ '' BTF type walk desynced''"

fun check_bounds :: "32 word \<Rightarrow> string list \<Rightarrow> 32 word list \<Rightarrow> string + unit" where
  "check_bounds ssize (f # fs) (v # vs) =
     (if v \<ge> ssize then Err (desynced f v ssize) else check_bounds ssize fs vs)"
| "check_bounds ssize _ _ = Ok ()"

definition task_offsets_of :: "32 word list \<Rightarrow> TaskStructOffsets" where
  "task_offsets_of v =
     \<lparr>ts_exec_view = None, ts_fd_ident = None, ts_tty = None,
      ts_namespaces = from_resolved (replicate (length NS_FIELDS) None) None,
      ts_loginuid = v ! 0, ts_sessionid = v ! 1, ts_tgid = v ! 2, ts_pid = v ! 3,
      ts_group_leader = v ! 4, ts_start_boottime = v ! 5, ts_signal = v ! 6,
      ts_exit_code = v ! 7, ts_comm = v ! 8, ts_signal_live = 0, ts_signal_group_exit_code = 0\<rparr>"

definition select_task_members :: "32 word \<Rightarrow> 32 word option list \<Rightarrow> string + TaskStructOffsets" where
  "select_task_members ssize slots =
     and_then (require_fields TASK_FIELDS slots) (\<lambda>v.
       and_then (check_bounds ssize TASK_FIELDS v) (\<lambda>_. Ok (task_offsets_of v)))"

definition read_task_members ::
  "Reader \<Rightarrow> nat \<Rightarrow> nat \<Rightarrow> nat \<Rightarrow> 32 word \<Rightarrow> string + TaskStructOffsets" where
  "read_task_members r str_base members_pos vlen ssize =
     and_then (scan_task_members r str_base vlen members_pos (replicate (length TASK_FIELDS) None))
       (select_task_members ssize)"

definition trailing_len :: "32 word \<Rightarrow> nat \<Rightarrow> nat" where
  "trailing_len kind vlen =
     (if kind = 1 \<or> kind = 14 \<or> kind = 17 then 4
      else if kind = 3 then 12
      else if kind = 4 \<or> kind = 5 \<or> kind = 15 then vlen * 12
      else if kind = 6 \<or> kind = 13 then vlen * 8
      else if kind = 19 then vlen * 12
      else 0)"

section \<open>The walk\<close>

record Walk =
  wk_task_offsets :: "TaskStructOffsets option"
  wk_view_offsets :: "32 word option list"
  wk_fd_offsets :: "32 word option list"
  wk_tty_offsets :: "32 word option list"
  wk_ns_offsets :: "32 word option list"
  wk_upid_size :: "32 word option"
  wk_signal_offsets :: "(32 word \<times> 32 word) option"

definition walk_start :: Walk where
  "walk_start = \<lparr>wk_task_offsets = None, wk_view_offsets = replicate 14 None,
     wk_fd_offsets = replicate 5 None, wk_tty_offsets = replicate 3 None,
     wk_ns_offsets = replicate (length NS_FIELDS) None, wk_upid_size = None,
     wk_signal_offsets = None\<rparr>"

text \<open>One of the loops over a field table: a struct sets the fields that it owns.\<close>

definition resolve_fields ::
  "string \<Rightarrow> (string \<Rightarrow> string + 32 word) \<Rightarrow> (string \<times> string) list \<Rightarrow> 32 word option list \<Rightarrow>
     32 word option list" where
  "resolve_fields struct_name rd flds slots =
     map2 (\<lambda>(owner, fld) old. if struct_name = owner then result_ok (rd fld) else old) flds slots"

fun resolve_ns_fields ::
  "string \<Rightarrow> (string \<Rightarrow> string + 32 word option) \<Rightarrow> 32 word \<Rightarrow> (string \<times> string) list \<Rightarrow>
     32 word option list \<Rightarrow> string + 32 word option list" where
  "resolve_ns_fields struct_name rd ssize ((owner, fld) # flds) (old # slots) =
     and_then
       (if struct_name = owner then
          and_then (rd fld) (\<lambda>found. Ok (case found of
             Some offset \<Rightarrow> if offset \<le> ssize then Some offset else None
           | None \<Rightarrow> None))
        else Ok old)
       (\<lambda>v. and_then (resolve_ns_fields struct_name rd ssize flds slots)
         (\<lambda>vs. Ok (v # vs)))"
| "resolve_ns_fields struct_name rd ssize _ _ = Ok []"

definition walk_struct :: "Reader \<Rightarrow> nat \<Rightarrow> nat \<Rightarrow> nat \<Rightarrow> 32 word \<Rightarrow> Walk \<Rightarrow> string + Walk" where
  "walk_struct r str_base members_pos vlen name_off w =
     and_then (str_at r str_base name_off) (\<lambda>struct_name.
     and_then (reader_u32 r (members_pos - 4)) (\<lambda>ssize.
       let rd = (\<lambda>fld. read_named_member r str_base ssize fld vlen members_pos);
           w1 = w\<lparr>wk_view_offsets := resolve_fields struct_name rd EXEC_VIEW_FIELDS (wk_view_offsets w),
                  wk_fd_offsets := resolve_fields struct_name rd FD_CHAIN_FIELDS (wk_fd_offsets w),
                  wk_tty_offsets := resolve_fields struct_name rd TTY_FIELDS (wk_tty_offsets w)\<rparr> in
       and_then (resolve_ns_fields struct_name
           (\<lambda>fld. member_offset r str_base fld vlen members_pos) ssize NS_FIELDS
           (wk_ns_offsets w1)) (\<lambda>ns.
         let w2 = w1\<lparr>wk_ns_offsets := ns\<rparr>;
             w3 = (if struct_name = ''upid'' then w2\<lparr>wk_upid_size := Some ssize\<rparr> else w2) in
         if struct_name = ''task_struct'' then
           and_then (read_task_members r str_base members_pos vlen ssize) (\<lambda>t.
             Ok (w3\<lparr>wk_task_offsets := Some t\<rparr>))
         else if struct_name = ''signal_struct'' then
           and_then (rd ''live'') (\<lambda>live. and_then (rd ''group_exit_code'') (\<lambda>code.
             Ok (w3\<lparr>wk_signal_offsets := Some (live, code)\<rparr>)))
         else Ok w3)))"

text \<open>One turn of the \<open>while\<close> loop: the type record at \<open>pos\<close> and the position after it.\<close>

definition walk_type :: "Reader \<Rightarrow> nat \<Rightarrow> nat \<Rightarrow> Walk \<Rightarrow> string + (nat \<times> Walk)" where
  "walk_type r str_base pos w =
     and_then (reader_u32 r pos) (\<lambda>name_off. and_then (reader_u32 r (pos + 4)) (\<lambda>info.
       let vlen = unat (info AND 0xffff); kind = drop_bit 24 info AND 0x1f;
           members_pos = pos + 12 in
       and_then (if kind = BTF_KIND_STRUCT \<and> vlen > 0
                 then walk_struct r str_base members_pos vlen name_off w else Ok w) (\<lambda>w'.
       and_then (checked_add ''type record length overflow'' members_pos (trailing_len kind vlen))
         (\<lambda>next. Ok (next, w')))))"

text \<open>The loop; that it returns is \<open>btf_walk_total\<close>.\<close>

partial_function (option) btf_walk ::
  "Reader \<Rightarrow> nat \<Rightarrow> nat \<Rightarrow> nat \<Rightarrow> Walk \<Rightarrow> (string + Walk) option" where
  "btf_walk r str_base type_end pos w =
     (if pos + 12 \<le> type_end then
        (case walk_type r str_base pos w of
            Inl e \<Rightarrow> Some (Err e)
          | Inr x \<Rightarrow> btf_walk r str_base type_end (fst x) (snd x))
      else Some (Ok w))"

definition walk_result :: "Walk \<Rightarrow> string + TaskStructOffsets" where
  "walk_result w =
     (case wk_task_offsets w of
         None \<Rightarrow> Err ''struct task_struct not found in BTF''
       | Some offsets \<Rightarrow>
           (case wk_signal_offsets w of
               None \<Rightarrow> Err ''required signal_struct members not found in BTF''
             | Some (live, group_exit_code) \<Rightarrow>
                 Ok (offsets\<lparr>
                   ts_fd_ident := those (wk_fd_offsets w @ take 3 (drop 6 (wk_view_offsets w))),
                   ts_tty := those (wk_tty_offsets w),
                   ts_exec_view := those (wk_view_offsets w),
                   ts_namespaces := from_resolved (wk_ns_offsets w) (wk_upid_size w),
                   ts_signal_live := live, ts_signal_group_exit_code := group_exit_code\<rparr>)))"

definition parse_sections :: "Reader \<Rightarrow> string + (nat \<times> nat \<times> nat)" where
  "parse_sections r =
     and_then (reader_u32 r 4) (\<lambda>hdr_len. and_then (reader_u32 r 8) (\<lambda>type_off.
     and_then (reader_u32 r 12) (\<lambda>type_len. and_then (reader_u32 r 16) (\<lambda>str_off.
     and_then (checked_add ''type section offset overflow'' (unat hdr_len) (unat type_off)) (\<lambda>type_base.
     and_then (checked_add ''type section length overflow'' type_base (unat type_len)) (\<lambda>type_end.
     and_then (checked_add ''string section offset overflow'' (unat hdr_len) (unat str_off)) (\<lambda>str_base.
       if type_end > length (rd_buf r) then Err ''type section extends past end of BTF blob''
       else Ok (type_base, type_end, str_base))))))))"

definition hex4 :: "nat \<Rightarrow> string" where
  "hex4 n = (let s = hex_string n in replicate (4 - length s) (CHR ''0'') @ s)"

definition parse_task_offsets :: "bytes \<Rightarrow> (string + TaskStructOffsets) option" where
  "parse_task_offsets buf =
     (if length buf < BTF_HEADER_LEN then
        Some (Err (''BTF blob shorter than header ('' @ decimal (length buf) @ '' bytes)''))
      else
        (let magic = le_nat (take 2 buf) in
         if magic \<noteq> BTF_MAGIC \<and> le_nat (rev (take 2 buf)) \<noteq> BTF_MAGIC then
           Some (Err (''bad BTF magic 0x'' @ hex4 magic))
         else
           (let r = \<lparr>rd_buf = buf, rd_little_endian = (magic = BTF_MAGIC)\<rparr> in
            case parse_sections r of
              Inl e \<Rightarrow> Some (Err e)
            | Inr (type_base, type_end, str_base) \<Rightarrow>
                map_option (\<lambda>res. and_then res walk_result)
                  (btf_walk r str_base type_end type_base walk_start))))"

text \<open>\<open>read_and_parse\<close> on the outcome of reading the file; an error carries its context.\<close>

definition SYS_BTF :: string where "SYS_BTF = ''/sys/kernel/btf/vmlinux''"

definition read_and_parse :: "string + bytes \<Rightarrow> (string + TaskStructOffsets) option" where
  "read_and_parse file =
     (case file of
         Inl e \<Rightarrow> Some (Err (''read '' @ SYS_BTF @ '': '' @ e))
       | Inr buf \<Rightarrow> map_option (\<lambda>res. case res of
             Inl e \<Rightarrow> Err (''parse BTF from '' @ SYS_BTF @ '': '' @ e) | Inr t \<Rightarrow> Ok t)
           (parse_task_offsets buf))"

end
