(* ===== verification/BtfFacts.thy ===== *)
theory BtfFacts
  imports Btf
begin

unbundle bit_operations_syntax

text \<open>
  Correctness of the BTF reader: it ends on every input, and on the image of a list of
  kernel types it resolves the members of those types.
\<close>

section \<open>The walk ends\<close>

lemma walk_type_advances:
  assumes "walk_type r sb pos w = Ok (next, w')"
  shows "pos < next"
  using assms by (auto simp: walk_type_def checked_add_def Let_def split: if_splits)

lemma btf_walk_total: "\<exists>res. btf_walk r sb type_end pos w = Some res"
proof (induction "type_end - pos" arbitrary: pos w rule: less_induct)
  case less
  show ?case
  proof (cases "walk_type r sb pos w")
    case (Inl e)
    then show ?thesis by (subst btf_walk.simps) simp
  next
    case (Inr x)
    obtain next' w' where x: "x = (next', w')" by (cases x)
    from walk_type_advances[OF Inr[unfolded x]] have "pos < next'" .
    then show ?thesis
      using less[of next' w'] Inr x by (subst btf_walk.simps) auto
  qed
qed

section \<open>Images of type lists\<close>

record BtfMember =
  bm_name :: string
  bm_type :: "32 word"
  bm_offset :: "32 word"

datatype BtfType =
    Struct string bool "32 word" "BtfMember list"
  | Other string "32 word" nat "32 word" "32 word list"

definition word_bytes :: "bool \<Rightarrow> 32 word \<Rightarrow> bytes" where
  "word_bytes little x = (if little then le_bytes 4 (unat x) else rev (le_bytes 4 (unat x)))"

definition type_info :: "bool \<Rightarrow> nat \<Rightarrow> nat \<Rightarrow> 32 word" where
  "type_info flag kind vlen = of_nat (vlen + kind * 2 ^ 24 + (if flag then 2 ^ 31 else 0))"

definition member_bytes :: "bool \<Rightarrow> (string \<Rightarrow> 32 word) \<Rightarrow> BtfMember \<Rightarrow> bytes" where
  "member_bytes little loc m =
     word_bytes little (loc (bm_name m)) @ word_bytes little (bm_type m) @ word_bytes little (bm_offset m)"

fun type_bytes :: "bool \<Rightarrow> (string \<Rightarrow> 32 word) \<Rightarrow> BtfType \<Rightarrow> bytes" where
  "type_bytes little loc (Struct n flag sz ms) =
     word_bytes little (loc n) @ word_bytes little (type_info flag 4 (length ms)) @ word_bytes little sz @
     concat (map (member_bytes little loc) ms)"
| "type_bytes little loc (Other n kind vlen sz trail) =
     word_bytes little (loc n) @ word_bytes little (type_info False (unat kind) vlen) @ word_bytes little sz @
     concat (map (word_bytes little) trail)"

definition image_preamble :: "bool \<Rightarrow> bytes" where
  "image_preamble little =
     (if little then le_bytes 2 BTF_MAGIC else rev (le_bytes 2 BTF_MAGIC)) @ [1, 0]"

definition image_header :: "bool \<Rightarrow> nat \<Rightarrow> nat \<Rightarrow> bytes" where
  "image_header little types_len strs_len =
     image_preamble little @ word_bytes little 24 @ word_bytes little 0 @
     word_bytes little (of_nat types_len) @ word_bytes little (of_nat types_len) @
     word_bytes little (of_nat strs_len)"

definition btf_image :: "bool \<Rightarrow> (string \<Rightarrow> 32 word) \<Rightarrow> BtfType list \<Rightarrow> bytes \<Rightarrow> bytes" where
  "btf_image little loc ts strs =
     (let types = concat (map (type_bytes little loc) ts)
      in image_header little (length types) (length strs) @ types @ strs)"

text \<open>What makes an image well formed: counts fit their field and every name is in the table.\<close>

definition name_in :: "bytes \<Rightarrow> (string \<Rightarrow> 32 word) \<Rightarrow> string \<Rightarrow> bool" where
  "name_in strs loc s \<longleftrightarrow>
     (let b = bytes_of_str s in nul_free b \<and> valid_utf8 b \<and>
      take (length b + 1) (drop (unat (loc s)) strs) = b @ [0])"

fun wf_type :: "bytes \<Rightarrow> (string \<Rightarrow> 32 word) \<Rightarrow> BtfType \<Rightarrow> bool" where
  "wf_type strs loc (Struct n flag sz ms) \<longleftrightarrow> length ms < 65536 \<and>
     name_in strs loc n \<and> list_all (\<lambda>m. name_in strs loc (bm_name m)) ms"
| "wf_type strs loc (Other n kind vlen sz trail) \<longleftrightarrow> vlen < 65536 \<and> kind < 32 \<and> kind \<noteq> BTF_KIND_STRUCT \<and>
     4 * length trail = trailing_len kind vlen"

definition wf_image :: "bool \<Rightarrow> (string \<Rightarrow> 32 word) \<Rightarrow> BtfType list \<Rightarrow> bytes \<Rightarrow> bool" where
  "wf_image little loc ts strs \<longleftrightarrow> list_all (wf_type strs loc) ts \<and>
     length (concat (map (type_bytes little loc) ts)) < 2 ^ 32"

section \<open>What the reader resolves\<close>

definition structs :: "BtfType list \<Rightarrow> (string \<times> 32 word \<times> BtfMember list) list" where
  "structs ts = List.map_filter (\<lambda>t. case t of
     Struct n flag sz ms \<Rightarrow> if ms = [] then None else Some (n, sz, ms)
   | Other _ _ _ _ _ \<Rightarrow> None) ts"

definition first_member :: "BtfMember list \<Rightarrow> string \<Rightarrow> 32 word option" where
  "first_member ms f = map_option (byte_offset \<circ> bm_offset) (find (\<lambda>m. bm_name m = f) ms)"

definition last_member :: "BtfMember list \<Rightarrow> string \<Rightarrow> 32 word option" where
  "last_member ms f = first_member (rev ms) f"

definition inside :: "32 word \<times> BtfMember list \<Rightarrow> string \<Rightarrow> 32 word option" where
  "inside s f = (case first_member (snd s) f of
     Some off \<Rightarrow> if off < fst s then Some off else None | None \<Rightarrow> None)"

definition inside_or_end :: "32 word \<times> BtfMember list \<Rightarrow> string \<Rightarrow> 32 word option" where
  "inside_or_end s f = (case first_member (snd s) f of
     Some off \<Rightarrow> if off \<le> fst s then Some off else None | None \<Rightarrow> None)"

text \<open>The struct of a name is the last one with members.\<close>

definition struct_of :: "BtfType list \<Rightarrow> string \<Rightarrow> (32 word \<times> BtfMember list) option" where
  "struct_of ts n = map_of (rev (structs ts)) n"

definition kernel_member :: "BtfType list \<Rightarrow> string \<times> string \<Rightarrow> 32 word option" where
  "kernel_member ts fl = Option.bind (struct_of ts (fst fl)) (\<lambda>s. inside s (snd fl))"

definition kernel_ns_member :: "BtfType list \<Rightarrow> string \<times> string \<Rightarrow> 32 word option" where
  "kernel_ns_member ts fl = Option.bind (struct_of ts (fst fl)) (\<lambda>s. inside_or_end s (snd fl))"

definition required_member :: "32 word \<times> BtfMember list \<Rightarrow> string \<Rightarrow> string + 32 word" where
  "required_member s f = (case first_member (snd s) f of
     None \<Rightarrow> Err (''member '' @ f @ '' not found'')
   | Some off \<Rightarrow> if off < fst s then Ok off else Err ''resolved member offset exceeds struct size'')"

definition task_members :: "32 word \<times> BtfMember list \<Rightarrow> string + TaskStructOffsets" where
  "task_members s = select_task_members (fst s) (map (last_member (snd s)) TASK_FIELDS)"

definition signal_members :: "32 word \<times> BtfMember list \<Rightarrow> string + (32 word \<times> 32 word)" where
  "signal_members s = and_then (required_member s ''live'') (\<lambda>live.
     and_then (required_member s ''group_exit_code'') (\<lambda>code. Ok (live, code)))"

definition struct_error :: "string \<times> 32 word \<times> BtfMember list \<Rightarrow> string option" where
  "struct_error s =
     (if fst s = ''task_struct'' then (case task_members (snd s) of Inl e \<Rightarrow> Some e | Inr _ \<Rightarrow> None)
      else if fst s = ''signal_struct'' then (case signal_members (snd s) of Inl e \<Rightarrow> Some e | Inr _ \<Rightarrow> None)
      else None)"

primrec first_error :: "(string \<times> 32 word \<times> BtfMember list) list \<Rightarrow> string option" where
  "first_error [] = None"
| "first_error (s # ss) = (case struct_error s of Some e \<Rightarrow> Some e | None \<Rightarrow> first_error ss)"

definition kernel_offsets :: "BtfType list \<Rightarrow> string + TaskStructOffsets" where
  "kernel_offsets ts =
     (case first_error (structs ts) of Some e \<Rightarrow> Err e | None \<Rightarrow>
       (case struct_of ts ''task_struct'' of
           None \<Rightarrow> Err ''struct task_struct not found in BTF''
         | Some t \<Rightarrow>
             (case struct_of ts ''signal_struct'' of
                 None \<Rightarrow> Err ''required signal_struct members not found in BTF''
               | Some s \<Rightarrow> and_then (task_members t) (\<lambda>offsets. and_then (signal_members s) (\<lambda>sig.
                   Ok (offsets\<lparr>
                     ts_fd_ident := those (map (kernel_member ts) (FD_CHAIN_FIELDS @
                       [(''inode'', ''i_ino''), (''inode'', ''i_sb''), (''super_block'', ''s_dev'')])),
                     ts_tty := those (map (kernel_member ts) TTY_FIELDS),
                     ts_exec_view := those (map (kernel_member ts) EXEC_VIEW_FIELDS),
                     ts_namespaces := from_resolved (map (kernel_ns_member ts) NS_FIELDS)
                       (map_option fst (struct_of ts ''upid'')),
                     ts_signal_live := fst sig, ts_signal_group_exit_code := snd sig\<rparr>))))))"

section \<open>Reading an image\<close>

definition holds_at :: "Reader \<Rightarrow> nat \<Rightarrow> bytes \<Rightarrow> bool" where
  "holds_at r pos bs \<longleftrightarrow> (\<exists>pre post. rd_buf r = pre @ bs @ post \<and> length pre = pos)"

lemma holds_at_append: "holds_at r pos (a @ b) \<longleftrightarrow> holds_at r pos a \<and> holds_at r (pos + length a) b"
proof
  assume "holds_at r pos (a @ b)"
  then obtain pre post where b: "rd_buf r = pre @ (a @ b) @ post" "length pre = pos"
    unfolding holds_at_def by blast
  have "rd_buf r = pre @ a @ (b @ post)" "rd_buf r = (pre @ a) @ b @ post" "length (pre @ a) = pos + length a"
    using b by simp_all
  then show "holds_at r pos a \<and> holds_at r (pos + length a) b"
    unfolding holds_at_def using b(2) by blast
next
  assume "holds_at r pos a \<and> holds_at r (pos + length a) b"
  then obtain pre post pre' post' where
    a: "rd_buf r = pre @ a @ post" "length pre = pos" and
    b: "rd_buf r = pre' @ b @ post'" "length pre' = pos + length a"
    unfolding holds_at_def by blast
  have "take (pos + length a) (rd_buf r) = pre @ a" using a(2) by (simp add: a(1))
  moreover have "take (pos + length a) (rd_buf r) = pre'" using b(2) by (simp add: b(1))
  ultimately have "pre' = pre @ a" by simp
  then have "rd_buf r = pre @ (a @ b) @ post'" using b(1) by simp
  then show "holds_at r pos (a @ b)" unfolding holds_at_def using a(2) by blast
qed

lemma length_word_bytes [simp]: "length (word_bytes little x) = 4"
  by (simp add: word_bytes_def)

lemma length_member_bytes [simp]: "length (member_bytes little loc m) = 12"
  by (simp add: member_bytes_def)

lemma reader_u32_holds: "holds_at r pos (word_bytes (rd_little_endian r) x) \<Longrightarrow> reader_u32 r pos = Ok x"
  by (auto simp: holds_at_def reader_u32_def word_bytes_def le_word_u32)

text \<open>The string section: \<open>sb\<close> is where it starts in the buffer.\<close>

definition strings_at :: "Reader \<Rightarrow> nat \<Rightarrow> bytes \<Rightarrow> bool" where
  "strings_at r sb strs \<longleftrightarrow> (\<exists>pre. rd_buf r = pre @ strs \<and> length pre = sb) \<and> sb < 2 ^ 63"

lemma str_at_holds:
  assumes "strings_at r sb strs" "name_in strs loc s"
  shows "str_at r sb (loc s) = Ok s"
proof -
  obtain pre where buf: "rd_buf r = pre @ strs" "length pre = sb" and sb: "sb < 2 ^ 63"
    using assms(1) unfolding strings_at_def by blast
  let ?b = "bytes_of_str s"
  have b: "nul_free ?b" "valid_utf8 ?b" and t: "take (length ?b + 1) (drop (unat (loc s)) strs) = ?b @ [0]"
    using assms(2) by (auto simp: name_in_def Let_def)
  obtain rest where rest: "drop (unat (loc s)) strs = ?b @ 0 # rest"
    using t by (metis append_Cons append_Nil append_assoc append_take_drop_id)
  have "unat (loc s) < length strs"
    using rest by (metis append_is_Nil_conv drop_all list.distinct(1) not_le)
  moreover have "unat (loc s) < 2 ^ 32" using unsigned_less[of "loc s"] by simp
  ultimately show ?thesis
    using buf sb rest b by (simp add: str_at_def checked_add_def until_nul_append)
qed

lemma member_reads:
  assumes "holds_at r pos (member_bytes (rd_little_endian r) loc m @ rest)"
    "strings_at r sb strs" "name_in strs loc (bm_name m)"
  shows "reader_u32 r pos = Ok (loc (bm_name m))" "str_at r sb (loc (bm_name m)) = Ok (bm_name m)"
    "reader_u32 r (pos + 8) = Ok (bm_offset m)" "holds_at r (pos + 12) rest"
  using assms by (simp_all add: holds_at_append member_bytes_def reader_u32_holds str_at_holds add.assoc)

abbreviation members_bytes :: "Reader \<Rightarrow> (string \<Rightarrow> 32 word) \<Rightarrow> BtfMember list \<Rightarrow> bytes" where
  "members_bytes r loc ms \<equiv> concat (map (member_bytes (rd_little_endian r) loc) ms)"

lemma member_offset_holds:
  assumes "strings_at r sb strs"
  shows "holds_at r pos (members_bytes r loc ms) \<Longrightarrow> list_all (\<lambda>m. name_in strs loc (bm_name m)) ms \<Longrightarrow>
    member_offset r sb wanted (length ms) pos = Ok (first_member ms wanted)"
proof (induction ms arbitrary: pos)
  case (Cons m ms)
  then show ?case
    using member_reads[of r pos loc m "members_bytes r loc ms", OF _ assms]
    by (simp add: first_member_def)
qed (simp add: first_member_def)

lemma read_named_member_holds:
  assumes "strings_at r sb strs"
  shows "holds_at r pos (members_bytes r loc ms) \<Longrightarrow> list_all (\<lambda>m. name_in strs loc (bm_name m)) ms \<Longrightarrow>
    read_named_member r sb sz wanted (length ms) pos = required_member (sz, ms) wanted"
proof (induction ms arbitrary: pos)
  case (Cons m ms)
  then show ?case
    using member_reads[of r pos loc m "members_bytes r loc ms", OF _ assms]
    by (auto simp: required_member_def first_member_def not_less o_def split: option.splits)
qed (simp add: required_member_def first_member_def)

lemma map2_then:
  "map2 g xs (map2 f xs ys) = map2 (\<lambda>x y. g x (f x y)) xs ys"
proof (induction xs arbitrary: ys)
  case (Cons x xs)
  then show ?case by (cases ys) auto
qed simp

lemma last_member_Cons:
  "last_member (m # ms) f = (case last_member ms f of Some v \<Rightarrow> Some v
     | None \<Rightarrow> if bm_name m = f then Some (byte_offset (bm_offset m)) else None)"
proof -
  have "find P (xs @ ys) = (case find P xs of Some v \<Rightarrow> Some v | None \<Rightarrow> find P ys)" for P and xs ys :: "BtfMember list"
    by (induction xs) auto
  then show ?thesis by (simp add: last_member_def first_member_def split: option.splits)
qed

lemma scan_task_members_holds:
  assumes "strings_at r sb strs"
  shows "holds_at r pos (members_bytes r loc ms) \<Longrightarrow> list_all (\<lambda>m. name_in strs loc (bm_name m)) ms \<Longrightarrow>
    length slots = length TASK_FIELDS \<Longrightarrow>
    scan_task_members r sb (length ms) pos slots =
      Ok (map2 (\<lambda>f old. case last_member ms f of Some v \<Rightarrow> Some v | None \<Rightarrow> old) TASK_FIELDS slots)"
proof (induction ms arbitrary: pos slots)
  case Nil
  then show ?case by (simp add: last_member_def first_member_def list_eq_iff_nth_eq)
next
  case (Cons m ms)
  have eq: "(\<lambda>f old. case last_member (m # ms) f of Some v \<Rightarrow> Some v | None \<Rightarrow> old) =
    (\<lambda>f old. case last_member ms f of Some v \<Rightarrow> Some v
       | None \<Rightarrow> if bm_name m = f then Some (byte_offset (bm_offset m)) else old)"
    by (auto simp: fun_eq_iff last_member_Cons split: option.splits)
  show ?case
    using Cons member_reads[of r pos loc m "members_bytes r loc ms", OF _ assms]
    by (simp add: map2_then eq)
qed

lemma read_task_members_holds:
  assumes "strings_at r sb strs" "holds_at r pos (members_bytes r loc ms)"
    "list_all (\<lambda>m. name_in strs loc (bm_name m)) ms"
  shows "read_task_members r sb pos (length ms) sz = task_members (sz, ms)"
proof -
  have "map2 (\<lambda>f old. case last_member ms f of Some v \<Rightarrow> Some v | None \<Rightarrow> old) fs
      (replicate (length fs) None) = map (last_member ms) fs" for fs
    by (induction fs) (auto split: option.splits)
  then show ?thesis
    using scan_task_members_holds[OF assms]
    by (simp add: read_task_members_def task_members_def)
qed

section \<open>The walk over an image\<close>

text \<open>What one struct does to the results.\<close>

definition set_fields ::
  "(32 word \<times> BtfMember list \<Rightarrow> string \<Rightarrow> 32 word option) \<Rightarrow> string \<times> 32 word \<times> BtfMember list \<Rightarrow>
     (string \<times> string) list \<Rightarrow> 32 word option list \<Rightarrow> 32 word option list" where
  "set_fields get s flds slots =
     map2 (\<lambda>fl old. if fst s = fst fl then get (snd s) (snd fl) else old) flds slots"

definition struct_effect :: "string \<times> 32 word \<times> BtfMember list \<Rightarrow> Walk \<Rightarrow> Walk" where
  "struct_effect s w =
     \<lparr>wk_task_offsets = (if fst s = ''task_struct'' then result_ok (task_members (snd s)) else wk_task_offsets w),
      wk_view_offsets = set_fields inside s EXEC_VIEW_FIELDS (wk_view_offsets w),
      wk_fd_offsets = set_fields inside s FD_CHAIN_FIELDS (wk_fd_offsets w),
      wk_tty_offsets = set_fields inside s TTY_FIELDS (wk_tty_offsets w),
      wk_ns_offsets = set_fields inside_or_end s NS_FIELDS (wk_ns_offsets w),
      wk_upid_size = (if fst s = ''upid'' then Some (fst (snd s)) else wk_upid_size w),
      wk_signal_offsets = (if fst s = ''signal_struct'' then result_ok (signal_members (snd s))
        else wk_signal_offsets w)\<rparr>"

lemma result_ok_required [simp]: "result_ok (required_member s f) = inside s f"
  by (auto simp: result_ok_def required_member_def inside_def split: option.splits)

lemma resolve_fields_holds:
  "resolve_fields n (required_member (sz, ms)) flds slots = set_fields inside (n, sz, ms) flds slots"
  by (simp add: resolve_fields_def set_fields_def split_beta)

lemma resolve_ns_fields_holds:
  "resolve_ns_fields n (\<lambda>f. Ok (first_member ms f)) sz flds slots =
     Ok (set_fields inside_or_end (n, sz, ms) flds slots)"
proof (induction flds arbitrary: slots)
  case (Cons fl flds)
  then show ?case
    by (cases fl; cases slots)
      (auto simp: set_fields_def inside_or_end_def split: option.splits)
qed (simp add: set_fields_def)

lemma walk_struct_holds:
  assumes strs: "strings_at r sb strs" and "name_in strs loc n"
    and ms: "holds_at r (pos + 12) (members_bytes r loc ms)" "list_all (\<lambda>m. name_in strs loc (bm_name m)) ms"
    and sz: "reader_u32 r (pos + 8) = Ok sz"
  shows "walk_struct r sb (pos + 12) (length ms) (loc n) w =
    (case struct_error (n, sz, ms) of Some e \<Rightarrow> Err e | None \<Rightarrow> Ok (struct_effect (n, sz, ms) w))"
proof -
  have n: "str_at r sb (loc n) = Ok n" using str_at_holds assms(1,2) .
  have rd: "(\<lambda>f. read_named_member r sb sz f (length ms) (pos + 12)) = required_member (sz, ms)"
    using read_named_member_holds[OF strs ms] by (simp add: fun_eq_iff)
  have mo: "(\<lambda>f. member_offset r sb f (length ms) (pos + 12)) = (\<lambda>f. Ok (first_member ms f))"
    using member_offset_holds[OF strs ms] by (simp add: fun_eq_iff)
  have sz': "reader_u32 r (pos + 12 - 4) = Ok sz" using sz by (simp add: add.commute)
  show ?thesis
    unfolding walk_struct_def n sz' and_then_simps Let_def rd mo resolve_fields_holds
      resolve_ns_fields_holds read_task_members_holds[OF strs ms]
    by (cases w) (simp add: fun_cong[OF rd] struct_error_def struct_effect_def signal_members_def and_then_def result_ok_def
        split: sum.splits)
qed

definition effects :: "(string \<times> 32 word \<times> BtfMember list) list \<Rightarrow> Walk \<Rightarrow> Walk" where
  "effects ss w = fold struct_effect ss w"

lemma type_info_reads:
  assumes "vlen < 65536" "kind < 32"
  shows "unat (type_info flag kind vlen AND 0xffff) = vlen"
    "drop_bit 24 (type_info flag kind vlen) AND 0x1f = of_nat kind"
proof -
  let ?n = "vlen + kind * 2 ^ 24 + (if flag then 2 ^ 31 else 0)"
  have u: "unat (type_info flag kind vlen) = ?n"
    unfolding type_info_def unat_of_nat using assms by (cases flag) simp_all
  have m: "unat (x AND mask k) = unat x mod 2 ^ k" for x :: "32 word" and k
    by (simp only: take_bit_eq_mask[symmetric] unsigned_take_bit_eq) (simp only: take_bit_eq_mod)
  have d: "unat (drop_bit k x) = unat x div 2 ^ k" for x :: "32 word" and k
    by (subst unsigned_drop_bit_eq) (simp only: take_bit_nat_eq_self[OF unsigned_less] drop_bit_eq_div)
  have "unat (type_info flag kind vlen AND mask 16) = ?n mod 2 ^ 16" by (simp only: m u)
  moreover have "?n mod 2 ^ 16 = vlen"
    using assms by (cases flag) (simp_all add: mod_add_eq[symmetric] mod_mult_right_eq)
  ultimately show "unat (type_info flag kind vlen AND 0xffff) = vlen"
    by (simp add: mask_eq_exp_minus_1)
  have "unat (drop_bit 24 (type_info flag kind vlen) AND mask 5) = (?n div 2 ^ 24) mod 2 ^ 5"
    by (simp only: m d u)
  moreover have "(?n div 2 ^ 24) mod 2 ^ 5 = kind"
  proof -
    have "?n = vlen + (kind + (if flag then 128 else 0)) * 2 ^ 24" by simp
    then have "?n div 2 ^ 24 = kind + (if flag then 128 else 0)"
      using assms(1) by (simp only: div_mult_self2 div_mult_self1) simp
    moreover have "(kind + 4 * 32) mod 32 = kind" using assms(2) by (simp only: mod_mult_self1 mod_less)
    ultimately show ?thesis using assms(2) by simp
  qed
  ultimately show "drop_bit 24 (type_info flag kind vlen) AND 0x1f = of_nat kind"
    using assms by (simp add: word_unat_eq_iff mask_eq_exp_minus_1 unat_of_nat)
qed

lemma length_trail: "length (concat (map (word_bytes little) ws)) = 4 * length ws"
  by (induction ws) simp_all

lemma length_members: "length (concat (map (member_bytes little loc) ms)) = 12 * length ms"
  by (induction ms) simp_all

abbreviation types_bytes :: "Reader \<Rightarrow> (string \<Rightarrow> 32 word) \<Rightarrow> BtfType list \<Rightarrow> bytes" where
  "types_bytes r loc ts \<equiv> concat (map (type_bytes (rd_little_endian r) loc) ts)"

lemma walk_type_holds:
  assumes strs: "strings_at r sb strs" and wf: "wf_type strs loc t"
    and t: "holds_at r pos (type_bytes (rd_little_endian r) loc t)" and len: "pos < 2 ^ 63"
  shows "walk_type r sb pos w =
    (case first_error (structs [t]) of Some e \<Rightarrow> Err e
     | None \<Rightarrow> Ok (pos + length (type_bytes (rd_little_endian r) loc t), effects (structs [t]) w))"
proof (cases t)
  case (Struct n flag sz ms)
  have reads: "reader_u32 r pos = Ok (loc n)" "reader_u32 r (pos + 4) = Ok (type_info flag 4 (length ms))"
    "reader_u32 r (pos + 8) = Ok sz" "holds_at r (pos + 12) (members_bytes r loc ms)"
    using t Struct by (simp_all add: holds_at_append reader_u32_holds add.assoc)
  have names: "name_in strs loc n" "list_all (\<lambda>m. name_in strs loc (bm_name m)) ms" "length ms < 65536"
    using wf Struct by simp_all
  show ?thesis
    using walk_struct_holds[OF strs names(1) reads(4) names(2) reads(3), of w] reads(1,2) names(3) len
    by (simp add: walk_type_def type_info_reads Struct BTF_KIND_STRUCT_def checked_add_def trailing_len_def
        length_members structs_def map_filter_simps effects_def split: option.splits)
next
  case (Other n kind vlen sz trail)
  have reads: "reader_u32 r pos = Ok (loc n)" "reader_u32 r (pos + 4) = Ok (type_info False (unat kind) vlen)"
    using t Other by (simp_all add: holds_at_append reader_u32_holds add.assoc)
  have k: "vlen < 65536" "unat kind < 32" "kind \<noteq> BTF_KIND_STRUCT" "4 * length trail = trailing_len kind vlen"
    using wf Other by (auto simp: word_less_nat_alt)
  have "trailing_len kind vlen \<le> 65536 * 12" using k(1) by (auto simp: trailing_len_def)
  then show ?thesis
    using reads k len
    by (simp add: walk_type_def type_info_reads Other checked_add_def length_trail structs_def
        map_filter_simps effects_def)
qed

lemma structs_Cons: "structs (t # ts) = structs [t] @ structs ts"
  by (simp add: structs_def map_filter_def)

lemma first_error_append:
  "first_error (a @ b) = (case first_error a of Some e \<Rightarrow> Some e | None \<Rightarrow> first_error b)"
  by (induction a) (auto split: option.splits)

lemma type_bytes_pos: "12 \<le> length (type_bytes little loc t)"
  by (cases t) simp_all

lemma btf_walk_holds:
  assumes strs: "strings_at r sb strs"
  shows "list_all (wf_type strs loc) ts \<Longrightarrow> holds_at r pos (types_bytes r loc ts) \<Longrightarrow>
    pos + length (types_bytes r loc ts) < 2 ^ 63 \<Longrightarrow>
    btf_walk r sb (pos + length (types_bytes r loc ts)) pos w =
      Some (case first_error (structs ts) of Some e \<Rightarrow> Err e | None \<Rightarrow> Ok (effects (structs ts) w))"
proof (induction ts arbitrary: pos w)
  case Nil
  show ?case by (subst btf_walk.simps) (simp add: structs_def map_filter_def effects_def)
next
  case (Cons t ts)
  let ?b = "type_bytes (rd_little_endian r) loc t"
  have step: "walk_type r sb pos w = (case first_error (structs [t]) of Some e \<Rightarrow> Err e
      | None \<Rightarrow> Ok (pos + length ?b, effects (structs [t]) w))"
    using Cons.prems by (intro walk_type_holds[OF strs]) (simp_all add: holds_at_append)
  have rec: "btf_walk r sb (pos + (length ?b + length (types_bytes r loc ts))) (pos + length ?b) w' =
      Some (case first_error (structs ts) of Some e \<Rightarrow> Err e | None \<Rightarrow> Ok (effects (structs ts) w'))" for w'
    using Cons.IH[of "pos + length ?b" w'] Cons.prems by (simp add: holds_at_append add.assoc)
  show ?case
    by (subst btf_walk.simps)
      (use type_bytes_pos[of "rd_little_endian r" loc t] in
        \<open>simp add: step rec structs_Cons[of t ts] first_error_append effects_def add.assoc split: option.splits\<close>)
qed

text \<open>After the walk every field has the value of the last struct of its owner's name.\<close>

lemma fold_last_struct:
  "fold (\<lambda>s old. if fst s = k then f (snd s) else old) ss old =
     (case map_of (rev ss) k of Some x \<Rightarrow> f x | None \<Rightarrow> old)"
  by (induction ss arbitrary: old) (auto simp: map_add_def split: option.splits)

lemma map_of_rev_Cons:
  "map_of (rev ((n, x) # ss)) k = (case map_of (rev ss) k of Some y \<Rightarrow> Some y
     | None \<Rightarrow> if n = k then Some x else None)"
  by (simp add: map_add_def split: option.splits)

lemma fold_set_fields:
  assumes "length slots = length flds"
  shows "fold (\<lambda>s. set_fields get s flds) ss slots =
    map2 (\<lambda>fl old. case map_of (rev ss) (fst fl) of Some s \<Rightarrow> get s (snd fl) | None \<Rightarrow> old) flds slots"
  using assms
proof (induction ss arbitrary: slots)
  case Nil
  then show ?case by (simp add: list_eq_iff_nth_eq)
next
  case (Cons s ss)
  obtain n x where s: "s = (n, x)" by (cases s)
  have "length (set_fields get s flds slots) = length flds"
    using Cons.prems by (simp add: set_fields_def)
  then have "fold (\<lambda>s. set_fields get s flds) (s # ss) slots =
      map2 (\<lambda>fl old. case map_of (rev ss) (fst fl) of Some s \<Rightarrow> get s (snd fl) | None \<Rightarrow> old) flds
        (set_fields get s flds slots)"
    using Cons.IH by simp
  also have "\<dots> = map2 (\<lambda>fl old. case map_of (rev (s # ss)) (fst fl) of Some s \<Rightarrow> get s (snd fl) | None \<Rightarrow> old)
      flds slots"
    unfolding set_fields_def map2_then s map_of_rev_Cons
    by (intro map_cong refl) (auto split: option.splits)
  finally show ?case .
qed

lemma effects_fields:
  "wk_view_offsets (effects ss w) = fold (\<lambda>s. set_fields inside s EXEC_VIEW_FIELDS) ss (wk_view_offsets w)"
  "wk_fd_offsets (effects ss w) = fold (\<lambda>s. set_fields inside s FD_CHAIN_FIELDS) ss (wk_fd_offsets w)"
  "wk_tty_offsets (effects ss w) = fold (\<lambda>s. set_fields inside s TTY_FIELDS) ss (wk_tty_offsets w)"
  "wk_ns_offsets (effects ss w) = fold (\<lambda>s. set_fields inside_or_end s NS_FIELDS) ss (wk_ns_offsets w)"
  "wk_task_offsets (effects ss w) =
     fold (\<lambda>s old. if fst s = ''task_struct'' then result_ok (task_members (snd s)) else old) ss (wk_task_offsets w)"
  "wk_signal_offsets (effects ss w) =
     fold (\<lambda>s old. if fst s = ''signal_struct'' then result_ok (signal_members (snd s)) else old) ss (wk_signal_offsets w)"
  "wk_upid_size (effects ss w) =
     fold (\<lambda>s old. if fst s = ''upid'' then Some (fst (snd s)) else old) ss (wk_upid_size w)"
  unfolding effects_def by (induction ss arbitrary: w) (simp_all add: struct_effect_def)

lemma map2_from_none:
  "map2 (\<lambda>x old. case g x of Some s \<Rightarrow> f s x | None \<Rightarrow> old) xs (replicate (length xs) None) =
     map (\<lambda>x. Option.bind (g x) (\<lambda>s. f s x)) xs"
  by (induction xs) (auto split: option.splits)

lemma set_fields_from_none:
  assumes "k = length flds"
  shows "fold (\<lambda>s. set_fields get s flds) (structs ts) (replicate k None) =
    map (\<lambda>fl. Option.bind (struct_of ts (fst fl)) (\<lambda>s. get s (snd fl))) flds"
  using fold_set_fields[of "replicate k None" flds get "structs ts"] assms
    map2_from_none[where g = "\<lambda>fl. struct_of ts (fst fl)" and f = "\<lambda>s fl. get s (snd fl)" and xs = flds]
  by (simp add: struct_of_def)

lemma kernel_member_alt: "kernel_member ts = (\<lambda>fl. Option.bind (struct_of ts (fst fl)) (\<lambda>s. inside s (snd fl)))"
  "kernel_ns_member ts = (\<lambda>fl. Option.bind (struct_of ts (fst fl)) (\<lambda>s. inside_or_end s (snd fl)))"
  by (simp_all add: fun_eq_iff kernel_member_def kernel_ns_member_def)

lemma no_error_struct:
  assumes "first_error ss = None" "map_of (rev ss) n = Some x"
  shows "struct_error (n, x) = None"
proof -
  have "(n, x) \<in> set ss" using map_of_SomeD[OF assms(2)] by simp
  with assms(1) show ?thesis by (induction ss) (auto split: option.splits)
qed

lemma walk_result_effects:
  assumes "first_error (structs ts) = None"
  shows "walk_result (effects (structs ts) walk_start) = kernel_offsets ts"
proof -
  let ?w = "effects (structs ts) walk_start"
  have lens: "14 = length EXEC_VIEW_FIELDS" "5 = length FD_CHAIN_FIELDS" "3 = length TTY_FIELDS"
    by (simp_all add: EXEC_VIEW_FIELDS_def FD_CHAIN_FIELDS_def TTY_FIELDS_def)
  have view: "wk_view_offsets ?w = map (kernel_member ts) EXEC_VIEW_FIELDS"
    and fd: "wk_fd_offsets ?w = map (kernel_member ts) FD_CHAIN_FIELDS"
    and tty: "wk_tty_offsets ?w = map (kernel_member ts) TTY_FIELDS"
    and ns: "wk_ns_offsets ?w = map (kernel_ns_member ts) NS_FIELDS"
    by (simp_all only: effects_fields walk_start_def Walk.simps kernel_member_alt
        set_fields_from_none[OF lens(1)] set_fields_from_none[OF lens(2)]
        set_fields_from_none[OF lens(3)] set_fields_from_none[OF refl])
  have single: "wk_task_offsets ?w = Option.bind (struct_of ts ''task_struct'') (\<lambda>s. result_ok (task_members s))"
    "wk_signal_offsets ?w = Option.bind (struct_of ts ''signal_struct'') (\<lambda>s. result_ok (signal_members s))"
    "wk_upid_size ?w = map_option fst (struct_of ts ''upid'')"
    using fold_last_struct[where f = "\<lambda>s. result_ok (task_members s)" and ss = "structs ts"]
      fold_last_struct[where f = "\<lambda>s. result_ok (signal_members s)" and ss = "structs ts"]
      fold_last_struct[where f = "\<lambda>s. Some (fst s)" and ss = "structs ts"]
    by (simp_all add: effects_fields walk_start_def struct_of_def split: option.splits)
  have view3: "take 3 (drop 6 EXEC_VIEW_FIELDS) =
      [(''inode'', ''i_ino''), (''inode'', ''i_sb''), (''super_block'', ''s_dev'')]"
    by (simp add: EXEC_VIEW_FIELDS_def)
  have task: "\<exists>v. task_members t = Ok v" if "struct_of ts ''task_struct'' = Some t" for t
    using no_error_struct[OF assms that[unfolded struct_of_def]]
    by (simp add: struct_error_def split: sum.splits)
  have signal: "\<exists>v. signal_members t = Ok v" if "struct_of ts ''signal_struct'' = Some t" for t
    using no_error_struct[OF assms that[unfolded struct_of_def]]
    by (simp add: struct_error_def split: sum.splits)
  show ?thesis
    unfolding walk_result_def kernel_offsets_def assms view fd tty ns single take_map drop_map view3
    using task signal
    by (auto simp: result_ok_def split: option.splits)
qed

lemma magic_bytes: "le_bytes 2 BTF_MAGIC = [0x9f, 0xeb]"
proof -
  have "le_bytes (Suc (Suc 0)) 0xeb9f = [0x9f, 0xeb]" by simp
  then show ?thesis by (simp only: numeral_2_eq_2 BTF_MAGIC_def)
qed

lemma length_image_preamble [simp]: "length (image_preamble little) = 4"
  by (simp add: image_preamble_def)

lemma length_image_header [simp]: "length (image_header little n k) = 24"
  by (simp add: image_header_def)

lemma image_sections:
  assumes len: "length types < 2 ^ 32"
    and buf: "buf = image_header little (length types) k @ types @ strs"
  shows "parse_task_offsets buf = map_option (\<lambda>res. and_then res walk_result)
      (btf_walk \<lparr>rd_buf = buf, rd_little_endian = little\<rparr>
        (24 + length types) (24 + length types) 24 walk_start)"
proof -
  let ?r = "\<lparr>rd_buf = buf, rd_little_endian = little\<rparr>"
  have magic: "take 2 buf = (if little then [0x9f, 0xeb] else [0xeb, 0x9f])"
    by (simp add: buf image_header_def image_preamble_def magic_bytes)
  have "holds_at ?r 0 (image_header little (length types) k)"
    unfolding holds_at_def by (intro exI[of _ "[]"] exI[of _ "types @ strs"]) (simp add: buf)
  then have "reader_u32 ?r 4 = Ok 24" "reader_u32 ?r 8 = Ok 0"
    "reader_u32 ?r 12 = Ok (of_nat (length types))" "reader_u32 ?r 16 = Ok (of_nat (length types))"
    by (simp_all add: image_header_def holds_at_append reader_u32_holds)
  then have "parse_sections ?r = Ok (24, 24 + length types, 24 + length types)"
    using len by (simp add: parse_sections_def checked_add_def unat_of_nat buf)
  moreover have "le_nat [0x9f, 0xeb] = BTF_MAGIC" "le_nat [0xeb, 0x9f] \<noteq> BTF_MAGIC"
    by (simp_all add: BTF_MAGIC_def)
  ultimately show ?thesis
    unfolding parse_task_offsets_def magic
    by (cases little) (simp_all add: buf BTF_HEADER_LEN_def Let_def)
qed

lemma image_offsets:
  assumes "wf_image little loc ts strs"
  shows "parse_task_offsets (btf_image little loc ts strs) = Some (kernel_offsets ts)"
proof -
  let ?types = "concat (map (type_bytes little loc) ts)"
  let ?buf = "btf_image little loc ts strs"
  let ?r = "\<lparr>rd_buf = ?buf, rd_little_endian = little\<rparr>"
  have wf: "list_all (wf_type strs loc) ts" and len: "length ?types < 2 ^ 32"
    using assms by (simp_all add: wf_image_def)
  have buf: "?buf = image_header little (length ?types) (length strs) @ ?types @ strs"
    by (simp only: btf_image_def Let_def)
  have "holds_at ?r 24 ?types" unfolding holds_at_def buf
    by (intro exI[of _ "image_header little (length ?types) (length strs)"] exI[of _ strs]) simp
  moreover have "strings_at ?r (24 + length ?types) strs"
    unfolding strings_at_def buf using len
    by (intro conjI exI[of _ "image_header little (length ?types) (length strs) @ ?types"]) simp_all
  ultimately show ?thesis
    unfolding image_sections[OF len buf]
    using btf_walk_holds[of ?r "24 + length ?types" strs loc ts 24 walk_start] wf len
    by (auto simp: kernel_offsets_def walk_result_effects split: option.splits)
qed


text \<open>A small kernel: both required structs, the terminal structs and nothing else.\<close>

definition sample_member :: "string \<Rightarrow> 32 word \<Rightarrow> BtfMember" where
  "sample_member f off = \<lparr>bm_name = f, bm_type = 1, bm_offset = off * 8\<rparr>"

definition sample_task :: "BtfMember list" where
  "sample_task = [sample_member ''tgid'' 24, sample_member ''pid'' 20, sample_member ''loginuid'' 4,
     sample_member ''sessionid'' 8, sample_member ''group_leader'' 32, sample_member ''start_boottime'' 40,
     sample_member ''signal'' 48, sample_member ''exit_code'' 56, sample_member ''comm'' 60]"

definition sample_signal :: "BtfMember list" where
  "sample_signal = [sample_member ''live'' 4, sample_member ''group_exit_code'' 12]"

definition sample_kernel :: "BtfType list" where
  "sample_kernel = [Other ''int'' 1 0 4 [0], Struct ''task_struct'' False 76 sample_task,
     Struct ''signal_struct'' True 16 sample_signal]"

definition sample_strings :: bytes where
  "sample_strings = join_nul (map bytes_of_str [[], ''tgid'', ''pid'', ''loginuid'', ''sessionid'',
     ''group_leader'', ''start_boottime'', ''signal'', ''exit_code'', ''comm'', ''live'', ''group_exit_code'',
     ''task_struct'', ''signal_struct'']) @ [0]"

definition sample_loc :: "string \<Rightarrow> 32 word" where
  "sample_loc s = (case map_of [(''tgid'', 1), (''pid'', 6), (''loginuid'', 10), (''sessionid'', 19),
     (''group_leader'', 29), (''start_boottime'', 42), (''signal'', 57), (''exit_code'', 64), (''comm'', 74),
     (''live'', 79), (''group_exit_code'', 84), (''task_struct'', 100), (''signal_struct'', 112)] s of
     Some n \<Rightarrow> n | None \<Rightarrow> 0)"

lemma sample_names: "list_all (name_in sample_strings sample_loc)
  [''tgid'', ''pid'', ''loginuid'', ''sessionid'', ''group_leader'', ''start_boottime'', ''signal'',
   ''exit_code'', ''comm'', ''live'', ''group_exit_code'', ''task_struct'', ''signal_struct'']"
  by code_simp

lemma sample_wf: "wf_image little sample_loc sample_kernel sample_strings"
  using sample_names
  by (simp add: wf_image_def sample_kernel_def sample_task_def sample_signal_def sample_member_def
      BTF_KIND_STRUCT_def trailing_len_def)

lemma sample_struct_of: "struct_of sample_kernel ''task_struct'' = Some (76, sample_task)"
  "struct_of sample_kernel ''signal_struct'' = Some (16, sample_signal)"
  "structs sample_kernel = [(''task_struct'', 76, sample_task), (''signal_struct'', 16, sample_signal)]"
  by (simp_all add: struct_of_def structs_def sample_kernel_def sample_task_def sample_signal_def map_filter_simps)

lemma sample_task_members: "task_members (76, sample_task) = Ok (task_offsets_of [4, 8, 24, 20, 32, 40, 48, 56, 60])"
  by code_simp

lemma sample_signal_members: "signal_members (16, sample_signal) = Ok (4, 12)"
  by code_simp


text \<open>
  C12: The reader ends on every input: no buffer, however corrupt its section offsets,
  counts or names, keeps it walking.
\<close>

theorem btf_reader_terminates: "\<exists>res. parse_task_offsets buf = Some res"
  using btf_walk_total
  by (auto simp: parse_task_offsets_def Let_def split: sum.splits prod.splits)

section \<open>Namespace support\<close>

lemma bit_support_mask:
  assumes "b + length slots \<le> 32"
  shows "bit (support_mask fs u b slots acc) i \<longleftrightarrow>
    bit acc i \<or> b \<le> i \<and> i < b + length slots \<and> slot_supported fs u (slots ! (i - b))"
  using assms
proof (induction slots arbitrary: b acc)
  case (Cons needed slots)
  show ?case
    using Cons.prems Cons.IH[of "Suc b"]
    by (cases "i = b") (auto simp: bit_simps nth_Cons' Suc_le_eq)
qed auto

lemma bit_supported:
  "bit (no_supported (from_resolved fs u)) i \<longleftrightarrow> i < 8 \<and> slot_supported fs u (NS_SLOT_FIELDS ! i)"
proof -
  have "length NS_SLOT_FIELDS = 8" by (simp add: NS_SLOT_FIELDS_def)
  then show ?thesis by (simp add: from_resolved_def bit_support_mask)
qed

end
