(* ===== verification/KernelOffsets.thy ===== *)
theory KernelOffsets
  imports BtfFacts BpfCore
begin

unbundle bit_operations_syntax

text \<open>
  The globals with which \<open>loader.rs\<close> loads the object, from the kernel's BTF to the
  offsets that the programs add to a task pointer.
\<close>

section \<open>Globals of the loaded object\<close>

definition unwrap_or_zeros :: "nat \<Rightarrow> 32 word list option \<Rightarrow> 32 word list" where
  "unwrap_or_zeros n offs = (case offs of None \<Rightarrow> replicate n 0 | Some v \<Rightarrow> v)"

definition object_globals :: "32 word \<Rightarrow> 32 word \<Rightarrow> TaskStructOffsets \<Rightarrow> Globals" where
  "object_globals uid daemon_pid off =
     \<lparr>TARGET_AUID = uid, DAEMON_PID = daemon_pid,
      OFF_LOGINUID = ts_loginuid off, OFF_SESSIONID = ts_sessionid off, OFF_TGID = ts_tgid off,
      OFF_PID = ts_pid off, OFF_GROUP_LEADER = ts_group_leader off,
      OFF_START_BOOTTIME = ts_start_boottime off, OFF_SIGNAL = ts_signal off,
      OFF_EXIT_CODE = ts_exit_code off, OFF_COMM = ts_comm off,
      OFF_SIGNAL_LIVE = ts_signal_live off,
      OFF_SIGNAL_GROUP_EXIT_CODE = ts_signal_group_exit_code off,
      OFF_EXEC_VIEW = unwrap_or_zeros 14 (ts_exec_view off),
      EXEC_VIEW_SUPPORTED = (if ts_exec_view off \<noteq> None then 1 else 0),
      OFF_FD_IDENT = unwrap_or_zeros 8 (ts_fd_ident off),
      FD_IDENT_SUPPORTED = (if ts_fd_ident off \<noteq> None then 1 else 0),
      OFF_TTY = unwrap_or_zeros 3 (ts_tty off),
      TTY_SUPPORTED = (if ts_tty off \<noteq> None then 1 else 0),
      OFF_NS = no_offsets (ts_namespaces off), NS_SUPPORTED = no_supported (ts_namespaces off)\<rparr>"

definition load_globals :: "32 word \<Rightarrow> 32 word \<Rightarrow> string + bytes \<Rightarrow> (string + Globals) option" where
  "load_globals uid daemon_pid file =
     map_option (\<lambda>res. and_then res (\<lambda>off. Ok (object_globals uid daemon_pid off))) (read_and_parse file)"

section \<open>Offsets are the kernel's own\<close>

lemma those_eq: "those xs = (if list_all (\<lambda>x. x \<noteq> None) xs then Some (map the xs) else None)"
  by (induction xs) (auto split: option.splits)

text \<open>A table of optional fields: supported exactly when every one resolves, and then exact.\<close>

definition table_exact :: "('f \<Rightarrow> 32 word option) \<Rightarrow> 'f list \<Rightarrow> 32 word \<Rightarrow> 32 word list \<Rightarrow> bool" where
  "table_exact resolve flds supported offs \<longleftrightarrow>
     (if list_all (\<lambda>fl. resolve fl \<noteq> None) flds
      then supported = 1 \<and> map Some offs = map resolve flds
      else supported = 0 \<and> list_all (\<lambda>v. v = 0) offs)"

lemma table_exact_those:
  "table_exact f flds (if those (map f flds) \<noteq> None then 1 else 0) (unwrap_or_zeros n (those (map f flds)))"
proof -
  have "map Some (map (the \<circ> f) flds) = map f flds" if "list_all (\<lambda>fl. f fl \<noteq> None) flds"
    using that by (induction flds) auto
  then show ?thesis
    by (simp add: table_exact_def those_eq unwrap_or_zeros_def list_all_iff o_def)
qed

lemma require_fields_Ok:
  "require_fields fs slots = Ok vs \<Longrightarrow> length slots = length fs \<Longrightarrow> slots = map Some vs"
  by (induction fs slots arbitrary: vs rule: require_fields.induct) auto

lemma check_bounds_Ok:
  "check_bounds sz fs vs = Ok () \<Longrightarrow> length vs = length fs \<Longrightarrow> list_all (\<lambda>v. v < sz) vs"
  by (induction sz fs vs rule: check_bounds.induct) (auto split: if_splits)

lemma task_members_Ok:
  assumes "task_members (sz, ms) = Ok t"
  obtains vs where "t = task_offsets_of vs" "map (last_member ms) TASK_FIELDS = map Some vs"
    "list_all (\<lambda>v. v < sz) vs"
proof -
  from assms obtain vs where vs: "require_fields TASK_FIELDS (map (last_member ms) TASK_FIELDS) = Ok vs"
    "check_bounds sz TASK_FIELDS vs = Ok ()" "t = task_offsets_of vs"
    by (auto simp: task_members_def select_task_members_def)
  have eq: "map (last_member ms) TASK_FIELDS = map Some vs" using require_fields_Ok[OF vs(1)] by simp
  then have "length vs = length TASK_FIELDS" by (metis length_map)
  then show ?thesis using that[OF vs(3) eq] check_bounds_Ok[OF vs(2)] by simp
qed

text \<open>The nine required offsets of the task, by field name.\<close>

definition task_globals :: "Globals \<Rightarrow> (string \<times> 32 word) list" where
  "task_globals g = zip TASK_FIELDS [OFF_LOGINUID g, OFF_SESSIONID g, OFF_TGID g, OFF_PID g,
     OFF_GROUP_LEADER g, OFF_START_BOOTTIME g, OFF_SIGNAL g, OFF_EXIT_CODE g, OFF_COMM g]"

definition signal_globals :: "Globals \<Rightarrow> (string \<times> 32 word) list" where
  "signal_globals g = [(''live'', OFF_SIGNAL_LIVE g), (''group_exit_code'', OFF_SIGNAL_GROUP_EXIT_CODE g)]"

lemma task_globals_exact:
  assumes "map (last_member ms) TASK_FIELDS = map Some vs" "list_all (\<lambda>v. v < sz) vs"
    and "ts_loginuid off = vs ! 0" "ts_sessionid off = vs ! 1" "ts_tgid off = vs ! 2" "ts_pid off = vs ! 3"
      "ts_group_leader off = vs ! 4" "ts_start_boottime off = vs ! 5" "ts_signal off = vs ! 6"
      "ts_exit_code off = vs ! 7" "ts_comm off = vs ! 8"
  shows "list_all (\<lambda>(f, v). last_member ms f = Some v \<and> v < sz) (task_globals (object_globals uid pid off))"
proof -
  obtain a b c d e f g h i where vs: "vs = [a, b, c, d, e, f, g, h, i]"
    using assms(1) by (auto simp: TASK_FIELDS_def map_eq_Cons_conv)
  show ?thesis using assms unfolding vs by (simp add: task_globals_def object_globals_def TASK_FIELDS_def)
qed

lemma signal_members_Ok:
  assumes "signal_members (sz, ms) = Ok (live, code)"
  shows "first_member ms ''live'' = Some live \<and> live < sz"
    "first_member ms ''group_exit_code'' = Some code \<and> code < sz"
  using assms by (auto simp: signal_members_def required_member_def split: option.splits if_splits)

definition FD_IDENT_FIELDS :: "(string \<times> string) list" where
  "FD_IDENT_FIELDS = FD_CHAIN_FIELDS @
     [(''inode'', ''i_ino''), (''inode'', ''i_sb''), (''super_block'', ''s_dev'')]"

lemma kernel_offsets_Ok:
  assumes "kernel_offsets ts = Ok off"
  obtains sz ms ssz sms t live code where
    "struct_of ts ''task_struct'' = Some (sz, ms)" "task_members (sz, ms) = Ok t"
    "struct_of ts ''signal_struct'' = Some (ssz, sms)" "signal_members (ssz, sms) = Ok (live, code)"
    "off = t\<lparr>ts_fd_ident := those (map (kernel_member ts) FD_IDENT_FIELDS),
       ts_tty := those (map (kernel_member ts) TTY_FIELDS),
       ts_exec_view := those (map (kernel_member ts) EXEC_VIEW_FIELDS),
       ts_namespaces := from_resolved (map (kernel_ns_member ts) NS_FIELDS)
         (map_option fst (struct_of ts ''upid'')),
       ts_signal_live := live, ts_signal_group_exit_code := code\<rparr>"
  using assms by (auto simp: kernel_offsets_def FD_IDENT_FIELDS_def split: option.splits)

definition globals_exact :: "BtfType list \<Rightarrow> Globals \<Rightarrow> bool" where
  "globals_exact ts g \<longleftrightarrow>
     (case (struct_of ts ''task_struct'', struct_of ts ''signal_struct'') of
        (Some (sz, ms), Some (ssz, sms)) \<Rightarrow>
          list_all (\<lambda>(f, v). last_member ms f = Some v \<and> v < sz) (task_globals g) \<and>
          list_all (\<lambda>(f, v). first_member sms f = Some v \<and> v < ssz) (signal_globals g)
      | _ \<Rightarrow> False) \<and>
     table_exact (kernel_member ts) EXEC_VIEW_FIELDS (EXEC_VIEW_SUPPORTED g) (OFF_EXEC_VIEW g) \<and>
     table_exact (kernel_member ts) FD_IDENT_FIELDS (FD_IDENT_SUPPORTED g) (OFF_FD_IDENT g) \<and>
     table_exact (kernel_member ts) TTY_FIELDS (TTY_SUPPORTED g) (OFF_TTY g) \<and>
     list_all (\<lambda>slot. bit (NS_SUPPORTED g) slot \<longleftrightarrow>
        list_all (\<lambda>i. kernel_ns_member ts (NS_FIELDS ! i) = Some (OFF_NS g ! i)) (NS_SLOT_FIELDS ! slot) \<and>
        (slot \<noteq> 6 \<or> OFF_NS g ! NS_UPID_SIZE_INDEX \<noteq> 0)) [0..<8]"

lemma namespaces_exact:
  assumes "slot < 8"
  shows "bit (no_supported (from_resolved (map res NS_FIELDS) u)) slot \<longleftrightarrow>
    list_all (\<lambda>i. res (NS_FIELDS ! i) = Some (no_offsets (from_resolved (map res NS_FIELDS) u) ! i))
      (NS_SLOT_FIELDS ! slot) \<and>
    (slot \<noteq> 6 \<or> no_offsets (from_resolved (map res NS_FIELDS) u) ! NS_UPID_SIZE_INDEX \<noteq> 0)"
proof -
  let ?offs = "no_offsets (from_resolved (map res NS_FIELDS) u)"
  have len: "length NS_FIELDS = 21" by (simp add: NS_FIELDS_def)
  have field: "map res NS_FIELDS ! i \<noteq> None \<longleftrightarrow> res (NS_FIELDS ! i) = Some (?offs ! i)" if "i < 21" for i
    using that by (auto simp: from_resolved_def nth_append len split: option.splits)
  have upid: "?offs ! NS_UPID_SIZE_INDEX = (case u of None \<Rightarrow> 0 | Some n \<Rightarrow> n)"
    by (simp add: from_resolved_def nth_append len NS_UPID_SIZE_INDEX_def)
  have bounds: "list_all (\<lambda>i. i < 21) (NS_SLOT_FIELDS ! slot) \<and> (9 \<in> set (NS_SLOT_FIELDS ! slot) \<longleftrightarrow> slot = 6)"
  proof -
    have "list_all (\<lambda>s. list_all (\<lambda>i. i < 21) (NS_SLOT_FIELDS ! s) \<and>
        (9 \<in> set (NS_SLOT_FIELDS ! s) \<longleftrightarrow> s = 6)) [0..<8]" by code_simp
    then show ?thesis using assms by (simp add: list_all_iff)
  qed
  then have "list_all (\<lambda>i. map res NS_FIELDS ! i \<noteq> None) (NS_SLOT_FIELDS ! slot) \<longleftrightarrow>
      list_all (\<lambda>i. res (NS_FIELDS ! i) = Some (?offs ! i)) (NS_SLOT_FIELDS ! slot)"
    using field by (auto simp: list_all_iff)
  then show ?thesis
    using bounds assms unfolding bit_supported slot_supported_def upid
    by (auto simp: word_gt_0 split: option.splits)
qed

text \<open>
  C17: When the object is loaded, every offset it is given is the offset of the member it
  is named after in the running kernel's own types, inside its struct; an optional group
  of offsets is marked supported exactly when all its members resolve and is zero
  otherwise, and a namespace slot exactly when every member on its path resolves.
\<close>

theorem loaded_offsets_exact:
  assumes "wf_image little loc ts strs"
    and "load_globals uid pid (Ok (btf_image little loc ts strs)) = Some (Ok g)"
  shows "globals_exact ts g"
proof -
  obtain off where off: "kernel_offsets ts = Ok off" and g: "g = object_globals uid pid off"
    using assms(2) image_offsets[OF assms(1)]
    by (auto simp: load_globals_def read_and_parse_def split: sum.splits)
  from kernel_offsets_Ok[OF off] obtain sz ms ssz sms t live code where
    t: "struct_of ts ''task_struct'' = Some (sz, ms)" "task_members (sz, ms) = Ok t" and
    s: "struct_of ts ''signal_struct'' = Some (ssz, sms)" "signal_members (ssz, sms) = Ok (live, code)" and
    off': "off = t\<lparr>ts_fd_ident := those (map (kernel_member ts) FD_IDENT_FIELDS),
       ts_tty := those (map (kernel_member ts) TTY_FIELDS),
       ts_exec_view := those (map (kernel_member ts) EXEC_VIEW_FIELDS),
       ts_namespaces := from_resolved (map (kernel_ns_member ts) NS_FIELDS)
         (map_option fst (struct_of ts ''upid'')),
       ts_signal_live := live, ts_signal_group_exit_code := code\<rparr>" .
  from task_members_Ok[OF t(2)] obtain vs where
    vs: "t = task_offsets_of vs" "map (last_member ms) TASK_FIELDS = map Some vs" "list_all (\<lambda>v. v < sz) vs" .
  have "list_all (\<lambda>(f, v). last_member ms f = Some v \<and> v < sz) (task_globals g)"
    unfolding g by (rule task_globals_exact[OF vs(2,3)]) (simp_all add: off' vs(1) task_offsets_of_def)
  moreover have "list_all (\<lambda>(f, v). first_member sms f = Some v \<and> v < ssz) (signal_globals g)"
    using signal_members_Ok[OF s(2)] by (simp add: g off' signal_globals_def object_globals_def)
  ultimately show ?thesis
    unfolding globals_exact_def t(1) s(1)
    using namespaces_exact
    by (simp add: g off' object_globals_def table_exact_those[simplified] list_all_iff)
qed

lemma sample_namespaces: "map (kernel_ns_member sample_kernel) NS_FIELDS = replicate (length NS_FIELDS) None"
  "no_supported (from_resolved (replicate (length NS_FIELDS) None) None) = 0"
  by code_simp+

theorem loaded_offsets_exact_witness:
  "\<exists>g. load_globals 1000 77 (Ok (btf_image True sample_loc sample_kernel sample_strings)) = Some (Ok g) \<and>
     globals_exact sample_kernel g \<and> OFF_TGID g = 24 \<and> TTY_SUPPORTED g = 0 \<and> NS_SUPPORTED g = 0"
proof -
  have "\<exists>off. kernel_offsets sample_kernel = Ok off \<and> ts_tgid off = 24 \<and> ts_tty off = None \<and>
      no_supported (ts_namespaces off) = 0"
    by (simp add: kernel_offsets_def sample_struct_of struct_error_def sample_task_members
        sample_signal_members task_offsets_of_def TTY_FIELDS_def kernel_member_def sample_namespaces
        struct_of_def)
  then obtain off where off: "kernel_offsets sample_kernel = Ok off" "ts_tgid off = 24" "ts_tty off = None"
    "no_supported (ts_namespaces off) = 0" by blast
  have l: "load_globals 1000 77 (Ok (btf_image True sample_loc sample_kernel sample_strings)) =
      Some (Ok (object_globals 1000 77 off))"
    by (simp add: load_globals_def read_and_parse_def image_offsets[OF sample_wf] off)
  show ?thesis
    using l loaded_offsets_exact[OF sample_wf l] off
    by (intro exI[of _ "object_globals 1000 77 off"]) (simp add: object_globals_def)
qed

end
