(* ===== verification/Elf.thy ===== *)
theory Elf
  imports Usdt
begin

text \<open>
  The ELF reader of \<open>bloodhound/src/usdt.rs\<close>: it reads the pieces that make a static
  probe safe to attach (build ID, \<open>.note.stapsdt\<close>, loadable segments) and
  \<open>verify_target\<close> decides whether a collector may be attached to a file.  Offsets are
  \<open>u64\<close> values; a \<open>usize\<close> has 64 bits.
\<close>

section \<open>Slices and integers\<close>

text \<open>An error of the reader; \<open>Panic\<close> is an index out of range, which no caller handles.\<close>

datatype fault = Message string | NotUtf8 | Panic

definition get_range :: "bytes \<Rightarrow> nat \<Rightarrow> nat \<Rightarrow> bytes option" where
  "get_range data a b = (if a \<le> b \<and> b \<le> length data then Some (take (b - a) (drop a data)) else None)"

definition ok_or :: "string \<Rightarrow> 'a option \<Rightarrow> fault + 'a" where
  "ok_or msg v = (case v of None \<Rightarrow> Err (Message msg) | Some x \<Rightarrow> Ok x)"

definition add_or :: "string \<Rightarrow> nat \<Rightarrow> nat \<Rightarrow> fault + nat" where
  "add_or msg a b = (if a + b < 2 ^ 64 then Ok (a + b) else Err (Message msg))"

definition endian :: "bool \<Rightarrow> bytes \<Rightarrow> bytes" where
  "endian little b = (if little then b else rev b)"

definition read_u16 :: "bytes \<Rightarrow> bool \<Rightarrow> fault + 16 word" where
  "read_u16 b little = (if length b = 2 then Ok (le_word (endian little b)) else Err (Message ''short u16''))"

definition read_u32 :: "bytes \<Rightarrow> bool \<Rightarrow> fault + 32 word" where
  "read_u32 b little = (if length b = 4 then Ok (le_word (endian little b)) else Err (Message ''short u32''))"

definition read_u64 :: "bytes \<Rightarrow> bool \<Rightarrow> fault + 64 word" where
  "read_u64 b little = (if length b = 8 then Ok (le_word (endian little b)) else Err (Message ''short u64''))"

definition slice_at :: "bytes \<Rightarrow> 64 word \<Rightarrow> 64 word \<Rightarrow> fault + bytes" where
  "slice_at data off len =
     and_then (add_or ''ELF range overflow'' (unat off) (unat len)) (\<lambda>stop.
       ok_or ''truncated ELF data'' (get_range data (unat off) stop))"

definition align4 :: "nat \<Rightarrow> fault + nat" where
  "align4 v = and_then (add_or ''ELF note alignment overflow'' v 3) (\<lambda>x. Ok (x div 4 * 4))"

definition c_string :: "bytes \<Rightarrow> string option" where
  "c_string b = (let s = until_nul b in if valid_utf8 s then Some (str_of_bytes s) else None)"

definition take_c_string :: "bytes \<Rightarrow> fault + (string \<times> bytes)" where
  "take_c_string b =
     (if 0 \<notin> set b then Err (Message ''unterminated USDT string'')
      else (let s = until_nul b in
        if valid_utf8 s then Ok (str_of_bytes s, drop (length s + 1) b) else Err NotUtf8))"

definition hex :: "bytes \<Rightarrow> string" where
  "hex b = concat (map hex_byte b)"

section \<open>Notes\<close>

record Note =
  nt_name :: string
  nt_kind :: "32 word"
  nt_desc :: bytes

text \<open>One turn of the loop of \<open>parse_notes\<close>: the note at an offset and the offset after it.\<close>

definition note_at :: "bytes \<Rightarrow> bool \<Rightarrow> nat \<Rightarrow> fault + (Note \<times> nat)" where
  "note_at data little off =
     (if length data - off < 12 then Err (Message ''truncated note header'')
      else
        and_then (read_u32 (take 4 (drop off data)) little) (\<lambda>namesz.
        and_then (read_u32 (take 4 (drop (off + 4) data)) little) (\<lambda>descsz.
        and_then (read_u32 (take 4 (drop (off + 8) data)) little) (\<lambda>kind.
        and_then (add_or ''note name overflow'' (off + 12) (unat namesz)) (\<lambda>name_end.
        and_then (ok_or ''truncated note name'' (get_range data (off + 12) name_end)) (\<lambda>raw_name.
        and_then (ok_or ''note name is not UTF-8'' (c_string raw_name)) (\<lambda>name.
        and_then (align4 name_end) (\<lambda>desc_start.
        and_then (add_or ''note descriptor overflow'' desc_start (unat descsz)) (\<lambda>desc_end.
        and_then (ok_or ''truncated note descriptor'' (get_range data desc_start desc_end)) (\<lambda>desc.
        and_then (align4 desc_end) (\<lambda>nxt.
          Ok (\<lparr>nt_name = name, nt_kind = kind, nt_desc = desc\<rparr>, nxt))))))))))))"

lemma align4_ge: "align4 v = Ok x \<Longrightarrow> v \<le> x"
  by (auto simp: align4_def add_or_def split: if_splits)

lemma note_at_advances:
  assumes "note_at data little off = Ok (n, nxt)"
  shows "off < nxt"
  using assms
  by (auto simp: note_at_def add_or_def split: if_splits dest!: align4_ge)

function parse_notes_from :: "bytes \<Rightarrow> bool \<Rightarrow> nat \<Rightarrow> fault + Note list" where
  "parse_notes_from data little off =
     (if off < length data then
        (case note_at data little off of
            Inl e \<Rightarrow> Err e
          | Inr (n, nxt) \<Rightarrow> and_then (parse_notes_from data little nxt) (\<lambda>ns. Ok (n # ns)))
      else Ok [])"
  by pat_completeness auto
termination
proof (relation "measure (\<lambda>(data, little, off). length data - off)", goal_cases)
  case (2 data little off x n nxt)
  then show ?case using note_at_advances[of data little off n nxt] by auto
qed simp

declare parse_notes_from.simps [simp del]

definition parse_notes :: "bytes \<Rightarrow> bool \<Rightarrow> fault + Note list" where
  "parse_notes data little = parse_notes_from data little 0"

section \<open>The file\<close>

record ElfView =
  ev_data :: bytes
  ev_class :: byte
  ev_little_endian :: bool
  ev_machine :: "16 word"
  ev_section_offset :: "64 word"
  ev_section_size :: "16 word"
  ev_section_count :: "16 word"
  ev_section_strings :: "16 word"
  ev_program_offset :: "64 word"
  ev_program_size :: "16 word"
  ev_program_count :: "16 word"

definition header_at :: "bytes \<Rightarrow> nat \<Rightarrow> nat \<Rightarrow> fault + bytes" where
  "header_at data off width =
     and_then (add_or ''ELF header range overflow'' off width) (\<lambda>stop.
       ok_or ''truncated ELF header'' (get_range data off stop))"

definition ELF_MAGIC :: bytes where "ELF_MAGIC = [0x7f, 0x45, 0x4c, 0x46]"

definition elf_parse :: "bytes \<Rightarrow> fault + ElfView" where
  "elf_parse data =
     (if length data < 64 \<or> take 4 data \<noteq> ELF_MAGIC then Err (Message ''not an ELF file'')
      else if data ! 5 \<noteq> 1 \<and> data ! 5 \<noteq> 2 then Err (Message ''unknown ELF endian'')
      else if data ! 4 \<noteq> 1 \<and> data ! 4 \<noteq> 2 then Err (Message ''unknown ELF class'')
      else
        (let little = (data ! 5 = 1);
             u16_at = (\<lambda>off. and_then (header_at data off 2) (\<lambda>b. read_u16 b little));
             u32_at = (\<lambda>off. and_then (header_at data off 4) (\<lambda>b. read_u32 b little));
             u64_at = (\<lambda>off. and_then (header_at data off 8) (\<lambda>b. read_u64 b little));
             wide = (data ! 4 = 2);
             word_at = (\<lambda>off64 off32. if wide then u64_at off64
               else and_then (u32_at off32) (\<lambda>w. Ok (ucast w)));
             half_at = (\<lambda>off64 off32. u16_at (if wide then off64 else off32)) in
         and_then (word_at 32 28) (\<lambda>program_offset.
         and_then (word_at 40 32) (\<lambda>section_offset.
         and_then (half_at 54 42) (\<lambda>program_size.
         and_then (half_at 56 44) (\<lambda>program_count.
         and_then (half_at 58 46) (\<lambda>section_size.
         and_then (half_at 60 48) (\<lambda>section_count.
         and_then (half_at 62 50) (\<lambda>section_strings.
         and_then (u16_at 18) (\<lambda>machine.
           Ok \<lparr>ev_data = data, ev_class = data ! 4, ev_little_endian = little, ev_machine = machine,
              ev_section_offset = section_offset, ev_section_size = section_size,
              ev_section_count = section_count, ev_section_strings = section_strings,
              ev_program_offset = program_offset, ev_program_size = program_size,
              ev_program_count = program_count\<rparr>))))))))))"

record Section =
  sc_name :: "32 word"
  sc_offset :: "64 word"
  sc_size :: "64 word"

definition section_field :: "bytes \<Rightarrow> nat \<Rightarrow> nat \<Rightarrow> fault + bytes" where
  "section_field b off width =
     and_then (add_or ''section field range overflow'' off width) (\<lambda>stop.
       ok_or ''truncated section'' (get_range b off stop))"

definition elf_section :: "ElfView \<Rightarrow> nat \<Rightarrow> fault + Section" where
  "elf_section v index =
     (if index \<ge> unat (ev_section_count v) \<or> ev_section_size v = 0
      then Err (Message ''section index out of range'')
      else
        and_then (add_or ''section table overflow'' (unat (ev_section_offset v))
            (index * unat (ev_section_size v))) (\<lambda>off.
        and_then (add_or ''section table range overflow'' off (unat (ev_section_size v))) (\<lambda>stop.
        and_then (ok_or ''truncated section table'' (get_range (ev_data v) off stop)) (\<lambda>b.
          let little = ev_little_endian v;
              u32_at = (\<lambda>off. and_then (section_field b off 4) (\<lambda>f. read_u32 f little));
              u64_at = (\<lambda>off. and_then (section_field b off 8) (\<lambda>f. read_u64 f little));
              word_at = (\<lambda>off64 off32. if ev_class v = 2 then u64_at off64
                else and_then (u32_at off32) (\<lambda>w. Ok (ucast w))) in
          and_then (u32_at 0) (\<lambda>name.
          and_then (word_at 24 16) (\<lambda>sec_off.
          and_then (word_at 32 20) (\<lambda>sec_size.
            Ok \<lparr>sc_name = name, sc_offset = sec_off, sc_size = sec_size\<rparr>)))))))"

fun section_among :: "ElfView \<Rightarrow> bytes \<Rightarrow> string \<Rightarrow> nat list \<Rightarrow> fault + bytes option" where
  "section_among v names wanted [] = Ok None"
| "section_among v names wanted (index # rest) =
     and_then (elf_section v index) (\<lambda>sec.
       let tail = (if unat (sc_name sec) \<le> length names then drop (unat (sc_name sec)) names else []) in
       if c_string tail = Some wanted
       then and_then (slice_at (ev_data v) (sc_offset sec) (sc_size sec)) (\<lambda>b. Ok (Some b))
       else section_among v names wanted rest)"

definition section_named :: "ElfView \<Rightarrow> string \<Rightarrow> fault + bytes option" where
  "section_named v wanted =
     and_then (elf_section v (unat (ev_section_strings v))) (\<lambda>strings.
     and_then (slice_at (ev_data v) (sc_offset strings) (sc_size strings)) (\<lambda>names.
       section_among v names wanted [0..<unat (ev_section_count v)]))"

definition build_id :: "ElfView \<Rightarrow> string option" where
  "build_id v =
     Option.bind (Option.bind (result_ok (section_named v ''.note.gnu.build-id'')) id) (\<lambda>notes.
     Option.bind (result_ok (parse_notes notes (ev_little_endian v))) (\<lambda>ns.
       map_option (\<lambda>n. hex (nt_desc n)) (find (\<lambda>n. nt_name n = ''GNU'' \<and> nt_kind n = 3) ns)))"

section \<open>Static probes\<close>

record StapsdtProbe =
  sp_provider :: string
  sp_name :: string
  sp_operands :: string
  sp_file_offset :: "64 word"
  sp_semaphore_address :: "64 word"
  sp_semaphore_file_offset :: "32 word option"

text \<open>The program header at an index.\<close>

definition program_entry :: "ElfView \<Rightarrow> nat \<Rightarrow> fault + bytes" where
  "program_entry v index =
     and_then (add_or ''program table overflow'' (unat (ev_program_offset v))
         (index * unat (ev_program_size v))) (\<lambda>off.
     and_then (add_or ''program table range overflow'' off (unat (ev_program_size v))) (\<lambda>stop.
       ok_or ''truncated program table'' (get_range (ev_data v) off stop)))"

text \<open>
  The three fields of a loadable segment, taken by indexing the header: one that is too
  short panics.
\<close>

definition segment_fields :: "ElfView \<Rightarrow> bytes \<Rightarrow> fault + (64 word \<times> 64 word \<times> 64 word)" where
  "segment_fields v entry =
     (let wide = (ev_class v = 2);
          width = (if wide then 8 else 4);
          field_at = (\<lambda>off64 off32.
            let off = (if wide then off64 else off32) in
            if off + width > length entry then Err Panic
            else if wide then read_u64 (take 8 (drop off entry)) (ev_little_endian v)
            else and_then (read_u32 (take 4 (drop off entry)) (ev_little_endian v)) (\<lambda>w. Ok (ucast w))) in
      and_then (field_at 8 4) (\<lambda>file_offset.
      and_then (field_at 16 8) (\<lambda>virtual_address.
      and_then (field_at 32 16) (\<lambda>file_size. Ok (file_offset, virtual_address, file_size)))))"

fun offset_among :: "ElfView \<Rightarrow> 64 word \<Rightarrow> nat list \<Rightarrow> fault + 64 word" where
  "offset_among v address [] = Err (Message ''USDT location is outside a loadable ELF segment'')"
| "offset_among v address (index # rest) =
     and_then (program_entry v index) (\<lambda>entry.
     and_then (ok_or ''program header is too short'' (get_range entry 0 4)) (\<lambda>b.
     and_then (read_u32 b (ev_little_endian v)) (\<lambda>typ.
       if typ \<noteq> 1 then offset_among v address rest
       else and_then (segment_fields v entry) (\<lambda>(file_offset, virtual_address, file_size).
         if virtual_address \<le> address \<and> address < saturating_add virtual_address file_size
         then and_then (add_or ''USDT file offset overflow'' (unat file_offset)
                (unat (address - virtual_address))) (\<lambda>off. Ok (of_nat off))
         else offset_among v address rest))))"

definition virtual_to_file_offset :: "ElfView \<Rightarrow> 64 word \<Rightarrow> fault + 64 word" where
  "virtual_to_file_offset v address = offset_among v address [0..<unat (ev_program_count v)]"

definition parse_stapsdt :: "ElfView \<Rightarrow> bytes \<Rightarrow> fault + StapsdtProbe" where
  "parse_stapsdt v desc =
     (let wide = (ev_class v = 2); width = (if wide then 8 else 4) in
      if length desc < width * 3 then Err (Message ''short stapsdt descriptor'')
      else
        (let number = (\<lambda>off. if wide then read_u64 (take 8 (drop off desc)) (ev_little_endian v)
               else and_then (read_u32 (take 4 (drop off desc)) (ev_little_endian v)) (\<lambda>w. Ok (ucast w))) in
         and_then (number 0) (\<lambda>location.
         and_then (number width) (\<lambda>_.
         and_then (number (width * 2)) (\<lambda>semaphore_address.
         and_then (take_c_string (drop (width * 3) desc)) (\<lambda>(provider, rest).
         and_then (take_c_string rest) (\<lambda>(name, rest).
         and_then (take_c_string rest) (\<lambda>(operands, _).
         and_then (virtual_to_file_offset v location) (\<lambda>file_offset.
         and_then
           (if semaphore_address = 0 then Ok None
            else and_then (virtual_to_file_offset v semaphore_address) (\<lambda>off.
              if unat off < 2 ^ 32 then Ok (Some (ucast off))
              else Err (Message ''USDT semaphore offset exceeds kernel uprobe ABI'')))
           (\<lambda>semaphore_file_offset.
              Ok \<lparr>sp_provider = provider, sp_name = name, sp_operands = operands,
                 sp_file_offset = file_offset, sp_semaphore_address = semaphore_address,
                 sp_semaphore_file_offset = semaphore_file_offset\<rparr>))))))))))"

text \<open>\<open>collect\<close> on results: the first error.\<close>

fun collect_results :: "('a \<Rightarrow> 'e + 'b) \<Rightarrow> 'a list \<Rightarrow> 'e + 'b list" where
  "collect_results f [] = Ok []"
| "collect_results f (x # xs) =
     and_then (f x) (\<lambda>y. and_then (collect_results f xs) (\<lambda>ys. Ok (y # ys)))"

definition stapsdt_probes :: "ElfView \<Rightarrow> fault + StapsdtProbe list" where
  "stapsdt_probes v =
     and_then (section_named v ''.note.stapsdt'') (\<lambda>found.
     and_then (ok_or ''no .note.stapsdt'' found) (\<lambda>notes.
     and_then (parse_notes notes (ev_little_endian v)) (\<lambda>ns.
       collect_results (\<lambda>n. parse_stapsdt v (nt_desc n)) (filter (\<lambda>n. nt_name n = ''stapsdt'') ns))))"

section \<open>Verification of a target\<close>

text \<open>A refusal with its reason; a panic of the reader is not a refusal.\<close>

datatype refusal = Refused ReasonCode | Panicked

definition map_fault :: "ReasonCode \<Rightarrow> fault + 'a \<Rightarrow> refusal + 'a" where
  "map_fault reason r = (case r of Inr x \<Rightarrow> Ok x | Inl Panic \<Rightarrow> Err Panicked | Inl _ \<Rightarrow> Err (Refused reason))"

text \<open>\<open>verify_target\<close> on the outcome of opening and reading the target.\<close>

definition verify_target :: "CollectorMetadata \<Rightarrow> bytes option \<Rightarrow> refusal + StapsdtProbe list" where
  "verify_target metadata file =
     (case file of None \<Rightarrow> Err (Refused TargetBuildIdMismatch) | Some data \<Rightarrow>
       and_then (map_fault AbiIncompatible (elf_parse data)) (\<lambda>elf.
         if ev_machine elf \<noteq> elf_machine (cm_architecture metadata)
         then Err (Refused UnsupportedArchitecture)
         else (case build_id elf of None \<Rightarrow> Err (Refused TargetBuildIdMismatch) | Some bid \<Rightarrow>
           if bid \<notin> set (cm_build_ids metadata) then Err (Refused TargetBuildIdMismatch)
           else and_then (map_fault AbiIncompatible (stapsdt_probes elf)) (\<lambda>probes.
             let matching = filter (\<lambda>p. sp_provider p = cm_provider metadata \<and>
                   sp_name p = cm_probe metadata) probes in
             if matching = [] then Err (Refused ProbeNotFound)
             else if list_ex (\<lambda>p. sp_operands p \<noteq> cm_operands metadata) matching
             then Err (Refused AbiIncompatible)
             else if list_ex (\<lambda>p. sp_semaphore_address p \<noteq> 0 \<and> sp_semaphore_file_offset p = None) matching
             then Err (Refused SemaphoreUnavailable)
             else Ok matching))))"

end
