(* ===== verification/ElfFacts.thy ===== *)
theory ElfFacts
  imports Elf
begin

text \<open>
  Correctness of the ELF reader: the notes of a section are read back, a verified target
  is what the collector's metadata asks for, and the one way in which the reader panics.
\<close>

section \<open>Notes\<close>

definition u32_bytes :: "bool \<Rightarrow> nat \<Rightarrow> bytes" where
  "u32_bytes little n = endian little (le_bytes 4 n)"

definition padded :: "bytes \<Rightarrow> bytes" where
  "padded b = b @ replicate ((4 - length b mod 4) mod 4) 0"

text \<open>A note as linkers write it: sizes, kind, the NUL-terminated name, the descriptor.\<close>

definition note_bytes :: "bool \<Rightarrow> Note \<Rightarrow> bytes" where
  "note_bytes little n =
     (let name = bytes_of_str (nt_name n) @ [0] in
      u32_bytes little (length name) @ u32_bytes little (length (nt_desc n)) @
      u32_bytes little (unat (nt_kind n)) @ padded name @ padded (nt_desc n))"

definition wf_note :: "Note \<Rightarrow> bool" where
  "wf_note n \<longleftrightarrow> nul_free (bytes_of_str (nt_name n)) \<and> valid_utf8 (bytes_of_str (nt_name n)) \<and>
     length (nt_name n) + 1 < 2 ^ 32 \<and> length (nt_desc n) < 2 ^ 32"

lemma length_u32_bytes [simp]: "length (u32_bytes little n) = 4"
  by (simp add: u32_bytes_def endian_def)

lemma read_u32_bytes: "n < 2 ^ 32 \<Longrightarrow> read_u32 (u32_bytes little n) little = Ok (of_nat n)"
  by (simp add: read_u32_def u32_bytes_def endian_def le_word_def le_nat_le_bytes)

lemma read_u32_word: "read_u32 (u32_bytes little (unat w)) little = Ok w"
  using read_u32_bytes[of "unat w" little] unsigned_less[of w] by simp

lemma round_up_4: "(k + (4 - k mod 4) mod 4 :: nat) = (k + 3) div 4 * 4"
proof -
  define q r where "q = k div 4" and "r = k mod 4"
  have k: "k = 4 * q + r" and "r < 4" by (simp_all add: q_def r_def)
  then consider "r = 0" | "r = 1" | "r = 2" | "r = 3" by linarith
  then show ?thesis
    by cases (simp_all add: k mod_Suc)
qed

lemma length_padded: "length (padded b) = (length b + 3) div 4 * 4"
  by (simp add: padded_def round_up_4)

lemma c_string_name:
  assumes "nul_free (bytes_of_str s)" "valid_utf8 (bytes_of_str s)"
  shows "c_string (bytes_of_str s @ [0]) = Some s"
  using assms until_nul_append[of "bytes_of_str s" "[]"] by (simp add: c_string_def)

lemma align4_eq: "v < 2 ^ 62 \<Longrightarrow> align4 v = Ok ((v + 3) div 4 * 4)"
  by (simp add: align4_def add_or_def)

lemma get_range_inner: "get_range (a @ b @ c) (length a) (length a + length b) = Some b"
  by (simp add: get_range_def)

lemma aligned_sum:
  assumes "a mod 4 = (0 :: nat)"
  shows "(a + b + 3) div 4 * 4 = a + (b + 3) div 4 * 4"
proof -
  obtain q where "a = 4 * q" using assms by (metis mod_0_imp_dvd dvdE)
  then show ?thesis using div_mult_self4[of 4 q "b + 3"] by (simp add: add.assoc algebra_simps)
qed

lemma note_at_bytes:
  assumes wf: "wf_note n" and al: "length pre mod 4 = 0" and len: "length (pre @ note_bytes little n) < 2 ^ 61"
  shows "note_at (pre @ note_bytes little n @ post) little (length pre) =
    Ok (n, length (pre @ note_bytes little n))"
proof -
  define name where "name = bytes_of_str (nt_name n) @ [0]"
  define a where "a = u32_bytes little (length name)"
  define b where "b = u32_bytes little (length (nt_desc n))"
  define c where "c = u32_bytes little (unat (nt_kind n))"
  have nb: "note_bytes little n = a @ b @ c @ padded name @ padded (nt_desc n)"
    by (simp add: note_bytes_def Let_def name_def a_def b_def c_def)
  have abc: "length a = 4" "length b = 4" "length c = 4" by (simp_all add: a_def b_def c_def)
  have nlen: "length name < 2 ^ 32" and dlen: "length (nt_desc n) < 2 ^ 32" and name: "c_string name = Some (nt_name n)"
    using wf c_string_name by (simp_all add: wf_note_def name_def bytes_of_str_def)
  obtain np dp where pads: "padded name = name @ np" "padded (nt_desc n) = nt_desc n @ dp"
    by (simp add: padded_def)
  let ?data = "pre @ note_bytes little n @ post"
  have d1: "?data = (pre @ a @ b @ c) @ name @ (np @ padded (nt_desc n) @ post)" by (simp add: nb pads)
  have d2: "?data = (pre @ a @ b @ c @ padded name) @ nt_desc n @ (dp @ post)" by (simp add: nb pads)
  have al': "length (pre @ a @ b @ c) mod 4 = 0" "length (pre @ a @ b @ c @ padded name) mod 4 = 0"
    using al by (simp_all add: abc length_padded mod_add_left_eq[symmetric])
  have off: "length pre + 12 = length (pre @ a @ b @ c)" by (simp add: abc)
  have mid: "(length pre + 12 + length name + 3) div 4 * 4 = length (pre @ a @ b @ c @ padded name)"
    using aligned_sum[OF al'(1), of "length name"] by (simp add: abc length_padded)
  have stop: "(length (pre @ a @ b @ c @ padded name) + length (nt_desc n) + 3) div 4 * 4 =
      length (pre @ note_bytes little n)"
    using aligned_sum[OF al'(2), of "length (nt_desc n)"] by (simp add: nb length_padded)
  have total: "length (pre @ a @ b @ c @ padded name) + length (nt_desc n) < 2 ^ 61"
    "length pre + 12 + length name < 2 ^ 61"
    using len by (simp_all add: nb pads abc)
  have reads: "take 4 (drop (length pre) ?data) = a" "take 4 (drop (length pre + 4) ?data) = b"
    "take 4 (drop (length pre + 8) ?data) = c" "\<not> length ?data - length pre < 12"
    by (simp_all add: nb abc)
  have r1: "get_range ?data (length pre + 12) (length pre + 12 + length name) = Some name"
    using get_range_inner[of "pre @ a @ b @ c" name] d1 off by simp
  have r2: "get_range ?data (length (pre @ a @ b @ c @ padded name))
      (length (pre @ a @ b @ c @ padded name) + length (nt_desc n)) = Some (nt_desc n)"
    unfolding d2 by (rule get_range_inner)
  have hdr: "read_u32 a little = Ok (of_nat (length name))" "read_u32 b little = Ok (of_nat (length (nt_desc n)))"
    "read_u32 c little = Ok (nt_kind n)"
    using nlen dlen by (simp_all add: a_def b_def c_def read_u32_bytes read_u32_word)
  have sizes: "unat (of_nat (length name) :: 32 word) = length name"
    "unat (of_nat (length (nt_desc n)) :: 32 word) = length (nt_desc n)"
    using nlen dlen by (simp_all add: unat_of_nat)
  have al1: "align4 (length pre + 12 + length name) = Ok (length (pre @ a @ b @ c @ padded name))"
    using total(2) by (simp only: mid[symmetric]) (simp add: align4_eq)
  have al2: "align4 (length (pre @ a @ b @ c @ padded name) + length (nt_desc n)) = Ok (length (pre @ note_bytes little n))"
    using total(1) by (simp only: stop[symmetric]) (simp add: align4_eq)
  have adds: "add_or msg (length pre + 12) (length name) = Ok (length pre + 12 + length name)"
    "add_or msg (length (pre @ a @ b @ c @ padded name)) (length (nt_desc n)) =
       Ok (length (pre @ a @ b @ c @ padded name) + length (nt_desc n))" for msg
    using total by (simp_all add: add_or_def)
  show ?thesis
    unfolding note_at_def reads(1-3) hdr and_then_simps sizes adds r1 ok_or_def option.case name al1 r2 al2
    using reads(4) by simp
qed

lemma parse_notes_bytes:
  assumes "list_all wf_note ns"
  shows "length pre mod 4 = 0 \<Longrightarrow> length (pre @ concat (map (note_bytes little) ns)) < 2 ^ 61 \<Longrightarrow>
    parse_notes_from (pre @ concat (map (note_bytes little) ns)) little (length pre) = Ok ns"
  using assms
proof (induction ns arbitrary: pre)
  case Nil
  then show ?case by (simp add: parse_notes_from.simps)
next
  case (Cons n ns)
  let ?pre = "pre @ note_bytes little n" and ?rest = "concat (map (note_bytes little) ns)"
  have pos: "0 < length (note_bytes little n)" by (simp add: note_bytes_def Let_def)
  have al: "length ?pre mod 4 = 0"
    using Cons.prems(1) by (simp add: note_bytes_def Let_def length_padded mod_add_left_eq[symmetric])
  have rest: "parse_notes_from (?pre @ ?rest) little (length ?pre) = Ok ns"
    using Cons.prems al by (intro Cons.IH) simp_all
  have step: "note_at (pre @ note_bytes little n @ ?rest) little (length pre) = Ok (n, length ?pre)"
    using Cons.prems by (intro note_at_bytes) simp_all
  show ?case
    using pos rest step by (subst parse_notes_from.simps) simp
qed

text \<open>
  C29: The note reader reads back every well-formed list of notes, in either byte order,
  with names and descriptors of any length and their padding.
\<close>

theorem notes_round_trip:
  assumes "list_all wf_note ns" "length (concat (map (note_bytes little) ns)) < 2 ^ 61"
  shows "parse_notes (concat (map (note_bytes little) ns)) little = Ok ns"
  using parse_notes_bytes[OF assms(1), of "[]"] assms(2) by (simp add: parse_notes_def)

theorem notes_round_trip_witness:
  "parse_notes (concat (map (note_bytes False)
     [\<lparr>nt_name = ''GNU'', nt_kind = 3, nt_desc = [0x11, 0x22]\<rparr>])) False =
   Ok [\<lparr>nt_name = ''GNU'', nt_kind = 3, nt_desc = [0x11, 0x22]\<rparr>]"
proof (rule notes_round_trip)
  have "valid_utf8 (bytes_of_str ''GNU'')" by code_simp
  then show "list_all wf_note [\<lparr>nt_name = ''GNU'', nt_kind = 3, nt_desc = [0x11, 0x22]\<rparr>]"
    by (simp add: wf_note_def nul_free_def bytes_of_str_def)
qed (simp add: note_bytes_def Let_def length_padded bytes_of_str_def)

section \<open>Panics\<close>

definition calm :: "fault + 'a \<Rightarrow> bool" where
  "calm r \<longleftrightarrow> r \<noteq> Err Panic"

named_theorems calm_intros

lemma calm_basic [calm_intros]: "calm (Ok x)" "calm (Err (Message m))" "calm (Err NotUtf8)"
  by (simp_all add: calm_def)

lemma calm_and_then [calm_intros]: "calm r \<Longrightarrow> (\<And>x. r = Ok x \<Longrightarrow> calm (f x)) \<Longrightarrow> calm (and_then r f)"
  by (cases r) (simp_all add: calm_def)

lemma calm_if [calm_intros]: "(b \<Longrightarrow> calm x) \<Longrightarrow> (\<not> b \<Longrightarrow> calm y) \<Longrightarrow> calm (if b then x else y)"
  by simp

lemma calm_option [calm_intros]: "calm x \<Longrightarrow> (\<And>y. calm (f y)) \<Longrightarrow> calm (case v of None \<Rightarrow> x | Some y \<Rightarrow> f y)"
  by (cases v) simp_all

lemma calm_prod [calm_intros]: "(\<And>a b. p = (a, b) \<Longrightarrow> calm (f a b)) \<Longrightarrow> calm (case p of (a, b) \<Rightarrow> f a b)"
  by (cases p) simp_all

lemma calm_ops [calm_intros]:
  "calm (ok_or m v)" "calm (add_or m a b)" "calm (read_u16 bs little)" "calm (read_u32 bs little)"
  "calm (read_u64 bs little)" "calm (slice_at bs o1 o2)" "calm (align4 n)" "calm (take_c_string bs)"
  unfolding ok_or_def add_or_def read_u16_def read_u32_def read_u64_def slice_at_def align4_def
    take_c_string_def Let_def
  by (intro calm_intros)+

lemma calm_notes [calm_intros]: "calm (parse_notes_from bs little off)"
proof (induction bs little off rule: parse_notes_from.induct)
  case (1 bs little off)
  have "calm (note_at bs little off)" unfolding note_at_def by (intro calm_intros)
  with 1 show ?case
    by (subst parse_notes_from.simps) (auto intro!: calm_intros split: sum.splits simp: calm_def[of "Err _"])
qed

lemma calm_elf_parse: "calm (elf_parse data)"
  unfolding elf_parse_def header_at_def Let_def by (intro calm_intros)

lemma calm_section [calm_intros]: "calm (elf_section v i)"
  unfolding elf_section_def section_field_def Let_def by (intro calm_intros)

lemma calm_section_named [calm_intros]: "calm (section_named v n)"
proof -
  have "calm (section_among v names n xs)" for names xs
    by (induction xs) (auto intro!: calm_intros simp: Let_def)
  then show ?thesis unfolding section_named_def by (intro calm_intros)
qed

text \<open>A loadable segment's header is indexed up to this byte.\<close>

definition segment_header_len :: "ElfView \<Rightarrow> nat" where
  "segment_header_len v = (if ev_class v = 2 then 40 else 20)"

lemma calm_offsets:
  assumes "segment_header_len v \<le> unat (ev_program_size v)"
  shows "calm (virtual_to_file_offset v address)"
proof -
  have len: "length entry = unat (ev_program_size v)" if "program_entry v i = Ok entry" for i entry
    using that by (auto simp: program_entry_def add_or_def ok_or_def get_range_def split: if_splits)
  have fields: "calm (segment_fields v entry)" if "program_entry v i = Ok entry" for i entry
    unfolding segment_fields_def Let_def
    using assms len[OF that] by (intro calm_intros) (auto simp: segment_header_len_def split: if_splits)
  have "calm (program_entry v i)" for i unfolding program_entry_def by (intro calm_intros)
  then have "calm (offset_among v address xs)" for xs
    by (induction xs) (auto intro!: calm_intros fields)
  then show ?thesis by (simp add: virtual_to_file_offset_def)
qed

lemma calm_probes:
  assumes "segment_header_len v \<le> unat (ev_program_size v)"
  shows "calm (stapsdt_probes v)"
proof -
  have "calm (parse_stapsdt v desc)" for desc
    unfolding parse_stapsdt_def Let_def by (intro calm_intros calm_offsets[OF assms])
  then have "calm (collect_results (\<lambda>n. parse_stapsdt v (nt_desc n)) ns)" for ns :: "Note list"
    by (induction ns) (auto intro!: calm_intros)
  then show ?thesis unfolding stapsdt_probes_def parse_notes_def by (intro calm_intros)
qed

section \<open>Verified targets\<close>

text \<open>An address that the file maps at a file offset.\<close>

definition mapped_at :: "ElfView \<Rightarrow> 64 word \<Rightarrow> 64 word \<Rightarrow> bool" where
  "mapped_at v address off \<longleftrightarrow> (\<exists>i entry fo va fs. i < unat (ev_program_count v) \<and>
     program_entry v i = Ok entry \<and> segment_fields v entry = Ok (fo, va, fs) \<and>
     unat va \<le> unat address \<and> unat address < unat va + unat fs \<and>
     unat off = unat fo + (unat address - unat va))"

lemma unat_saturating_add_le: "unat (saturating_add a b) \<le> unat a + unat b" for a b :: "64 word"
  by (auto simp: saturating_add_def Let_def unat_word_ariths unsigned_minus_1_eq_mask mask_eq_exp_minus_1)

lemma unat_minus_le: "v \<le> a \<Longrightarrow> unat (a - v) = unat a - unat v" for a v :: "64 word"
  by (simp add: unat_sub word_le_nat_alt)

lemma virtual_to_file_offset_mapped:
  assumes "virtual_to_file_offset v address = Ok off"
  shows "mapped_at v address off"
proof -
  have "\<exists>i\<in>set xs. \<exists>entry fo va fs. program_entry v i = Ok entry \<and> segment_fields v entry = Ok (fo, va, fs) \<and>
      unat va \<le> unat address \<and> unat address < unat va + unat fs \<and>
      unat off = unat fo + (unat address - unat va)"
    if "offset_among v address xs = Ok off" for xs
    using that
  proof (induction xs)
    case (Cons i xs)
    from Cons.prems obtain entry where e: "program_entry v i = Ok entry" by auto
    show ?case
    proof (cases "offset_among v address xs = Ok off")
      case True
      then show ?thesis using Cons.IH by auto
    next
      case False
      with Cons.prems e obtain fo va fs where f: "segment_fields v entry = Ok (fo, va, fs)"
        and le: "va \<le> address" "address < saturating_add va fs"
        and off: "unat fo + unat (address - va) < 2 ^ 64" "off = of_nat (unat fo + unat (address - va))"
        by (auto simp: add_or_def split: if_splits)
      have "unat address < unat va + unat fs"
        using le(2) unat_saturating_add_le[of va fs] by (simp add: word_less_nat_alt)
      moreover have "unat off = unat fo + (unat address - unat va)"
        using off le(1) by (simp only: unat_of_nat unat_minus_le) simp
      ultimately show ?thesis using e f le(1) by (auto simp: word_le_nat_alt)
    qed
  qed simp
  then show ?thesis
    using assms unfolding virtual_to_file_offset_def mapped_at_def by fastforce
qed

text \<open>What a probe's record says about the file it was read from.\<close>

definition probe_sound :: "ElfView \<Rightarrow> StapsdtProbe \<Rightarrow> bool" where
  "probe_sound v p \<longleftrightarrow> (\<exists>location. mapped_at v location (sp_file_offset p)) \<and>
     (case sp_semaphore_file_offset p of
        None \<Rightarrow> sp_semaphore_address p = 0
      | Some off \<Rightarrow> sp_semaphore_address p \<noteq> 0 \<and> mapped_at v (sp_semaphore_address p) (ucast off))"

lemma parse_stapsdt_sound:
  assumes "parse_stapsdt v desc = Ok p"
  shows "probe_sound v p"
proof -
  from assms obtain location where loc: "virtual_to_file_offset v location = Ok (sp_file_offset p)"
    and sem: "(if sp_semaphore_address p = 0 then Ok None
      else and_then (virtual_to_file_offset v (sp_semaphore_address p)) (\<lambda>off.
        if unat off < 2 ^ 32 then Ok (Some (ucast off))
        else Err (Message ''USDT semaphore offset exceeds kernel uprobe ABI''))) = Ok (sp_semaphore_file_offset p)"
    unfolding parse_stapsdt_def Let_def by (clarsimp split: if_split_asm prod.split_asm)
  have wide: "ucast (ucast off :: 32 word) = off" if "unat off < 2 ^ 32" for off :: "64 word"
    using that by (simp add: word_unat_eq_iff unsigned_ucast_eq unsigned_take_bit_eq take_bit_nat_eq_self)
  show ?thesis
    using virtual_to_file_offset_mapped[OF loc] sem
    by (cases "sp_semaphore_file_offset p")
      (auto simp: probe_sound_def wide[simplified] virtual_to_file_offset_mapped split: if_splits)
qed

lemma collect_results_Ok: "collect_results f xs = Ok ys \<Longrightarrow> y \<in> set ys \<Longrightarrow> \<exists>x. f x = Ok y"
  by (induction xs arbitrary: ys) auto

lemma stapsdt_probes_sound: "stapsdt_probes v = Ok ps \<Longrightarrow> p \<in> set ps \<Longrightarrow> probe_sound v p"
  by (auto simp: stapsdt_probes_def dest!: collect_results_Ok parse_stapsdt_sound)

lemma map_fault_Ok [simp]: "map_fault reason r = Ok x \<longleftrightarrow> r = Ok x"
  by (cases r) (auto simp: map_fault_def split: fault.splits)

lemma map_fault_Panicked [simp]: "map_fault reason r = Err Panicked \<longleftrightarrow> r = Err Panic"
  by (cases r) (auto simp: map_fault_def split: fault.splits)

section \<open>A sample file\<close>

definition peer_metadata :: CollectorMetadata where
  "peer_metadata = REGISTRY ! 1"

definition zeros :: "nat \<Rightarrow> bytes" where
  "zeros n = replicate n 0"

definition half :: "nat \<Rightarrow> bytes" where
  "half n = le_bytes 2 n"

abbreviation quad :: "nat \<Rightarrow> bytes" where
  "quad \<equiv> u32_bytes True"

definition sample_probe_note :: Note where
  "sample_probe_note = \<lparr>nt_name = ''stapsdt'', nt_kind = 3,
     nt_desc = quad 0x1010 @ quad 0 @ quad 0x1020 @
       bytes_of_str ''abyss0_peer'' @ 0 # bytes_of_str ''task_finished'' @ 0 # bytes_of_str ''8@%rdi 8@%rsi'' @ [0]\<rparr>"

definition sample_build_note :: Note where
  "sample_build_note = \<lparr>nt_name = ''GNU'', nt_kind = 3,
     nt_desc = [0x44, 0x55, 0x66, 0x77, 0x88, 0x99, 0x00, 0xaa, 0xbb, 0xcc, 0xdd, 0xee, 0xff, 0x00,
       0x11, 0x22, 0x33, 0x44, 0x55, 0x66]\<rparr>"

definition sample_names :: bytes where
  "sample_names = [0] @ bytes_of_str ''.note.gnu.build-id'' @ [0] @ bytes_of_str ''.note.stapsdt'' @ [0]"

text \<open>
  A 32-bit file with one loadable segment, a build ID and one probe with a semaphore;
  the size of a program header is left open.
\<close>

definition sample_ident :: bytes where
  "sample_ident = ELF_MAGIC @ [1, 1] @ zeros 12"

definition sample_notes :: bytes where
  "sample_notes = note_bytes True sample_build_note"

definition sample_probes :: bytes where
  "sample_probes = note_bytes True sample_probe_note"

definition sample_elf :: "nat \<Rightarrow> bytes" where
  "sample_elf phentsize =
     sample_ident @ half 62 @ zeros 8 @ quad 64 @ quad 84 @ zeros 6 @
     half phentsize @ half 1 @ half 24 @ half 3 @ half 0 @ zeros 12 @
     quad 1 @ quad 0x40 @ quad 0x1000 @ zeros 4 @ quad 0x100 @
     quad 0 @ zeros 12 @ quad 156 @ quad 34 @
     quad 1 @ zeros 12 @ quad 190 @ quad 36 @
     quad 20 @ zeros 12 @ quad 226 @ quad 72 @
     sample_names @ sample_notes @ sample_probes"

lemma sample_lengths [simp]: "length (zeros n) = n" "length (half n) = 2" "length sample_ident = 18"
  "length sample_names = 34" "length sample_notes = 36" "length sample_probes = 72"
  by (simp_all add: zeros_def half_def sample_ident_def ELF_MAGIC_def sample_names_def bytes_of_str_def
      sample_notes_def sample_probes_def note_bytes_def sample_build_note_def sample_probe_note_def Let_def
      length_padded)

lemma read_half: "n < 65536 \<Longrightarrow> read_u16 (half n) True = Ok (of_nat n)"
  by (simp add: read_u16_def half_def endian_def le_word_def le_nat_le_bytes)

lemma sample_header:
  assumes "ph < 65536"
  shows "elf_parse (sample_elf ph) =
    Ok \<lparr>ev_data = sample_elf ph, ev_class = 1, ev_little_endian = True, ev_machine = 62,
      ev_section_offset = 84, ev_section_size = 24, ev_section_count = 3, ev_section_strings = 0,
      ev_program_offset = 64, ev_program_size = of_nat ph, ev_program_count = 1\<rparr>"
proof -
  have id: "take 4 (sample_elf ph) = ELF_MAGIC" "sample_elf ph ! 4 = 1" "sample_elf ph ! 5 = 1"
    by (simp_all add: sample_elf_def sample_ident_def ELF_MAGIC_def)
  have len: "length (sample_elf ph) = 298" by (simp add: sample_elf_def)
  have at: "get_range (sample_elf ph) 18 20 = Some (half 62)" "get_range (sample_elf ph) 28 32 = Some (quad 64)"
    "get_range (sample_elf ph) 32 36 = Some (quad 84)" "get_range (sample_elf ph) 42 44 = Some (half ph)"
    "get_range (sample_elf ph) 44 46 = Some (half 1)" "get_range (sample_elf ph) 46 48 = Some (half 24)"
    "get_range (sample_elf ph) 48 50 = Some (half 3)" "get_range (sample_elf ph) 50 52 = Some (half 0)"
    unfolding get_range_def len unfolding sample_elf_def by simp_all
  show ?thesis
    unfolding elf_parse_def Let_def header_at_def id len
    using assms by (simp add: add_or_def at ok_or_def read_half read_u32_bytes)
qed

definition sample_view :: "nat \<Rightarrow> ElfView" where
  "sample_view ph = \<lparr>ev_data = sample_elf ph, ev_class = 1, ev_little_endian = True, ev_machine = 62,
      ev_section_offset = 84, ev_section_size = 24, ev_section_count = 3, ev_section_strings = 0,
      ev_program_offset = 64, ev_program_size = of_nat ph, ev_program_count = 1\<rparr>"

lemma sample_sections:
  "elf_section (sample_view ph) 0 = Ok \<lparr>sc_name = 0, sc_offset = 156, sc_size = 34\<rparr>"
  "elf_section (sample_view ph) 1 = Ok \<lparr>sc_name = 1, sc_offset = 190, sc_size = 36\<rparr>"
  "elf_section (sample_view ph) 2 = Ok \<lparr>sc_name = 20, sc_offset = 226, sc_size = 72\<rparr>"
  by (simp_all add: elf_section_def sample_view_def Let_def add_or_def ok_or_def get_range_def sample_elf_def
      section_field_def read_u32_bytes)

lemma sample_slices:
  "slice_at (sample_elf ph) 156 34 = Ok sample_names" "slice_at (sample_elf ph) 190 36 = Ok sample_notes"
  "slice_at (sample_elf ph) 226 72 = Ok sample_probes"
  by (simp_all add: slice_at_def add_or_def ok_or_def get_range_def sample_elf_def)

lemma sample_c_strings:
  "c_string sample_names = Some []" "c_string (drop 1 sample_names) = Some ''.note.gnu.build-id''"
  "c_string (drop 20 sample_names) = Some ''.note.stapsdt''"
  by code_simp+

lemma sample_named:
  "section_named (sample_view ph) ''.note.gnu.build-id'' = Ok (Some sample_notes)"
  "section_named (sample_view ph) ''.note.stapsdt'' = Ok (Some sample_probes)"
proof -
  have "[0..<unat (3 :: 16 word)] = [0, 1, 2 :: nat]" by (simp add: upt_rec)
  then have v: "ev_section_strings (sample_view ph) = 0" "ev_data (sample_view ph) = sample_elf ph"
    "[0..<unat (ev_section_count (sample_view ph))] = [0, 1, 2]"
    by (simp_all add: sample_view_def)
  show "section_named (sample_view ph) ''.note.gnu.build-id'' = Ok (Some sample_notes)"
    "section_named (sample_view ph) ''.note.stapsdt'' = Ok (Some sample_probes)"
    unfolding section_named_def v
    by (simp_all add: sample_sections[simplified] sample_slices sample_c_strings[simplified] v(2) sample_sections)
qed

lemma sample_wf_notes: "wf_note sample_build_note" "wf_note sample_probe_note"
proof -
  have "valid_utf8 (bytes_of_str ''GNU'')" "valid_utf8 (bytes_of_str ''stapsdt'')" by code_simp+
  then show "wf_note sample_build_note" "wf_note sample_probe_note"
    by (simp_all add: wf_note_def sample_build_note_def sample_probe_note_def nul_free_def bytes_of_str_def)
qed

lemma sample_parse_notes: "parse_notes sample_notes True = Ok [sample_build_note]"
  "parse_notes sample_probes True = Ok [sample_probe_note]"
  using parse_notes_bytes[of "[sample_build_note]" "[]" True] parse_notes_bytes[of "[sample_probe_note]" "[]" True]
    sample_wf_notes sample_lengths(5,6)
  by (simp_all add: parse_notes_def sample_notes_def sample_probes_def)

lemma sample_build_id: "build_id (sample_view ph) = Some ''44556677889900aabbccddeeff00112233445566''"
proof -
  have "hex (nt_desc sample_build_note) = ''44556677889900aabbccddeeff00112233445566''" by code_simp
  moreover have "ev_little_endian (sample_view ph)" by (simp add: sample_view_def)
  ultimately show ?thesis
    by (simp add: build_id_def sample_named sample_parse_notes) (simp add: sample_build_note_def)
qed

lemma take_c_string_append:
  assumes "nul_free (bytes_of_str s)" "valid_utf8 (bytes_of_str s)"
  shows "take_c_string (bytes_of_str s @ 0 # rest) = Ok (s, rest)"
  using assms by (simp add: take_c_string_def until_nul_append)

lemma sample_entry:
  "ph = 4 \<Longrightarrow> program_entry (sample_view ph) 0 = Ok (quad 1)"
  "ph = 20 \<Longrightarrow> program_entry (sample_view ph) 0 = Ok (quad 1 @ quad 0x40 @ quad 0x1000 @ zeros 4 @ quad 0x100)"
  by (simp_all add: program_entry_def sample_view_def add_or_def ok_or_def get_range_def sample_elf_def)

lemma sample_desc: "nt_desc sample_probe_note = quad 0x1010 @ quad 0 @ quad 0x1020 @ bytes_of_str ''abyss0_peer'' @
    0 # bytes_of_str ''task_finished'' @ 0 # bytes_of_str ''8@%rdi 8@%rsi'' @ [0]"
  by (simp add: sample_probe_note_def)

lemma sample_strings:
  "take_c_string (bytes_of_str ''abyss0_peer'' @ 0 # rest) = Ok (''abyss0_peer'', rest)"
  "take_c_string (bytes_of_str ''task_finished'' @ 0 # rest) = Ok (''task_finished'', rest)"
  "take_c_string (bytes_of_str ''8@%rdi 8@%rsi'' @ 0 # rest) = Ok (''8@%rdi 8@%rsi'', rest)"
  by (rule take_c_string_append; code_simp)+

lemma sample_probe_list:
  "stapsdt_probes (sample_view ph) = and_then (virtual_to_file_offset (sample_view ph) 0x1010) (\<lambda>fo.
     and_then (virtual_to_file_offset (sample_view ph) 0x1020) (\<lambda>so.
       if unat so < 2 ^ 32 then
         Ok [\<lparr>sp_provider = ''abyss0_peer'', sp_name = ''task_finished'', sp_operands = ''8@%rdi 8@%rsi'',
           sp_file_offset = fo, sp_semaphore_address = 0x1020, sp_semaphore_file_offset = Some (ucast so)\<rparr>]
       else Err (Message ''USDT semaphore offset exceeds kernel uprobe ABI'')))"
proof -
  have v: "ev_class (sample_view ph) = 1" "ev_little_endian (sample_view ph)" by (simp_all add: sample_view_def)
  have name: "nt_name sample_probe_note = ''stapsdt''" by (simp add: sample_probe_note_def)
  show ?thesis
    by (simp add: stapsdt_probes_def sample_named sample_parse_notes v ok_or_def name parse_stapsdt_def
        sample_desc read_u32_bytes sample_strings and_then_def split: sum.splits)
qed

lemma sample_offsets:
  "virtual_to_file_offset (sample_view 4) 0x1010 = Err Panic"
  "virtual_to_file_offset (sample_view 20) 0x1010 = Ok 80" "virtual_to_file_offset (sample_view 20) 0x1020 = Ok 96"
proof -
  have v: "ev_class (sample_view ph) = 1" "ev_little_endian (sample_view ph)" for ph by (simp_all add: sample_view_def)
  have one: "[0..<unat (ev_program_count (sample_view ph))] = [0]" for ph by (simp add: sample_view_def)
  have le: "saturating_add 0x1000 (0x100 :: 64 word) = 0x1100" by (simp add: saturating_add_def Let_def)
  show "virtual_to_file_offset (sample_view 4) 0x1010 = Err Panic"
    "virtual_to_file_offset (sample_view 20) 0x1010 = Ok 80" "virtual_to_file_offset (sample_view 20) 0x1020 = Ok 96"
    unfolding virtual_to_file_offset_def one
    by (simp_all add: sample_entry get_range_def ok_or_def v read_u32_bytes segment_fields_def Let_def le add_or_def)
qed

lemma sample_verification:
  "verify_target peer_metadata (Some (sample_elf 4)) = Err Panicked"
  "verify_target peer_metadata (Some (sample_elf 20)) =
     Ok [\<lparr>sp_provider = ''abyss0_peer'', sp_name = ''task_finished'', sp_operands = ''8@%rdi 8@%rsi'',
         sp_file_offset = 80, sp_semaphore_address = 0x1020, sp_semaphore_file_offset = Some 96\<rparr>]"
proof -
  have parse: "elf_parse (sample_elf ph) = Ok (sample_view ph)" if "ph < 65536" for ph
    using sample_header[OF that] by (simp add: sample_view_def)
  have "ev_machine (sample_view ph) = 62" for ph by (simp add: sample_view_def)
  then show "verify_target peer_metadata (Some (sample_elf 4)) = Err Panicked"
    "verify_target peer_metadata (Some (sample_elf 20)) =
     Ok [\<lparr>sp_provider = ''abyss0_peer'', sp_name = ''task_finished'', sp_operands = ''8@%rdi 8@%rsi'',
         sp_file_offset = 80, sp_semaphore_address = 0x1020, sp_semaphore_file_offset = Some 96\<rparr>]"
    by (simp_all add: verify_target_def parse sample_build_id sample_probe_list sample_offsets peer_metadata_def
        REGISTRY_def elf_machine_def map_fault_def)
qed





text \<open>
  The reasons a target is refused with.  A probe with a semaphore that is not mapped is an
  incompatible ABI: \<open>SemaphoreUnavailable\<close> is never given.
\<close>

lemma map_fault_Refused [simp]: "map_fault reason r = Err (Refused x) \<longleftrightarrow> x = reason \<and> \<not> is_ok r \<and> r \<noteq> Err Panic"
  by (cases r) (auto simp: map_fault_def split: fault.splits)

lemma and_then_eq_Err: "and_then r f = Err e \<longleftrightarrow> r = Err e \<or> (\<exists>x. r = Ok x \<and> f x = Err e)"
  by (cases r) auto

lemma verify_target_reasons:
  assumes "verify_target metadata file = Err (Refused reason)"
  shows "reason \<in> {TargetBuildIdMismatch, UnsupportedArchitecture, ProbeNotFound, AbiIncompatible}"
proof -
  have "\<not> list_ex (\<lambda>p. sp_semaphore_address p \<noteq> 0 \<and> sp_semaphore_file_offset p = None) (filter P ps)"
    if "stapsdt_probes v = Ok ps" for v ps P
    using stapsdt_probes_sound[OF that] by (fastforce simp: list_ex_iff probe_sound_def)
  then show ?thesis
    using assms unfolding verify_target_def Let_def
    by (auto simp: and_then_eq_Err split: option.split_asm if_split_asm)
qed

end
