(* ===== verification/UsdtAttach.thy ===== *)
theory UsdtAttach
  imports ElfFacts Loader "HOL-Library.Multiset"
begin

unbundle bit_operations_syntax

text \<open>
  Attachment of the static-probe collectors (\<open>bloodhound/src/usdt.rs\<close>): one program per
  verified location, through \<open>aya\<close> or, for a probe with a semaphore, through a
  \<open>perf_event\<close> descriptor whose reference counter the kernel maintains.  The kernel is
  the argument \<open>UsdtKernel\<close>; a descriptor is identified with the program attached to it.
\<close>

section \<open>The perf_event adapter\<close>

record PerfEventAttr =
  pa_type :: "32 word"
  pa_size :: "32 word"
  pa_config :: "64 word"
  pa_config1 :: string
  pa_config2 :: "64 word"

text \<open>
  \<open>uk_load\<close> is the error of finding and loading a program, \<open>uk_attach\<close> that of \<open>aya\<close>'s
  attachment and \<open>uk_detach\<close> whether detaching fails; \<open>uk_pmu_type\<close> is the text of the
  PMU type file, \<open>uk_open\<close> the result of \<open>perf_event_open\<close>, \<open>uk_program_fd\<close> the
  descriptor of a program and \<open>uk_ioctl\<close> the result of an \<open>ioctl\<close>.
\<close>

record UsdtKernel =
  uk_file :: "string \<Rightarrow> bytes option"
  uk_target_fd :: nat
  uk_load :: "string \<Rightarrow> string option"
  uk_attach :: "string \<Rightarrow> 64 word \<Rightarrow> string \<Rightarrow> string option"
  uk_detach :: "string \<Rightarrow> bool"
  uk_pmu_type :: "string + string"
  uk_open :: "PerfEventAttr \<Rightarrow> int"
  uk_program_fd :: "string \<Rightarrow> string + int"
  uk_ioctl :: "int \<Rightarrow> 64 word \<Rightarrow> int \<Rightarrow> int"

definition PERF_EVENT_IOC_ENABLE :: "64 word" where "PERF_EVENT_IOC_ENABLE = 0x2400"
definition PERF_EVENT_IOC_SET_BPF :: "64 word" where "PERF_EVENT_IOC_SET_BPF = 0x40042408"

text \<open>\<open>str::parse::<u32>\<close>: an optional plus sign, then at least one digit, and no overflow.\<close>

definition is_digit :: "char \<Rightarrow> bool" where
  "is_digit c \<longleftrightarrow> of_char c \<ge> (48 :: nat) \<and> of_char c \<le> (57 :: nat)"

definition parse_u32 :: "string \<Rightarrow> 32 word option" where
  "parse_u32 s =
     (let digits = (case s of c # rest \<Rightarrow> if c = CHR ''+'' then rest else s | [] \<Rightarrow> [])
      in if digits \<noteq> [] \<and> list_all is_digit digits \<and> read_radix 10 digits < 2 ^ 32
         then Some (of_nat (read_radix 10 digits)) else None)"

definition perf_attr :: "32 word \<Rightarrow> string \<Rightarrow> 64 word \<Rightarrow> 32 word \<Rightarrow> PerfEventAttr" where
  "perf_attr pmu_type target probe_offset semaphore_offset =
     \<lparr>pa_type = pmu_type, pa_size = 128, pa_config = push_bit 32 (ucast semaphore_offset),
      pa_config1 = target, pa_config2 = probe_offset\<rparr>"

definition attach_uprobe_with_semaphore ::
  "UsdtKernel \<Rightarrow> string \<Rightarrow> string \<Rightarrow> 64 word \<Rightarrow> 32 word \<Rightarrow> string + unit" where
  "attach_uprobe_with_semaphore k prog target probe_offset semaphore_offset =
     and_then (uk_pmu_type k) (\<lambda>text.
     and_then (case parse_u32 (trim text) of None \<Rightarrow> Err ''parsing uprobe PMU type'' | Some t \<Rightarrow> Ok t) (\<lambda>pmu_type.
       if CHR 0x00 \<in> set target then Err ''encoding verified USDT target path''
       else
         (let raw_fd = uk_open k (perf_attr pmu_type target probe_offset semaphore_offset) in
          if raw_fd < 0 then Err ''opening semaphore-backed uprobe''
          else and_then (uk_program_fd k prog) (\<lambda>program_fd.
            if uk_ioctl k raw_fd PERF_EVENT_IOC_SET_BPF program_fd < 0
            then Err ''attaching BPF program to semaphore-backed uprobe''
            else if uk_ioctl k raw_fd PERF_EVENT_IOC_ENABLE 0 < 0
            then Err ''enabling semaphore-backed uprobe''
            else Ok ()))))"

section \<open>Attaching the locations of a collector\<close>

record AttachmentLinks =
  al_semaphore_links :: "string list"

definition rollback_links :: "nat \<Rightarrow> AttachmentLinks \<Rightarrow> AttachmentLinks" where
  "rollback_links checkpoint links =
     links\<lparr>al_semaphore_links := take checkpoint (al_semaphore_links links)\<rparr>"

text \<open>A failed detach is ignored and leaves the program attached.\<close>

definition detach_aya :: "UsdtKernel \<Rightarrow> string \<Rightarrow> string list \<Rightarrow> string list" where
  "detach_aya k prog live = (if uk_detach k prog then live else remove1 prog live)"

definition attachment_path :: "UsdtKernel \<Rightarrow> string" where
  "attachment_path k = ''/proc/self/fd/'' @ decimal (uk_target_fd k)"

definition usdt_program_name :: "string \<Rightarrow> nat \<Rightarrow> string option" where
  "usdt_program_name cid attach_point_id =
     (if cid = TRAINING_SHELL_V3_ID then Some (''usdt_training_shell_v3_'' @ decimal attach_point_id)
      else if cid = TRAINING_PEER_V1_ID then Some (''usdt_training_peer_v1_'' @ decimal attach_point_id)
      else None)"

text \<open>
  The loop over the locations.  Its state is the attached programs, the descriptors and
  the \<open>aya\<close> links of this collector.  Only a failed attachment rolls undo_all; the \<open>?\<close> on
  finding and loading a program returns at once.
\<close>

record UsdtState =
  us_live :: "string list"
  us_links :: AttachmentLinks
  us_aya_links :: "string list"

fun attach_points ::
  "UsdtKernel \<Rightarrow> string \<Rightarrow> nat \<Rightarrow> nat \<Rightarrow> StapsdtProbe list \<Rightarrow> UsdtState \<Rightarrow> (string + unit) \<times> UsdtState" where
  "attach_points k cid checkpoint i [] st = (Ok (), st)"
| "attach_points k cid checkpoint i (p # ps) st =
     (case usdt_program_name cid i of
         None \<Rightarrow> (Err ''unknown compiled collector'', st)
       | Some prog \<Rightarrow>
           (case uk_load k prog of
               Some m \<Rightarrow> (Err m, st)
             | None \<Rightarrow>
                 (let path = attachment_path k;
                      result = (case sp_semaphore_file_offset p of
                        Some off \<Rightarrow> (case attach_uprobe_with_semaphore k prog path (sp_file_offset p) off of
                            Inl m \<Rightarrow> Err m
                          | Inr _ \<Rightarrow> Ok (st\<lparr>us_links := (us_links st)\<lparr>al_semaphore_links :=
                              al_semaphore_links (us_links st) @ [prog]\<rparr>\<rparr>))
                      | None \<Rightarrow> (case uk_attach k prog (sp_file_offset p) path of
                            Some m \<Rightarrow> Err m
                          | None \<Rightarrow> Ok (st\<lparr>us_live := prog # us_live st,
                              us_aya_links := us_aya_links st @ [prog]\<rparr>)))
                  in case result of
                       Inr st' \<Rightarrow> attach_points k cid checkpoint (Suc i) ps st'
                     | Inl m \<Rightarrow> (Err m, st\<lparr>us_live := fold (detach_aya k) (rev (us_aya_links st)) (us_live st),
                         us_links := rollback_links checkpoint (us_links st), us_aya_links := []\<rparr>))))"

definition attach_target ::
  "UsdtKernel \<Rightarrow> CollectorMetadata \<Rightarrow> StapsdtProbe list \<Rightarrow> string list \<Rightarrow> AttachmentLinks \<Rightarrow>
     (string + unit) \<times> string list \<times> AttachmentLinks" where
  "attach_target k metadata probes live links =
     (if length probes > cm_maximum_attach_points metadata
      then (Err ''collector has more static locations than its compiled attach-point programs'', live, links)
      else (case attach_points k (cm_id metadata) (length (al_semaphore_links links)) 0 probes
          \<lparr>us_live = live, us_links = links, us_aya_links = []\<rparr> of
        (r, st) \<Rightarrow> (r, us_live st, us_links st)))"

section \<open>Selected collectors\<close>

definition usdt_key :: "string \<Rightarrow> string" where
  "usdt_key cid = ''usdt.'' @ cid"

text \<open>
  \<open>attach_selected\<close> over the live programs, the descriptors and the report; None is a
  panic of the reader.
\<close>

type_synonym usdt_world = "string list \<times> AttachmentLinks \<times> AttachReport"

definition attach_selected ::
  "UsdtKernel \<Rightarrow> 64 word \<Rightarrow> Selection \<Rightarrow> usdt_world \<Rightarrow> (BehaviorEvent list \<times> usdt_world) option" where
  "attach_selected k now selection w = (case w of (live, links, report) \<Rightarrow>
     let cid = sel_collector_id selection in
     if \<not> sel_enabled selection then Some ([usdt_diagnostic now cid RDisabled None], w)
     else
       (let report1 = insert_key (usdt_key cid) False report in
        case collector cid of
          None \<Rightarrow> Some ([usdt_diagnostic now cid UnknownCollector None], (live, links, report1))
        | Some metadata \<Rightarrow>
            (let context = Some (JObj [(''target_path'', JStr (cm_target_path metadata))]) in
             case verify_target metadata (uk_file k (cm_target_path metadata)) of
               Inl Panicked \<Rightarrow> None
             | Inl (Refused reason) \<Rightarrow>
                 Some ([usdt_diagnostic now (cm_id metadata) reason context], (live, links, report1))
             | Inr probes \<Rightarrow>
                 (case attach_target k metadata probes live links of
                     (Inr _, live', links') \<Rightarrow>
                       Some ([], (live', links',
                         insert_key (usdt_key cid) True
                           (report1\<lparr>ar_probes := ar_probes report1 + of_nat (length probes)\<rparr>)))
                   | (Inl _, live', links') \<Rightarrow>
                       Some ([usdt_diagnostic now (cm_id metadata) AttachFailed context],
                         (live', links', report1))))))"

fun attach_all_selected ::
  "UsdtKernel \<Rightarrow> 64 word \<Rightarrow> Selection list \<Rightarrow> usdt_world \<Rightarrow> (BehaviorEvent list \<times> usdt_world) option" where
  "attach_all_selected k now [] w = Some ([], w)"
| "attach_all_selected k now (s # ss) w =
     (case attach_selected k now s w of None \<Rightarrow> None | Some (ds, w1) \<Rightarrow>
       (case attach_all_selected k now ss w1 of None \<Rightarrow> None | Some (ds', w2) \<Rightarrow> Some (ds @ ds', w2)))"

section \<open>All or nothing\<close>

text \<open>The programs of a collector, and how many of them each kind of link holds.\<close>

definition linked :: "string list \<Rightarrow> AttachmentLinks \<Rightarrow> string list" where
  "linked live links = live @ al_semaphore_links links"

lemma remove1_aya:
  assumes "\<And>p. \<not> uk_detach k p"
  shows "fold (detach_aya k) ps (ps @ live) = live"
  using assms by (induction ps) (simp_all add: detach_aya_def)

text \<open>What the links of one collector are after its locations \<open>i..\<close> are attached.\<close>

definition all_attached ::
  "string \<Rightarrow> nat \<Rightarrow> nat \<Rightarrow> string list \<Rightarrow> string list \<Rightarrow> string list \<Rightarrow> string list \<Rightarrow> bool" where
  "all_attached cid i n live sems live' sems' \<longleftrightarrow>
     (\<exists>aya mine. live' = aya @ live \<and> sems' = sems @ mine \<and>
        mset (aya @ mine) = mset (map (\<lambda>j. the (usdt_program_name cid j)) [i..<i + n]))"

lemma all_attached_Suc:
  assumes "usdt_program_name cid i = Some prog"
  shows "all_attached cid (Suc i) n (prog # live) sems live' sems' \<Longrightarrow> all_attached cid i (Suc n) live sems live' sems'"
    "all_attached cid (Suc i) n live (sems @ [prog]) live' sems' \<Longrightarrow> all_attached cid i (Suc n) live sems live' sems'"
proof -
  have "[i..<i + Suc n] = i # [Suc i..<Suc i + n]" by (simp add: upt_conv_Cons)
  then have up: "mset (map (\<lambda>j. the (usdt_program_name cid j)) [i..<i + Suc n]) =
      add_mset prog (mset (map (\<lambda>j. the (usdt_program_name cid j)) [Suc i..<Suc i + n]))"
    using assms by simp
  show "all_attached cid i (Suc n) live sems live' sems'"
    if "all_attached cid (Suc i) n (prog # live) sems live' sems'"
  proof -
    from that obtain aya mine where "live' = aya @ prog # live" "sems' = sems @ mine"
      "mset (aya @ mine) = mset (map (\<lambda>j. the (usdt_program_name cid j)) [Suc i..<Suc i + n])"
      unfolding all_attached_def by blast
    then show ?thesis
      unfolding all_attached_def up by (intro exI[of _ "aya @ [prog]"] exI[of _ mine]) simp
  qed
  show "all_attached cid i (Suc n) live sems live' sems'"
    if "all_attached cid (Suc i) n live (sems @ [prog]) live' sems'"
  proof -
    from that obtain aya mine where "live' = aya @ live" "sems' = sems @ prog # mine"
      "mset (aya @ mine) = mset (map (\<lambda>j. the (usdt_program_name cid j)) [Suc i..<Suc i + n])"
      unfolding all_attached_def by auto
    then show ?thesis
      unfolding all_attached_def up by (intro exI[of _ aya] exI[of _ "prog # mine"]) simp
  qed
qed

lemma attach_points_spec:
  assumes loads: "\<And>p. uk_load k p = None" and detaches: "\<And>p. \<not> uk_detach k p"
    and names: "\<And>i. usdt_program_name cid i \<noteq> None"
  shows "attach_points k cid (length sems) i ps
      \<lparr>us_live = rev aya @ live, us_links = \<lparr>al_semaphore_links = sems @ mine\<rparr>, us_aya_links = aya\<rparr> = (r, st) \<Longrightarrow>
    (if is_ok r then all_attached cid i (length ps) (rev aya @ live) (sems @ mine) (us_live st)
         (al_semaphore_links (us_links st))
     else us_live st = live \<and> us_links st = \<lparr>al_semaphore_links = sems\<rparr>)"
proof (induction ps arbitrary: i aya mine)
  case Nil
  then show ?case by (auto simp: all_attached_def)
next
  case (Cons p ps)
  obtain prog where prog: "usdt_program_name cid i = Some prog" using names by blast
  have undo_all: "fold (detach_aya k) (rev aya) (rev aya @ live) = live"
    by (rule remove1_aya) (rule detaches)
  show ?case
  proof (cases "sp_semaphore_file_offset p")
    case None
    show ?thesis
      using Cons.prems Cons.IH[of "Suc i" "aya @ [prog]" mine] undo_all all_attached_Suc(1)[OF prog]
      by (auto simp: prog loads None Let_def rollback_links_def split: option.split_asm if_splits)
  next
    case (Some off)
    show ?thesis
      using Cons.prems Cons.IH[of "Suc i" aya "mine @ [prog]"] undo_all all_attached_Suc(2)[OF prog]
      by (auto simp: prog loads Some Let_def rollback_links_def split: sum.split_asm if_splits)
  qed
qed

lemma registered_names: "collector cid = Some metadata \<Longrightarrow> usdt_program_name (cm_id metadata) i \<noteq> None"
  using collector_Some[of cid metadata] by (auto simp: REGISTRY_def usdt_program_name_def)

lemma attach_target_spec:
  assumes "\<And>p. uk_load k p = None" "\<And>p. \<not> uk_detach k p" "collector cid = Some metadata"
    "attach_target k metadata probes live links = (r, live', links')"
  shows "if is_ok r then all_attached cid 0 (length probes) live (al_semaphore_links links)
      live' (al_semaphore_links links')
    else live' = live \<and> links' = links"
proof -
  have cid: "cm_id metadata = cid" using collector_Some[OF assms(3)] by simp
  have links: "\<lparr>al_semaphore_links = al_semaphore_links links\<rparr> = links" by simp
  obtain st where "attach_points k cid (length (al_semaphore_links links)) 0 probes
      \<lparr>us_live = live, us_links = links, us_aya_links = []\<rparr> = (r, st)"
    "live' = us_live st" "links' = us_links st" if "length probes \<le> cm_maximum_attach_points metadata"
    using assms(4) by (auto simp: attach_target_def cid split: prod.splits if_splits)
  moreover have "\<not> is_ok r \<and> live' = live \<and> links' = links" if "\<not> length probes \<le> cm_maximum_attach_points metadata"
    using assms(4) that by (auto simp: attach_target_def)
  ultimately show ?thesis
    using attach_points_spec[OF assms(1,2), of cid "al_semaphore_links links" 0 probes "[]" live "[]" r]
      registered_names[OF assms(3)] cid links
    by (cases "length probes \<le> cm_maximum_attach_points metadata") auto
qed


text \<open>A kernel on which everything works, with the sample file as the peer's executable.\<close>

definition sample_usdt_kernel :: UsdtKernel where
  "sample_usdt_kernel = \<lparr>uk_file = (\<lambda>_. Some (sample_elf 20)), uk_target_fd = 5, uk_load = (\<lambda>_. None),
     uk_attach = (\<lambda>_ _ _. None), uk_detach = (\<lambda>_. False), uk_pmu_type = Ok (''8'' @ [NEWLINE]),
     uk_open = (\<lambda>_. 9), uk_program_fd = (\<lambda>_. Ok 7), uk_ioctl = (\<lambda>_ _ _. 0)\<rparr>"

lemma sample_semaphore: "attach_uprobe_with_semaphore sample_usdt_kernel prog (attachment_path sample_usdt_kernel) o1 o2 = Ok ()"
proof -
  have "trim (''8'' @ [NEWLINE]) = ''8''"
    by (simp add: trim_def trim_start_def trim_end_def WHITESPACE_chars starts_with_def NEWLINE_def)
  moreover have "read_radix 10 ''8'' = 8" "is_digit (CHR ''8'')" by code_simp+
  ultimately have "parse_u32 (trim (''8'' @ [NEWLINE])) = Some 8" by (simp add: parse_u32_def)
  moreover have "decimal 5 = ''5''" by code_simp
  then have "CHR 0x00 \<notin> set (attachment_path sample_usdt_kernel)"
    by (simp add: attachment_path_def sample_usdt_kernel_def)
  ultimately show ?thesis by (simp add: attach_uprobe_with_semaphore_def sample_usdt_kernel_def)
qed

lemma sample_attach:
  "attach_selected sample_usdt_kernel 0 \<lparr>sel_collector_id = TRAINING_PEER_V1_ID, sel_enabled = True\<rparr>
     ([], \<lparr>al_semaphore_links = []\<rparr>, default_report) =
   Some ([], ([], \<lparr>al_semaphore_links = [''usdt_training_peer_v1_0'']\<rparr>,
     \<lparr>ar_probes = 1, ar_keys = [(''usdt.training-peer-v1'', True)]\<rparr>))"
proof -
  have "collector TRAINING_PEER_V1_ID = Some peer_metadata"
    by (simp add: collector_def REGISTRY_def TRAINING_PEER_V1_ID_def TRAINING_SHELL_V3_ID_def peer_metadata_def)
  moreover have "uk_file sample_usdt_kernel f = Some (sample_elf 20)" "uk_load sample_usdt_kernel p = None" for f p
    by (simp_all add: sample_usdt_kernel_def)
  moreover have "usdt_program_name (cm_id peer_metadata) 0 = Some ''usdt_training_peer_v1_0''"
    "cm_maximum_attach_points peer_metadata = 8" "usdt_key TRAINING_PEER_V1_ID = ''usdt.training-peer-v1''"
    by code_simp+
  ultimately show ?thesis
    by (simp add: attach_selected_def attach_target_def sample_verification sample_semaphore insert_key_def
        default_report_def)
qed


text \<open>
  C35: The rollback is not complete: when the program of a later location cannot be found
  or loaded, the collector reports a failed attachment while the program of the earlier
  location stays attached.
\<close>

theorem usdt_load_failure_leaks_link:
  assumes "usdt_program_name (cm_id metadata) 0 = Some prog" "usdt_program_name (cm_id metadata) 1 = Some prog'"
    and "sp_semaphore_file_offset p = None" "uk_attach k prog (sp_file_offset p) (attachment_path k) = None"
    and "uk_load k prog = None" "uk_load k prog' = Some m"
    and "length (p # q # ps) \<le> cm_maximum_attach_points metadata"
  shows "attach_target k metadata (p # q # ps) live links = (Err m, prog # live, links)"
  using assms by (simp add: attach_target_def)

theorem usdt_load_failure_leaks_link_witness:
  "attach_target (sample_usdt_kernel\<lparr>uk_load := (\<lambda>n. if n = ''usdt_training_peer_v1_1'' then Some ''E'' else None)\<rparr>)
     peer_metadata (replicate 2 \<lparr>sp_provider = [], sp_name = [], sp_operands = [], sp_file_offset = 80,
       sp_semaphore_address = 0, sp_semaphore_file_offset = None\<rparr>) [] \<lparr>al_semaphore_links = []\<rparr> =
   (Err ''E'', [''usdt_training_peer_v1_0''], \<lparr>al_semaphore_links = []\<rparr>)"
proof -
  have names: "usdt_program_name (cm_id peer_metadata) 0 = Some ''usdt_training_peer_v1_0''"
    "usdt_program_name (cm_id peer_metadata) 1 = Some ''usdt_training_peer_v1_1''"
    "cm_maximum_attach_points peer_metadata = 8" by code_simp+
  show ?thesis
    unfolding numeral_2_eq_2 replicate.simps
    by (rule usdt_load_failure_leaks_link[OF names(1,2)]) (simp_all add: names(3) sample_usdt_kernel_def)
qed

section \<open>The attribute of a semaphore-backed probe\<close>

text \<open>The reference-counter offset is the upper half of \<open>config\<close>, and nothing else is there.\<close>

lemma perf_attr_carries_offsets:
  "drop_bit 32 (pa_config (perf_attr t target off sem)) = ucast sem"
  "pa_config (perf_attr t target off sem) AND mask 32 = 0" "pa_config2 (perf_attr t target off sem) = off"
proof -
  have "drop_bit 32 (push_bit 32 (ucast sem)) = (ucast sem :: 64 word)"
    by (rule bit_word_eqI) (auto simp: bit_simps dest: bit_imp_le_length)
  moreover have "push_bit 32 (ucast sem) AND mask 32 = (0 :: 64 word)"
    by (rule bit_word_eqI) (auto simp: bit_simps)
  ultimately show "drop_bit 32 (pa_config (perf_attr t target off sem)) = ucast sem"
    "pa_config (perf_attr t target off sem) AND mask 32 = 0" "pa_config2 (perf_attr t target off sem) = off"
    by (simp_all add: perf_attr_def)
qed

end
