(* ===== verification/TuiModel.thy ===== *)
theory TuiModel
  imports Events
begin

text \<open>
  \<open>bloodhound-tui/src/event_model.rs\<close>: the viewer's event type, how it is read from a
  line of the daemon's output, its category and its one-line summary.
\<close>

section \<open>Types\<close>

record TuiHeader =
  th_timestamp :: "64 word"
  th_auid :: "32 word"
  th_sessionid :: "32 word"
  th_pid :: "32 word"
  th_ppid :: "32 word option"
  th_comm :: string
  th_process_ref :: "ProcessRefJson option"

record TuiEvent =
  te_header :: TuiHeader
  te_event :: EventTypeJson
  te_proc :: "ProcInfo option"
  te_args :: "json option"
  te_return_code :: "int option"

abbreviation te_name :: "TuiEvent \<Rightarrow> string" where "te_name e \<equiv> et_name (te_event e)"
abbreviation te_type :: "TuiEvent \<Rightarrow> string" where "te_type e \<equiv> et_type (te_event e)"
abbreviation te_pid :: "TuiEvent \<Rightarrow> 32 word" where "te_pid e \<equiv> th_pid (te_header e)"
abbreviation te_timestamp :: "TuiEvent \<Rightarrow> 64 word" where "te_timestamp e \<equiv> th_timestamp (te_header e)"

datatype EventCategory = CatProcess | CatSecurity | CatFiles | CatNetwork | CatHidden

section \<open>Reading an event\<close>

text \<open>
  The derived \<open>Deserialize\<close>: a required field must be there with a value of its type, an
  optional one may be missing or \<open>null\<close>, other fields are ignored.
\<close>

definition as_str :: "json \<Rightarrow> string option" where
  "as_str j = (case j of JStr s \<Rightarrow> Some s | _ \<Rightarrow> None)"

definition as_int :: "int \<Rightarrow> int \<Rightarrow> json \<Rightarrow> int option" where
  "as_int lo hi j = (case j of JNum n \<Rightarrow> if lo \<le> n \<and> n < hi then Some n else None | _ \<Rightarrow> None)"

definition as_u32 :: "json \<Rightarrow> 32 word option" where
  "as_u32 j = map_option of_int (as_int 0 (2 ^ 32) j)"

definition as_u64 :: "json \<Rightarrow> 64 word option" where
  "as_u64 j = map_option of_int (as_int 0 (2 ^ 64) j)"

definition as_i64 :: "json \<Rightarrow> int option" where
  "as_i64 = as_int (- (2 ^ 63)) (2 ^ 63)"

definition as_array :: "json \<Rightarrow> json list option" where
  "as_array j = (case j of JArr xs \<Rightarrow> Some xs | _ \<Rightarrow> None)"

definition req :: "(json \<Rightarrow> 'a option) \<Rightarrow> json \<Rightarrow> string \<Rightarrow> 'a option" where
  "req f j k = Option.bind (jget j k) f"

definition opt :: "(json \<Rightarrow> 'a option) \<Rightarrow> json \<Rightarrow> string \<Rightarrow> 'a option option" where
  "opt f j k = (case jget j k of None \<Rightarrow> Some None
     | Some v \<Rightarrow> if v = JNull then Some None else map_option Some (f v))"

definition process_ref_of_json :: "json \<Rightarrow> ProcessRefJson option" where
  "process_ref_of_json j =
     Option.bind (req as_u32 j ''tgid'') (\<lambda>tgid.
     Option.bind (req as_u64 j ''start_boottime_ns'') (\<lambda>start.
       Some \<lparr>pr_tgid = tgid, pr_start_boottime_ns = start\<rparr>))"

definition tui_header_of_json :: "json \<Rightarrow> TuiHeader option" where
  "tui_header_of_json j =
     Option.bind (req as_u64 j ''timestamp'') (\<lambda>timestamp.
     Option.bind (req as_u32 j ''auid'') (\<lambda>auid.
     Option.bind (req as_u32 j ''sessionid'') (\<lambda>sessionid.
     Option.bind (req as_u32 j ''pid'') (\<lambda>pid.
     Option.bind (opt as_u32 j ''ppid'') (\<lambda>ppid.
     Option.bind (req as_str j ''comm'') (\<lambda>comm.
     Option.bind (opt process_ref_of_json j ''process_ref'') (\<lambda>r.
       Some \<lparr>th_timestamp = timestamp, th_auid = auid, th_sessionid = sessionid, th_pid = pid,
         th_ppid = ppid, th_comm = comm, th_process_ref = r\<rparr>)))))))"

definition event_type_of_json :: "json \<Rightarrow> EventTypeJson option" where
  "event_type_of_json j =
     Option.bind (req as_str j ''type'') (\<lambda>t. Option.bind (req as_str j ''name'') (\<lambda>n.
     Option.bind (req as_str j ''layer'') (\<lambda>l. Some \<lparr>et_type = t, et_name = n, et_layer = l\<rparr>)))"

definition proc_of_json :: "json \<Rightarrow> ProcInfo option" where
  "proc_of_json j =
     Option.bind (opt as_str j ''main_executable'') (\<lambda>m. Option.bind (opt as_str j ''cwd'') (\<lambda>c.
     Option.bind (opt as_str j ''tty'') (\<lambda>t.
       Some \<lparr>pi_main_executable = m, pi_cwd = c, pi_tty = t\<rparr>)))"

definition tui_event_of_json :: "json \<Rightarrow> TuiEvent option" where
  "tui_event_of_json j =
     Option.bind (req tui_header_of_json j ''header'') (\<lambda>h.
     Option.bind (req event_type_of_json j ''event'') (\<lambda>t.
     Option.bind (opt proc_of_json j ''proc'') (\<lambda>p.
     Option.bind (opt Some j ''args'') (\<lambda>args.
     Option.bind (opt as_i64 j ''return_code'') (\<lambda>rc.
       Some \<lparr>te_header = h, te_event = t, te_proc = p, te_args = args, te_return_code = rc\<rparr>)))))"

section \<open>Categories\<close>

definition PROCESS_NAMES :: "string list" where
  "PROCESS_NAMES = [''execve'', ''execveat'', ''clone'', ''clone3'', ''process_start'', ''process_fork'',
     ''process_exit'']"

definition NETWORK_NAMES :: "string list" where
  "NETWORK_NAMES = [''ingress'', ''egress'', ''connect'', ''bind'', ''listen'', ''socket'', ''sendto'',
     ''recvfrom'']"

definition FILE_NAMES :: "string list" where
  "FILE_NAMES = [''openat'', ''read'', ''write'', ''mkdir'', ''mkdirat'', ''rmdir'', ''unlink'', ''unlinkat'',
     ''rename'', ''renameat2'', ''symlink'', ''symlinkat'', ''link'', ''linkat'', ''chmod'', ''fchmod'',
     ''fchmodat'', ''chown'', ''fchown'', ''fchownat'', ''truncate'', ''ftruncate'', ''chdir'', ''fchdir'',
     ''mount'', ''umount2'', ''mmap'', ''dup'', ''dup2'', ''dup3'', ''fcntl'', ''pread64'', ''pwrite64'',
     ''readv'', ''writev'', ''sendfile'', ''splice'', ''file_open'', ''inode_unlink'', ''inode_rename'']"

definition SECURITY_NAMES :: "string list" where
  "SECURITY_NAMES = [''task_kill'', ''bpf'', ''ptrace_access_check'', ''task_fix_setuid'']"

definition category :: "TuiEvent \<Rightarrow> EventCategory" where
  "category e =
     (let name = te_name e in
      if name \<in> set PROCESS_NAMES then CatProcess
      else if name \<in> set NETWORK_NAMES then CatNetwork
      else if name \<in> set FILE_NAMES then CatFiles
      else if name \<in> set SECURITY_NAMES then CatSecurity
      else CatHidden)"

definition is_tty_read :: "TuiEvent \<Rightarrow> bool" where
  "is_tty_read e \<longleftrightarrow> te_name e = ''tty_read''"

definition is_tty_write :: "TuiEvent \<Rightarrow> bool" where
  "is_tty_write e \<longleftrightarrow> te_name e = ''tty_write''"

definition is_tty :: "TuiEvent \<Rightarrow> bool" where
  "is_tty e \<longleftrightarrow> te_name e = ''tty_read'' \<or> te_name e = ''tty_write''"

definition is_synthetic :: "TuiEvent \<Rightarrow> bool" where
  "is_synthetic e \<longleftrightarrow> te_type e \<in> set [''LIFECYCLE'', ''HEARTBEAT'', ''DIAGNOSTIC'']"

section \<open>Summary lines\<close>

type_synonym fd_table = "32 word \<times> 32 word \<Rightarrow> string option"

definition ARROW :: string where "ARROW = [CHR 0xE2, CHR 0x86, CHR 0x92]"

text \<open>The lookups \<open>args.get(key).and_then(as_..)\<close>, with and without a default.\<close>

definition arg :: "(json \<Rightarrow> 'a option) \<Rightarrow> TuiEvent \<Rightarrow> string \<Rightarrow> 'a option" where
  "arg f e k = Option.bind (te_args e) (\<lambda>a. req f a k)"

definition arg_or :: "(json \<Rightarrow> 'a option) \<Rightarrow> 'a \<Rightarrow> json \<Rightarrow> string \<Rightarrow> 'a" where
  "arg_or f d a k = (case req f a k of None \<Rightarrow> d | Some x \<Rightarrow> x)"

definition with_args :: "TuiEvent \<Rightarrow> (json \<Rightarrow> string) \<Rightarrow> string" where
  "with_args e f = (case te_args e of None \<Rightarrow> [] | Some a \<Rightarrow> f a)"

definition strs_of :: "json list \<Rightarrow> string list" where
  "strs_of xs = List.map_filter as_str xs"

fun join_with :: "string \<Rightarrow> string list \<Rightarrow> string" where
  "join_with sep [] = []"
| "join_with sep [x] = x"
| "join_with sep (x # xs) = x @ sep @ join_with sep xs"

definition show_int :: "int \<Rightarrow> string" where
  "show_int n = (if n < 0 then ''-'' @ decimal (nat (- n)) else decimal (nat n))"

definition show_word :: "'a::len word \<Rightarrow> string" where
  "show_word w = decimal (unat w)"

definition format_rw_detail :: "fd_table option \<Rightarrow> TuiEvent \<Rightarrow> string" where
  "format_rw_detail table e = with_args e (\<lambda>a.
     let fd = ucast (arg_or as_u64 0 a ''fd'') :: 32 word;
         sz = show_word (arg_or as_u64 0 a ''requested_size'') in
     case Option.bind table (\<lambda>t. t (te_pid e, fd)) of
       Some path \<Rightarrow> '' '' @ path @ '' ('' @ sz @ ''b)''
     | None \<Rightarrow> '' fd='' @ show_word fd @ '' ('' @ sz @ ''b)'')"

definition format_path_detail :: "TuiEvent \<Rightarrow> string" where
  "format_path_detail e = (case arg as_str e ''filename'' of None \<Rightarrow> [] | Some f \<Rightarrow> '' '' @ f)"

definition format_fd_detail :: "TuiEvent \<Rightarrow> string" where
  "format_fd_detail e = (case arg as_u64 e ''fd'' of None \<Rightarrow> [] | Some fd \<Rightarrow> '' fd='' @ show_word fd)"

definition format_two_path_detail :: "TuiEvent \<Rightarrow> string" where
  "format_two_path_detail e = with_args e (\<lambda>a.
     '' '' @ arg_or as_str ''?'' a ''oldpath'' @ '' '' @ ARROW @ '' '' @ arg_or as_str ''?'' a ''newpath'')"

definition format_exec_detail :: "TuiEvent \<Rightarrow> string" where
  "format_exec_detail e = with_args e (\<lambda>a.
     '' '' @ arg_or as_str ''?'' a ''filename'' @ '' ['' @
     (case req as_array a ''argv'' of None \<Rightarrow> [] | Some xs \<Rightarrow> join_with '' '' (strs_of xs)) @ '']'')"

definition format_clone_detail :: "TuiEvent \<Rightarrow> string" where
  "format_clone_detail e =
     (case arg as_array e ''flags'' of None \<Rightarrow> []
      | Some xs \<Rightarrow> (let s = join_with ''|'' (strs_of xs) in if s = [] then [] else '' ('' @ s @ '')''))"

definition format_openat :: "TuiEvent \<Rightarrow> string \<times> string" where
  "format_openat e = (case te_args e of None \<Rightarrow> (''OPEN'', [])
     | Some a \<Rightarrow>
         (let flags = (case req as_array a ''flags'' of None \<Rightarrow> [] | Some xs \<Rightarrow> strs_of xs) in
          (if ''O_WRONLY'' \<in> set flags \<or> ''O_RDWR'' \<in> set flags then ''WRITE'' else ''READ'',
           '' '' @ arg_or as_str ''?'' a ''filename'')))"

text \<open>The \<open>match\<close> on the name, in the order of its arms: action and detail.\<close>

definition summary_parts :: "fd_table option \<Rightarrow> TuiEvent \<Rightarrow> string \<times> string" where
  "summary_parts table e =
     (let name = te_name e; num = (\<lambda>a k. show_word (arg_or as_u64 0 a k)) in
      if name = ''execve'' \<or> name = ''execveat'' then (name, format_exec_detail e)
      else if name = ''clone'' \<or> name = ''clone3'' then (''FORK'', format_clone_detail e)
      else if name = ''openat'' then format_openat e
      else if name = ''read'' then (''READ'', format_rw_detail table e)
      else if name = ''write'' then (''WRITE'', format_rw_detail table e)
      else if name = ''mkdir'' \<or> name = ''mkdirat'' then (''CREATE'', format_path_detail e)
      else if name = ''unlink'' \<or> name = ''unlinkat'' \<or> name = ''rmdir'' then (''DELETE'', format_path_detail e)
      else if name = ''rename'' \<or> name = ''renameat2'' then (''RENAME'', format_two_path_detail e)
      else if name = ''symlink'' \<or> name = ''symlinkat'' \<or> name = ''link'' \<or> name = ''linkat''
        then (''LINK'', format_two_path_detail e)
      else if name = ''chmod'' \<or> name = ''fchmodat'' then (''PERM'', format_path_detail e)
      else if name = ''fchmod'' then (''PERM'', format_fd_detail e)
      else if name = ''chown'' \<or> name = ''fchownat'' then (''OWNER'', format_path_detail e)
      else if name = ''fchown'' then (''OWNER'', format_fd_detail e)
      else if name = ''truncate'' then (''TRUNC'', format_path_detail e)
      else if name = ''ftruncate'' then (''TRUNC'', format_fd_detail e)
      else if name = ''chdir'' then (''CHDIR'', format_path_detail e)
      else if name = ''fchdir'' then (''CHDIR'', format_fd_detail e)
      else if name = ''mount'' then (''MOUNT'', format_two_path_detail e)
      else if name = ''umount2'' then (''UMOUNT'', format_path_detail e)
      else if name = ''file_open'' then (''OPEN'', '' (LSM)'')
      else if name = ''inode_unlink'' then (''DELETE'', '' (LSM)'')
      else if name = ''inode_rename'' then (''RENAME'', '' (LSM)'')
      else if name = ''task_kill'' then
        (''KILL'', with_args e (\<lambda>a. '' pid='' @ num a ''target_pid'' @ '' sig='' @ num a ''signal''))
      else if name = ''bpf'' then
        (''BPF'', case arg as_u64 e ''cmd'' of None \<Rightarrow> [] | Some c \<Rightarrow> '' cmd='' @ show_word c)
      else if name = ''ptrace_access_check'' then
        (''PTRACE'', case arg as_u64 e ''target_pid'' of None \<Rightarrow> [] | Some p \<Rightarrow> '' pid='' @ show_word p)
      else if name = ''task_fix_setuid'' then
        (''SETUID'', with_args e (\<lambda>a. '' uid:'' @ num a ''old_uid'' @ ARROW @ num a ''new_uid''))
      else if name = ''connect'' \<or> name = ''bind'' \<or> name = ''sendto'' \<or> name = ''recvfrom'' then
        (name, with_args e (\<lambda>a. '' '' @ arg_or as_str ''?'' a ''addr'' @ '':'' @ num a ''port''))
      else if name = ''ingress'' \<or> name = ''egress'' then
        (name, with_args e (\<lambda>a. '' if='' @ num a ''ifindex''))
      else (name, format_path_detail e))"

definition summary_line :: "fd_table option \<Rightarrow> TuiEvent \<Rightarrow> string" where
  "summary_line table e =
     (case summary_parts table e of (action, detail) \<Rightarrow>
       action @ detail @ '' (pid:'' @ show_word (te_pid e) @
       (case te_return_code e of None \<Rightarrow> [] | Some r \<Rightarrow> '' rc='' @ show_int r) @ '')'')"

section \<open>The viewer reads what the daemon writes\<close>

text \<open>What the viewer keeps of an event.\<close>

definition tui_header_of :: "EventHeaderJson \<Rightarrow> TuiHeader" where
  "tui_header_of h = \<lparr>th_timestamp = hj_timestamp h, th_auid = hj_auid h, th_sessionid = hj_sessionid h,
     th_pid = hj_pid h, th_ppid = hj_ppid h, th_comm = hj_comm h, th_process_ref = hj_process_ref h\<rparr>"

definition tui_event_of :: "BehaviorEvent \<Rightarrow> TuiEvent" where
  "tui_event_of e = \<lparr>te_header = tui_header_of (be_header e), te_event = be_event e, te_proc = be_proc e,
     te_args = be_args e, te_return_code = be_return_code e\<rparr>"

lemma as_word [simp]: "as_u32 (junum w) = Some w" "as_u64 (junum v) = Some v"
  using uint_bounded[of w] uint_bounded[of v] by (simp_all add: as_u32_def as_u64_def as_int_def junum_def)

lemma as_str_JStr [simp]: "as_str (JStr s) = Some s"
  by (simp add: as_str_def)

lemma process_ref_round [simp]: "process_ref_of_json (process_ref_json r) = Some r"
  by (simp add: process_ref_of_json_def process_ref_json_def req_def)

lemma not_null [simp]: "junum w \<noteq> JNull" "process_ref_json r \<noteq> JNull" "proc_json p \<noteq> JNull"
  by (simp_all add: junum_def process_ref_json_def proc_json_def)

lemma header_round [simp]: "tui_header_of_json (header_json h) = Some (tui_header_of h)"
  by (simp add: tui_header_of_json_def header_json_def req_def opt_def jopt_def tui_header_of_def
      split: option.splits)

lemma event_type_round [simp]: "event_type_of_json (event_type_json t) = Some t"
  by (simp add: event_type_of_json_def event_type_json_def req_def)

lemma proc_round [simp]: "proc_of_json (proc_json p) = Some p"
  by (simp add: proc_of_json_def proc_json_def opt_def jopt_def split: option.splits)

text \<open>
  What the viewer keeps of an event is what the daemon put there, provided that its
  arguments are not the bare \<open>null\<close> and its return code is an \<open>i64\<close>.
\<close>

definition readable :: "BehaviorEvent \<Rightarrow> bool" where
  "readable e \<longleftrightarrow> be_args e \<noteq> Some JNull \<and>
     (case be_return_code e of None \<Rightarrow> True | Some rc \<Rightarrow> - (2 ^ 63) \<le> rc \<and> rc < 2 ^ 63)"

lemma tui_event_round:
  assumes "readable e"
  shows "tui_event_of_json (behavior_event_json e) = Some (tui_event_of e)"
  using assms
  by (cases "be_proc e"; cases "be_args e"; cases "be_return_code e")
    (simp_all add: tui_event_of_json_def behavior_event_json_def req_def opt_def jopt_def tui_event_of_def
      as_i64_def as_int_def readable_def)

definition sample_event :: BehaviorEvent where
  "sample_event = \<lparr>be_header = (synthetic_header 7)\<lparr>hj_pid := 42, hj_ppid := Some 1, hj_comm := ''bash''\<rparr>,
     be_event = \<lparr>et_type = ''SYSCALL'', et_name = ''openat'', et_layer = ''behavior''\<rparr>,
     be_proc = None, be_args = Some (JObj [(''filename'', JStr ''/etc/passwd'')]), be_return_code = Some (- 2)\<rparr>"

section \<open>Facts about categories\<close>

text \<open>Whatever the category shows is neither terminal data nor metadata without a process.\<close>

lemma tty_hidden: "is_tty e \<Longrightarrow> category e = CatHidden"
  by (auto simp: is_tty_def category_def Let_def PROCESS_NAMES_def NETWORK_NAMES_def FILE_NAMES_def SECURITY_NAMES_def)

end
