(* ===== verification/TuiCommands.thy ===== *)
theory TuiCommands
  imports TuiModel Usdt "HOL-Library.Multiset"
begin

text \<open>
  \<open>bloodhound-tui/src/command_reconstructor.rs\<close> and \<open>correlator.rs\<close>: the commands typed
  in a terminal, recovered from what its shells wrote, and the events of each command.
  The base64 decoder is the argument \<open>dec\<close>.
\<close>

section \<open>Reconstruction\<close>

record CommandEntry =
  ce_command :: string
  ce_start_timestamp :: "64 word"
  ce_end_timestamp :: "64 word"

definition SHELL_COMMS :: "string list" where
  "SHELL_COMMS = [''bash'', ''sh'', ''zsh'', ''fish'', ''dash'', ''ksh'', ''tcsh'', ''csh'']"

text \<open>\<open>str::rfind\<close> of a pattern: what precedes its last occurrence and what follows it.\<close>

fun rfind :: "string \<Rightarrow> string \<Rightarrow> (string \<times> string) option" where
  "rfind pat [] = None"
| "rfind pat (c # s) = (case rfind pat s of
       Some (before, after) \<Rightarrow> Some (c # before, after)
     | None \<Rightarrow> if starts_with (c # s) pat then Some ([], drop (length pat) (c # s)) else None)"

definition strip_prompt :: "string \<Rightarrow> string" where
  "strip_prompt line =
     (case rfind ''$ '' line of Some (_, rest) \<Rightarrow> rest
      | None \<Rightarrow> (case rfind ''# '' line of Some (_, rest) \<Rightarrow> rest | None \<Rightarrow> line))"

definition is_ascii_graphic :: "byte \<Rightarrow> bool" where
  "is_ascii_graphic b \<longleftrightarrow> 0x21 \<le> b \<and> b \<le> 0x7e"

definition is_ascii_alphabetic :: "byte \<Rightarrow> bool" where
  "is_ascii_alphabetic b \<longleftrightarrow> (0x41 \<le> b \<and> b \<le> 0x5a) \<or> (0x61 \<le> b \<and> b \<le> 0x7a)"

definition byte_char :: "byte \<Rightarrow> char" where
  "byte_char b = char_of (unat b)"

record Recon =
  rc_commands :: "CommandEntry list"
  rc_buf :: string
  rc_start_ts :: "64 word"
  rc_has_start :: bool
  rc_in_escape :: bool
  rc_in_osc :: bool

definition recon_start :: Recon where
  "recon_start = \<lparr>rc_commands = [], rc_buf = [], rc_start_ts = 0, rc_has_start = False,
     rc_in_escape = False, rc_in_osc = False\<rparr>"

text \<open>Flushing the line: what is pushed, with the mark of an interrupt.\<close>

definition flush_line :: "64 word \<Rightarrow> string \<Rightarrow> Recon \<Rightarrow> Recon" where
  "flush_line timestamp mark st =
     st\<lparr>rc_commands := rc_commands st @
          [\<lparr>ce_command = strip_prompt (rc_buf st @ mark), ce_start_timestamp = rc_start_ts st,
            ce_end_timestamp = timestamp\<rparr>],
        rc_buf := [], rc_has_start := False\<rparr>"

definition delete_word :: "string \<Rightarrow> string" where
  "delete_word buf = (case rfind '' '' (trim_end buf) of Some (before, _) \<Rightarrow> before @ '' '' | None \<Rightarrow> [])"

definition recon_byte :: "64 word \<Rightarrow> byte \<Rightarrow> Recon \<Rightarrow> Recon" where
  "recon_byte timestamp b st =
     (if rc_in_osc st then (if b = 0x07 then st\<lparr>rc_in_osc := False\<rparr> else st)
      else if rc_in_escape st then
        (if b = 0x5d then st\<lparr>rc_in_escape := False, rc_in_osc := True\<rparr>
         else if is_ascii_alphabetic b \<or> b = 0x7e then st\<lparr>rc_in_escape := False\<rparr>
         else st)
      else if b = 0x0d \<or> b = 0x0a then flush_line timestamp [] st
      else if b = 0x7f then st\<lparr>rc_buf := butlast (rc_buf st)\<rparr>
      else if b = 0x03 then flush_line timestamp ''^C'' st
      else if b = 0x04 then flush_line timestamp ''^D'' st
      else if b = 0x1b then st\<lparr>rc_in_escape := True\<rparr>
      else if b = 0x09 then st\<lparr>rc_buf := rc_buf st @ [CHR 0x09]\<rparr>
      else if b = 0x15 then st\<lparr>rc_buf := []\<rparr>
      else if b = 0x17 then st\<lparr>rc_buf := delete_word (rc_buf st)\<rparr>
      else if is_ascii_graphic b \<or> b = 0x20 then st\<lparr>rc_buf := rc_buf st @ [byte_char b]\<rparr>
      else st)"

type_synonym tty_write = "64 word \<times> string \<times> string"

definition recon_event :: "(string \<Rightarrow> bytes option) \<Rightarrow> tty_write \<Rightarrow> Recon \<Rightarrow> Recon" where
  "recon_event dec ev st = (case ev of (timestamp, data_b64, comm) \<Rightarrow>
     if comm \<notin> set SHELL_COMMS then st
     else (case dec data_b64 of None \<Rightarrow> st
       | Some raw \<Rightarrow>
           fold (recon_byte timestamp) raw
             (if rc_has_start st then st else st\<lparr>rc_start_ts := timestamp, rc_has_start := True\<rparr>)))"

definition recon_finish :: "tty_write list \<Rightarrow> Recon \<Rightarrow> CommandEntry list" where
  "recon_finish evs st =
     (if rc_buf st = [] then rc_commands st
      else rc_commands st @
        [\<lparr>ce_command = strip_prompt (rc_buf st), ce_start_timestamp = rc_start_ts st,
          ce_end_timestamp = (if evs = [] then rc_start_ts st else fst (last evs))\<rparr>])"

definition reconstruct_commands :: "(string \<Rightarrow> bytes option) \<Rightarrow> tty_write list \<Rightarrow> CommandEntry list" where
  "reconstruct_commands dec evs = recon_finish evs (fold (recon_event dec) evs recon_start)"

section \<open>Correlation\<close>

record CommandGroup =
  cg_command :: string
  cg_timestamp :: "64 word"
  cg_event_indices :: "nat list"

definition is_correlated :: "TuiEvent \<Rightarrow> bool" where
  "is_correlated e \<longleftrightarrow> \<not> is_tty e \<and> \<not> is_synthetic e"

definition correlated_events :: "TuiEvent list \<Rightarrow> (nat \<times> 64 word) list" where
  "correlated_events events =
     map (\<lambda>(i, e). (i, te_timestamp e)) (filter (\<lambda>(i, e). is_correlated e) (enumerate 0 events))"

definition in_window :: "64 word \<Rightarrow> 64 word \<Rightarrow> (nat \<times> 64 word) list \<Rightarrow> nat list" where
  "in_window lo hi xs = map fst (filter (\<lambda>(_, ts). lo \<le> ts \<and> ts < hi) xs)"

text \<open>The loop over the commands: each window ends where the next command ends.\<close>

fun command_windows :: "(nat \<times> 64 word) list \<Rightarrow> CommandEntry list \<Rightarrow> CommandGroup list" where
  "command_windows xs [] = []"
| "command_windows xs (c # cs) =
     \<lparr>cg_command = ce_command c, cg_timestamp = ce_end_timestamp c,
      cg_event_indices = in_window (ce_end_timestamp c)
        (case cs of [] \<Rightarrow> - 1 | d # _ \<Rightarrow> ce_end_timestamp d) xs\<rparr> # command_windows xs cs"

definition correlate :: "CommandEntry list \<Rightarrow> TuiEvent list \<Rightarrow> CommandGroup list" where
  "correlate commands events =
     (let non_tty = correlated_events events in
      case commands of
        [] \<Rightarrow> [\<lparr>cg_command = ''[no commands detected]'',
                cg_timestamp = (case events of [] \<Rightarrow> 0 | e # _ \<Rightarrow> te_timestamp e),
                cg_event_indices = map fst non_tty\<rparr>]
      | c # _ \<Rightarrow>
          (let pre_indices = map fst (filter (\<lambda>(_, ts). ts < ce_end_timestamp c) non_tty) in
           (if pre_indices = [] then []
            else [\<lparr>cg_command = ''[pre-session]'',
                   cg_timestamp = (case non_tty of [] \<Rightarrow> 0 | (_, ts) # _ \<Rightarrow> ts),
                   cg_event_indices = pre_indices\<rparr>])
           @ command_windows non_tty commands))"

section \<open>How the terminal chunks its output does not matter\<close>

text \<open>The bytes that the shells wrote, in order.\<close>

definition shell_bytes :: "(string \<Rightarrow> bytes option) \<Rightarrow> tty_write list \<Rightarrow> bytes" where
  "shell_bytes dec evs = concat (List.map_filter (\<lambda>(_, data, comm).
     if comm \<in> set SHELL_COMMS then dec data else None) evs)"

text \<open>What the commands depend on: everything in the state but the times.\<close>

definition typed :: "Recon \<Rightarrow> string list \<times> string \<times> bool \<times> bool" where
  "typed st = (map ce_command (rc_commands st), rc_buf st, rc_in_escape st, rc_in_osc st)"

lemma typed_byte: "typed a = typed b \<Longrightarrow> typed (recon_byte t x a) = typed (recon_byte t' x b)"
  by (auto simp: typed_def recon_byte_def flush_line_def)

lemma typed_bytes: "typed a = typed b \<Longrightarrow> typed (fold (recon_byte t) xs a) = typed (fold (recon_byte t') xs b)"
proof (induction xs arbitrary: a b)
  case (Cons x xs)
  show ?case using Cons.IH[OF typed_byte[OF Cons.prems]] by simp
qed simp

lemma typed_event:
  assumes "typed a = typed b"
  shows "typed (recon_event dec (t, d, c) a) =
    typed (fold (recon_byte t') (if c \<in> set SHELL_COMMS then (case dec d of None \<Rightarrow> [] | Some raw \<Rightarrow> raw) else []) b)"
proof -
  have "typed (if rc_has_start a then a else a\<lparr>rc_start_ts := t, rc_has_start := True\<rparr>) = typed b"
    using assms by (simp add: typed_def)
  then show ?thesis
    using assms by (auto simp: recon_event_def typed_bytes split: option.splits)
qed

lemma typed_events:
  "typed a = typed b \<Longrightarrow> typed (fold (recon_event dec) evs a) = typed (fold (recon_byte t) (shell_bytes dec evs) b)"
proof (induction evs arbitrary: a b)
  case (Cons ev evs)
  obtain ts d c where ev: "ev = (ts, d, c)" by (cases ev)
  have "shell_bytes dec (ev # evs) =
      (if c \<in> set SHELL_COMMS then (case dec d of None \<Rightarrow> [] | Some raw \<Rightarrow> raw) else []) @ shell_bytes dec evs"
    by (simp add: ev shell_bytes_def map_filter_simps split: option.splits)
  then show ?case
    using Cons.IH[OF typed_event[OF Cons.prems, of dec ts d c t]] by (simp add: ev)
qed (simp add: shell_bytes_def map_filter_simps)

definition command_names :: "(string \<Rightarrow> bytes option) \<Rightarrow> tty_write list \<Rightarrow> string list" where
  "command_names dec evs = map ce_command (reconstruct_commands dec evs)"

lemma command_names_bytes:
  "command_names dec evs = (case typed (fold (recon_byte 0) (shell_bytes dec evs) recon_start) of
     (cs, buf, _) \<Rightarrow> if buf = [] then cs else cs @ [strip_prompt buf])"
  using typed_events[of recon_start recon_start dec evs 0]
  by (auto simp: command_names_def reconstruct_commands_def recon_finish_def typed_def)

text \<open>
  C26: The commands recovered from a terminal depend only on the bytes that its shells
  wrote, not on how these were cut into events, when, or between which other events.
\<close>

theorem chunking_irrelevant:
  assumes "shell_bytes dec evs = shell_bytes dec evs'"
  shows "command_names dec evs = command_names dec evs'"
  by (simp add: command_names_bytes assms)

text \<open>A decoder for the examples: every character stands for its byte.\<close>

definition plain_dec :: "string \<Rightarrow> bytes option" where
  "plain_dec s = Some (bytes_of_str s)"

theorem chunking_irrelevant_witness:
  "command_names plain_dec [(1, ''l'', ''bash''), (2, ''zz'', ''vim''), (3, ''s'' @ [CHR 0x0D], ''bash'')] =
   command_names plain_dec [(9, ''ls'' @ [CHR 0x0D], ''bash'')]"
proof (rule chunking_irrelevant)
  show "shell_bytes plain_dec [(1, ''l'', ''bash''), (2, ''zz'', ''vim''), (3, ''s'' @ [CHR 0x0D], ''bash'')] =
    shell_bytes plain_dec [(9, ''ls'' @ [CHR 0x0D], ''bash'')]"
    by (simp add: shell_bytes_def map_filter_simps SHELL_COMMS_def plain_dec_def bytes_of_str_def)
qed

section \<open>Typed lines are recovered\<close>

definition printable :: "byte \<Rightarrow> bool" where
  "printable b \<longleftrightarrow> 0x20 \<le> b \<and> b \<le> 0x7e"

text \<open>One prompt and command as the terminal echoes them; the prompt ends in \<open>$ \<close>.\<close>

definition echoed_line :: "bytes \<times> bytes \<Rightarrow> bytes" where
  "echoed_line l = fst l @ [0x24, 0x20] @ snd l @ [0x0d, 0x0a]"

definition plain_line :: "bytes \<times> bytes \<Rightarrow> bool" where
  "plain_line l \<longleftrightarrow> list_all printable (fst l) \<and> list_all printable (snd l) \<and>
     rfind ''$ '' (map byte_char (snd l)) = None"

lemma printable_byte:
  assumes "printable b" "\<not> rc_in_osc st" "\<not> rc_in_escape st"
  shows "recon_byte t b st = st\<lparr>rc_buf := rc_buf st @ [byte_char b]\<rparr>"
proof -
  have "32 \<le> unat b" "unat b \<le> 126" using assms(1) by (simp_all add: printable_def word_le_nat_alt)
  then have "b \<notin> {0x07, 0x0d, 0x0a, 0x7f, 0x03, 0x04, 0x1b, 0x09, 0x15, 0x17}" by auto
  moreover have "is_ascii_graphic b \<or> b = 0x20"
    using assms(1) by (auto simp: printable_def is_ascii_graphic_def word_le_nat_alt word_unat_eq_iff)
  ultimately show ?thesis using assms(2,3) by (simp add: recon_byte_def)
qed

lemma printable_bytes:
  "list_all printable bs \<Longrightarrow> \<not> rc_in_osc st \<Longrightarrow> \<not> rc_in_escape st \<Longrightarrow>
   fold (recon_byte t) bs st = st\<lparr>rc_buf := rc_buf st @ map byte_char bs\<rparr>"
  by (induction bs arbitrary: st) (simp_all add: printable_byte)

lemma rfind_prompt: "rfind ''$ '' c = None \<Longrightarrow> rfind ''$ '' (p @ ''$ '' @ c) = Some (p, c)"
proof (induction p)
  case Nil
  have "rfind ''$ '' (CHR '' '' # c) = None" using Nil by (simp add: starts_with_def)
  then show ?case by (simp add: starts_with_def)
qed simp

lemma echoed_line_effect:
  assumes "plain_line l" "\<not> rc_in_osc st" "\<not> rc_in_escape st" "rc_buf st = []"
  shows "typed (fold (recon_byte t) (echoed_line l) st) =
    (map ce_command (rc_commands st) @ [map byte_char (snd l), []], [], False, False)"
proof -
  have dollar: "byte_char 0x24 = CHR ''$''" "byte_char 0x20 = CHR '' ''" by code_simp+
  have "list_all printable (fst l @ [0x24, 0x20] @ snd l)"
    using assms(1) by (simp add: plain_line_def) (simp add: printable_def)
  from printable_bytes[OF this assms(2,3), of t]
  have "fold (recon_byte t) (fst l @ [0x24, 0x20] @ snd l) st =
      st\<lparr>rc_buf := map byte_char (fst l) @ ''$ '' @ map byte_char (snd l)\<rparr>"
    using assms(4) by (simp add: dollar)
  moreover have "strip_prompt (map byte_char (fst l) @ ''$ '' @ map byte_char (snd l)) = map byte_char (snd l)"
    using rfind_prompt[of "map byte_char (snd l)" "map byte_char (fst l)"] assms(1)
    by (simp add: strip_prompt_def plain_line_def)
  moreover have "strip_prompt [] = []" by (simp add: strip_prompt_def)
  moreover have "echoed_line l = (fst l @ [0x24, 0x20] @ snd l) @ [0x0d, 0x0a]" by (simp add: echoed_line_def)
  ultimately show ?thesis
    using assms(2-4) by (simp only: fold_append o_apply) (simp add: recon_byte_def flush_line_def typed_def)
qed

lemma echoed_lines_effect:
  "list_all plain_line ls \<Longrightarrow> typed st = (cs, [], False, False) \<Longrightarrow>
   typed (fold (recon_byte t) (concat (map echoed_line ls)) st) =
     (cs @ concat (map (\<lambda>l. [map byte_char (snd l), []]) ls), [], False, False)"
proof (induction ls arbitrary: st cs)
  case (Cons l ls)
  have st: "\<not> rc_in_osc st" "\<not> rc_in_escape st" "rc_buf st = []" "map ce_command (rc_commands st) = cs"
    using Cons.prems(2) by (simp_all add: typed_def)
  have "typed (fold (recon_byte t) (echoed_line l) st) = (cs @ [map byte_char (snd l), []], [], False, False)"
    using echoed_line_effect[OF _ st(1-3), of l t] Cons.prems(1) st(4) by simp
  from Cons.IH[OF _ this] show ?case using Cons.prems(1) by simp
qed simp



section \<open>Operating system commands\<close>

lemma osc_swallows:
  assumes "rc_in_osc st" "0x07 \<notin> set bs"
  shows "fold (recon_byte t) bs st = st"
  using assms by (induction bs) (auto simp: recon_byte_def)

text \<open>
  C36: An operating system command that the terminal ends with the string terminator
  (escape, backslash) is not ended for the viewer: it drops everything up to the next bell
  character, so all commands after it are lost.
\<close>

theorem osc_string_terminator_ignored:
  assumes "shell_bytes dec evs = [0x1b, 0x5d] @ title @ [0x1b, 0x5c] @ rest" "0x07 \<notin> set (title @ rest)"
  shows "command_names dec evs = []"
proof -
  have "fold (recon_byte 0) [0x1b, 0x5d] recon_start = recon_start\<lparr>rc_in_osc := True\<rparr>"
    by (simp add: recon_byte_def recon_start_def is_ascii_alphabetic_def)
  then have "fold (recon_byte 0) (shell_bytes dec evs) recon_start = recon_start\<lparr>rc_in_osc := True\<rparr>"
    using osc_swallows[of "recon_start\<lparr>rc_in_osc := True\<rparr>" "title @ [0x1b, 0x5c] @ rest" 0] assms
    by simp
  then show ?thesis by (simp add: command_names_bytes typed_def recon_start_def)
qed

theorem osc_string_terminator_ignored_witness:
  "command_names plain_dec [(1, [CHR 0x1B] @ '']0;t'' @ [CHR 0x1B, CHR 0x5C] @ ''ls'' @ [CHR 0x0D], ''bash'')] = []"
  by (rule osc_string_terminator_ignored[where title = "bytes_of_str ''0;t''" and rest = "bytes_of_str (''ls'' @ [CHR 0x0D])"])
    (simp_all add: shell_bytes_def map_filter_simps SHELL_COMMS_def plain_dec_def bytes_of_str_def)

section \<open>Every event belongs to one command\<close>

lemma filter_split: "mset (filter P xs) = mset (filter (\<lambda>x. P x \<and> Q x) xs) + mset (filter (\<lambda>x. P x \<and> \<not> Q x) xs)"
  by (induction xs) auto

lemma windows_cover:
  assumes "sorted (map ce_end_timestamp (c # cs))"
  shows "mset (concat (map cg_event_indices (command_windows xs (c # cs)))) =
    mset (in_window (ce_end_timestamp c) (- 1) xs)"
  using assms
proof (induction cs arbitrary: c)
  case (Cons d cs)
  let ?lo = "ce_end_timestamp c" and ?mid = "ce_end_timestamp d"
  have mid: "?lo \<le> ?mid" and rest: "sorted (map ce_end_timestamp (d # cs))" using Cons.prems by simp_all
  have "mset (concat (map cg_event_indices (command_windows xs (c # d # cs)))) =
      mset (in_window ?lo ?mid xs) + mset (concat (map cg_event_indices (command_windows xs (d # cs))))"
    by simp
  also have "\<dots> = mset (in_window ?lo ?mid xs) + mset (in_window ?mid (- 1) xs)"
    by (simp only: Cons.IH[OF rest])
  also have "\<dots> = mset (in_window ?lo (- 1) xs)"
  proof -
    have top: "ts < - 1" if "ts < ?mid" for ts
      using that word_order.extremum[of ?mid] by (rule less_le_trans)
    have low: "?lo \<le> ts" if "?mid \<le> ts" for ts using mid that by (rule order_trans)
    have "filter (\<lambda>(_, ts). ?lo \<le> ts \<and> ts < ?mid) xs =
        filter (\<lambda>x. (?lo \<le> snd x \<and> snd x < - 1) \<and> snd x < ?mid) xs"
      by (rule filter_cong) (auto dest: top)
    moreover have "filter (\<lambda>(_, ts). ?mid \<le> ts \<and> ts < - 1) xs =
        filter (\<lambda>x. (?lo \<le> snd x \<and> snd x < - 1) \<and> \<not> snd x < ?mid) xs"
      by (rule filter_cong) (auto simp: not_less dest: low)
    ultimately show ?thesis
      using filter_split[of "\<lambda>x. ?lo \<le> snd x \<and> snd x < - 1" xs "\<lambda>x. snd x < ?mid"]
      by (simp add: in_window_def split_beta flip: image_mset_union)
  qed
  finally show ?case .
qed simp

lemma correlated_indices:
  "map fst (correlated_events events) = filter (\<lambda>i. is_correlated (events ! i)) [0..<length events]"
proof -
  have en: "enumerate 0 events = map (\<lambda>i. (i, events ! i)) [0..<length events]"
    using enumerate_map_upt[of 0 "\<lambda>i. events ! i" "length events"] by (simp add: map_nth)
  show ?thesis
    unfolding correlated_events_def en filter_map by (simp add: o_def)
qed

text \<open>
  C27: When the commands are in the order of their times, every event that counts as user
  activity is attributed to exactly one group, once, and nothing else is: terminal data and
  synthesised metadata are in no group.
\<close>

theorem correlate_partitions:
  assumes "sorted (map ce_end_timestamp commands)" "list_all (\<lambda>e. te_timestamp e \<noteq> - 1) events"
  shows "mset (concat (map cg_event_indices (correlate commands events))) =
    mset (filter (\<lambda>i. is_correlated (events ! i)) [0..<length events])"
proof -
  let ?xs = "correlated_events events"
  have all: "map fst ?xs = filter (\<lambda>i. is_correlated (events ! i)) [0..<length events]"
    by (rule correlated_indices)
  have bound: "snd x < - 1" if "x \<in> set ?xs" for x
  proof -
    obtain i where "i < length events" "snd x = te_timestamp (events ! i)"
      using \<open>x \<in> set ?xs\<close> by (auto simp: correlated_events_def in_set_enumerate_eq)
    then have "snd x \<noteq> - 1" using assms(2) by (simp add: list_all_length)
    then show ?thesis by (simp only: word_order.not_eq_extremum)
  qed
  show ?thesis
  proof (cases commands)
    case Nil
    then show ?thesis by (simp add: correlate_def Let_def all)
  next
    case (Cons c cs)
    let ?t = "ce_end_timestamp c"
    have "mset (concat (map cg_event_indices (correlate commands events))) =
        mset (map fst (filter (\<lambda>(_, ts). ts < ?t) ?xs)) + mset (in_window ?t (- 1) ?xs)"
      using windows_cover[of c cs ?xs] assms(1)
      by (cases "filter (\<lambda>(_, ts). ts < ?t) ?xs = []") (simp_all add: correlate_def Let_def Cons)
    also have "in_window ?t (- 1) ?xs = map fst (filter (\<lambda>x. \<not> snd x < ?t) ?xs)"
      unfolding in_window_def using bound by (intro arg_cong[of _ _ "map fst"] filter_cong) auto
    also have "mset (map fst (filter (\<lambda>(_, ts). ts < ?t) ?xs)) + mset (map fst (filter (\<lambda>x. \<not> snd x < ?t) ?xs)) =
        mset (map fst ?xs)"
      using filter_split[of "\<lambda>_. True" ?xs "\<lambda>x. snd x < ?t"] by (simp add: split_beta flip: image_mset_union)
    finally show ?thesis by (simp only: all)
  qed
qed

theorem correlate_partitions_witness:
  "mset (concat (map cg_event_indices (correlate
     [\<lparr>ce_command = ''ls'', ce_start_timestamp = 1, ce_end_timestamp = 5\<rparr>]
     [tui_event_of sample_event, tui_event_of sample_event]))) = {#0, 1#}"
proof -
  have "list_all (\<lambda>e. te_timestamp e \<noteq> - 1) [tui_event_of sample_event, tui_event_of sample_event]"
    "is_correlated (tui_event_of sample_event)"
    by (simp_all add: tui_event_of_def tui_header_of_def sample_event_def synthetic_header_def is_correlated_def
        is_tty_def is_synthetic_def)
  then show ?thesis
    using correlate_partitions[of "[\<lparr>ce_command = ''ls'', ce_start_timestamp = 1, ce_end_timestamp = 5\<rparr>]"
        "[tui_event_of sample_event, tui_event_of sample_event]"]
    by (simp add: numeral_2_eq_2)
qed

text \<open>Commands of a session whose events are in time order are in time order.\<close>

definition ended_by :: "64 word \<Rightarrow> Recon \<Rightarrow> bool" where
  "ended_by t st \<longleftrightarrow> sorted (map ce_end_timestamp (rc_commands st)) \<and>
     list_all (\<lambda>c. ce_end_timestamp c \<le> t) (rc_commands st)"

lemma ended_by_byte: "ended_by t st \<Longrightarrow> ended_by t (recon_byte t b st)"
  by (auto simp: ended_by_def recon_byte_def flush_line_def sorted_append list_all_iff)

lemma ended_by_bytes: "ended_by t st \<Longrightarrow> ended_by t (fold (recon_byte t) bs st)"
  by (induction bs arbitrary: st) (simp_all add: ended_by_byte)

lemma ended_by_event: "ended_by t st \<Longrightarrow> ended_by t (recon_event dec (t, d, c) st)"
  by (auto simp: recon_event_def split: option.splits intro!: ended_by_bytes) (auto simp: ended_by_def)

lemma ended_by_mono: "ended_by t st \<Longrightarrow> t \<le> t' \<Longrightarrow> ended_by t' st"
  by (auto simp: ended_by_def list_all_iff intro: order_trans)

lemma ended_by_events:
  "sorted (map fst evs) \<Longrightarrow> evs \<noteq> [] \<Longrightarrow> ended_by (fst (List.hd evs)) st \<Longrightarrow>
   ended_by (fst (last evs)) (fold (recon_event dec) evs st)"
proof (induction evs arbitrary: st)
  case (Cons ev evs)
  obtain t d c where ev: "ev = (t, d, c)" by (cases ev)
  have "ended_by t (recon_event dec ev st)" using Cons.prems(3) by (simp add: ev ended_by_event)
  then show ?case
    using Cons.IH[of "recon_event dec ev st"] Cons.prems(1)
      ended_by_mono[of t "recon_event dec ev st" "fst (List.hd evs)"]
    by (cases evs) (auto simp: ev)
qed simp

lemma reconstruct_sorted:
  assumes "sorted (map fst evs)"
  shows "sorted (map ce_end_timestamp (reconstruct_commands dec evs))"
proof (cases "evs = []")
  case True
  then show ?thesis by (simp add: reconstruct_commands_def recon_finish_def recon_start_def)
next
  case False
  have "ended_by (fst (List.hd evs)) recon_start" by (simp add: ended_by_def recon_start_def)
  from ended_by_events[OF assms False this, of dec] show ?thesis
    using False by (auto simp: reconstruct_commands_def recon_finish_def ended_by_def sorted_append list_all_iff)
qed

end
