(* ===== verification/TuiTrees.thy ===== *)
theory TuiTrees
  imports TuiCommands
begin

text \<open>
  The derived data of \<open>bloodhound-tui/src/main.rs\<close>: descriptor table, process trees and
  terminal output per command, time-zone offsets.  The recursion over a process tree is a
  partial function: a trace on which it does not end has no result.
\<close>

section \<open>Descriptors\<close>

definition fd_entry :: "TuiEvent \<Rightarrow> ((32 word \<times> 32 word) \<times> string) option" where
  "fd_entry e =
     (if te_name e \<noteq> ''openat'' then None
      else (case te_return_code e of None \<Rightarrow> None | Some rc \<Rightarrow>
        if rc < 0 then None
        else (case arg as_str e ''filename'' of None \<Rightarrow> None | Some filename \<Rightarrow>
          if filename = [] then None else Some ((te_pid e, of_int rc), filename))))"

definition build_fd_table :: "TuiEvent list \<Rightarrow> fd_table" where
  "build_fd_table events =
     fold (\<lambda>e table. case fd_entry e of None \<Rightarrow> table | Some (k, f) \<Rightarrow> table(k \<mapsto> f)) events Map.empty"

section \<open>Process identities\<close>

type_synonym ProcId = "32 word \<times> 64 word"

definition parse_process_ref :: "json \<Rightarrow> ProcId option" where
  "parse_process_ref j =
     Option.bind (req as_u64 j ''tgid'') (\<lambda>tgid.
     Option.bind (req as_u64 j ''start_boottime_ns'') (\<lambda>start. Some (ucast tgid, start)))"

definition or_else :: "'a option \<Rightarrow> 'a option \<Rightarrow> 'a option" where
  "or_else a b = (case a of None \<Rightarrow> b | Some x \<Rightarrow> Some x)"

definition lifecycle_start :: "TuiEvent \<Rightarrow> 64 word option" where
  "lifecycle_start e = or_else
     (Option.bind (te_args e) (\<lambda>a. Option.bind (jget a ''process_ref'') (\<lambda>r. req as_u64 r ''start_boottime_ns'')))
     (arg as_u64 e ''start_time_ns'')"

definition update_live :: "TuiEvent \<Rightarrow> (32 word \<Rightarrow> 64 word option) \<Rightarrow> 32 word \<Rightarrow> 64 word option" where
  "update_live e live =
     (if te_type e = ''LIFECYCLE'' \<and> te_name e = ''process_start'' then
        (case lifecycle_start e of None \<Rightarrow> live | Some ns \<Rightarrow> live(te_pid e \<mapsto> ns))
      else if te_type e = ''LIFECYCLE'' \<and> te_name e = ''process_exit'' then live(te_pid e := None)
      else live)"

primrec start_times :: "(32 word \<Rightarrow> 64 word option) \<Rightarrow> TuiEvent list \<Rightarrow> 64 word list" where
  "start_times live [] = []"
| "start_times live (e # es) =
     (let live' = update_live e live in
      (case or_else (map_option pr_start_boottime_ns (th_process_ref (te_header e))) (live' (te_pid e)) of
         None \<Rightarrow> 0 | Some ns \<Rightarrow> ns) # start_times live' es)"

section \<open>Parents\<close>

type_synonym exec_node = "nat \<times> TuiEvent \<times> 64 word"

definition node_id :: "exec_node \<Rightarrow> ProcId" where
  "node_id n = (te_pid (fst (snd n)), snd (snd n))"

definition is_exec :: "TuiEvent \<Rightarrow> bool" where
  "is_exec e \<longleftrightarrow> te_name e = ''execve'' \<or> te_name e = ''execveat''"

definition group_execves :: "TuiEvent list \<Rightarrow> 64 word list \<Rightarrow> CommandGroup \<Rightarrow> exec_node list" where
  "group_execves events starts g =
     filter (\<lambda>(_, e, _). is_exec e)
       (map (\<lambda>idx. (idx, events ! idx, starts ! idx))
         (filter (\<lambda>idx. idx < length events) (cg_event_indices g)))"

definition fork_edge :: "TuiEvent \<Rightarrow> (ProcId \<times> ProcId \<times> 64 word) option" where
  "fork_edge e =
     Option.bind (te_args e) (\<lambda>a.
       let pid_of = (\<lambda>k. map_option (\<lambda>p. (ucast p, 0)) (req as_u64 a k)) in
       Option.bind (or_else (Option.bind (jget a ''parent_ref'') parse_process_ref) (pid_of ''parent_pid'')) (\<lambda>parent.
       Option.bind (or_else (Option.bind (jget a ''child_ref'') parse_process_ref) (pid_of ''child_pid'')) (\<lambda>child.
         Some (parent, child, te_timestamp e))))"

definition window_end :: "TuiEvent list \<Rightarrow> CommandGroup \<Rightarrow> 64 word" where
  "window_end events g =
     fold max (map (\<lambda>idx. te_timestamp (events ! idx)) (filter (\<lambda>idx. idx < length events) (cg_event_indices g)))
       (cg_timestamp g)"

definition group_forks :: "TuiEvent list \<Rightarrow> CommandGroup \<Rightarrow> (ProcId \<times> ProcId \<times> 64 word) list" where
  "group_forks events g =
     List.map_filter fork_edge
       (filter (\<lambda>e. te_type e = ''LIFECYCLE'' \<and> te_name e = ''process_fork'' \<and>
          cg_timestamp g \<le> te_timestamp e \<and> te_timestamp e \<le> window_end events g) events)"

text \<open>\<open>max_by\<close> keeps the last of the largest elements.\<close>

definition latest :: "(ProcId \<times> ProcId \<times> 64 word) list \<Rightarrow> (ProcId \<times> ProcId \<times> 64 word) option" where
  "latest fs = fold (\<lambda>f best. case best of None \<Rightarrow> Some f
     | Some b \<Rightarrow> if snd (snd b) \<le> snd (snd f) then Some f else Some b) fs None"

definition resolve_parent ::
  "(ProcId \<times> ProcId \<times> 64 word) list \<Rightarrow> ProcId \<Rightarrow> 64 word \<Rightarrow> ProcId \<Rightarrow> ProcId" where
  "resolve_parent forks pid_ns ts fallback =
     (case latest (filter (\<lambda>(_, child, fts).
         (child = pid_ns \<or> (snd child = 0 \<and> fst child = fst pid_ns)) \<and> fts \<le> ts) forks) of
       None \<Rightarrow> fallback | Some (parent, _, _) \<Rightarrow> parent)"

text \<open>The start time of the nearest event of a process up to an index.\<close>

definition prior_start :: "TuiEvent list \<Rightarrow> 64 word list \<Rightarrow> nat \<Rightarrow> 32 word \<Rightarrow> 64 word" where
  "prior_start events starts idx pid =
     (case find (\<lambda>(e, _). te_pid e = pid) (rev (zip (take (Suc idx) events) starts)) of
       None \<Rightarrow> 0 | Some (_, ns) \<Rightarrow> ns)"

definition parent_id ::
  "TuiEvent list \<Rightarrow> 64 word list \<Rightarrow> (ProcId \<times> ProcId \<times> 64 word) list \<Rightarrow> exec_node \<Rightarrow> ProcId" where
  "parent_id events starts forks n = (case n of (idx, ev, ns) \<Rightarrow>
     let ppid = (case th_ppid (te_header ev) of None \<Rightarrow> 0 | Some p \<Rightarrow> p);
         p = resolve_parent forks (te_pid ev, ns) (te_timestamp ev) (ppid, prior_start events starts idx ppid)
     in if snd p = 0 then (fst p, prior_start events starts idx (fst p)) else p)"

section \<open>The tree\<close>

record ExecChild =
  ex_label :: string
  ex_pid :: "32 word"
  ex_start_time_ns :: "64 word"
  ex_depth :: nat
  ex_event_index :: nat
  ex_is_last :: bool

definition build_exec_label :: "TuiEvent \<Rightarrow> string" where
  "build_exec_label ev =
     (case te_args ev of None \<Rightarrow> th_comm (te_header ev)
      | Some a \<Rightarrow>
          (let parts = (case req as_array a ''argv'' of None \<Rightarrow> [] | Some xs \<Rightarrow> strs_of xs) in
           if parts \<noteq> [] then join_with '' '' parts
           else (case req as_str a ''filename'' of Some f \<Rightarrow> f | None \<Rightarrow> th_comm (te_header ev))))"

text \<open>A loop whose body may not return.\<close>

primrec opt_each :: "('a \<Rightarrow> 'b list option) \<Rightarrow> 'a list \<Rightarrow> 'b list option" where
  "opt_each f [] = Some []"
| "opt_each f (x # xs) = Option.bind (f x) (\<lambda>y. Option.bind (opt_each f xs) (\<lambda>ys. Some (y @ ys)))"

lemma opt_each_mono [partial_function_mono]:
  assumes "\<And>y. mono_option (\<lambda>f. C y f)"
  shows "mono_option (\<lambda>f. opt_each (\<lambda>y. C y f) xs)"
proof (induction xs)
  case (Cons x xs)
  show ?case
    unfolding opt_each.simps
    by (rule bind_mono[OF assms], rule bind_mono[OF Cons.IH], rule option.const_mono)
qed (simp add: option.const_mono)

partial_function (option) exec_tree_dfs ::
  "(ProcId \<Rightarrow> exec_node list) \<Rightarrow> nat \<Rightarrow> exec_node \<Rightarrow> bool \<Rightarrow> ExecChild list option" where
  "exec_tree_dfs children_of depth n is_last =
     Option.bind
       (opt_each (\<lambda>c. exec_tree_dfs children_of (Suc depth) (snd c)
            (Suc (fst c) = length (children_of (node_id n))))
          (enumerate 0 (children_of (node_id n))))
       (\<lambda>rest. Some (\<lparr>ex_label = build_exec_label (fst (snd n)), ex_pid = fst (node_id n),
          ex_start_time_ns = snd (node_id n), ex_depth = depth, ex_event_index = fst n,
          ex_is_last = is_last\<rparr> # rest))"

definition exec_roots :: "ProcId set \<Rightarrow> (exec_node \<Rightarrow> ProcId) \<Rightarrow> exec_node list \<Rightarrow> exec_node list" where
  "exec_roots ids parent execves = sort_key fst (filter (\<lambda>n. parent n \<notin> ids) execves)"

text \<open>The map that the loop fills: the non-root nodes by parent, in input order.\<close>

definition exec_children ::
  "ProcId set \<Rightarrow> (exec_node \<Rightarrow> ProcId) \<Rightarrow> exec_node list \<Rightarrow> ProcId \<Rightarrow> exec_node list" where
  "exec_children ids parent execves p =
     sort_key fst (filter (\<lambda>n. parent n \<in> ids \<and> parent n = p) execves)"

definition exec_forest :: "(exec_node \<Rightarrow> ProcId) \<Rightarrow> exec_node list \<Rightarrow> ExecChild list option" where
  "exec_forest parent execves =
     (let ids = set (map node_id execves); roots = exec_roots ids parent execves in
      opt_each (\<lambda>r. exec_tree_dfs (exec_children ids parent execves) 1 (snd r) (Suc (fst r) = length roots))
        (enumerate 0 roots))"

definition build_exec_tree :: "TuiEvent list \<Rightarrow> 64 word list \<Rightarrow> CommandGroup \<Rightarrow> ExecChild list option" where
  "build_exec_tree events starts g =
     exec_forest (parent_id events starts (group_forks events g)) (group_execves events starts g)"

definition build_exec_trees :: "CommandGroup list \<Rightarrow> TuiEvent list \<Rightarrow> ExecChild list list option" where
  "build_exec_trees groups events = those (map (build_exec_tree events (start_times Map.empty events)) groups)"

section \<open>Terminal output\<close>

definition OUTPUT_EXCLUDE :: "string list" where
  "OUTPUT_EXCLUDE = [''bash'', ''sh'', ''zsh'', ''fish'', ''dash'', ''ksh'', ''tcsh'', ''csh'', ''sshd'']"

text \<open>The escape scanner: the state is (in_escape, in_osc).\<close>

fun strip_from :: "bool \<Rightarrow> bool \<Rightarrow> bytes \<Rightarrow> string" where
  "strip_from in_escape in_osc [] = []"
| "strip_from in_escape in_osc (b # bs) =
     (if in_osc then strip_from in_escape (b \<noteq> 0x07) bs
      else if in_escape then
        (if b = 0x5d then strip_from False True bs
         else strip_from (\<not> (is_ascii_alphabetic b \<or> b = 0x7e)) False bs)
      else if b = 0x1b then strip_from True False bs
      else if b = 0x0d then strip_from False False bs
      else if is_ascii_graphic b \<or> b = 0x20 \<or> b = 0x0a \<or> b = 0x09
        then byte_char b # strip_from False False bs
      else strip_from False False bs)"

definition strip_ansi_escapes :: "bytes \<Rightarrow> string" where
  "strip_ansi_escapes raw = strip_from False False raw"

definition output_write :: "(string \<Rightarrow> bytes option) \<Rightarrow> TuiEvent \<Rightarrow> (64 word \<times> bytes) option" where
  "output_write dec e =
     (if is_tty_write e \<and> th_comm (te_header e) \<notin> set OUTPUT_EXCLUDE
      then Option.bind (arg as_str e ''data'') (\<lambda>data. map_option (\<lambda>raw. (te_timestamp e, raw)) (dec data))
      else None)"

fun output_windows :: "(64 word \<times> bytes) list \<Rightarrow> CommandGroup list \<Rightarrow> string list list" where
  "output_windows ws [] = []"
| "output_windows ws (g # gs) =
     (let hi = (case gs of [] \<Rightarrow> - 1 | h # _ \<Rightarrow> cg_timestamp h) in
      str_lines (strip_ansi_escapes (concat (map snd (filter (\<lambda>(ts, _). cg_timestamp g \<le> ts \<and> ts < hi) ws)))))
     # output_windows ws gs"

definition build_tty_output ::
  "(string \<Rightarrow> bytes option) \<Rightarrow> CommandGroup list \<Rightarrow> TuiEvent list \<Rightarrow> string list list" where
  "build_tty_output dec groups events = output_windows (List.map_filter (output_write dec) events) groups"

section \<open>Time zones\<close>

text \<open>\<open>str::parse::<i32>\<close>: an optional sign, digits, no overflow.\<close>

definition parse_i32 :: "string \<Rightarrow> int option" where
  "parse_i32 s =
     (let (neg, digits) = (case s of c # rest \<Rightarrow>
             if c = CHR ''-'' then (True, rest) else if c = CHR ''+'' then (False, rest) else (False, s)
           | [] \<Rightarrow> (False, []));
          n = int (read_radix 10 digits); v = (if neg then - n else n) in
      if digits \<noteq> [] \<and> list_all (\<lambda>c. of_char c \<ge> (48 :: nat) \<and> of_char c \<le> (57 :: nat)) digits \<and>
         - (2 ^ 31) \<le> v \<and> v < 2 ^ 31 then Some v else None)"

fun split_on :: "char \<Rightarrow> string \<Rightarrow> string list" where
  "split_on c [] = [[]]"
| "split_on c (x # xs) =
     (if x = c then [] # split_on c xs
      else (case split_on c xs of p # ps \<Rightarrow> (x # p) # ps | [] \<Rightarrow> [[x]]))"

text \<open>The arithmetic is on \<open>i32\<close> and wraps around in a release build.\<close>

definition parse_tz_offset :: "string \<Rightarrow> string + int" where
  "parse_tz_offset text =
     (let s = trim text in
      if s = ''UTC'' \<or> s = ''utc'' then Ok 0
      else and_then (case s of c # rest \<Rightarrow>
             if c = CHR ''+'' then Ok (1, rest) else if c = CHR ''-'' then Ok (- 1, rest)
             else Err (''Timezone must start with '' @ [CHR 0x27] @ ''+'' @ [CHR 0x27] @ '' or '' @ [CHR 0x27] @
               ''-'' @ [CHR 0x27] @ '' (e.g. +09:00), got: '' @ s)
           | [] \<Rightarrow> Err (''Timezone must start with '' @ [CHR 0x27] @ ''+'' @ [CHR 0x27] @ '' or '' @ [CHR 0x27] @
               ''-'' @ [CHR 0x27] @ '' (e.g. +09:00), got: '' @ s)) (\<lambda>(sgn, rest).
        (case split_on (CHR '':'') rest of
           [h, m] \<Rightarrow>
             (case parse_i32 h of None \<Rightarrow> Err (''Invalid hours in timezone: '' @ s)
              | Some hours \<Rightarrow>
                  (case parse_i32 m of None \<Rightarrow> Err (''Invalid minutes in timezone: '' @ s)
                   | Some minutes \<Rightarrow> Ok (signed_take_bit 31 (sgn * (hours * 3600 + minutes * 60)))))
         | _ \<Rightarrow> Err (''Timezone format must be '' @ [CHR 0xC2, CHR 0xB1] @ ''HH:MM (e.g. +09:00), got: '' @ s))))"

end
