(* ===== verification/TuiApp.thy ===== *)
theory TuiApp
  imports TuiTrees
begin

text \<open>
  \<open>bloodhound-tui/src/app.rs\<close>, \<open>keybinds.rs\<close>, \<open>ui.rs\<close> and the rest of \<open>main.rs\<close>: the
  state of the viewer, the keys that change it, what it draws and how it is loaded from a
  trace file. A panic is \<open>None\<close>. Of ratatui's widgets the model keeps what the code
  gives them: titles, border colours, styled text and the selected row; the layout of the
  screen, the sides a border is drawn on, wrapping, the style of messages and the highlight of
  the selected row are constants handed to the library. The formatting of an instant is a parameter (chrono).
\<close>

section \<open>State\<close>

datatype Pane = HistoryPane | OutputPane | DetailPane

datatype Tab = ProcessTab | SecurityTab | FilesTab | NetworkTab

definition ALL_TABS :: "Tab list" where
  "ALL_TABS = [ProcessTab, SecurityTab, FilesTab, NetworkTab]"

definition tab_label :: "Tab \<Rightarrow> string" where
  "tab_label t = (case t of ProcessTab \<Rightarrow> ''Process'' | SecurityTab \<Rightarrow> ''Security''
     | FilesTab \<Rightarrow> ''Files'' | NetworkTab \<Rightarrow> ''Network'')"

definition tab_index :: "Tab \<Rightarrow> nat" where
  "tab_index t = (case t of ProcessTab \<Rightarrow> 0 | SecurityTab \<Rightarrow> 1 | FilesTab \<Rightarrow> 2 | NetworkTab \<Rightarrow> 3)"

definition tab_matches :: "Tab \<Rightarrow> EventCategory \<Rightarrow> bool" where
  "tab_matches t c =
     (if c = CatHidden then False
      else (case t of ProcessTab \<Rightarrow> c = CatProcess | SecurityTab \<Rightarrow> c = CatSecurity
        | FilesTab \<Rightarrow> c = CatFiles | NetworkTab \<Rightarrow> c = CatNetwork))"

datatype HistoryRow = Command nat | Exec nat nat

datatype ProcessTreeRow = TreeRoot nat bool bool | TreeChild nat bool

record App =
  ap_commands :: "CommandGroup list"
  ap_events :: "TuiEvent list"
  ap_tty_output :: "string list list"
  ap_exec_trees :: "ExecChild list list"
  ap_expanded :: "bool list"
  ap_history_cursor :: nat
  ap_active_pane :: Pane
  ap_active_tab :: Tab
  ap_output_scroll :: nat
  ap_detail_scroll :: nat
  ap_file_path :: string
  ap_total_events :: nat
  ap_should_quit :: bool
  ap_boot_time_utc :: int
  ap_tz_offset :: int
  ap_fd_table :: fd_table
  ap_process_expanded :: "nat set"

record AppInit =
  ai_commands :: "CommandGroup list"
  ai_events :: "TuiEvent list"
  ai_tty_output :: "string list list"
  ai_exec_trees :: "ExecChild list list"
  ai_file_path :: string
  ai_boot_time_utc :: int
  ai_tz_offset :: int
  ai_fd_table :: fd_table

definition app_new :: "AppInit \<Rightarrow> App" where
  "app_new i = \<lparr>ap_commands = ai_commands i, ap_events = ai_events i, ap_tty_output = ai_tty_output i,
     ap_exec_trees = ai_exec_trees i, ap_expanded = replicate (length (ai_commands i)) False,
     ap_history_cursor = 0, ap_active_pane = HistoryPane, ap_active_tab = ProcessTab,
     ap_output_scroll = 0, ap_detail_scroll = 0, ap_file_path = ai_file_path i,
     ap_total_events = length (ai_events i), ap_should_quit = False,
     ap_boot_time_utc = ai_boot_time_utc i, ap_tz_offset = ai_tz_offset i, ap_fd_table = ai_fd_table i,
     ap_process_expanded = {}\<rparr>"

section \<open>Rows\<close>

text \<open>\<open>slice::get\<close> and saturating arithmetic on \<open>usize\<close>.\<close>

definition vec_get :: "'a list \<Rightarrow> nat \<Rightarrow> 'a option" where
  "vec_get xs i = (if i < length xs then Some (xs ! i) else None)"

definition USIZE_MAX :: nat where "USIZE_MAX = 18446744073709551615"

definition saturating_inc :: "nat \<Rightarrow> nat" where
  "saturating_inc n = (if n < USIZE_MAX then n + 1 else n)"

definition get_or :: "'a \<Rightarrow> 'a list \<Rightarrow> nat \<Rightarrow> 'a" where
  "get_or d xs i = (case vec_get xs i of None \<Rightarrow> d | Some x \<Rightarrow> x)"

text \<open>A monotonic time past \<open>i64::MAX\<close> is clamped to it; \<open>hms\<close> renders an instant in a zone.\<close>

definition format_timestamp :: "(int \<Rightarrow> int \<Rightarrow> string) \<Rightarrow> App \<Rightarrow> 64 word \<Rightarrow> string" where
  "format_timestamp hms app mono_ns =
     hms (ap_tz_offset app) (ap_boot_time_utc app + min (uint mono_ns) (2 ^ 63 - 1))"

definition visible_rows :: "App \<Rightarrow> HistoryRow list" where
  "visible_rows app = concat (map (\<lambda>gi. Command gi #
     (if get_or False (ap_expanded app) gi
      then (case vec_get (ap_exec_trees app) gi of None \<Rightarrow> []
        | Some children \<Rightarrow> map (Exec gi) [0..<length children])
      else [])) [0..<length (ap_commands app)])"

definition row_group :: "HistoryRow option \<Rightarrow> nat" where
  "row_group r = (case r of Some (Command gi) \<Rightarrow> gi | Some (Exec g _) \<Rightarrow> g | None \<Rightarrow> 0)"

definition selected_group :: "App \<Rightarrow> nat" where
  "selected_group app = row_group (vec_get (visible_rows app) (ap_history_cursor app))"

definition current_group :: "App \<Rightarrow> CommandGroup option" where
  "current_group app = vec_get (ap_commands app) (selected_group app)"

definition indexed_events :: "App \<Rightarrow> CommandGroup \<Rightarrow> (nat \<times> TuiEvent) list" where
  "indexed_events app g =
     List.map_filter (\<lambda>idx. map_option (Pair idx) (vec_get (ap_events app) idx)) (cg_event_indices g)"

definition filtered_detail_events :: "App \<Rightarrow> (nat \<times> TuiEvent) list" where
  "filtered_detail_events app = (case current_group app of None \<Rightarrow> []
     | Some g \<Rightarrow> filter (\<lambda>(_, e). tab_matches (ap_active_tab app) (category e)) (indexed_events app g))"

subsection \<open>The process tab\<close>

definition first_seen :: "'a list \<Rightarrow> 'a list" where
  "first_seen xs = fold (\<lambda>x acc. if x \<in> set acc then acc else acc @ [x]) xs []"

definition ROOT_NAMES :: "string list" where
  "ROOT_NAMES = [''execve'', ''execveat'', ''clone'', ''clone3'']"

definition is_root_event :: "nat \<times> TuiEvent \<Rightarrow> bool" where
  "is_root_event x \<longleftrightarrow> te_name (snd x) \<in> set ROOT_NAMES"

text \<open>The roots and children of a process; without a root its first event becomes one.\<close>

definition roots_and_children ::
  "(nat \<times> TuiEvent) list \<Rightarrow> (nat \<times> TuiEvent) list \<times> (nat \<times> TuiEvent) list" where
  "roots_and_children events =
     (let (roots, children) = partition is_root_event events in
      case (roots, children) of
        ([], first # rest) \<Rightarrow> ([first], rest)
      | _ \<Rightarrow> (roots, children))"

definition root_rows :: "nat set \<Rightarrow> (nat \<times> TuiEvent) list \<Rightarrow> nat \<times> TuiEvent \<Rightarrow> ProcessTreeRow list" where
  "root_rows expanded children root =
     TreeRoot (fst root) (children \<noteq> []) (fst root \<in> expanded) #
     (if fst root \<in> expanded
      then map (\<lambda>(i, c). TreeChild (fst c) (i = length children - 1)) (enumerate 0 children)
      else [])"

definition pid_rows :: "nat set \<Rightarrow> (nat \<times> TuiEvent) list \<Rightarrow> ProcessTreeRow list" where
  "pid_rows expanded events = (case roots_and_children events of (roots, children) \<Rightarrow>
     concat (map (root_rows expanded children) roots))"

definition shown_events :: "App \<Rightarrow> CommandGroup \<Rightarrow> (nat \<times> TuiEvent) list" where
  "shown_events app g = filter (\<lambda>(_, e). category e \<noteq> CatHidden) (indexed_events app g)"

definition process_tree_rows :: "App \<Rightarrow> ProcessTreeRow list" where
  "process_tree_rows app = (case current_group app of None \<Rightarrow> []
     | Some g \<Rightarrow>
         (let all_events = shown_events app g;
              pid_order = first_seen (map (te_pid \<circ> snd) all_events) in
          concat (map (\<lambda>pid. pid_rows (ap_process_expanded app)
             (filter (\<lambda>x. te_pid (snd x) = pid) all_events)) pid_order)))"

section \<open>Operations\<close>

definition is_tree_root :: "ProcessTreeRow \<Rightarrow> bool" where
  "is_tree_root r = (case r of TreeRoot _ _ _ \<Rightarrow> True | TreeChild _ _ \<Rightarrow> False)"

definition row_event :: "ProcessTreeRow \<Rightarrow> nat" where
  "row_event r = (case r of TreeRoot i _ _ \<Rightarrow> i | TreeChild i _ \<Rightarrow> i)"

definition toggle_process_expand :: "App \<Rightarrow> App" where
  "toggle_process_expand app =
     (let rows = process_tree_rows app in
      case vec_get rows (ap_detail_scroll app) of None \<Rightarrow> app
      | Some (TreeRoot event_idx has_children _) \<Rightarrow>
          (if has_children then
             (if event_idx \<in> ap_process_expanded app
              then app\<lparr>ap_process_expanded := ap_process_expanded app - {event_idx}\<rparr>
              else app\<lparr>ap_process_expanded := insert event_idx (ap_process_expanded app)\<rparr>)
           else app)
      | Some (TreeChild _ _) \<Rightarrow>
          (case find (\<lambda>i. is_tree_root (rows ! i)) (rev [0..<ap_detail_scroll app]) of None \<Rightarrow> app
           | Some i \<Rightarrow> app\<lparr>ap_process_expanded := ap_process_expanded app - {row_event (rows ! i)},
               ap_detail_scroll := i\<rparr>))"

definition toggle_expand :: "App \<Rightarrow> App" where
  "toggle_expand app =
     (case vec_get (visible_rows app) (ap_history_cursor app) of
        Some (Command gi) \<Rightarrow>
          (if get_or [] (ap_exec_trees app) gi \<noteq> []
           then app\<lparr>ap_expanded := (ap_expanded app)[gi := \<not> ap_expanded app ! gi]\<rparr>
           else app)
      | Some (Exec grp _) \<Rightarrow>
          (let collapsed = app\<lparr>ap_expanded := (ap_expanded app)[grp := False]\<rparr>;
               rows = visible_rows collapsed in
           case find (\<lambda>i. rows ! i = Command grp) [0..<length rows] of
             None \<Rightarrow> collapsed
           | Some i \<Rightarrow> collapsed\<lparr>ap_history_cursor := i\<rparr>)
      | None \<Rightarrow> app)"

definition select_next :: "App \<Rightarrow> App" where
  "select_next app = (case ap_active_pane app of
       HistoryPane \<Rightarrow>
         (let count = length (visible_rows app) in
          if 0 < count \<and> ap_history_cursor app < count - 1
          then app\<lparr>ap_history_cursor := ap_history_cursor app + 1, ap_output_scroll := 0, ap_detail_scroll := 0\<rparr>
          else app)
     | OutputPane \<Rightarrow> app\<lparr>ap_output_scroll := saturating_inc (ap_output_scroll app)\<rparr>
     | DetailPane \<Rightarrow> app\<lparr>ap_detail_scroll := saturating_inc (ap_detail_scroll app)\<rparr>)"

definition select_prev :: "App \<Rightarrow> App" where
  "select_prev app = (case ap_active_pane app of
       HistoryPane \<Rightarrow>
         (if 0 < ap_history_cursor app
          then app\<lparr>ap_history_cursor := ap_history_cursor app - 1, ap_output_scroll := 0, ap_detail_scroll := 0\<rparr>
          else app)
     | OutputPane \<Rightarrow> app\<lparr>ap_output_scroll := ap_output_scroll app - 1\<rparr>
     | DetailPane \<Rightarrow> app\<lparr>ap_detail_scroll := ap_detail_scroll app - 1\<rparr>)"

definition jump_top :: "App \<Rightarrow> App" where
  "jump_top app = (case ap_active_pane app of
       HistoryPane \<Rightarrow> app\<lparr>ap_history_cursor := 0, ap_output_scroll := 0, ap_detail_scroll := 0\<rparr>
     | OutputPane \<Rightarrow> app\<lparr>ap_output_scroll := 0\<rparr>
     | DetailPane \<Rightarrow> app\<lparr>ap_detail_scroll := 0\<rparr>)"

definition jump_bottom :: "App \<Rightarrow> App" where
  "jump_bottom app = (case ap_active_pane app of
       HistoryPane \<Rightarrow>
         (let count = length (visible_rows app) in
          app\<lparr>ap_history_cursor := (if 0 < count then count - 1 else ap_history_cursor app),
            ap_output_scroll := 0, ap_detail_scroll := 0\<rparr>)
     | OutputPane \<Rightarrow>
         app\<lparr>ap_output_scroll := length (get_or [] (ap_tty_output app) (selected_group app)) - 1\<rparr>
     | DetailPane \<Rightarrow> app\<lparr>ap_detail_scroll := length (filtered_detail_events app) - 1\<rparr>)"

definition toggle_pane :: "App \<Rightarrow> App" where
  "toggle_pane app = app\<lparr>ap_active_pane := (case ap_active_pane app of
     HistoryPane \<Rightarrow> OutputPane | OutputPane \<Rightarrow> DetailPane | DetailPane \<Rightarrow> HistoryPane)\<rparr>"

definition set_tab :: "Tab \<Rightarrow> App \<Rightarrow> App" where
  "set_tab t app = app\<lparr>ap_active_tab := t, ap_detail_scroll := 0\<rparr>"

definition next_tab :: "App \<Rightarrow> App" where
  "next_tab app =
     app\<lparr>ap_active_tab := ALL_TABS ! ((tab_index (ap_active_tab app) + 1) mod length ALL_TABS),
       ap_detail_scroll := 0\<rparr>"

section \<open>Keys\<close>

datatype KeyCode = KeyChar char | KeyEsc | KeyEnter | KeyUp | KeyDown | KeyLeft | KeyRight | KeyTab | KeyOther

record KeyEvent =
  key_code :: KeyCode
  key_control :: bool

definition quit :: "App \<Rightarrow> App" where
  "quit app = app\<lparr>ap_should_quit := True\<rparr>"

definition expand_key :: "App \<Rightarrow> App" where
  "expand_key app =
     (if ap_active_pane app = HistoryPane then toggle_expand app
      else if ap_active_pane app = DetailPane \<and> ap_active_tab app = ProcessTab then toggle_process_expand app
      else app)"

definition prev_tab_key :: "App \<Rightarrow> App" where
  "prev_tab_key app =
     (if ap_active_pane app = DetailPane then
        (let current = tab_index (ap_active_tab app);
             prev = (if current = 0 then length ALL_TABS - 1 else current - 1) in
         set_tab (ALL_TABS ! prev) app)
      else app)"

definition handle_key :: "KeyEvent \<Rightarrow> App \<Rightarrow> App" where
  "handle_key key app =
     (let c = key_code key in
      if c = KeyChar (CHR ''q'') \<or> c = KeyEsc then quit app
      else if c = KeyChar (CHR ''c'') \<and> key_control key then quit app
      else if c = KeyEnter \<or> c = KeyChar (CHR '' '') then expand_key app
      else if c = KeyChar (CHR ''j'') \<or> c = KeyDown then select_next app
      else if c = KeyChar (CHR ''k'') \<or> c = KeyUp then select_prev app
      else if c = KeyChar (CHR ''g'') then jump_top app
      else if c = KeyChar (CHR ''G'') then jump_bottom app
      else if c = KeyTab then toggle_pane app
      else if c = KeyChar (CHR ''1'') then set_tab ProcessTab app
      else if c = KeyChar (CHR ''2'') then set_tab SecurityTab app
      else if c = KeyChar (CHR ''3'') then set_tab FilesTab app
      else if c = KeyChar (CHR ''4'') then set_tab NetworkTab app
      else if c = KeyChar (CHR ''l'') \<or> c = KeyRight
        then (if ap_active_pane app = DetailPane then next_tab app else app)
      else if c = KeyChar (CHR ''h'') \<or> c = KeyLeft then prev_tab_key app
      else app)"

section \<open>Drawing\<close>

datatype Color = Rgb nat nat nat | White | Black

record Style =
  st_fg :: "Color option"
  st_bg :: "Color option"
  st_bold :: bool
  st_underlined :: bool

type_synonym Span = "string \<times> Style"

definition plain :: Style where
  "plain = \<lparr>st_fg = None, st_bg = None, st_bold = False, st_underlined = False\<rparr>"

definition in_color :: "Color \<Rightarrow> Style" where
  "in_color c = plain\<lparr>st_fg := Some c\<rparr>"

definition bold :: "Style \<Rightarrow> Style" where
  "bold s = s\<lparr>st_bold := True\<rparr>"

definition badge :: "Color \<Rightarrow> Style" where
  "badge c = bold (plain\<lparr>st_fg := Some Black, st_bg := Some c\<rparr>)"

definition HIGHLIGHT_COLOR :: Color where "HIGHLIGHT_COLOR = Rgb 97 175 239"
definition ACTIVE_BORDER :: Color where "ACTIVE_BORDER = Rgb 97 175 239"
definition INACTIVE_BORDER :: Color where "INACTIVE_BORDER = Rgb 90 90 90"
definition TAB_ACTIVE :: Color where "TAB_ACTIVE = Rgb 97 175 239"
definition PROCESS_COLOR :: Color where "PROCESS_COLOR = Rgb 152 195 121"
definition SECURITY_COLOR :: Color where "SECURITY_COLOR = Rgb 198 120 221"
definition FILES_COLOR :: Color where "FILES_COLOR = Rgb 229 192 123"
definition NETWORK_COLOR :: Color where "NETWORK_COLOR = Rgb 224 108 117"
definition DIM_TEXT :: Color where "DIM_TEXT = Rgb 120 120 120"
definition STATUS_BG :: Color where "STATUS_BG = Rgb 40 44 52"
definition TIMESTAMP_COLOR :: Color where "TIMESTAMP_COLOR = Rgb 130 137 151"
definition OUTPUT_COLOR :: Color where "OUTPUT_COLOR = Rgb 86 182 194"
definition TREE_COLOR :: Color where "TREE_COLOR = Rgb 152 195 121"

text \<open>The body of a pane: a message, or a list of rows with the selected one.\<close>

datatype Body = Message string | Rows "Span list list" "nat option"

record Panel =
  pl_title :: string
  pl_border :: Color
  pl_body :: Body

text \<open>The characters outside ASCII, in UTF-8.\<close>

definition DOWN_ARROW :: string where "DOWN_ARROW = [CHR 0xE2, CHR 0x96, CHR 0xBE] @ '' ''"
definition RIGHT_ARROW :: string where "RIGHT_ARROW = [CHR 0xE2, CHR 0x96, CHR 0xB8] @ '' ''"
definition CORNER :: string where
  "CORNER = [CHR 0xE2, CHR 0x94, CHR 0x94, CHR 0xE2, CHR 0x94, CHR 0x80] @ '' ''"
definition TEE :: string where
  "TEE = [CHR 0xE2, CHR 0x94, CHR 0x9C, CHR 0xE2, CHR 0x94, CHR 0x80] @ '' ''"
definition BAR :: string where "BAR = '' '' @ [CHR 0xE2, CHR 0x94, CHR 0x82] @ '' ''"
definition PLAY :: string where "PLAY = [CHR 0xE2, CHR 0x96, CHR 0xB6] @ '' ''"
definition RETURN_KEY :: string where "RETURN_KEY = [CHR 0xE2, CHR 0x8F, CHR 0x8E]"

definition border_of :: "App \<Rightarrow> Pane \<Rightarrow> Color" where
  "border_of app p = (if ap_active_pane app = p then ACTIVE_BORDER else INACTIVE_BORDER)"

definition show_nat :: "nat \<Rightarrow> string" where
  "show_nat n = show_int (int n)"

definition arrow_for :: "bool \<Rightarrow> bool \<Rightarrow> string" where
  "arrow_for has_children is_expanded =
     (if \<not> has_children then ''  '' else if is_expanded then DOWN_ARROW else RIGHT_ARROW)"

definition command_item :: "(int \<Rightarrow> int \<Rightarrow> string) \<Rightarrow> App \<Rightarrow> bool \<Rightarrow> nat \<Rightarrow> Span list option" where
  "command_item hms app is_selected gi =
     map_option (\<lambda>g.
       let children = get_or [] (ap_exec_trees app) gi;
           arrow = arrow_for (children \<noteq> []) (get_or False (ap_expanded app) gi);
           cmd_display = (if cg_command g = [] then ''(empty)'' else cg_command g);
           event_count = show_nat (length (cg_event_indices g));
           counter = (if children \<noteq> [] then '' ('' @ show_nat (length children) @ ''/'' @ event_count @ '')''
             else '' ('' @ event_count @ '')'');
           style = (if is_selected then bold (in_color HIGHLIGHT_COLOR) else in_color White) in
       [(format_timestamp hms app (cg_timestamp g) @ '' '', in_color TIMESTAMP_COLOR),
        (arrow, style), (cmd_display, style), (counter, in_color DIM_TEXT)])
     (vec_get (ap_commands app) gi)"

definition exec_item :: "(int \<Rightarrow> int \<Rightarrow> string) \<Rightarrow> App \<Rightarrow> bool \<Rightarrow> nat \<Rightarrow> nat \<Rightarrow> Span list option" where
  "exec_item hms app is_selected grp child =
     Option.bind (vec_get (ap_exec_trees app) grp) (\<lambda>tree.
     Option.bind (vec_get tree child) (\<lambda>c.
     map_option (\<lambda>event.
       let indent = concat (replicate (ex_depth c) ''  '');
           branch = (if ex_is_last c then CORNER else TEE);
           selected = bold (in_color HIGHLIGHT_COLOR) in
       [(format_timestamp hms app (te_timestamp event) @ '' '', in_color TIMESTAMP_COLOR),
        (indent @ branch, if is_selected then selected else in_color DIM_TEXT),
        (ex_label c, if is_selected then selected else in_color TREE_COLOR),
        ('' :'' @ show_word (ex_pid c), in_color DIM_TEXT)])
     (vec_get (ap_events app) (ex_event_index c))))"

definition history_item :: "(int \<Rightarrow> int \<Rightarrow> string) \<Rightarrow> App \<Rightarrow> nat \<times> HistoryRow \<Rightarrow> Span list option" where
  "history_item hms app r =
     (let is_selected = (fst r = ap_history_cursor app) in
      case snd r of Command gi \<Rightarrow> command_item hms app is_selected gi
      | Exec grp child \<Rightarrow> exec_item hms app is_selected grp child)"

definition draw_history_pane :: "(int \<Rightarrow> int \<Rightarrow> string) \<Rightarrow> App \<Rightarrow> Panel option" where
  "draw_history_pane hms app =
     map_option (\<lambda>items. \<lparr>pl_title = '' History ('' @ show_nat (length (ap_commands app)) @ '' commands) '',
         pl_border = border_of app HistoryPane, pl_body = Rows items (Some (ap_history_cursor app))\<rparr>)
       (those (map (history_item hms app) (enumerate 0 (visible_rows app))))"

definition clamp_selection :: "bool \<Rightarrow> nat \<Rightarrow> Span list list \<Rightarrow> nat option" where
  "clamp_selection is_active scroll items =
     (if is_active \<and> items \<noteq> [] then Some (min scroll (length items - 1)) else None)"

definition draw_output_pane :: "App \<Rightarrow> Panel" where
  "draw_output_pane app =
     (let lines = get_or [] (ap_tty_output app) (selected_group app);
          items = map (\<lambda>line. [('' '' @ line, in_color OUTPUT_COLOR)]) lines in
      \<lparr>pl_title = '' Output ('' @ show_nat (length lines) @ '' lines) '', pl_border = border_of app OutputPane,
       pl_body = (if lines = [] then Message ''No terminal output for this command.''
         else Rows items (clamp_selection (ap_active_pane app = OutputPane) (ap_output_scroll app) items))\<rparr>)"

text \<open>The colour and tag of a category; \<open>unreachable!\<close> for a hidden event.\<close>

definition category_mark :: "EventCategory \<Rightarrow> (Color \<times> string) option" where
  "category_mark c = (case c of
       CatProcess \<Rightarrow> Some (PROCESS_COLOR, ''PROC'')
     | CatSecurity \<Rightarrow> Some (SECURITY_COLOR, ''SEC '')
     | CatFiles \<Rightarrow> Some (FILES_COLOR, ''FILE'')
     | CatNetwork \<Rightarrow> Some (NETWORK_COLOR, ''NET '')
     | CatHidden \<Rightarrow> None)"

definition event_item :: "(int \<Rightarrow> int \<Rightarrow> string) \<Rightarrow> App \<Rightarrow> TuiEvent \<Rightarrow> Span list option" where
  "event_item hms app e =
     map_option (\<lambda>(color, tag).
       [(format_timestamp hms app (te_timestamp e) @ '' '', in_color TIMESTAMP_COLOR),
        ('' '' @ tag @ '' '', badge color), ('' '', plain),
        (summary_line (Some (ap_fd_table app)) e, in_color color)])
     (category_mark (category e))"

definition root_item :: "(int \<Rightarrow> int \<Rightarrow> string) \<Rightarrow> App \<Rightarrow> bool \<Rightarrow> bool \<Rightarrow> TuiEvent \<Rightarrow> Span list" where
  "root_item hms app has_children is_expanded e =
     [(format_timestamp hms app (te_timestamp e) @ '' '', in_color TIMESTAMP_COLOR),
      ('' PROC '', badge PROCESS_COLOR), ('' '', plain),
      (arrow_for has_children is_expanded, in_color DIM_TEXT),
      (summary_line (Some (ap_fd_table app)) e, in_color PROCESS_COLOR)]"

definition child_item :: "(int \<Rightarrow> int \<Rightarrow> string) \<Rightarrow> App \<Rightarrow> bool \<Rightarrow> TuiEvent \<Rightarrow> Span list option" where
  "child_item hms app is_last e =
     map_option (\<lambda>(color, tag).
       [(format_timestamp hms app (te_timestamp e) @ '' '', in_color TIMESTAMP_COLOR),
        (''  '' @ (if is_last then CORNER else TEE), in_color DIM_TEXT),
        ('' '' @ tag @ '' '', badge color), ('' '', plain),
        (summary_line (Some (ap_fd_table app)) e, in_color color)])
     (category_mark (category e))"

definition tree_item :: "(int \<Rightarrow> int \<Rightarrow> string) \<Rightarrow> App \<Rightarrow> ProcessTreeRow \<Rightarrow> Span list option" where
  "tree_item hms app row = (case row of
       TreeRoot event_idx has_children is_expanded \<Rightarrow>
         map_option (root_item hms app has_children is_expanded) (vec_get (ap_events app) event_idx)
     | TreeChild event_idx is_last \<Rightarrow>
         Option.bind (vec_get (ap_events app) event_idx) (child_item hms app is_last))"

definition rows_panel :: "App \<Rightarrow> Span list list \<Rightarrow> Panel" where
  "rows_panel app items = \<lparr>pl_title = [], pl_border = border_of app DetailPane,
     pl_body = Rows items (clamp_selection (ap_active_pane app = DetailPane) (ap_detail_scroll app) items)\<rparr>"

definition message_panel :: "App \<Rightarrow> string \<Rightarrow> Panel" where
  "message_panel app msg = \<lparr>pl_title = [], pl_border = border_of app DetailPane,
     pl_body = Message (if ap_commands app = [] then ''No events loaded.'' else msg)\<rparr>"

definition draw_process_tree :: "(int \<Rightarrow> int \<Rightarrow> string) \<Rightarrow> App \<Rightarrow> Panel option" where
  "draw_process_tree hms app =
     (let tree_rows = process_tree_rows app in
      if tree_rows = [] then Some (message_panel app ''No process events for the selected command.'')
      else map_option (rows_panel app) (those (map (tree_item hms app) tree_rows)))"

definition draw_detail_content :: "(int \<Rightarrow> int \<Rightarrow> string) \<Rightarrow> App \<Rightarrow> Panel option" where
  "draw_detail_content hms app =
     (if ap_active_tab app = ProcessTab then draw_process_tree hms app
      else (let detail_events = filtered_detail_events app in
        if detail_events = []
        then Some (message_panel app ''No events in this category for the selected command.'')
        else map_option (rows_panel app)
          (those (map (event_item hms app \<circ> snd)
             (filter (\<lambda>(_, e). category e \<noteq> CatHidden) detail_events)))))"

record TabBar =
  tb_titles :: "Span list"
  tb_selected :: nat
  tb_border :: Color

definition draw_tab_bar :: "App \<Rightarrow> TabBar" where
  "draw_tab_bar app =
     \<lparr>tb_titles = map (\<lambda>t. (show_nat (tab_index t + 1) @ '':'' @ tab_label t,
         if t = ap_active_tab app then (bold (in_color TAB_ACTIVE))\<lparr>st_underlined := True\<rparr>
         else in_color DIM_TEXT)) ALL_TABS,
       tb_selected = tab_index (ap_active_tab app), tb_border = border_of app DetailPane\<rparr>"

definition draw_status_bar :: "App \<Rightarrow> Span list \<times> Color" where
  "draw_status_bar app =
     (let cmd_info = (if ap_commands app = [] then ''No commands''
            else ''Command '' @ show_nat (selected_group app + 1) @ ''/'' @ show_nat (length (ap_commands app)));
          event_count = (case current_group app of None \<Rightarrow> 0 | Some g \<Rightarrow> length (cg_event_indices g));
          pane_name = (case ap_active_pane app of HistoryPane \<Rightarrow> ''History'' | OutputPane \<Rightarrow> ''Output''
            | DetailPane \<Rightarrow> ''Events'');
          sep = (BAR, in_color DIM_TEXT) in
      ([('' '' @ ap_file_path app @ '' '', bold (in_color White)), sep,
       (show_nat (ap_total_events app) @ '' events total'', in_color White), sep,
       (cmd_info, in_color HIGHLIGHT_COLOR), sep,
       (show_nat event_count @ '' events'', in_color White), sep,
       (PLAY @ pane_name, bold (in_color HIGHLIGHT_COLOR)),
       (''   j/k:nav  '' @ RETURN_KEY @ '':expand  Tab:pane  1-4:tab  q:quit '', in_color DIM_TEXT)], STATUS_BG))"

record Frame =
  fr_history :: Panel
  fr_output :: Panel
  fr_tabs :: TabBar
  fr_detail :: Panel
  fr_status :: "Span list \<times> Color"

definition draw :: "(int \<Rightarrow> int \<Rightarrow> string) \<Rightarrow> App \<Rightarrow> Frame option" where
  "draw hms app =
     Option.bind (draw_history_pane hms app) (\<lambda>history.
     Option.bind (draw_detail_content hms app) (\<lambda>detail.
       Some \<lparr>fr_history = history, fr_output = draw_output_pane app, fr_tabs = draw_tab_bar app,
         fr_detail = detail, fr_status = draw_status_bar app\<rparr>))"

section \<open>The main loop\<close>

text \<open>
  One element of \<open>polls\<close> per iteration: a key, or nothing within the poll's time limit. The
  result is the sequence of frames drawn while the input lasts.
\<close>

fun run_tui :: "(int \<Rightarrow> int \<Rightarrow> string) \<Rightarrow> App \<Rightarrow> KeyEvent option list \<Rightarrow> Frame list option" where
  "run_tui hms app [] = map_option (\<lambda>frame. [frame]) (draw hms app)"
| "run_tui hms app (p # ps) =
     Option.bind (draw hms app) (\<lambda>frame.
       let app' = (case p of None \<Rightarrow> app | Some key \<Rightarrow> handle_key key app) in
       if ap_should_quit app' then Some [frame]
       else map_option (Cons frame) (run_tui hms app' ps))"

section \<open>Loading a trace\<close>

text \<open>
  \<open>serde_json\<close>'s parser and the base64 decoder are parameters. The events and the number
  of lines that failed to parse:
\<close>

definition load_line :: "(string \<Rightarrow> json option) \<Rightarrow> string \<Rightarrow> TuiEvent list \<times> nat \<Rightarrow> TuiEvent list \<times> nat" where
  "load_line parse raw acc =
     (let line = trim raw in
      if line = [] then acc
      else (case Option.bind (parse line) tui_event_of_json of
          Some event \<Rightarrow> (fst acc @ [event], snd acc)
        | None \<Rightarrow> (fst acc, snd acc + 1)))"

definition load_events :: "(string \<Rightarrow> json option) \<Rightarrow> string \<Rightarrow> TuiEvent list \<times> nat" where
  "load_events parse content = fold (load_line parse) (str_lines content) ([], 0)"

definition tty_write_of :: "TuiEvent \<Rightarrow> tty_write option" where
  "tty_write_of e =
     (if is_tty_write e
      then map_option (\<lambda>data. (te_timestamp e, data, th_comm (te_header e))) (arg as_str e ''data'')
      else None)"

text \<open>\<open>Path::file_name\<close>: the last component, none for a path that ends in \<open>..\<close> or has no component.\<close>

definition path_file_name :: "string \<Rightarrow> string option" where
  "path_file_name path =
     (let components = filter (\<lambda>c. c \<noteq> [] \<and> c \<noteq> ''.'') (split_on (CHR ''/'') path) in
      if components = [] \<or> last components = ''..'' then None else Some (last components))"

definition boot_anchor :: "int \<Rightarrow> TuiEvent list \<Rightarrow> int" where
  "boot_anchor mtime events =
     mtime - min (uint (if events = [] then 0 else te_timestamp (last events))) (2 ^ 63 - 1)"

text \<open>\<open>None\<close>: the process trees are never finished.\<close>

definition build_app_from_path ::
  "(string \<Rightarrow> json option) \<Rightarrow> (string \<Rightarrow> bytes option) \<Rightarrow> string \<Rightarrow> string + string \<Rightarrow> string + int \<Rightarrow>
    int \<Rightarrow> int option \<Rightarrow> (string + App) option" where
  "build_app_from_path parse dec path content mtime tz_offset boot_time_override =
     (case content of Err e \<Rightarrow> Some (Err (''Cannot read file: '' @ path))
      | Ok text \<Rightarrow>
          (let events = fst (load_events parse text) in
           if events = [] then Some (Err (''No valid events found in '' @ path))
           else
             (let tty_writes = List.map_filter tty_write_of events;
                  commands = filter (\<lambda>c. trim (ce_command c) \<noteq> []) (reconstruct_commands dec tty_writes);
                  groups = correlate commands events;
                  tty_output = build_tty_output dec groups events in
              map_option (\<lambda>exec_trees.
                and_then (case boot_time_override of Some t \<Rightarrow> Ok t
                    | None \<Rightarrow> and_then mtime (\<lambda>t. Ok (boot_anchor t events))) (\<lambda>boot_time_utc.
                  Ok (app_new \<lparr>ai_commands = groups, ai_events = events, ai_tty_output = tty_output,
                    ai_exec_trees = exec_trees,
                    ai_file_path = (case path_file_name path of Some n \<Rightarrow> n | None \<Rightarrow> path),
                    ai_boot_time_utc = boot_time_utc, ai_tz_offset = tz_offset,
                    ai_fd_table = build_fd_table events\<rparr>)))
              (build_exec_trees groups events))))"

definition FILE_SIZE_WARNING_BYTES :: nat where "FILE_SIZE_WARNING_BYTES = 50 * 1024 * 1024"

text \<open>
  Up to the main loop: \<open>Ok None\<close> when the user declines to load a large file. \<open>east_opt\<close> is
  chrono's check of an offset, \<open>build\<close> the loader.
\<close>

definition tui_main ::
  "string \<Rightarrow> string \<Rightarrow> string + nat \<Rightarrow> string + string \<Rightarrow> (int \<Rightarrow> int option) \<Rightarrow> (int \<Rightarrow> (string + App) option) \<Rightarrow>
    (string + App option) option" where
  "tui_main file timezone metadata answer east_opt build =
     (let open_file = (case parse_tz_offset timezone of Err e \<Rightarrow> Some (Err e)
        | Ok secs \<Rightarrow>
            (case east_opt secs of None \<Rightarrow> Some (Err (''Invalid timezone offset: '' @ timezone))
             | Some tz \<Rightarrow> map_option (\<lambda>r. and_then r (\<lambda>app. Ok (Some app))) (build tz))) in
      case metadata of Err e \<Rightarrow> Some (Err (''Cannot read file: '' @ file))
      | Ok len \<Rightarrow>
          (if FILE_SIZE_WARNING_BYTES < len then
             (case answer of Err e \<Rightarrow> Some (Err e)
              | Ok input \<Rightarrow> if trim input \<in> {''y'', ''Y''} then open_file else Some (Ok None))
           else open_file))"

end
