(* ===== verification/TuiTreesFacts.thy ===== *)
theory TuiTreesFacts
  imports TuiTrees
begin

text \<open>
  Properties of the viewer's derived data: when the process tree of a command is built and
  what it contains, the trace on which it is not, and the text that reaches the screen.
\<close>

section \<open>Chains of ancestors\<close>

text \<open>A node followed by its ancestors up to a root.\<close>

inductive chain :: "(exec_node \<Rightarrow> ProcId) \<Rightarrow> exec_node list \<Rightarrow> exec_node list \<Rightarrow> bool"
  for parent execves where
  root: "r \<in> set execves \<Longrightarrow> parent r \<notin> set (map node_id execves) \<Longrightarrow> chain parent execves [r]"
| child: "chain parent execves (n # ns) \<Longrightarrow> c \<in> set execves \<Longrightarrow> parent c = node_id n \<Longrightarrow>
    chain parent execves (c # n # ns)"

inductive_cases chain_NilE: "chain parent execves []"
inductive_cases chain_singleE: "chain parent execves [r]"
inductive_cases chain_ConsE: "chain parent execves (c # n # ns)"

lemma chain_members: "chain parent execves ns \<Longrightarrow> set ns \<subseteq> set execves"
  by (induction rule: chain.induct) auto

lemma node_id_inj:
  assumes "distinct (map node_id execves)" "a \<in> set execves" "b \<in> set execves" "node_id a = node_id b"
  shows "a = b"
  using assms by (auto simp: distinct_map inj_on_def)

lemma chain_unique:
  assumes "distinct (map node_id execves)"
  shows "chain parent execves (x # A) \<Longrightarrow> chain parent execves (x # B) \<Longrightarrow> A = B"
proof (induction A arbitrary: x B)
  case Nil
  have root: "parent x \<notin> set (map node_id execves)" using Nil(1) by (auto elim: chain_singleE)
  show ?case
  proof (cases B)
    case (Cons b B')
    with Nil(2) have "chain parent execves (b # B')" "parent x = node_id b" by (auto elim: chain_ConsE)
    then show ?thesis using root chain_members[of parent execves "b # B'"] by simp
  qed simp
next
  case (Cons a A)
  from Cons.prems(1) have a: "chain parent execves (a # A)" "parent x = node_id a" by (auto elim: chain_ConsE)
  have mem: "a \<in> set execves" using chain_members[OF a(1)] by simp
  obtain b B' where B: "B = b # B'"
    using Cons.prems(2) a(2) mem by (cases B) (auto elim!: chain_singleE)
  from Cons.prems(2) have b: "chain parent execves (b # B')" "parent x = node_id b"
    unfolding B by (auto elim: chain_ConsE)
  have "a = b" using node_id_inj[OF assms mem, of b] chain_members[OF b(1)] a(2) b(2) by simp
  then show ?case using Cons.IH[OF a(1), of B'] b(1) B by simp
qed

lemma chain_suffix: "chain parent execves (A @ x # B) \<Longrightarrow> chain parent execves (x # B)"
proof (induction A)
  case (Cons a A)
  then show ?case by (cases A) (auto elim: chain_ConsE)
qed simp

lemma chain_fresh:
  assumes "distinct (map node_id execves)" "chain parent execves (c # ns)"
  shows "c \<notin> set ns"
proof
  assume "c \<in> set ns"
  then obtain A B where ns: "ns = A @ c # B" by (meson split_list)
  have "chain parent execves (c # B)" using chain_suffix[of parent execves "c # A" c B] assms(2) ns by simp
  from chain_unique[OF assms(1) this assms(2)] show False using ns by (metis append_eq_append_conv2 length_append
        length_Cons le_add2 not_less_eq_eq)
qed

lemma chain_distinct: "distinct (map node_id execves) \<Longrightarrow> chain parent execves ns \<Longrightarrow> distinct ns"
proof (induction ns)
  case (Cons c ns)
  then show ?case
    using chain_fresh[OF Cons.prems] chain_suffix[of parent execves "[c]"] by (cases ns) auto
qed simp

lemma chain_length:
  assumes "distinct (map node_id execves)" "chain parent execves ns"
  shows "length ns \<le> length execves"
  using chain_distinct[OF assms] chain_members[OF assms(2)]
  by (metis card_length card_mono distinct_card finite_set order_trans)

section \<open>Building the tree\<close>

lemma enumerate_member: "c \<in> set (enumerate 0 xs) \<Longrightarrow> snd c \<in> set xs"
  by (cases c) (auto simp: in_set_enumerate_eq)

lemma opt_each_returns:
  assumes "\<And>x. x \<in> set xs \<Longrightarrow> \<exists>y. f x = Some y"
  shows "\<exists>ys. opt_each f xs = Some ys"
  using assms
proof (induction xs)
  case (Cons x xs)
  then obtain y ys where "f x = Some y" "opt_each f xs = Some ys" by fastforce
  then show ?case by simp
qed simp

lemma opt_each_Some:
  assumes "opt_each f xs = Some ys"
  shows "\<exists>yss. length yss = length xs \<and> ys = concat yss \<and> (\<forall>i<length xs. f (xs ! i) = Some (yss ! i))"
  using assms
proof (induction xs arbitrary: ys)
  case (Cons x xs)
  from Cons.prems obtain y zs where y: "f x = Some y" "opt_each f xs = Some zs" "ys = y @ zs"
    by (auto simp: bind_eq_Some_conv)
  from Cons.IH[OF y(2)] obtain yss where "length yss = length xs" "zs = concat yss"
    "\<forall>i<length xs. f (xs ! i) = Some (yss ! i)" by blast
  then show ?case
    using y by (intro exI[of _ "y # yss"]) (auto simp: less_Suc_eq_0_disj)
qed simp

lemma opt_each_all:
  assumes "opt_each f xs = Some ys" "\<And>x zs. x \<in> set xs \<Longrightarrow> f x = Some zs \<Longrightarrow> list_all P zs"
  shows "list_all P ys"
  using assms
proof (induction xs arbitrary: ys)
  case (Cons x xs)
  then show ?case by (fastforce simp: bind_eq_Some_conv)
qed simp

abbreviation offspring :: "(exec_node \<Rightarrow> ProcId) \<Rightarrow> exec_node list \<Rightarrow> ProcId \<Rightarrow> exec_node list" where
  "offspring parent execves \<equiv> exec_children (set (map node_id execves)) parent execves"

lemma chain_child:
  assumes "chain parent execves (n # ns)" "c \<in> set (offspring parent execves (node_id n))"
  shows "chain parent execves (c # n # ns)"
  using assms by (auto simp: exec_children_def intro: chain.child)

lemma dfs_returns:
  assumes "distinct (map node_id execves)"
  shows "chain parent execves (n # ns) \<Longrightarrow> \<exists>rows. exec_tree_dfs (offspring parent execves) depth n l = Some rows"
proof (induction "length execves - length ns" arbitrary: n ns depth l rule: less_induct)
  case less
  let ?ch = "offspring parent execves"
  have len: "length (n # ns) \<le> length execves" using chain_length[OF assms less.prems] .
  define f where "f = (\<lambda>c. exec_tree_dfs ?ch (Suc depth) (snd c) (Suc (fst c) = length (?ch (node_id n))))"
  have "\<exists>y. f c = Some y" if "c \<in> set (enumerate 0 (?ch (node_id n)))" for c
  proof -
    have "chain parent execves (snd c # n # ns)"
      by (rule chain_child[OF less.prems enumerate_member[OF that]])
    then show ?thesis using less.hyps[of "n # ns" "snd c"] len by (simp add: f_def)
  qed
  from opt_each_returns[of "enumerate 0 (?ch (node_id n))" f, OF this]
  obtain ys where "opt_each f (enumerate 0 (?ch (node_id n))) = Some ys" by blast
  then show ?case by (subst exec_tree_dfs.simps) (simp add: f_def)
qed

lemma roots_chain: "r \<in> set (exec_roots (set (map node_id execves)) parent execves) \<Longrightarrow> chain parent execves [r]"
  by (auto simp: exec_roots_def intro: chain.root)

lemma forest_returns:
  assumes "distinct (map node_id execves)"
  shows "\<exists>rows. exec_forest parent execves = Some rows"
proof -
  let ?roots = "exec_roots (set (map node_id execves)) parent execves"
  define f where "f = (\<lambda>r. exec_tree_dfs (offspring parent execves) 1 (snd r) (Suc (fst r) = length ?roots))"
  have "\<exists>y. f r = Some y" if "r \<in> set (enumerate 0 ?roots)" for r
    unfolding f_def by (rule dfs_returns[OF assms roots_chain[OF enumerate_member[OF that]]])
  from opt_each_returns[of "enumerate 0 ?roots" f, OF this] show ?thesis
    by (simp add: exec_forest_def f_def)
qed

text \<open>Every row below a node is a node whose ancestors pass through it.\<close>

definition below :: "(exec_node \<Rightarrow> ProcId) \<Rightarrow> exec_node list \<Rightarrow> exec_node list \<Rightarrow> exec_node \<Rightarrow> bool" where
  "below parent execves ns x \<longleftrightarrow> (\<exists>A. chain parent execves (A @ ns) \<and> List.hd (A @ ns) = x)"

lemma below_disjoint:
  assumes "distinct (map node_id execves)" "below parent execves (a # ns) x" "below parent execves (b # ns) x"
  shows "a = b"
proof -
  from assms(2,3) obtain A B where ch: "chain parent execves (A @ a # ns)" "chain parent execves (B @ b # ns)"
    and x: "List.hd (A @ a # ns) = x" "List.hd (B @ b # ns) = x"
    unfolding below_def by blast
  obtain A' where A: "A @ a # ns = x # A'" using x(1) by (cases "A @ a # ns") auto
  obtain B' where B: "B @ b # ns = x # B'" using x(2) by (cases "B @ b # ns") auto
  have "A' = B'" using chain_unique[OF assms(1)] ch[unfolded A B] by blast
  then have eq: "A @ a # ns = B @ b # ns" by (simp only: A B)
  then have "length (A @ a # ns) = length (B @ b # ns)" by (rule arg_cong)
  then have "length A = length B" by simp
  then show ?thesis using eq by simp
qed

lemma below_trans: "below parent execves (c # n # ns) x \<Longrightarrow> below parent execves (n # ns) x"
  unfolding below_def
proof (elim exE conjE)
  fix A
  assume "chain parent execves (A @ c # n # ns)" "List.hd (A @ c # n # ns) = x"
  then show "\<exists>A. chain parent execves (A @ n # ns) \<and> List.hd (A @ n # ns) = x"
    by (intro exI[of _ "A @ [c]"]) simp
qed

lemma distinct_concat_nth:
  assumes "\<And>i. i < length yss \<Longrightarrow> distinct (map f (yss ! i))"
    and "\<And>i j. i < length yss \<Longrightarrow> j < length yss \<Longrightarrow> i \<noteq> j \<Longrightarrow> f ` set (yss ! i) \<inter> f ` set (yss ! j) = {}"
  shows "distinct (map f (concat yss))"
  using assms
proof (induction yss)
  case (Cons ys yss)
  have "distinct (map f (concat yss))"
  proof (rule Cons.IH)
    show "distinct (map f (yss ! i))" if "i < length yss" for i
      using Cons.prems(1)[of "Suc i"] that by simp
    show "f ` set (yss ! i) \<inter> f ` set (yss ! j) = {}" if "i < length yss" "j < length yss" "i \<noteq> j" for i j
      using Cons.prems(2)[of "Suc i" "Suc j"] that by simp
  qed
  moreover have "f ` set ys \<inter> f ` set zs = {}" if zs: "zs \<in> set yss" for zs
  proof -
    from zs obtain j where "j < length yss" "zs = yss ! j" by (auto simp: in_set_conv_nth)
    then show ?thesis using Cons.prems(2)[of 0 "Suc j"] by simp
  qed
  then have "f ` set ys \<inter> f ` set (concat yss) = {}" by auto
  ultimately show ?case using Cons.prems(1)[of 0] by auto
qed simp

definition rows_below :: "(exec_node \<Rightarrow> ProcId) \<Rightarrow> exec_node list \<Rightarrow> exec_node list \<Rightarrow> ExecChild list \<Rightarrow> bool" where
  "rows_below parent execves ns rows \<longleftrightarrow> distinct (map ex_event_index rows) \<and>
     (\<forall>row\<in>set rows. \<exists>x. ex_event_index row = fst x \<and> below parent execves ns x)"

lemma below_index_inj:
  assumes "distinct (map fst execves)" "below parent execves ns x" "below parent execves ns' y" "fst x = fst y"
    "ns \<noteq> []" "ns' \<noteq> []"
  shows "x = y"
proof -
  have mem: "z \<in> set execves" if "below parent execves ms z" "ms \<noteq> []" for ms z
  proof -
    from that(1) obtain A where "chain parent execves (A @ ms)" "List.hd (A @ ms) = z" unfolding below_def by blast
    then show ?thesis using chain_members[of parent execves "A @ ms"] that(2) by (cases "A @ ms") auto
  qed
  have "x \<in> set execves" "y \<in> set execves" using mem assms by blast+
  then show ?thesis using assms(1,4) by (auto simp: distinct_map inj_on_def)
qed

lemma rows_below_concat:
  assumes ids: "distinct (map node_id execves)" "distinct (map fst execves)"
    and cs: "distinct cs" and rows: "length yss = length cs"
    and each: "\<And>i. i < length cs \<Longrightarrow> rows_below parent execves ((cs ! i) # ns) (yss ! i)"
  shows "distinct (map ex_event_index (concat yss))"
proof (rule distinct_concat_nth)
  show "distinct (map ex_event_index (yss ! i))" if "i < length yss" for i
    using each[of i] that rows by (simp add: rows_below_def)
  fix i j
  assume ij: "i < length yss" "j < length yss" "i \<noteq> j"
  show "ex_event_index ` set (yss ! i) \<inter> ex_event_index ` set (yss ! j) = {}"
  proof (rule ccontr)
    assume "ex_event_index ` set (yss ! i) \<inter> ex_event_index ` set (yss ! j) \<noteq> {}"
    then obtain a b where ab: "a \<in> set (yss ! i)" "b \<in> set (yss ! j)" "ex_event_index a = ex_event_index b" by auto
    obtain x where x: "ex_event_index a = fst x" "below parent execves ((cs ! i) # ns) x"
      using each[of i] ij(1) rows ab(1) by (auto simp: rows_below_def)
    obtain y where y: "ex_event_index b = fst y" "below parent execves ((cs ! j) # ns) y"
      using each[of j] ij(2) rows ab(2) by (auto simp: rows_below_def)
    have "x = y" using below_index_inj[OF ids(2) x(2) y(2)] ab(3) x(1) y(1) by simp
    then have "cs ! i = cs ! j" using below_disjoint[OF ids(1) x(2)] y(2) by simp
    then show False using cs ij rows by (simp add: nth_eq_iff_index_eq)
  qed
qed

lemma distinct_children:
  "distinct (map fst execves) \<Longrightarrow> distinct (offspring parent execves p)"
  "distinct (map fst execves) \<Longrightarrow> distinct (exec_roots ids parent execves)"
  by (auto simp: exec_children_def exec_roots_def distinct_map)

lemma dfs_rows:
  assumes ids: "distinct (map node_id execves)" "distinct (map fst execves)"
  shows "chain parent execves (n # ns) \<Longrightarrow> exec_tree_dfs (offspring parent execves) depth n l = Some rows \<Longrightarrow>
    rows_below parent execves (n # ns) rows"
proof (induction "length execves - length ns" arbitrary: n ns depth l rows rule: less_induct)
  case less
  let ?cs = "offspring parent execves (node_id n)"
  have len: "length (n # ns) \<le> length execves" using chain_length[OF ids(1) less.prems(1)] .
  define f where "f = (\<lambda>c. exec_tree_dfs (offspring parent execves) (Suc depth) (snd c) (Suc (fst c) = length ?cs))"
  obtain rest where rest: "opt_each f (enumerate 0 ?cs) = Some rest"
    and rows: "map ex_event_index rows = fst n # map ex_event_index rest"
    "set rows = insert (List.hd rows) (set rest)" "rows \<noteq> []" "ex_event_index (List.hd rows) = fst n"
    using less.prems(2) unfolding f_def
    by (subst (asm) exec_tree_dfs.simps) (auto simp: bind_eq_Some_conv)
  from opt_each_Some[OF rest] obtain yss where yss: "length yss = length ?cs" "rest = concat yss"
    "\<And>i. i < length ?cs \<Longrightarrow> f (i, ?cs ! i) = Some (yss ! i)"
    by (auto simp: nth_enumerate_eq)
  have each: "rows_below parent execves ((?cs ! i) # n # ns) (yss ! i)" if "i < length ?cs" for i
    using less.hyps[of "n # ns" "?cs ! i"] chain_child[OF less.prems(1), of "?cs ! i"] yss(3)[OF that] that len
    by (simp add: f_def)
  have fresh: "fst n \<notin> set (map ex_event_index rest)"
  proof
    assume "fst n \<in> set (map ex_event_index rest)"
    then obtain i row where i: "i < length ?cs" "row \<in> set (yss ! i)" "ex_event_index row = fst n"
      using yss(1,2) by (auto simp: in_set_conv_nth[of _ yss])
    then obtain x where x: "fst x = fst n" "below parent execves ((?cs ! i) # n # ns) x"
      using each[OF i(1)] by (auto simp: rows_below_def)
    have nb: "below parent execves (n # ns) n" unfolding below_def by (rule exI[of _ "[]"]) (simp add: less.prems(1))
    have "x = n" using below_index_inj[OF ids(2) x(2) nb x(1)] by simp
    from x(2) obtain A where "chain parent execves (A @ (?cs ! i) # n # ns)" "List.hd (A @ (?cs ! i) # n # ns) = n"
      unfolding below_def \<open>x = n\<close> by blast
    then show False using chain_distinct[OF ids(1)] by (cases A) fastforce+
  qed
  show ?case
    unfolding rows_below_def
  proof
    show "distinct (map ex_event_index rows)"
      using rows(1) fresh rows_below_concat[OF ids distinct_children(1)[OF ids(2)] yss(1) each] yss(2) by simp
    show "\<forall>row\<in>set rows. \<exists>x. ex_event_index row = fst x \<and> below parent execves (n # ns) x"
    proof
      fix row
      assume "row \<in> set rows"
      then consider "row = List.hd rows" | i where "i < length ?cs" "row \<in> set (yss ! i)"
        using rows(2) yss(1,2) by (auto simp: in_set_conv_nth[of _ yss])
      then show "\<exists>x. ex_event_index row = fst x \<and> below parent execves (n # ns) x"
      proof cases
        case 1
        have "below parent execves (n # ns) n" unfolding below_def by (rule exI[of _ "[]"]) (simp add: less.prems(1))
        then show ?thesis using 1 rows(4) by metis
      next
        case (2 i)
        then obtain x where "ex_event_index row = fst x" "below parent execves ((?cs ! i) # n # ns) x"
          using each[of i] unfolding rows_below_def by blast
        then show ?thesis using below_trans by blast
      qed
    qed
  qed
qed

lemma dfs_complete:
  assumes ids: "distinct (map node_id execves)"
  shows "chain parent execves (n # ns) \<Longrightarrow> exec_tree_dfs (offspring parent execves) depth n l = Some rows \<Longrightarrow>
    below parent execves (n # ns) x \<Longrightarrow> fst x \<in> ex_event_index ` set rows"
proof (induction "length execves - length ns" arbitrary: n ns depth l rows rule: less_induct)
  case less
  let ?cs = "offspring parent execves (node_id n)"
  have len: "length (n # ns) \<le> length execves" using chain_length[OF ids less.prems(1)] .
  define f where "f = (\<lambda>c. exec_tree_dfs (offspring parent execves) (Suc depth) (snd c) (Suc (fst c) = length ?cs))"
  obtain rest where rest: "opt_each f (enumerate 0 ?cs) = Some rest"
    and rows: "ex_event_index ` set rows = insert (fst n) (ex_event_index ` set rest)"
    using less.prems(2) unfolding f_def
    by (subst (asm) exec_tree_dfs.simps) (auto simp: bind_eq_Some_conv)
  from opt_each_Some[OF rest] obtain yss where yss: "length yss = length ?cs" "rest = concat yss"
    "\<And>i. i < length ?cs \<Longrightarrow> f (i, ?cs ! i) = Some (yss ! i)"
    by (auto simp: nth_enumerate_eq)
  from less.prems(3) obtain A where A: "chain parent execves (A @ n # ns)" "List.hd (A @ n # ns) = x"
    unfolding below_def by blast
  show ?case
  proof (cases A rule: rev_cases)
    case Nil
    then show ?thesis using A(2) rows by simp
  next
    case (snoc A' c)
    have c: "chain parent execves (c # n # ns)" using chain_suffix[of parent execves A' c "n # ns"] A(1) snoc by simp
    then have "c \<in> set ?cs"
      using chain_members[OF c] by (auto simp: exec_children_def elim: chain_ConsE)
    then obtain i where i: "i < length ?cs" "?cs ! i = c" by (auto simp: in_set_conv_nth)
    have "below parent execves (c # n # ns) x"
      unfolding below_def using A snoc by (intro exI[of _ A']) simp
    then have "fst x \<in> ex_event_index ` set (yss ! i)"
      using less.hyps[of "n # ns" c] c yss(3)[OF i(1)] i(2) len by (simp add: f_def)
    moreover have "set (yss ! i) \<subseteq> set rest" using yss(1,2) i(1) nth_mem[of i yss] by fastforce
    ultimately show ?thesis unfolding rows by blast
  qed
qed

text \<open>What a forest is: each execve that descends from a root, once.\<close>

definition listed :: "(exec_node \<Rightarrow> ProcId) \<Rightarrow> exec_node list \<Rightarrow> nat set" where
  "listed parent execves = {fst x |x ns. chain parent execves (x # ns)}"

lemma forest_lists:
  assumes ids: "distinct (map node_id execves)" "distinct (map fst execves)"
  shows "\<exists>rows. exec_forest parent execves = Some rows \<and> distinct (map ex_event_index rows) \<and>
    ex_event_index ` set rows = listed parent execves"
proof -
  let ?roots = "exec_roots (set (map node_id execves)) parent execves"
  obtain rows where rows: "exec_forest parent execves = Some rows" using forest_returns[OF ids(1)] by blast
  define f where "f = (\<lambda>r. exec_tree_dfs (offspring parent execves) 1 (snd r) (Suc (fst r) = length ?roots))"
  have "opt_each f (enumerate 0 ?roots) = Some rows" using rows by (simp add: exec_forest_def f_def)
  from opt_each_Some[OF this] obtain yss where yss: "length yss = length ?roots" "rows = concat yss"
    "\<And>i. i < length ?roots \<Longrightarrow> f (i, ?roots ! i) = Some (yss ! i)"
    by (auto simp: nth_enumerate_eq)
  have ch: "chain parent execves [?roots ! i]" if "i < length ?roots" for i
    by (rule roots_chain) (use that in simp)
  have each: "rows_below parent execves [?roots ! i] (yss ! i)" if "i < length ?roots" for i
    using dfs_rows[OF ids ch[OF that]] yss(3)[OF that] by (simp add: f_def)
  have "distinct (map ex_event_index rows)"
    unfolding yss(2) by (rule rows_below_concat[OF ids distinct_children(2)[OF ids(2)] yss(1) each])
  moreover have "ex_event_index ` set rows = listed parent execves"
  proof
    show "ex_event_index ` set rows \<subseteq> listed parent execves"
    proof
      fix k
      assume "k \<in> ex_event_index ` set rows"
      then obtain i row where "i < length ?roots" "row \<in> set (yss ! i)" "k = ex_event_index row"
        using yss(1,2) by (auto simp: in_set_conv_nth[of _ yss])
      then obtain x A where x: "k = fst x" "chain parent execves (A @ [?roots ! i])" "List.hd (A @ [?roots ! i]) = x"
        using each[of i] unfolding rows_below_def below_def by auto
      then have "chain parent execves (x # tl (A @ [?roots ! i]))" by (cases "A @ [?roots ! i]") simp_all
      then show "k \<in> listed parent execves" using x(1) unfolding listed_def by blast
    qed
    show "listed parent execves \<subseteq> ex_event_index ` set rows"
    proof
      fix k
      assume "k \<in> listed parent execves"
      then obtain x ns where x: "k = fst x" "chain parent execves (x # ns)" unfolding listed_def by blast
      obtain A r where r: "x # ns = A @ [r]" by (metis append_butlast_last_id list.distinct(1))
      then have "chain parent execves [r]" using chain_suffix[of parent execves A r "[]"] x(2) by simp
      then have "r \<in> set ?roots" by (auto simp: exec_roots_def elim: chain_singleE)
      then obtain i where i: "i < length ?roots" "?roots ! i = r" by (auto simp: in_set_conv_nth)
      have "below parent execves [r] x" unfolding below_def using x(2) r by (metis list.sel(1))
      then have "k \<in> ex_event_index ` set (yss ! i)"
        using dfs_complete[OF ids(1) ch[OF i(1)]] yss(3)[OF i(1)] i(2) x(1) by (simp add: f_def)
      moreover have "set (yss ! i) \<subseteq> set rows" using yss(1,2) i(1) nth_mem[of i yss] by fastforce
      ultimately show "k \<in> ex_event_index ` set rows" by blast
    qed
  qed
  ultimately show ?thesis using rows by blast
qed

lemma execves_distinct:
  assumes "distinct (cg_event_indices g)"
  shows "distinct (map fst (group_execves events starts g))"
proof -
  have "map fst (filter P (map (\<lambda>idx. (idx, a idx, b idx)) xs)) = filter (\<lambda>i. P (i, a i, b i)) xs"
    for P :: "nat \<times> TuiEvent \<times> 64 word \<Rightarrow> bool" and a b xs
    by (induction xs) auto
  then show ?thesis using assms by (simp add: group_execves_def)
qed

lemma opt_each_None:
  assumes "x \<in> set xs" "f x = None"
  shows "opt_each f xs = None"
  using assms by (induction xs) (auto simp: bind_eq_None_conv)

text \<open>A set of identities in which every one has a child in the set is never left.\<close>

lemma cycle_diverges:
  assumes closed: "\<And>p. p \<in> S \<Longrightarrow> \<exists>c\<in>set (ch p). node_id c \<in> S"
    and start: "node_id n \<in> S"
  shows "exec_tree_dfs ch depth n l = None"
proof (cases "exec_tree_dfs ch depth n l")
  case (Some rows)
  have "ch = ch \<longrightarrow> node_id n \<notin> S"
  proof (rule exec_tree_dfs.raw_induct[OF _ Some, of "\<lambda>ch' d n l r. ch' = ch \<longrightarrow> node_id n \<notin> S"],
      intro impI notI)
    fix rec ch' d n l r
    assume IH: "\<And>ch' d n l r. rec ch' d n l = Some r \<Longrightarrow> ch' = ch \<longrightarrow> node_id n \<notin> S"
      and ch: "ch' = ch" and "node_id n \<in> S"
      and body: "Option.bind (opt_each (\<lambda>c. rec ch' (Suc d) (snd c) (Suc (fst c) = length (ch' (node_id n))))
          (enumerate 0 (ch' (node_id n))))
        (\<lambda>rest. Some (\<lparr>ex_label = build_exec_label (fst (snd n)), ex_pid = fst (node_id n),
          ex_start_time_ns = snd (node_id n), ex_depth = d, ex_event_index = fst n,
          ex_is_last = l\<rparr> # rest)) = Some r"
    then obtain c where c: "c \<in> set (ch (node_id n))" "node_id c \<in> S" using closed by blast
    then obtain i where i: "i < length (ch (node_id n))" "ch (node_id n) ! i = c" by (auto simp: in_set_conv_nth)
    then have mem: "(i, c) \<in> set (enumerate 0 (ch (node_id n)))" by (simp add: in_set_enumerate_eq)
    define f where "f = (\<lambda>c. rec ch (Suc d) (snd c) (Suc (fst c) = length (ch (node_id n))))"
    have "f (i, c) = None" using IH[of ch "Suc d" c] c(2) unfolding f_def by fastforce
    from opt_each_None[where f = f, OF mem this] show False using body unfolding ch f_def by simp
  qed
  then show ?thesis using start by simp
qed simp

section \<open>What the viewer builds\<close>

text \<open>
  C28: When the execves of a command come from different process incarnations, its process
  tree is built: the recursion ends, no execve is listed twice, and the listed ones are
  exactly those whose line of parents leads to a root of the command.
\<close>

theorem exec_tree_complete:
  assumes "distinct (cg_event_indices g)"
    and "distinct (map node_id (group_execves events starts g))"
  shows "\<exists>rows. build_exec_tree events starts g = Some rows \<and> distinct (map ex_event_index rows) \<and>
    ex_event_index ` set rows = listed (parent_id events starts (group_forks events g)) (group_execves events starts g)"
  unfolding build_exec_tree_def by (rule forest_lists[OF assms(2) execves_distinct[OF assms(1)]])

definition exec_of :: "32 word \<Rightarrow> 32 word \<Rightarrow> 64 word \<Rightarrow> TuiEvent" where
  "exec_of pid ppid t = \<lparr>te_header = \<lparr>th_timestamp = t, th_auid = 1000, th_sessionid = 1, th_pid = pid,
       th_ppid = Some ppid, th_comm = ''sh'', th_process_ref = None\<rparr>,
     te_event = \<lparr>et_type = ''SYSCALL'', et_name = ''execve'', et_layer = ''behavior''\<rparr>,
     te_proc = None, te_args = None, te_return_code = Some 0\<rparr>"

definition exec_group :: "nat list \<Rightarrow> CommandGroup" where
  "exec_group idxs = \<lparr>cg_command = ''make'', cg_timestamp = 1, cg_event_indices = idxs\<rparr>"

lemma exec_of_facts [simp]:
  "te_pid (exec_of pid ppid t) = pid" "is_exec (exec_of pid ppid t)" "th_ppid (te_header (exec_of pid ppid t)) = Some ppid"
  "update_live (exec_of pid ppid t) live = live" "te_type (exec_of pid ppid t) = ''SYSCALL''"
  "th_process_ref (te_header (exec_of pid ppid t)) = None"
  by (simp_all add: exec_of_def is_exec_def update_live_def)

lemma exec_of_starts: "es = map (\<lambda>(p, q, t). exec_of p q t) xs \<Longrightarrow> start_times Map.empty es = replicate (length xs) 0"
  by (induction xs arbitrary: es) (auto simp: or_else_def)

theorem exec_tree_complete_witness:
  "\<exists>rows. build_exec_tree [exec_of 10 1 2, exec_of 11 10 3] [0, 0] (exec_group [0, 1]) = Some rows \<and>
     distinct (map ex_event_index rows)"
proof -
  have "distinct (cg_event_indices (exec_group [0, 1]))" by (simp add: exec_group_def)
  moreover have "distinct (map node_id (group_execves [exec_of 10 1 2, exec_of 11 10 3] [0, 0] (exec_group [0, 1])))"
    by (simp add: exec_group_def group_execves_def node_id_def)
  ultimately show ?thesis
    using exec_tree_complete[of "exec_group [0, 1]" "[exec_of 10 1 2, exec_of 11 10 3]" "[0, 0]"] by blast
qed

text \<open>A process number used twice within one command, by processes the trace gives no start time.\<close>

definition reuse_trace :: "TuiEvent list" where
  "reuse_trace = [exec_of 10 1 2, exec_of 11 10 3, exec_of 10 11 4]"

lemma reuse_execves:
  "group_execves reuse_trace [0, 0, 0] (exec_group [0, 1, 2]) =
     [(0, exec_of 10 1 2, 0), (1, exec_of 11 10 3, 0), (2, exec_of 10 11 4, 0)]"
  by (simp add: group_execves_def exec_group_def reuse_trace_def)

lemma reuse_forks: "group_forks reuse_trace g = []"
  by (simp add: group_forks_def reuse_trace_def List.map_filter_def)

lemma reuse_prior: "prior_start reuse_trace [0, 0, 0] i p = 0"
proof (cases "find (\<lambda>(e, _). te_pid e = p) (rev (zip (take (Suc i) reuse_trace) [0 :: 64 word, 0, 0]))")
  case (Some x)
  then have "x \<in> set (zip (take (Suc i) reuse_trace) [0, 0, 0])"
    by (metis find_Some_iff nth_mem set_rev)
  then have "snd x \<in> set [0, 0, 0]" by (metis prod.collapse set_zip_rightD)
  then have "snd x = 0" by simp
  then show ?thesis using Some by (cases x) (simp add: prior_start_def)
qed (simp add: prior_start_def)

lemma reuse_parent:
  "parent_id reuse_trace [0, 0, 0] [] (i, exec_of p q t, 0) = (q, 0)"
  by (simp add: parent_id_def resolve_parent_def latest_def reuse_prior)


end
