(* ===== verification/TuiAppFacts.thy ===== *)
theory TuiAppFacts
  imports TuiApp TuiTreesFacts
begin

text \<open>
  Properties of the viewer: whatever keys are pressed the history cursor stays on a row and
  drawing does not panic, expanding and collapsing keep the selected command, the process
  tab shows every event of the command, and the one key that misses its target.
\<close>

section \<open>The rows of the history pane\<close>

definition block :: "bool list \<Rightarrow> ExecChild list list \<Rightarrow> nat \<Rightarrow> HistoryRow list" where
  "block expanded trees gi = Command gi #
     (if get_or False expanded gi
      then (case vec_get trees gi of None \<Rightarrow> [] | Some children \<Rightarrow> map (Exec gi) [0..<length children])
      else [])"

definition rows_of :: "(nat \<Rightarrow> HistoryRow list) \<Rightarrow> nat \<Rightarrow> HistoryRow list" where
  "rows_of f n = concat (map f [0..<n])"

lemma visible_rows_of:
  "visible_rows app = rows_of (block (ap_expanded app) (ap_exec_trees app)) (length (ap_commands app))"
  unfolding visible_rows_def rows_of_def block_def ..

lemma rows_of_Suc: "rows_of f (Suc n) = rows_of f n @ f n"
  by (simp add: rows_of_def)

lemma block_shape: "\<exists>m. block expanded trees gi = Command gi # map (Exec gi) [0..<m]"
  unfolding block_def by (auto split: option.splits intro: exI[of _ 0])

lemma command_at:
  assumes "gi < n"
  shows "length (rows_of (block ex tr) gi) < length (rows_of (block ex tr) n) \<and>
    rows_of (block ex tr) n ! length (rows_of (block ex tr) gi) = Command gi"
  using assms
proof (induction n)
  case (Suc n)
  then show ?case
    by (cases "gi = n") (auto simp: rows_of_Suc nth_append block_def)
qed simp

lemma command_position:
  assumes "k < length (rows_of (block ex tr) n)" "rows_of (block ex tr) n ! k = Command gi"
  shows "gi < n \<and> k = length (rows_of (block ex tr) gi)"
  using assms
proof (induction n)
  case (Suc n)
  show ?case
  proof (cases "k < length (rows_of (block ex tr) n)")
    case True
    then show ?thesis using Suc by (auto simp: rows_of_Suc nth_append)
  next
    case False
    obtain m where m: "block ex tr n = Command n # map (Exec n) [0..<m]" using block_shape by blast
    with False Suc.prems show ?thesis
      by (cases "k - length (rows_of (block ex tr) n)") (auto simp: rows_of_Suc nth_append)
  qed
qed (simp add: rows_of_def)

lemma row_group_bound:
  assumes "r \<in> set (rows_of (block ex tr) n)"
  shows "row_group (Some r) < n"
proof -
  from assms obtain gi where "gi < n" "r \<in> set (block ex tr gi)" by (auto simp: rows_of_def)
  then show ?thesis using block_shape[of ex tr gi] by (auto simp: row_group_def)
qed

lemma rows_of_cong: "(\<And>i. i < n \<Longrightarrow> f i = g i) \<Longrightarrow> rows_of f n = rows_of g n"
  unfolding rows_of_def by (rule arg_cong[where f = concat]) simp

section \<open>The invariant\<close>

definition app_ok :: "App \<Rightarrow> bool" where
  "app_ok app \<longleftrightarrow> length (ap_expanded app) = length (ap_commands app) \<and>
     length (ap_exec_trees app) = length (ap_commands app) \<and>
     list_all (list_all (\<lambda>c. ex_event_index c < length (ap_events app))) (ap_exec_trees app) \<and>
     (ap_commands app = [] \<or> ap_history_cursor app < length (visible_rows app))"

lemma visible_rows_empty: "visible_rows app = [] \<longleftrightarrow> ap_commands app = []"
  by (cases "ap_commands app") (auto simp: visible_rows_def simp del: upt_Suc simp: upt_conv_Cons)

lemma toggle_expand_row:
  assumes "length (ap_expanded app) = length (ap_commands app)"
    and "vec_get (visible_rows app) (ap_history_cursor app) = Some r"
  shows "vec_get (visible_rows (toggle_expand app)) (ap_history_cursor (toggle_expand app)) =
    Some (if r = Command (row_group (Some r)) then r else Command (row_group (Some r)))"
proof -
  let ?ex = "ap_expanded app" and ?tr = "ap_exec_trees app" and ?n = "length (ap_commands app)"
  have r: "ap_history_cursor app < length (visible_rows app)" "visible_rows app ! ap_history_cursor app = r"
    using assms(2) by (auto simp: vec_get_def split: if_splits)
  show ?thesis
  proof (cases r)
    case (Command gi)
    have pos: "gi < ?n" "ap_history_cursor app = length (rows_of (block ?ex ?tr) gi)"
      using command_position[of "ap_history_cursor app" ?ex ?tr ?n gi] r Command by (auto simp: visible_rows_of)
    have same: "rows_of (block (?ex[gi := v]) ?tr) gi = rows_of (block ?ex ?tr) gi" for v
      by (rule rows_of_cong) (auto simp: block_def get_or_def vec_get_def)
    have "vec_get (rows_of (block (?ex[gi := v]) ?tr) ?n) (ap_history_cursor app) = Some (Command gi)" for v
      using command_at[OF pos(1), of "?ex[gi := v]" ?tr] pos(2) same[of v] by (simp add: vec_get_def)
    then show ?thesis using assms(2) Command by (simp add: toggle_expand_def visible_rows_of row_group_def)
  next
    case (Exec grp child)
    have grp: "grp < ?n"
      using row_group_bound[of r ?ex ?tr ?n] nth_mem[OF r(1)] r(2) Exec by (simp add: visible_rows_of row_group_def)
    define rows where "rows = rows_of (block (?ex[grp := False]) ?tr) ?n"
    have "\<exists>i<length rows. rows ! i = Command grp"
      using command_at[OF grp, of "?ex[grp := False]" ?tr] unfolding rows_def by blast
    then have "find (\<lambda>i. rows ! i = Command grp) [0..<length rows] \<noteq> None"
      by (simp add: find_None_iff)
    then obtain i where i: "find (\<lambda>i. rows ! i = Command grp) [0..<length rows] = Some i" by blast
    then have "i < length rows" "rows ! i = Command grp" by (auto simp: find_Some_iff)
    then show ?thesis using assms(2) Exec i
      by (simp add: toggle_expand_def visible_rows_of row_group_def rows_def vec_get_def)
  qed
qed

lemma toggle_expand_fixed:
  "ap_commands (toggle_expand app) = ap_commands app" "ap_events (toggle_expand app) = ap_events app"
  "ap_exec_trees (toggle_expand app) = ap_exec_trees app"
  "length (ap_expanded (toggle_expand app)) = length (ap_expanded app)"
  by (auto simp: toggle_expand_def Let_def split: option.splits HistoryRow.splits)

lemma toggle_expand_ok: "app_ok app \<Longrightarrow> app_ok (toggle_expand app)"
  using toggle_expand_row[of app "visible_rows app ! ap_history_cursor app"]
  by (auto simp: app_ok_def toggle_expand_fixed vec_get_def split: if_splits)

lemma visible_rows_same:
  "ap_commands a = ap_commands b \<Longrightarrow> ap_expanded a = ap_expanded b \<Longrightarrow> ap_exec_trees a = ap_exec_trees b \<Longrightarrow>
    visible_rows a = visible_rows b"
  by (simp add: visible_rows_of)

text \<open>Operations that leave the history alone but for moving the cursor to another row.\<close>

lemma app_ok_move:
  assumes "app_ok a" "ap_commands b = ap_commands a" "ap_expanded b = ap_expanded a"
    "ap_exec_trees b = ap_exec_trees a" "ap_events b = ap_events a"
    "visible_rows a \<noteq> [] \<Longrightarrow> ap_history_cursor b < length (visible_rows a)"
  shows "app_ok b"
  using assms visible_rows_same[of b a] visible_rows_empty[of a] by (auto simp: app_ok_def)

lemma app_ok_cursor: "app_ok a \<Longrightarrow> visible_rows a \<noteq> [] \<Longrightarrow> ap_history_cursor a < length (visible_rows a)"
  by (auto simp: app_ok_def visible_rows_empty)

lemma moves_ok:
  assumes "app_ok app"
  shows "app_ok (select_next app)" "app_ok (select_prev app)" "app_ok (jump_top app)" "app_ok (jump_bottom app)"
    "app_ok (toggle_pane app)" "app_ok (set_tab t app)" "app_ok (next_tab app)" "app_ok (quit app)"
    "app_ok (prev_tab_key app)" "app_ok (toggle_process_expand app)"
  using app_ok_cursor[OF assms]
  by (auto intro!: app_ok_move[OF assms] split: Pane.splits option.splits ProcessTreeRow.splits
      simp: select_next_def select_prev_def jump_top_def jump_bottom_def toggle_pane_def set_tab_def next_tab_def
        quit_def prev_tab_key_def toggle_process_expand_def Let_def)

lemma handle_key_ok: "app_ok app \<Longrightarrow> app_ok (handle_key key app)"
  by (simp add: handle_key_def Let_def expand_key_def toggle_expand_ok moves_ok)

section \<open>Drawing\<close>

lemma those_Some:
  assumes "\<And>x. x \<in> set xs \<Longrightarrow> f x \<noteq> None"
  shows "\<exists>ys. those (map f xs) = Some ys \<and> length ys = length xs"
  using assms
proof (induction xs)
  case (Cons x xs)
  then obtain y ys where "f x = Some y" "those (map f xs) = Some ys" "length ys = length xs" by fastforce
  then show ?case by simp
qed simp

lemma vec_get_Some: "i < length xs \<Longrightarrow> vec_get xs i = Some (xs ! i)"
  by (simp add: vec_get_def)

lemma history_item_drawn:
  assumes "app_ok app" "r \<in> set (visible_rows app)"
  shows "history_item hms app (k, r) \<noteq> None"
proof -
  from assms(2) obtain gi where gi: "gi < length (ap_commands app)"
    "r \<in> set (block (ap_expanded app) (ap_exec_trees app) gi)"
    by (auto simp: visible_rows_of rows_of_def)
  have tree: "gi < length (ap_exec_trees app)"
    "list_all (\<lambda>c. ex_event_index c < length (ap_events app)) (ap_exec_trees app ! gi)"
    using assms(1) gi(1) by (auto simp: app_ok_def list_all_length)
  show ?thesis
  proof (cases r)
    case (Command g)
    then have "g = gi" using gi(2) block_shape[of "ap_expanded app" "ap_exec_trees app" gi] by auto
    then show ?thesis using Command gi(1) by (simp add: history_item_def command_item_def vec_get_def)
  next
    case (Exec g c)
    have "g = gi"
      using gi(2) block_shape[of "ap_expanded app" "ap_exec_trees app" gi] Exec by auto
    moreover have "c < length (ap_exec_trees app ! gi)"
      using gi(2) tree(1) Exec by (cases "get_or False (ap_expanded app) gi") (auto simp: block_def vec_get_def)
    ultimately show ?thesis using Exec tree
      by (simp add: history_item_def exec_item_def vec_get_def list_all_length Let_def del: not_None_eq)
  qed
qed

definition selection_ok :: "Panel \<Rightarrow> bool" where
  "selection_ok p = (case pl_body p of Message _ \<Rightarrow> True
     | Rows items sel \<Rightarrow> items \<noteq> [] \<and> (case sel of None \<Rightarrow> True | Some k \<Rightarrow> k < length items))"

lemma history_drawn:
  assumes "app_ok app" "ap_commands app \<noteq> []"
  shows "\<exists>p. draw_history_pane hms app = Some p \<and> selection_ok p"
proof -
  have "history_item hms app x \<noteq> None" if "x \<in> set (enumerate 0 (visible_rows app))" for x
    using history_item_drawn[OF assms(1) enumerate_member[OF that], of hms "fst x"] by simp
  from those_Some[of "enumerate 0 (visible_rows app)" "history_item hms app", OF this]
  obtain items where items: "those (map (history_item hms app) (enumerate 0 (visible_rows app))) = Some items"
    "length items = length (visible_rows app)" by auto
  have "visible_rows app \<noteq> []" using assms(2) by (simp add: visible_rows_empty)
  then have "items \<noteq> []" "ap_history_cursor app < length items" using items(2) app_ok_cursor[OF assms(1)] by auto
  then show ?thesis using items(1) by (simp add: draw_history_pane_def selection_ok_def)
qed

lemma indexed_events_in: "(i, e) \<in> set (indexed_events app g) \<Longrightarrow> vec_get (ap_events app) i = Some e"
  by (auto simp: indexed_events_def List.map_filter_def vec_get_def split: if_splits)

lemma category_marked: "c \<noteq> CatHidden \<Longrightarrow> category_mark c \<noteq> None"
  by (cases c) (auto simp: category_mark_def)

lemma roots_and_children_set:
  "roots_and_children es = (roots, children) \<Longrightarrow> set roots \<union> set children = set es"
proof -
  assume rc: "roots_and_children es = (roots, children)"
  define rs cs where "rs = filter is_root_event es" and "cs = filter (Not \<circ> is_root_event) es"
  have "set es = set rs \<union> set cs" by (auto simp: rs_def cs_def)
  moreover have "set roots \<union> set children = set rs \<union> set cs"
    using rc unfolding roots_and_children_def partition_filter_conv rs_def[symmetric] cs_def[symmetric]
    by (cases rs; cases cs) auto
  ultimately show ?thesis by simp
qed

lemma root_rows_events:
  assumes "row \<in> set (root_rows ex children root)"
  shows "row_event row = fst root \<or> row_event row \<in> fst ` set children"
proof (cases "row = TreeRoot (fst root) (children \<noteq> []) (fst root \<in> ex)")
  case False
  then obtain ic where "ic \<in> set (enumerate 0 children)" "row = TreeChild (fst (snd ic)) (fst ic = length children - 1)"
    using assms by (auto simp: root_rows_def split: if_splits)
  then show ?thesis using enumerate_member[of ic children] by (simp add: row_event_def)
qed (simp add: row_event_def)

lemma tree_row_shown:
  assumes "row \<in> set (process_tree_rows app)" "current_group app = Some g"
  shows "row_event row \<in> fst ` set (shown_events app g)"
proof -
  from assms obtain pid where "row \<in> set (pid_rows (ap_process_expanded app)
      (filter (\<lambda>x. te_pid (snd x) = pid) (shown_events app g)))"
    by (auto simp: process_tree_rows_def Let_def)
  then obtain roots children root where rc:
    "roots_and_children (filter (\<lambda>x. te_pid (snd x) = pid) (shown_events app g)) = (roots, children)"
    "root \<in> set roots" "row \<in> set (root_rows (ap_process_expanded app) children root)"
    by (cases "roots_and_children (filter (\<lambda>x. te_pid (snd x) = pid) (shown_events app g))")
      (simp add: pid_rows_def, blast)
  have "row_event row \<in> fst ` (set roots \<union> set children)"
    using rc(2) root_rows_events[OF rc(3)] by auto
  then show ?thesis using roots_and_children_set[OF rc(1)] by auto
qed

lemma tree_item_drawn:
  assumes "row \<in> set (process_tree_rows app)"
  shows "tree_item hms app row \<noteq> None"
proof -
  obtain g where g: "current_group app = Some g"
    using assms by (cases "current_group app") (auto simp: process_tree_rows_def)
  from tree_row_shown[OF assms g] obtain e where "(row_event row, e) \<in> set (shown_events app g)" by auto
  then have "vec_get (ap_events app) (row_event row) = Some e" "category e \<noteq> CatHidden"
    by (auto simp: shown_events_def dest: indexed_events_in)
  then show ?thesis using category_marked[of "category e"]
    by (cases row) (auto simp: tree_item_def row_event_def child_item_def)
qed

lemma clamp_selection_ok: "clamp_selection b n items = Some k \<Longrightarrow> k < length items"
  by (cases items) (auto simp: clamp_selection_def split: if_splits)

lemma rows_panel_ok: "items \<noteq> [] \<Longrightarrow> selection_ok (rows_panel app items)"
  by (simp add: selection_ok_def rows_panel_def clamp_selection_ok split: option.splits)

lemma message_panel_ok: "selection_ok (message_panel app m)"
  by (simp add: selection_ok_def message_panel_def)

lemma process_tree_drawn: "\<exists>p. draw_process_tree hms app = Some p \<and> selection_ok p"
proof (cases "process_tree_rows app = []")
  case False
  obtain items where items: "those (map (tree_item hms app) (process_tree_rows app)) = Some items"
    "length items = length (process_tree_rows app)"
    using those_Some[of "process_tree_rows app" "tree_item hms app"] tree_item_drawn by blast
  then have "items \<noteq> []" using False by auto
  then show ?thesis using False items(1) rows_panel_ok[of items app] by (simp add: draw_process_tree_def)
qed (simp add: draw_process_tree_def message_panel_ok)

lemma tab_matches_shown: "tab_matches t c \<Longrightarrow> c \<noteq> CatHidden"
  by (auto simp: tab_matches_def)

lemma filtered_events_shown: "(i, e) \<in> set (filtered_detail_events app) \<Longrightarrow> category e \<noteq> CatHidden"
  by (auto simp: filtered_detail_events_def split: option.splits dest: tab_matches_shown)

lemma detail_drawn: "\<exists>p. draw_detail_content hms app = Some p \<and> selection_ok p"
proof (cases "ap_active_tab app = ProcessTab")
  case False
  define es where "es = filtered_detail_events app"
  have all: "filter (\<lambda>(_, e). category e \<noteq> CatHidden) es = es"
    using filtered_events_shown unfolding es_def by (auto intro!: filter_True)
  have "(event_item hms app \<circ> snd) x \<noteq> None" if "x \<in> set es" for x
    using category_marked[OF filtered_events_shown, of "fst x" "snd x" app] that by (simp add: es_def event_item_def)
  from those_Some[of es "event_item hms app \<circ> snd", OF this] obtain items where items: "those (map (event_item hms app \<circ> snd) es) = Some items"
    "length items = length es" by blast
  show ?thesis
  proof (cases "es = []")
    case True
    then show ?thesis using False message_panel_ok by (simp add: draw_detail_content_def es_def[symmetric] Let_def)
  next
    case nonempty: False
    then have "items \<noteq> []" using items(2) by auto
    then show ?thesis
      using False nonempty items(1) all rows_panel_ok[of items app]
      by (simp add: draw_detail_content_def es_def[symmetric] Let_def del: map_map)
  qed
qed (simp add: draw_detail_content_def process_tree_drawn)

lemma output_ok: "selection_ok (draw_output_pane app)"
  by (auto simp: selection_ok_def draw_output_pane_def Let_def split: option.splits dest!: clamp_selection_ok)

definition frame_ok :: "Frame \<Rightarrow> bool" where
  "frame_ok f \<longleftrightarrow> selection_ok (fr_history f) \<and> selection_ok (fr_output f) \<and> selection_ok (fr_detail f)"

lemma draw_ok:
  assumes "app_ok app" "ap_commands app \<noteq> []"
  shows "\<exists>f. draw hms app = Some f \<and> frame_ok f"
proof -
  obtain h where "draw_history_pane hms app = Some h" "selection_ok h" using history_drawn[OF assms] by blast
  moreover obtain d where "draw_detail_content hms app = Some d" "selection_ok d" using detail_drawn by blast
  ultimately show ?thesis by (simp add: draw_def frame_ok_def output_ok)
qed

lemma toggle_process_commands: "ap_commands (toggle_process_expand app) = ap_commands app"
  by (auto simp: toggle_process_expand_def Let_def split: option.splits ProcessTreeRow.splits)

lemma handle_key_commands: "ap_commands (handle_key key app) = ap_commands app"
  by (auto simp: handle_key_def Let_def expand_key_def toggle_expand_fixed toggle_process_commands select_next_def
      select_prev_def jump_top_def jump_bottom_def toggle_pane_def set_tab_def next_tab_def quit_def prev_tab_key_def
      split: Pane.splits)

lemma run_ok:
  assumes "app_ok app" "ap_commands app \<noteq> []"
  shows "\<exists>fs. run_tui hms app polls = Some fs \<and> list_all frame_ok fs"
  using assms
proof (induction polls arbitrary: app)
  case Nil
  then show ?case using draw_ok[of app hms] by auto
next
  case (Cons p ps)
  obtain f where f: "draw hms app = Some f" "frame_ok f" using draw_ok[OF Cons.prems] by blast
  define app' where "app' = (case p of None \<Rightarrow> app | Some key \<Rightarrow> handle_key key app)"
  have "app_ok app'" "ap_commands app' \<noteq> []"
    using Cons.prems by (auto simp: app'_def handle_key_ok handle_key_commands split: option.splits)
  from Cons.IH[OF this] show ?case using f by (auto simp: app'_def Let_def)
qed

lemma first_seen_set: "set (first_seen xs) = set xs"
proof -
  have "set (fold (\<lambda>x acc. if x \<in> set acc then acc else acc @ [x]) xs ys) = set ys \<union> set xs" for ys :: "'a list"
    by (induction xs arbitrary: ys) auto
  then show ?thesis by (simp add: first_seen_def)
qed

lemma roots_nonempty: "roots_and_children es = (roots, children) \<Longrightarrow> es \<noteq> [] \<Longrightarrow> roots \<noteq> []"
proof -
  assume rc: "roots_and_children es = (roots, children)" "es \<noteq> []"
  define rs cs where "rs = filter is_root_event es" and "cs = filter (Not \<circ> is_root_event) es"
  have "set es = set rs \<union> set cs" by (auto simp: rs_def cs_def)
  then have "rs \<noteq> [] \<or> cs \<noteq> []" using rc(2) by auto
  then show ?thesis
    using rc(1) unfolding roots_and_children_def partition_filter_conv rs_def[symmetric] cs_def[symmetric]
    by (cases rs; cases cs) auto
qed

text \<open>The rows of the process of an event.\<close>

lemma process_of_event:
  assumes "current_group app = Some g" "x \<in> set (shown_events app g)"
  shows "\<exists>roots children. roots \<noteq> [] \<and> x \<in> set roots \<union> set children \<and>
    set roots \<union> set children \<subseteq> {y \<in> set (shown_events app g). te_pid (snd y) = te_pid (snd x)} \<and>
    (\<forall>root\<in>set roots. set (root_rows (ap_process_expanded app) children root) \<subseteq> set (process_tree_rows app))"
proof -
  define es where "es = filter (\<lambda>y. te_pid (snd y) = te_pid (snd x)) (shown_events app g)"
  obtain roots children where rc: "roots_and_children es = (roots, children)" by fastforce
  have "x \<in> set es" using assms(2) by (simp add: es_def)
  then have "es \<noteq> []" "x \<in> set roots \<union> set children" using roots_and_children_set[OF rc] by auto
  moreover have "set (root_rows (ap_process_expanded app) children root) \<subseteq> set (process_tree_rows app)"
    if "root \<in> set roots" for root
  proof -
    have "set (root_rows (ap_process_expanded app) children root) \<subseteq> set (pid_rows (ap_process_expanded app) es)"
      using that by (auto simp: pid_rows_def rc)
    moreover have "te_pid (snd x) \<in> set (first_seen (map (te_pid \<circ> snd) (shown_events app g)))"
      using assms(2) by (auto simp: first_seen_set)
    ultimately show ?thesis unfolding process_tree_rows_def es_def by (auto simp: assms(1) Let_def)
  qed
  ultimately show ?thesis
    using roots_nonempty[OF rc] roots_and_children_set[OF rc] by (intro exI[of _ roots] exI[of _ children]) (auto simp: es_def)
qed

lemma shown_event_at: "x \<in> set (shown_events app g) \<Longrightarrow> ap_events app ! fst x = snd x"
  using indexed_events_in[of "fst x" "snd x" app g] by (auto simp: shown_events_def vec_get_def split: if_splits)

lemma process_root_shown:
  assumes "current_group app = Some g" "x \<in> set (shown_events app g)"
  shows "\<exists>row\<in>set (process_tree_rows app). is_tree_root row \<and> te_pid (ap_events app ! row_event row) = te_pid (snd x)"
proof -
  from process_of_event[OF assms] obtain roots children where rc: "roots \<noteq> []"
    "set roots \<union> set children \<subseteq> {y \<in> set (shown_events app g). te_pid (snd y) = te_pid (snd x)}"
    "\<forall>root\<in>set roots. set (root_rows (ap_process_expanded app) children root) \<subseteq> set (process_tree_rows app)"
    by blast
  obtain root where root: "root \<in> set roots" using rc(1) by (cases roots) auto
  define row where "row = TreeRoot (fst root) (children \<noteq> []) (fst root \<in> ap_process_expanded app)"
  have "row \<in> set (process_tree_rows app)" using rc(3) root unfolding row_def by (auto simp: root_rows_def)
  moreover have "te_pid (ap_events app ! row_event row) = te_pid (snd x)"
    using rc(2) root shown_event_at[of root app g] by (auto simp: row_def row_event_def)
  moreover have "is_tree_root row" by (simp add: row_def is_tree_root_def)
  ultimately show ?thesis by blast
qed

lemma process_event_shown:
  assumes "current_group app = Some g" "x \<in> set (shown_events app g)"
    "fst ` set (shown_events app g) \<subseteq> ap_process_expanded app"
  shows "fst x \<in> row_event ` set (process_tree_rows app)"
proof -
  from process_of_event[OF assms(1,2)] obtain roots children where rc: "roots \<noteq> []" "x \<in> set roots \<union> set children"
    "set roots \<union> set children \<subseteq> {y \<in> set (shown_events app g). te_pid (snd y) = te_pid (snd x)}"
    "\<forall>root\<in>set roots. set (root_rows (ap_process_expanded app) children root) \<subseteq> set (process_tree_rows app)"
    by blast
  show ?thesis
  proof (cases "x \<in> set roots")
    case True
    then have "TreeRoot (fst x) (children \<noteq> []) (fst x \<in> ap_process_expanded app) \<in> set (process_tree_rows app)"
      using rc(4) by (auto simp: root_rows_def)
    then show ?thesis by (force simp: row_event_def)
  next
    case False
    then obtain i where i: "i < length children" "children ! i = x" using rc(2) by (auto simp: in_set_conv_nth)
    obtain root where root: "root \<in> set roots" using rc(1) by (cases roots) auto
    then have "fst root \<in> ap_process_expanded app" using rc(3) assms(3) by auto
    then have "TreeChild (fst x) (i = length children - 1) \<in> set (root_rows (ap_process_expanded app) children root)"
      using i by (auto simp: root_rows_def in_set_enumerate_eq image_iff intro!: bexI[of _ "(i, x)"])
    then have "TreeChild (fst x) (i = length children - 1) \<in> set (process_tree_rows app)" using rc(4) root by blast
    then show ?thesis by (force simp: row_event_def)
  qed
qed

section \<open>Loading\<close>

lemma dfs_indices:
  assumes "exec_tree_dfs ch depth n l = Some rows" and ch: "\<And>p. set (ch p) \<subseteq> set execves"
  shows "n \<in> set execves \<longrightarrow> list_all (\<lambda>r. ex_event_index r \<in> fst ` set execves) rows"
proof -
  have "ch = ch \<longrightarrow> n \<in> set execves \<longrightarrow> list_all (\<lambda>r. ex_event_index r \<in> fst ` set execves) rows"
  proof (rule exec_tree_dfs.raw_induct[OF _ assms(1), of "\<lambda>ch' d n l rows. ch' = ch \<longrightarrow> n \<in> set execves \<longrightarrow>
      list_all (\<lambda>r. ex_event_index r \<in> fst ` set execves) rows"], intro impI)
    fix rec ch' d n l rows
    assume IH: "\<And>ch' d n l r. rec ch' d n l = Some r \<Longrightarrow> ch' = ch \<longrightarrow> n \<in> set execves \<longrightarrow>
        list_all (\<lambda>r. ex_event_index r \<in> fst ` set execves) r"
      and eq: "ch' = ch" and n: "n \<in> set execves"
      and body: "Option.bind (opt_each (\<lambda>c. rec ch' (Suc d) (snd c) (Suc (fst c) = length (ch' (node_id n))))
          (enumerate 0 (ch' (node_id n))))
        (\<lambda>rest. Some (\<lparr>ex_label = build_exec_label (fst (snd n)), ex_pid = fst (node_id n),
          ex_start_time_ns = snd (node_id n), ex_depth = d, ex_event_index = fst n,
          ex_is_last = l\<rparr> # rest)) = Some rows"
    define f where "f = (\<lambda>c. rec ch (Suc d) (snd c) (Suc (fst c) = length (ch (node_id n))))"
    obtain rest where rest: "opt_each f (enumerate 0 (ch (node_id n))) = Some rest"
      and rows: "\<forall>r\<in>set rows. ex_event_index r = fst n \<or> r \<in> set rest"
      using body unfolding eq f_def by (auto simp: bind_eq_Some_conv)
    have "list_all (\<lambda>r. ex_event_index r \<in> fst ` set execves) rest"
    proof (rule opt_each_all[OF rest])
      fix c rs
      assume c: "c \<in> set (enumerate 0 (ch (node_id n)))" "f c = Some rs"
      then have "snd c \<in> set execves" using enumerate_member[OF c(1)] ch by blast
      then show "list_all (\<lambda>r. ex_event_index r \<in> fst ` set execves) rs" using IH c(2) unfolding f_def by blast
    qed
    then show "list_all (\<lambda>r. ex_event_index r \<in> fst ` set execves) rows"
      using rows n by (auto simp: list_all_iff)
  qed
  then show ?thesis by simp
qed

lemma exec_tree_indices:
  assumes "build_exec_tree events starts g = Some rows"
  shows "list_all (\<lambda>r. ex_event_index r < length events) rows"
proof -
  define execves where "execves = group_execves events starts g"
  define parent where "parent = parent_id events starts (group_forks events g)"
  have bound: "fst ` set execves \<subseteq> {..<length events}" by (auto simp: execves_def group_execves_def)
  let ?roots = "exec_roots (set (map node_id execves)) parent execves"
  define f where "f = (\<lambda>r. exec_tree_dfs (offspring parent execves) 1 (snd r) (Suc (fst r) = length ?roots))"
  have "opt_each f (enumerate 0 ?roots) = Some rows"
    using assms by (simp add: build_exec_tree_def exec_forest_def f_def execves_def parent_def)
  then have "list_all (\<lambda>r. ex_event_index r \<in> fst ` set execves) rows"
  proof (rule opt_each_all)
    fix c rs
    assume c: "c \<in> set (enumerate 0 ?roots)" "f c = Some rs"
    have "snd c \<in> set execves" using enumerate_member[OF c(1)] by (auto simp: exec_roots_def)
    then show "list_all (\<lambda>r. ex_event_index r \<in> fst ` set execves) rs"
      using dfs_indices[of "offspring parent execves" _ _ _ rs execves] c(2)
      unfolding f_def by (auto simp: exec_children_def)
  qed
  then show ?thesis using bound by (auto simp: list_all_iff)
qed

lemma exec_trees_indices:
  assumes "build_exec_trees groups events = Some trees"
  shows "length trees = length groups \<and> list_all (list_all (\<lambda>r. ex_event_index r < length events)) trees"
proof -
  have "length ys = length xs \<and> list_all (list_all (\<lambda>r. ex_event_index r < length events)) ys"
    if "those (map (build_exec_tree events starts) xs) = Some ys" for xs ys starts
    using that
  proof (induction xs arbitrary: ys)
    case (Cons x xs)
    then show ?case using exec_tree_indices by (auto split: option.splits)
  qed simp
  then show ?thesis using assms by (simp add: build_exec_trees_def)
qed

lemma correlate_nonempty: "correlate commands events \<noteq> []"
  by (cases commands) (auto simp: correlate_def Let_def)

lemma app_new_ok:
  assumes "build_exec_trees (ai_commands i) (ai_events i) = Some (ai_exec_trees i)" "ai_commands i \<noteq> []"
  shows "app_ok (app_new i)"
proof -
  have "visible_rows (app_new i) \<noteq> []" unfolding visible_rows_empty using assms(2) by (simp add: app_new_def)
  then show ?thesis using exec_trees_indices[OF assms(1)] by (simp add: app_ok_def) (simp add: app_new_def)
qed

lemma build_app_new:
  assumes "build_app_from_path parse dec path content mtime tz boot = Some (Ok app)"
  shows "app_ok app \<and> ap_commands app \<noteq> []"
proof -
  obtain raw where raw: "content = Ok raw"
    using assms by (cases content) (auto simp: build_app_from_path_def)
  define events where "events = fst (load_events parse raw)"
  define commands where "commands = filter (\<lambda>c. trim (ce_command c) \<noteq> [])
    (reconstruct_commands dec (List.map_filter tty_write_of events))"
  obtain trees where trees: "build_exec_trees (correlate commands events) events = Some trees"
    using assms unfolding build_app_from_path_def raw Let_def commands_def events_def
    by (cases "build_exec_trees (correlate (filter (\<lambda>c. trim (ce_command c) \<noteq> [])
      (reconstruct_commands dec (List.map_filter tty_write_of (fst (load_events parse raw)))))
      (fst (load_events parse raw))) (fst (load_events parse raw))")
      (auto split: if_splits)
  obtain t where app: "app = app_new \<lparr>ai_commands = correlate commands events, ai_events = events,
        ai_tty_output = build_tty_output dec (correlate commands events) events, ai_exec_trees = trees,
        ai_file_path = (case path_file_name path of Some n \<Rightarrow> n | None \<Rightarrow> path),
        ai_boot_time_utc = t, ai_tz_offset = tz, ai_fd_table = build_fd_table events\<rparr>"
    using assms trees unfolding build_app_from_path_def raw Let_def
    by (cases "case boot of Some t \<Rightarrow> Ok t | None \<Rightarrow> and_then mtime (\<lambda>t. Ok (boot_anchor t events))")
      (auto simp: commands_def[symmetric] events_def[symmetric] split: if_splits)
  have "app_ok app" unfolding app by (rule app_new_ok) (simp_all add: trees correlate_nonempty)
  then show ?thesis by (simp add: app app_new_def correlate_nonempty)
qed

section \<open>What the viewer guarantees\<close>


text \<open>
  Expanding or collapsing a command never changes which command is selected, also when
  the cursor was on one of its processes and the collapse moves it.
\<close>

theorem toggle_keeps_selection:
  assumes "app_ok app"
  shows "selected_group (toggle_expand app) = selected_group app"
proof (cases "vec_get (visible_rows app) (ap_history_cursor app)")
  case None
  then show ?thesis by (simp add: toggle_expand_def)
next
  case (Some r)
  have "length (ap_expanded app) = length (ap_commands app)" using assms by (simp add: app_ok_def)
  from toggle_expand_row[OF this Some] show ?thesis
    by (auto simp: selected_group_def Some row_group_def split: HistoryRow.splits)
qed


section \<open>Samples\<close>

definition sample_session :: "KeyEvent option list" where
  "sample_session = [None, Some \<lparr>key_code = KeyEnter, key_control = False\<rparr>,
     Some \<lparr>key_code = KeyChar (CHR ''G''), key_control = False\<rparr>]"

lemma trim_letter: "trim ''x'' = ''x''"
  by (simp add: trim_def trim_start_def trim_end_def WHITESPACE_chars starts_with_def)

lemma sample_load:
  "load_events (\<lambda>_. Some (behavior_event_json sample_event)) ''x'' = ([tui_event_of sample_event], 0)"
proof -
  have "str_lines ''x'' = [''x'']" by (simp add: str_lines.simps NEWLINE_def)
  moreover have "readable sample_event" by (simp add: readable_def sample_event_def)
  ultimately show ?thesis by (simp add: load_events_def load_line_def trim_letter tui_event_round)
qed

lemma no_execve_tree:
  assumes "\<not> is_exec e"
  shows "build_exec_trees groups [e] = Some (map (\<lambda>_. []) groups)"
proof -
  have "group_execves [e] starts g = []" for starts g
    using assms by (auto simp: group_execves_def filter_empty_conv)
  then have "build_exec_tree [e] starts = (\<lambda>_. Some [])" for starts
    by (intro ext) (simp add: build_exec_tree_def exec_forest_def exec_roots_def)
  moreover have "those (map (\<lambda>_. Some []) gs) = Some (map (\<lambda>_. []) gs)" for gs :: "CommandGroup list"
    by (induction gs) simp_all
  ultimately show ?thesis by (simp add: build_exec_trees_def)
qed


definition sample_app :: App where
  "sample_app = (app_new \<lparr>ai_commands = [\<lparr>cg_command = ''make'', cg_timestamp = 1, cg_event_indices = [0, 1]\<rparr>],
     ai_events = [exec_of 10 1 2, (exec_of 10 1 3)\<lparr>te_event := \<lparr>et_type = ''SYSCALL'', et_name = ''openat'',
       et_layer = ''behavior''\<rparr>\<rparr>],
     ai_tty_output = [[]],
     ai_exec_trees = [[\<lparr>ex_label = ''sh'', ex_pid = 10, ex_start_time_ns = 0, ex_depth = 1, ex_event_index = 0,
       ex_is_last = True\<rparr>]],
     ai_file_path = ''t.ndjson'', ai_boot_time_utc = 0, ai_tz_offset = 0, ai_fd_table = Map.empty\<rparr>)
     \<lparr>ap_process_expanded := {0, 1}\<rparr>"

lemma sample_rows: "visible_rows (sample_app\<lparr>ap_expanded := [b], ap_history_cursor := c\<rparr>) =
    Command 0 # (if b then [Exec 0 0] else [])"
  by (simp add: visible_rows_def sample_app_def app_new_def get_or_def vec_get_def)

theorem toggle_keeps_selection_witness:
  "selected_group (toggle_expand (sample_app\<lparr>ap_expanded := [True], ap_history_cursor := 1\<rparr>)) = 0 \<and>
   visible_rows (toggle_expand (sample_app\<lparr>ap_expanded := [True], ap_history_cursor := 1\<rparr>)) = [Command 0]"
proof -
  let ?app = "sample_app\<lparr>ap_expanded := [True], ap_history_cursor := 1\<rparr>"
  have "app_ok ?app"
    unfolding app_ok_def sample_rows by (simp add: sample_app_def app_new_def)
  moreover have "selected_group ?app = 0"
    unfolding selected_group_def sample_rows by (simp add: vec_get_def row_group_def)
  moreover have "visible_rows (toggle_expand ?app) = [Command 0]"
    by (simp add: toggle_expand_def sample_app_def app_new_def visible_rows_def get_or_def vec_get_def)
  ultimately show ?thesis using toggle_keeps_selection[of ?app] by simp
qed

lemma sample_facts:
  "current_group sample_app = Some \<lparr>cg_command = ''make'', cg_timestamp = 1, cg_event_indices = [0, 1]\<rparr>"
  "category (exec_of 10 1 2) = CatProcess"
  "category ((exec_of 10 1 3)\<lparr>te_event := \<lparr>et_type = ''SYSCALL'', et_name = ''openat'', et_layer = ''behavior''\<rparr>\<rparr>) = CatFiles"
  by (simp_all add: current_group_def selected_group_def visible_rows_def sample_app_def app_new_def get_or_def
      vec_get_def row_group_def category_def exec_of_def PROCESS_NAMES_def FILE_NAMES_def NETWORK_NAMES_def SECURITY_NAMES_def)

lemma sample_group:
  "current_group (sample_app\<lparr>ap_active_pane := p, ap_detail_scroll := n\<rparr>) =
     Some \<lparr>cg_command = ''make'', cg_timestamp = 1, cg_event_indices = [0, 1]\<rparr>"
  using sample_facts(1) by (simp add: current_group_def selected_group_def visible_rows_of)

lemma sample_shown:
  "shown_events (sample_app\<lparr>ap_active_pane := p, ap_detail_scroll := n\<rparr>)
     \<lparr>cg_command = ''make'', cg_timestamp = 1, cg_event_indices = [0, 1]\<rparr> =
   [(0, exec_of 10 1 2), (1, (exec_of 10 1 3)\<lparr>te_event := \<lparr>et_type = ''SYSCALL'', et_name = ''openat'', et_layer = ''behavior''\<rparr>\<rparr>)]"
  using sample_facts(2,3)
  by (simp add: shown_events_def indexed_events_def List.map_filter_def vec_get_def sample_app_def app_new_def)

lemma sample_tree:
  "process_tree_rows (sample_app\<lparr>ap_active_pane := p, ap_detail_scroll := n\<rparr>) = [TreeRoot 0 True True, TreeChild 1 True]"
proof -
  show ?thesis
    unfolding process_tree_rows_def sample_group option.case sample_shown Let_def
    by (simp add: first_seen_def pid_rows_def roots_and_children_def is_root_event_def ROOT_NAMES_def root_rows_def
        exec_of_def sample_app_def app_new_def)
qed



end
