(* ===== verification/TuiTrace.thy ===== *)
theory TuiTrace
  imports TuiAppFacts Sequencer
begin

text \<open>
  The daemon and the viewer together: what the viewer loads from the file that the daemon's
  sequencer wrote. \<open>serde_json\<close> prints on one side and parses on the other; the properties
  name what they need of it.
\<close>

text \<open>The text of an event is that of an object: it begins and ends with a brace.\<close>

definition braced :: "string \<Rightarrow> bool" where
  "braced s \<longleftrightarrow> s \<noteq> [] \<and> List.hd s = CHR ''{'' \<and> last s = CHR ''}''"

definition parses_back :: "(string \<Rightarrow> json option) \<Rightarrow> Env \<Rightarrow> BehaviorEvent \<Rightarrow> bool" where
  "parses_back parse env e \<longleftrightarrow>
     parse (env_text env (behavior_event_json e)) = Some (behavior_event_json e)"

lemma no_leading_space: "List.hd s = CHR ''{'' \<Longrightarrow> s \<noteq> [] \<Longrightarrow> find (starts_with s) WHITESPACE = None"
  by (cases s) (simp_all add: WHITESPACE_chars starts_with_def)

lemma no_trailing_space: "last s = CHR ''}'' \<Longrightarrow> s \<noteq> [] \<Longrightarrow> find (starts_with (rev s)) (map rev WHITESPACE) = None"
  by (cases s rule: rev_cases) (simp_all add: WHITESPACE_chars starts_with_def)

lemma trim_braced:
  assumes "braced s"
  shows "trim s = s"
proof -
  have "trim_front WHITESPACE (length s) s = s"
    using no_leading_space assms by (cases "length s") (auto simp: braced_def)
  moreover have "trim_front (map rev WHITESPACE) (length s) (rev s) = rev s"
    using no_trailing_space assms by (cases "length s") (auto simp: braced_def)
  ultimately show ?thesis by (simp add: trim_def trim_start_def trim_end_def)
qed

lemma strip_return_braced: "braced s \<Longrightarrow> strip_return s = s"
  by (auto simp: braced_def strip_return_def RETURN_def)

lemma str_lines_text:
  assumes "text_one_line env" "list_all (\<lambda>e. braced (env_text env (behavior_event_json e))) es"
  shows "str_lines (lines_text env es) = map (\<lambda>e. env_text env (behavior_event_json e)) es"
  using assms(2)
proof (induction es)
  case Nil
  then show ?case by (simp add: lines_text_def str_lines.simps[of "[]"])
next
  case (Cons e es)
  have "break_at NEWLINE (lines_text env (e # es)) =
      (env_text env (behavior_event_json e), Some (lines_text env es))"
    using assms(1) by (simp add: lines_text_def event_line_def text_one_line_def break_at_line)
  moreover have "lines_text env (e # es) \<noteq> []" using Cons.prems by (simp add: lines_text_def event_line_def)
  ultimately show ?case using Cons by (simp add: str_lines.simps[of "lines_text env (e # es)"] strip_return_braced)
qed

lemma load_lines:
  assumes "list_all (\<lambda>e. braced (env_text env (behavior_event_json e)) \<and> parses_back parse env e \<and> readable e) es"
  shows "fold (load_line parse) (map (\<lambda>e. env_text env (behavior_event_json e)) es) (acc, k) =
    (acc @ map tui_event_of es, k)"
  using assms
proof (induction es arbitrary: acc)
  case (Cons e es)
  from Cons.prems have b: "braced (env_text env (behavior_event_json e))" and p: "parses_back parse env e"
    and r: "readable e" by simp_all
  have "env_text env (behavior_event_json e) \<noteq> []" using b by (simp add: braced_def)
  then have "load_line parse (env_text env (behavior_event_json e)) (acc, k) = (acc @ [tui_event_of e], k)"
    using p by (simp add: load_line_def trim_braced[OF b] parses_back_def tui_event_round[OF r])
  then show ?case using Cons by simp
qed simp

text \<open>
  C15: The viewer loads the daemon's trace: from a file that the sequencer wrote without an
  error it gets every event of the specification, in order and with its contents, and
  counts no line as malformed. Of \<open>serde_json\<close> it is used that the text of an event has no
  newline, has the braces of an object and parses back to the same value.
\<close>

theorem viewer_loads_daemon_trace:
  assumes "text_one_line env" "accept_all env is new_sequencer = (Ok u, sq)"
    and "list_all (\<lambda>e. braced (env_text env (behavior_event_json e)) \<and> parses_back parse env e \<and> readable e)
      (fst (spec_all env 0 (new_synthesizer, 0) is))"
  shows "load_events parse (sq_written sq) = (map tui_event_of (fst (spec_all env 0 (new_synthesizer, 0) is)), 0)"
proof -
  have "sq_written sq = lines_text env (fst (spec_all env 0 (new_synthesizer, 0) is))"
    using accept_all_refines[OF assms(2)] by (simp add: wrote_ok new_sequencer_def abs_state_def)
  moreover have "list_all (\<lambda>e. braced (env_text env (behavior_event_json e))) (fst (spec_all env 0 (new_synthesizer, 0) is))"
    using assms(3) by (simp add: list_all_iff)
  ultimately show ?thesis
    using str_lines_text[OF assms(1)] load_lines[OF assms(3), of "[]" 0] by (simp add: load_events_def)
qed

definition sample_report :: BehaviorEvent where
  "sample_report = List.hd (fst (spec_all quiet_env 0 (new_synthesizer, 0) [Raw []]))"

theorem viewer_loads_daemon_trace_witness:
  "\<exists>sq. accept_all quiet_env [Raw []] new_sequencer = (Ok (), sq) \<and>
     load_events (\<lambda>_. Some (behavior_event_json sample_report)) (sq_written sq) = ([tui_event_of sample_report], 0)"
proof -
  have one: "text_one_line quiet_env"
    by (simp add: text_one_line_def quiet_env_def NEWLINE_def)
  have "\<exists>sq. accept_all quiet_env [Raw []] new_sequencer = (Ok (), sq)"
    by (simp add: accept_def accept_raw_def deserialize_with_authority_def Let_def
        sq_write_def write_event_def quiet_env_def)
  then obtain sq where r: "accept_all quiet_env [Raw []] new_sequencer = (Ok (), sq)" by blast
  have spec: "fst (spec_all quiet_env 0 (new_synthesizer, 0) [Raw []]) = [sample_report]"
    by (simp add: sample_report_def spec_step_def deserialize_with_authority_def)
  have "readable sample_report"
    by (simp add: sample_report_def spec_step_def deserialize_with_authority_def readable_def
        deserialize_rejection_diagnostic_def)
  then have "list_all (\<lambda>e. braced (env_text quiet_env (behavior_event_json e)) \<and>
      parses_back (\<lambda>_. Some (behavior_event_json sample_report)) quiet_env e \<and> readable e)
    (fst (spec_all quiet_env 0 (new_synthesizer, 0) [Raw []]))"
    unfolding spec by (simp add: braced_def parses_back_def quiet_env_def)
  from viewer_loads_daemon_trace[OF one r this] show ?thesis
    using r unfolding spec by (intro exI[of _ sq]) simp
qed

end
