(* ===== verification/Spec2Isabelle.thy ===== *)
theory Spec2Isabelle
  imports Daemon Deployment KernelOffsets UsdtAttach TuiTrace
begin

text \<open>
  \<^bold>\<open>Bloodhound.\<close> Bloodhound watches what one login user does on a Linux host. BPF programs
  (\<open>bloodhound-ebpf\<close>) run at tracepoints, kernel probes, security hooks and static user
  probes; each hands fixed-layout records (\<open>bloodhound-common\<close>) to a ring buffer. The daemon
  (\<open>bloodhound\<close>) finds the offsets of the kernel's structures, loads and attaches the programs,
  reads the ring, decodes every record, completes the process lifecycle and writes one JSON
  line per event. The viewer (\<open>bloodhound-tui\<close>) loads such a file and shows it per command.
  This development models the four crates and proves what they promise each other. All
  paths below are under \<open>src/\<close>.

  \<^bold>\<open>Conventions.\<close> Structs are records, enums are datatypes, machine integers are words; bytes
  are \<open>8 word list\<close>, a Rust string is the list of its UTF-8 bytes as characters. A fallible
  function returns a sum (\<open>Err\<close> and \<open>Ok\<close> abbreviate its injections, with the message of the
  source), a panic or a loop that does not return is \<open>None\<close> or an error of its own. State is
  passed explicitly. Code outside the repository is an argument: the kernel and \<open>aya\<close>
  (\<open>Hook\<close>, \<open>Kernel\<close>, \<open>UsdtKernel\<close>: which helper fails, what memory holds), the writer, the
  clock and \<open>serde_json\<close> (\<open>Env\<close>), base64, chrono's formatting. Hypotheses about it are named
  where they are used.

  \<^bold>\<open>Shared vocabulary.\<close>
  \<^item> \<open>Prelude\<close>: integers in little-endian order, the layout of \<open>repr(C)\<close> structs, saturating
    and wrapping arithmetic, JSON values; the locale \<open>wire_struct\<close> is the contract of a struct
    that is written and read as raw bytes, interpreted for every struct of \<open>Wire\<close>,
    \<open>RichEntries\<close> and \<open>BpfHooks\<close>.
  \<^item> \<open>Text\<close>: UTF-8, lossy decoding, NUL-terminated text, number formatting.
  \<^item> \<open>Wire\<close>, \<open>EventKinds\<close>, \<open>Common\<close>: \<open>bloodhound-common/src/lib.rs\<close>, \<open>exit_claim.rs\<close>,
    \<open>syscall_collection.rs\<close>.

  \<^bold>\<open>The BPF programs.\<close> A program is a function from the maps to the maps, given the globals
  and the \<open>Hook\<close> it runs at.
  \<^item> \<open>BpfCore\<close>: \<open>main.rs\<close> (globals), \<open>maps.rs\<close>, \<open>filter.rs\<close>, \<open>ns.rs\<close>, \<open>helpers.rs\<close>.
  \<^item> \<open>BpfRaw\<close>: \<open>layer3_raw.rs\<close>. \<open>BpfTty\<close>: \<open>layer1_tty.rs\<close>. \<open>BpfExec\<close>: \<open>layer2_exec.rs\<close> and
    \<open>exec_view.rs\<close>. \<open>RichEntries\<close>, \<open>BpfRich\<close>: \<open>layer3_rich.rs\<close> and \<open>fd_ident.rs\<close>.
    \<open>BpfLifecycle\<close>: \<open>lifecycle.rs\<close> and \<open>signal.rs\<close>. \<open>BpfHooks\<close>: \<open>lsm_hooks.rs\<close> and \<open>usdt.rs\<close>.
  \<^item> \<open>BpfFrame\<close>, \<open>BpfFrameRich\<close>: what every program keeps. \<open>BpfRichFacts\<close>, \<open>BpfHooksFacts\<close>: what
    a pair of enter and exit programs records and how the daemon decodes it; the locale
    \<open>rich_entry\<close> is the contract of the entry data kept in between.
  \<^item> \<open>BpfPrograms\<close>: the table of all programs and the relation \<open>history\<close> of their runs in any
    order and with any failing helpers. After every history the ring holds only
    well-formed records, and at most one exit record per process instance.

  \<^bold>\<open>The daemon.\<close>
  \<^item> \<open>Btf\<close>, \<open>BtfFacts\<close>, \<open>KernelOffsets\<close>: \<open>btf_offsets.rs\<close> and the globals that \<open>loader.rs\<close> sets. The
    reader refines a lookup in the list of kernel types on the image of that list; it ends
    on every input; the globals are exact.
  \<^item> \<open>Loader\<close>, \<open>Deployment\<close>: \<open>loader.rs\<close>, the order of attachment, rollback, the readiness report
    and the exclusion of syscalls from the raw stream; every attached program is one of
    the object's.
  \<^item> \<open>Usdt\<close>, \<open>Elf\<close>, \<open>ElfFacts\<close>, \<open>UsdtAttach\<close>: \<open>usdt.rs\<close>, the registry and selection file, payload
    decoders, the ELF reader, target verification and attachment with its rollback.
  \<^item> \<open>Events\<close>, \<open>Deserializer\<close>, \<open>DeserializerFacts\<close>: \<open>deserializer.rs\<close>. \<open>Lifecycle\<close>: \<open>lifecycle.rs\<close>.
    \<open>Sequencer\<close>: \<open>sequencer.rs\<close> and \<open>serializer.rs\<close>, refined to the specification \<open>spec_all\<close> for
    every input and every behaviour of the writer.
  \<^item> \<open>Heartbeat\<close>: \<open>heartbeat.rs\<close>, \<open>drop_counter.rs\<close>, \<open>capture_health.rs\<close>, instances of the locale
    \<open>delta_reporter\<close>. \<open>Daemon\<close>: \<open>main.rs\<close> (main loop, drain, final accounting), \<open>consumer.rs\<close>,
    \<open>shutdown.rs\<close>, \<open>ready.rs\<close>, \<open>clock.rs\<close>, \<open>cli.rs\<close>.

  \<^bold>\<open>The viewer.\<close>
  \<^item> \<open>TuiModel\<close>: \<open>event_model.rs\<close>. \<open>TuiCommands\<close>: \<open>command_reconstructor.rs\<close> and \<open>correlator.rs\<close>;
    the commands depend only on the bytes written, typed commands are recovered, and
    every user event belongs to exactly one command.
  \<^item> \<open>TuiTrees\<close>, \<open>TuiTreesFacts\<close>: descriptor table, process trees and terminal output of
    \<open>main.rs\<close>; when a tree is built and what it lists, and a trace on which it is not.
  \<^item> \<open>TuiApp\<close>, \<open>TuiAppFacts\<close>: \<open>app.rs\<close>, \<open>keybinds.rs\<close>, \<open>ui.rs\<close>, loading and the main loop of
    \<open>main.rs\<close>; no key sequence makes it panic or leaves a selection without a row.
  \<^item> \<open>TuiTrace\<close>: the viewer loads exactly what the sequencer wrote.

  \<^bold>\<open>Loops.\<close> Loops over data are structural or have a termination proof. Two recursions may
  run away and are partial functions: the walk over BTF types (\<open>btf_walk\<close>), proved to
  return on every buffer, and the recursion over process trees (\<open>exec_tree_dfs\<close>), proved to
  return when process identities are distinct and not to return on a given trace. Event
  loops run over the list of what wakes them, of any length. No fuel is used, except the
  length of the string as the bound of \<open>trim\<close>, which each step shortens.

  \<^bold>\<open>Not modelled.\<close> System calls and thread set-up around the loops of \<open>main.rs\<close> (spawning,
  signals, timers), log messages, clap's argument parsing, floating-point intervals, the
  loading of the object by \<open>aya\<close>, the screen layout and terminal set-up of the viewer, payload
  structs that no code reads or writes, the build script and test code. The verifier's
  instruction limits and preemption inside a program are the kernel's. Integer overflow of
  \<open>usize\<close> indices that a 64-bit address space excludes is not represented.
\<close>

end
